(* ===== verification/Broker_Prelude.thy ===== *)
theory Broker_Prelude
  imports Main "HOL-Library.Sublist" "HOL-Library.Char_ord"
    "HOL-Library.List_Lexorder"
begin

text \<open>
  Shared vocabulary of the development: Python errors as sums, the string operations the
  program uses, and unique indexes on lists of rows.

  A Python \<open>str\<close> is a list of code points below 256, one \<open>char\<close> each.
\<close>


section \<open>Errors as values\<close>

text \<open>A statement that raises stops the function: \<open>bindE\<close> runs the rest otherwise.\<close>

definition bindE :: "'e + 'a \<Rightarrow> ('a \<Rightarrow> 'e + 'b) \<Rightarrow> 'e + 'b" where
  "bindE r f = (case r of Inl e \<Rightarrow> Inl e | Inr x \<Rightarrow> f x)"

definition raise_if :: "bool \<Rightarrow> 'e \<Rightarrow> 'e + unit" where
  "raise_if c e = (if c then Inl e else Inr ())"

lemma case_option_False [simp]: "case_option False P x \<longleftrightarrow> (\<exists>t. x = Some t \<and> P t)"
  by (cases x) simp_all

lemma bindE_simps [simp]:
  "bindE (Inl e) f = Inl e"
  "bindE (Inr x) f = f x"
  by (simp_all add: bindE_def)

lemma bindE_eq_Inr: "bindE r f = Inr y \<longleftrightarrow> (\<exists>x. r = Inr x \<and> f x = Inr y)"
  by (cases r) auto

lemma bindE_eq_Inl: "bindE r f = Inl e \<longleftrightarrow> r = Inl e \<or> (\<exists>x. r = Inr x \<and> f x = Inl e)"
  by (cases r) auto

lemma raise_if_eq [simp]:
  "raise_if c e = Inr u \<longleftrightarrow> \<not> c"
  "raise_if c e = Inl e' \<longleftrightarrow> c \<and> e' = e"
  by (auto simp: raise_if_def)

lemma bindE_raise_if [simp]:
  "bindE (raise_if c e) f = (if c then Inl e else f ())"
  by (simp add: raise_if_def)


section \<open>Strings\<close>

definition code :: "char \<Rightarrow> nat" where
  "code c = of_char c"

definition lower_char :: "char \<Rightarrow> char" where
  "lower_char c = (if 65 \<le> code c \<and> code c \<le> 90 then char_of (code c + 32) else c)"

text \<open>\<open>str.lower\<close>; for the ASCII names the program compares, \<open>str.casefold\<close> is the same.\<close>

definition lower :: "string \<Rightarrow> string" where
  "lower s = map lower_char s"

abbreviation casefold :: "string \<Rightarrow> string" where
  "casefold \<equiv> lower"

definition is_digit :: "char \<Rightarrow> bool" where
  "is_digit c \<longleftrightarrow> 48 \<le> code c \<and> code c \<le> 57"

definition is_alpha :: "char \<Rightarrow> bool" where
  "is_alpha c \<longleftrightarrow> 65 \<le> code c \<and> code c \<le> 90 \<or> 97 \<le> code c \<and> code c \<le> 122"

definition is_alnum :: "char \<Rightarrow> bool" where
  "is_alnum c \<longleftrightarrow> is_alpha c \<or> is_digit c"

text \<open>White space as \<open>str.strip\<close> and the pattern \<open>\s\<close> read it, below code point 256.\<close>

definition is_space :: "char \<Rightarrow> bool" where
  "is_space c \<longleftrightarrow> code c \<in> {9, 10, 11, 12, 13, 28, 29, 30, 31, 32, 133, 160}"

definition strip :: "string \<Rightarrow> string" where
  "strip s = rev (dropWhile is_space (rev (dropWhile is_space s)))"

text \<open>The test \<open>needle in haystack\<close>.\<close>

fun contains :: "string \<Rightarrow> string \<Rightarrow> bool" where
  "contains n [] \<longleftrightarrow> n = []"
| "contains n (c # cs) \<longleftrightarrow> prefix n (c # cs) \<or> contains n cs"

lemma contains_iff_sublist: "contains n h \<longleftrightarrow> sublist n h"
  by (induction h) (auto simp: sublist_Cons_right)

text \<open>\<open>str\<close> of a non-negative integer, and the value of a decimal numeral.\<close>

definition digit_char :: "nat \<Rightarrow> char" where
  "digit_char d = char_of (48 + d)"

fun show_nat :: "nat \<Rightarrow> string" where
  "show_nat n = (if n < 10 then [digit_char n] else show_nat (n div 10) @ [digit_char (n mod 10)])"

declare show_nat.simps [simp del]

definition decimal_value :: "string \<Rightarrow> nat" where
  "decimal_value s = foldl (\<lambda>n c. 10 * n + (code c - 48)) 0 s"

lemma code_digit_char: "d < 10 \<Longrightarrow> code (digit_char d) = 48 + d"
  by (simp add: code_def digit_char_def of_char_of)

lemma is_digit_digit_char: "d < 10 \<Longrightarrow> is_digit (digit_char d)"
  by (simp add: is_digit_def code_digit_char)

lemma show_nat_digits: "\<forall>c \<in> set (show_nat n). is_digit c"
proof (induction n rule: show_nat.induct)
  case (1 n)
  then show ?case
    by (subst show_nat.simps) (auto simp: is_digit_digit_char)
qed

lemma show_nat_not_Nil [simp]: "show_nat n \<noteq> []"
  by (subst show_nat.simps) simp

lemma decimal_value_snoc: "decimal_value (s @ [c]) = 10 * decimal_value s + (code c - 48)"
  by (simp add: decimal_value_def)

lemma decimal_value_show_nat: "decimal_value (show_nat n) = n"
proof (induction n rule: show_nat.induct)
  case (1 n)
  show ?case
  proof (cases "n < 10")
    case True
    then show ?thesis
      by (subst show_nat.simps) (simp add: decimal_value_def code_digit_char)
  next
    case False
    with 1 show ?thesis
      by (subst show_nat.simps) (simp add: decimal_value_snoc code_digit_char)
  qed
qed


section \<open>Rows of a table\<close>

text \<open>A partial unique index: the rows that satisfy \<open>P\<close> have distinct keys \<open>f\<close>.\<close>

definition unique_on :: "('a \<Rightarrow> 'b) \<Rightarrow> ('a \<Rightarrow> bool) \<Rightarrow> 'a list \<Rightarrow> bool" where
  "unique_on f P xs \<longleftrightarrow> distinct (map f (filter P xs))"

lemma unique_on_Nil [simp]: "unique_on f P []"
  by (simp add: unique_on_def)

lemma unique_on_Cons:
  "unique_on f P (x # xs) \<longleftrightarrow>
     (P x \<longrightarrow> (\<forall>y \<in> set xs. P y \<longrightarrow> f y \<noteq> f x)) \<and> unique_on f P xs"
  by (auto simp: unique_on_def image_iff)

lemma unique_on_snoc:
  "unique_on f P (xs @ [x]) \<longleftrightarrow>
     unique_on f P xs \<and> (P x \<longrightarrow> (\<forall>y \<in> set xs. P y \<longrightarrow> f y \<noteq> f x))"
  by (auto simp: unique_on_def image_iff)

lemma unique_on_eq:
  "unique_on f P xs \<Longrightarrow> x \<in> set xs \<Longrightarrow> y \<in> set xs \<Longrightarrow> P x \<Longrightarrow> P y \<Longrightarrow> f x = f y \<Longrightarrow> x = y"
  by (induction xs) (auto simp: unique_on_Cons)

text \<open>
  Updating rows keeps a partial unique index when no row changes its key and no row newly
  enters the indexed part.
\<close>

lemma unique_on_map:
  assumes "unique_on f P xs"
    and "\<And>x. x \<in> set xs \<Longrightarrow> P (g x) \<Longrightarrow> P x \<and> f (g x) = f x"
  shows "unique_on f P (map g xs)"
  using assms by (induction xs) (auto simp: unique_on_Cons)

end
