(* ===== verification/Policy.thy ===== *)
theory Policy
  imports Broker_Prelude
begin

text \<open>
  The execution policy of \<open>src/steam_agent/execution/policy.py\<close>: which operation classes
  the owner has granted.  The file's bytes come in as \<open>string option\<close> (\<open>None\<close>: the read
  failed), the TOML reader (decoding included) and the SHA-256 digest are parameters.
  Every check of \<open>load_policy\<close> is a branch, in the order of the code; its message is the
  constructor of \<open>policy_error\<close>.
\<close>


section \<open>Data\<close>

text \<open>A TOML value as \<open>tomllib\<close> returns it; floats and dates are \<open>TOther\<close>.\<close>

datatype toml =
    TString string
  | TInt int
  | TBool bool
  | TArray "toml list"
  | TTable "(string \<times> toml) list"
  | TOther string

type_synonym toml_table = "(string \<times> toml) list"

datatype policy_error =
    PolicyUnavailable
  | PolicyNotToml
  | UnsupportedPolicyKey string
  | GrantsNotTable
  | UnsupportedGrantKey string
  | UnsupportedGrantValue toml string
  | LimitsNotTable
  | UnsupportedLimitKey string
  | MinFreeInvalid
  | AllowNeedsFloor
  | LaunchNotTable
  | UnsupportedLaunchKey string
  | LaunchListInvalid
  | LaunchEntryInvalid
  | LaunchNeedsAllowlist
  | StopNotTable
  | UnsupportedStopKey string
  | StopListInvalid
  | StopEntryInvalid
  | StopForceInvalid
  | StopNeedsAllowlist
  | PolicyExists

definition grant_values :: "string list" where
  "grant_values = [''allow'', ''confirm'', ''deny'']"

definition supported_grants :: "string \<Rightarrow> string list option" where
  "supported_grants k =
     (if k \<in> {''install'', ''verify'', ''launch'', ''stop''} then Some grant_values else None)"

definition max_launch_allowlist :: nat where
  "max_launch_allowlist = 256"

definition max_appid :: int where
  "max_appid = 4294967295"

record policy =
  p_version :: string
  p_grants :: "(string \<times> string) list"
  p_min_free_gb :: "int option"
  p_launch_allowlist :: "int list"
  p_stop_allowlist :: "int list"
  p_stop_allow_force :: bool


section \<open>Queries\<close>

definition grant_for :: "policy \<Rightarrow> string \<Rightarrow> string" where
  "grant_for p operation =
     (case supported_grants operation of
        None \<Rightarrow> ''deny''
      | Some _ \<Rightarrow> (case map_of (p_grants p) operation of None \<Rightarrow> ''deny'' | Some g \<Rightarrow> g))"

definition launch_permitted :: "policy \<Rightarrow> int \<Rightarrow> bool" where
  "launch_permitted p appid \<longleftrightarrow> appid \<in> set (p_launch_allowlist p)"

definition stop_permitted :: "policy \<Rightarrow> int \<Rightarrow> bool \<Rightarrow> bool" where
  "stop_permitted p appid force \<longleftrightarrow>
     appid \<in> set (p_stop_allowlist p) \<and> (\<not> force \<or> p_stop_allow_force p)"


section \<open>Loading\<close>

text \<open>\<open>document.get(key, {})\<close>: \<open>None\<close> when the value is there and is not a table.\<close>

definition table_at :: "toml_table \<Rightarrow> string \<Rightarrow> toml_table option" where
  "table_at doc key =
     (case map_of doc key of
        None \<Rightarrow> Some []
      | Some (TTable t) \<Rightarrow> Some t
      | Some _ \<Rightarrow> None)"

text \<open>\<open>sorted(set(table) - allowed)[0]\<close>, where there is such a key.\<close>

definition first_unsupported :: "toml_table \<Rightarrow> string list \<Rightarrow> string option" where
  "first_unsupported t allowed =
     (case sort (filter (\<lambda>k. k \<notin> set allowed) (map fst t)) of
        [] \<Rightarrow> None
      | k # _ \<Rightarrow> Some k)"

fun load_grants :: "toml_table \<Rightarrow> policy_error + (string \<times> string) list" where
  "load_grants [] = Inr []"
| "load_grants ((key, v) # rest) =
     (case supported_grants key of
        None \<Rightarrow> Inl (UnsupportedGrantKey key)
      | Some allowed \<Rightarrow>
          (case v of
             TString s \<Rightarrow>
               if s \<in> set allowed
               then bindE (load_grants rest) (\<lambda>grants. Inr ((key, s) # grants))
               else Inl (UnsupportedGrantValue v key)
           | _ \<Rightarrow> Inl (UnsupportedGrantValue v key)))"

definition load_min_free_gb :: "toml_table \<Rightarrow> policy_error + int option" where
  "load_min_free_gb limits =
     (case map_of limits ''min_free_gb'' of
        None \<Rightarrow> Inr None
      | Some (TInt n) \<Rightarrow> if n < 0 then Inl MinFreeInvalid else Inr (Some n)
      | Some _ \<Rightarrow> Inl MinFreeInvalid)"

definition load_limits :: "toml_table \<Rightarrow> policy_error + int option" where
  "load_limits doc =
     (case table_at doc ''limits'' of
        None \<Rightarrow> Inl LimitsNotTable
      | Some limits \<Rightarrow>
          (case first_unsupported limits [''min_free_gb''] of
             Some k \<Rightarrow> Inl (UnsupportedLimitKey k)
           | None \<Rightarrow> load_min_free_gb limits))"

text \<open>An entry of an allowlist; a TOML boolean is not an integer here.\<close>

definition appid_entry :: "toml \<Rightarrow> int option" where
  "appid_entry v =
     (case v of TInt n \<Rightarrow> if 1 \<le> n \<and> n \<le> max_appid then Some n else None | _ \<Rightarrow> None)"

fun load_entries :: "policy_error \<Rightarrow> toml list \<Rightarrow> policy_error + int list" where
  "load_entries err [] = Inr []"
| "load_entries err (v # vs) =
     (case appid_entry v of
        None \<Rightarrow> Inl err
      | Some n \<Rightarrow> bindE (load_entries err vs) (\<lambda>ns. Inr (n # ns)))"

definition load_allowlist ::
    "toml_table \<Rightarrow> policy_error \<Rightarrow> policy_error \<Rightarrow> policy_error + int list" where
  "load_allowlist t bad_list bad_entry =
     (case map_of t ''allowed_appids'' of
        None \<Rightarrow> Inr []
      | Some (TArray entries) \<Rightarrow>
          if length entries > max_launch_allowlist then Inl bad_list
          else load_entries bad_entry entries
      | Some _ \<Rightarrow> Inl bad_list)"

definition load_launch ::
    "toml_table \<Rightarrow> (string \<times> string) list \<Rightarrow> policy_error + int list" where
  "load_launch doc grants =
     (case table_at doc ''launch'' of
        None \<Rightarrow> Inl LaunchNotTable
      | Some t \<Rightarrow>
          (case first_unsupported t [''allowed_appids''] of
             Some k \<Rightarrow> Inl (UnsupportedLaunchKey k)
           | None \<Rightarrow>
               bindE (load_allowlist t LaunchListInvalid LaunchEntryInvalid) (\<lambda>allowlist.
               bindE (raise_if
                   (map_of grants ''launch'' \<notin> {None, Some ''deny''} \<and> allowlist = [])
                   LaunchNeedsAllowlist) (\<lambda>_.
               Inr allowlist))))"

definition load_stop_force :: "toml_table \<Rightarrow> policy_error + bool" where
  "load_stop_force t =
     (case map_of t ''allow_force'' of
        None \<Rightarrow> Inr False
      | Some (TBool b) \<Rightarrow> Inr b
      | Some _ \<Rightarrow> Inl StopForceInvalid)"

definition load_stop ::
    "toml_table \<Rightarrow> (string \<times> string) list \<Rightarrow> policy_error + int list \<times> bool" where
  "load_stop doc grants =
     (case table_at doc ''stop'' of
        None \<Rightarrow> Inl StopNotTable
      | Some t \<Rightarrow>
          (case first_unsupported t [''allowed_appids'', ''allow_force''] of
             Some k \<Rightarrow> Inl (UnsupportedStopKey k)
           | None \<Rightarrow>
               bindE (load_allowlist t StopListInvalid StopEntryInvalid) (\<lambda>entries.
               bindE (load_stop_force t) (\<lambda>force.
               bindE (raise_if
                   (map_of grants ''stop'' \<notin> {None, Some ''deny''} \<and> entries = [])
                   StopNeedsAllowlist) (\<lambda>_.
               Inr (entries, force))))))"

definition load_document ::
    "string \<Rightarrow> toml_table \<Rightarrow> policy_error + policy" where
  "load_document version doc =
     (case first_unsupported doc [''grants'', ''limits'', ''launch'', ''stop''] of
        Some k \<Rightarrow> Inl (UnsupportedPolicyKey k)
      | None \<Rightarrow>
          (case table_at doc ''grants'' of
             None \<Rightarrow> Inl GrantsNotTable
           | Some grants_table \<Rightarrow>
               bindE (load_grants grants_table) (\<lambda>grants.
               bindE (load_limits doc) (\<lambda>min_free.
               bindE (raise_if
                   (min_free = None \<and>
                    (\<exists>(k, v) \<in> set grants. k \<noteq> ''stop'' \<and> v = ''allow''))
                   AllowNeedsFloor) (\<lambda>_.
               bindE (load_launch doc grants) (\<lambda>allowlist.
               bindE (load_stop doc grants) (\<lambda>(stop_entries, stop_force).
               Inr \<lparr>p_version = version, p_grants = grants, p_min_free_gb = min_free,
                    p_launch_allowlist = allowlist, p_stop_allowlist = stop_entries,
                    p_stop_allow_force = stop_force\<rparr>)))))))"

definition load_policy ::
    "(string \<Rightarrow> toml_table option) \<Rightarrow> (string \<Rightarrow> string) \<Rightarrow> string option \<Rightarrow>
       policy_error + policy" where
  "load_policy parse sha256 file =
     (case file of
        None \<Rightarrow> Inl PolicyUnavailable
      | Some raw \<Rightarrow>
          (case parse raw of
             None \<Rightarrow> Inl PolicyNotToml
           | Some doc \<Rightarrow> load_document (take 16 (sha256 raw)) doc))"

text \<open>\<open>write_policy_template\<close> on the file's current content: it never overwrites.\<close>

definition write_policy_template :: "string \<Rightarrow> string option \<Rightarrow> policy_error + string" where
  "write_policy_template template file =
     (case file of None \<Rightarrow> Inr template | Some _ \<Rightarrow> Inl PolicyExists)"


section \<open>What a loaded policy guarantees\<close>

definition granted :: "policy \<Rightarrow> string \<Rightarrow> bool" where
  "granted p operation \<longleftrightarrow> grant_for p operation \<in> {''allow'', ''confirm''}"

definition appids_ok :: "int list \<Rightarrow> bool" where
  "appids_ok ns \<longleftrightarrow> length ns \<le> max_launch_allowlist \<and> (\<forall>n \<in> set ns. 1 \<le> n \<and> n \<le> max_appid)"

definition policy_wf :: "policy \<Rightarrow> bool" where
  "policy_wf p \<longleftrightarrow>
     (\<forall>(k, v) \<in> set (p_grants p). supported_grants k \<noteq> None \<and> v \<in> set grant_values) \<and>
     (\<forall>n. p_min_free_gb p = Some n \<longrightarrow> 0 \<le> n) \<and>
     (p_min_free_gb p = None \<longrightarrow>
        (\<forall>(k, v) \<in> set (p_grants p). k \<noteq> ''stop'' \<longrightarrow> v \<noteq> ''allow'')) \<and>
     appids_ok (p_launch_allowlist p) \<and> appids_ok (p_stop_allowlist p) \<and>
     (granted p ''launch'' \<longrightarrow> p_launch_allowlist p \<noteq> []) \<and>
     (granted p ''stop'' \<longrightarrow> p_stop_allowlist p \<noteq> [])"

lemma load_grants_Inr:
  "load_grants t = Inr g \<Longrightarrow>
     (\<forall>(k, v) \<in> set g. supported_grants k \<noteq> None \<and> v \<in> set grant_values) \<and>
     map_of t = (\<lambda>k. map_option TString (map_of g k))"
proof (induction t arbitrary: g rule: load_grants.induct)
  case 1
  then show ?case by auto
next
  case (2 key v rest)
  then show ?case
    by (fastforce simp: bindE_eq_Inr supported_grants_def
        split: option.splits toml.splits if_splits)
qed

lemma load_entries_Inr:
  "load_entries e vs = Inr ns \<Longrightarrow>
     vs = map TInt ns \<and> (\<forall>n \<in> set ns. 1 \<le> n \<and> n \<le> max_appid)"
  by (induction vs arbitrary: ns)
     (auto simp: bindE_eq_Inr appid_entry_def split: option.splits toml.splits if_splits)

lemma load_allowlist_Inr: "load_allowlist t e1 e2 = Inr ns \<Longrightarrow> appids_ok ns"
  by (auto simp: load_allowlist_def appids_ok_def max_launch_allowlist_def
      dest!: load_entries_Inr split: option.splits toml.splits if_splits)

lemma load_limits_Inr: "load_limits doc = Inr (Some n) \<Longrightarrow> 0 \<le> n"
  by (auto simp: load_limits_def load_min_free_gb_def
      split: option.splits toml.splits if_splits)

lemma load_launch_Inr:
  "load_launch doc g = Inr ns \<Longrightarrow>
     appids_ok ns \<and> (map_of g ''launch'' \<notin> {None, Some ''deny''} \<longrightarrow> ns \<noteq> [])"
  by (auto simp: load_launch_def bindE_eq_Inr dest: load_allowlist_Inr
      split: option.splits if_splits)

lemma load_stop_Inr:
  "load_stop doc g = Inr (ns, f) \<Longrightarrow>
     appids_ok ns \<and> (map_of g ''stop'' \<notin> {None, Some ''deny''} \<longrightarrow> ns \<noteq> [])"
  by (auto simp: load_stop_def bindE_eq_Inr dest: load_allowlist_Inr
      split: option.splits if_splits)

lemma granted_iff:
  "granted p operation \<longleftrightarrow>
     supported_grants operation \<noteq> None \<and>
     map_of (p_grants p) operation \<in> {Some ''allow'', Some ''confirm''}"
  by (auto simp: granted_def grant_for_def split: option.splits)

lemma load_document_Inr:
  assumes "load_document v doc = Inr p"
  obtains grants_table grants min_free allowlist entries force where
    "table_at doc ''grants'' = Some grants_table"
    "load_grants grants_table = Inr grants"
    "load_limits doc = Inr min_free"
    "min_free = None \<Longrightarrow> (\<forall>(k, g) \<in> set grants. k \<noteq> ''stop'' \<longrightarrow> g \<noteq> ''allow'')"
    "load_launch doc grants = Inr allowlist"
    "load_stop doc grants = Inr (entries, force)"
    "p = \<lparr>p_version = v, p_grants = grants, p_min_free_gb = min_free,
          p_launch_allowlist = allowlist, p_stop_allowlist = entries,
          p_stop_allow_force = force\<rparr>"
  using assms unfolding load_document_def
  by (fastforce simp: bindE_eq_Inr simp del: bindE_raise_if split: option.splits prod.splits)

lemma load_document_wf:
  assumes "load_document v doc = Inr p"
  shows "policy_wf p"
  using assms
proof (cases rule: load_document_Inr)
  case (1 grants_table grants min_free allowlist entries force)
  have "\<And>n. min_free = Some n \<Longrightarrow> 0 \<le> n"
    using 1(3) load_limits_Inr by blast
  moreover note load_grants_Inr [OF 1(2)] load_launch_Inr [OF 1(5)] load_stop_Inr [OF 1(6)]
  ultimately show ?thesis
    using 1(4,7) by (auto simp: policy_wf_def granted_iff)
qed

lemma load_policy_document:
  "load_policy parse sha256 file = Inr p \<Longrightarrow>
     \<exists>raw doc. file = Some raw \<and> parse raw = Some doc \<and>
       load_document (take 16 (sha256 raw)) doc = Inr p"
  by (auto simp: load_policy_def split: option.splits)


section \<open>What the file says\<close>

text \<open>The grant, the allowlist and the force flag as they stand in the document.\<close>

definition file_grant :: "toml_table \<Rightarrow> string \<Rightarrow> string \<Rightarrow> bool" where
  "file_grant doc operation g \<longleftrightarrow>
     (\<exists>t. map_of doc ''grants'' = Some (TTable t) \<and> map_of t operation = Some (TString g))"

definition file_lists :: "toml_table \<Rightarrow> string \<Rightarrow> int \<Rightarrow> bool" where
  "file_lists doc key n \<longleftrightarrow>
     (\<exists>t vs. map_of doc key = Some (TTable t) \<and> map_of t ''allowed_appids'' = Some (TArray vs) \<and>
        TInt n \<in> set vs)"

definition file_forces :: "toml_table \<Rightarrow> bool" where
  "file_forces doc \<longleftrightarrow>
     (\<exists>t. map_of doc ''stop'' = Some (TTable t) \<and> map_of t ''allow_force'' = Some (TBool True))"

lemma table_at_lookup:
  "table_at doc key = Some t \<Longrightarrow>
     map_of t k = Some v \<longleftrightarrow> (\<exists>t'. map_of doc key = Some (TTable t') \<and> map_of t' k = Some v)"
  by (auto simp: table_at_def split: option.splits toml.splits)

lemma load_allowlist_set:
  "load_allowlist t e1 e2 = Inr ns \<Longrightarrow>
     n \<in> set ns \<longleftrightarrow> (\<exists>vs. map_of t ''allowed_appids'' = Some (TArray vs) \<and> TInt n \<in> set vs)"
  by (auto simp: load_allowlist_def dest!: load_entries_Inr
      split: option.splits toml.splits if_splits)

lemma load_launch_set: "load_launch doc g = Inr ns \<Longrightarrow> n \<in> set ns \<longleftrightarrow> file_lists doc ''launch'' n"
  by (auto simp: load_launch_def bindE_eq_Inr load_allowlist_set table_at_lookup file_lists_def
      simp del: bindE_raise_if split: option.splits if_splits)

lemma load_stop_set:
  assumes "load_stop doc g = Inr (ns, f)"
  shows "(n \<in> set ns \<longleftrightarrow> file_lists doc ''stop'' n) \<and> (f \<longleftrightarrow> file_forces doc)"
proof -
  from assms obtain t where t: "table_at doc ''stop'' = Some t"
    "load_allowlist t StopListInvalid StopEntryInvalid = Inr ns" "load_stop_force t = Inr f"
    by (auto simp: load_stop_def bindE_eq_Inr simp del: bindE_raise_if split: option.splits)
  from t(3) have "f \<longleftrightarrow> map_of t ''allow_force'' = Some (TBool True)"
    by (auto simp: load_stop_force_def split: option.splits toml.splits)
  with load_allowlist_set [OF t(2), of n] table_at_lookup [OF t(1)] show ?thesis
    by (auto simp: file_lists_def file_forces_def)
qed

lemma load_grants_file:
  assumes "table_at doc ''grants'' = Some t" "load_grants t = Inr g"
  shows "map_of g k = Some s \<longleftrightarrow> file_grant doc k s"
  using load_grants_Inr [OF assms(2)] table_at_lookup [OF assms(1), of k "TString s"]
  by (auto simp: file_grant_def)

lemma file_grant_supported:
  "table_at doc ''grants'' = Some t \<Longrightarrow> load_grants t = Inr g \<Longrightarrow> file_grant doc k s \<Longrightarrow>
     supported_grants k \<noteq> None"
  using load_grants_file load_grants_Inr by (fastforce dest: map_of_SomeD)


section \<open>Properties\<close>

definition demo_policy_doc :: toml_table where
  "demo_policy_doc =
     [(''grants'', TTable [(''install'', TString ''allow''), (''launch'', TString ''confirm'')]),
      (''limits'', TTable [(''min_free_gb'', TInt 50)]),
      (''launch'', TTable [(''allowed_appids'', TArray [TInt 620, TInt 570])])]"

text \<open>Every policy that loads is well formed: each grant names a supported operation and
  one of the three grant values, unattended \<open>allow\<close> comes with a free-space floor, the floor
  is not negative, both allowlists hold at most 256 AppIDs in range, and a live launch or
  stop grant comes with a non-empty allowlist.\<close>

theorem loaded_policy_wf:
  assumes "load_policy parse sha256 file = Inr p"
  shows "policy_wf p"
  using load_policy_document [OF assms] load_document_wf by blast

lemma loaded_policy_wf_witness:
  "\<exists>p. load_policy (\<lambda>_. Some demo_policy_doc) (\<lambda>raw. raw) (Some ''toml'') = Inr p \<and> policy_wf p"
proof -
  obtain p where "load_policy (\<lambda>_. Some demo_policy_doc) (\<lambda>raw. raw) (Some ''toml'') = Inr p"
    by (auto simp: load_policy_def demo_policy_doc_def load_document_def first_unsupported_def
        table_at_def supported_grants_def grant_values_def load_limits_def load_min_free_gb_def
        load_launch_def load_allowlist_def max_launch_allowlist_def appid_entry_def max_appid_def
        load_stop_def load_stop_force_def raise_if_def)
  with loaded_policy_wf [OF this] show ?thesis by blast
qed

text \<open>A loaded policy permits what the owner's file says and nothing else: an operation
  is granted exactly when the file's \<open>[grants]\<close> table gives it \<open>allow\<close> or \<open>confirm\<close>, a title
  may be launched or stopped exactly when its AppID is in that table's list, a forced stop
  only with \<open>allow_force = true\<close>, and the version is the first 16 digits of the file's
  digest.\<close>

theorem policy_says_what_file_says:
  assumes "load_policy parse sha256 (Some raw) = Inr p" "parse raw = Some doc"
  shows "(granted p operation \<longleftrightarrow>
      file_grant doc operation ''allow'' \<or> file_grant doc operation ''confirm'') \<and>
    (launch_permitted p n \<longleftrightarrow> file_lists doc ''launch'' n) \<and>
    (stop_permitted p n force \<longleftrightarrow> file_lists doc ''stop'' n \<and> (force \<longrightarrow> file_forces doc)) \<and>
    p_version p = take 16 (sha256 raw)"
proof -
  from assms have "load_document (take 16 (sha256 raw)) doc = Inr p"
    by (simp add: load_policy_def)
  then show ?thesis
  proof (cases rule: load_document_Inr)
    case (1 grants_table grants min_free allowlist entries f)
    note grants = load_grants_file [OF 1(1,2)] file_grant_supported [OF 1(1,2)]
    have "granted p operation \<longleftrightarrow>
        file_grant doc operation ''allow'' \<or> file_grant doc operation ''confirm''"
      unfolding granted_iff using grants 1(7) by (auto simp: grants(1) [symmetric])
    then show ?thesis
      using load_launch_set [OF 1(5), of n] load_stop_set [OF 1(6), of n] 1(7)
      by (simp add: launch_permitted_def stop_permitted_def)
  qed
qed

lemma policy_says_what_file_says_witness:
  "\<exists>p. load_policy (\<lambda>_. Some demo_policy_doc) (\<lambda>raw. raw) (Some ''toml'') = Inr p \<and>
     granted p ''launch'' \<and> \<not> granted p ''stop'' \<and> launch_permitted p 620 \<and>
     \<not> launch_permitted p 10"
proof -
  obtain p where p: "load_policy (\<lambda>_. Some demo_policy_doc) (\<lambda>raw. raw) (Some ''toml'') = Inr p"
    by (auto simp: load_policy_def demo_policy_doc_def load_document_def first_unsupported_def
        table_at_def supported_grants_def grant_values_def load_limits_def load_min_free_gb_def
        load_launch_def load_allowlist_def max_launch_allowlist_def appid_entry_def max_appid_def
        load_stop_def load_stop_force_def raise_if_def)
  note says = policy_says_what_file_says [OF p, of demo_policy_doc]
  have "granted p ''launch''" "\<not> granted p ''stop''" "launch_permitted p 620"
    "\<not> launch_permitted p 10"
    using says by (simp_all add: demo_policy_doc_def file_grant_def file_lists_def)
  with p show ?thesis by blast
qed

end
