(* ===== verification/Ledger.thy ===== *)
theory Ledger
  imports Broker_Prelude
begin

text \<open>
  The operation ledger of \<open>src/steam_agent/execution/ledger.py\<close>: the operations and events
  tables of one SQLite file, its two partial unique indexes, and every method of
  \<open>ExecutionLedger\<close>.  A method takes the time of its clock reading (whole seconds) and the
  database and returns its result, or the exception, with the database it leaves.  Time
  stamps of one format and width compare as strings the way their instants do, so they are
  integers here.  The JSON reader, the random nonce and the digest are parameters.
\<close>


section \<open>Rows, events and the transition table\<close>

datatype op_state =
    PendingConfirmation
  | Authorized
  | DispatchPending
  | LeaseAcquired
  | ClientStopping
  | ContentRunning
  | Adopting
  | ClientRestartPending
  | Verifying
  | Interrupted
  | Confirmed
  | Unconfirmed
  | Contradicted
  | Aborted
  | Failed
  | Expired
  | Dispatched
  | UnsupportedState string

definition supported_state :: "op_state \<Rightarrow> bool" where
  "supported_state st = (case st of UnsupportedState _ \<Rightarrow> False | _ \<Rightarrow> True)"

definition supported_operations :: "string list" where
  "supported_operations = [''install'', ''verify'', ''launch'', ''stop'']"

definition terminal_states :: "op_state list" where
  "terminal_states =
     [Confirmed, Unconfirmed, Contradicted, Aborted, Failed, Expired, Dispatched]"

fun transitions :: "op_state \<Rightarrow> op_state list" where
  "transitions PendingConfirmation = [Authorized, Expired, Aborted]"
| "transitions Authorized = [LeaseAcquired, DispatchPending, Expired, Aborted]"
| "transitions DispatchPending = [Dispatched, Unconfirmed]"
| "transitions LeaseAcquired = [ClientStopping, Aborted, Interrupted]"
| "transitions ClientStopping = [ContentRunning, Aborted, Interrupted]"
| "transitions ContentRunning = [Adopting, Failed, Interrupted, Aborted]"
| "transitions Adopting = [ClientRestartPending, Interrupted, Failed]"
| "transitions ClientRestartPending = [Verifying, Interrupted]"
| "transitions Verifying = [Confirmed, Unconfirmed, Contradicted]"
| "transitions Interrupted = [ContentRunning, Adopting, Verifying, Failed, Aborted]"
| "transitions _ = []"

abbreviation terminal :: "op_state \<Rightarrow> bool" where
  "terminal st \<equiv> st \<in> set terminal_states"

fun state_name :: "op_state \<Rightarrow> string" where
  "state_name PendingConfirmation = ''pending_confirmation''"
| "state_name Authorized = ''authorized''"
| "state_name DispatchPending = ''dispatch_pending''"
| "state_name LeaseAcquired = ''lease_acquired''"
| "state_name ClientStopping = ''client_stopping''"
| "state_name ContentRunning = ''content_running''"
| "state_name Adopting = ''adopting''"
| "state_name ClientRestartPending = ''client_restart_pending''"
| "state_name Verifying = ''verifying''"
| "state_name Interrupted = ''interrupted''"
| "state_name Confirmed = ''confirmed''"
| "state_name Unconfirmed = ''unconfirmed''"
| "state_name Contradicted = ''contradicted''"
| "state_name Aborted = ''aborted''"
| "state_name Failed = ''failed''"
| "state_name Expired = ''expired''"
| "state_name Dispatched = ''dispatched''"
| "state_name (UnsupportedState s) = s"

datatype ledger_error =
    LedgerError string
  | UnsupportedLedger string
  | InvalidTransition string
  | ConfirmationRejected string
  | IntegrityError

definition schema :: string where
  "schema = ''operation-execution/0.1''"

definition default_nonce_ttl :: int where
  "default_nonce_ttl = 15 * 60"

definition default_execution_window :: int where
  "default_execution_window = 4 * 60 * 60"

text \<open>A row of the table \<open>operations\<close>.\<close>

record op_row =
  r_id :: nat
  r_schema :: string
  r_plan_key :: string
  r_plan_document :: string
  r_operation :: string
  r_appid :: int
  r_account_alias :: string
  r_machine_id :: string
  r_state :: op_state
  r_policy_version :: string
  r_nonce :: "string option"
  r_nonce_expires_at :: "int option"
  r_confirmation_actor :: "string option"
  r_window_expires_at :: "int option"
  r_prior_client_running :: "bool option"
  r_detail :: "string option"
  r_created_at :: int
  r_updated_at :: int

text \<open>A row of the table \<open>events\<close>; \<open>ev_from = None\<close> is the text \<open>none\<close>.\<close>

record event =
  ev_operation :: nat
  ev_at :: int
  ev_from :: "op_state option"
  ev_to :: op_state
  ev_detail :: "string option"

text \<open>
  The database file.  \<open>db_active_index\<close> holds the terminal states that the stored
  definition of \<open>one_active_operation\<close> excludes (\<open>None\<close>: no such index), which may be an
  older set than the program's; \<open>db_layout_ok\<close> says the operations table has the columns the
  program reads.
\<close>

record db =
  db_user_version :: int
  db_has_operations :: bool
  db_layout_ok :: bool
  db_operations :: "op_row list"
  db_events :: "event list"
  db_active_index :: "op_state list option"
  db_plan_index :: bool

type_synonym 'a ledger_result = "(ledger_error + 'a) \<times> db"


section \<open>Statements and transactions\<close>

definition row_supported :: "op_row \<Rightarrow> bool" where
  "row_supported r \<longleftrightarrow>
     r_schema r = schema \<and> supported_state (r_state r) \<and>
     r_operation r \<in> set supported_operations"

definition require_supported :: "db \<Rightarrow> ledger_error + unit" where
  "require_supported d =
     (if db_user_version d \<noteq> 0 then Inl (UnsupportedLedger ''unsupported ledger database version'')
      else if \<not> db_has_operations d then Inr ()
      else if \<not> db_layout_ok d then Inl (UnsupportedLedger ''unsupported ledger operation layout'')
      else if \<exists>r \<in> set (db_operations d). \<not> row_supported r
        then Inl (UnsupportedLedger ''unsupported ledger row schema, state or operation'')
      else Inr ())"

text \<open>What the two partial unique indexes demand of the operations table.\<close>

definition active_ok :: "op_state list option \<Rightarrow> op_row list \<Rightarrow> bool" where
  "active_ok index rows =
     (case index of
        None \<Rightarrow> True
      | Some excluded \<Rightarrow> unique_on r_machine_id (\<lambda>r. r_state r \<notin> set excluded) rows)"

definition plan_ok :: "bool \<Rightarrow> op_row list \<Rightarrow> bool" where
  "plan_ok index rows \<longleftrightarrow> (index \<longrightarrow> unique_on r_plan_key (\<lambda>r. r_state r \<noteq> Expired) rows)"

text \<open>An \<open>INSERT\<close> or \<open>UPDATE\<close>: SQLite refuses a table that breaks an index.\<close>

definition sql_write :: "op_row list \<Rightarrow> db \<Rightarrow> ledger_error + db" where
  "sql_write rows d =
     (if active_ok (db_active_index d) rows \<and> plan_ok (db_plan_index d) rows
      then Inr (d\<lparr>db_operations := rows\<rparr>)
      else Inl IntegrityError)"

definition add_event ::
    "int \<Rightarrow> nat \<Rightarrow> op_state option \<Rightarrow> op_state \<Rightarrow> string option \<Rightarrow> db \<Rightarrow> db" where
  "add_event now i from to detail d =
     d\<lparr>db_events := db_events d @
         [\<lparr>ev_operation = i, ev_at = now, ev_from = from, ev_to = to, ev_detail = detail\<rparr>]\<rparr>"

text \<open>\<open>BEGIN IMMEDIATE\<close>, the version check, the body; an exception rolls back.\<close>

definition transaction :: "(db \<Rightarrow> ledger_error + 'a \<times> db) \<Rightarrow> db \<Rightarrow> 'a ledger_result" where
  "transaction body d =
     (case bindE (require_supported d) (\<lambda>_. body d) of
        Inl e \<Rightarrow> (Inl e, d)
      | Inr (x, d') \<Rightarrow> (Inr x, d'))"

text \<open>The row identifier SQLite assigns to an insert.\<close>

definition next_id :: "op_row list \<Rightarrow> nat" where
  "next_id rows = Suc (fold max (map r_id rows) 0)"


section \<open>Opening\<close>

definition rebuild_active_index :: "db \<Rightarrow> unit ledger_result" where
  "rebuild_active_index =
     transaction (\<lambda>d.
       if db_active_index d = Some terminal_states then Inr ((), d)
       else if active_ok (Some terminal_states) (db_operations d)
         then Inr ((), d\<lparr>db_active_index := Some terminal_states\<rparr>)
       else Inl IntegrityError)"

definition migrate :: "db \<Rightarrow> unit ledger_result" where
  "migrate d =
     (let d1 = (if db_has_operations d then d
                else d\<lparr>db_has_operations := True, db_layout_ok := True, db_operations := []\<rparr>)
      in case rebuild_active_index d1 of
           (Inl e, d2) \<Rightarrow> (Inl e, d2)
         | (Inr _, d2) \<Rightarrow>
             if plan_ok True (db_operations d2) then (Inr (), d2\<lparr>db_plan_index := True\<rparr>)
             else (Inl IntegrityError, d2))"

definition open_ledger :: "bool \<Rightarrow> db \<Rightarrow> unit ledger_result" where
  "open_ledger readonly d =
     (case require_supported d of
        Inl e \<Rightarrow> (Inl e, d)
      | Inr _ \<Rightarrow> if readonly then (Inr (), d) else migrate d)"


section \<open>Intake, confirmation, transitions and expiry\<close>

definition lapsed :: "int \<Rightarrow> op_row \<Rightarrow> bool" where
  "lapsed now r \<longleftrightarrow>
     (r_state r = PendingConfirmation \<and>
        (case r_nonce_expires_at r of None \<Rightarrow> False | Some t \<Rightarrow> t \<le> now)) \<or>
     (r_state r = Authorized \<and>
        (case r_window_expires_at r of None \<Rightarrow> False | Some t \<Rightarrow> t \<le> now))"

definition expire_row :: "int \<Rightarrow> op_row \<Rightarrow> op_row" where
  "expire_row now r = (if lapsed now r then r\<lparr>r_state := Expired, r_updated_at := now\<rparr> else r)"

text \<open>The identifiers and former states the two updates return, in the order of the loop.\<close>

definition lapsed_rows :: "int \<Rightarrow> op_row list \<Rightarrow> (nat \<times> op_state) list" where
  "lapsed_rows now rows =
     concat (map (\<lambda>st. map (\<lambda>r. (r_id r, st)) (filter (\<lambda>r. r_state r = st \<and> lapsed now r) rows))
       [PendingConfirmation, Authorized])"

fun add_expired_events :: "int \<Rightarrow> (nat \<times> op_state) list \<Rightarrow> db \<Rightarrow> db" where
  "add_expired_events now [] d = d"
| "add_expired_events now ((i, st) # es) d =
     add_expired_events now es (add_event now i (Some st) Expired None d)"

definition expire_lapsed :: "int \<Rightarrow> db \<Rightarrow> nat list ledger_result" where
  "expire_lapsed now =
     transaction (\<lambda>d.
       let expired = lapsed_rows now (db_operations d) in
       bindE (sql_write (map (expire_row now) (db_operations d)) d) (\<lambda>d1.
       Inr (map fst expired, add_expired_events now expired d1)))"

record intake =
  in_plan_key :: string
  in_plan_document :: string
  in_operation :: string
  in_appid :: int
  in_account_alias :: string
  in_machine_id :: string
  in_policy_version :: string

definition new_row :: "int \<Rightarrow> string \<Rightarrow> int \<Rightarrow> intake \<Rightarrow> nat \<Rightarrow> op_row" where
  "new_row now nonce ttl q i =
     \<lparr>r_id = i, r_schema = schema, r_plan_key = in_plan_key q,
      r_plan_document = in_plan_document q, r_operation = in_operation q,
      r_appid = in_appid q, r_account_alias = in_account_alias q,
      r_machine_id = in_machine_id q, r_state = PendingConfirmation,
      r_policy_version = in_policy_version q, r_nonce = Some nonce,
      r_nonce_expires_at = Some (now + ttl), r_confirmation_actor = None,
      r_window_expires_at = None, r_prior_client_running = None, r_detail = None,
      r_created_at = now, r_updated_at = now\<rparr>"

definition insert_request ::
    "int \<Rightarrow> string \<Rightarrow> int \<Rightarrow> intake \<Rightarrow> db \<Rightarrow> ledger_error + (nat \<times> string) \<times> db" where
  "insert_request now nonce ttl q d =
     (case find (\<lambda>r. r_plan_key r = in_plan_key q \<and> r_state r \<noteq> Expired) (db_operations d) of
        Some dup \<Rightarrow>
          Inl (LedgerError (''idempotency key already recorded (state: '' @
                 state_name (r_state dup) @ '')''))
      | None \<Rightarrow>
          (let i = next_id (db_operations d) in
           case sql_write (db_operations d @ [new_row now nonce ttl q i]) d of
             Inl _ \<Rightarrow>
               Inl (LedgerError ''another operation is already active for this machine'')
           | Inr d1 \<Rightarrow>
               Inr ((i, nonce), add_event now i None PendingConfirmation None d1)))"

definition request ::
    "int \<Rightarrow> string \<Rightarrow> int \<Rightarrow> intake \<Rightarrow> db \<Rightarrow> (nat \<times> string) ledger_result" where
  "request now nonce ttl q d =
     (if in_operation q \<notin> set supported_operations
      then (Inl (UnsupportedLedger ''unsupported ledger operation''), d)
      else case expire_lapsed now d of
             (Inl e, d1) \<Rightarrow> (Inl e, d1)
           | (Inr _, d1) \<Rightarrow> transaction (insert_request now nonce ttl q) d1)"

definition confirmable :: "int \<Rightarrow> string \<Rightarrow> op_row \<Rightarrow> bool" where
  "confirmable now nonce r \<longleftrightarrow>
     r_nonce r = Some nonce \<and> r_state r = PendingConfirmation \<and>
     (case r_nonce_expires_at r of None \<Rightarrow> False | Some t \<Rightarrow> now < t)"

definition confirm_row :: "int \<Rightarrow> string \<Rightarrow> string \<Rightarrow> int \<Rightarrow> op_row \<Rightarrow> op_row" where
  "confirm_row now nonce actor window r =
     (if confirmable now nonce r
      then r\<lparr>r_state := Authorized, r_nonce := None, r_nonce_expires_at := None,
             r_confirmation_actor := Some actor, r_window_expires_at := Some (now + window),
             r_updated_at := now\<rparr>
      else r)"

definition confirm :: "int \<Rightarrow> string \<Rightarrow> string \<Rightarrow> int \<Rightarrow> db \<Rightarrow> nat ledger_result" where
  "confirm now nonce actor window =
     transaction (\<lambda>d.
       bindE (sql_write (map (confirm_row now nonce actor window) (db_operations d)) d) (\<lambda>d1.
       case filter (confirmable now nonce) (db_operations d) of
         [] \<Rightarrow> Inl (ConfirmationRejected ''nonce missing, already consumed, or expired'')
       | r # _ \<Rightarrow>
           Inr (r_id r,
             add_event now (r_id r) (Some PendingConfirmation) Authorized (Some actor) d1)))"

definition get_row :: "nat \<Rightarrow> db \<Rightarrow> ledger_error + op_row" where
  "get_row i d =
     bindE (require_supported d) (\<lambda>_.
     case find (\<lambda>r. r_id r = i) (db_operations d) of
       None \<Rightarrow> Inl (LedgerError (''operation '' @ show_nat i @ '' does not exist''))
     | Some r \<Rightarrow> Inr r)"

definition quoted :: "string \<Rightarrow> string" where
  "quoted s = CHR 0x27 # s @ [CHR 0x27]"

definition move_row ::
    "int \<Rightarrow> nat \<Rightarrow> op_state \<Rightarrow> op_state \<Rightarrow> string option \<Rightarrow> bool option \<Rightarrow> op_row \<Rightarrow> op_row" where
  "move_row now i from to detail prior r =
     (if r_id r = i \<and> r_state r = from
      then r\<lparr>r_state := to, r_detail := detail, r_updated_at := now,
             r_prior_client_running :=
               (case prior of None \<Rightarrow> r_prior_client_running r | Some b \<Rightarrow> Some b)\<rparr>
      else r)"

definition transition ::
    "int \<Rightarrow> nat \<Rightarrow> op_state \<Rightarrow> string option \<Rightarrow> bool option \<Rightarrow> op_state option \<Rightarrow> db \<Rightarrow>
       unit ledger_result" where
  "transition now i to detail prior expected_from d =
     (case get_row i d of
        Inl e \<Rightarrow> (Inl e, d)
      | Inr current \<Rightarrow>
          if expected_from \<noteq> None \<and> expected_from \<noteq> Some (r_state current)
          then (Inl (InvalidTransition (''expected '' @
                  quoted (state_name (the expected_from)) @ '', found '' @
                  quoted (state_name (r_state current)))), d)
          else if to \<notin> set (transitions (r_state current))
          then (Inl (InvalidTransition (quoted (state_name (r_state current)) @
                  '' cannot transition to '' @ quoted (state_name to))), d)
          else transaction (\<lambda>d.
            bindE (sql_write
                (map (move_row now i (r_state current) to detail prior) (db_operations d)) d) (\<lambda>d1.
            if length (filter (\<lambda>r. r_id r = i \<and> r_state r = r_state current)
                 (db_operations d)) \<noteq> 1
            then Inl (InvalidTransition ''operation state changed concurrently'')
            else Inr ((), add_event now i (Some (r_state current)) to detail d1))) d)"


section \<open>Reads\<close>

definition lookup_request_id ::
    "(string \<Rightarrow> string) \<Rightarrow> string \<Rightarrow> db \<Rightarrow> ledger_error + op_row option" where
  "lookup_request_id sha256 request_id d =
     (case sort_key r_id (filter (\<lambda>r. r_plan_key r = ''intent:'' @ sha256 request_id)
             (db_operations d)) of
        [] \<Rightarrow> Inr None
      | r # _ \<Rightarrow> bindE (get_row (r_id r) d) (\<lambda>r. Inr (Some r)))"

definition find_request ::
    "string \<Rightarrow> string \<Rightarrow> bool \<Rightarrow> db \<Rightarrow> ledger_error + (op_row \<times> string option) option" where
  "find_request plan_key plan_document include_expired d =
     (case sort_key r_id (filter (\<lambda>r. r_plan_key r = plan_key \<and>
             (include_expired \<or> r_state r \<noteq> Expired)) (db_operations d)) of
        [] \<Rightarrow> Inr None
      | r # _ \<Rightarrow>
          if r_plan_document r \<noteq> plan_document
          then Inl (LedgerError ''idempotency key already recorded for different plan content'')
          else bindE (get_row (r_id r) d) (\<lambda>operation.
            Inr (Some (operation,
              if r_state operation = PendingConfirmation then r_nonce r else None))))"

definition plan_document ::
    "(string \<Rightarrow> 'j) \<Rightarrow> nat \<Rightarrow> db \<Rightarrow> ledger_error + 'j" where
  "plan_document json_loads i d =
     (case find (\<lambda>r. r_id r = i) (db_operations d) of
        None \<Rightarrow> Inl (LedgerError (''operation '' @ show_nat i @ '' does not exist''))
      | Some r \<Rightarrow> Inr (json_loads (r_plan_document r)))"

definition active :: "db \<Rightarrow> ledger_error + op_row option" where
  "active d =
     (case find (\<lambda>r. \<not> terminal (r_state r)) (db_operations d) of
        None \<Rightarrow> Inr None
      | Some r \<Rightarrow> bindE (get_row (r_id r) d) (\<lambda>r. Inr (Some r)))"

definition recent ::
    "nat \<Rightarrow> db \<Rightarrow> (nat \<times> string \<times> int \<times> op_state \<times> string option \<times> int) list" where
  "recent limit d =
     take limit (map (\<lambda>r. (r_id r, r_operation r, r_appid r, r_state r, r_detail r, r_updated_at r))
       (rev (sort_key r_id (filter (\<lambda>r. terminal (r_state r)) (db_operations d)))))"

definition window_valid :: "int \<Rightarrow> nat \<Rightarrow> db \<Rightarrow> ledger_error + bool" where
  "window_valid now i d =
     bindE (get_row i d) (\<lambda>r.
     Inr (case r_window_expires_at r of None \<Rightarrow> False | Some t \<Rightarrow> now < t))"

definition events_of :: "nat \<Rightarrow> db \<Rightarrow> (int \<times> op_state option \<times> op_state) list" where
  "events_of i d =
     map (\<lambda>e. (ev_at e, ev_from e, ev_to e)) (filter (\<lambda>e. ev_operation e = i) (db_events d))"

end
