(* ===== verification/Ledger_Facts.thy ===== *)
theory Ledger_Facts
  imports Ledger
begin

text \<open>
  The well-formedness invariant of the ledger and its preservation by every method.
  \<open>moves\<close> is the only way an update may change a row: identity columns fixed, the state
  unchanged or moved along an edge of the transition table.  \<open>follows\<close> reads an audit
  trail as a path of that table.
\<close>

named_theorems ledger_simps \<open>unfolding a ledger method\<close>


section \<open>The transition table\<close>

lemma transitions_terminal [simp]: "terminal s \<Longrightarrow> transitions s = []"
  by (cases s) (auto simp: terminal_states_def)

lemma transitions_nonterminal: "t \<in> set (transitions s) \<Longrightarrow> \<not> terminal s"
  by auto

lemma transitions_supported: "t \<in> set (transitions s) \<Longrightarrow> supported_state t \<and> supported_state s"
  by (cases s) (auto simp: supported_state_def)

lemma transitions_target:
  "t \<in> set (transitions s) \<Longrightarrow> t \<noteq> s \<and> t \<noteq> PendingConfirmation"
  by (cases s) auto

lemma terminal_Expired [simp]: "terminal Expired"
  by (simp add: terminal_states_def)

lemma terminal_iff_stuck: "supported_state s \<Longrightarrow> terminal s \<longleftrightarrow> transitions s = []"
  by (cases s) (auto simp: terminal_states_def supported_state_def)


section \<open>Rows that move along the table\<close>

definition moves :: "op_row \<Rightarrow> op_row \<Rightarrow> bool" where
  "moves r r' \<longleftrightarrow>
     r_id r' = r_id r \<and> r_schema r' = r_schema r \<and> r_plan_key r' = r_plan_key r \<and>
     r_plan_document r' = r_plan_document r \<and> r_operation r' = r_operation r \<and>
     r_appid r' = r_appid r \<and> r_account_alias r' = r_account_alias r \<and>
     r_machine_id r' = r_machine_id r \<and>
     (r_state r' = r_state r \<or> r_state r' \<in> set (transitions (r_state r)))"

lemma moves_refl [simp]: "moves r r"
  by (simp add: moves_def)

lemma moves_expire_row: "moves r (expire_row now r)"
  by (auto simp: moves_def expire_row_def lapsed_def)

lemma moves_confirm_row: "moves r (confirm_row now n a w r)"
  by (auto simp: moves_def confirm_row_def confirmable_def)

lemma moves_move_row:
  "to \<in> set (transitions from) \<Longrightarrow> moves r (move_row now i from to detail prior r)"
  by (auto simp: moves_def move_row_def)

definition table_ok :: "op_row list \<Rightarrow> bool" where
  "table_ok rows \<longleftrightarrow>
     (\<forall>r \<in> set rows. row_supported r \<and> 0 < r_id r) \<and> distinct (map r_id rows) \<and>
     unique_on r_machine_id (\<lambda>r. \<not> terminal (r_state r)) rows \<and>
     unique_on r_plan_key (\<lambda>r. r_state r \<noteq> Expired) rows"

lemma moves_nonterminal: "moves r r' \<Longrightarrow> \<not> terminal (r_state r') \<Longrightarrow> \<not> terminal (r_state r)"
  by (auto simp: moves_def)

lemma moves_not_Expired: "moves r r' \<Longrightarrow> r_state r' \<noteq> Expired \<Longrightarrow> r_state r \<noteq> Expired"
  by (auto simp: moves_def)

lemma moves_supported: "moves r r' \<Longrightarrow> row_supported r \<Longrightarrow> row_supported r'"
  by (auto simp: moves_def row_supported_def dest: transitions_supported)

lemma moves_keys:
  "moves r r' \<Longrightarrow> r_id r' = r_id r \<and> r_machine_id r' = r_machine_id r \<and> r_plan_key r' = r_plan_key r"
  by (simp add: moves_def)

lemma table_ok_map:
  assumes "table_ok rows" and g: "\<And>r. moves r (g r)"
  shows "table_ok (map g rows)"
proof -
  have "map r_id (map g rows) = map r_id rows"
    using moves_keys [OF g] by simp
  moreover have "unique_on r_machine_id (\<lambda>r. \<not> terminal (r_state r)) (map g rows)"
    "unique_on r_plan_key (\<lambda>r. r_state r \<noteq> Expired) (map g rows)"
    using assms(1) moves_keys [OF g] moves_nonterminal [OF g] moves_not_Expired [OF g]
    by (auto simp: table_ok_def intro!: unique_on_map)
  ultimately show ?thesis
    using assms(1) moves_keys [OF g] moves_supported [OF g]
    by (simp only: table_ok_def) auto
qed


section \<open>Audit trails\<close>

definition edge :: "op_state option \<Rightarrow> op_state \<Rightarrow> bool" where
  "edge from to =
     (case from of None \<Rightarrow> to = PendingConfirmation | Some s \<Rightarrow> to \<in> set (transitions s))"

fun follows ::
    "op_state option \<Rightarrow> (op_state option \<times> op_state) list \<Rightarrow> op_state option \<Rightarrow> bool" where
  "follows s [] t \<longleftrightarrow> s = t"
| "follows s ((from, to) # es) t \<longleftrightarrow> from = s \<and> edge from to \<and> follows (Some to) es t"

lemma follows_snoc:
  "follows s (es @ [(from, to)]) t \<longleftrightarrow> follows s es from \<and> edge from to \<and> t = Some to"
  by (induction s es t rule: follows.induct) auto

definition trail :: "nat \<Rightarrow> event list \<Rightarrow> (op_state option \<times> op_state) list" where
  "trail i es = map (\<lambda>e. (ev_from e, ev_to e)) (filter (\<lambda>e. ev_operation e = i) es)"

definition audit_ok :: "db \<Rightarrow> bool" where
  "audit_ok d \<longleftrightarrow>
     (\<forall>r \<in> set (db_operations d).
        follows None (trail (r_id r) (db_events d)) (Some (r_state r))) \<and>
     (\<forall>e \<in> set (db_events d). ev_operation e \<in> r_id ` set (db_operations d))"

lemma trail_Nil [simp]: "trail i [] = []"
  by (simp add: trail_def)

lemma trail_add_event [simp]:
  "trail j (db_events (add_event now i from to detail d)) =
     trail j (db_events d) @ (if i = j then [(from, to)] else [])"
  by (simp add: trail_def add_event_def)

lemma db_add_event [simp]:
  "db_operations (add_event now i from to detail d) = db_operations d"
  "db_user_version (add_event now i from to detail d) = db_user_version d"
  "db_has_operations (add_event now i from to detail d) = db_has_operations d"
  "db_layout_ok (add_event now i from to detail d) = db_layout_ok d"
  "db_active_index (add_event now i from to detail d) = db_active_index d"
  "db_plan_index (add_event now i from to detail d) = db_plan_index d"
  by (simp_all add: add_event_def)

lemma db_add_expired_events [simp]:
  "db_operations (add_expired_events now es d) = db_operations d"
  "db_user_version (add_expired_events now es d) = db_user_version d"
  "db_has_operations (add_expired_events now es d) = db_has_operations d"
  "db_layout_ok (add_expired_events now es d) = db_layout_ok d"
  "db_active_index (add_expired_events now es d) = db_active_index d"
  "db_plan_index (add_expired_events now es d) = db_plan_index d"
  by (induction now es d rule: add_expired_events.induct) simp_all

lemma trail_add_expired_events:
  "trail j (db_events (add_expired_events now es d)) =
     trail j (db_events d) @ map (\<lambda>(i, s). (Some s, Expired)) (filter (\<lambda>(i, s). i = j) es)"
  by (induction now es d rule: add_expired_events.induct) (simp_all)

lemma events_add_expired_events:
  "ev_operation ` set (db_events (add_expired_events now es d)) =
     ev_operation ` set (db_events d) \<union> fst ` set es"
  by (induction now es d rule: add_expired_events.induct) (auto simp: add_event_def)


section \<open>The invariant\<close>

text \<open>Every pending row can still be confirmed or expire, and nonces identify rows.\<close>

definition nonces_ok :: "op_row list \<Rightarrow> bool" where
  "nonces_ok rows \<longleftrightarrow>
     (\<forall>r \<in> set rows. r_state r = PendingConfirmation \<longrightarrow>
        r_nonce r \<noteq> None \<and> r_nonce_expires_at r \<noteq> None) \<and>
     unique_on r_nonce (\<lambda>r. r_nonce r \<noteq> None) rows"

definition ledger_wf :: "db \<Rightarrow> bool" where
  "ledger_wf d \<longleftrightarrow>
     db_user_version d = 0 \<and> db_has_operations d \<and> db_layout_ok d \<and>
     db_active_index d = Some terminal_states \<and> db_plan_index d \<and>
     table_ok (db_operations d) \<and> nonces_ok (db_operations d) \<and> audit_ok d"

lemma require_supported_wf [simp]: "ledger_wf d \<Longrightarrow> require_supported d = Inr ()"
  by (auto simp: ledger_wf_def require_supported_def table_ok_def)

lemma transaction_wf:
  "ledger_wf d \<Longrightarrow> transaction body d = (case body d of Inl e \<Rightarrow> (Inl e, d) | Inr (x, d') \<Rightarrow> (Inr x, d'))"
  by (simp add: transaction_def)

lemma sql_write_table_ok:
  "ledger_wf d \<Longrightarrow> table_ok rows \<Longrightarrow> sql_write rows d = Inr (d\<lparr>db_operations := rows\<rparr>)"
  by (simp add: sql_write_def ledger_wf_def active_ok_def plan_ok_def table_ok_def)

lemma sql_write_map:
  "ledger_wf d \<Longrightarrow> (\<And>r. moves r (g r)) \<Longrightarrow>
     sql_write (map g (db_operations d)) d = Inr (d\<lparr>db_operations := map g (db_operations d)\<rparr>)"
  by (rule sql_write_table_ok) (simp_all add: table_ok_map ledger_wf_def)

lemma find_id:
  assumes "distinct (map r_id rows)" "r \<in> set rows"
  shows "find (\<lambda>x. r_id x = r_id r) rows = Some r"
  using assms by (induction rows) (auto simp: image_iff)

lemma get_row_wf:
  assumes "ledger_wf d"
  shows "get_row i d = Inr r \<longleftrightarrow> r \<in> set (db_operations d) \<and> r_id r = i"
proof -
  have "distinct (map r_id (db_operations d))"
    using assms by (simp add: ledger_wf_def table_ok_def)
  then have "find (\<lambda>x. r_id x = i) (db_operations d) = Some r \<longleftrightarrow>
      r \<in> set (db_operations d) \<and> r_id r = i"
    using find_id by (auto simp: find_Some_iff)
  with assms show ?thesis
    by (auto simp: get_row_def split: option.splits)
qed

lemma get_row_in: "ledger_wf d \<Longrightarrow> r \<in> set (db_operations d) \<Longrightarrow> get_row (r_id r) d = Inr r"
  by (simp add: get_row_wf)

lemma get_row_cases:
  assumes "ledger_wf d"
  obtains (found) r where "get_row i d = Inr r" "r \<in> set (db_operations d)" "r_id r = i"
    | (missing) msg where "get_row i d = Inl (LedgerError msg)"
        "\<forall>r \<in> set (db_operations d). r_id r \<noteq> i"
proof (cases "find (\<lambda>r. r_id r = i) (db_operations d)")
  case None
  then have "get_row i d = Inl (LedgerError (''operation '' @ show_nat i @ '' does not exist''))"
    using assms by (simp add: get_row_def)
  with None show ?thesis
    by (intro missing) (auto simp: find_None_iff)
next
  case (Some r)
  then have "r \<in> set (db_operations d)" "r_id r = i"
    by (auto simp: find_Some_iff)
  with get_row_wf [OF assms] show ?thesis
    by (intro found [of r]) simp_all
qed


section \<open>Updates of rows\<close>

text \<open>
  An update by \<open>g\<close> that logs one event for each row whose state it changes keeps the
  invariant.
\<close>

lemma nonces_ok_map:
  assumes rows: "nonces_ok rows"
    and nonce: "\<And>r. r_nonce (g r) = r_nonce r \<or> r_nonce (g r) = None"
    and pending: "\<And>r. r_state (g r) = PendingConfirmation \<Longrightarrow> g r = r"
  shows "nonces_ok (map g rows)"
proof -
  have "unique_on r_nonce (\<lambda>r. r_nonce r \<noteq> None) (map g rows)"
  proof (rule unique_on_map)
    show "unique_on r_nonce (\<lambda>r. r_nonce r \<noteq> None) rows"
      using rows by (simp add: nonces_ok_def)
    show "r_nonce r \<noteq> None \<and> r_nonce (g r) = r_nonce r" if "r_nonce (g r) \<noteq> None" for r
      using nonce [of r] that by auto
  qed
  moreover have "r_nonce (g r) \<noteq> None \<and> r_nonce_expires_at (g r) \<noteq> None"
    if "r \<in> set rows" "r_state (g r) = PendingConfirmation" for r
    using rows that pending [OF that(2)] by (simp add: nonces_ok_def)
  ultimately show ?thesis
    by (simp add: nonces_ok_def)
qed

lemma audit_ok_update:
  assumes "audit_ok d"
    and ops: "db_operations d' = map g (db_operations d)"
    and ids: "\<And>r. r_id (g r) = r_id r"
    and log: "\<And>r. r \<in> set (db_operations d) \<Longrightarrow>
      trail (r_id r) (db_events d') = trail (r_id r) (db_events d) @
        (if r_state (g r) = r_state r then [] else [(Some (r_state r), r_state (g r))])"
    and edges: "\<And>r. r \<in> set (db_operations d) \<Longrightarrow>
      r_state (g r) = r_state r \<or> r_state (g r) \<in> set (transitions (r_state r))"
    and dom: "\<And>e. e \<in> set (db_events d') \<Longrightarrow>
      e \<in> set (db_events d) \<or> ev_operation e \<in> r_id ` set (db_operations d)"
  shows "audit_ok d'"
proof -
  have "follows None (trail (r_id r) (db_events d')) (Some (r_state (g r)))"
    if r: "r \<in> set (db_operations d)" for r
  proof -
    have "follows None (trail (r_id r) (db_events d)) (Some (r_state r))"
      using assms(1) r by (simp add: audit_ok_def)
    with log [OF r] edges [OF r] show ?thesis
      by (auto simp: follows_snoc edge_def)
  qed
  moreover have "\<forall>e \<in> set (db_events d'). ev_operation e \<in> r_id ` set (db_operations d)"
    using assms(1) dom unfolding audit_ok_def by blast
  ultimately show ?thesis
    using ids by (simp add: audit_ok_def ops image_image)
qed

lemma filter_id:
  "distinct (map r_id rows) \<Longrightarrow> r \<in> set rows \<Longrightarrow>
     filter (\<lambda>x. Q x \<and> r_id x = r_id r) rows = (if Q r then [r] else [])"
proof (induction rows)
  case (Cons x rows)
  then show ?case
  proof (cases "x = r")
    case True
    with Cons have "filter (\<lambda>x. Q x \<and> r_id x = r_id r) rows = []"
      by (auto simp: filter_empty_conv image_iff)
    with True show ?thesis by simp
  next
    case False
    with Cons show ?thesis by (auto simp: image_iff)
  qed
qed simp

lemma wf_distinct: "ledger_wf d \<Longrightarrow> distinct (map r_id (db_operations d))"
  by (simp add: ledger_wf_def table_ok_def)

lemma wf_id_eq:
  "ledger_wf d \<Longrightarrow> x \<in> set (db_operations d) \<Longrightarrow> r \<in> set (db_operations d) \<Longrightarrow>
     r_id x = r_id r \<longleftrightarrow> x = r"
  using wf_distinct by (auto simp: distinct_map inj_on_def)

lemma wf_audit: "ledger_wf d \<Longrightarrow> audit_ok d"
  by (simp add: ledger_wf_def)


section \<open>Expiry\<close>

lemma filter_lapsed_rows:
  assumes "distinct (map r_id rows)" "r \<in> set rows"
  shows "filter (\<lambda>(i, s). i = r_id r) (lapsed_rows now rows) =
    (if lapsed now r then [(r_id r, r_state r)] else [])"
proof -
  have gen: "filter (\<lambda>(i, s). i = r_id r) (map (\<lambda>x. (r_id x, s)) (filter Q rows)) =
      map (\<lambda>x. (r_id x, s)) (filter (\<lambda>x. Q x \<and> r_id x = r_id r) rows)"
    for s :: op_state and Q
    by (induction rows) auto
  have "filter (\<lambda>(i, s). i = r_id r) (map (\<lambda>x. (r_id x, s)) (filter Q rows)) =
      (if Q r then [(r_id r, s)] else [])" for s :: op_state and Q
    by (subst gen, subst filter_id [OF assms]) simp
  moreover have "lapsed now r \<Longrightarrow> r_state r = PendingConfirmation \<or> r_state r = Authorized"
    by (auto simp: lapsed_def)
  ultimately show ?thesis
    by (auto simp: lapsed_rows_def)
qed

lemma lapsed_rows_ids: "fst ` set (lapsed_rows now rows) \<subseteq> r_id ` set rows"
  by (auto simp: lapsed_rows_def)

lemma expire_row_simps [simp]:
  "r_id (expire_row now r) = r_id r"
  "r_nonce (expire_row now r) = r_nonce r"
  "r_state (expire_row now r) = (if lapsed now r then Expired else r_state r)"
  by (simp_all add: expire_row_def)

definition expired_db :: "int \<Rightarrow> db \<Rightarrow> db" where
  "expired_db now d =
     add_expired_events now (lapsed_rows now (db_operations d))
       (d\<lparr>db_operations := map (expire_row now) (db_operations d)\<rparr>)"

lemma expire_lapsed_wf:
  "ledger_wf d \<Longrightarrow>
     expire_lapsed now d = (Inr (map fst (lapsed_rows now (db_operations d))), expired_db now d)"
  by (simp add: expire_lapsed_def transaction_wf sql_write_map moves_expire_row expired_db_def Let_def)

lemma db_operations_expired [simp]:
  "db_operations (expired_db now d) = map (expire_row now) (db_operations d)"
  by (simp add: expired_db_def)

lemma lapsed_not_Expired: "lapsed now r \<Longrightarrow> r_state r \<noteq> Expired"
  by (auto simp: lapsed_def)

lemma ledger_wf_expired: "ledger_wf d \<Longrightarrow> ledger_wf (expired_db now d)"
proof -
  assume wf: "ledger_wf d"
  have "audit_ok (expired_db now d)"
  proof (rule audit_ok_update [OF wf_audit [OF wf]])
    show "trail (r_id r) (db_events (expired_db now d)) = trail (r_id r) (db_events d) @
        (if r_state (expire_row now r) = r_state r then []
         else [(Some (r_state r), r_state (expire_row now r))])"
      if "r \<in> set (db_operations d)" for r
      using filter_lapsed_rows [OF wf_distinct [OF wf] that, of now]
      by (auto simp: expired_db_def trail_add_expired_events dest: lapsed_not_Expired)
    show "e \<in> set (db_events d) \<or> ev_operation e \<in> r_id ` set (db_operations d)"
      if e: "e \<in> set (db_events (expired_db now d))" for e
    proof -
      have "ev_operation e \<in> ev_operation ` set (db_events d) \<union>
          fst ` set (lapsed_rows now (db_operations d))"
        using e events_add_expired_events [of now "lapsed_rows now (db_operations d)"
            "d\<lparr>db_operations := map (expire_row now) (db_operations d)\<rparr>"]
        by (fastforce simp: expired_db_def)
      then show ?thesis
        using lapsed_rows_ids [of now "db_operations d"] wf_audit [OF wf]
        by (auto simp: audit_ok_def)
    qed
    show "r_state (expire_row now r) = r_state r \<or>
        r_state (expire_row now r) \<in> set (transitions (r_state r))" for r
      using moves_expire_row [of r now] by (auto simp: moves_def)
  qed simp_all
  moreover have "nonces_ok (map (expire_row now) (db_operations d))"
    using wf by (auto simp: ledger_wf_def expire_row_def intro!: nonces_ok_map split: if_splits)
  ultimately show ?thesis
    using wf by (auto simp: ledger_wf_def expired_db_def intro!: table_ok_map moves_expire_row)
qed

end
