(* ===== verification/Ledger_Run.thy ===== *)
theory Ledger_Run
  imports Ledger_Facts
begin

text \<open>
  Confirmation, transition and intake keep the ledger's invariant; the runs of the ledger
  as a step relation; and the interface through which the executor uses the ledger, with
  the facts that follow from it alone.
\<close>


section \<open>Confirmation\<close>

lemma confirm_row_simps [simp]:
  "r_id (confirm_row now n a w r) = r_id r"
  "r_state (confirm_row now n a w r) = (if confirmable now n r then Authorized else r_state r)"
  by (simp_all add: confirm_row_def)

lemma confirmable_state: "confirmable now n r \<Longrightarrow> r_state r = PendingConfirmation"
  by (simp add: confirmable_def)

lemma confirmable_unique:
  assumes "ledger_wf d" "r \<in> set (db_operations d)" "s \<in> set (db_operations d)"
    and "confirmable now n r" "confirmable now' n s"
  shows "r = s"
proof -
  have "unique_on r_nonce (\<lambda>r. r_nonce r \<noteq> None) (db_operations d)"
    using assms(1) by (simp add: ledger_wf_def nonces_ok_def)
  from unique_on_eq [OF this assms(2,3)] show ?thesis
    using assms(4,5) by (simp add: confirmable_def)
qed

definition confirmed_db :: "int \<Rightarrow> string \<Rightarrow> string \<Rightarrow> int \<Rightarrow> nat \<Rightarrow> db \<Rightarrow> db" where
  "confirmed_db now nonce actor window i d =
     add_event now i (Some PendingConfirmation) Authorized (Some actor)
       (d\<lparr>db_operations := map (confirm_row now nonce actor window) (db_operations d)\<rparr>)"

lemma confirm_wf_cases:
  assumes "ledger_wf d"
  obtains (accepted) r where "r \<in> set (db_operations d)" "confirmable now nonce r"
      "confirm now nonce actor window d =
         (Inr (r_id r), confirmed_db now nonce actor window (r_id r) d)"
    | (rejected) "\<forall>r \<in> set (db_operations d). \<not> confirmable now nonce r"
      "confirm now nonce actor window d =
         (Inl (ConfirmationRejected ''nonce missing, already consumed, or expired''), d)"
proof (cases "filter (confirmable now nonce) (db_operations d)")
  case Nil
  with assms show ?thesis
    by (intro rejected)
       (simp_all add: confirm_def transaction_wf sql_write_map moves_confirm_row filter_empty_conv)
next
  case (Cons r rest)
  then have "r \<in> set (db_operations d) \<and> confirmable now nonce r"
    by (auto simp: filter_eq_Cons_iff)
  with assms Cons show ?thesis
    by (intro accepted [of r])
       (simp_all add: confirm_def transaction_wf sql_write_map moves_confirm_row confirmed_db_def)
qed

lemma ledger_wf_confirmed:
  assumes wf: "ledger_wf d" and r: "r \<in> set (db_operations d)" "confirmable now nonce r"
  shows "ledger_wf (confirmed_db now nonce actor window (r_id r) d)"
proof -
  have ids: "r_id x = r_id r \<longleftrightarrow> x = r" if "x \<in> set (db_operations d)" for x
    using wf_id_eq [OF wf that r(1)] .
  have "audit_ok (confirmed_db now nonce actor window (r_id r) d)"
  proof (rule audit_ok_update [OF wf_audit [OF wf]])
    show "trail (r_id x) (db_events (confirmed_db now nonce actor window (r_id r) d)) =
        trail (r_id x) (db_events d) @
        (if r_state (confirm_row now nonce actor window x) = r_state x then []
         else [(Some (r_state x), r_state (confirm_row now nonce actor window x))])"
      if x: "x \<in> set (db_operations d)" for x
      using ids [OF x] r confirmable_unique [OF wf x r(1) _ r(2)]
      by (auto simp: confirmed_db_def dest: confirmable_state)
    show "r_state (confirm_row now nonce actor window x) = r_state x \<or>
        r_state (confirm_row now nonce actor window x) \<in> set (transitions (r_state x))" for x
      using moves_confirm_row by (simp add: moves_def)
    show "e \<in> set (db_events d) \<or> ev_operation e \<in> r_id ` set (db_operations d)"
      if "e \<in> set (db_events (confirmed_db now nonce actor window (r_id r) d))" for e
      using that r(1) by (auto simp: confirmed_db_def add_event_def)
  qed (simp_all add: confirmed_db_def)
  moreover have "nonces_ok (map (confirm_row now nonce actor window) (db_operations d))"
    using wf by (auto simp: ledger_wf_def confirm_row_def intro!: nonces_ok_map split: if_splits)
  ultimately show ?thesis
    using wf by (auto simp: ledger_wf_def confirmed_db_def intro!: table_ok_map moves_confirm_row)
qed

lemma ledger_wf_confirm:
  assumes "ledger_wf d"
  shows "ledger_wf (snd (confirm now nonce actor window d))"
  using assms
  by (cases rule: confirm_wf_cases [OF assms, of now nonce actor window])
     (simp_all add: ledger_wf_confirmed)


section \<open>Transitions\<close>

definition moved_db ::
    "int \<Rightarrow> nat \<Rightarrow> op_state \<Rightarrow> op_state \<Rightarrow> string option \<Rightarrow> bool option \<Rightarrow> db \<Rightarrow> db" where
  "moved_db now i from to detail prior d =
     add_event now i (Some from) to detail
       (d\<lparr>db_operations := map (move_row now i from to detail prior) (db_operations d)\<rparr>)"

lemma move_row_simps [simp]:
  "r_id (move_row now i from to detail prior r) = r_id r"
  "r_nonce (move_row now i from to detail prior r) = r_nonce r"
  "r_state (move_row now i from to detail prior r) =
     (if r_id r = i \<and> r_state r = from then to else r_state r)"
  by (simp_all add: move_row_def)

lemma transition_wf:
  assumes wf: "ledger_wf d" and r: "r \<in> set (db_operations d)"
  shows "transition now (r_id r) to detail prior expected d =
    (if expected \<noteq> None \<and> expected \<noteq> Some (r_state r)
     then (Inl (InvalidTransition (''expected '' @ quoted (state_name (the expected)) @
             '', found '' @ quoted (state_name (r_state r)))), d)
     else if to \<notin> set (transitions (r_state r))
     then (Inl (InvalidTransition (quoted (state_name (r_state r)) @
             '' cannot transition to '' @ quoted (state_name to))), d)
     else (Inr (), moved_db now (r_id r) (r_state r) to detail prior d))"
proof -
  have "filter (\<lambda>x. r_state x = r_state r \<and> r_id x = r_id r) (db_operations d) = [r]"
    using filter_id [OF wf_distinct [OF wf] r, of "\<lambda>x. r_state x = r_state r"] by simp
  then have one: "filter (\<lambda>x. r_id x = r_id r \<and> r_state x = r_state r) (db_operations d) = [r]"
    by (simp add: conj_commute)
  show ?thesis
    using wf get_row_in [OF wf r] one
    by (simp add: transition_def transaction_wf sql_write_map moves_move_row moved_db_def)
qed

lemma transition_missing:
  assumes "ledger_wf d" "\<forall>r \<in> set (db_operations d). r_id r \<noteq> i"
  shows "\<exists>msg. transition now i to detail prior expected d = (Inl (LedgerError msg), d)"
  using assms by (cases rule: get_row_cases [OF assms(1), of i]) (auto simp: transition_def)

lemma ledger_wf_moved:
  assumes wf: "ledger_wf d" and r: "r \<in> set (db_operations d)"
    and to: "to \<in> set (transitions (r_state r))"
  shows "ledger_wf (moved_db now (r_id r) (r_state r) to detail prior d)"
proof -
  have ids: "r_id x = r_id r \<longleftrightarrow> x = r" if "x \<in> set (db_operations d)" for x
    using wf_id_eq [OF wf that r] .
  have neq: "to \<noteq> r_state r" "to \<noteq> PendingConfirmation"
    using transitions_target [OF to] by auto
  have "audit_ok (moved_db now (r_id r) (r_state r) to detail prior d)"
  proof (rule audit_ok_update [OF wf_audit [OF wf]])
    show "trail (r_id x) (db_events (moved_db now (r_id r) (r_state r) to detail prior d)) =
        trail (r_id x) (db_events d) @
        (if r_state (move_row now (r_id r) (r_state r) to detail prior x) = r_state x then []
         else [(Some (r_state x), r_state (move_row now (r_id r) (r_state r) to detail prior x))])"
      if x: "x \<in> set (db_operations d)" for x
      using ids [OF x] neq by (auto simp: moved_db_def)
    show "r_state (move_row now (r_id r) (r_state r) to detail prior x) = r_state x \<or>
        r_state (move_row now (r_id r) (r_state r) to detail prior x)
          \<in> set (transitions (r_state x))" for x
      using to by simp
    show "e \<in> set (db_events d) \<or> ev_operation e \<in> r_id ` set (db_operations d)"
      if "e \<in> set (db_events (moved_db now (r_id r) (r_state r) to detail prior d))" for e
      using that r by (auto simp: moved_db_def add_event_def)
  qed (simp_all add: moved_db_def)
  moreover have
    "nonces_ok (map (move_row now (r_id r) (r_state r) to detail prior) (db_operations d))"
  proof (rule nonces_ok_map)
    show "nonces_ok (db_operations d)"
      using wf by (simp add: ledger_wf_def)
    show "move_row now (r_id r) (r_state r) to detail prior x = x"
      if "r_state (move_row now (r_id r) (r_state r) to detail prior x) = PendingConfirmation" for x
    proof (cases "r_id x = r_id r \<and> r_state x = r_state r")
      case True
      with that neq show ?thesis by simp
    next
      case False
      then show ?thesis by (simp only: move_row_def if_False)
    qed
  qed simp
  ultimately show ?thesis
    using wf to by (auto simp: ledger_wf_def moved_db_def intro!: table_ok_map moves_move_row)
qed

lemma ledger_wf_transition:
  assumes wf: "ledger_wf d"
  shows "ledger_wf (snd (transition now i to detail prior expected d))"
proof (cases "\<exists>r \<in> set (db_operations d). r_id r = i")
  case True
  then show ?thesis
    using wf by (auto simp: transition_wf ledger_wf_moved)
next
  case False
  then show ?thesis
    using wf transition_missing [OF wf, of i now to detail prior expected] by auto
qed


section \<open>Intake\<close>

lemma next_id_greater: "r \<in> set rows \<Longrightarrow> r_id r < next_id rows"
proof -
  assume "r \<in> set rows"
  then have "r_id r \<le> Max (set (0 # map r_id rows))"
    by simp
  also have "\<dots> = fold max (map r_id rows) 0"
    by (simp only: Max.set_eq_fold)
  finally show ?thesis
    by (simp add: next_id_def)
qed

definition used_nonces :: "db \<Rightarrow> string set" where
  "used_nonces d = {n. \<exists>r \<in> set (db_operations d). r_nonce r = Some n}"

definition requested_db :: "int \<Rightarrow> string \<Rightarrow> int \<Rightarrow> intake \<Rightarrow> db \<Rightarrow> db" where
  "requested_db now nonce ttl q d =
     add_event now (next_id (db_operations d)) None PendingConfirmation None
       (d\<lparr>db_operations := db_operations d @
            [new_row now nonce ttl q (next_id (db_operations d))]\<rparr>)"

lemma insert_request_wf:
  assumes wf: "ledger_wf d"
  shows "insert_request now nonce ttl q d =
    (case find (\<lambda>r. r_plan_key r = in_plan_key q \<and> r_state r \<noteq> Expired) (db_operations d) of
       Some dup \<Rightarrow> Inl (LedgerError (''idempotency key already recorded (state: '' @
                    state_name (r_state dup) @ '')''))
     | None \<Rightarrow>
         if \<exists>r \<in> set (db_operations d). r_machine_id r = in_machine_id q \<and> \<not> terminal (r_state r)
         then Inl (LedgerError ''another operation is already active for this machine'')
         else Inr ((next_id (db_operations d), nonce), requested_db now nonce ttl q d))"
proof -
  have "unique_on r_machine_id (\<lambda>r. \<not> terminal (r_state r)) (db_operations d)"
    "unique_on r_plan_key (\<lambda>r. r_state r \<noteq> Expired) (db_operations d)"
    using wf by (simp_all add: ledger_wf_def table_ok_def)
  with wf have insert: "sql_write (db_operations d @ [new_row now nonce ttl q i]) d =
      (if (\<exists>r \<in> set (db_operations d). r_machine_id r = in_machine_id q \<and> \<not> terminal (r_state r)) \<or>
          (\<exists>r \<in> set (db_operations d). r_plan_key r = in_plan_key q \<and> r_state r \<noteq> Expired)
       then Inl IntegrityError
       else Inr (d\<lparr>db_operations := db_operations d @ [new_row now nonce ttl q i]\<rparr>))" for i
    by (auto simp: sql_write_def ledger_wf_def active_ok_def plan_ok_def unique_on_snoc new_row_def
        terminal_states_def)
  show ?thesis
  proof (cases "find (\<lambda>r. r_plan_key r = in_plan_key q \<and> r_state r \<noteq> Expired) (db_operations d)")
    case None
    then have "\<not> (\<exists>r \<in> set (db_operations d). r_plan_key r = in_plan_key q \<and> r_state r \<noteq> Expired)"
      by (auto simp: find_None_iff)
    with None show ?thesis
      by (auto simp: insert_request_def insert requested_db_def Let_def)
  next
    case (Some dup)
    then show ?thesis
      by (simp add: insert_request_def)
  qed
qed

lemma ledger_wf_requested:
  assumes wf: "ledger_wf d" and op: "in_operation q \<in> set supported_operations"
    and nonce: "nonce \<notin> used_nonces d"
    and free: "\<not> (\<exists>r \<in> set (db_operations d). r_machine_id r = in_machine_id q \<and> \<not> terminal (r_state r))"
    and new: "\<not> (\<exists>r \<in> set (db_operations d). r_plan_key r = in_plan_key q \<and> r_state r \<noteq> Expired)"
  shows "ledger_wf (requested_db now nonce ttl q d)"
proof -
  define i where "i = next_id (db_operations d)"
  have fresh: "i \<notin> r_id ` set (db_operations d)"
    using next_id_greater by (fastforce simp: i_def)
  then have none: "trail i (db_events d) = []"
    using wf_audit [OF wf] by (auto simp: audit_ok_def trail_def filter_empty_conv)
  have "audit_ok (requested_db now nonce ttl q d)"
    using wf_audit [OF wf] fresh none
    by (fastforce simp: audit_ok_def requested_db_def i_def [symmetric] new_row_def edge_def
        add_event_def trail_def)
  moreover have "table_ok (db_operations (requested_db now nonce ttl q d))"
    using wf op fresh free new unfolding ledger_wf_def table_ok_def
    by (auto simp: requested_db_def i_def [symmetric] unique_on_snoc new_row_def row_supported_def
        supported_state_def) (simp add: i_def next_id_def)
  moreover have "nonces_ok (db_operations (requested_db now nonce ttl q d))"
    using wf nonce unfolding ledger_wf_def nonces_ok_def
    by (fastforce simp: requested_db_def unique_on_snoc new_row_def used_nonces_def)
  ultimately show ?thesis
    using wf by (simp add: ledger_wf_def requested_db_def)
qed

lemma used_nonces_expired: "used_nonces (expired_db now d) = used_nonces d"
  by (auto simp: used_nonces_def)

lemma request_wf:
  assumes "ledger_wf d" "in_operation q \<in> set supported_operations"
  shows "request now nonce ttl q d =
    (case insert_request now nonce ttl q (expired_db now d) of
       Inl e \<Rightarrow> (Inl e, expired_db now d)
     | Inr (x, d') \<Rightarrow> (Inr x, d'))"
  using assms
  by (simp add: request_def expire_lapsed_wf transaction_wf ledger_wf_expired)

lemma insert_request_cases:
  assumes "ledger_wf d"
  obtains (refused) msg where "insert_request now nonce ttl q d = Inl (LedgerError msg)"
      "(\<exists>r \<in> set (db_operations d). r_plan_key r = in_plan_key q \<and> r_state r \<noteq> Expired) \<or>
       (\<exists>r \<in> set (db_operations d). r_machine_id r = in_machine_id q \<and> \<not> terminal (r_state r))"
    | (recorded)
      "insert_request now nonce ttl q d =
         Inr ((next_id (db_operations d), nonce), requested_db now nonce ttl q d)"
      "\<not> (\<exists>r \<in> set (db_operations d). r_plan_key r = in_plan_key q \<and> r_state r \<noteq> Expired)"
      "\<not> (\<exists>r \<in> set (db_operations d). r_machine_id r = in_machine_id q \<and> \<not> terminal (r_state r))"
proof (cases "find (\<lambda>r. r_plan_key r = in_plan_key q \<and> r_state r \<noteq> Expired) (db_operations d)")
  case None
  then have new: "\<not> (\<exists>r \<in> set (db_operations d). r_plan_key r = in_plan_key q \<and> r_state r \<noteq> Expired)"
    by (auto simp: find_None_iff)
  show ?thesis
  proof (cases "\<exists>r \<in> set (db_operations d). r_machine_id r = in_machine_id q \<and> \<not> terminal (r_state r)")
    case True
    with None show ?thesis
      using insert_request_wf [OF assms, of now nonce ttl q] by (intro refused) simp_all
  next
    case False
    with None new show ?thesis
      using insert_request_wf [OF assms, of now nonce ttl q] by (intro recorded) simp_all
  qed
next
  case (Some dup)
  then have "dup \<in> set (db_operations d)" "r_plan_key dup = in_plan_key q \<and> r_state dup \<noteq> Expired"
    by (auto simp: find_Some_iff)
  with Some show ?thesis
    using insert_request_wf [OF assms, of now nonce ttl q] by (intro refused) (simp, blast)
qed

lemma ledger_wf_request:
  assumes wf: "ledger_wf d" and nonce: "nonce \<notin> used_nonces d"
  shows "ledger_wf (snd (request now nonce ttl q d))"
proof (cases "in_operation q \<in> set supported_operations")
  case True
  have wf': "ledger_wf (expired_db now d)"
    using wf by (rule ledger_wf_expired)
  from wf' show ?thesis
  proof (cases rule: insert_request_cases [of _ now nonce ttl q])
    case (refused msg)
    with wf True wf' show ?thesis by (simp add: request_wf)
  next
    case recorded
    then have "ledger_wf (requested_db now nonce ttl q (expired_db now d))"
      using wf' True nonce by (intro ledger_wf_requested) (auto simp: used_nonces_expired)
    with wf True recorded(1) show ?thesis by (simp add: request_wf)
  qed
next
  case False
  with wf show ?thesis by (simp add: request_def)
qed

lemma ledger_wf_expire: "ledger_wf d \<Longrightarrow> ledger_wf (snd (expire_lapsed now d))"
  by (simp add: expire_lapsed_wf ledger_wf_expired)

lemma open_ledger_wf: "ledger_wf d \<Longrightarrow> open_ledger readonly d = (Inr (), d)"
  by (auto simp: open_ledger_def migrate_def rebuild_active_index_def transaction_wf
      ledger_wf_def [of d] plan_ok_def table_ok_def Let_def)

end
