(* ===== verification/Ledger_Spec.thy ===== *)
theory Ledger_Spec
  imports Ledger_Run
begin

text \<open>
  What the ledger promises.  A run of the ledger is any sequence of its methods, each with
  any clock reading and any arguments, on a database that starts empty; a request mints a
  nonce that no row holds.  The guarantees are invariants of all runs.  The interface
  \<open>op_ledger\<close> is what a driver of one operation relies on.
\<close>


section \<open>Runs\<close>

definition fresh_db :: db where
  "fresh_db = \<lparr>db_user_version = 0, db_has_operations = False, db_layout_ok = False,
     db_operations = [], db_events = [], db_active_index = None, db_plan_index = False\<rparr>"

text \<open>A step is labelled with the nonce it mints, if it is a request.\<close>

inductive ledger_step :: "string option \<Rightarrow> db \<Rightarrow> db \<Rightarrow> bool" where
  step_open: "ledger_step None d (snd (open_ledger readonly d))"
| step_request: "nonce \<notin> used_nonces d \<Longrightarrow>
    ledger_step (Some nonce) d (snd (request now nonce ttl q d))"
| step_confirm: "ledger_step None d (snd (confirm now nonce actor window d))"
| step_transition: "ledger_step None d (snd (transition now i to detail prior expected d))"
| step_expire: "ledger_step None d (snd (expire_lapsed now d))"

inductive ledger_run :: "string option list \<Rightarrow> db \<Rightarrow> db \<Rightarrow> bool" where
  run_done: "ledger_run [] d d"
| run_step: "ledger_step l d d' \<Longrightarrow> ledger_run ls d' d'' \<Longrightarrow> ledger_run (l # ls) d d''"

definition ledger_reachable :: "db \<Rightarrow> bool" where
  "ledger_reachable d \<longleftrightarrow> (\<exists>ls. ledger_run ls (snd (open_ledger False fresh_db)) d)"

inductive_cases ledger_stepE: "ledger_step l d d'"

lemma ledger_wf_fresh: "ledger_wf (snd (open_ledger False fresh_db))"
  by (simp add: open_ledger_def migrate_def rebuild_active_index_def transaction_def fresh_db_def
      require_supported_def active_ok_def plan_ok_def ledger_wf_def table_ok_def nonces_ok_def
      audit_ok_def Let_def)

lemma ledger_wf_step: "ledger_step l d d' \<Longrightarrow> ledger_wf d \<Longrightarrow> ledger_wf d'"
  by (induction rule: ledger_step.induct)
     (simp_all add: open_ledger_wf ledger_wf_request ledger_wf_confirm ledger_wf_transition
        ledger_wf_expire)

lemma ledger_wf_ledger_run: "ledger_run ls d d' \<Longrightarrow> ledger_wf d \<Longrightarrow> ledger_wf d'"
  by (induction rule: ledger_run.induct) (auto dest: ledger_wf_step)

lemma ledger_reachable_wf: "ledger_reachable d \<Longrightarrow> ledger_wf d"
  using ledger_wf_ledger_run ledger_wf_fresh by (auto simp: ledger_reachable_def)


section \<open>What one method does to the rows\<close>

text \<open>
  Every method leaves the rows alone, moves them in place, or (intake) moves them and adds
  one; rows in a terminal state and nonces are never brought back.
\<close>

definition advances :: "op_row \<Rightarrow> op_row \<Rightarrow> bool" where
  "advances r r' \<longleftrightarrow> moves r r' \<and> (terminal (r_state r) \<longrightarrow> r' = r) \<and>
     (r_nonce r' = r_nonce r \<or> r_nonce r' = None)"

lemma advances_refl [simp]: "advances r r"
  by (simp add: advances_def)

lemma advances_expire_row: "advances r (expire_row now r)"
  unfolding advances_def using moves_expire_row [of r now]
  by (auto simp: expire_row_def lapsed_def terminal_states_def)

lemma advances_confirm_row: "advances r (confirm_row now n a w r)"
  unfolding advances_def using moves_confirm_row [of r now n a w]
  by (auto simp: confirm_row_def confirmable_def terminal_states_def)

lemma advances_move_row:
  assumes "to \<in> set (transitions from)"
  shows "advances r (move_row now i from to detail prior r)"
proof (cases "r_id r = i \<and> r_state r = from")
  case True
  with assms have "\<not> terminal (r_state r)"
    by (auto dest: transitions_nonterminal)
  with assms show ?thesis
    by (simp add: advances_def moves_move_row)
next
  case False
  then have "move_row now i from to detail prior r = r"
    by (simp only: move_row_def if_False)
  then show ?thesis by simp
qed

definition advanced :: "db \<Rightarrow> db \<Rightarrow> bool" where
  "advanced d d' \<longleftrightarrow> (\<exists>g new. (\<forall>r. advances r (g r)) \<and>
     db_operations d' = map g (db_operations d) @ new)"

lemma advancedI:
  "(\<And>r. advances r (g r)) \<Longrightarrow> db_operations d' = map g (db_operations d) @ new \<Longrightarrow> advanced d d'"
  unfolding advanced_def by blast

lemma advanced_refl [simp]: "advanced d d"
  by (rule advancedI [where g = "\<lambda>r. r" and new = "[]"]) simp_all

lemma advanced_request: "ledger_wf d \<Longrightarrow> advanced d (snd (request now nonce ttl q d))"
proof (cases "in_operation q \<in> set supported_operations")
  case True
  assume wf: "ledger_wf d"
  from ledger_wf_expired [OF wf, of now] show ?thesis
  proof (cases rule: insert_request_cases [of _ now nonce ttl q])
    case (refused msg)
    with wf True show ?thesis
      by (intro advancedI [where g = "expire_row now" and new = "[]"])
         (simp_all add: request_wf advances_expire_row)
  next
    case recorded
    with wf True show ?thesis
      by (intro advancedI [where g = "expire_row now"])
         (simp_all add: request_wf advances_expire_row requested_db_def)
  qed
qed (simp add: request_def)

lemma advanced_confirm: "ledger_wf d \<Longrightarrow> advanced d (snd (confirm now nonce actor window d))"
  by (cases rule: confirm_wf_cases [of d now nonce actor window])
     (auto intro!: advancedI [where new = "[]"] advances_confirm_row simp: confirmed_db_def)

lemma advanced_transition:
  assumes wf: "ledger_wf d"
  shows "advanced d (snd (transition now i to detail prior expected d))"
proof (cases "\<exists>r \<in> set (db_operations d). r_id r = i")
  case True
  then obtain r where r: "r \<in> set (db_operations d)" "r_id r = i" by blast
  have "advanced d (moved_db now i (r_state r) to detail prior d)"
    if "to \<in> set (transitions (r_state r))"
    using that
    by (intro advancedI [where g = "move_row now i (r_state r) to detail prior" and new = "[]"])
       (simp_all add: advances_move_row moved_db_def)
  with r show ?thesis
    using transition_wf [OF wf r(1), of now to detail prior expected] by simp
next
  case False
  with transition_missing [OF wf, of i now to detail prior expected] show ?thesis by auto
qed

lemma advanced_expire: "ledger_wf d \<Longrightarrow> advanced d (snd (expire_lapsed now d))"
  by (intro advancedI [where g = "expire_row now" and new = "[]"])
     (simp_all add: expire_lapsed_wf advances_expire_row)

lemma ledger_step_advanced: "ledger_step l d d' \<Longrightarrow> ledger_wf d \<Longrightarrow> advanced d d'"
  by (induction rule: ledger_step.induct)
     (simp_all add: open_ledger_wf advanced_request advanced_confirm advanced_transition
        advanced_expire)

lemma advanced_terminal:
  "advanced d d' \<Longrightarrow> r \<in> set (db_operations d) \<Longrightarrow> terminal (r_state r) \<Longrightarrow>
     r \<in> set (db_operations d')"
  unfolding advanced_def advances_def by force

lemma ledger_run_terminal:
  "ledger_run ls d d' \<Longrightarrow> ledger_wf d \<Longrightarrow> r \<in> set (db_operations d) \<Longrightarrow> terminal (r_state r) \<Longrightarrow>
     r \<in> set (db_operations d')"
  by (induction rule: ledger_run.induct)
     (auto dest: ledger_wf_step ledger_step_advanced advanced_terminal)

text \<open>Nonces: only a request puts one into a row.\<close>

lemma used_nonces_request:
  assumes wf: "ledger_wf d"
  shows "used_nonces (snd (request now nonce ttl q d)) \<subseteq> insert nonce (used_nonces d)"
proof (cases "in_operation q \<in> set supported_operations")
  case True
  from ledger_wf_expired [OF wf, of now] show ?thesis
  proof (cases rule: insert_request_cases [of _ now nonce ttl q])
    case (refused msg)
    with wf True show ?thesis
      by (auto simp: request_wf used_nonces_expired)
  next
    case recorded
    have "used_nonces (requested_db now nonce ttl q e) = insert nonce (used_nonces e)" for e
      by (auto simp: requested_db_def used_nonces_def new_row_def)
    with wf True recorded(1) show ?thesis
      by (simp add: request_wf used_nonces_expired)
  qed
qed (auto simp: request_def)

lemma used_nonces_map:
  assumes "db_operations d' = map g (db_operations d)" "\<And>r. advances r (g r)"
  shows "used_nonces d' \<subseteq> used_nonces d"
proof
  fix n
  assume "n \<in> used_nonces d'"
  then obtain r where "r \<in> set (db_operations d)" "r_nonce (g r) = Some n"
    by (auto simp: used_nonces_def assms(1))
  moreover have "r_nonce (g r) = r_nonce r \<or> r_nonce (g r) = None" for r
    using assms(2) by (simp add: advances_def)
  ultimately show "n \<in> used_nonces d"
    unfolding used_nonces_def by (metis (mono_tags) mem_Collect_eq option.distinct(1))
qed

lemma used_nonces_step:
  assumes "ledger_step l d d'" "ledger_wf d"
  shows "used_nonces d' \<subseteq> used_nonces d \<union> set_option l"
  using assms
proof (cases rule: ledger_step.cases)
  case (step_transition now i to detail prior expected)
  show ?thesis
  proof (cases "\<exists>r \<in> set (db_operations d). r_id r = i")
    case True
    then obtain r where r: "r \<in> set (db_operations d)" "r_id r = i" by blast
    have "used_nonces (moved_db now i (r_state r) to detail prior d) \<subseteq> used_nonces d"
      if "to \<in> set (transitions (r_state r))"
      using that by (intro used_nonces_map [where g = "move_row now i (r_state r) to detail prior"])
        (simp_all add: moved_db_def advances_move_row)
    with assms(2) step_transition r show ?thesis
      using transition_wf [OF assms(2) r(1), of now to detail prior expected] by auto
  next
    case False
    with transition_missing [OF assms(2), of i now to detail prior expected] step_transition
    show ?thesis by auto
  qed
next
  case (step_confirm now nonce actor window)
  have "used_nonces (confirmed_db now nonce actor window i d) \<subseteq> used_nonces d" for i
    by (rule used_nonces_map [where g = "confirm_row now nonce actor window"])
       (simp_all add: confirmed_db_def advances_confirm_row)
  then show ?thesis
    using step_confirm
    by (cases rule: confirm_wf_cases [OF assms(2), of now nonce actor window]) auto
qed (use assms(2) used_nonces_request in \<open>auto simp: open_ledger_wf expire_lapsed_wf used_nonces_expired\<close>)

lemma used_nonces_run:
  "ledger_run ls d d' \<Longrightarrow> ledger_wf d \<Longrightarrow>
     used_nonces d' \<subseteq> used_nonces d \<union> {n. Some n \<in> set ls}"
proof (induction rule: ledger_run.induct)
  case (run_step l d d' ls d'')
  then show ?case
    using used_nonces_step [OF run_step.hyps(1)] ledger_wf_step [OF run_step.hyps(1)] by fastforce
qed simp

lemma confirm_unused:
  assumes "ledger_wf d" "n \<notin> used_nonces d"
  shows "confirm now n actor window d =
    (Inl (ConfirmationRejected ''nonce missing, already consumed, or expired''), d)"
  using assms(2)
  by (cases rule: confirm_wf_cases [OF assms(1), of now n actor window])
     (auto simp: used_nonces_def confirmable_def)

lemma confirmed_nonce_unused:
  assumes wf: "ledger_wf d" and "r \<in> set (db_operations d)" "confirmable now n r"
  shows "n \<notin> used_nonces (confirmed_db now n actor window i d)"
proof -
  have "r_nonce (confirm_row now n actor window s) \<noteq> Some n" if s: "s \<in> set (db_operations d)" for s
  proof (cases "confirmable now n s")
    case True
    then show ?thesis by (simp add: confirm_row_def)
  next
    case False
    have "r_nonce s \<noteq> Some n"
    proof
      assume "r_nonce s = Some n"
      moreover have uniq: "unique_on r_nonce (\<lambda>r. r_nonce r \<noteq> None) (db_operations d)"
        using wf by (simp add: ledger_wf_def nonces_ok_def)
      ultimately have "s = r"
        using assms(3) unique_on_eq [OF uniq s assms(2)] by (simp add: confirmable_def)
      with False assms(3) show False by simp
    qed
    with False show ?thesis by (simp add: confirm_row_def)
  qed
  then show ?thesis
    by (auto simp: used_nonces_def confirmed_db_def)
qed


section \<open>The interface of a driver\<close>

text \<open>
  A driver of operations sees the state of each operation and moves it.  The contract: a
  move succeeds exactly along an edge of the transition table, and then changes that
  operation's state only.
\<close>

locale op_ledger =
  fixes wf :: "'d \<Rightarrow> bool"
    and state_of :: "'d \<Rightarrow> nat \<Rightarrow> op_state option"
    and move :: "'x \<Rightarrow> nat \<Rightarrow> op_state \<Rightarrow> 'd \<Rightarrow> 'd option"
  assumes move_some: "wf d \<Longrightarrow> move x i t d = Some d' \<Longrightarrow>
      wf d' \<and> state_of d' = (state_of d)(i \<mapsto> t) \<and>
      (\<exists>s. state_of d i = Some s \<and> t \<in> set (transitions s))"
    and move_enabled: "wf d \<Longrightarrow> state_of d i = Some s \<Longrightarrow> t \<in> set (transitions s) \<Longrightarrow>
      \<exists>d'. move x i t d = Some d'"

text \<open>Any sequence of moves, the refused ones leaving the ledger as it is.\<close>

fun run_moves ::
    "('x \<Rightarrow> nat \<Rightarrow> op_state \<Rightarrow> 'd \<Rightarrow> 'd option) \<Rightarrow> ('x \<times> nat \<times> op_state) list \<Rightarrow> 'd \<Rightarrow> 'd" where
  "run_moves move [] d = d"
| "run_moves move ((x, i, t) # ms) d =
     (case move x i t d of None \<Rightarrow> run_moves move ms d | Some d' \<Rightarrow> run_moves move ms d')"

context op_ledger
begin

lemma run_wf: "wf d \<Longrightarrow> wf (run_moves move ms d)"
proof (induction ms arbitrary: d)
  case Nil
  then show ?case by simp
next
  case (Cons m ms)
  obtain x i t where m: "m = (x, i, t)" by (cases m)
  with Cons show ?case
    by (auto split: option.split dest: move_some)
qed

lemma run_path:
  "wf d \<Longrightarrow> state_of d i = Some s \<Longrightarrow>
     \<exists>s'. state_of (run_moves move ms d) i = Some s' \<and> (\<lambda>s t. t \<in> set (transitions s))\<^sup>*\<^sup>* s s'"
proof (induction ms arbitrary: d s)
  case Nil
  then show ?case by simp
next
  case (Cons m ms)
  obtain x j t where m: "m = (x, j, t)" by (cases m)
  show ?case
  proof (cases "move x j t d")
    case None
    with Cons m show ?thesis by simp
  next
    case (Some d')
    with Cons.prems move_some have d': "wf d'" "state_of d' = (state_of d)(j \<mapsto> t)"
      and edge: "j = i \<Longrightarrow> t \<in> set (transitions s)" by fastforce+
    then obtain u where "state_of d' i = Some u" "u = s \<or> u \<in> set (transitions s)"
      using Cons.prems(2) by (cases "j = i") auto
    with Cons.IH [OF d'(1)] show ?thesis
      using Some m by (auto intro: converse_rtranclp_into_rtranclp)
  qed
qed

lemma run_terminal:
  assumes "wf d" "state_of d i = Some s" "terminal s"
  shows "state_of (run_moves move ms d) i = Some s"
proof -
  from run_path [OF assms(1,2), of ms] obtain s' where
    s': "state_of (run_moves move ms d) i = Some s'"
      "(\<lambda>s t. t \<in> set (transitions s))\<^sup>*\<^sup>* s s'" by blast
  from s'(2) assms(3) have "s' = s"
    by (cases rule: converse_rtranclpE) auto
  with s'(1) show ?thesis by simp
qed

end

definition state_of :: "db \<Rightarrow> nat \<Rightarrow> op_state option" where
  "state_of d i = map_option r_state (find (\<lambda>r. r_id r = i) (db_operations d))"

definition ledger_move ::
    "int \<times> string option \<times> bool option \<Rightarrow> nat \<Rightarrow> op_state \<Rightarrow> db \<Rightarrow> db option" where
  "ledger_move = (\<lambda>(now, detail, prior) i t d.
     case transition now i t detail prior None d of (Inl _, _) \<Rightarrow> None | (Inr _, d') \<Rightarrow> Some d')"

lemma state_of_row:
  "ledger_wf d \<Longrightarrow> r \<in> set (db_operations d) \<Longrightarrow> state_of d (r_id r) = Some (r_state r)"
  using find_id [OF wf_distinct] by (simp add: state_of_def)

lemma state_of_Some:
  "ledger_wf d \<Longrightarrow> state_of d i = Some s \<longleftrightarrow>
     (\<exists>r \<in> set (db_operations d). r_id r = i \<and> r_state r = s)"
  using state_of_row by (fastforce simp: state_of_def find_Some_iff)

lemma find_map_id:
  "(\<And>r. r_id (g r) = r_id r) \<Longrightarrow>
     find (\<lambda>r. r_id r = i) (map g rows) = map_option g (find (\<lambda>r. r_id r = i) rows)"
  by (induction rows) auto

lemma state_of_moved:
  assumes wf: "ledger_wf d" and r: "r \<in> set (db_operations d)"
  shows "state_of (moved_db now (r_id r) (r_state r) to detail prior d) =
    (state_of d)(r_id r \<mapsto> to)"
proof
  fix j
  show "state_of (moved_db now (r_id r) (r_state r) to detail prior d) j =
      ((state_of d)(r_id r \<mapsto> to)) j"
    using state_of_row [OF wf r] find_id [OF wf_distinct [OF wf] r]
    by (auto simp: state_of_def moved_db_def find_map_id option.map_comp find_Some_iff
        intro!: option.map_cong)
qed

lemma state_of_confirmed:
  assumes wf: "ledger_wf d" and r: "r \<in> set (db_operations d)" "confirmable now n r"
  shows "state_of (confirmed_db now n actor window (r_id r) d) =
    (state_of d)(r_id r \<mapsto> Authorized)"
proof
  fix j
  have only: "confirmable now n s \<longleftrightarrow> s = r" if "s \<in> set (db_operations d)" for s
    using confirmable_unique [OF wf that r(1)] r(2) by blast
  show "state_of (confirmed_db now n actor window (r_id r) d) j =
      ((state_of d)(r_id r \<mapsto> Authorized)) j"
    using find_id [OF wf_distinct [OF wf] r(1)] r(2) only
    by (auto simp: state_of_def confirmed_db_def find_map_id option.map_comp find_Some_iff
        intro!: option.map_cong)
qed

text \<open>Expiry finds each lapsed row once, and none after it ran.\<close>

lemma lapsed_rows_eq:
  "map fst (lapsed_rows now rows) =
     map r_id (filter (\<lambda>r. r_state r = PendingConfirmation \<and> lapsed now r) rows) @
     map r_id (filter (\<lambda>r. r_state r = Authorized \<and> lapsed now r) rows)"
  by (simp add: lapsed_rows_def comp_def)

lemma lapsed_rows_set:
  "set (map fst (lapsed_rows now rows)) = r_id ` {r \<in> set rows. lapsed now r}"
proof -
  have "lapsed now r \<Longrightarrow> r_state r = PendingConfirmation \<or> r_state r = Authorized" for r
    by (auto simp: lapsed_def)
  then show ?thesis
    unfolding lapsed_rows_eq by auto
qed

lemma distinct_map_filters:
  "distinct (map f xs) \<Longrightarrow> (\<And>x. P x \<Longrightarrow> \<not> Q x) \<Longrightarrow>
     distinct (map f (filter P xs) @ map f (filter Q xs))"
  by (induction xs) auto

lemma distinct_lapsed_rows:
  "distinct (map r_id rows) \<Longrightarrow> distinct (map fst (lapsed_rows now rows))"
  unfolding lapsed_rows_eq by (rule distinct_map_filters) auto

lemma lapsed_expire_row: "\<not> lapsed now (expire_row now r)"
  by (auto simp: expire_row_def lapsed_def)

lemma expire_lapsed_none:
  assumes wf: "ledger_wf d" and none: "\<And>r. r \<in> set (db_operations d) \<Longrightarrow> \<not> lapsed now r"
  shows "expire_lapsed now d = (Inr [], d)"
proof -
  have "lapsed_rows now (db_operations d) = []"
    using none by (auto simp: lapsed_rows_def filter_empty_conv)
  moreover have "map (expire_row now) (db_operations d) = db_operations d"
    using none by (intro map_idI) (simp only: expire_row_def if_False)
  ultimately show ?thesis
    by (simp add: expire_lapsed_wf [OF wf] expired_db_def)
qed

lemma transition_edge:
  assumes wf: "ledger_wf d" and st: "state_of d i = Some s"
    and to: "to \<in> set (transitions s)" and "expected = None \<or> expected = Some s"
  shows "\<exists>d'. transition now i to detail prior expected d = (Inr (), d') \<and> ledger_wf d' \<and>
    state_of d' = (state_of d)(i \<mapsto> to)"
proof -
  from st wf obtain r where r: "r \<in> set (db_operations d)" "r_id r = i" "r_state r = s"
    by (auto simp: state_of_Some)
  with assms show ?thesis
    using transition_wf [OF wf r(1), of now to detail prior expected]
      ledger_wf_moved [OF wf r(1), of to now detail prior] state_of_moved [OF wf r(1)]
    by auto
qed

lemma transition_no_edge:
  assumes wf: "ledger_wf d" and bad: "\<And>s. state_of d i = Some s \<Longrightarrow>
      to \<notin> set (transitions s) \<or> expected \<noteq> None \<and> expected \<noteq> Some s"
  shows "\<exists>e. transition now i to detail prior expected d = (Inl e, d)"
proof (cases "\<exists>r \<in> set (db_operations d). r_id r = i")
  case True
  then obtain r where r: "r \<in> set (db_operations d)" "r_id r = i" by blast
  then show ?thesis
    using transition_wf [OF wf r(1), of now to detail prior expected]
      bad [of "r_state r"] state_of_row [OF wf r(1)] by auto
next
  case False
  with transition_missing [OF wf] show ?thesis by blast
qed

interpretation lg: op_ledger ledger_wf state_of ledger_move
proof unfold_locales
  show "ledger_wf d' \<and> state_of d' = (state_of d)(i \<mapsto> t) \<and>
      (\<exists>s. state_of d i = Some s \<and> t \<in> set (transitions s))"
    if wf: "ledger_wf d" and m: "ledger_move x i t d = Some d'" for d x i t d'
  proof -
    obtain now detail prior where x: "x = (now, detail, prior)" by (cases x)
    obtain s where s: "state_of d i = Some s" "t \<in> set (transitions s)"
      using m transition_no_edge [OF wf, of i t None now detail prior]
      by (fastforce simp: x ledger_move_def)
    with transition_edge [OF wf s, of None now detail prior] m show ?thesis
      by (auto simp: x ledger_move_def)
  qed
  show "\<exists>d'. ledger_move x i t d = Some d'"
    if "ledger_wf d" "state_of d i = Some s" "t \<in> set (transitions s)" for d i s t x
  proof -
    obtain now detail prior where x: "x = (now, detail, prior)" by (cases x)
    show ?thesis
      using transition_edge [OF that, of None now detail prior] by (auto simp: x ledger_move_def)
  qed
qed

end
