(* ===== verification/Ledger_Props.thy ===== *)
theory Ledger_Props
  imports Ledger_Spec
begin

text \<open>
  The properties of the operation ledger: what every run of its methods keeps, and what each
  method returns and leaves behind on every branch.  The demonstration ledgers at the start
  are the inputs of the witnesses.
\<close>


section \<open>Demonstration ledgers\<close>

definition demo_intake :: intake where
  "demo_intake = \<lparr>in_plan_key = ''k'', in_plan_document = ''{}'', in_operation = ''install'',
     in_appid = 10, in_account_alias = ''a'', in_machine_id = ''m'', in_policy_version = ''p''\<rparr>"

definition demo_open :: db where
  "demo_open = snd (open_ledger False fresh_db)"

definition demo_pending :: db where
  "demo_pending = snd (request 100 ''n'' 900 demo_intake demo_open)"

definition demo_authorized :: db where
  "demo_authorized = snd (confirm 200 ''n'' ''cli'' 14400 demo_pending)"

definition demo_aborted :: db where
  "demo_aborted = snd (transition 300 1 Aborted None None None demo_authorized)"

lemma ledger_run_snoc: "ledger_run ls d d' \<Longrightarrow> ledger_step l d' d'' \<Longrightarrow> ledger_run (ls @ [l]) d d''"
  by (induction rule: ledger_run.induct) (auto intro: ledger_run.intros)

lemma ledger_reachable_step: "ledger_reachable d \<Longrightarrow> ledger_step l d d' \<Longrightarrow> ledger_reachable d'"
  unfolding ledger_reachable_def by (blast intro: ledger_run_snoc)

lemma reach_open: "ledger_reachable demo_open"
  unfolding ledger_reachable_def demo_open_def by (blast intro: ledger_run.intros)

lemma demo_open_eq:
  "demo_open = \<lparr>db_user_version = 0, db_has_operations = True, db_layout_ok = True,
     db_operations = [], db_events = [], db_active_index = Some terminal_states,
     db_plan_index = True\<rparr>"
  by code_simp

lemma reach_pending: "ledger_reachable demo_pending"
  unfolding demo_pending_def
  by (rule ledger_reachable_step [OF reach_open], rule step_request)
     (simp add: demo_open_eq used_nonces_def)

lemma reach_authorized: "ledger_reachable demo_authorized"
  unfolding demo_authorized_def by (rule ledger_reachable_step [OF reach_pending], rule step_confirm)

lemma reach_aborted: "ledger_reachable demo_aborted"
  unfolding demo_aborted_def by (rule ledger_reachable_step [OF reach_authorized], rule step_transition)

definition demo_row :: op_row where
  "demo_row = \<lparr>r_id = 1, r_schema = schema, r_plan_key = ''k'', r_plan_document = ''{}'',
     r_operation = ''install'', r_appid = 10, r_account_alias = ''a'', r_machine_id = ''m'',
     r_state = PendingConfirmation, r_policy_version = ''p'', r_nonce = Some ''n'',
     r_nonce_expires_at = Some 1000, r_confirmation_actor = None, r_window_expires_at = None,
     r_prior_client_running = None, r_detail = None, r_created_at = 100, r_updated_at = 100\<rparr>"

lemma demo_pending_rows: "db_operations demo_pending = [demo_row]"
  by code_simp

definition demo_final :: op_row where
  "demo_final = demo_row\<lparr>r_state := Aborted, r_nonce := None, r_nonce_expires_at := None,
     r_confirmation_actor := Some ''cli'', r_window_expires_at := Some 14600,
     r_updated_at := 300\<rparr>"

lemma demo_aborted_rows: "db_operations demo_aborted = [demo_final]"
  by code_simp

text \<open>A second operation, requested after the first was aborted.\<close>

definition demo_second :: db where
  "demo_second = snd (request 400 ''n2'' 900 (demo_intake\<lparr>in_plan_key := ''k2''\<rparr>) demo_aborted)"

definition demo_next :: op_row where
  "demo_next = demo_row\<lparr>r_id := 2, r_plan_key := ''k2'', r_nonce := Some ''n2'',
     r_nonce_expires_at := Some 1300, r_created_at := 400, r_updated_at := 400\<rparr>"

lemma demo_second_rows: "db_operations demo_second = [demo_final, demo_next]"
  by code_simp

lemma reach_second: "ledger_reachable demo_second"
  unfolding demo_second_def
  by (rule ledger_reachable_step [OF reach_aborted], rule step_request)
     (simp add: demo_aborted_rows used_nonces_def demo_final_def)

lemmas demo_wf = ledger_reachable_wf [OF reach_pending] ledger_reachable_wf [OF reach_authorized]
  ledger_reachable_wf [OF reach_aborted] ledger_reachable_wf [OF reach_open]


section \<open>Guarantees of every run\<close>

text \<open>C1. Single active operation: in every ledger that any sequence of opens, requests,
  confirmations, transitions and expiries produces, a machine has at most one operation in a
  non-terminal state, and a plan key at most one attempt that has not expired.\<close>

theorem single_active_operation:
  assumes "ledger_reachable d" "r \<in> set (db_operations d)" "s \<in> set (db_operations d)"
  shows "(r_machine_id r = r_machine_id s \<longrightarrow> \<not> terminal (r_state r) \<longrightarrow> \<not> terminal (r_state s) \<longrightarrow> r = s) \<and>
    (r_plan_key r = r_plan_key s \<longrightarrow> r_state r \<noteq> Expired \<longrightarrow> r_state s \<noteq> Expired \<longrightarrow> r = s)"
proof -
  have ok: "table_ok (db_operations d)"
    using ledger_reachable_wf [OF assms(1)] by (simp add: ledger_wf_def)
  have "unique_on r_machine_id (\<lambda>r. \<not> terminal (r_state r)) (db_operations d)"
    "unique_on r_plan_key (\<lambda>r. r_state r \<noteq> Expired) (db_operations d)"
    using ok by (simp_all add: table_ok_def)
  then show ?thesis
    using assms(2,3) by (blast intro: unique_on_eq)
qed

lemma single_active_operation_witness:
  "r_machine_id demo_final = r_machine_id demo_next \<and> \<not> terminal (r_state demo_next) \<and>
     terminal (r_state demo_final)"
proof -
  have next_in: "demo_next \<in> set (db_operations demo_second)"
    and final_in: "demo_final \<in> set (db_operations demo_second)"
    by (simp_all add: demo_second_rows)
  have "r_machine_id demo_final = r_machine_id demo_next" "\<not> terminal (r_state demo_next)"
    "demo_final \<noteq> demo_next"
    by (simp_all add: demo_next_def demo_final_def demo_row_def terminal_states_def)
  with single_active_operation [OF reach_second final_in next_in] show ?thesis by blast
qed

text \<open>C16. Audit trail: in every reachable ledger the events of each operation, in order, form
  a path of the transition table that starts with its intake in \<open>pending_confirmation\<close> and
  ends in the state the row holds; no event belongs to an operation that does not exist.\<close>

theorem audit_trail_is_path:
  assumes "ledger_reachable d"
  shows "(\<forall>r \<in> set (db_operations d).
      follows None (map snd (events_of (r_id r) d)) (Some (r_state r))) \<and>
    (\<forall>i. i \<notin> r_id ` set (db_operations d) \<longrightarrow> events_of i d = [])"
proof -
  have "map snd (events_of i d) = trail i (db_events d)" for i
    by (simp add: events_of_def trail_def comp_def)
  with wf_audit [OF ledger_reachable_wf [OF assms]] show ?thesis
    by (auto simp: audit_ok_def events_of_def filter_empty_conv)
qed

lemma audit_trail_is_path_witness:
  "follows None (map snd (events_of 1 demo_aborted)) (Some Aborted)"
  using audit_trail_is_path [OF reach_aborted]
  by (simp add: demo_aborted_rows demo_final_def demo_row_def)

text \<open>C12. A terminal operation is final: whatever methods run afterwards, its row is still in
  the table, unchanged in every column.\<close>

theorem terminal_row_final:
  assumes "ledger_reachable d" "r \<in> set (db_operations d)" "terminal (r_state r)"
    and "ledger_run ls d d'"
  shows "r \<in> set (db_operations d')"
  using ledger_run_terminal [OF assms(4) ledger_reachable_wf [OF assms(1)] assms(2,3)] .

lemma terminal_row_final_witness:
  "demo_final \<in> set (db_operations (snd (expire_lapsed 99999 demo_aborted)))"
proof (rule terminal_row_final [OF reach_aborted])
  show "demo_final \<in> set (db_operations demo_aborted)"
    by (simp add: demo_aborted_rows)
  show "terminal (r_state demo_final)"
    by (simp add: demo_final_def terminal_states_def)
  show "ledger_run [None] demo_aborted (snd (expire_lapsed 99999 demo_aborted))"
    by (rule run_step [OF step_expire run_done])
qed

text \<open>C11. A confirmation nonce works once: after a confirmation consumed it, and as long as
  no later request mints the same random value, no run of the ledger brings it back, and
  presenting it again is refused and changes nothing.\<close>

theorem nonce_single_use:
  assumes "ledger_reachable d" and conf: "confirm now n actor window d = (Inr i, d')"
    and run: "ledger_run ls d' d''" "Some n \<notin> set ls"
  shows "confirm now' n actor' window' d'' =
    (Inl (ConfirmationRejected ''nonce missing, already consumed, or expired''), d'')"
proof -
  have wf: "ledger_wf d"
    using assms(1) by (rule ledger_reachable_wf)
  from conf have unused: "n \<notin> used_nonces d'"
    by (cases rule: confirm_wf_cases [OF wf, of now n actor window])
       (auto simp: confirmed_nonce_unused [OF wf])
  have wf': "ledger_wf d'"
    using ledger_wf_confirm [OF wf, of now n actor window] conf by simp
  show ?thesis
    using used_nonces_run [OF run(1) wf'] unused run(2)
    by (intro confirm_unused ledger_wf_ledger_run [OF run(1) wf']) blast
qed

lemma nonce_single_use_witness:
  "confirm 201 ''n'' ''cli'' 14400 demo_authorized =
    (Inl (ConfirmationRejected ''nonce missing, already consumed, or expired''), demo_authorized)"
proof (rule nonce_single_use [OF reach_pending _ run_done])
  show "confirm 200 ''n'' ''cli'' 14400 demo_pending = (Inr 1, demo_authorized)"
    by code_simp
qed simp


section \<open>What each method does\<close>

text \<open>\<open>transition\<close> is exact on every branch: an unknown operation is an error; an expected
  state that does not match, or a move the table does not have, is an
  \<open>InvalidTransition\<close> and leaves the ledger as it is; every other move succeeds, changes
  the state of that operation only and keeps the ledger well formed.\<close>

theorem transition_exact:
  assumes "ledger_reachable d"
  shows "case state_of d i of
      None \<Rightarrow> \<exists>msg. transition now i to detail prior expected d = (Inl (LedgerError msg), d)
    | Some s \<Rightarrow>
        if to \<in> set (transitions s) \<and> (expected = None \<or> expected = Some s)
        then \<exists>d'. transition now i to detail prior expected d = (Inr (), d') \<and> ledger_wf d' \<and>
          state_of d' = (state_of d)(i \<mapsto> to) \<and>
          db_operations d' = map (move_row now i s to detail prior) (db_operations d)
        else \<exists>msg. transition now i to detail prior expected d = (Inl (InvalidTransition msg), d)"
proof -
  have wf: "ledger_wf d"
    using assms by (rule ledger_reachable_wf)
  show ?thesis
  proof (cases "state_of d i")
    case None
    then have "\<forall>r \<in> set (db_operations d). r_id r \<noteq> i"
      using state_of_row [OF wf] by fastforce
    with None transition_missing [OF wf] show ?thesis by simp
  next
    case (Some s)
    then obtain r where r: "r \<in> set (db_operations d)" "r_id r = i" "r_state r = s"
      using state_of_Some [OF wf] by blast
    show ?thesis
      using transition_wf [OF wf r(1), of now to detail prior expected] Some r
        ledger_wf_moved [OF wf r(1), of to now detail prior]
        state_of_moved [OF wf r(1), of now to detail prior]
      by (auto simp: moved_db_def)
  qed
qed

lemma transition_exact_witness:
  "\<exists>msg. transition 5 1 ContentRunning None None None demo_pending =
     (Inl (InvalidTransition msg), demo_pending)"
proof -
  have "state_of demo_pending 1 = Some PendingConfirmation"
    by code_simp
  with transition_exact [OF reach_pending, of 5 1 ContentRunning None None None]
  show ?thesis by (simp del: One_nat_def)
qed

text \<open>\<open>request\<close> on a reachable ledger: expiry runs first; then the request is recorded
  exactly when no unexpired attempt has its plan key and no operation of its machine is
  active, as one new pending row under a new identifier that holds the minted nonce and its
  expiry; otherwise it is refused with an error and only the expiry remains.\<close>

theorem request_exact:
  fixes q :: intake and now :: int
  assumes "ledger_reachable d" "in_operation q \<in> set supported_operations"
  defines "rows \<equiv> map (expire_row now) (db_operations d)"
  shows "if (\<exists>r \<in> set rows. r_plan_key r = in_plan_key q \<and> r_state r \<noteq> Expired) \<or>
      (\<exists>r \<in> set rows. r_machine_id r = in_machine_id q \<and> \<not> terminal (r_state r))
    then \<exists>msg. request now nonce ttl q d = (Inl (LedgerError msg), snd (expire_lapsed now d))
    else \<exists>i d'. request now nonce ttl q d = (Inr (i, nonce), d') \<and>
      i \<notin> r_id ` set rows \<and> db_operations d' = rows @ [new_row now nonce ttl q i]"
proof -
  have wf: "ledger_wf d"
    using assms(1) by (rule ledger_reachable_wf)
  have rows: "rows = db_operations (expired_db now d)"
    by (simp add: rows_def)
  have fresh: "next_id rows \<notin> r_id ` set rows"
    using next_id_greater by fastforce
  have req: "request now nonce ttl q d = (case insert_request now nonce ttl q (expired_db now d) of
      Inl e \<Rightarrow> (Inl e, expired_db now d) | Inr (x, d') \<Rightarrow> (Inr x, d'))"
    using wf assms(2) by (rule request_wf)
  from ledger_wf_expired [OF wf, of now] show ?thesis
  proof (cases rule: insert_request_cases [of _ now nonce ttl q])
    case (refused msg)
    then show ?thesis
      unfolding rows using req wf by (simp add: expire_lapsed_wf)
  next
    case recorded
    then show ?thesis
      unfolding rows using req fresh [unfolded rows] by (auto simp: requested_db_def)
  qed
qed

lemma request_exact_witness:
  "\<exists>i d'. request 100 ''n'' 900 demo_intake demo_open = (Inr (i, ''n''), d') \<and>
     db_operations d' = [new_row 100 ''n'' 900 demo_intake i]"
  using request_exact [OF reach_open, of demo_intake 100 "''n''" 900]
  by (simp add: demo_open_eq demo_intake_def supported_operations_def)

text \<open>\<open>confirm\<close> on a reachable ledger succeeds exactly when a pending row holds the
  nonce and its expiry has not passed.  Then that row alone moves to \<open>authorized\<close>, with the
  nonce consumed, the actor recorded and the execution window opened until \<open>now + window\<close>;
  otherwise it is refused and the ledger is unchanged.\<close>

theorem confirm_exact:
  assumes "ledger_reachable d"
  shows "if \<exists>r \<in> set (db_operations d). confirmable now n r
    then \<exists>r d'. r \<in> set (db_operations d) \<and> confirmable now n r \<and>
      confirm now n actor window d = (Inr (r_id r), d') \<and>
      state_of d' = (state_of d)(r_id r \<mapsto> Authorized) \<and>
      (\<forall>s \<in> set (db_operations d'). r_nonce s \<noteq> Some n) \<and>
      (\<forall>t. window_valid t (r_id r) d' = Inr (t < now + window))
    else confirm now n actor window d =
      (Inl (ConfirmationRejected ''nonce missing, already consumed, or expired''), d)"
proof -
  have wf: "ledger_wf d"
    using assms by (rule ledger_reachable_wf)
  from wf show ?thesis
  proof (cases rule: confirm_wf_cases [of _ now n actor window])
    case (accepted r)
    let ?d = "confirmed_db now n actor window (r_id r) d"
    have wf': "ledger_wf ?d"
      using ledger_wf_confirmed [OF wf accepted(1,2)] .
    have "confirm_row now n actor window r \<in> set (db_operations ?d)"
      using accepted(1) by (simp add: confirmed_db_def)
    from get_row_in [OF wf' this] have "window_valid t (r_id r) ?d = Inr (t < now + window)" for t
      using accepted(2) by (simp add: window_valid_def confirm_row_def)
    moreover have "state_of ?d = (state_of d)(r_id r \<mapsto> Authorized)"
      using accepted(1,2) by (rule state_of_confirmed [OF wf])
    moreover have "\<forall>s \<in> set (db_operations ?d). r_nonce s \<noteq> Some n"
      using confirmed_nonce_unused [OF wf accepted(1,2)] by (auto simp: used_nonces_def)
    ultimately show ?thesis
      using accepted by auto
  next
    case rejected
    then show ?thesis by auto
  qed
qed

lemma confirm_exact_witness:
  "\<exists>d'. confirm 200 ''n'' ''cli'' 14400 demo_pending = (Inr 1, d') \<and>
     state_of d' 1 = Some Authorized"
  using confirm_exact [OF reach_pending, of 200 "''n''" "''cli''" 14400]
  by (simp add: demo_pending_rows confirmable_def demo_row_def) auto

text \<open>Expiry is exact: \<open>expire_lapsed\<close> returns the identifiers of just those rows whose
  nonce or execution window has run out, each once, moves those rows to \<open>expired\<close> and no
  other, and running it again at the same time finds nothing.\<close>

theorem expire_exact:
  assumes "ledger_reachable d"
  shows "\<exists>ids d'. expire_lapsed now d = (Inr ids, d') \<and> distinct ids \<and>
    set ids = r_id ` {r \<in> set (db_operations d). lapsed now r} \<and>
    (\<forall>r \<in> set (db_operations d). state_of d' (r_id r) =
       Some (if lapsed now r then Expired else r_state r)) \<and>
    expire_lapsed now d' = (Inr [], d')"
proof -
  have wf: "ledger_wf d"
    using assms by (rule ledger_reachable_wf)
  let ?d = "expired_db now d"
  have wf': "ledger_wf ?d"
    using wf by (rule ledger_wf_expired)
  have "state_of ?d (r_id r) = Some (if lapsed now r then Expired else r_state r)"
    if "r \<in> set (db_operations d)" for r
    using state_of_row [OF wf', of "expire_row now r"] that by simp
  moreover have "expire_lapsed now ?d = (Inr [], ?d)"
    by (rule expire_lapsed_none [OF wf']) (auto simp: lapsed_expire_row)
  moreover have "set (map fst (lapsed_rows now (db_operations d))) =
      r_id ` {r \<in> set (db_operations d). lapsed now r}"
    by (rule lapsed_rows_set)
  ultimately show ?thesis
    using expire_lapsed_wf [OF wf, of now] distinct_lapsed_rows [OF wf_distinct [OF wf]] by auto
qed

lemma expire_exact_witness:
  "\<exists>d'. expire_lapsed 1000 demo_pending = (Inr [1], d') \<and> expire_lapsed 1000 d' = (Inr [], d')"
proof -
  have "fst (expire_lapsed 1000 demo_pending) = Inr [1]"
    by code_simp
  with expire_exact [OF reach_pending, of 1000] show ?thesis by auto
qed

text \<open>A ledger that a newer version wrote is never touched: when the version, the layout
  or any row is not the program's own, opening, requesting, confirming, moving and expiring
  all raise \<open>UnsupportedLedger\<close> and leave the file as it is.\<close>

theorem unsupported_ledger_untouched:
  assumes "require_supported d = Inl e"
  shows "(\<exists>msg. e = UnsupportedLedger msg) \<and> open_ledger readonly d = (Inl e, d) \<and>
    expire_lapsed now d = (Inl e, d) \<and> confirm now n actor window d = (Inl e, d) \<and>
    transition now i to detail prior expected d = (Inl e, d) \<and>
    (in_operation q \<in> set supported_operations \<longrightarrow> request now n ttl q d = (Inl e, d))"
proof -
  have "\<exists>msg. e = UnsupportedLedger msg"
    using assms by (auto simp: require_supported_def split: if_splits)
  with assms show ?thesis
    by (simp add: open_ledger_def expire_lapsed_def confirm_def transition_def request_def
        transaction_def get_row_def)
qed

lemma unsupported_ledger_untouched_witness:
  "open_ledger False (demo_pending\<lparr>db_user_version := 2\<rparr>) =
    (Inl (UnsupportedLedger ''unsupported ledger database version''),
     demo_pending\<lparr>db_user_version := 2\<rparr>)"
proof -
  have "require_supported (demo_pending\<lparr>db_user_version := 2\<rparr>) =
      Inl (UnsupportedLedger ''unsupported ledger database version'')"
    by (simp add: require_supported_def)
  from unsupported_ledger_untouched [OF this] show ?thesis by simp
qed

text \<open>Opening a ledger an earlier release left behind: when the stored index excludes
  another set of terminal states, or there is no index, opening for writing puts the
  program's own indexes in place if the rows satisfy them, and otherwise raises and keeps
  the old index and every row.\<close>

theorem open_rebuilds_indexes:
  assumes "require_supported d = Inr ()" "db_has_operations d"
  shows "if active_ok (Some terminal_states) (db_operations d) \<and>
        plan_ok True (db_operations d)
    then open_ledger False d =
      (Inr (), d\<lparr>db_active_index := Some terminal_states, db_plan_index := True\<rparr>)
    else db_active_index d = Some terminal_states \<or>
      (fst (open_ledger False d) = Inl IntegrityError \<and>
       db_operations (snd (open_ledger False d)) = db_operations d \<and>
       (\<not> active_ok (Some terminal_states) (db_operations d) \<longrightarrow> snd (open_ledger False d) = d))"
  using assms
  by (auto simp: open_ledger_def migrate_def rebuild_active_index_def transaction_def Let_def)

lemma open_rebuilds_indexes_witness:
  "open_ledger False (demo_second\<lparr>db_active_index := Some [Confirmed], db_plan_index := False\<rparr>) =
    (Inr (), demo_second\<lparr>db_active_index := Some terminal_states, db_plan_index := True\<rparr>)"
proof -
  let ?d = "demo_second\<lparr>db_active_index := Some [Confirmed], db_plan_index := False\<rparr>"
  have "require_supported ?d = Inr ()" "db_has_operations ?d"
    "active_ok (Some terminal_states) (db_operations ?d)" "plan_ok True (db_operations ?d)"
    by code_simp+
  with open_rebuilds_indexes [of ?d] show ?thesis by simp
qed

end
