(* ===== verification/Ledger_Refine.thy ===== *)
theory Ledger_Refine
  imports Ledger_Props
begin

text \<open>
  An abstract registry that the ledger refines: a map from operation to its machine, its plan
  key and its state, on which two things happen.  An operation moves along an edge of the
  transition table, or a new one is admitted, pending, for a machine with nothing active and a
  plan key with no attempt that counts.  Every ledger method is a sequence of such steps.
\<close>


section \<open>The registry\<close>

type_synonym registry = "nat \<rightharpoonup> (string \<times> string \<times> op_state)"

inductive registry_step :: "registry \<Rightarrow> registry \<Rightarrow> bool" where
  moved: "A i = Some (m, k, s) \<Longrightarrow> t \<in> set (transitions s) \<Longrightarrow> registry_step A (A(i \<mapsto> (m, k, t)))"
| admitted: "A i = None \<Longrightarrow> \<forall>j m' k' s. A j = Some (m', k', s) \<longrightarrow>
      (m' = m \<longrightarrow> terminal s) \<and> (k' = k \<longrightarrow> s = Expired) \<Longrightarrow>
    registry_step A (A(i \<mapsto> (m, k, PendingConfirmation)))"

inductive_cases registry_stepE: "registry_step A B"

definition exclusive :: "registry \<Rightarrow> bool" where
  "exclusive A \<longleftrightarrow> (\<forall>i j m k k' s s'. A i = Some (m, k, s) \<and> A j = Some (m, k', s') \<and>
     \<not> terminal s \<and> \<not> terminal s' \<longrightarrow> i = j)"

text \<open>The registry alone keeps a machine to one active operation.\<close>

lemma exclusive_step: "registry_step A B \<Longrightarrow> exclusive A \<Longrightarrow> exclusive B"
proof (induction rule: registry_step.induct)
  case (moved A i m k s t)
  then have live: "\<not> terminal s" by (auto dest: transitions_nonterminal)
  show ?case
    unfolding exclusive_def
  proof (intro allI impI, elim conjE)
    fix a b n l l' u u'
    assume ab: "(A(i \<mapsto> (m, k, t))) a = Some (n, l, u)" "(A(i \<mapsto> (m, k, t))) b = Some (n, l', u')"
      "\<not> terminal u" "\<not> terminal u'"
    have "\<exists>l u. A a = Some (n, l, u) \<and> \<not> terminal u" "\<exists>l u. A b = Some (n, l, u) \<and> \<not> terminal u"
      using ab moved(1) live by (auto split: if_splits)
    then show "a = b" using moved(3) unfolding exclusive_def by blast
  qed
next
  case (admitted A i m k)
  then show ?case by (auto simp: exclusive_def)
qed

lemma exclusive_steps: "registry_step\<^sup>*\<^sup>* A B \<Longrightarrow> exclusive A \<Longrightarrow> exclusive B"
  by (induction rule: rtranclp_induct) (auto dest: exclusive_step)


section \<open>The ledger as a registry\<close>

definition slot :: "op_row \<Rightarrow> string \<times> string \<times> op_state" where
  "slot r = (r_machine_id r, r_plan_key r, r_state r)"

definition rows_registry :: "op_row list \<Rightarrow> registry" where
  "rows_registry rows i = map_option slot (find (\<lambda>r. r_id r = i) rows)"

definition registry_of :: "db \<Rightarrow> registry" where
  "registry_of d = rows_registry (db_operations d)"

lemma rows_registry_simps [simp]:
  "rows_registry [] = Map.empty"
  "rows_registry (r # rows) = (rows_registry rows)(r_id r \<mapsto> slot r)"
  by (auto simp: rows_registry_def)

lemma rows_registry_Some:
  "distinct (map r_id rows) \<Longrightarrow> rows_registry rows i = Some x \<longleftrightarrow> (\<exists>r\<in>set rows. r_id r = i \<and> slot r = x)"
  by (induction rows) (force simp: image_iff)+

lemma rows_registry_replace:
  "distinct (map r_id (xs @ r # ys)) \<Longrightarrow> r_id r' = r_id r \<Longrightarrow>
   rows_registry (xs @ r' # ys) = (rows_registry (xs @ r # ys))(r_id r \<mapsto> slot r')"
  by (induction xs) (auto simp: fun_upd_twist)

lemma moves_step:
  assumes "distinct (map r_id (xs @ r # ys))" "moves r r'"
  shows "registry_step\<^sup>*\<^sup>* (rows_registry (xs @ r # ys)) (rows_registry (xs @ r' # ys))"
proof -
  let ?A = "rows_registry (xs @ r # ys)"
  have r: "?A (r_id r) = Some (r_machine_id r, r_plan_key r, r_state r)"
    using rows_registry_Some [OF assms(1)] by (auto simp: slot_def)
  have new: "rows_registry (xs @ r' # ys) = ?A(r_id r \<mapsto> (r_machine_id r, r_plan_key r, r_state r'))"
    using rows_registry_replace [OF assms(1), of r'] assms(2) by (simp add: moves_def slot_def)
  show ?thesis
  proof (cases "r_state r' = r_state r")
    case True
    then have "rows_registry (xs @ r' # ys) = ?A"
      using new r by (simp add: fun_upd_idem)
    then show ?thesis by simp
  next
    case False
    then have "r_state r' \<in> set (transitions (r_state r))"
      using assms(2) by (auto simp: moves_def)
    then show ?thesis
      unfolding new by (intro r_into_rtranclp registry_step.moved [where A = ?A and s = "r_state r"] r)
  qed
qed

lemma map_moves_steps:
  assumes "distinct (map r_id (xs @ ys))" "\<And>r. moves r (g r)"
  shows "registry_step\<^sup>*\<^sup>* (rows_registry (xs @ ys)) (rows_registry (xs @ map g ys))"
  using assms(1)
proof (induction ys arbitrary: xs)
  case Nil
  then show ?case by simp
next
  case (Cons r ys)
  have id: "r_id (g r) = r_id r" using assms(2) by (simp add: moves_def)
  have "registry_step\<^sup>*\<^sup>* (rows_registry (xs @ r # ys)) (rows_registry (xs @ g r # ys))"
    by (rule moves_step [OF Cons.prems assms(2)])
  also have "registry_step\<^sup>*\<^sup>* (rows_registry (xs @ g r # ys)) (rows_registry ((xs @ [g r]) @ map g ys))"
    using Cons.IH [of "xs @ [g r]"] Cons.prems id by simp
  finally show ?case by simp
qed

lemma db_moves_steps:
  assumes "ledger_wf d" "\<And>r. moves r (g r)" "db_operations d' = map g (db_operations d)"
  shows "registry_step\<^sup>*\<^sup>* (registry_of d) (registry_of d')"
  using map_moves_steps [of "[]" "db_operations d" g] assms wf_distinct by (simp add: registry_of_def)

lemma recorded_step:
  assumes "ledger_wf d"
    "\<not> (\<exists>r \<in> set (db_operations d). r_plan_key r = in_plan_key q \<and> r_state r \<noteq> Expired)"
    "\<not> (\<exists>r \<in> set (db_operations d). r_machine_id r = in_machine_id q \<and> \<not> terminal (r_state r))"
  shows "registry_step (registry_of d) (registry_of (requested_db now nonce ttl q d))"
proof -
  let ?i = "next_id (db_operations d)" and ?A = "registry_of d"
  have free: "?A ?i = None"
    using next_id_greater [of _ "db_operations d"] by (force simp: registry_of_def rows_registry_def find_None_iff)
  have snoc: "\<forall>x\<in>set rows. r_id x \<noteq> r_id r \<Longrightarrow> rows_registry (rows @ [r]) = (rows_registry rows)(r_id r \<mapsto> slot r)" for rows r
    by (induction rows) (auto simp: fun_upd_twist)
  have "\<forall>x\<in>set (db_operations d). r_id x \<noteq> ?i"
    using next_id_greater [of _ "db_operations d"] by force
  then have "registry_of (requested_db now nonce ttl q d) =
      ?A(?i \<mapsto> (in_machine_id q, in_plan_key q, PendingConfirmation))"
    using snoc [of "db_operations d" "new_row now nonce ttl q ?i"]
    by (simp add: registry_of_def requested_db_def new_row_def slot_def)
  moreover have "\<forall>j m' k' s. ?A j = Some (m', k', s) \<longrightarrow>
      (m' = in_machine_id q \<longrightarrow> terminal s) \<and> (k' = in_plan_key q \<longrightarrow> s = Expired)"
    using assms(2,3) rows_registry_Some [OF wf_distinct [OF assms(1)]]
    by (auto simp: registry_of_def slot_def)
  ultimately show ?thesis
    using registry_step.admitted [where A = ?A and i = ?i, OF free] by simp
qed


section \<open>The refinement\<close>

lemma expire_steps: "ledger_wf d \<Longrightarrow> registry_step\<^sup>*\<^sup>* (registry_of d) (registry_of (expired_db now d))"
  by (rule db_moves_steps [where g = "expire_row now", OF _ moves_expire_row]) simp_all

lemma request_steps:
  assumes wf: "ledger_wf d"
  shows "registry_step\<^sup>*\<^sup>* (registry_of d) (registry_of (snd (request now nonce ttl q d)))"
proof (cases "in_operation q \<in> set supported_operations")
  case True
  have expire: "registry_step\<^sup>*\<^sup>* (registry_of d) (registry_of (expired_db now d))"
    by (rule expire_steps [OF wf])
  from ledger_wf_expired [OF wf, of now] show ?thesis
  proof (cases rule: insert_request_cases [of _ now nonce ttl q])
    case (refused msg)
    then show ?thesis using expire wf True by (simp add: request_wf)
  next
    case recorded
    then show ?thesis
      using rtranclp.rtrancl_into_rtrancl [where r = registry_step, OF expire recorded_step [OF ledger_wf_expired [OF wf] recorded(2,3)]] wf True
      by (simp add: request_wf)
  qed
qed (simp add: request_def)

lemma confirm_steps:
  assumes wf: "ledger_wf d"
  shows "registry_step\<^sup>*\<^sup>* (registry_of d) (registry_of (snd (confirm now nonce actor window d)))"
  using wf
proof (cases rule: confirm_wf_cases [of d now nonce actor window])
  case (accepted r)
  then show ?thesis
    using db_moves_steps [where g = "confirm_row now nonce actor window", OF wf moves_confirm_row]
    by (simp add: confirmed_db_def)
qed simp

lemma transition_steps:
  assumes wf: "ledger_wf d"
  shows "registry_step\<^sup>*\<^sup>* (registry_of d) (registry_of (snd (transition now i to detail prior expected d)))"
proof (cases "\<exists>r \<in> set (db_operations d). r_id r = i")
  case True
  then obtain r where r: "r \<in> set (db_operations d)" "r_id r = i" by blast
  have "registry_step\<^sup>*\<^sup>* (registry_of d) (registry_of (moved_db now i (r_state r) to detail prior d))"
    if "to \<in> set (transitions (r_state r))"
    using that
    by (intro db_moves_steps [OF wf, where g = "move_row now i (r_state r) to detail prior"])
      (simp_all add: moves_move_row moved_db_def)
  with r show ?thesis
    using transition_wf [OF wf r(1), of now to detail prior expected] by simp
next
  case False
  with transition_missing [OF wf, of i now to detail prior expected] show ?thesis by auto
qed

lemma ledger_step_refines: "ledger_step l d d' \<Longrightarrow> ledger_wf d \<Longrightarrow> registry_step\<^sup>*\<^sup>* (registry_of d) (registry_of d')"
  by (induction rule: ledger_step.induct)
    (auto simp: open_ledger_wf expire_lapsed_wf request_steps confirm_steps transition_steps
      expire_steps)

lemma ledger_run_refines: "ledger_run ls d d' \<Longrightarrow> ledger_wf d \<Longrightarrow> registry_step\<^sup>*\<^sup>* (registry_of d) (registry_of d')"
  by (induction rule: ledger_run.induct)
    (auto dest: ledger_step_refines ledger_wf_step intro: rtranclp_trans)

text \<open>C29. Every run of ledger methods, whatever its clocks and arguments, is a sequence of
  steps of the registry: seen from outside, operations only move along the transition table,
  and new ones are admitted only for a free machine and a plan key that is not taken.\<close>

theorem ledger_refines_registry:
  assumes "ledger_run ls (snd (open_ledger False fresh_db)) d"
  shows "registry_step\<^sup>*\<^sup>* Map.empty (registry_of d) \<and> exclusive (registry_of d)"
proof -
  have "registry_of (snd (open_ledger False fresh_db)) = Map.empty"
    using demo_open_eq by (simp add: demo_open_def registry_of_def)
  then have "registry_step\<^sup>*\<^sup>* Map.empty (registry_of d)"
    using ledger_run_refines [OF assms ledger_wf_fresh] by simp
  then show ?thesis
    using exclusive_steps by (auto simp: exclusive_def)
qed

lemma served_when_free:
  assumes "ledger_wf d" "in_operation q \<in> set supported_operations" "nonce \<notin> used_nonces d"
    and "\<forall>r\<in>set (db_operations d). r_machine_id r = in_machine_id q \<longrightarrow> terminal (r_state r) \<or> lapsed now r"
    and "\<forall>r\<in>set (db_operations d). r_plan_key r = in_plan_key q \<longrightarrow> r_state r = Expired \<or> lapsed now r"
  shows "\<exists>i d'. request now nonce ttl q d = (Inr (i, nonce), d') \<and>
    state_of d' i = Some PendingConfirmation \<and>
    (\<forall>t actor window. t < now + ttl \<longrightarrow>
      (\<exists>d''. confirm t nonce actor window d' = (Inr i, d'') \<and> state_of d'' i = Some Authorized))"
proof -
  let ?e = "expired_db now d"
  have e: "ledger_wf ?e" by (rule ledger_wf_expired [OF assms(1)])
  have free: "\<not> (\<exists>r \<in> set (db_operations ?e). r_plan_key r = in_plan_key q \<and> r_state r \<noteq> Expired)"
    "\<not> (\<exists>r \<in> set (db_operations ?e). r_machine_id r = in_machine_id q \<and> \<not> terminal (r_state r))"
    using assms(4,5) by (auto simp: expire_row_def terminal_states_def)
  define i where "i = next_id (db_operations ?e)"
  define d' where "d' = requested_db now nonce ttl q ?e"
  have run: "request now nonce ttl q d = (Inr (i, nonce), d')"
    using insert_request_cases [OF e, of now nonce ttl q] free request_wf [OF assms(1,2), of now nonce ttl]
    by (metis (no_types, lifting) d'_def i_def old.prod.case sum.simps(6))
  have wf': "ledger_wf d'"
    using ledger_wf_request [OF assms(1,3), of now ttl q] run by simp
  let ?r = "new_row now nonce ttl q i"
  have r: "?r \<in> set (db_operations d')"
    by (simp add: d'_def requested_db_def i_def)
  have state: "state_of d' i = Some PendingConfirmation"
    using state_of_row [OF wf' r] by (simp add: new_row_def)
  have "\<exists>d''. confirm t nonce actor window d' = (Inr i, d'') \<and> state_of d'' i = Some Authorized"
    if "t < now + ttl" for t actor window
  proof -
    have c: "confirmable t nonce ?r"
      using that by (simp add: confirmable_def new_row_def)
    from wf' show ?thesis
    proof (cases rule: confirm_wf_cases [of d' t nonce actor window])
      case (accepted s)
      then have "s = ?r" using confirmable_unique [OF wf' accepted(1) r accepted(2) c] by simp
      then show ?thesis
        using accepted(3) state_of_confirmed [OF wf' r c] by (simp add: new_row_def)
    next
      case rejected
      then show ?thesis using r c by blast
    qed
  qed
  then show ?thesis using run state by blast
qed

text \<open>C30. A machine whose earlier operations are finished or have lapsed is served again: a
  request under a plan key that no attempt holds any more is recorded, and until its nonce
  expires the confirmation with that nonce authorizes it.\<close>

theorem free_machine_is_served:
  assumes "ledger_wf d" "in_operation q \<in> set supported_operations" "nonce \<notin> used_nonces d"
    and "\<forall>r\<in>set (db_operations d). r_machine_id r = in_machine_id q \<longrightarrow> terminal (r_state r) \<or> lapsed now r"
    and "\<forall>r\<in>set (db_operations d). r_plan_key r = in_plan_key q \<longrightarrow> r_state r = Expired \<or> lapsed now r"
  shows "\<exists>i d'. request now nonce ttl q d = (Inr (i, nonce), d') \<and>
    state_of d' i = Some PendingConfirmation \<and>
    (\<forall>t actor window. t < now + ttl \<longrightarrow>
      (\<exists>d''. confirm t nonce actor window d' = (Inr i, d'') \<and> state_of d'' i = Some Authorized))"
  using assms by (rule served_when_free)

theorem ledger_refines_registry_witness:
  "registry_step\<^sup>*\<^sup>* Map.empty (registry_of demo_authorized)"
proof -
  have "ledger_step (Some ''n'') demo_open demo_pending" "ledger_step None demo_pending demo_authorized"
    unfolding demo_pending_def demo_authorized_def
    by (rule step_request, simp add: demo_open_eq used_nonces_def) (rule step_confirm)
  then have "ledger_run [Some ''n'', None] (snd (open_ledger False fresh_db)) demo_authorized"
    unfolding demo_open_def by (blast intro: ledger_run.intros)
  from ledger_refines_registry [OF this] show ?thesis by simp
qed

theorem free_machine_is_served_witness:
  "\<exists>i d'. request 100 ''n'' 900 demo_intake demo_open = (Inr (i, ''n''), d') \<and> state_of d' i = Some PendingConfirmation"
  using free_machine_is_served [OF ledger_reachable_wf [OF reach_open], of demo_intake "''n''" 100 900]
  by (auto simp: demo_open_eq demo_intake_def supported_operations_def used_nonces_def)

end
