(* ===== verification/Json_Text.thy ===== *)
theory Json_Text
  imports Broker_Prelude
begin

text \<open>
  \<open>json.dumps\<close> as the program uses it: ASCII output of strings, integers and booleans with the
  default separators.  \<open>json_read\<close> reads a string body back, so the encoding loses nothing.
\<close>


section \<open>Strings\<close>

definition hex_char :: "nat \<Rightarrow> char" where
  "hex_char n = (if n < 10 then char_of (48 + n) else char_of (87 + n))"

definition hex_value :: "char \<Rightarrow> nat option" where
  "hex_value c =
     (if is_digit c then Some (code c - 48)
      else if 97 \<le> code c \<and> code c \<le> 102 then Some (code c - 87)
      else if 65 \<le> code c \<and> code c \<le> 70 then Some (code c - 55)
      else None)"

definition json_quote :: char where
  "json_quote = CHR 0x22"

definition backslash :: char where
  "backslash = CHR 0x5C"

definition json_char :: "char \<Rightarrow> string" where
  "json_char c =
     (if c = json_quote then [backslash, json_quote]
      else if c = backslash then [backslash, backslash]
      else if code c = 10 then [backslash, CHR ''n'']
      else if code c = 13 then [backslash, CHR ''r'']
      else if code c = 9 then [backslash, CHR ''t'']
      else if code c = 12 then [backslash, CHR ''f'']
      else if code c = 8 then [backslash, CHR ''b'']
      else if 32 \<le> code c \<and> code c \<le> 126 then [c]
      else [backslash, CHR ''u'', CHR ''0'', CHR ''0'', hex_char (code c div 16), hex_char (code c mod 16)])"

definition json_string :: "string \<Rightarrow> string" where
  "json_string s = [json_quote] @ concat (map json_char s) @ [json_quote]"

text \<open>An escape; a code point of 256 and more is no character of the model.\<close>

fun json_escape :: "char \<Rightarrow> string \<Rightarrow> (char \<times> string) option" where
  "json_escape e rest =
     (if e = CHR ''n'' then Some (char_of (10 :: nat), rest)
      else if e = CHR ''r'' then Some (char_of (13 :: nat), rest)
      else if e = CHR ''t'' then Some (char_of (9 :: nat), rest)
      else if e = CHR ''f'' then Some (char_of (12 :: nat), rest)
      else if e = CHR ''b'' then Some (char_of (8 :: nat), rest)
      else if e = CHR ''u''
      then (case rest of
              z1 # z2 # h # l # rest \<Rightarrow>
                (case (hex_value z1, hex_value z2, hex_value h, hex_value l) of
                   (Some 0, Some 0, Some m, Some n) \<Rightarrow> Some (char_of (16 * m + n), rest)
                 | _ \<Rightarrow> None)
            | _ \<Rightarrow> None)
      else if e = json_quote \<or> e = backslash \<or> e = CHR ''/'' then Some (e, rest)
      else None)"

declare json_escape.simps [simp del]

lemma json_escape_length: "json_escape e rest = Some (c, rest') \<Longrightarrow> length rest' \<le> length rest"
  by (auto simp: json_escape.simps split: if_splits list.splits option.splits nat.splits)

text \<open>The body of a string up to its closing quote, and what follows.\<close>

function json_read :: "string \<Rightarrow> (string \<times> string) option" where
  "json_read [] = None"
| "json_read (c # rest) =
     (if c = json_quote then Some ([], rest)
      else if c = backslash
      then (case rest of
              [] \<Rightarrow> None
            | e # rest \<Rightarrow>
                (case json_escape e rest of
                   None \<Rightarrow> None
                 | Some (d, rest) \<Rightarrow> map_option (\<lambda>(s, r). (d # s, r)) (json_read rest)))
      else if code c < 32 then None
      else map_option (\<lambda>(s, r). (c # s, r)) (json_read rest))"
  by pat_completeness auto

termination
  by (relation "measure length") (auto dest: json_escape_length)

lemma code_char_of: "n < 256 \<Longrightarrow> code (char_of n) = n"
  by (simp add: code_def of_char_of)

lemma char_of_code: "char_of (code c) = c"
  by (simp add: code_def)

lemma code_less: "code c < 256"
  by (metis code_def mod_less_divisor of_char_mod_256 zero_less_numeral)

lemma hex_value_hex_char: "n < 16 \<Longrightarrow> hex_value (hex_char n) = Some n"
  by (auto simp: hex_value_def hex_char_def code_char_of is_digit_def)

lemma json_read_char: "json_read (json_char c @ rest) = map_option (\<lambda>(s, r). (c # s, r)) (json_read rest)"
proof -
  have "hex_value (CHR ''0'') = Some 0" "hex_value (hex_char (code c div 16)) = Some (code c div 16)"
    "hex_value (hex_char (code c mod 16)) = Some (code c mod 16)"
    using code_less [of c] by (simp add: hex_value_def is_digit_def code_def, simp_all add: hex_value_hex_char)
  note hex = this char_of_code [of c]
  have codes: "code c = 10 \<Longrightarrow> char_of (10 :: nat) = c" "code c = 13 \<Longrightarrow> char_of (13 :: nat) = c"
    "code c = 9 \<Longrightarrow> char_of (9 :: nat) = c" "code c = 12 \<Longrightarrow> char_of (12 :: nat) = c"
    "code c = 8 \<Longrightarrow> char_of (8 :: nat) = c"
    using char_of_code [of c] by simp_all
  show ?thesis
    using hex codes
    by (auto simp: json_char_def json_escape.simps json_quote_def backslash_def)
qed

text \<open>Reading back what was written: a string literal ends where its body ends.\<close>

lemma json_read_string: "json_read (concat (map json_char s) @ json_quote # rest) = Some (s, rest)"
  by (induction s) (simp_all add: json_read_char)

lemma json_string_inject: "json_string s @ x = json_string t @ y \<longleftrightarrow> s = t \<and> x = y"
proof
  assume "json_string s @ x = json_string t @ y"
  then have "json_read (concat (map json_char s) @ json_quote # x) = json_read (concat (map json_char t) @ json_quote # y)"
    by (simp add: json_string_def)
  then show "s = t \<and> x = y"
    by (simp add: json_read_string)
qed simp

lemma json_string_eq [simp]: "json_string s = json_string t \<longleftrightarrow> s = t"
  using json_string_inject [of s "[]" t "[]"] by simp


section \<open>Numbers and booleans\<close>

definition json_bool :: "bool \<Rightarrow> string" where
  "json_bool b = (if b then ''true'' else ''false'')"

definition json_int :: "int \<Rightarrow> string" where
  "json_int n = (if n < 0 then CHR ''-'' # show_nat (nat (- n)) else show_nat (nat n))"

lemma json_bool_inject: "json_bool a @ CHR '','' # x = json_bool b @ CHR '','' # y \<longleftrightarrow> a = b \<and> x = y"
  by (cases a; cases b) (simp_all add: json_bool_def)

lemma show_nat_inject: "show_nat m @ CHR '','' # x = show_nat n @ CHR '','' # y \<longleftrightarrow> m = n \<and> x = y"
proof
  assume eq: "show_nat m @ CHR '','' # x = show_nat n @ CHR '','' # y"
  have "takeWhile is_digit (show_nat k @ CHR '','' # z) = show_nat k" for k z
    using show_nat_digits [of k] by (simp add: is_digit_def code_def)
  then have "show_nat m = show_nat n"
    using eq by metis
  then show "m = n \<and> x = y"
    using eq decimal_value_show_nat by (metis append_same_eq list.inject same_append_eq)
qed simp

end
