(* ===== verification/Requests.thy ===== *)
theory Requests
  imports Json_Text Policy Ledger_Props
begin

text \<open>
  Direct request intake: \<open>src/steam_agent/execution/agent_requests.py\<close>.  The configuration is a
  map of strings; SHA-256, the two readings of the policy file, the clock at each ledger call,
  the minted nonce and the disk floor are arguments.  Values of a wrong Python type (an AppID
  that is a boolean, a force that is not one) do not exist in the model.
\<close>


section \<open>The intent\<close>

record direct_request =
  dr_operation :: string
  dr_appid :: int
  dr_request_id :: string
  dr_account_alias :: "string option"
  dr_force :: bool

type_synonym broker_config = "string \<Rightarrow> string option"

datatype request_error =
    Refused string
  | Policy_unusable policy_error
  | Ledger_refused ledger_error
  | Missing_config string

definition letter :: "char \<Rightarrow> bool" where
  "letter c \<longleftrightarrow> (65 \<le> code c \<and> code c \<le> 90) \<or> (97 \<le> code c \<and> code c \<le> 122)"

text \<open>\<open>_REQUEST_ID\<close> and \<open>_ACCOUNT_ALIAS\<close>, matched against the whole string.\<close>

definition request_id_ok :: "string \<Rightarrow> bool" where
  "request_id_ok s =
     (case s of
        [] \<Rightarrow> False
      | c # cs \<Rightarrow> (letter c \<or> is_digit c) \<and> 7 \<le> length cs \<and> length cs \<le> 127 \<and>
          list_all (\<lambda>c. letter c \<or> is_digit c \<or> c \<in> set ''._:-'') cs)"

definition account_alias_ok :: "string \<Rightarrow> bool" where
  "account_alias_ok s =
     (case s of
        [] \<Rightarrow> False
      | c # cs \<Rightarrow> letter c \<and> length cs \<le> 63 \<and>
          list_all (\<lambda>c. letter c \<or> is_digit c \<or> c \<in> set ''_-'') cs)"

definition config_or :: "broker_config \<Rightarrow> string \<Rightarrow> string \<Rightarrow> string" where
  "config_or config key dflt = (case config key of None \<Rightarrow> dflt | Some v \<Rightarrow> v)"

definition request_alias :: "broker_config \<Rightarrow> direct_request \<Rightarrow> string" where
  "request_alias config q =
     (case dr_account_alias q of
        None \<Rightarrow> config_or config ''account_alias'' ''desktop'' | Some a \<Rightarrow> a)"

definition request_key :: "(string \<Rightarrow> string) \<Rightarrow> direct_request \<Rightarrow> string" where
  "request_key sha256 q = ''intent:'' @ sha256 (dr_request_id q)"

definition json_key :: "string \<Rightarrow> string" where
  "json_key k = json_string k @ '': ''"

definition intent_document :: "direct_request \<Rightarrow> string \<Rightarrow> string \<Rightarrow> string \<Rightarrow> string" where
  "intent_document q plan_key alias machine =
     ''{'' @ json_key ''force'' @ json_bool (dr_force q) @ '', '' @
     json_key ''idempotency_key'' @ json_string plan_key @ '', '' @
     json_key ''operation'' @ json_string (dr_operation q) @ '', '' @
     json_key ''schema'' @ json_string ''operation-intent/0.1'' @ '', '' @
     json_key ''target'' @ ''{'' @
     json_key ''account_alias'' @ json_string alias @ '', '' @
     json_key ''appid'' @ json_int (dr_appid q) @ '', '' @
     json_key ''machine_id'' @ json_string machine @ ''}}''"

record intent =
  in_key :: string
  in_document :: string
  in_alias :: string
  in_machine :: string

definition make_intent ::
    "(string \<Rightarrow> string) \<Rightarrow> broker_config \<Rightarrow> direct_request \<Rightarrow> request_error + intent" where
  "make_intent sha256 config q =
     (let alias = request_alias config q; machine = config_or config ''machine_id'' ''local'';
          key = request_key sha256 q in
      bindE (raise_if (dr_operation q \<notin> set supported_operations) (Refused ''operation is not executable'')) (\<lambda>_.
      bindE (raise_if (\<not> (1 \<le> dr_appid q \<and> dr_appid q \<le> 4294967295)) (Refused ''appid is malformed'')) (\<lambda>_.
      bindE (raise_if (\<not> request_id_ok (dr_request_id q))
        (Refused ''request-id must be 8-128 ASCII identifier characters'')) (\<lambda>_.
      bindE (raise_if (dr_force q \<and> dr_operation q \<noteq> ''stop'') (Refused ''force is supported only for stop'')) (\<lambda>_.
      bindE (raise_if (\<not> account_alias_ok alias) (Refused ''account alias is malformed'')) (\<lambda>_.
      Inr \<lparr>in_key = key, in_document = intent_document q key alias machine, in_alias = alias,
           in_machine = machine\<rparr>))))))"


section \<open>Permission and provisioning\<close>

definition request_permitted :: "policy \<Rightarrow> direct_request \<Rightarrow> bool" where
  "request_permitted p q \<longleftrightarrow>
     grant_for p (dr_operation q) \<in> {''allow'', ''confirm''} \<and>
     (dr_operation q \<noteq> ''launch'' \<or> launch_permitted p (dr_appid q)) \<and>
     (dr_operation q \<noteq> ''stop'' \<or> stop_permitted p (dr_appid q) (dr_force q))"

text \<open>\<open>config.get(key, "").strip()\<close> is empty.\<close>

definition blank :: "broker_config \<Rightarrow> string \<Rightarrow> bool" where
  "blank config key \<longleftrightarrow> strip (config_or config key []) = []"

definition content_provisioning ::
    "broker_config \<Rightarrow> string \<Rightarrow> string \<Rightarrow> string \<Rightarrow> request_error + unit" where
  "content_provisioning config operation alias platform =
     (if operation \<notin> {''install'', ''verify''} then Inr ()
      else if platform \<noteq> ''linux'' then Inl (Refused ''content execution requires a qualified Linux host'')
      else if blank config ''steamcmd'' then Inl (Refused ''content execution is not provisioned'')
      else if blank config ''steam_login'' \<or> Some alias \<noteq> config ''account_alias''
      then Inl (Refused ''account has no provisioned Steam login'')
      else Inr ())"


section \<open>Recording or reusing\<close>

record receipt =
  re_operation_id :: nat
  re_state :: op_state
  re_reused :: bool
  re_nonce :: "string option"
  re_detail :: "string option"
  re_denied :: "string option"

record intake_env =
  ie_expire_at :: int
  ie_request_at :: int
  ie_confirm_at :: int
  ie_nonce :: string
  ie_platform :: string
  ie_first_policy :: "policy_error + policy"
  ie_second_policy :: "policy_error + policy"
  ie_disk_floor :: "string \<Rightarrow> int option \<Rightarrow> string option"

definition reuse_receipt ::
    "intent \<Rightarrow> op_row \<times> string option \<Rightarrow> request_error + receipt" where
  "reuse_receipt it = (\<lambda>(recorded, nonce).
     if r_account_alias recorded \<noteq> in_alias it \<or> r_machine_id recorded \<noteq> in_machine it
     then Inl (Ledger_refused (LedgerError ''request-id is bound to different account or machine''))
     else Inr \<lparr>re_operation_id = r_id recorded, re_state = r_state recorded, re_reused = True,
       re_nonce = nonce, re_detail = r_detail recorded, re_denied = None\<rparr>)"

text \<open>After the request is recorded: confirm on the spot, where the policy still allows it.\<close>

definition auto_confirm ::
    "intake_env \<Rightarrow> broker_config \<Rightarrow> direct_request \<Rightarrow> nat \<Rightarrow> string \<Rightarrow> db \<Rightarrow>
       (request_error + receipt) \<times> db" where
  "auto_confirm env config q i nonce d =
     (let pending = \<lparr>re_operation_id = i, re_state = PendingConfirmation, re_reused = False,
        re_nonce = Some nonce, re_detail = None, re_denied = None\<rparr> in
      case ie_second_policy env of
        Inl e \<Rightarrow> (Inr pending, d)
      | Inr current \<Rightarrow>
          if grant_for current (dr_operation q) \<noteq> ''allow'' \<or> \<not> request_permitted current q
          then (Inr pending, d)
          else
            case (if dr_operation q = ''stop'' then Inr None
                  else case config ''library'' of
                         None \<Rightarrow> Inl (Missing_config ''library'')
                       | Some library \<Rightarrow> Inr (ie_disk_floor env library (p_min_free_gb current))) of
              Inl e \<Rightarrow> (Inl e, d)
            | Inr (Some denied) \<Rightarrow> (Inr (pending\<lparr>re_denied := Some denied\<rparr>), d)
            | Inr None \<Rightarrow>
                (case confirm (ie_confirm_at env) nonce (''policy:'' @ p_version current)
                    default_execution_window d of
                   (Inl e, d) \<Rightarrow> (Inl (Ledger_refused e), d)
                 | (Inr _, d) \<Rightarrow>
                     (Inr \<lparr>re_operation_id = i, re_state = Authorized, re_reused = False,
                        re_nonce = None, re_detail = None, re_denied = None\<rparr>, d)))"

definition record_new ::
    "intake_env \<Rightarrow> broker_config \<Rightarrow> direct_request \<Rightarrow> intent \<Rightarrow> db \<Rightarrow> (request_error + receipt) \<times> db" where
  "record_new env config q it d =
     (case ie_first_policy env of
        Inl e \<Rightarrow> (Inl (Policy_unusable e), d)
      | Inr policy \<Rightarrow>
          if \<not> request_permitted policy q
          then (Inl (Refused ''operation, AppID or force is not permitted by policy''), d)
          else case content_provisioning config (dr_operation q) (in_alias it) (ie_platform env) of
            Inl e \<Rightarrow> (Inl e, d)
          | Inr _ \<Rightarrow>
              (case request (ie_request_at env) (ie_nonce env) default_nonce_ttl
                 \<lparr>in_plan_key = in_key it, in_plan_document = in_document it,
                  in_operation = dr_operation q, in_appid = dr_appid q,
                  in_account_alias = in_alias it, in_machine_id = in_machine it,
                  in_policy_version = p_version policy\<rparr> d of
                 (Inl e, d) \<Rightarrow> (Inl (Ledger_refused e), d)
               | (Inr (i, nonce), d) \<Rightarrow> auto_confirm env config q i nonce d))"

definition record_or_reuse ::
    "(string \<Rightarrow> string) \<Rightarrow> intake_env \<Rightarrow> broker_config \<Rightarrow> direct_request \<Rightarrow> db \<Rightarrow>
       (request_error + receipt) \<times> db" where
  "record_or_reuse sha256 env config q d =
     (case make_intent sha256 config q of
        Inl e \<Rightarrow> (Inl e, d)
      | Inr it \<Rightarrow>
          (case expire_lapsed (ie_expire_at env) d of
             (Inl e, d) \<Rightarrow> (Inl (Ledger_refused e), d)
           | (Inr _, d) \<Rightarrow>
               (case find_request (in_key it) (in_document it) True d of
                  Inl e \<Rightarrow> (Inl (Ledger_refused e), d)
                | Inr (Some existing) \<Rightarrow> (reuse_receipt it existing, d)
                | Inr None \<Rightarrow> record_new env config q it d)))"

end
