(* ===== verification/Requests_Props.thy ===== *)
theory Requests_Props
  imports Requests
begin

text \<open>
  The properties of request intake: the recorded document identifies the intent, a repeated
  request reuses its receipt, and nothing is authorized on the spot unless the policy still
  says \<open>allow\<close> when it is read again.
\<close>


section \<open>The intent\<close>

lemma make_intent_Inr:
  "make_intent sha256 config q = Inr it \<longleftrightarrow>
     dr_operation q \<in> set supported_operations \<and> 1 \<le> dr_appid q \<and> dr_appid q \<le> 4294967295 \<and>
     request_id_ok (dr_request_id q) \<and> (dr_force q \<longrightarrow> dr_operation q = ''stop'') \<and>
     account_alias_ok (request_alias config q) \<and>
     it = \<lparr>in_key = request_key sha256 q,
       in_document = intent_document q (request_key sha256 q) (request_alias config q)
         (config_or config ''machine_id'' ''local''),
       in_alias = request_alias config q, in_machine = config_or config ''machine_id'' ''local''\<rparr>"
  by (auto simp: make_intent_def Let_def bindE_eq_Inr)

text \<open>The recorded document identifies the intent: two well-formed requests whose documents
  are equal have the same operation, AppID, force, key, account alias and machine.\<close>

theorem document_identifies_intent:
  assumes "make_intent sha256 config q = Inr it" "make_intent sha256' config' q' = Inr it'"
    and "in_document it = in_document it'"
  shows "dr_operation q = dr_operation q' \<and> dr_appid q = dr_appid q' \<and> dr_force q = dr_force q' \<and>
    in_key it = in_key it' \<and> in_alias it = in_alias it' \<and> in_machine it = in_machine it'"
proof -
  have int: "json_int (dr_appid q) = show_nat (nat (dr_appid q))" "json_int (dr_appid q') = show_nat (nat (dr_appid q'))"
    and bounds: "1 \<le> dr_appid q" "1 \<le> dr_appid q'"
    using assms(1,2) by (simp_all add: make_intent_Inr json_int_def)
  have "intent_document q (in_key it) (in_alias it) (in_machine it) =
      intent_document q' (in_key it') (in_alias it') (in_machine it')"
    using assms by (simp add: make_intent_Inr)
  then show ?thesis
    unfolding intent_document_def json_key_def int using bounds
    by (simp add: json_string_inject json_bool_inject show_nat_inject eq_nat_nat_iff)
qed

definition demo_direct :: direct_request where
  "demo_direct = \<lparr>dr_operation = ''install'', dr_appid = 620, dr_request_id = ''request-1'',
     dr_account_alias = None, dr_force = False\<rparr>"

definition demo_broker :: broker_config where
  "demo_broker = [''library'' \<mapsto> ''/games'', ''steamcmd'' \<mapsto> ''/usr/bin/steamcmd'',
     ''steam_login'' \<mapsto> ''login'', ''account_alias'' \<mapsto> ''desktop'']"

lemma demo_intent: "make_intent (\<lambda>s. s) demo_broker demo_direct = Inr \<lparr>in_key = ''intent:request-1'',
    in_document = intent_document demo_direct ''intent:request-1'' ''desktop'' ''local'',
    in_alias = ''desktop'', in_machine = ''local''\<rparr>"
  by (simp add: make_intent_Inr demo_direct_def demo_broker_def supported_operations_def request_key_def
      request_alias_def config_or_def request_id_ok_def account_alias_ok_def letter_def is_digit_def code_def)

theorem document_identifies_intent_witness:
  "\<exists>it. make_intent (\<lambda>s. s) demo_broker demo_direct = Inr it \<and> in_key it = ''intent:request-1'' \<and>
     dr_appid demo_direct = 620"
  using document_identifies_intent [OF demo_intent demo_intent refl] demo_intent by (simp add: demo_direct_def)


section \<open>Reuse\<close>

lemma sort_key_single: "sort_key f [x] = [x]"
  by simp

lemma find_request_found:
  assumes "ledger_wf d" "find_request key doc True d = Inr (Some (r, nonce))"
  shows "r \<in> set (db_operations d)" "r_plan_key r = key" "r_plan_document r = doc"
proof -
  obtain x xs where x: "sort_key r_id (filter (\<lambda>r. r_plan_key r = key) (db_operations d)) = x # xs"
    "r_plan_document x = doc" "get_row (r_id x) d = Inr r"
    using assms(2) by (auto simp: find_request_def bindE_eq_Inr split: list.splits if_splits)
  then have "x \<in> set (sort_key r_id (filter (\<lambda>r. r_plan_key r = key) (db_operations d)))"
    by (metis list.set_intros(1))
  then have "x \<in> set (db_operations d)" "r_plan_key x = key"
    by simp_all
  with x get_row_in [OF assms(1)] show "r \<in> set (db_operations d)" "r_plan_key r = key" "r_plan_document r = doc"
    by auto
qed

lemma find_request_none:
  assumes "find_request key doc True d = Inr None" "r \<in> set (db_operations d)"
  shows "r_plan_key r \<noteq> key"
proof
  assume "r_plan_key r = key"
  with assms(2) have "r \<in> set (sort_key r_id (filter (\<lambda>r. r_plan_key r = key) (db_operations d)))"
    by simp
  then have "sort_key r_id (filter (\<lambda>r. r_plan_key r = key) (db_operations d)) \<noteq> []"
    by (metis empty_iff empty_set)
  then show False
    using assms(1) by (auto simp: find_request_def bindE_eq_Inr split: list.splits if_splits)
qed

lemma find_request_only:
  assumes "ledger_wf d" "filter (\<lambda>r. r_plan_key r = key) (db_operations d) = [r]" "r_plan_document r = doc"
  shows "find_request key doc True d =
    Inr (Some (r, if r_state r = PendingConfirmation then r_nonce r else None))"
proof -
  have "r \<in> set (filter (\<lambda>r. r_plan_key r = key) (db_operations d))"
    by (simp only: assms(2) list.set_intros)
  then have "get_row (r_id r) d = Inr r"
    by (simp add: get_row_in [OF assms(1)])
  with assms show ?thesis
    by (simp add: find_request_def)
qed

text \<open>The row a fresh request leaves: it alone has the key, and it is this request's.\<close>

definition fresh_row :: "intent \<Rightarrow> op_row \<Rightarrow> bool" where
  "fresh_row it r \<longleftrightarrow> r_plan_key r = in_key it \<and> r_plan_document r = in_document it \<and>
     r_account_alias r = in_alias it \<and> r_machine_id r = in_machine it"

lemma reuse_fresh:
  "fresh_row it r \<Longrightarrow> reuse_receipt it (r, n) = Inr \<lparr>re_operation_id = r_id r, re_state = r_state r,
     re_reused = True, re_nonce = n, re_detail = r_detail r, re_denied = None\<rparr>"
  by (simp add: reuse_receipt_def fresh_row_def)

lemma expire_row_fresh [simp]: "fresh_row it (expire_row now r) = fresh_row it r"
  by (simp add: fresh_row_def expire_row_def)

lemma confirm_row_fresh [simp]: "fresh_row it (confirm_row now n a w r) = fresh_row it r"
  by (simp add: fresh_row_def confirm_row_def)

lemma expire_row_plan_key [simp]: "r_plan_key (expire_row now r) = r_plan_key r"
  by (simp add: expire_row_def)

lemma confirm_row_plan_key [simp]: "r_plan_key (confirm_row now n a w r) = r_plan_key r"
  by (simp add: confirm_row_def)

lemma filter_map_key:
  assumes "\<And>r. r_plan_key (f r) = r_plan_key r"
  shows "filter (\<lambda>r. r_plan_key r = key) (map f rs) = map f (filter (\<lambda>r. r_plan_key r = key) rs)"
  using assms by (simp add: filter_map comp_def)

lemma request_Inr:
  assumes "ledger_wf d" "request now nonce ttl iq d = (Inr (i, n), d')"
  shows "n = nonce" "i \<notin> r_id ` set (db_operations d)" "in_operation iq \<in> set supported_operations"
    "db_operations d' = map (expire_row now) (db_operations d) @ [new_row now nonce ttl iq i]"
    "nonce \<notin> used_nonces d \<Longrightarrow> ledger_wf d'"
proof -
  show op: "in_operation iq \<in> set supported_operations"
    using assms(2) by (auto simp: request_def split: if_splits)
  let ?d = "expired_db now d"
  have wf: "ledger_wf ?d"
    using assms(1) by (rule ledger_wf_expired)
  from wf have "insert_request now nonce ttl iq ?d = Inr ((next_id (db_operations ?d), nonce), requested_db now nonce ttl iq ?d)"
    using assms(2) request_wf [OF assms(1) op, of now nonce ttl]
    by (cases rule: insert_request_cases [of _ now nonce ttl iq]) auto
  then have eq: "n = nonce" "i = next_id (db_operations ?d)" "d' = requested_db now nonce ttl iq ?d"
    using assms(2) request_wf [OF assms(1) op, of now nonce ttl] by auto
  then show "n = nonce" by simp
  have "i \<notin> r_id ` set (db_operations ?d)"
    using next_id_greater unfolding eq(2) by fastforce
  then show "i \<notin> r_id ` set (db_operations d)"
    by (simp add: image_image)
  show "db_operations d' = map (expire_row now) (db_operations d) @ [new_row now nonce ttl iq i]"
    using eq by (simp add: requested_db_def)
  show "nonce \<notin> used_nonces d \<Longrightarrow> ledger_wf d'"
    using ledger_wf_request [OF assms(1), of nonce now ttl iq] assms(2) by simp
qed

text \<open>Exactly one row has the key, and it is the row of this request.\<close>

definition held :: "intent \<Rightarrow> nat \<Rightarrow> db \<Rightarrow> bool" where
  "held it i d \<longleftrightarrow>
     (\<exists>r. filter (\<lambda>r. r_plan_key r = in_key it) (db_operations d) = [r] \<and> fresh_row it r \<and> r_id r = i)"

lemma held_expired: "held it i d \<Longrightarrow> held it i (expired_db now d)"
  by (auto simp: held_def filter_map_key)

lemma held_confirmed: "held it i d \<Longrightarrow> held it i (confirmed_db now n a w j d)"
  by (auto simp: held_def filter_map_key confirmed_db_def)

lemma held_request:
  assumes "ledger_wf d" "\<forall>r \<in> set (db_operations d). r_plan_key r \<noteq> in_key it"
    and "request now nonce ttl \<lparr>in_plan_key = in_key it, in_plan_document = in_document it,
      in_operation = o1, in_appid = a, in_account_alias = in_alias it, in_machine_id = in_machine it,
      in_policy_version = v\<rparr> d = (Inr (i, n), d')"
  shows "held it i d'"
proof -
  have "filter (\<lambda>r. r_plan_key r = in_key it) (map (expire_row now) (db_operations d)) = []"
    using assms(2) by (simp add: filter_map_key filter_empty_conv)
  with request_Inr(4) [OF assms(1,3)] show ?thesis
    by (simp add: held_def new_row_def fresh_row_def)
qed

lemma auto_confirm_Inr:
  assumes "ledger_wf d" "auto_confirm env config q i n d = (Inr rc, d')"
  shows "re_operation_id rc = i \<and> \<not> re_reused rc \<and> ledger_wf d' \<and>
    map r_id (db_operations d') = map r_id (db_operations d) \<and> (held it i d \<longrightarrow> held it i d')"
  using assms(1)
proof (cases rule: confirm_wf_cases [of _ "ie_confirm_at env" n "''policy:'' @ p_version (projr (ie_second_policy env))"
      default_execution_window])
  case (accepted r)
  have "map r_id (db_operations (confirmed_db (ie_confirm_at env) n a w (r_id r) d)) = map r_id (db_operations d)" for a w
    by (simp add: confirmed_db_def)
  with accepted assms ledger_wf_confirmed [OF assms(1) accepted(1,2)] held_confirmed show ?thesis
    by (auto simp: auto_confirm_def Let_def split: sum.splits if_splits option.splits)
next
  case rejected
  with assms show ?thesis
    by (auto simp: auto_confirm_def Let_def split: sum.splits if_splits option.splits)
qed

lemma record_new_Inr:
  assumes "ledger_wf d" "record_new env config q it d = (Inr rc, d')"
  obtains p i dq where "ie_first_policy env = Inr p" "request_permitted p q"
    "request (ie_request_at env) (ie_nonce env) default_nonce_ttl \<lparr>in_plan_key = in_key it,
       in_plan_document = in_document it, in_operation = dr_operation q, in_appid = dr_appid q,
       in_account_alias = in_alias it, in_machine_id = in_machine it, in_policy_version = p_version p\<rparr> d =
       (Inr (i, ie_nonce env), dq)"
    "auto_confirm env config q i (ie_nonce env) dq = (Inr rc, d')"
proof -
  from assms(2) obtain p i n dq where *: "ie_first_policy env = Inr p" "request_permitted p q"
    "request (ie_request_at env) (ie_nonce env) default_nonce_ttl \<lparr>in_plan_key = in_key it,
       in_plan_document = in_document it, in_operation = dr_operation q, in_appid = dr_appid q,
       in_account_alias = in_alias it, in_machine_id = in_machine it, in_policy_version = p_version p\<rparr> d =
       (Inr (i, n), dq)" "auto_confirm env config q i n dq = (Inr rc, d')"
    by (auto simp: record_new_def split: sum.splits if_splits prod.splits)
  with request_Inr(1) [OF assms(1) *(3)] show thesis
    by (intro that) auto
qed

lemma record_or_reuse_wf:
  assumes "ledger_wf d" "make_intent sha256 config q = Inr it"
  shows "record_or_reuse sha256 env config q d =
    (let d0 = expired_db (ie_expire_at env) d in
     case find_request (in_key it) (in_document it) True d0 of
       Inl e \<Rightarrow> (Inl (Ledger_refused e), d0)
     | Inr (Some existing) \<Rightarrow> (reuse_receipt it existing, d0)
     | Inr None \<Rightarrow> record_new env config q it d0)"
  using assms by (simp add: record_or_reuse_def expire_lapsed_wf Let_def)

lemma record_or_reuse_Inr:
  assumes "ledger_wf d" "record_or_reuse sha256 env config q d = (Inr rc, d')"
  obtains (reused) it r n where "make_intent sha256 config q = Inr it"
      "find_request (in_key it) (in_document it) True (expired_db (ie_expire_at env) d) = Inr (Some (r, n))"
      "reuse_receipt it (r, n) = Inr rc" "re_reused rc" "d' = expired_db (ie_expire_at env) d"
    | (recorded) it where "make_intent sha256 config q = Inr it"
      "find_request (in_key it) (in_document it) True (expired_db (ie_expire_at env) d) = Inr None"
      "record_new env config q it (expired_db (ie_expire_at env) d) = (Inr rc, d')" "\<not> re_reused rc"
proof -
  obtain it where it: "make_intent sha256 config q = Inr it"
    using assms(2) by (auto simp: record_or_reuse_def split: sum.splits)
  let ?d = "expired_db (ie_expire_at env) d"
  have wf: "ledger_wf ?d"
    using assms(1) by (rule ledger_wf_expired)
  consider r n where "find_request (in_key it) (in_document it) True ?d = Inr (Some (r, n))"
      "reuse_receipt it (r, n) = Inr rc" "d' = ?d"
    | "find_request (in_key it) (in_document it) True ?d = Inr None" "record_new env config q it ?d = (Inr rc, d')"
    using assms(2) record_or_reuse_wf [OF assms(1) it, of env]
    by (auto simp: Let_def split: sum.splits option.splits)
  then show thesis
  proof cases
    case 1
    then show thesis
      by (intro reused [OF it]) (auto simp: reuse_receipt_def split: if_splits)
  next
    case 2
    obtain i dq where parts: "auto_confirm env config q i (ie_nonce env) dq = (Inr rc, d')"
      by (rule record_new_Inr [OF wf 2(2)]) (rule that)
    have "\<not> re_reused rc"
      using parts by (auto simp: auto_confirm_def Let_def split: sum.splits if_splits option.splits prod.splits)
    with 2 show thesis by (rule recorded [OF it])
  qed
qed

section \<open>Asking twice\<close>

lemma recorded_held:
  assumes "ledger_wf d" "ie_nonce env \<notin> used_nonces d" "record_or_reuse sha256 env config q d = (Inr rc, d')"
    and "\<not> re_reused rc"
  obtains it where "make_intent sha256 config q = Inr it" "held it (re_operation_id rc) d'" "ledger_wf d'"
  using assms(1,3)
proof (cases rule: record_or_reuse_Inr)
  case (reused it r n)
  with assms(4) show thesis by simp
next
  case (recorded it)
  let ?d = "expired_db (ie_expire_at env) d"
  have wf: "ledger_wf ?d"
    using assms(1) by (rule ledger_wf_expired)
  have free: "\<forall>r \<in> set (db_operations ?d). r_plan_key r \<noteq> in_key it"
    using find_request_none [OF recorded(2)] by blast
  have nonce: "ie_nonce env \<notin> used_nonces ?d"
    using assms(2) used_nonces_expired by blast
  obtain p :: policy and i dq where *: "request (ie_request_at env) (ie_nonce env) default_nonce_ttl \<lparr>in_plan_key = in_key it,
       in_plan_document = in_document it, in_operation = dr_operation q, in_appid = dr_appid q,
       in_account_alias = in_alias it, in_machine_id = in_machine it, in_policy_version = p_version p\<rparr> ?d =
       (Inr (i, ie_nonce env), dq)" "auto_confirm env config q i (ie_nonce env) dq = (Inr rc, d')"
    by (rule record_new_Inr [OF wf recorded(3)]) (rule that)
  have "ledger_wf dq"
    by (rule request_Inr(5) [OF wf *(1) nonce])
  with auto_confirm_Inr [OF this *(2)] held_request [OF wf free *(1)] recorded(1)
  show thesis by (auto intro: that)
qed

text \<open>A recorded request is idempotent: asked again, in any later environment, it returns the
  same operation, marked as reused, and adds no row to the ledger.\<close>

theorem request_idempotent:
  assumes "ledger_wf d" "ie_nonce env \<notin> used_nonces d"
    and "record_or_reuse sha256 env config q d = (Inr rc, d1)" "\<not> re_reused rc"
  shows "\<exists>rc2 d2. record_or_reuse sha256 env2 config q d1 = (Inr rc2, d2) \<and> re_reused rc2 \<and>
    re_operation_id rc2 = re_operation_id rc \<and> re_denied rc2 = None \<and>
    map r_id (db_operations d2) = map r_id (db_operations d1)"
proof -
  obtain it where it: "make_intent sha256 config q = Inr it" "held it (re_operation_id rc) d1" "ledger_wf d1"
    using assms by (rule recorded_held)
  let ?d = "expired_db (ie_expire_at env2) d1"
  obtain r where r: "filter (\<lambda>r. r_plan_key r = in_key it) (db_operations ?d) = [r]" "fresh_row it r"
    "r_id r = re_operation_id rc"
    using held_expired [OF it(2)] by (auto simp: held_def)
  have "find_request (in_key it) (in_document it) True ?d =
      Inr (Some (r, if r_state r = PendingConfirmation then r_nonce r else None))"
    using ledger_wf_expired [OF it(3)] r(1,2) by (intro find_request_only) (auto simp: fresh_row_def)
  with r show ?thesis
    by (simp add: record_or_reuse_wf [OF it(3,1)] Let_def reuse_fresh)
qed

definition demo_policy :: policy where
  "demo_policy = \<lparr>p_version = ''v1'', p_grants = [(''install'', ''allow'')], p_min_free_gb = None,
     p_launch_allowlist = [], p_stop_allowlist = [], p_stop_allow_force = False\<rparr>"

definition demo_env :: intake_env where
  "demo_env = \<lparr>ie_expire_at = 0, ie_request_at = 0, ie_confirm_at = 1, ie_nonce = ''n1'', ie_platform = ''linux'',
     ie_first_policy = Inr demo_policy, ie_second_policy = Inr demo_policy, ie_disk_floor = \<lambda>_ _. None\<rparr>"

lemma demo_request:
  "\<exists>rc d1. record_or_reuse (\<lambda>s. s) demo_env demo_broker demo_direct demo_open = (Inr rc, d1) \<and>
     \<not> re_reused rc \<and> re_state rc = Authorized \<and> re_operation_id rc = 1"
proof -
  have "map_sum id (\<lambda>rc. (re_reused rc, re_state rc, re_operation_id rc))
      (fst (record_or_reuse (\<lambda>s. s) demo_env demo_broker demo_direct demo_open)) = Inr (False, Authorized, 1)"
    by code_simp
  then show ?thesis
    by (cases "record_or_reuse (\<lambda>s. s) demo_env demo_broker demo_direct demo_open"; cases "fst (record_or_reuse (\<lambda>s. s) demo_env demo_broker demo_direct demo_open)") auto
qed

lemma demo_open_wf: "ledger_wf demo_open"
  using reach_open by (rule ledger_reachable_wf)

theorem request_idempotent_witness:
  "\<exists>rc d1 rc2 d2. record_or_reuse (\<lambda>s. s) demo_env demo_broker demo_direct demo_open = (Inr rc, d1) \<and>
     record_or_reuse (\<lambda>s. s) demo_env demo_broker demo_direct d1 = (Inr rc2, d2) \<and>
     re_reused rc2 \<and> re_operation_id rc2 = 1"
proof -
  obtain rc d1 where *: "record_or_reuse (\<lambda>s. s) demo_env demo_broker demo_direct demo_open = (Inr rc, d1)"
    "\<not> re_reused rc" "re_operation_id rc = 1"
    using demo_request by blast
  have "ie_nonce demo_env \<notin> used_nonces demo_open"
    by (simp add: demo_open_eq used_nonces_def)
  from request_idempotent [OF demo_open_wf this *(1,2), of demo_env] * show ?thesis
    by auto
qed


section \<open>Authorization on the spot\<close>

text \<open>A request is authorized on the spot only where both readings of the policy permit the
  request, the second grants it \<open>allow\<close>, and the disk floor denies nothing (a stop reads none).\<close>

theorem auto_authorization_earned:
  assumes "ledger_wf d" "record_or_reuse sha256 env config q d = (Inr rc, d')"
    and "\<not> re_reused rc" "re_state rc = Authorized"
  shows "\<exists>p1 p2. ie_first_policy env = Inr p1 \<and> request_permitted p1 q \<and>
    ie_second_policy env = Inr p2 \<and> request_permitted p2 q \<and> grant_for p2 (dr_operation q) = ''allow'' \<and>
    (dr_operation q = ''stop'' \<or>
      (\<exists>library. config ''library'' = Some library \<and> ie_disk_floor env library (p_min_free_gb p2) = None))"
  using assms(1,2)
proof (cases rule: record_or_reuse_Inr)
  case (reused it r n)
  with assms(3) show ?thesis by simp
next
  case (recorded it)
  obtain p i dq where first: "ie_first_policy env = Inr p" "request_permitted p q"
    and auto: "auto_confirm env config q i (ie_nonce env) dq = (Inr rc, d')"
    by (rule record_new_Inr [OF ledger_wf_expired [OF assms(1)] recorded(3)]) (rule that)
  from auto assms(4) show ?thesis
    using first by (auto simp: auto_confirm_def Let_def split: sum.splits if_splits option.splits prod.splits)
qed

theorem auto_authorization_earned_witness:
  "\<exists>rc d1 p2. record_or_reuse (\<lambda>s. s) demo_env demo_broker demo_direct demo_open = (Inr rc, d1) \<and>
     re_state rc = Authorized \<and> ie_second_policy demo_env = Inr p2 \<and> grant_for p2 ''install'' = ''allow''"
proof -
  obtain rc d1 where *: "record_or_reuse (\<lambda>s. s) demo_env demo_broker demo_direct demo_open = (Inr rc, d1)"
    "\<not> re_reused rc" "re_state rc = Authorized"
    using demo_request by blast
  from auto_authorization_earned [OF demo_open_wf *] * show ?thesis
    by (auto simp: demo_direct_def)
qed

end
