(* ===== verification/Exec_Monad.thy ===== *)
theory Exec_Monad
  imports Broker_Prelude
begin

text \<open>
  Programs that change a state and may stop early: a Python function body whose \<open>return\<close>
  in the middle or exception skips the rest.  With them a weakest-precondition calculus; its
  rules are collected in \<open>wp_rules\<close>.
\<close>

named_theorems wp_rules \<open>weakest preconditions of programs\<close>

type_synonym ('s, 'e, 'a) prog = "'s \<Rightarrow> ('e + 'a) \<times> 's"

definition give :: "'a \<Rightarrow> ('s, 'e, 'a) prog" where
  "give x = (\<lambda>s. (Inr x, s))"

definition stop :: "'e \<Rightarrow> ('s, 'e, 'a) prog" where
  "stop e = (\<lambda>s. (Inl e, s))"

definition seq :: "('s, 'e, 'a) prog \<Rightarrow> ('a \<Rightarrow> ('s, 'e, 'b) prog) \<Rightarrow> ('s, 'e, 'b) prog" where
  "seq m f = (\<lambda>s. case m s of (Inl e, t) \<Rightarrow> (Inl e, t) | (Inr x, t) \<Rightarrow> f x t)"

text \<open>\<open>wp m Q E\<close>: after \<open>m\<close> the value satisfies \<open>Q\<close>, or the early stop \<open>E\<close>.\<close>

definition wp ::
    "('s, 'e, 'a) prog \<Rightarrow> ('a \<Rightarrow> 's \<Rightarrow> bool) \<Rightarrow> ('e \<Rightarrow> 's \<Rightarrow> bool) \<Rightarrow> 's \<Rightarrow> bool" where
  "wp m Q E s = (case m s of (Inl e, t) \<Rightarrow> E e t | (Inr x, t) \<Rightarrow> Q x t)"

lemma wp_give [wp_rules]: "wp (give x) Q E s = Q x s"
  by (simp add: wp_def give_def)

lemma wp_stop [wp_rules]: "wp (stop e) Q E s = E e s"
  by (simp add: wp_def stop_def)

lemma wp_seq [wp_rules]: "wp (seq m f) Q E s = wp m (\<lambda>x. wp (f x) Q E) E s"
  by (simp add: wp_def seq_def split: prod.split sum.split)

lemma wp_if [wp_rules]: "wp (if c then m else n) Q E s = (if c then wp m Q E s else wp n Q E s)"
  by simp

lemma wp_case_option [wp_rules]:
  "wp (case x of None \<Rightarrow> m | Some y \<Rightarrow> f y) Q E s =
     (case x of None \<Rightarrow> wp m Q E s | Some y \<Rightarrow> wp (f y) Q E s)"
  by (simp split: option.split)

lemma wp_case_sum [wp_rules]:
  "wp (case x of Inl y \<Rightarrow> f y | Inr z \<Rightarrow> g z) Q E s =
     (case x of Inl y \<Rightarrow> wp (f y) Q E s | Inr z \<Rightarrow> wp (g z) Q E s)"
  by (simp split: sum.split)

lemma wp_mono:
  "wp m Q E s \<Longrightarrow> (\<And>x t. Q x t \<Longrightarrow> Q' x t) \<Longrightarrow> (\<And>e t. E e t \<Longrightarrow> E' e t) \<Longrightarrow> wp m Q' E' s"
  by (auto simp: wp_def split: prod.splits sum.splits)

lemma wp_run:
  "wp m Q E s \<Longrightarrow> m s = (r, t) \<Longrightarrow> (case r of Inl e \<Rightarrow> E e t | Inr x \<Rightarrow> Q x t)"
  by (auto simp: wp_def split: sum.split)

text \<open>
  \<open>keeps I m\<close>: the program keeps the invariant, however it ends.  The rules take a program
  apart, so what the primitive steps keep, everything built from them keeps.
\<close>

named_theorems keeps_rules \<open>programs that keep an invariant\<close>

definition keeps :: "('s \<Rightarrow> bool) \<Rightarrow> ('s, 'e, 'a) prog \<Rightarrow> bool" where
  "keeps I m \<longleftrightarrow> (\<forall>s. I s \<longrightarrow> I (snd (m s)))"

lemma keepsD: "keeps I m \<Longrightarrow> I s \<Longrightarrow> I (snd (m s))"
  by (simp add: keeps_def)

lemma keeps_give [keeps_rules]: "keeps I (give x)"
  by (simp add: keeps_def give_def)

lemma keeps_stop [keeps_rules]: "keeps I (stop e)"
  by (simp add: keeps_def stop_def)

lemma keeps_seq [keeps_rules]: "keeps I m \<Longrightarrow> (\<And>x. keeps I (f x)) \<Longrightarrow> keeps I (seq m f)"
  unfolding keeps_def seq_def by (fastforce split: prod.split sum.split)

lemma keeps_if [keeps_rules]:
  "(c \<Longrightarrow> keeps I m) \<Longrightarrow> (\<not> c \<Longrightarrow> keeps I n) \<Longrightarrow> keeps I (if c then m else n)"
  by simp

lemma keeps_case_option [keeps_rules]:
  "keeps I m \<Longrightarrow> (\<And>y. keeps I (f y)) \<Longrightarrow> keeps I (case x of None \<Rightarrow> m | Some y \<Rightarrow> f y)"
  by (simp split: option.split)

lemma keeps_case_sum [keeps_rules]:
  "(\<And>y. keeps I (f y)) \<Longrightarrow> (\<And>z. keeps I (g z)) \<Longrightarrow>
     keeps I (case x of Inl y \<Rightarrow> f y | Inr z \<Rightarrow> g z)"
  by (simp split: sum.split)

end
