(* ===== verification/Manifest.thy ===== *)
theory Manifest
  imports Broker_Prelude
begin

text \<open>
  Steam application manifests as \<open>src/steam_agent/execution/content_plane.py\<close> reads and
  patches them, and the two directory checks of \<open>executor.py\<close>.  A file is absent, unreadable
  or its text; manifests are ASCII, so decoding is the identity.  The regular expressions are
  hand-written matchers: each of their parts stops at a character the part cannot contain, so
  the greedy match is the only one.
\<close>


section \<open>Files and fields\<close>

datatype contents =
    Absent
  | Unreadable
  | File string

definition quote :: char where
  "quote = CHR 0x22"

text \<open>
  \<open>match_head key\<close> is the pattern \<open>"key"\s+"\<close> at the start of the text: the matched
  characters and the rest.
\<close>

fun drop_prefix :: "string \<Rightarrow> string \<Rightarrow> string option" where
  "drop_prefix [] t = Some t"
| "drop_prefix (p # ps) [] = None"
| "drop_prefix (p # ps) (c # cs) = (if p = c then drop_prefix ps cs else None)"

definition match_head :: "string \<Rightarrow> string \<Rightarrow> (string \<times> string) option" where
  "match_head key t =
     (case drop_prefix (quote # key @ [quote]) t of
        None \<Rightarrow> None
      | Some r \<Rightarrow>
          (let sp = takeWhile is_space r; r' = dropWhile is_space r in
           if sp = [] then None
           else (case r' of
               [] \<Rightarrow> None
             | c # cs \<Rightarrow>
                 if c = quote then Some (quote # key @ [quote] @ sp @ [quote], cs) else None)))"

text \<open>\<open>match_field key ok one_or_more\<close>: the head, the value of characters \<open>ok\<close>, a quote.\<close>

definition match_field ::
    "string \<Rightarrow> (char \<Rightarrow> bool) \<Rightarrow> string \<Rightarrow> (string \<times> string \<times> string) option" where
  "match_field key ok t =
     (case match_head key t of
        None \<Rightarrow> None
      | Some (h, r) \<Rightarrow>
          (case dropWhile ok r of
             [] \<Rightarrow> None
           | c # cs \<Rightarrow> if c = quote then Some (h, takeWhile ok r, cs) else None))"

text \<open>\<open>re.search\<close>: the text before the leftmost match, and the match.\<close>

fun search :: "(string \<Rightarrow> 'a option) \<Rightarrow> string \<Rightarrow> (string \<times> 'a) option" where
  "search m [] = map_option (Pair []) (m [])"
| "search m (c # cs) =
     (case m (c # cs) of
        Some x \<Rightarrow> Some ([], x)
      | None \<Rightarrow> map_option (\<lambda>(pre, x). (c # pre, x)) (search m cs))"

definition digits_field :: "string \<Rightarrow> string \<Rightarrow> string option" where
  "digits_field key t =
     (case search (\<lambda>t. case match_field key is_digit t of
                         Some (h, v, r) \<Rightarrow> if v = [] then None else Some v
                       | None \<Rightarrow> None) t of
        None \<Rightarrow> None
      | Some (_, v) \<Rightarrow> Some v)"

definition not_quote :: "char \<Rightarrow> bool" where
  "not_quote c \<longleftrightarrow> c \<noteq> quote"

definition installdir_match :: "string \<Rightarrow> (string \<times> string \<times> string) option" where
  "installdir_match = match_field ''installdir'' not_quote"


section \<open>Reading a manifest\<close>

text \<open>\<open>_manifest_u32\<close>; the digits are ASCII because the pattern matched them.\<close>

definition manifest_u32 :: "string \<Rightarrow> int option" where
  "manifest_u32 v =
     (if length v > 10 \<or> \<not> (v \<noteq> [] \<and> list_all is_digit v) then None
      else let n = int (decimal_value v) in if n \<le> 4294967295 then Some n else None)"

definition manifest_appid :: "contents \<Rightarrow> int option" where
  "manifest_appid f =
     (case f of File t \<Rightarrow> Option.bind (digits_field ''appid'' t) manifest_u32 | _ \<Rightarrow> None)"

definition manifest_state_flags :: "contents \<Rightarrow> int option" where
  "manifest_state_flags f =
     (case f of File t \<Rightarrow> Option.bind (digits_field ''StateFlags'' t) manifest_u32 | _ \<Rightarrow> None)"

definition manifest_install_dir :: "contents \<Rightarrow> string option" where
  "manifest_install_dir f =
     (case f of
        File t \<Rightarrow> (case search installdir_match t of Some (_, _, v, _) \<Rightarrow> Some v | None \<Rightarrow> None)
      | _ \<Rightarrow> None)"


section \<open>Pointing a manifest at a directory\<close>

text \<open>\<open>re.subn\<close> with the fixed head and the closing quote kept: the text and the count.\<close>

lemma drop_prefix_length: "drop_prefix p t = Some r \<Longrightarrow> length t = length p + length r"
  by (induction p t rule: drop_prefix.induct) (auto split: if_splits)

lemma match_head_length: "match_head key t = Some (h, r) \<Longrightarrow> length r < length t"
proof -
  assume "match_head key t = Some (h, r)"
  then obtain u where u: "drop_prefix (quote # key @ [quote]) t = Some u"
    and r: "dropWhile is_space u = quote # r"
    by (auto simp: match_head_def Let_def split: option.splits list.splits if_splits)
  have "length (dropWhile is_space u) \<le> length u"
    by (rule length_dropWhile_le)
  with drop_prefix_length [OF u] r show ?thesis by simp
qed

lemma match_field_length:
  assumes "match_field key ok t = Some (h, v, r)"
  shows "length r < length t"
proof -
  from assms obtain u where "match_head key t = Some (h, u)" and r: "dropWhile ok u = quote # r"
    by (auto simp: match_field_def split: option.splits list.splits if_splits)
  with match_head_length have "length u < length t" by blast
  moreover have "length (dropWhile ok u) \<le> length u"
    by (rule length_dropWhile_le)
  ultimately show ?thesis using r by simp
qed

lemma search_length:
  "search m t = Some (pre, x) \<Longrightarrow> \<exists>u. t = pre @ u \<and> m u = Some x"
  by (induction m t arbitrary: pre rule: search.induct) (auto split: option.splits)

function subn_installdir :: "string \<Rightarrow> string \<Rightarrow> string \<times> nat" where
  "subn_installdir name t =
     (case search installdir_match t of
        None \<Rightarrow> (t, 0)
      | Some (pre, h, _, r) \<Rightarrow>
          (let (r', n) = subn_installdir name r in (pre @ h @ name @ [quote] @ r', Suc n)))"
  by pat_completeness auto
termination
  by (relation "measure (length \<circ> snd)")
     (auto dest!: search_length match_field_length simp: installdir_match_def)

declare subn_installdir.simps [simp del]

datatype adoption_error =
    AdoptionError string
  | FilesystemError

text \<open>\<open>_patched_manifest\<close>; a source that cannot be read is an \<open>OSError\<close>.\<close>

definition patched_manifest :: "contents \<Rightarrow> string \<Rightarrow> adoption_error + string" where
  "patched_manifest source name =
     (case source of
        File t \<Rightarrow>
          (let (patched, count) = subn_installdir name t in
           if count \<noteq> 1
           then Inl (AdoptionError (''manifest installdir field missing or ambiguous ('' @
                  show_nat count @ '' matches)''))
           else Inr patched)
      | _ \<Rightarrow> Inl FilesystemError)"


section \<open>Directory names and content\<close>

definition utf8_length :: "string \<Rightarrow> nat" where
  "utf8_length s = sum_list (map (\<lambda>c. if code c < 128 then 1 else 2) s)"

definition safe_install_dir_name :: "string \<Rightarrow> bool" where
  "safe_install_dir_name name \<longleftrightarrow>
     name \<noteq> [] \<and> name \<notin> {''.'', ''..''} \<and>
     \<not> (\<exists>c \<in> set name. c = CHR 0x2F \<or> c = CHR 0x5C \<or> c = quote) \<and>
     utf8_length name \<le> 255 \<and>
     \<not> (\<exists>c \<in> set name. code c < 32)"

text \<open>
  A directory tree as \<open>os.scandir\<close> lists it: an unreadable directory has no listing, and
  \<open>StatFails\<close> is an entry whose type or size cannot be read.
\<close>

datatype entry =
    Link
  | StatFails
  | Regular nat
  | Directory "entry list option"

definition content_probe_entries :: nat where
  "content_probe_entries = 100000"

datatype scan_result =
    Found
  | Spent
  | Listed nat "entry list option list"

fun scan_entries ::
    "nat \<Rightarrow> entry list \<Rightarrow> entry list option list \<Rightarrow> scan_result" where
  "scan_entries budget [] dirs = Listed budget dirs"
| "scan_entries budget (e # es) dirs =
     (if budget = 0 then Spent
      else case e of
          Directory l \<Rightarrow> scan_entries (budget - 1) es (dirs @ [l])
        | Regular n \<Rightarrow> if n > 0 then Found else scan_entries (budget - 1) es dirs
        | _ \<Rightarrow> scan_entries (budget - 1) es dirs)"

fun entries_of :: "entry \<Rightarrow> nat" and listing_size :: "entry list option \<Rightarrow> nat" where
  "entries_of (Directory None) = 2"
| "entries_of (Directory (Some es)) = 2 + sum_list (map entries_of es)"
| "entries_of _ = 1"
| "listing_size l = entries_of (Directory l)"

lemma scan_entries_size:
  "scan_entries b es dirs = Listed b' dirs' \<Longrightarrow>
     sum_list (map listing_size dirs') \<le> sum_list (map listing_size dirs) + sum_list (map entries_of es)"
  by (induction b es dirs rule: scan_entries.induct) (auto split: if_splits entry.splits)

text \<open>The stack is listed from its top; the last directory found is scanned first.\<close>

function probe_stack :: "nat \<Rightarrow> entry list option list \<Rightarrow> bool" where
  "probe_stack budget [] = False"
| "probe_stack budget (None # stack) = probe_stack budget stack"
| "probe_stack budget (Some es # stack) =
     (case scan_entries budget es [] of
        Found \<Rightarrow> True
      | Spent \<Rightarrow> False
      | Listed budget' dirs \<Rightarrow> probe_stack budget' (rev dirs @ stack))"
  by pat_completeness auto
termination
proof (relation "measure (\<lambda>(b, stack). sum_list (map listing_size stack))", goal_cases)
  case (3 budget es stack b dirs)
  then show ?case
    using scan_entries_size [of budget es "[]" b dirs] by (simp add: rev_map [symmetric])
qed simp_all

definition holds_a_nonempty_file :: "entry list option \<Rightarrow> bool" where
  "holds_a_nonempty_file root = probe_stack content_probe_entries [root]"

end
