(* ===== verification/Manifest_Props.thy ===== *)
theory Manifest_Props
  imports Manifest
begin

text \<open>
  What patching a manifest changes, and what the content probe finds.  A manifest is cut into
  the segments between its quotes; a field is then three consecutive segments, and patching
  replaces one segment.
\<close>


section \<open>Segments between quotes\<close>

fun segs :: "string \<Rightarrow> string list" where
  "segs [] = [[]]"
| "segs (c # cs) = (if c = quote then [] # segs cs else (c # hd (segs cs)) # tl (segs cs))"

fun unsegs :: "string list \<Rightarrow> string" where
  "unsegs [] = []"
| "unsegs [s] = s"
| "unsegs (s # ss) = s @ quote # unsegs ss"

lemma segs_not_Nil [simp]: "segs t \<noteq> []"
  by (cases t) simp_all

lemma unsegs_Cons: "ss \<noteq> [] \<Longrightarrow> unsegs (s # ss) = s @ quote # unsegs ss"
  by (cases ss) simp_all

lemma unsegs_segs: "unsegs (segs t) = t"
proof (induction t)
  case (Cons c cs)
  then show ?case
  proof (cases "segs cs")
    case (Cons s ss)
    with Cons.IH show ?thesis
      by (cases ss) (auto simp: unsegs_Cons)
  qed simp
qed simp

lemma segs_inject: "segs s = segs t \<longleftrightarrow> s = t"
  by (metis unsegs_segs)

lemma segs_append: "quote \<notin> set s \<Longrightarrow> segs (s @ quote # t) = s # segs t"
  by (induction s) auto

lemma is_space_quote [simp]: "\<not> is_space quote"
  by (simp add: is_space_def quote_def code_def)

lemma is_digit_quote [simp]: "\<not> is_digit quote"
  by (simp add: is_digit_def quote_def code_def)

lemma not_quote_quote [simp]: "\<not> not_quote quote"
  by (simp add: not_quote_def)

lemma drop_prefix_iff: "drop_prefix p t = Some r \<longleftrightarrow> t = p @ r"
  by (induction p t rule: drop_prefix.induct) auto

lemma list_all_no_quote: "list_all ok s \<Longrightarrow> \<not> ok quote \<Longrightarrow> quote \<notin> set s"
  by (auto simp: list_all_iff)

lemma dropWhile_quote:
  "\<not> ok quote \<Longrightarrow> dropWhile ok t = quote # r \<longleftrightarrow> (\<exists>s. t = s @ quote # r \<and> list_all ok s)"
proof
  assume "dropWhile ok t = quote # r"
  moreover have "list_all ok (takeWhile ok t)"
    by (auto simp: list_all_iff dest: set_takeWhileD)
  ultimately show "\<exists>s. t = s @ quote # r \<and> list_all ok s"
    by (metis takeWhile_dropWhile_id)
qed (auto simp: list_all_iff)

lemma takeWhile_quote:
  "\<not> ok quote \<Longrightarrow> list_all ok s \<Longrightarrow> takeWhile ok (s @ quote # r) = s"
  by (simp add: list_all_iff)

definition head_text :: "string \<Rightarrow> string \<Rightarrow> string" where
  "head_text key sp = quote # key @ [quote] @ sp @ [quote]"

lemma match_head_iff:
  "match_head key t = Some (h, r) \<longleftrightarrow>
     (\<exists>sp. t = head_text key sp @ r \<and> h = head_text key sp \<and> sp \<noteq> [] \<and> list_all is_space sp)"
proof
  assume m: "match_head key t = Some (h, r)"
  then obtain u where u: "t = (quote # key @ [quote]) @ u" "takeWhile is_space u \<noteq> []"
    and d: "dropWhile is_space u = quote # r"
    and h: "h = head_text key (takeWhile is_space u)"
    by (auto simp: match_head_def Let_def drop_prefix_iff head_text_def
        split: option.splits list.splits if_splits)
  from d obtain s where s: "u = s @ quote # r" "list_all is_space s"
    by (auto simp: dropWhile_quote)
  with u h show "\<exists>sp. t = head_text key sp @ r \<and> h = head_text key sp \<and> sp \<noteq> [] \<and>
      list_all is_space sp"
    by (intro exI [of _ s]) (simp add: takeWhile_quote head_text_def)
next
  assume "\<exists>sp. t = head_text key sp @ r \<and> h = head_text key sp \<and> sp \<noteq> [] \<and> list_all is_space sp"
  then obtain sp where sp: "t = head_text key sp @ r" "h = head_text key sp" "sp \<noteq> []"
    "list_all is_space sp" by blast
  then have "drop_prefix (quote # key @ [quote]) t = Some (sp @ quote # r)"
    unfolding drop_prefix_iff by (simp add: head_text_def)
  moreover have "dropWhile is_space (sp @ quote # r) = quote # r"
    using sp(4) by (auto simp: dropWhile_quote)
  ultimately show "match_head key t = Some (h, r)"
    using sp by (simp add: match_head_def Let_def takeWhile_quote head_text_def)
qed

lemma match_field_iff:
  assumes "\<not> ok quote"
  shows "match_field key ok t = Some (h, v, r) \<longleftrightarrow>
    (\<exists>sp. t = head_text key sp @ v @ quote # r \<and> h = head_text key sp \<and> sp \<noteq> [] \<and>
       list_all is_space sp \<and> list_all ok v)"
proof
  assume "match_field key ok t = Some (h, v, r)"
  then obtain u where u: "match_head key t = Some (h, u)" "dropWhile ok u = quote # r"
    "v = takeWhile ok u"
    by (auto simp: match_field_def split: option.splits list.splits if_splits)
  from u(2) assms obtain s where "u = s @ quote # r" "list_all ok s"
    by (auto simp: dropWhile_quote)
  with u assms show "\<exists>sp. t = head_text key sp @ v @ quote # r \<and> h = head_text key sp \<and>
      sp \<noteq> [] \<and> list_all is_space sp \<and> list_all ok v"
    by (auto simp: match_head_iff takeWhile_quote)
next
  assume "\<exists>sp. t = head_text key sp @ v @ quote # r \<and> h = head_text key sp \<and>
      sp \<noteq> [] \<and> list_all is_space sp \<and> list_all ok v"
  then have "match_head key t = Some (h, v @ quote # r)" and v: "list_all ok v"
    by (auto simp: match_head_iff)
  moreover have "dropWhile ok (v @ quote # r) = quote # r"
    using v assms by (auto simp: dropWhile_quote)
  ultimately show "match_field key ok t = Some (h, v, r)"
    using assms by (simp add: match_field_def takeWhile_quote)
qed


section \<open>Searching the segments\<close>

definition seg_at ::
    "string \<Rightarrow> (string \<Rightarrow> bool) \<Rightarrow> string list \<Rightarrow> (string \<times> string \<times> string list) option" where
  "seg_at key P ss =
     (case ss of
        k # sp # v # r # rs \<Rightarrow>
          if k = key \<and> sp \<noteq> [] \<and> list_all is_space sp \<and> P v then Some (sp, v, r # rs) else None
      | _ \<Rightarrow> None)"

fun seg_find ::
    "string \<Rightarrow> (string \<Rightarrow> bool) \<Rightarrow> string list \<Rightarrow>
       (string list \<times> string \<times> string \<times> string list) option" where
  "seg_find key P [] = None"
| "seg_find key P (s # ss) =
     (case seg_at key P ss of
        Some x \<Rightarrow> Some ([s], x)
      | None \<Rightarrow> map_option (\<lambda>(as, x). (s # as, x)) (seg_find key P ss))"

lemma seg_at_Some:
  "seg_at key P ss = Some (sp, v, rs) \<longleftrightarrow>
     ss = key # sp # v # rs \<and> rs \<noteq> [] \<and> sp \<noteq> [] \<and> list_all is_space sp \<and> P v"
  by (auto simp: seg_at_def split: list.splits)

lemma seg_at_None:
  "seg_at key P ss = None \<longleftrightarrow>
     \<not> (\<exists>sp v rs. ss = key # sp # v # rs \<and> rs \<noteq> [] \<and> sp \<noteq> [] \<and> list_all is_space sp \<and> P v)"
  by (auto simp: seg_at_def split: list.splits)

lemma seg_find_Some:
  "seg_find key P ss = Some (as, sp, v, rs) \<Longrightarrow>
     ss = as @ key # sp # v # rs \<and> as \<noteq> [] \<and> rs \<noteq> [] \<and> sp \<noteq> [] \<and> list_all is_space sp \<and> P v"
  by (induction key P ss arbitrary: as rule: seg_find.induct)
     (auto simp: seg_at_Some split: option.splits)

text \<open>The matcher of a field whose value also satisfies \<open>Q\<close>.\<close>

definition match_value ::
    "string \<Rightarrow> (char \<Rightarrow> bool) \<Rightarrow> (string \<Rightarrow> bool) \<Rightarrow> string \<Rightarrow> (string \<times> string \<times> string) option" where
  "match_value key ok Q t =
     (case match_field key ok t of
        None \<Rightarrow> None
      | Some (h, v, r) \<Rightarrow> if Q v then Some (h, v, r) else None)"

lemma quote_free: "list_all P s \<Longrightarrow> \<not> P quote \<Longrightarrow> quote \<notin> set s"
  by (auto simp: list_all_iff)

lemma match_value_iff:
  "match_value key ok Q t = Some (h, v, r) \<longleftrightarrow> match_field key ok t = Some (h, v, r) \<and> Q v"
  by (auto simp: match_value_def split: option.splits)

lemma match_value_segs:
  assumes ok: "\<not> ok quote" and key: "quote \<notin> set key"
  shows "match_value key ok Q (quote # cs) =
    (case seg_at key (\<lambda>v. list_all ok v \<and> Q v) (segs cs) of
       None \<Rightarrow> None
     | Some (sp, v, rs) \<Rightarrow> Some (head_text key sp, v, unsegs rs))"
    (is "?l = ?r")
proof (rule option.expand)
  have field: "?l = Some (h, v, r) \<longleftrightarrow>
      (\<exists>sp. cs = key @ quote # sp @ quote # v @ quote # r \<and> h = head_text key sp \<and> sp \<noteq> [] \<and>
        list_all is_space sp \<and> list_all ok v \<and> Q v)" for h v r
    unfolding match_value_iff match_field_iff [of ok, OF ok] by (auto simp: head_text_def)
  have seg: "?r = Some (h, v, r) \<longleftrightarrow>
      (\<exists>sp rs. segs cs = key # sp # v # rs \<and> rs \<noteq> [] \<and> h = head_text key sp \<and> r = unsegs rs \<and>
        sp \<noteq> [] \<and> list_all is_space sp \<and> list_all ok v \<and> Q v)" for h v r
    by (auto simp: seg_at_Some seg_at_None split: option.splits)
  have eq: "?l = Some (h, v, r) \<longleftrightarrow> ?r = Some (h, v, r)" for h v r
  proof
    assume "?l = Some (h, v, r)"
    then obtain sp where sp: "cs = key @ quote # sp @ quote # v @ quote # r" "h = head_text key sp"
      "sp \<noteq> []" "list_all is_space sp" "list_all ok v" "Q v"
      unfolding field by blast
    then have "segs cs = key # sp # v # segs r"
      using key ok by (simp add: segs_append quote_free)
    with sp show "?r = Some (h, v, r)"
      unfolding seg by (intro exI [of _ sp] exI [of _ "segs r"]) (simp add: unsegs_segs)
  next
    assume "?r = Some (h, v, r)"
    then obtain sp rs where sp: "segs cs = key # sp # v # rs" "rs \<noteq> []" "h = head_text key sp"
      "r = unsegs rs" "sp \<noteq> []" "list_all is_space sp" "list_all ok v" "Q v"
      unfolding seg by blast
    then have "cs = key @ quote # sp @ quote # v @ quote # r"
      using unsegs_segs [of cs] by (simp add: unsegs_Cons)
    with sp show "?l = Some (h, v, r)"
      unfolding field by blast
  qed
  show "(?l = None) = (?r = None)"
    using eq by (cases ?l; cases ?r) auto
  show "?l \<noteq> None \<Longrightarrow> ?r \<noteq> None \<Longrightarrow> the ?l = the ?r"
    using eq by (cases ?l; cases ?r) auto
qed

lemma match_value_other: "c \<noteq> quote \<Longrightarrow> match_value key ok Q (c # cs) = None"
  by (simp add: match_value_def match_field_def match_head_def)

lemma search_segs:
  assumes ok: "\<not> ok quote" and key: "quote \<notin> set key"
  shows "search (match_value key ok Q) t =
    (case seg_find key (\<lambda>v. list_all ok v \<and> Q v) (segs t) of
       None \<Rightarrow> None
     | Some (as, sp, v, rs) \<Rightarrow> Some (unsegs as, head_text key sp, v, unsegs rs))"
proof (induction t)
  case Nil
  then show ?case
    by (simp add: match_value_def match_field_def match_head_def seg_at_def)
next
  case (Cons c cs)
  show ?case
  proof (cases "c = quote")
    case True
    have "as \<noteq> []" if "seg_find key (\<lambda>v. list_all ok v \<and> Q v) (segs cs) = Some (as, x)" for as x
      using that seg_find_Some by (cases x) blast
    then show ?thesis
      using Cons.IH True
      by (auto simp: match_value_segs [of ok key, OF ok key] unsegs_Cons split: option.splits)
  next
    case False
    obtain s ss where s: "segs cs = s # ss"
      by (cases "segs cs") auto
    have "unsegs ((c # s) # as) = c # unsegs (s # as)" for as
      by (cases as) simp_all
    with False Cons.IH s show ?thesis
      by (auto simp: match_value_other split: option.splits)
  qed
qed


section \<open>Reading and patching by segments\<close>

definition seg_value :: "string \<Rightarrow> (string \<Rightarrow> bool) \<Rightarrow> string list \<Rightarrow> string option" where
  "seg_value key P ss = map_option (\<lambda>(as, sp, v, rs). v) (seg_find key P ss)"

lemma search_map: "search (\<lambda>t. map_option f (m t)) t = map_option (\<lambda>(p, x). (p, f x)) (search m t)"
  by (induction t) (auto simp: option.map_comp comp_def case_prod_unfold split: option.splits)

lemma digits_field_segs:
  assumes "quote \<notin> set key"
  shows "digits_field key t = seg_value key (\<lambda>v. list_all is_digit v \<and> v \<noteq> []) (segs t)"
proof -
  have "(\<lambda>t. case match_field key is_digit t of
            None \<Rightarrow> None | Some (h, v, r) \<Rightarrow> if v = [] then None else Some v) =
      (\<lambda>t. map_option (\<lambda>(h, v, r). v) (match_value key is_digit (\<lambda>v. v \<noteq> []) t))"
    by (auto simp: match_value_def fun_eq_iff split: option.split)
  then show ?thesis
    using search_segs [of is_digit key "\<lambda>v. v \<noteq> []" t] assms
    by (simp add: digits_field_def search_map seg_value_def split: option.split prod.split)
qed

lemma segs_no_quote: "s \<in> set (segs t) \<Longrightarrow> quote \<notin> set s"
proof (induction t arbitrary: s)
  case (Cons c cs)
  obtain u us where "segs cs = u # us"
    by (cases "segs cs") auto
  with Cons show ?case
    by (auto split: if_splits)
qed simp

definition idir_key :: string where
  "idir_key = ''installdir''"

lemma idir_facts [simp]: "quote \<notin> set idir_key" "\<not> list_all is_space idir_key" "idir_key \<noteq> []"
  by (simp_all add: idir_key_def quote_def is_space_def code_def)

lemma installdir_match_value: "installdir_match = match_value idir_key not_quote (\<lambda>_. True)"
  by (simp add: installdir_match_def match_value_def fun_eq_iff idir_key_def split: option.split prod.split)

abbreviation plain :: "string \<Rightarrow> bool" where
  "plain v \<equiv> list_all not_quote v \<and> True"

lemma plain_iff: "list_all not_quote v \<longleftrightarrow> quote \<notin> set v"
  by (auto simp: list_all_iff not_quote_def)

lemma search_installdir:
  "search installdir_match t =
    (case seg_find idir_key plain (segs t) of
       None \<Rightarrow> None
     | Some (as, sp, v, rs) \<Rightarrow> Some (unsegs as, head_text idir_key sp, v, unsegs rs))"
  unfolding installdir_match_value by (rule search_segs) simp_all

lemma install_dir_segs: "manifest_install_dir (File t) = seg_value idir_key plain (segs t)"
  by (simp add: manifest_install_dir_def search_installdir seg_value_def split: option.split prod.split)

lemma segs_unsegs_append:
  "as \<noteq> [] \<Longrightarrow> \<forall>s \<in> set as. quote \<notin> set s \<Longrightarrow> segs (unsegs as @ quote # u) = as @ segs u"
  by (induction as rule: unsegs.induct) (simp_all add: segs_append)

lemma segs_unsegs: "as \<noteq> [] \<Longrightarrow> \<forall>s \<in> set as. quote \<notin> set s \<Longrightarrow> segs (unsegs as) = as"
proof (induction as rule: unsegs.induct)
  case (2 s)
  then show ?case by (induction s) auto
qed (simp_all add: segs_append)

text \<open>A patched manifest: one segment replaced, and no second field to replace.\<close>

lemma patched_segs:
  assumes p: "patched_manifest (File t) name = Inr p" and name: "quote \<notin> set name"
  obtains as sp v rs where "seg_find idir_key plain (segs t) = Some (as, sp, v, rs)"
    "segs t = as @ idir_key # sp # v # rs" "segs p = as @ idir_key # sp # name # rs"
proof -
  have one: "subn_installdir name t = (p, 1)"
    using p by (auto simp: patched_manifest_def Let_def split: prod.splits if_splits)
  then obtain as sp v rs where f: "seg_find idir_key plain (segs t) = Some (as, sp, v, rs)"
    by (subst (asm) subn_installdir.simps) (auto simp: search_installdir split: option.splits)
  with one obtain r' where r: "subn_installdir name (unsegs rs) = (r', 0)"
    and p': "p = unsegs as @ head_text idir_key sp @ name @ quote # r'"
    by (subst (asm) subn_installdir.simps) (auto simp: search_installdir split: prod.splits)
  from r have "r' = unsegs rs"
    by (subst (asm) subn_installdir.simps) (auto simp: Let_def split: option.splits prod.splits)
  from seg_find_Some [OF f] have t: "segs t = as @ idir_key # sp # v # rs" "as \<noteq> []" "rs \<noteq> []" by auto
  have free: "\<forall>s \<in> set as. quote \<notin> set s" "quote \<notin> set sp" "\<forall>s \<in> set rs. quote \<notin> set s"
    using segs_no_quote [of _ t] by (auto simp: t(1))
  have "segs p = as @ idir_key # sp # name # rs"
    using free t(2,3) name
    by (simp add: p' \<open>r' = unsegs rs\<close> head_text_def segs_unsegs_append segs_append segs_unsegs)
  with f t(1) show ?thesis by (rule that)
qed

lemma seg_at_before:
  "as \<noteq> [] \<Longrightarrow> map_option (\<lambda>(sp, v, rs). v) (seg_at key P (as @ idir_key # sp # v # rs)) =
     map_option (\<lambda>(sp, v, rs). v) (seg_at key P (as @ idir_key # sp # w # rs))"
  by (auto simp: seg_at_def split: list.splits) (auto simp: Cons_eq_append_conv append_eq_Cons_conv)

lemma seg_value_Cons:
  "seg_value key P (s # ss) =
     (case map_option (\<lambda>(sp, v, rs). v) (seg_at key P ss) of
        Some v \<Rightarrow> Some v | None \<Rightarrow> seg_value key P ss)"
  by (auto simp: seg_value_def option.map_comp comp_def case_prod_unfold split: option.split)

lemma seg_value_skip: "seg_at key P ss = None \<Longrightarrow> seg_value key P (s # ss) = seg_value key P ss"
  by (simp add: seg_value_Cons)

lemma seg_value_first: "seg_value key P (s # ss) = seg_value key P (s' # ss)"
  by (simp add: seg_value_Cons)

lemma seg_at_key: "seg_at key P (k # ss) \<noteq> None \<Longrightarrow> k = key"
  by (auto simp: seg_at_None)

text \<open>The patched field reads back, and other fields read as before.\<close>

lemma seg_value_patched:
  assumes "list_all is_space sp" "sp \<noteq> []" "rs \<noteq> []" "P v" "P w" "P idir_key"
    and "seg_find idir_key P (as @ idir_key # sp # v # rs) = Some (as, sp, v, rs)"
  shows "seg_value idir_key P (as @ idir_key # sp # w # rs) = Some w"
  using assms(7)
proof (induction as)
  case Nil
  then show ?case
    using seg_find_Some by fastforce
next
  case (Cons a as)
  show ?case
  proof (cases "as = []")
    case True
    have "seg_at idir_key P (idir_key # sp # w # rs) = Some (sp, w, rs)"
      using assms(1-5) by (simp add: seg_at_Some)
    then show ?thesis
      unfolding True append.simps by (subst seg_value_Cons) simp
  next
    case False
    have none: "seg_at idir_key P (as @ idir_key # sp # v # rs) = None"
      using Cons.prems False by (auto split: option.splits)
    then have "seg_find idir_key P (as @ idir_key # sp # v # rs) = Some (as, sp, v, rs)"
      using Cons.prems by auto
    from Cons.IH [OF this]
    have "seg_value idir_key P (as @ idir_key # sp # w # rs) = Some w" .
    moreover have "seg_at idir_key P (as @ idir_key # sp # w # rs) = None"
      using none seg_at_before [OF False, of idir_key P sp v rs w] by simp
    ultimately show ?thesis
      by (simp only: append_Cons seg_value_skip)
  qed
qed

lemma seg_value_other:
  assumes "key \<noteq> idir_key" "\<not> list_all is_space key" "v \<noteq> key" "w \<noteq> key"
    and "list_all is_space sp"
  shows "seg_value key P (as @ idir_key # sp # v # rs) = seg_value key P (as @ idir_key # sp # w # rs)"
proof (induction as)
  case Nil
  have "sp \<noteq> key"
    using assms(2,5) by auto
  then have "seg_value key P (idir_key # sp # x # rs) = seg_value key P (x # rs)" if "x \<noteq> key" for x
    using that seg_at_key [of key P] by (metis seg_value_skip)
  with assms(3,4) seg_value_first [of key P v rs w] show ?case by simp
next
  case (Cons a as)
  show ?case
  proof (cases "as = []")
    case True
    with Cons assms(1) seg_at_key [of key P idir_key] show ?thesis
      by (metis append_Cons append_Nil seg_value_skip)
  next
    case False
    with Cons seg_at_before [OF False, of key P sp v rs w] show ?thesis
      by (simp add: seg_value_Cons split: option.split)
  qed
qed


section \<open>The content probe\<close>

text \<open>What the probe looks for, and the number of entries below a directory.\<close>

fun has_bytes :: "entry \<Rightarrow> bool" where
  "has_bytes (Regular n) \<longleftrightarrow> n > 0"
| "has_bytes (Directory (Some es)) \<longleftrightarrow> list_ex has_bytes es"
| "has_bytes _ \<longleftrightarrow> False"

fun entry_count :: "entry \<Rightarrow> nat" where
  "entry_count (Directory (Some es)) = Suc (sum_list (map entry_count es))"
| "entry_count _ = 1"

definition tree_entries :: "entry list option \<Rightarrow> nat" where
  "tree_entries l = (case l of None \<Rightarrow> 0 | Some es \<Rightarrow> sum_list (map entry_count es))"

fun subdirs :: "entry list \<Rightarrow> entry list option list" where
  "subdirs [] = []"
| "subdirs (Directory l # es) = l # subdirs es"
| "subdirs (_ # es) = subdirs es"

definition file_here :: "entry list \<Rightarrow> bool" where
  "file_here es \<longleftrightarrow> (\<exists>n. n > 0 \<and> Regular n \<in> set es)"

lemma file_here_simps [simp]:
  "\<not> file_here []"
  "file_here (e # es) \<longleftrightarrow> (case e of Regular n \<Rightarrow> n > 0 | _ \<Rightarrow> False) \<or> file_here es"
  by (auto simp: file_here_def split: entry.splits)

lemma scan_found: "scan_entries b es dirs = Found \<Longrightarrow> file_here es"
  by (induction b es dirs rule: scan_entries.induct)
     (auto split: if_splits entry.splits)

lemma scan_listed:
  "scan_entries b es dirs = Listed b' dirs' \<Longrightarrow>
     dirs' = dirs @ subdirs es \<and> \<not> file_here es \<and> b = b' + length es"
  by (induction b es dirs rule: scan_entries.induct)
     (auto split: if_splits entry.splits)

lemma scan_spent: "scan_entries b es dirs = Spent \<Longrightarrow> b < length es"
  by (induction b es dirs rule: scan_entries.induct) (auto split: if_splits entry.splits)

lemma has_bytes_listing:
  "has_bytes (Directory (Some es)) \<longleftrightarrow>
     file_here es \<or> (\<exists>l \<in> set (subdirs es). has_bytes (Directory l))"
  by (induction es rule: subdirs.induct) auto

lemma entry_count_Directory: "entry_count (Directory l) = Suc (tree_entries l)"
  by (cases l) (simp_all add: tree_entries_def)

lemma subdirs_count:
  "sum_list (map entry_count es) = length es + sum_list (map tree_entries (subdirs es))"
  by (induction es rule: subdirs.induct) (simp_all add: entry_count_Directory)

lemma probe_stack_sound: "probe_stack b stack \<Longrightarrow> \<exists>l \<in> set stack. has_bytes (Directory l)"
proof (induction b stack rule: probe_stack.induct)
  case (3 b es stack)
  then show ?case
    unfolding set_simps bex_simps has_bytes_listing
    by (auto split: scan_result.splits dest!: scan_found scan_listed)
qed auto

lemma probe_stack_complete:
  "sum_list (map tree_entries stack) \<le> b \<Longrightarrow> \<exists>l \<in> set stack. has_bytes (Directory l) \<Longrightarrow>
     probe_stack b stack"
proof (induction b stack rule: probe_stack.induct)
  case (3 b es stack)
  have cost: "sum_list (map entry_count es) + sum_list (map tree_entries stack) \<le> b"
    using "3.prems"(1) by (simp add: tree_entries_def [of "Some es"])
  show ?case
  proof (cases "scan_entries b es []")
    case Spent
    with scan_spent [of b es "[]"] cost subdirs_count [of es] show ?thesis by simp
  next
    case (Listed b' dirs)
    from scan_listed [OF this] have d: "dirs = subdirs es" "\<not> file_here es" "b = b' + length es"
      by simp_all
    have "\<exists>l \<in> set (rev dirs @ stack). has_bytes (Directory l)"
      using "3.prems"(2) d has_bytes_listing [of es] by auto
    moreover have "sum_list (map tree_entries (rev dirs @ stack)) \<le> b'"
      using cost d subdirs_count [of es] by (simp add: rev_map [symmetric])
    ultimately show ?thesis
      using "3.IH" [OF Listed] Listed by simp
  qed simp
qed auto


section \<open>Properties\<close>

definition demo_manifest :: string where
  "demo_manifest = [quote] @ ''appid'' @ [quote] @ '' '' @ [quote] @ ''620'' @ [quote] @ '' '' @
     [quote] @ ''StateFlags'' @ [quote] @ '' '' @ [quote] @ ''4'' @ [quote] @ '' '' @
     [quote] @ ''installdir'' @ [quote] @ '' '' @ [quote] @ ''app_620'' @ [quote] @ '' ''"

definition demo_patched :: string where
  "demo_patched = [quote] @ ''appid'' @ [quote] @ '' '' @ [quote] @ ''620'' @ [quote] @ '' '' @
     [quote] @ ''StateFlags'' @ [quote] @ '' '' @ [quote] @ ''4'' @ [quote] @ '' '' @
     [quote] @ ''installdir'' @ [quote] @ '' '' @ [quote] @ ''Portal 2'' @ [quote] @ '' ''"

lemma demo_patched_eq: "patched_manifest (File demo_manifest) ''Portal 2'' = Inr demo_patched"
  by code_simp

text \<open>A manifest that was patched to point at a safe directory name reads back exactly
  that name, and it had a directory to begin with.\<close>

theorem patched_install_dir:
  assumes "patched_manifest (File t) name = Inr p" "safe_install_dir_name name"
  shows "manifest_install_dir (File p) = Some name \<and>
    (\<exists>old. manifest_install_dir (File t) = Some old)"
proof -
  have q: "quote \<notin> set name"
    using assms(2) by (auto simp: safe_install_dir_name_def)
  from patched_segs [OF assms(1) q] obtain as sp v rs where
    f: "seg_find idir_key plain (segs t) = Some (as, sp, v, rs)"
    and t: "segs t = as @ idir_key # sp # v # rs" and p: "segs p = as @ idir_key # sp # name # rs" .
  from seg_find_Some [OF f] have "list_all is_space sp" "sp \<noteq> []" "rs \<noteq> []" "plain v" by simp_all
  then have "seg_value idir_key plain (segs p) = Some name"
    unfolding p using f q by (intro seg_value_patched [where v = v]) (simp_all add: plain_iff t)
  with f show ?thesis
    by (simp add: install_dir_segs seg_value_def)
qed

lemma patched_install_dir_witness: "manifest_install_dir (File demo_patched) = Some ''Portal 2''"
proof -
  have "safe_install_dir_name ''Portal 2''"
    by code_simp
  with patched_install_dir [OF demo_patched_eq] show ?thesis by simp
qed

text \<open>Patching touches nothing else that the broker reads: the AppID and the state flags
  of the patched manifest are those of the manifest steamcmd wrote, as long as neither the
  old nor the new directory is itself named like one of those fields.\<close>

theorem patched_keeps_identity:
  assumes "patched_manifest (File t) name = Inr p" "safe_install_dir_name name"
    and "manifest_install_dir (File t) = Some old"
    and "{name, old} \<inter> {''appid'', ''StateFlags''} = {}"
  shows "manifest_appid (File p) = manifest_appid (File t) \<and>
    manifest_state_flags (File p) = manifest_state_flags (File t)"
proof -
  have q: "quote \<notin> set name"
    using assms(2) by (auto simp: safe_install_dir_name_def)
  from patched_segs [OF assms(1) q] obtain as sp v rs where
    f: "seg_find idir_key plain (segs t) = Some (as, sp, v, rs)"
    and t: "segs t = as @ idir_key # sp # v # rs" and p: "segs p = as @ idir_key # sp # name # rs" .
  from seg_find_Some [OF f] have sp: "list_all is_space sp" by simp
  have "v = old"
    using f assms(3) by (simp add: install_dir_segs seg_value_def)
  then have "digits_field key p = digits_field key t"
    if "key \<in> {''appid'', ''StateFlags''}" for key
  proof -
    have key: "quote \<notin> set key" "key \<noteq> idir_key" "\<not> list_all is_space key"
      using that by (auto simp: quote_def idir_key_def is_space_def code_def)
    show ?thesis
      unfolding digits_field_segs [OF key(1)] t p
      using that assms(4) \<open>v = old\<close> by (intro seg_value_other [OF key(2,3)] sp) auto
  qed
  then show ?thesis
    by (simp add: manifest_appid_def manifest_state_flags_def)
qed

lemma patched_keeps_identity_witness:
  "manifest_appid (File demo_patched) = Some 620 \<and> manifest_state_flags (File demo_patched) = Some 4"
proof -
  have "safe_install_dir_name ''Portal 2''" "manifest_install_dir (File demo_manifest) = Some ''app_620''"
    "manifest_appid (File demo_manifest) = Some 620" "manifest_state_flags (File demo_manifest) = Some 4"
    by code_simp+
  with patched_keeps_identity [OF demo_patched_eq, of "''app_620''"] show ?thesis by simp
qed

text \<open>The content probe is right within its budget: it answers yes only if the tree holds
  a regular file with bytes outside links and unreadable directories, and it finds one
  whenever there is one in a tree of at most 100000 entries.\<close>

theorem content_probe_exact:
  shows "(holds_a_nonempty_file root \<longrightarrow> has_bytes (Directory root)) \<and>
    (tree_entries root \<le> content_probe_entries \<longrightarrow>
      holds_a_nonempty_file root = has_bytes (Directory root))"
  using probe_stack_sound [of content_probe_entries "[root]"]
    probe_stack_complete [of "[root]" content_probe_entries]
  by (auto simp: holds_a_nonempty_file_def)

lemma content_probe_exact_witness:
  "holds_a_nonempty_file (Some [Link, Regular 0, Directory None, Directory (Some [Regular 7])]) \<and>
     \<not> holds_a_nonempty_file (Some [Regular 0, Directory (Some [])])"
  using content_probe_exact [of "Some [Link, Regular 0, Directory None, Directory (Some [Regular 7])]"]
    content_probe_exact [of "Some [Regular 0, Directory (Some [])]"]
  by (simp add: tree_entries_def content_probe_entries_def)

end
