(* ===== verification/Adoption.thy ===== *)
theory Adoption
  imports Manifest_Props
begin

text \<open>
  Journaled adoption of one manifest: \<open>adopt_manifest\<close>, \<open>clear_adoption_journal\<close> and
  \<open>reconcile_adoption\<close> of \<open>src/steam_agent/execution/content_plane.py\<close>.

  The disk holds the files of one AppID: the client's manifest, the journal and the backup,
  and the identity of the mounted library.  Every file operation consults an \<open>io\<close> function
  at its index: it works, it fails before it takes effect, or it takes effect and then
  fails.  A durable write is one step (rename and directory sync), so a power loss at any
  point leaves the disk that one of the two failures leaves.  SHA-256 is a parameter.
\<close>


section \<open>The disk\<close>

datatype io =
    Ok
  | Fails
  | Lands_then_fails

record journal_record =
  j_operation_id :: "int option"
  j_destination :: string
  j_checksum :: string
  j_backup :: "string option"
  j_dev :: "int option"
  j_ino :: "int option"

datatype journal_file =
    NoJournal
  | Garbled
  | Journal journal_record

record disk =
  d_steamapps :: "(int \<times> int) option"
  d_manifest :: contents
  d_journal :: journal_file
  d_backup :: contents
  d_marker :: bool

text \<open>The two paths that the journal names.\<close>

record paths =
  pa_destination :: string
  pa_backup :: string

text \<open>A file operation: the new disk, and whether it raised \<open>OSError\<close>.\<close>

definition step :: "io \<Rightarrow> (disk \<Rightarrow> disk) \<Rightarrow> disk \<Rightarrow> bool \<times> disk" where
  "step r f d = (case r of Ok \<Rightarrow> (False, f d) | Fails \<Rightarrow> (True, d) | Lands_then_fails \<Rightarrow> (True, f d))"

type_synonym 'a disk_result = "(adoption_error + 'a) \<times> disk"

definition andthen :: "adoption_error \<Rightarrow> bool \<times> disk \<Rightarrow> (disk \<Rightarrow> 'a disk_result) \<Rightarrow> 'a disk_result" where
  "andthen err s k = (case s of (raised, d) \<Rightarrow> if raised then (Inl err, d) else k d)"


section \<open>Adoption\<close>

definition journal_entry ::
    "(string \<Rightarrow> string) \<Rightarrow> paths \<Rightarrow> int \<Rightarrow> int \<times> int \<Rightarrow> string \<Rightarrow> bool \<Rightarrow> journal_record" where
  "journal_entry sha256 pa operation_id mount patched backed_up =
     \<lparr>j_operation_id = Some operation_id, j_destination = pa_destination pa,
      j_checksum = sha256 patched, j_backup = (if backed_up then Some (pa_backup pa) else None),
      j_dev = Some (fst mount), j_ino = Some (snd mount)\<rparr>"

text \<open>The backup, only where there is a manifest to back up.\<close>

definition back_up :: "io \<Rightarrow> disk \<Rightarrow> bool disk_result" where
  "back_up r d =
     (case d_manifest d of
        Absent \<Rightarrow> (Inr False, d)
      | Unreadable \<Rightarrow> (Inl FilesystemError, d)
      | File old \<Rightarrow>
          andthen FilesystemError (step r (\<lambda>d. d\<lparr>d_backup := File old\<rparr>) d) (\<lambda>d. (Inr True, d)))"

definition adopt_manifest ::
    "(string \<Rightarrow> string) \<Rightarrow> paths \<Rightarrow> (nat \<Rightarrow> io) \<Rightarrow> contents \<Rightarrow> string \<Rightarrow> int \<Rightarrow> disk \<Rightarrow> unit disk_result" where
  "adopt_manifest sha256 pa io source install_dir_name operation_id d =
     (case d_steamapps d of
        None \<Rightarrow> (Inl (AdoptionError ''library steamapps unavailable''), d)
      | Some mount \<Rightarrow>
          andthen FilesystemError (step (io 0) (\<lambda>d. d) d) (\<lambda>d.
          case patched_manifest source install_dir_name of
            Inl e \<Rightarrow> (Inl e, d)
          | Inr patched \<Rightarrow>
              (case back_up (io 1) d of
                 (Inl e, d) \<Rightarrow> (Inl e, d)
               | (Inr backed_up, d) \<Rightarrow>
                   andthen FilesystemError
                     (step (io 2) (\<lambda>d. d\<lparr>d_journal := Journal
                        (journal_entry sha256 pa operation_id mount patched backed_up)\<rparr>) d) (\<lambda>d.
                   andthen (AdoptionError ''manifest adoption failed mid-write'')
                     (step (io 3) (\<lambda>d. d\<lparr>d_manifest := File patched\<rparr>) d) (\<lambda>d.
                   (Inr (), d))))))"

definition clear_adoption_journal :: "(nat \<Rightarrow> io) \<Rightarrow> disk \<Rightarrow> unit disk_result" where
  "clear_adoption_journal io d =
     andthen FilesystemError (step (io 0) (\<lambda>d. d\<lparr>d_journal := NoJournal\<rparr>) d) (\<lambda>d.
     andthen FilesystemError (step (io 1) (\<lambda>d. d) d) (\<lambda>d. (Inr (), d)))"


section \<open>Recovery\<close>

datatype verdict =
    Completed
  | Restored
  | Clean
  | Stale

fun verdict_name :: "verdict \<Rightarrow> string" where
  "verdict_name Completed = ''completed''"
| "verdict_name Restored = ''restored''"
| "verdict_name Clean = ''clean''"
| "verdict_name Stale = ''stale''"

text \<open>What the journal must agree with before recovery looks at any file it names.\<close>

definition journal_trusted :: "paths \<Rightarrow> journal_record \<Rightarrow> disk \<Rightarrow> adoption_error + unit" where
  "journal_trusted pa r d =
     (if j_destination r \<noteq> pa_destination pa
      then Inl (AdoptionError ''adoption journal names an unexpected destination'')
      else if j_backup r \<noteq> None \<and> j_backup r \<noteq> Some (pa_backup pa)
      then Inl (AdoptionError ''adoption journal names an unexpected backup'')
      else case d_steamapps d of
          None \<Rightarrow> Inl (AdoptionError ''library steamapps unavailable for recovery'')
        | Some (dev, ino) \<Rightarrow>
            if (Some dev, Some ino) \<noteq> (j_dev r, j_ino r)
            then Inl (AdoptionError ''library mount changed; adoption recovery deferred'')
            else Inr ())"

text \<open>\<open>Some True\<close>: the swap landed; \<open>None\<close>: the destination cannot be read.\<close>

definition swap_landed :: "(string \<Rightarrow> string) \<Rightarrow> int \<Rightarrow> journal_record \<Rightarrow> disk \<Rightarrow> bool option" where
  "swap_landed sha256 appid r d =
     (case d_manifest d of
        Absent \<Rightarrow> Some False
      | Unreadable \<Rightarrow> None
      | File t \<Rightarrow>
          Some (sha256 t = j_checksum r \<or>
            j_backup r = None \<and> manifest_appid (d_manifest d) = Some appid))"

definition unlink_journal :: "io \<Rightarrow> disk \<Rightarrow> bool \<times> disk" where
  "unlink_journal r = step r (\<lambda>d. d\<lparr>d_journal := NoJournal\<rparr>)"

definition restore_manifest :: "(nat \<Rightarrow> io) \<Rightarrow> journal_record \<Rightarrow> disk \<Rightarrow> verdict disk_result" where
  "restore_manifest io r d =
     (case j_backup r of
        Some _ \<Rightarrow>
          (case d_backup d of
             Absent \<Rightarrow> (Inl (AdoptionError ''adoption backup missing; recovery deferred''), d)
           | Unreadable \<Rightarrow> (Inl FilesystemError, d)
           | File old \<Rightarrow>
               andthen FilesystemError (step (io 0) (\<lambda>d. d\<lparr>d_manifest := File old\<rparr>) d) (\<lambda>d.
               andthen FilesystemError (unlink_journal (io 1) d) (\<lambda>d.
               andthen FilesystemError (step (io 2) (\<lambda>d. d) d) (\<lambda>d. (Inr Restored, d)))))
      | None \<Rightarrow>
          andthen FilesystemError (step (io 0) (\<lambda>d. d\<lparr>d_manifest := Absent\<rparr>) d) (\<lambda>d.
          andthen FilesystemError (step (io 1) (\<lambda>d. d) d) (\<lambda>d.
          andthen FilesystemError (unlink_journal (io 2) d) (\<lambda>d.
          andthen FilesystemError (step (io 3) (\<lambda>d. d) d) (\<lambda>d. (Inr Restored, d))))))"

definition reconcile_adoption ::
    "(string \<Rightarrow> string) \<Rightarrow> paths \<Rightarrow> (nat \<Rightarrow> io) \<Rightarrow> int \<Rightarrow> int option \<Rightarrow> disk \<Rightarrow> verdict disk_result" where
  "reconcile_adoption sha256 pa io appid operation_id d =
     (case d_journal d of
        NoJournal \<Rightarrow> (Inr Clean, d)
      | Garbled \<Rightarrow> (Inl (AdoptionError ''adoption journal unreadable''), d)
      | Journal r \<Rightarrow>
          (case journal_trusted pa r d of
             Inl e \<Rightarrow> (Inl e, d)
           | Inr _ \<Rightarrow>
               if operation_id \<noteq> None \<and> j_operation_id r \<noteq> operation_id
               then andthen FilesystemError (unlink_journal (io 0) d) (\<lambda>d. (Inr Stale, d))
               else case swap_landed sha256 appid r d of
                   None \<Rightarrow> (Inl (AdoptionError ''adoption destination unreadable''), d)
                 | Some True \<Rightarrow> (Inr Completed, d)
                 | Some False \<Rightarrow> restore_manifest io r d))"

end
