(* ===== verification/Adoption_Props.thy ===== *)
theory Adoption_Props
  imports Adoption
begin

text \<open>
  Recovery of an interrupted adoption.  \<open>adopted_from\<close> describes every disk that an
  adoption can leave behind, whichever of its steps failed; recovery is then decided by cases
  on it.
\<close>

lemmas disk_steps = step_def andthen_def unlink_journal_def

text \<open>
  The disks an adoption started from \<open>d0\<close> can leave: nothing journaled, or the journal of
  this operation with the manifest before or after the swap.
\<close>

definition journal_for ::
    "(string \<Rightarrow> string) \<Rightarrow> paths \<Rightarrow> int \<Rightarrow> int \<times> int \<Rightarrow> string \<Rightarrow> disk \<Rightarrow> journal_record" where
  "journal_for sha256 pa operation_id mount patched d0 =
     journal_entry sha256 pa operation_id mount patched (d_manifest d0 \<noteq> Absent)"

inductive adopted_from ::
    "(string \<Rightarrow> string) \<Rightarrow> paths \<Rightarrow> int \<Rightarrow> int \<times> int \<Rightarrow> string \<Rightarrow> disk \<Rightarrow> disk \<Rightarrow> bool"
  for sha256 pa operation_id mount patched d0 where
  unjournaled: "d_manifest d = d_manifest d0 \<Longrightarrow> d_journal d = d_journal d0 \<Longrightarrow>
    d_steamapps d = d_steamapps d0 \<Longrightarrow> adopted_from sha256 pa operation_id mount patched d0 d"
| journaled: "d_manifest d = d_manifest d0 \<or> d_manifest d = File patched \<Longrightarrow>
    d_journal d = Journal (journal_for sha256 pa operation_id mount patched d0) \<Longrightarrow>
    d_manifest d0 \<noteq> Unreadable \<Longrightarrow> (d_manifest d0 \<noteq> Absent \<Longrightarrow> d_backup d = d_manifest d0) \<Longrightarrow>
    d_steamapps d = d_steamapps d0 \<Longrightarrow> adopted_from sha256 pa operation_id mount patched d0 d"

lemma back_up_cases:
  assumes "back_up r d = (res, d')"
  obtains (raised) e where "res = Inl e" "d_manifest d' = d_manifest d" "d_journal d' = d_journal d"
      "d_steamapps d' = d_steamapps d"
    | (taken) "res = Inr (d_manifest d \<noteq> Absent)" "d_manifest d' = d_manifest d" "d_journal d' = d_journal d"
      "d_steamapps d' = d_steamapps d" "d_manifest d \<noteq> Unreadable"
      "d_manifest d \<noteq> Absent \<Longrightarrow> d_backup d' = d_manifest d"
  using assms
  by (cases "d_manifest d"; cases r) (auto simp: back_up_def disk_steps)

lemma adopt_leaves:
  assumes mount: "d_steamapps d0 = Some mount"
    and patch: "patched_manifest source name = Inr patched"
    and adopt: "adopt_manifest sha256 pa io source name operation_id d0 = (res, d)"
  shows "adopted_from sha256 pa operation_id mount patched d0 d \<and>
    (res = Inr () \<longrightarrow> d_manifest d = File patched \<and>
       d_journal d = Journal (journal_for sha256 pa operation_id mount patched d0))"
proof (cases "back_up (io 1) d0")
  case (Pair b d1)
  show ?thesis
    using Pair
  proof (cases rule: back_up_cases)
    case (raised e)
    then have "adopted_from sha256 pa operation_id mount patched d0 d1" "res = Inr () \<Longrightarrow> False"
      "d = d0 \<or> d = d1"
      using adopt mount patch Pair by (auto intro: unjournaled simp: adopt_manifest_def disk_steps split: io.splits)
    then show ?thesis
      by (auto intro: unjournaled)
  next
    case taken
    let ?j = "Journal (journal_for sha256 pa operation_id mount patched d0)"
    have "d = d0 \<or> d = d1 \<or> d = d1\<lparr>d_journal := ?j\<rparr> \<or>
        d = d1\<lparr>d_journal := ?j, d_manifest := File patched\<rparr>"
      "res = Inr () \<Longrightarrow> d = d1\<lparr>d_journal := ?j, d_manifest := File patched\<rparr>"
      using adopt mount patch Pair taken(1)
      by (auto simp: adopt_manifest_def disk_steps journal_for_def split: io.splits)
    then show ?thesis
      using taken by (auto intro: unjournaled journaled)
  qed
qed


section \<open>Recovery of such a disk\<close>

text \<open>The digest tells the old manifest from the patched one.\<close>

definition digest_separates :: "(string \<Rightarrow> string) \<Rightarrow> contents \<Rightarrow> string \<Rightarrow> bool" where
  "digest_separates sha256 old patched \<longleftrightarrow>
     (case old of File t \<Rightarrow> sha256 t \<noteq> sha256 patched | _ \<Rightarrow> True)"

lemma trusted_own_journal:
  "d_steamapps d = Some mount \<Longrightarrow>
     journal_trusted pa (journal_entry sha256 pa operation_id mount patched b) d = Inr ()"
  by (cases mount) (simp add: journal_trusted_def journal_entry_def)

lemma journal_for_simps [simp]:
  "j_operation_id (journal_for sha256 pa i mount patched d0) = Some i"
  "j_checksum (journal_for sha256 pa i mount patched d0) = sha256 patched"
  "j_backup (journal_for sha256 pa i mount patched d0) =
     (if d_manifest d0 = Absent then None else Some (pa_backup pa))"
  "d_steamapps d = Some mount \<Longrightarrow> journal_trusted pa (journal_for sha256 pa i mount patched d0) d = Inr ()"
  by (simp_all add: journal_for_def trusted_own_journal) (simp_all add: journal_entry_def)

lemma recover_unjournaled:
  "d_journal d = NoJournal \<Longrightarrow> reconcile_adoption sha256 pa io appid i d = (Inr Clean, d)"
  by (simp add: reconcile_adoption_def)

lemma recover_landed:
  assumes "d_steamapps d = Some mount"
    and "d_journal d = Journal (journal_for sha256 pa i mount patched d0)"
    and "d_manifest d = File patched"
  shows "reconcile_adoption sha256 pa io appid (Some i) d = (Inr Completed, d)"
  using assms by (simp add: reconcile_adoption_def swap_landed_def)

lemma recover_old:
  assumes "d_steamapps d = Some mount"
    and "d_journal d = Journal (journal_for sha256 pa i mount patched d0)"
    and "d_manifest d = d_manifest d0" "d_manifest d0 \<noteq> Unreadable"
    and "digest_separates sha256 (d_manifest d0) patched"
  shows "reconcile_adoption sha256 pa io appid (Some i) d =
    restore_manifest io (journal_for sha256 pa i mount patched d0) d"
  using assms
  by (cases "d_manifest d0") (simp_all add: reconcile_adoption_def swap_landed_def digest_separates_def)

lemma restore_old:
  assumes "d_manifest d = d_manifest d0" "d_manifest d0 \<noteq> Unreadable"
    and "d_manifest d0 \<noteq> Absent \<Longrightarrow> d_backup d = d_manifest d0"
    and "restore_manifest io (journal_for sha256 pa i mount patched d0) d = (res, d')"
  shows "(d' = d \<or> d' = d\<lparr>d_journal := NoJournal\<rparr>) \<and>
    (io = (\<lambda>_. Ok) \<longrightarrow> res = Inr Restored \<and> d' = d\<lparr>d_journal := NoJournal\<rparr>)"
proof -
  have same: "d\<lparr>d_manifest := d_manifest d0\<rparr> = d"
    using assms(1) by (cases d) simp
  show ?thesis
    using assms same
    by (cases "d_manifest d0") (auto simp: restore_manifest_def disk_steps split: io.splits)
qed

text \<open>Recovery that is itself cut short leaves such a disk again.\<close>

lemma recovery_keeps:
  assumes start: "adopted_from sha256 pa i mount patched d0 d"
    and d0: "d_steamapps d0 = Some mount" "d_journal d0 = NoJournal"
      "digest_separates sha256 (d_manifest d0) patched"
    and rec: "reconcile_adoption sha256 pa io appid (Some i) d = (res, d')"
  shows "adopted_from sha256 pa i mount patched d0 d'"
  using start
proof cases
  case unjournaled
  with rec d0(2) start show ?thesis
    by (simp add: recover_unjournaled)
next
  case journaled
  have mount: "d_steamapps d = Some mount"
    using journaled d0 by simp
  show ?thesis
  proof (cases "d_manifest d = File patched")
    case True
    with rec recover_landed [OF mount] journaled start show ?thesis by simp
  next
    case False
    then have old: "d_manifest d = d_manifest d0" using journaled by simp
    from recover_old [OF mount journaled(2) old journaled(3) d0(3)] rec
    have "restore_manifest io (journal_for sha256 pa i mount patched d0) d = (res, d')" by simp
    from restore_old [OF old journaled(3,4) this] have "d' = d \<or> d' = d\<lparr>d_journal := NoJournal\<rparr>"
      by simp
    with start old journaled d0(2) show ?thesis
      by (auto intro: unjournaled)
  qed
qed

lemma recovery_decides:
  assumes start: "adopted_from sha256 pa i mount patched d0 d"
    and d0: "d_steamapps d0 = Some mount" "d_journal d0 = NoJournal"
      "digest_separates sha256 (d_manifest d0) patched"
  shows "\<exists>v d'. reconcile_adoption sha256 pa (\<lambda>_. Ok) appid (Some i) d = (Inr v, d') \<and>
    (v = Completed \<and> d_manifest d' = File patched \<and> d' = d \<or>
     v \<in> {Restored, Clean} \<and> d_manifest d' = d_manifest d0 \<and> d_journal d' = NoJournal)"
  using start
proof cases
  case unjournaled
  with d0(2) show ?thesis
    by (simp add: recover_unjournaled)
next
  case journaled
  have mount: "d_steamapps d = Some mount"
    using journaled d0 by simp
  show ?thesis
  proof (cases "d_manifest d = File patched")
    case True
    with recover_landed [OF mount] journaled show ?thesis by simp
  next
    case False
    then have old: "d_manifest d = d_manifest d0" using journaled by simp
    obtain res d' where r: "restore_manifest (\<lambda>_. Ok) (journal_for sha256 pa i mount patched d0) d = (res, d')"
      by (cases "restore_manifest (\<lambda>_. Ok) (journal_for sha256 pa i mount patched d0) d")
    from restore_old [OF old journaled(3,4) r] recover_old [OF mount journaled(2) old journaled(3) d0(3)] r old
    show ?thesis by auto
  qed
qed

text \<open>A swap that landed is never undone by recovery.\<close>

lemma recovery_keeps_landed:
  assumes "d_steamapps d = Some mount" "d_manifest d = File patched"
    and "d_journal d = Journal (journal_for sha256 pa i mount patched d0)"
  shows "fold (\<lambda>io d. snd (reconcile_adoption sha256 pa io appid (Some i) d)) ios d = d"
  using recover_landed [OF assms(1,3,2)] by (induction ios) simp_all

lemma recovery_run_keeps:
  assumes "adopted_from sha256 pa i mount patched d0 d"
    and "d_steamapps d0 = Some mount" "d_journal d0 = NoJournal"
      "digest_separates sha256 (d_manifest d0) patched"
  shows "adopted_from sha256 pa i mount patched d0
    (fold (\<lambda>io d. snd (reconcile_adoption sha256 pa io appid (Some i) d)) ios d)"
  using assms(1)
proof (induction ios arbitrary: d)
  case (Cons io ios)
  have "adopted_from sha256 pa i mount patched d0 (snd (reconcile_adoption sha256 pa io appid (Some i) d))"
    by (rule recovery_keeps [OF Cons.prems assms(2-4)]) (rule prod.collapse [symmetric])
  from Cons.IH [OF this] show ?case by simp
qed simp


section \<open>Properties\<close>

text \<open>C10. Crash recovery of an adoption.  Start from a library without a pending journal and
  let the adoption fail or lose power at any of its durable steps; then let any number of
  recoveries be cut short at any of theirs.  A recovery that runs to its end always reaches a
  verdict, and the manifest is then exactly the patched one (\<open>completed\<close>) or exactly what it
  was before, absent included (\<open>restored\<close> or \<open>clean\<close>, and no journal is left).  An adoption
  that reported success is always judged \<open>completed\<close>.  The digest must tell the two apart.\<close>

theorem adoption_crash_recovery:
  assumes "d_steamapps d0 = Some mount" "d_journal d0 = NoJournal"
    and "patched_manifest source name = Inr patched"
    and "digest_separates sha256 (d_manifest d0) patched"
    and "adopt_manifest sha256 pa io source name i d0 = (res, d1)"
    and "d2 = fold (\<lambda>io d. snd (reconcile_adoption sha256 pa io appid (Some i) d)) crashes d1"
  shows "\<exists>v d3. reconcile_adoption sha256 pa (\<lambda>_. Ok) appid (Some i) d2 = (Inr v, d3) \<and>
    (v = Completed \<and> d_manifest d3 = File patched \<or>
     v \<in> {Restored, Clean} \<and> d_manifest d3 = d_manifest d0 \<and> d_journal d3 = NoJournal) \<and>
    (res = Inr () \<longrightarrow> v = Completed)"
proof -
  note left = adopt_leaves [OF assms(1,3,5)]
  have start: "adopted_from sha256 pa i mount patched d0 d2"
    unfolding assms(6) using left by (intro recovery_run_keeps [OF _ assms(1,2,4)]) simp
  show ?thesis
  proof (cases "res = Inr ()")
    case True
    with left have landed: "d_manifest d1 = File patched"
      "d_journal d1 = Journal (journal_for sha256 pa i mount patched d0)" by simp_all
    moreover have mount: "d_steamapps d1 = Some mount"
      using left assms(1) by (auto elim: adopted_from.cases)
    ultimately have "d2 = d1"
      unfolding assms(6) by (intro recovery_keeps_landed)
    with recover_landed [OF mount landed(2,1)] landed show ?thesis by simp
  next
    case False
    then show ?thesis
      using recovery_decides [OF start assms(1,2,4), of appid] by blast
  qed
qed

definition demo_paths :: paths where
  "demo_paths = \<lparr>pa_destination = ''lib/appmanifest_620.acf'', pa_backup = ''journal/backup''\<rparr>"

definition demo_disk :: disk where
  "demo_disk = \<lparr>d_steamapps = Some (7, 11), d_manifest = File ''old'', d_journal = NoJournal,
     d_backup = Absent, d_marker = True\<rparr>"

text \<open>The swap fails after the rename landed.\<close>

definition demo_io :: "nat \<Rightarrow> io" where
  "demo_io k = (if k = 3 then Lands_then_fails else Ok)"

lemma adoption_crash_recovery_witness:
  "\<exists>v d3. reconcile_adoption (\<lambda>t. t) demo_paths (\<lambda>_. Ok) 620 (Some 5)
      (snd (adopt_manifest (\<lambda>t. t) demo_paths demo_io (File demo_manifest) ''Portal 2'' 5 demo_disk)) =
      (Inr v, d3) \<and> d_manifest d3 \<in> {File demo_patched, File ''old''}"
proof -
  have sep: "digest_separates (\<lambda>t. t) (d_manifest demo_disk) demo_patched"
    by (simp add: digest_separates_def demo_disk_def demo_patched_def)
  have "d_steamapps demo_disk = Some (7, 11)" "d_journal demo_disk = NoJournal"
    by (simp_all add: demo_disk_def)
  from adoption_crash_recovery [OF this demo_patched_eq sep prod.collapse [symmetric] refl,
      where pa = demo_paths and io = demo_io and i = 5 and crashes = "[]" and appid = 620]
  show ?thesis
    by (auto simp: demo_disk_def)
qed



end
