(* ===== verification/Sessions.thy ===== *)
theory Sessions
  imports Manifest_Props
begin

text \<open>
  The session probes of \<open>src/steam_agent/execution/sessions.py\<close> and
  \<open>linux_session.py\<close>.  A command is run at a moment (\<open>nat\<close>) and answers its return code;
  the clock is read at a moment; the directories and configuration files are what the probe
  finds.  The process table and Steam itself are behind the command runner, a parameter.
\<close>


section \<open>Lease gates\<close>

datatype gate =
    Pass
  | Fail
  | Unknown

record lease_gates =
  g_game_running :: gate
  g_remote_play :: gate
  g_download_in_flight :: gate
  g_client_running :: gate

definition all_clear :: "lease_gates \<Rightarrow> bool" where
  "all_clear g \<longleftrightarrow>
     g_game_running g = Pass \<and> g_remote_play g = Pass \<and> g_download_in_flight g = Pass"


section \<open>The host\<close>

text \<open>
  \<open>Listing\<close> is a directory that can be read; \<open>NoDir\<close> raises \<open>FileNotFoundError\<close> and
  \<open>NoAccess\<close> another \<open>OSError\<close>.  A subdirectory carries its age in seconds, unless its
  \<open>stat\<close> finds it gone or fails otherwise; anything else, a link included, is \<open>Content\<close>.
\<close>

datatype age =
    Age int
  | Gone
  | Denied

datatype listing =
    Listing "dir_entry list"
  | NoDir
  | NoAccess
and dir_entry =
    Content
  | Subdir age listing

record host =
  h_run :: "nat \<Rightarrow> string list \<Rightarrow> int"
  h_clock :: "nat \<Rightarrow> int"
  h_uid :: string
  h_library :: string
  h_home :: string
  h_files :: "string \<Rightarrow> contents"
  h_dirs :: "string \<Rightarrow> listing"

definition pgrep :: "host \<Rightarrow> string list \<Rightarrow> string list" where
  "pgrep h arguments = [''pgrep'', ''-U'', h_uid h] @ arguments"

definition absent :: "host \<Rightarrow> nat \<Rightarrow> string list \<Rightarrow> gate" where
  "absent h t pattern =
     (let rc = h_run h t pattern in
      if rc = 0 then Fail else if rc = 1 then Pass else Unknown)"


section \<open>Downloads in flight\<close>

definition path_match :: "string \<Rightarrow> (string \<times> string \<times> string) option" where
  "path_match = match_field ''path'' not_quote"

text \<open>\<open>re.findall\<close>.\<close>

function find_paths :: "string \<Rightarrow> string list" where
  "find_paths t =
     (case search path_match t of
        None \<Rightarrow> []
      | Some (pre, h, v, r) \<Rightarrow> v # find_paths r)"
  by pat_completeness auto
termination
  by (relation "measure length")
     (auto dest!: search_length match_field_length simp: path_match_def)

declare find_paths.simps [simp del]

definition downloading_dir :: "string \<Rightarrow> string" where
  "downloading_dir library = library @ ''/steamapps/downloading''"

definition vdf_candidates :: "host \<Rightarrow> string list" where
  "vdf_candidates h =
     [h_library h @ ''/steamapps/libraryfolders.vdf'',
      h_home h @ ''/.steam/steam/steamapps/libraryfolders.vdf'',
      h_home h @ ''/.local/share/Steam/steamapps/libraryfolders.vdf'']"

definition balanced :: "string \<Rightarrow> bool" where
  "balanced t \<longleftrightarrow> count_list t (CHR 0x7B) = count_list t (CHR 0x7D)"

fun add_dirs :: "string list \<Rightarrow> string list \<Rightarrow> string list" where
  "add_dirs dirs [] = dirs"
| "add_dirs dirs (v # vs) =
     (let c = downloading_dir v in add_dirs (if c \<in> set dirs then dirs else dirs @ [c]) vs)"

fun collect_dirs :: "host \<Rightarrow> string list \<Rightarrow> string list \<Rightarrow> string list option" where
  "collect_dirs h dirs [] = Some dirs"
| "collect_dirs h dirs (vdf # vdfs) =
     (case h_files h vdf of
        Absent \<Rightarrow> collect_dirs h dirs vdfs
      | Unreadable \<Rightarrow> None
      | File t \<Rightarrow>
          if find_paths t = [] \<or> \<not> balanced t then None
          else collect_dirs h (add_dirs dirs (find_paths t)) vdfs)"

definition download_dirs :: "host \<Rightarrow> string list option" where
  "download_dirs h = collect_dirs h [downloading_dir (h_library h)] (vdf_candidates h)"

definition residue_age :: int where
  "residue_age = 60 * 60"

datatype activity =
    Active
  | Quiet
  | Missing
  | ScanError

text \<open>One directory: the subdirectories to walk next, or the answer.\<close>

fun scan_dir :: "dir_entry list \<Rightarrow> activity + listing list" where
  "scan_dir [] = Inr []"
| "scan_dir (Content # es) = Inl Active"
| "scan_dir (Subdir Gone l # es) = Inl Missing"
| "scan_dir (Subdir Denied l # es) = Inl ScanError"
| "scan_dir (Subdir (Age seconds) l # es) =
     (if seconds < residue_age then Inl Active
      else case scan_dir es of Inl a \<Rightarrow> Inl a | Inr ls \<Rightarrow> Inr (l # ls))"

fun listing_weight :: "listing \<Rightarrow> nat" and entry_weight :: "dir_entry \<Rightarrow> nat" where
  "listing_weight (Listing es) = Suc (sum_list (map entry_weight es))"
| "listing_weight _ = 1"
| "entry_weight Content = 1"
| "entry_weight (Subdir age l) = listing_weight l"

lemma scan_dir_weight:
  "scan_dir es = Inr ls \<Longrightarrow> sum_list (map listing_weight ls) \<le> sum_list (map entry_weight es)"
  by (induction es arbitrary: ls rule: scan_dir.induct) (auto split: if_splits sum.splits)

function walk :: "listing list \<Rightarrow> activity" where
  "walk [] = Quiet"
| "walk (NoDir # stack) = Missing"
| "walk (NoAccess # stack) = ScanError"
| "walk (Listing es # stack) =
     (case scan_dir es of Inl a \<Rightarrow> a | Inr ls \<Rightarrow> walk (rev ls @ stack))"
  by pat_completeness auto
termination
proof (relation "measure (\<lambda>stack. sum_list (map listing_weight stack))", goal_cases)
  case (2 es stack ls)
  then show ?case
    using scan_dir_weight [of es ls] by (simp add: rev_map [symmetric])
qed simp

definition download_activity :: "host \<Rightarrow> string \<Rightarrow> activity" where
  "download_activity h d = walk [h_dirs h d]"

fun download_gate :: "host \<Rightarrow> gate \<Rightarrow> string list \<Rightarrow> gate" where
  "download_gate h state [] = state"
| "download_gate h state (d # ds) =
     (case download_activity h d of
        Active \<Rightarrow> Fail
      | Quiet \<Rightarrow> download_gate h state ds
      | Missing \<Rightarrow> download_gate h state ds
      | ScanError \<Rightarrow> download_gate h Unknown ds)"


section \<open>Gates and presence\<close>

definition client_gate :: "int \<Rightarrow> int \<Rightarrow> gate" where
  "client_gate client helper =
     (if client = 0 \<or> helper = 0 then Fail
      else if client = 1 \<and> helper = 1 then Pass else Unknown)"

definition gates :: "host \<Rightarrow> nat \<Rightarrow> lease_gates" where
  "gates h t =
     (let download =
        (case download_dirs h of None \<Rightarrow> Unknown | Some ds \<Rightarrow> download_gate h Pass ds);
          client = h_run h t (pgrep h [''-x'', ''steam'']);
          helper = h_run h (t + 1) (pgrep h [''-x'', ''steamwebhelper''])
      in \<lparr>g_game_running = absent h (t + 2) (pgrep h [''-f'', ''reaper SteamLaunch'']),
          g_remote_play = absent h (t + 3) (pgrep h [''-f'', ''[s]treaming_client'']),
          g_download_in_flight = download,
          g_client_running = client_gate client helper\<rparr>)"

definition client_running :: "host \<Rightarrow> nat \<Rightarrow> bool" where
  "client_running h t \<longleftrightarrow> h_run h t (pgrep h [''-x'', ''steam'']) = 0"

definition client_possibly_running :: "host \<Rightarrow> nat \<Rightarrow> bool" where
  "client_possibly_running h t \<longleftrightarrow>
     h_run h t (pgrep h [''-x'', ''steam'']) \<noteq> 1 \<or>
     h_run h (t + 1) (pgrep h [''-x'', ''steamwebhelper'']) \<noteq> 1"

definition steamcmd_running :: "host \<Rightarrow> nat \<Rightarrow> bool" where
  "steamcmd_running h t \<longleftrightarrow> h_run h t (pgrep h [''-f'', ''steamcmd'']) \<noteq> 1"


section \<open>Client lifecycle\<close>

definition shutdown_timeout :: int where
  "shutdown_timeout = 60"

definition start_confirm_timeout :: int where
  "start_confirm_timeout = 90"

text \<open>
  The polls of a stop and of a start.  \<open>fuel\<close> bounds the polls; running out of it, a clock
  that stands still, is \<open>None\<close>.  The second part of the result is the moment after.
\<close>

fun stop_loop :: "host \<Rightarrow> int \<Rightarrow> nat \<Rightarrow> nat \<Rightarrow> (bool \<times> nat) option" where
  "stop_loop h deadline 0 t = None"
| "stop_loop h deadline (Suc fuel) t =
     (if \<not> h_clock h t < deadline then Some (False, t)
      else if h_run h t (pgrep h [''-x'', ''steam'']) = 1 \<and>
              h_run h (t + 1) (pgrep h [''-x'', ''steamwebhelper'']) = 1
      then Some (True, t + 2)
      else stop_loop h deadline fuel (t + 2))"

text \<open>The command moment is \<open>t\<close>; its return code is not looked at.\<close>

definition stop_client :: "host \<Rightarrow> nat \<Rightarrow> nat \<Rightarrow> (bool \<times> nat) option" where
  "stop_client h fuel t = stop_loop h (h_clock h (t + 1) + shutdown_timeout) fuel (t + 1)"

fun start_loop :: "host \<Rightarrow> int \<Rightarrow> nat \<Rightarrow> nat \<Rightarrow> (bool \<times> nat) option" where
  "start_loop h deadline 0 t = None"
| "start_loop h deadline (Suc fuel) t =
     (if \<not> h_clock h t < deadline then Some (False, t)
      else if client_running h t then Some (True, t + 1)
      else start_loop h deadline fuel (t + 1))"

definition start_client :: "host \<Rightarrow> nat \<Rightarrow> nat \<Rightarrow> (bool \<times> nat) option" where
  "start_client h fuel t = start_loop h (h_clock h (t + 1) + start_confirm_timeout) fuel (t + 1)"

definition launch_app :: "host \<Rightarrow> nat \<Rightarrow> nat \<Rightarrow> bool" where
  "launch_app h t appid \<longleftrightarrow> h_run h t [''steam'', ''-applaunch'', show_nat appid] = 0"


section \<open>Lemmas\<close>

lemma add_dirs_keeps: "set dirs \<subseteq> set (add_dirs dirs vs)"
  by (induction dirs vs rule: add_dirs.induct) (auto simp: Let_def split: if_splits)

lemma add_dirs_set: "set (add_dirs dirs vs) = set dirs \<union> downloading_dir ` set vs"
  by (induction dirs vs rule: add_dirs.induct) (auto simp: Let_def)

text \<open>What a readable set of configuration files lists.\<close>

definition config_read :: "host \<Rightarrow> string \<Rightarrow> bool" where
  "config_read h vdf \<longleftrightarrow>
     (case h_files h vdf of
        Absent \<Rightarrow> True | Unreadable \<Rightarrow> False | File t \<Rightarrow> find_paths t \<noteq> [] \<and> balanced t)"

definition listed_libraries :: "host \<Rightarrow> string \<Rightarrow> string list" where
  "listed_libraries h vdf = (case h_files h vdf of File t \<Rightarrow> find_paths t | _ \<Rightarrow> [])"

lemma collect_dirs_Some:
  "collect_dirs h dirs vdfs = Some ds \<longleftrightarrow>
     (\<forall>vdf \<in> set vdfs. config_read h vdf) \<and>
     ds = add_dirs dirs (concat (map (listed_libraries h) vdfs))"
proof (induction h dirs vdfs rule: collect_dirs.induct)
  case (2 h dirs vdf vdfs)
  have "add_dirs (add_dirs ds us) vs = add_dirs ds (us @ vs)" for ds us vs
    by (induction ds us rule: add_dirs.induct) (simp_all add: Let_def)
  with 2 show ?case
    by (auto simp: config_read_def listed_libraries_def split: contents.split)
qed auto

text \<open>A tree with nothing to lose: only old, readable, empty directories.\<close>

fun residue :: "listing \<Rightarrow> bool" and residue_entry :: "dir_entry \<Rightarrow> bool" where
  "residue (Listing es) \<longleftrightarrow> list_all residue_entry es"
| "residue NoDir \<longleftrightarrow> False"
| "residue NoAccess \<longleftrightarrow> False"
| "residue_entry Content \<longleftrightarrow> False"
| "residue_entry (Subdir age l) \<longleftrightarrow> (case age of Age seconds \<Rightarrow> residue_age \<le> seconds | _ \<Rightarrow> False) \<and> residue l"

lemma scan_dir_residue:
  "scan_dir es = Inr ls \<Longrightarrow> list_all residue ls \<Longrightarrow> list_all residue_entry es"
  by (induction es arbitrary: ls rule: scan_dir.induct) (auto split: if_splits sum.splits)

lemma scan_dir_not_Quiet: "scan_dir es \<noteq> Inl Quiet"
  by (induction es rule: scan_dir.induct) (auto split: sum.splits)

lemma walk_Quiet: "walk stack = Quiet \<Longrightarrow> list_all residue stack"
proof (induction stack rule: walk.induct)
  case (4 es stack)
  then show ?case
    using scan_dir_residue [of es] scan_dir_not_Quiet [of es] by (auto split: sum.splits)
qed auto

lemma download_gate_Pass:
  "download_gate h state ds = Pass \<Longrightarrow>
     state = Pass \<and> (\<forall>d \<in> set ds. download_activity h d \<in> {Quiet, Missing})"
  by (induction h state ds rule: download_gate.induct) (auto split: activity.splits)

lemma stop_loop_True:
  "stop_loop h deadline fuel t = Some (True, t') \<Longrightarrow>
     \<exists>u. t \<le> u \<and> t' = u + 2 \<and> h_run h u (pgrep h [''-x'', ''steam'']) = 1 \<and>
       h_run h (u + 1) (pgrep h [''-x'', ''steamwebhelper'']) = 1"
proof (induction h deadline fuel t rule: stop_loop.induct)
  case (2 h deadline fuel t)
  show ?case
  proof (cases "h_run h t (pgrep h [''-x'', ''steam'']) = 1 \<and>
      h_run h (t + 1) (pgrep h [''-x'', ''steamwebhelper'']) = 1")
    case True
    with "2.prems" show ?thesis by (auto split: if_splits)
  next
    case False
    then obtain u where "t + 2 \<le> u" "t' = u + 2" "h_run h u (pgrep h [''-x'', ''steam'']) = 1"
      "h_run h (u + 1) (pgrep h [''-x'', ''steamwebhelper'']) = 1"
      using 2 by (auto split: if_splits)
    then show ?thesis by (intro exI [of _ u]) simp
  qed
qed simp

lemma stop_loop_ends:
  assumes "\<And>u. h_clock h (u + 2) \<ge> h_clock h u + 1"
  shows "deadline - h_clock h t < int fuel \<Longrightarrow> 0 < fuel \<Longrightarrow> stop_loop h deadline fuel t \<noteq> None"
proof (induction h\<equiv>h deadline fuel t rule: stop_loop.induct)
  case (2 deadline fuel t)
  have "deadline - h_clock h (t + 2) < int fuel \<and> 0 < fuel" if "h_clock h t < deadline"
    using assms [of t] "2.prems" that by linarith
  with "2.hyps" show ?case by (auto simp del: add_2_eq_Suc')
qed simp

lemma start_loop_ends:
  assumes "\<And>u. h_clock h (u + 1) \<ge> h_clock h u + 1"
  shows "deadline - h_clock h t < int fuel \<Longrightarrow> 0 < fuel \<Longrightarrow> start_loop h deadline fuel t \<noteq> None"
proof (induction h\<equiv>h deadline fuel t rule: start_loop.induct)
  case (2 deadline fuel t)
  have "deadline - h_clock h (t + 1) < int fuel \<and> 0 < fuel" if "h_clock h t < deadline"
    using assms [of t] "2.prems" that by linarith
  with "2.hyps" show ?case by auto
qed simp


section \<open>Properties\<close>

text \<open>The lease is fail closed: gates that are all clear prove that at their moments no
  game and no Remote Play stream was found by a probe that ran to its end, that every library
  configuration file was absent or readable, complete and balanced, and that every
  \<open>downloading\<close> directory of every listed library is missing or holds nothing but old empty
  directories.\<close>

theorem all_clear_evidence:
  assumes "all_clear (gates h t)"
  shows "h_run h (t + 2) (pgrep h [''-f'', ''reaper SteamLaunch'']) = 1 \<and>
    h_run h (t + 3) (pgrep h [''-f'', ''[s]treaming_client'']) = 1 \<and>
    (\<forall>vdf \<in> set (vdf_candidates h). config_read h vdf \<and>
      (\<forall>library \<in> set (h_library h # listed_libraries h vdf).
        residue (h_dirs h (downloading_dir library)) \<or>
        download_activity h (downloading_dir library) = Missing))"
proof -
  have probes: "absent h (t + 2) (pgrep h [''-f'', ''reaper SteamLaunch'']) = Pass"
    "absent h (t + 3) (pgrep h [''-f'', ''[s]treaming_client'']) = Pass"
    and dl: "(case download_dirs h of None \<Rightarrow> Unknown | Some ds \<Rightarrow> download_gate h Pass ds) = Pass"
    using assms by (simp_all add: all_clear_def gates_def Let_def)
  from dl obtain ds where ds: "download_dirs h = Some ds" "download_gate h Pass ds = Pass"
    by (auto split: option.splits)
  from ds(1) have read: "\<forall>vdf \<in> set (vdf_candidates h). config_read h vdf"
    and all: "set ds = {downloading_dir (h_library h)} \<union>
      downloading_dir ` (\<Union>vdf \<in> set (vdf_candidates h). set (listed_libraries h vdf))"
    by (auto simp: download_dirs_def collect_dirs_Some add_dirs_set)
  have "residue (h_dirs h d) \<or> download_activity h d = Missing" if "d \<in> set ds" for d
  proof -
    from download_gate_Pass [OF ds(2)] that have "download_activity h d \<in> {Quiet, Missing}" by blast
    then show ?thesis
      using walk_Quiet [of "[h_dirs h d]"] by (auto simp: download_activity_def)
  qed
  with read all probes show ?thesis
    by (auto simp: absent_def Let_def split: if_splits)
qed

definition demo_host :: host where
  "demo_host = \<lparr>h_run = (\<lambda>t argv. if argv = [''pgrep'', ''-U'', ''1000'', ''-x'', ''steam''] then 0 else 1),
     h_clock = int, h_uid = ''1000'', h_library = ''/games'', h_home = ''/home/u'',
     h_files = (\<lambda>_. Absent), h_dirs = (\<lambda>_. Listing [Subdir (Age 4000) (Listing [])])\<rparr>"

lemma all_clear_evidence_witness:
  "all_clear (gates demo_host 0) \<and> g_client_running (gates demo_host 0) = Fail \<and>
     residue (h_dirs demo_host (downloading_dir ''/games''))"
proof -
  have clear: "all_clear (gates demo_host 0)"
    by (simp add: all_clear_def gates_def Let_def absent_def pgrep_def demo_host_def download_dirs_def
        vdf_candidates_def download_activity_def residue_age_def)
  moreover have "g_client_running (gates demo_host 0) = Fail"
    by (simp add: gates_def Let_def pgrep_def demo_host_def client_gate_def)
  moreover have "residue (h_dirs demo_host (downloading_dir ''/games''))"
    using all_clear_evidence [OF clear]
    by (simp add: vdf_candidates_def demo_host_def residue_age_def)
  ultimately show ?thesis by simp
qed

text \<open>Stopping the client returns within its 60 seconds (61 polls) on a clock that
  advances by a second per poll, and starting it within 90 seconds (91 polls); a stop that
  reports success ended with one poll that found neither the client nor its helper.\<close>

theorem client_polls_end:
  assumes "\<And>u. h_clock h (u + 1) \<ge> h_clock h u + 1"
  shows "stop_client h 61 t \<noteq> None \<and> start_client h 91 t \<noteq> None \<and>
    (\<forall>t'. stop_client h 61 t = Some (True, t') \<longrightarrow> \<not> client_possibly_running h (t' - 2))"
proof -
  have step: "h_clock h (u + 2) \<ge> h_clock h u + 1" for u
    using assms [of u] assms [of "u + 1"] by (simp add: add.assoc)
  have "stop_client h 61 t \<noteq> None"
    unfolding stop_client_def by (rule stop_loop_ends [OF step]) (simp_all add: shutdown_timeout_def)
  moreover have "start_client h 91 t \<noteq> None"
    unfolding start_client_def by (rule start_loop_ends [OF assms]) (simp_all add: start_confirm_timeout_def)
  moreover have "\<not> client_possibly_running h (t' - 2)" if "stop_client h 61 t = Some (True, t')" for t'
    using stop_loop_True [OF that [unfolded stop_client_def]]
    by (auto simp: client_possibly_running_def)
  ultimately show ?thesis by blast
qed

lemma client_polls_end_witness: "stop_client demo_host 61 7 \<noteq> None \<and> start_client demo_host 91 7 \<noteq> None"
proof -
  have "h_clock demo_host (u + 1) \<ge> h_clock demo_host u + 1" for u
    by (simp add: demo_host_def)
  from client_polls_end [OF this, of 7] show ?thesis by blast
qed

end
