(* ===== verification/Intake.thy ===== *)
theory Intake
  imports Manifest_Props
begin

text \<open>
  The checks that \<open>Executor._execute_locked\<close> makes on the library before it takes a lease
  (\<open>src/steam_agent/execution/executor.py\<close>): which directory the content goes to, and that
  writing there cannot touch another title.  The \<open>view\<close> holds what the checks read: the
  manifests in \<open>steamapps/\<close>, the target directory of each name and the ownership marker.
  The result is the directory name, or the recorded detail and the message of the abort.
\<close>


section \<open>What the checks read\<close>

record target_view =
  tv_symlink :: bool
  tv_escapes :: "bool option"
  tv_exists :: bool
  tv_content :: "entry list option"
  tv_nested :: contents
  tv_empty :: "bool option"
  tv_identity :: "(int \<times> int) option"

text \<open>The marker file: \<open>None\<close> when it is missing, unreadable or not a JSON object.\<close>

record marker =
  mk_name :: "string option"
  mk_dev :: "int option"
  mk_ino :: "int option"

record view =
  v_manifests :: "(string \<times> contents) list"
  v_target :: "string \<Rightarrow> target_view"
  v_marker :: "marker option"

datatype plan_name =
    NoName
  | Name string
  | NotAString

definition manifest_file_name :: "nat \<Rightarrow> string" where
  "manifest_file_name appid = ''appmanifest_'' @ show_nat appid @ ''.acf''"

definition own_manifest :: "nat \<Rightarrow> view \<Rightarrow> contents" where
  "own_manifest appid v =
     (case map_of (v_manifests v) (manifest_file_name appid) of None \<Rightarrow> Absent | Some f \<Rightarrow> f)"

definition app_state_fully_installed :: int where
  "app_state_fully_installed = 4"


section \<open>The checks\<close>

type_synonym abort = "string \<times> string"

text \<open>The directory the client already uses wins; otherwise the plan's, or \<open>app_<appid>\<close>.\<close>

definition intake_name :: "nat \<Rightarrow> bool \<Rightarrow> plan_name \<Rightarrow> view \<Rightarrow> abort + string" where
  "intake_name appid validating raw v =
     (case raw of
        NotAString \<Rightarrow> Inl (''unsafe install_dir_name'', ''install_dir_name must be a string'')
      | _ \<Rightarrow>
          (let name = (case raw of Name n \<Rightarrow> n | _ \<Rightarrow> []); own = own_manifest appid v in
           if own \<noteq> Absent then
             if manifest_appid own \<noteq> Some (int appid)
             then Inl (''existing manifest appid mismatch'',
                       ''existing manifest for this title has a mismatched appid'')
             else case manifest_install_dir own of
                 None \<Rightarrow> Inl (''existing manifest unreadable'',
                              ''existing manifest for this title is unreadable'')
               | Some existing \<Rightarrow>
                   if name \<noteq> [] \<and> casefold name \<noteq> casefold existing
                   then Inl (''plan name conflicts with existing install directory'',
                             ''plan install_dir_name conflicts with the existing install directory; move is not an executable operation'')
                   else Inr existing
           else if validating
           then Inl (''verify requires an existing install'',
                     ''this title is not installed; verify repairs an install rather than creating one'')
           else Inr (if name = [] then ''app_'' @ show_nat appid else name)))"

definition intake_safe :: "string \<Rightarrow> abort + unit" where
  "intake_safe name =
     raise_if (\<not> safe_install_dir_name name)
       (''unsafe install_dir_name'', ''install_dir_name must be a single path component'')"

definition intake_target :: "target_view \<Rightarrow> abort + unit" where
  "intake_target tv =
     (if tv_symlink tv
      then Inl (''install target is a symlink'', ''install target is a symlink'')
      else if (case tv_escapes tv of None \<Rightarrow> True | Some b \<Rightarrow> b)
      then Inl (''install target escapes library'', ''install target resolves outside the library'')
      else Inr ())"

text \<open>Verify: the client's FullyInstalled bit and a file with bytes must agree.\<close>

definition intake_installed :: "nat \<Rightarrow> view \<Rightarrow> target_view \<Rightarrow> abort + unit" where
  "intake_installed appid v tv =
     (let flags = manifest_state_flags (own_manifest appid v);
          installed_bit =
            (case flags of None \<Rightarrow> False | Some f \<Rightarrow> (f div app_state_fully_installed) mod 2 = 1)
      in raise_if (\<not> (installed_bit \<and> holds_a_nonempty_file (tv_content tv)))
           (''verify found no installed content'',
            ''this title is not fully installed on disk; verify repairs an install rather than creating one''))"

fun intake_collision :: "nat \<Rightarrow> string \<Rightarrow> (string \<times> contents) list \<Rightarrow> abort + unit" where
  "intake_collision appid name [] = Inr ()"
| "intake_collision appid name ((file_name, f) # fs) =
     (if file_name = manifest_file_name appid then intake_collision appid name fs
      else case manifest_install_dir f of
          None \<Rightarrow> Inl (''cannot inspect '' @ file_name,
                       ''another title's manifest is unreadable; collision unprovable'')
        | Some other \<Rightarrow>
            if casefold other = casefold name
            then Inl (''install_dir_name claimed by another title'',
                      ''install_dir_name belongs to another installed title'')
            else intake_collision appid name fs)"

definition marker_owns_target :: "view \<Rightarrow> string \<Rightarrow> target_view \<Rightarrow> bool" where
  "marker_owns_target v name tv =
     (case v_marker v of
        None \<Rightarrow> False
      | Some m \<Rightarrow>
          (case mk_name m of
             None \<Rightarrow> False
           | Some n \<Rightarrow>
               casefold n = casefold name \<and>
               (case tv_identity tv of
                  None \<Rightarrow> False
                | Some (dev, ino) \<Rightarrow> (Some dev, Some ino) = (mk_dev m, mk_ino m))))"

text \<open>The disjuncts in the code's order; listing the directory may raise, and is then not owned.\<close>

definition target_owned :: "nat \<Rightarrow> string \<Rightarrow> view \<Rightarrow> target_view \<Rightarrow> bool" where
  "target_owned appid name v tv \<longleftrightarrow>
     tv_nested tv \<noteq> Absent \<and> manifest_appid (tv_nested tv) = Some (int appid) \<or>
     (case manifest_install_dir (own_manifest appid v) of
        None \<Rightarrow> False | Some d \<Rightarrow> casefold d = casefold name) \<or>
     marker_owns_target v name tv \<or>
     tv_empty tv = Some True"

definition intake_owned :: "nat \<Rightarrow> string \<Rightarrow> view \<Rightarrow> target_view \<Rightarrow> abort + unit" where
  "intake_owned appid name v tv =
     raise_if (tv_exists tv \<and> \<not> target_owned appid name v tv)
       (''existing target directory not owned by this title'',
        ''existing target directory is not owned by this title'')"

definition intake_checks :: "nat \<Rightarrow> bool \<Rightarrow> plan_name \<Rightarrow> view \<Rightarrow> abort + string" where
  "intake_checks appid validating raw v =
     bindE (intake_name appid validating raw v) (\<lambda>name.
     bindE (intake_safe name) (\<lambda>_.
     let tv = v_target v name in
     bindE (intake_target tv) (\<lambda>_.
     bindE (if validating then intake_installed appid v tv else Inr ()) (\<lambda>_.
     bindE (intake_collision appid name (sort_key fst (v_manifests v))) (\<lambda>_.
     bindE (intake_owned appid name v tv) (\<lambda>_. Inr name))))))"


section \<open>What an accepted name guarantees\<close>

lemma intake_collision_Inr:
  "intake_collision appid name fs = Inr () \<longleftrightarrow>
     (\<forall>(file_name, f) \<in> set fs. file_name \<noteq> manifest_file_name appid \<longrightarrow>
        (\<exists>other. manifest_install_dir f = Some other \<and> casefold other \<noteq> casefold name))"
  by (induction appid name fs rule: intake_collision.induct) (auto split: option.split)

lemma intake_checks_Inr:
  assumes "intake_checks appid validating raw v = Inr name"
  shows "intake_name appid validating raw v = Inr name" "safe_install_dir_name name"
    "intake_target (v_target v name) = Inr ()"
    "validating \<Longrightarrow> intake_installed appid v (v_target v name) = Inr ()"
    "intake_collision appid name (v_manifests v) = Inr ()"
    "tv_exists (v_target v name) \<Longrightarrow> target_owned appid name v (v_target v name)"
  using assms
  by (auto simp: intake_checks_def bindE_eq_Inr intake_safe_def intake_owned_def Let_def
      intake_collision_Inr simp del: bindE_raise_if split: if_splits)

lemma intake_name_own:
  "intake_name appid validating raw v = Inr name \<Longrightarrow> own_manifest appid v \<noteq> Absent \<Longrightarrow>
     manifest_appid (own_manifest appid v) = Some (int appid) \<and>
     manifest_install_dir (own_manifest appid v) = Some name"
  by (auto simp: intake_name_def Let_def split: plan_name.splits if_splits option.splits)

lemma intake_name_verify:
  "intake_name appid True raw v = Inr name \<Longrightarrow> own_manifest appid v \<noteq> Absent"
  by (auto simp: intake_name_def Let_def split: plan_name.splits if_splits)


section \<open>Properties\<close>

text \<open>An accepted target can only be this title's.  The name is one safe path component;
  the directory is no link and lies inside the library; no manifest of another title names
  it, in any letter case; where the client already has the title installed the name is the
  directory it uses; and a directory that exists is owned: by its nested manifest, by the
  client's manifest, by the marker bound to its inode, or it is empty.\<close>

theorem intake_target_is_ours:
  assumes "intake_checks appid validating raw v = Inr name"
  defines "tv \<equiv> v_target v name"
  shows "safe_install_dir_name name \<and> \<not> tv_symlink tv \<and> tv_escapes tv = Some False \<and>
    (\<forall>(file_name, f) \<in> set (v_manifests v). file_name \<noteq> manifest_file_name appid \<longrightarrow>
       (\<exists>other. manifest_install_dir f = Some other \<and> casefold other \<noteq> casefold name)) \<and>
    (own_manifest appid v \<noteq> Absent \<longrightarrow> manifest_install_dir (own_manifest appid v) = Some name) \<and>
    (tv_exists tv \<longrightarrow> target_owned appid name v tv)"
proof -
  note checks = intake_checks_Inr [OF assms(1), folded tv_def]
  have "\<not> tv_symlink tv \<and> tv_escapes tv = Some False"
    using checks(3) by (auto simp: intake_target_def split: if_splits option.splits)
  with checks intake_name_own [OF checks(1)] show ?thesis
    by (simp add: intake_collision_Inr)
qed

definition demo_target :: target_view where
  "demo_target = \<lparr>tv_symlink = False, tv_escapes = Some False, tv_exists = True,
     tv_content = Some [Regular 9], tv_nested = Absent, tv_empty = Some False,
     tv_identity = Some (1, 2)\<rparr>"

definition demo_view :: view where
  "demo_view = \<lparr>v_manifests = [(''appmanifest_620.acf'', File demo_patched)],
     v_target = (\<lambda>_. demo_target), v_marker = None\<rparr>"

lemma demo_view_simps [simp]:
  "v_target demo_view n = demo_target"
  "v_manifests demo_view = [(''appmanifest_620.acf'', File demo_patched)]"
  "v_marker demo_view = None"
  by (simp_all add: demo_view_def)

lemma demo_own: "own_manifest 620 demo_view = File demo_patched"
  by code_simp

lemma demo_fields:
  "manifest_appid (File demo_patched) = Some 620" "manifest_state_flags (File demo_patched) = Some 4"
  "manifest_install_dir (File demo_patched) = Some ''Portal 2''"
  "safe_install_dir_name ''Portal 2''" "manifest_file_name 620 = ''appmanifest_620.acf''"
  by code_simp+

lemma demo_intake_checks: "intake_checks 620 validating NoName demo_view = Inr ''Portal 2''"
proof -
  have "holds_a_nonempty_file (tv_content demo_target)"
    by (simp add: holds_a_nonempty_file_def demo_target_def content_probe_entries_def)
  then show ?thesis
    by (simp add: intake_checks_def intake_name_def intake_safe_def intake_target_def
        intake_installed_def intake_owned_def target_owned_def demo_own demo_fields Let_def raise_if_def
        app_state_fully_installed_def)
       (simp add: demo_target_def demo_fields)
qed

lemma intake_target_is_ours_witness:
  "manifest_install_dir (own_manifest 620 demo_view) = Some ''Portal 2'' \<and>
     target_owned 620 ''Portal 2'' demo_view demo_target"
  using intake_target_is_ours [OF demo_intake_checks [of False]]
  by (simp add: demo_own) (simp add: demo_target_def)

text \<open>Verify repairs and never installs: it is accepted only for a title the client has
  a manifest for, with this AppID in its body and the FullyInstalled bit set, over a
  directory that holds a file with bytes.\<close>

theorem verify_needs_installed_content:
  assumes "intake_checks appid True raw v = Inr name"
  shows "manifest_appid (own_manifest appid v) = Some (int appid) \<and>
    (\<exists>flags. manifest_state_flags (own_manifest appid v) = Some flags \<and> (flags div 4) mod 2 = 1) \<and>
    has_bytes (Directory (tv_content (v_target v name)))"
proof -
  note checks = intake_checks_Inr [OF assms]
  note own = intake_name_own [OF checks(1) intake_name_verify [OF checks(1)]]
  have "holds_a_nonempty_file (tv_content (v_target v name)) \<and>
      (\<exists>flags. manifest_state_flags (own_manifest appid v) = Some flags \<and> (flags div 4) mod 2 = 1)"
    using checks(4) by (auto simp: intake_installed_def app_state_fully_installed_def Let_def
        raise_if_def split: if_splits option.splits)
  then show ?thesis
    using own probe_stack_sound by (fastforce simp: holds_a_nonempty_file_def)
qed

lemma verify_needs_installed_content_witness:
  "manifest_appid (own_manifest 620 demo_view) = Some 620 \<and> has_bytes (Directory (tv_content demo_target))"
  using verify_needs_installed_content [OF demo_intake_checks] by (simp add: demo_own)

end
