(* ===== verification/Content_Run.thy ===== *)
theory Content_Run
  imports Broker_Prelude
begin

text \<open>
  One steamcmd run as \<open>SteamcmdAdapter.install\<close> of
  \<open>src/steam_agent/execution/content_plane.py\<close> drives and judges it: the poll loop, the
  cleanup of the process it started and the classification of the output.  The process
  itself is a parameter: what each poll of it finds, whether killing it is confirmed, its
  return code and its captured output.  The patterns are matched without regard to case.
\<close>


section \<open>The process\<close>

datatype content_outcome =
    Installed
  | Auth_required
  | Content_failed

text \<open>A poll: the seconds that remain when it starts, and whether the process ended in it.\<close>

record content_run =
  cr_spawns :: bool
  cr_polls :: "(int \<times> bool) list"
  cr_capture_fails :: bool
  cr_killed :: bool
  cr_returncode :: int
  cr_output :: string
  cr_log_name :: string
  cr_log_written :: bool

definition auth_markers :: "string list" where
  "auth_markers =
     [''cached credentials not found'', ''invalid password'', ''rate limit'', ''two-factor'']"

definition auth_failure :: "string \<Rightarrow> bool" where
  "auth_failure output \<longleftrightarrow> list_ex (\<lambda>m. contains m (lower output)) auth_markers"

definition success_marker :: "string \<Rightarrow> bool" where
  "success_marker output \<longleftrightarrow> contains ''fully installed'' (lower output)"

definition default_timeout :: int where
  "default_timeout = 30 * 60"

definition steamcmd_argv ::
    "string \<Rightarrow> string \<Rightarrow> string \<Rightarrow> nat \<Rightarrow> bool \<Rightarrow> string list" where
  "steamcmd_argv script install_dir account appid validate =
     [script, ''+@NoPromptForPassword'', ''1'', ''+force_install_dir'', install_dir,
      ''+login'', account, ''+app_update'', show_nat appid] @
     (if validate then [''validate''] else []) @ [''+quit'']"


section \<open>Polling\<close>

text \<open>How the loop ended; \<open>Poll_aborted True\<close>: the abort check itself raised.\<close>

datatype poll_end =
    Exited
  | Timed_out
  | Poll_aborted bool
  | Capture_lost

text \<open>The answers of \<open>abort_when\<close> at the polls; \<open>None\<close> is an exception in it.\<close>

fun poll_loop :: "bool \<Rightarrow> (int \<times> bool) list \<Rightarrow> bool option list \<Rightarrow> poll_end option" where
  "poll_loop capture_fails [] answers = None"
| "poll_loop capture_fails ((remaining, ended) # polls) answers =
     (if capture_fails then Some Capture_lost
      else if ended then Some Exited
      else if remaining \<le> 0 then Some Timed_out
      else case answers of
          [] \<Rightarrow> None
        | None # _ \<Rightarrow> Some (Poll_aborted True)
        | Some True # _ \<Rightarrow> Some (Poll_aborted False)
        | Some False # answers' \<Rightarrow> poll_loop capture_fails polls answers')"

definition ended_early :: "poll_end \<Rightarrow> bool" where
  "ended_early e \<longleftrightarrow> (case e of Timed_out \<Rightarrow> True | Poll_aborted _ \<Rightarrow> True | _ \<Rightarrow> False)"


section \<open>The outcome\<close>

definition classify :: "bool \<Rightarrow> bool \<Rightarrow> bool \<Rightarrow> int option \<Rightarrow> string \<Rightarrow> content_outcome" where
  "classify poll_failed timed_out aborted returncode output =
     (if poll_failed then Content_failed
      else if auth_failure output then Auth_required
      else if \<not> timed_out \<and> \<not> aborted \<and> returncode = Some 0 \<and> success_marker output
      then Installed
      else Content_failed)"

text \<open>
  After the loop: an unconfirmed kill or a lost capture is a \<open>ContentProcessError\<close>, and so
  is a log that cannot be written (\<open>None\<close>, an \<open>OSError\<close>); otherwise the classification.
\<close>

definition conclude :: "content_run \<Rightarrow> poll_end \<Rightarrow> content_outcome option" where
  "conclude cr e =
     (if e = Capture_lost \<or> (ended_early e \<and> \<not> cr_killed cr) \<or> \<not> cr_log_written cr then None
      else Some (classify (e = Poll_aborted True) (e = Timed_out) (\<exists>b. e = Poll_aborted b)
             (Some (cr_returncode cr)) (cr_output cr)))"

definition not_spawned :: "content_run \<Rightarrow> content_outcome option" where
  "not_spawned cr =
     (if cr_log_written cr then Some (classify False False False None ''steamcmd unavailable'')
      else None)"

text \<open>The whole run against given answers of the abort check.\<close>

definition steamcmd_install :: "content_run \<Rightarrow> bool option list \<Rightarrow> content_outcome option option" where
  "steamcmd_install cr answers =
     (if \<not> cr_spawns cr then Some (not_spawned cr)
      else map_option (conclude cr) (poll_loop (cr_capture_fails cr) (cr_polls cr) answers))"

lemma classify_Installed:
  "classify pf t a rc out = Installed \<longleftrightarrow>
     \<not> pf \<and> \<not> auth_failure out \<and> \<not> t \<and> \<not> a \<and> rc = Some 0 \<and> success_marker out"
  by (simp add: classify_def)

lemma not_spawned_not_Installed: "not_spawned cr \<noteq> Some Installed"
  by (simp add: not_spawned_def classify_def)

lemma conclude_Installed:
  "conclude cr e = Some Installed \<Longrightarrow>
     e = Exited \<and> cr_returncode cr = 0 \<and> success_marker (cr_output cr) \<and>
     \<not> auth_failure (cr_output cr) \<and> cr_log_written cr"
  by (cases e) (auto simp: conclude_def ended_early_def classify_Installed split: if_splits)

lemma poll_loop_Exited:
  "poll_loop c polls answers = Some Exited \<Longrightarrow>
     \<exists>n r. n < length polls \<and> polls ! n = (r, True) \<and> n \<le> length answers \<and>
       take n answers = replicate n (Some False)"
proof (induction c polls answers rule: poll_loop.induct)
  case (2 c remaining ended polls answers)
  show ?case
  proof (cases ended)
    case True
    then show ?thesis by (intro exI [of _ 0] exI [of _ remaining]) simp
  next
    case False
    with "2.prems" obtain as where a: "answers = Some False # as" "poll_loop c polls as = Some Exited"
      "\<not> c" "\<not> remaining \<le> 0"
      by (auto split: if_splits list.splits option.splits bool.splits)
    with "2.IH" [OF a(3) False a(4), of "Some False" as False] obtain n r where
      "n < length polls" "polls ! n = (r, True)" "n \<le> length as" "take n as = replicate n (Some False)"
      by auto
    with a(1) show ?thesis by (intro exI [of _ "Suc n"] exI [of _ r]) simp
  qed
qed simp

lemma poll_loop_ends:
  "k < length polls \<Longrightarrow> k < length answers \<Longrightarrow> fst (polls ! k) \<le> 0 \<Longrightarrow>
     poll_loop c polls answers \<noteq> None"
proof (induction c polls answers arbitrary: k rule: poll_loop.induct)
  case (2 c remaining ended polls answers)
  then show ?case
    by (cases k) (auto split: list.splits option.splits bool.splits)
qed simp


section \<open>Properties\<close>

text \<open>\<open>installed\<close> is earned: it is reported only when the process was started and ended
  by itself with return code 0, before its time ran out, every abort check up to then said to
  go on, the output has the success marker and no authentication marker, and the log was
  written.\<close>

theorem installed_is_earned:
  assumes "steamcmd_install cr answers = Some (Some Installed)"
  shows "cr_spawns cr \<and> cr_returncode cr = 0 \<and> success_marker (cr_output cr) \<and>
    \<not> auth_failure (cr_output cr) \<and> cr_log_written cr \<and>
    (\<exists>n r. n < length (cr_polls cr) \<and> cr_polls cr ! n = (r, True) \<and>
       n \<le> length answers \<and> take n answers = replicate n (Some False))"
proof -
  have spawned: "cr_spawns cr"
    using assms not_spawned_not_Installed by (auto simp: steamcmd_install_def split: if_splits)
  with assms obtain e where e: "poll_loop (cr_capture_fails cr) (cr_polls cr) answers = Some e"
    "conclude cr e = Some Installed"
    by (auto simp: steamcmd_install_def)
  from conclude_Installed [OF e(2)] have "e = Exited" by simp
  with poll_loop_Exited e(1) conclude_Installed [OF e(2)] spawned show ?thesis by blast
qed

definition demo_run :: content_run where
  "demo_run = \<lparr>cr_spawns = True, cr_polls = [(1800, False), (1785, True)], cr_capture_fails = False,
     cr_killed = True, cr_returncode = 0, cr_output = ''Success! App fully installed.'',
     cr_log_name = ''install.log'', cr_log_written = True\<rparr>"

lemma demo_run_installs: "steamcmd_install demo_run [Some False] = Some (Some Installed)"
  by code_simp

lemma installed_is_earned_witness: "success_marker (cr_output demo_run) \<and> cr_spawns demo_run"
  using installed_is_earned [OF demo_run_installs] by simp

text \<open>A run ends: once the time that remains has run out at some poll, and the abort check
  has been asked at every poll before, the loop has ended with a result; a revoked or failed
  check never yields \<open>installed\<close>, even if the output claims success.\<close>

theorem run_ends:
  assumes "k < length (cr_polls cr)" "k < length answers" "fst (cr_polls cr ! k) \<le> 0"
  shows "steamcmd_install cr answers \<noteq> None \<and>
    (\<forall>b. poll_loop (cr_capture_fails cr) (cr_polls cr) answers = Some (Poll_aborted b) \<longrightarrow>
      cr_spawns cr \<longrightarrow> steamcmd_install cr answers \<noteq> Some (Some Installed))"
  using poll_loop_ends [OF assms] conclude_Installed by (auto simp: steamcmd_install_def)

lemma run_ends_witness:
  "steamcmd_install (demo_run\<lparr>cr_polls := [(1800, False), (0, False)]\<rparr>) [Some True, None] \<noteq> None"
  by (rule run_ends [THEN conjunct1, of 1]) simp_all

end
