(* ===== verification/Exec_Base.thy ===== *)
theory Exec_Base
  imports Exec_Monad Ledger_Props Adoption_Props Sessions Intake Content_Run
begin

text \<open>
  The world the executor of \<open>src/steam_agent/execution/executor.py\<close> runs in, and its helper
  methods.  The executor changes the ledger, the files of the operation's AppID and, through
  the session, the Steam client; the trace records what it observed and did, in order.
  Everything outside answers at a moment of the clock \<open>w_tick\<close>, which every observation
  advances: the environment is a record of functions of the moment, so an arbitrary
  environment is an arbitrary behaviour of Steam, of the file system and of the owner who
  edits the policy.
\<close>


section \<open>Reports and faults\<close>

datatype outcome =
    Out_confirmed
  | Out_unconfirmed
  | Out_contradicted
  | Out_aborted
  | Out_failed
  | Out_auth_required
  | Out_deferred
  | Out_dispatched

record report =
  rp_operation :: nat
  rp_outcome :: outcome
  rp_detail :: string

definition report :: "nat \<Rightarrow> outcome \<Rightarrow> string \<Rightarrow> report" where
  "report i out detail = \<lparr>rp_operation = i, rp_outcome = out, rp_detail = detail\<rparr>"

text \<open>An exception the executor does not catch; \<open>No_fuel\<close> is a run whose polls never end.\<close>

datatype fault =
    Ledger_fault ledger_error
  | Probe_fault
  | No_fuel

datatype 'r exit =
    Raised fault
  | Returned 'r


section \<open>The world and the environment\<close>

datatype policy_reply =
    Permits
  | Denies string
  | Policy_raises

datatype effect =
    Saw_gates lease_gates
  | Saw_policy bool
  | Saw_window bool
  | Saw_client bool
  | Saw_steamcmd "bool option"
  | Saw_mount "(int \<times> int) option"
  | Stopped_client bool
  | Started_client bool
  | Launched nat bool
  | Marked_target bool
  | Ran_content nat
  | Adopted bool
  | Recovered
  | Moved op_state "bool option"

record world =
  w_tick :: nat
  w_db :: db
  w_disk :: disk
  w_trace :: "effect list"

type_synonym ('r, 'a) exec = "(world, 'r exit, 'a) prog"

record env =
  e_now :: "nat \<Rightarrow> int"
  e_gates :: "nat \<Rightarrow> lease_gates"
  e_client :: "nat \<Rightarrow> bool"
  e_steamcmd :: "nat \<Rightarrow> bool option"
  e_stop :: "nat \<Rightarrow> bool"
  e_start :: "nat \<Rightarrow> bool"
  e_launch :: "nat \<Rightarrow> bool"
  e_policy :: "nat \<Rightarrow> op_row \<Rightarrow> policy_reply"
  e_view :: "nat \<Rightarrow> view"
  e_files :: "nat \<Rightarrow> disk \<Rightarrow> disk"
  e_io :: "nat \<Rightarrow> nat \<Rightarrow> io"
  e_contained :: "nat \<Rightarrow> bool"
  e_content :: "nat \<Rightarrow> content_run"
  e_nested :: "nat \<Rightarrow> contents"
  e_downloading :: "nat \<Rightarrow> bool"

record config =
  c_platform :: string
  c_content :: bool
  c_account_login :: "(string \<Rightarrow> string option) option"
  c_dispatch_policy :: bool
  c_paths :: "nat \<Rightarrow> paths"
  c_sha256 :: "string \<Rightarrow> string"
  c_plan_name :: "string \<Rightarrow> plan_name"


section \<open>Primitive steps\<close>

definition observe :: "(nat \<Rightarrow> 'a) \<Rightarrow> ('a \<Rightarrow> effect list) \<Rightarrow> ('r, 'a) exec" where
  "observe f seen = (\<lambda>w.
     (Inr (f (w_tick w)), w\<lparr>w_tick := Suc (w_tick w), w_trace := w_trace w @ seen (f (w_tick w))\<rparr>))"

definition emit :: "effect \<Rightarrow> ('r, unit) exec" where
  "emit e = (\<lambda>w. (Inr (), w\<lparr>w_trace := w_trace w @ [e]\<rparr>))"

definition leave :: "'r \<Rightarrow> ('r, 'a) exec" where
  "leave r = stop (Returned r)"

definition fault :: "fault \<Rightarrow> ('r, 'a) exec" where
  "fault e = stop (Raised e)"

text \<open>A ledger method at the current time; its exception is not caught.\<close>

definition ledger_do ::
    "env \<Rightarrow> (int \<Rightarrow> db \<Rightarrow> 'a ledger_result) \<Rightarrow> ('a \<Rightarrow> db \<Rightarrow> effect list) \<Rightarrow> ('r, 'a) exec" where
  "ledger_do env f seen = (\<lambda>w.
     (case f (e_now env (w_tick w)) (w_db w) of
        (Inl e, d) \<Rightarrow> (Inl (Raised (Ledger_fault e)), w\<lparr>w_tick := Suc (w_tick w), w_db := d\<rparr>)
      | (Inr x, d) \<Rightarrow>
          (Inr x, w\<lparr>w_tick := Suc (w_tick w), w_db := d, w_trace := w_trace w @ seen x d\<rparr>)))"

definition reading :: "(db \<Rightarrow> ledger_error + 'a) \<Rightarrow> db \<Rightarrow> 'a ledger_result" where
  "reading f d = (f d, d)"

text \<open>The files as they are now, whatever others did to them since; then a file operation.\<close>

definition files_do ::
    "env \<Rightarrow> ((nat \<Rightarrow> io) \<Rightarrow> disk \<Rightarrow> 'a \<times> disk) \<Rightarrow> ('a \<Rightarrow> effect list) \<Rightarrow> ('r, 'a) exec" where
  "files_do env f seen = (\<lambda>w.
     (case f (e_io env (w_tick w)) (e_files env (w_tick w) (w_disk w)) of (x, d) \<Rightarrow>
        (Inr x, w\<lparr>w_tick := Suc (w_tick w), w_disk := d, w_trace := w_trace w @ seen x\<rparr>)))"


section \<open>Observations and effects\<close>

definition see_gates :: "env \<Rightarrow> ('r, lease_gates) exec" where
  "see_gates env = observe (e_gates env) (\<lambda>g. [Saw_gates g])"

definition see_client :: "env \<Rightarrow> ('r, bool) exec" where
  "see_client env = observe (e_client env) (\<lambda>b. [Saw_client b])"

definition see_steamcmd :: "env \<Rightarrow> ('r, bool option) exec" where
  "see_steamcmd env = observe (e_steamcmd env) (\<lambda>b. [Saw_steamcmd b])"

definition do_stop :: "env \<Rightarrow> ('r, bool) exec" where
  "do_stop env = observe (e_stop env) (\<lambda>b. [Stopped_client b])"

definition do_start :: "env \<Rightarrow> ('r, bool) exec" where
  "do_start env = observe (e_start env) (\<lambda>b. [Started_client b])"

definition do_launch :: "env \<Rightarrow> nat \<Rightarrow> ('r, bool) exec" where
  "do_launch env appid = observe (e_launch env) (\<lambda>b. [Launched appid b])"

definition get_operation :: "env \<Rightarrow> nat \<Rightarrow> ('r, op_row) exec" where
  "get_operation env i = ledger_do env (\<lambda>now. reading (get_row i)) (\<lambda>_ _. [])"

definition see_window :: "env \<Rightarrow> nat \<Rightarrow> ('r, bool) exec" where
  "see_window env i = ledger_do env (\<lambda>now. reading (window_valid now i)) (\<lambda>b _. [Saw_window b])"

definition do_expire :: "env \<Rightarrow> ('r, nat list) exec" where
  "do_expire env = ledger_do env expire_lapsed (\<lambda>_ _. [])"

definition prior_of :: "nat \<Rightarrow> db \<Rightarrow> bool option" where
  "prior_of i d =
     (case find (\<lambda>r. r_id r = i) (db_operations d) of
        None \<Rightarrow> None | Some r \<Rightarrow> r_prior_client_running r)"

definition move_from ::
    "env \<Rightarrow> nat \<Rightarrow> op_state \<Rightarrow> string option \<Rightarrow> bool option \<Rightarrow> op_state option \<Rightarrow> ('r, unit) exec" where
  "move_from env i to detail prior expected =
     ledger_do env (\<lambda>now. transition now i to detail prior expected)
       (\<lambda>_ d. [Moved to (prior_of i d)])"

abbreviation move :: "env \<Rightarrow> nat \<Rightarrow> op_state \<Rightarrow> string option \<Rightarrow> ('r, unit) exec" where
  "move env i to detail \<equiv> move_from env i to detail None None"

text \<open>\<open>_library_identity\<close>, and \<open>steamapps/\<close> being there at all.\<close>

definition see_mount :: "env \<Rightarrow> ('r, (int \<times> int) option) exec" where
  "see_mount env = files_do env (\<lambda>io d. (d_steamapps d, d)) (\<lambda>m. [Saw_mount m])"

definition see_manifest :: "env \<Rightarrow> ('r, contents) exec" where
  "see_manifest env = files_do env (\<lambda>io d. (d_manifest d, d)) (\<lambda>_. [])"

definition see_downloading :: "env \<Rightarrow> ('r, bool) exec" where
  "see_downloading env = observe (e_downloading env) (\<lambda>_. [])"

definition see_nested :: "env \<Rightarrow> ('r, contents) exec" where
  "see_nested env = observe (e_nested env) (\<lambda>_. [])"

definition do_adopt :: "env \<Rightarrow> config \<Rightarrow> nat \<Rightarrow> nat \<Rightarrow> string \<Rightarrow> contents \<Rightarrow> ('r, adoption_error + unit) exec" where
  "do_adopt env cfg i appid name source =
     files_do env (\<lambda>io. adopt_manifest (c_sha256 cfg) (c_paths cfg appid) io source name (int i))
       (\<lambda>r. [Adopted (r = Inr ())])"

definition do_recover :: "env \<Rightarrow> config \<Rightarrow> nat \<Rightarrow> nat \<Rightarrow> ('r, adoption_error + verdict) exec" where
  "do_recover env cfg i appid =
     files_do env (\<lambda>io. reconcile_adoption (c_sha256 cfg) (c_paths cfg appid) io (int appid) (Some (int i)))
       (\<lambda>_. [Recovered])"

text \<open>Retiring the journal and the ownership marker; any of it may raise \<open>OSError\<close>.\<close>

definition retire_records :: "(nat \<Rightarrow> io) \<Rightarrow> disk \<Rightarrow> unit disk_result" where
  "retire_records io d =
     (case clear_adoption_journal io d of
        (Inl e, d) \<Rightarrow> (Inl e, d)
      | (Inr _, d) \<Rightarrow>
          andthen FilesystemError (step (io 2) (\<lambda>d. d\<lparr>d_marker := False\<rparr>) d) (\<lambda>d. (Inr (), d)))"

definition do_retire :: "env \<Rightarrow> ('r, adoption_error + unit) exec" where
  "do_retire env = files_do env retire_records (\<lambda>_. [])"


section \<open>Policy, restoration and failure\<close>

text \<open>\<open>_content_policy_denial\<close>: an exception of the callback reads as unreadable policy.\<close>

definition policy_denial :: "policy_reply \<Rightarrow> string option" where
  "policy_denial r =
     (case r of
        Permits \<Rightarrow> None
      | Policy_raises \<Rightarrow> Some ''content policy unreadable''
      | Denies msg \<Rightarrow>
          if msg = ''policy unreadable before dispatch'' then Some ''content policy unreadable''
          else Some ''content policy denied'')"

definition content_policy_denial :: "env \<Rightarrow> config \<Rightarrow> op_row \<Rightarrow> ('r, string option) exec" where
  "content_policy_denial env cfg op =
     (if \<not> c_dispatch_policy cfg then give None
      else observe (\<lambda>t. policy_denial (e_policy env t op)) (\<lambda>d. [Saw_policy (d = None)]))"

definition restore_client :: "env \<Rightarrow> bool option \<Rightarrow> ('r, bool) exec" where
  "restore_client env prior =
     seq (see_steamcmd env) (\<lambda>running.
     if running \<noteq> Some False then give False
     else if prior \<noteq> Some True then give True
     else do_start env)"

definition finish_failure ::
    "env \<Rightarrow> nat \<Rightarrow> bool option \<Rightarrow> string \<Rightarrow> string \<Rightarrow> outcome \<Rightarrow> op_state \<Rightarrow> ('r, report) exec" where
  "finish_failure env i prior detail message out to =
     seq (restore_client env prior) (\<lambda>restored.
     if \<not> restored
     then give (report i Out_deferred (message @ ''; client restore failed; state left for reconcile''))
     else seq (move env i to (Some detail)) (\<lambda>_. give (report i out message)))"

text \<open>The two common forms, and an abort of intake.\<close>

definition fail_with :: "env \<Rightarrow> nat \<Rightarrow> bool option \<Rightarrow> string \<Rightarrow> string \<Rightarrow> ('r, report) exec" where
  "fail_with env i prior detail message = finish_failure env i prior detail message Out_failed Failed"

definition abort_with :: "env \<Rightarrow> nat \<Rightarrow> bool option \<Rightarrow> string \<Rightarrow> string \<Rightarrow> ('r, report) exec" where
  "abort_with env i prior detail message = finish_failure env i prior detail message Out_aborted Aborted"

definition abort_intake :: "env \<Rightarrow> nat \<Rightarrow> bool option \<Rightarrow> string \<times> string \<Rightarrow> ('r, report) exec" where
  "abort_intake env i prior = (\<lambda>(detail, message). abort_with env i prior detail message)"

text \<open>\<open>_defer_content_policy\<close>; a probe that raises here is not caught.\<close>

definition defer_content_policy :: "env \<Rightarrow> op_row \<Rightarrow> string \<Rightarrow> ('r, report) exec" where
  "defer_content_policy env op denial =
     (let i = r_id op; prior = r_prior_client_running op;
          rest = seq (restore_client env prior) (\<lambda>restored.
            give (report i Out_deferred
              (if restored then denial
               else denial @ ''; client restore failed; state left for retry'')))
      in if prior = Some True
         then seq (see_steamcmd env) (\<lambda>running.
           case running of
             None \<Rightarrow> fault Probe_fault
           | Some True \<Rightarrow> give (report i Out_deferred
               (denial @ ''; steamcmd may still be running; client restore deferred''))
           | Some False \<Rightarrow> rest)
         else rest)"


section \<open>The ownership marker\<close>

datatype mark_result =
    Mark_written
  | Target_escaped
  | Mark_error

text \<open>\<open>_record_owned_dir\<close>: containment before and after the directory is made.\<close>

definition record_owned_dir :: "env \<Rightarrow> ('r, mark_result) exec" where
  "record_owned_dir env =
     seq (observe (e_contained env) (\<lambda>_. [])) (\<lambda>contained.
     if \<not> contained then give Target_escaped
     else seq (files_do env (\<lambda>io d. step (io 0) (\<lambda>d. d) d) (\<lambda>_. [])) (\<lambda>raised.
     if raised then give Mark_error
     else seq (observe (e_contained env) (\<lambda>_. [])) (\<lambda>contained.
     if \<not> contained then give Target_escaped
     else seq (files_do env (\<lambda>io d. step (io 0) (\<lambda>d. d\<lparr>d_marker := True\<rparr>) d)
            (\<lambda>raised. [Marked_target (\<not> raised)])) (\<lambda>raised.
     give (if raised then Mark_error else Mark_written)))))"


section \<open>The content run\<close>

text \<open>
  \<open>abort_content\<close>: a denial is latched; then the client, the window and the mount.  The
  second part is the answer, \<open>None\<close> for an exception of the ledger.
\<close>

definition abort_content ::
    "env \<Rightarrow> config \<Rightarrow> op_row \<Rightarrow> (int \<times> int) option \<Rightarrow> string option \<Rightarrow>
       ('r, string option \<times> bool option) exec" where
  "abort_content env cfg op mount latch =
     seq (content_policy_denial env cfg op) (\<lambda>denial.
     let latch = (case denial of None \<Rightarrow> latch | Some d \<Rightarrow> Some d) in
     if latch \<noteq> None then give (latch, Some True)
     else seq (see_client env) (\<lambda>client.
     if client then give (latch, Some True)
     else seq (\<lambda>w. case see_window env (r_id op) w of
            (Inl (Raised (Ledger_fault e)), w') \<Rightarrow> (Inr None, w')
          | (Inl s, w') \<Rightarrow> (Inl s, w')
          | (Inr b, w') \<Rightarrow> (Inr (Some b), w')) (\<lambda>window.
     case window of
       None \<Rightarrow> give (latch, None)
     | Some False \<Rightarrow> give (latch, Some True)
     | Some True \<Rightarrow> seq (see_mount env) (\<lambda>now. give (latch, Some (now \<noteq> mount))))))"

fun content_polls ::
    "(string option \<Rightarrow> ('r, string option \<times> bool option) exec) \<Rightarrow> bool \<Rightarrow> (int \<times> bool) list \<Rightarrow>
       string option \<Rightarrow> ('r, string option \<times> poll_end) exec" where
  "content_polls check capture_fails [] latch = fault No_fuel"
| "content_polls check capture_fails ((remaining, ended) # polls) latch =
     (if capture_fails then give (latch, Capture_lost)
      else if ended then give (latch, Exited)
      else if remaining \<le> 0 then give (latch, Timed_out)
      else seq (check latch) (\<lambda>(latch, answer).
        case answer of
          None \<Rightarrow> give (latch, Poll_aborted True)
        | Some True \<Rightarrow> give (latch, Poll_aborted False)
        | Some False \<Rightarrow> content_polls check capture_fails polls latch))"

text \<open>\<open>None\<close>: the adapter raised an \<open>OSError\<close>.\<close>

definition content_install ::
    "env \<Rightarrow> config \<Rightarrow> op_row \<Rightarrow> (int \<times> int) option \<Rightarrow>
       ('r, string option \<times> content_outcome option \<times> string) exec" where
  "content_install env cfg op mount =
     seq (emit (Ran_content (nat (r_appid op)))) (\<lambda>_.
     seq (observe (e_content env) (\<lambda>_. [])) (\<lambda>cr.
     if \<not> cr_spawns cr then give (None, not_spawned cr, cr_log_name cr)
     else seq (content_polls (abort_content env cfg op mount) (cr_capture_fails cr) (cr_polls cr) None)
       (\<lambda>(latch, ending). give (latch, conclude cr ending, cr_log_name cr))))"

end
