(* ===== verification/Executor.thy ===== *)
theory Executor
  imports Exec_Base
begin

text \<open>
  \<open>Executor._execute_locked\<close> and \<open>_launch\<close> of \<open>src/steam_agent/execution/executor.py\<close>,
  cut into the phases its comments name.  A phase that returns a report \<open>leave\<close>s, which
  skips every later phase; otherwise it gives the value the next one needs.
\<close>


section \<open>Leaving with a report\<close>

definition deferred :: "nat \<Rightarrow> string \<Rightarrow> (report, 'a) exec" where
  "deferred i detail = leave (report i Out_deferred detail)"

definition aborted :: "nat \<Rightarrow> string \<Rightarrow> (report, 'a) exec" where
  "aborted i detail = leave (report i Out_aborted detail)"

definition fail_leave :: "env \<Rightarrow> nat \<Rightarrow> bool option \<Rightarrow> string \<Rightarrow> string \<Rightarrow> (report, 'a) exec" where
  "fail_leave env i prior detail message = seq (fail_with env i prior detail message) leave"

definition abort_leave :: "env \<Rightarrow> nat \<Rightarrow> bool option \<Rightarrow> string \<Rightarrow> string \<Rightarrow> (report, 'a) exec" where
  "abort_leave env i prior detail message = seq (abort_with env i prior detail message) leave"

text \<open>\<open>denial = self._content_policy_denial(operation)\<close> and the return that follows it.\<close>

definition unless_denied ::
    "env \<Rightarrow> config \<Rightarrow> op_row \<Rightarrow> (string \<Rightarrow> (report, unit) exec) \<Rightarrow> (report, unit) exec" where
  "unless_denied env cfg op stopping =
     seq (content_policy_denial env cfg op) (\<lambda>denial.
     case denial of None \<Rightarrow> give () | Some d \<Rightarrow> stopping d)"

definition defer_denied :: "env \<Rightarrow> op_row \<Rightarrow> string \<Rightarrow> (report, unit) exec" where
  "defer_denied env op d = seq (defer_content_policy env op d) leave"


section \<open>Launch\<close>

definition busy :: "lease_gates \<Rightarrow> bool" where
  "busy g \<longleftrightarrow> g_game_running g \<noteq> Pass \<or> g_remote_play g \<noteq> Pass"

fun gate_name :: "gate \<Rightarrow> string" where
  "gate_name Pass = ''pass''"
| "gate_name Fail = ''fail''"
| "gate_name Unknown = ''unknown''"

text \<open>A window that has lapsed: expire, and leave.\<close>

definition require_window :: "env \<Rightarrow> nat \<Rightarrow> string \<Rightarrow> (report, unit) exec" where
  "require_window env i message =
     seq (see_window env i) (\<lambda>valid.
     if valid then give () else seq (do_expire env) (\<lambda>_. aborted i message))"

definition launch_probe :: "env \<Rightarrow> nat \<Rightarrow> (report, unit) exec" where
  "launch_probe env i =
     seq (see_gates env) (\<lambda>g.
     if busy g
     then deferred i (''session busy: game='' @ gate_name (g_game_running g) @
            '' remote_play='' @ gate_name (g_remote_play g))
     else if g_client_running g = Unknown
     then deferred i ''client presence unknown (probe error); deferred''
     else seq (if g_client_running g \<noteq> Fail then do_start env else give True) (\<lambda>started.
     if \<not> started then deferred i ''client would not start; deferred''
     else seq (see_gates env) (\<lambda>g.
     if busy g then deferred i ''session became busy before launch; deferred''
     else if g_client_running g \<noteq> Fail then deferred i ''client presence not confirmed before launch''
     else give ())))"

text \<open>The launch policy's own words are reported; its exception is not caught.\<close>

definition launch_policy :: "env \<Rightarrow> config \<Rightarrow> op_row \<Rightarrow> (report, unit) exec" where
  "launch_policy env cfg op =
     (if \<not> c_dispatch_policy cfg then give ()
      else seq (observe (\<lambda>t. e_policy env t op) (\<lambda>r. [Saw_policy (r = Permits)])) (\<lambda>reply.
        case reply of
          Permits \<Rightarrow> give ()
        | Policy_raises \<Rightarrow> fault Probe_fault
        | Denies denial \<Rightarrow>
            seq (move_from env (r_id op) Aborted (Some denial) None (Some Authorized)) (\<lambda>_.
            aborted (r_id op) denial)))"

definition launch :: "env \<Rightarrow> config \<Rightarrow> nat \<Rightarrow> op_row \<Rightarrow> (report, 'a) exec" where
  "launch env cfg i op =
     (if r_state op \<noteq> Authorized
      then aborted i (''not executable: '' @ state_name (r_state op))
      else
        seq (require_window env i ''execution window lapsed'') (\<lambda>_.
        seq (launch_probe env i) (\<lambda>_.
        seq (require_window env i ''execution window lapsed before launch dispatch'') (\<lambda>_.
        seq (launch_policy env cfg op) (\<lambda>_.
        seq (move_from env i DispatchPending (Some ''launch dispatch intent recorded'') None
               (Some Authorized)) (\<lambda>_.
        seq (do_launch env (nat (r_appid op))) (\<lambda>accepted.
        if \<not> accepted
        then seq (move_from env i Unconfirmed
                (Some ''launch command did not acknowledge acceptance; not replayable'') None
                (Some DispatchPending)) (\<lambda>_.
              leave (report i Out_unconfirmed
                ''launch acceptance unknown; request will not be replayed''))
        else seq (move_from env i Dispatched (Some ''launch requested; playability not observed'')
                None (Some DispatchPending)) (\<lambda>_.
              leave (report i Out_dispatched
                ''launch requested; this broker does not observe whether the game became playable'')))))))))"


section \<open>Content: entry\<close>

definition resuming :: "op_row \<Rightarrow> bool" where
  "resuming op \<longleftrightarrow> r_state op = Interrupted"

definition validating :: "op_row \<Rightarrow> bool" where
  "validating op \<longleftrightarrow> r_operation op = ''verify''"

definition steam_login :: "config \<Rightarrow> op_row \<Rightarrow> string option" where
  "steam_login cfg op =
     (case c_account_login cfg of
        None \<Rightarrow> Some (r_account_alias op)
      | Some login \<Rightarrow> login (r_account_alias op))"

text \<open>A lapsed window: a resumed run gives the client back before the row becomes terminal.\<close>

definition enter_window :: "env \<Rightarrow> nat \<Rightarrow> op_row \<Rightarrow> (report, unit) exec" where
  "enter_window env i op =
     seq (see_window env i) (\<lambda>valid.
     if valid then give ()
     else seq (do_expire env) (\<lambda>_.
     if resuming op
     then seq (restore_client env (r_prior_client_running op)) (\<lambda>restored.
       if \<not> restored
       then deferred i ''window lapsed; client restore failed; state left for retry''
       else seq (move env i Failed (Some ''window lapsed before resume'')) (\<lambda>_.
         aborted i ''execution window lapsed''))
     else aborted i ''execution window lapsed''))"

definition windows_release_denial :: string where
  "windows_release_denial =
     ''Windows content backend is a candidate; authentication and content recovery are unqualified''"

definition enter :: "env \<Rightarrow> config \<Rightarrow> nat \<Rightarrow> op_row \<Rightarrow> (report, unit) exec" where
  "enter env cfg i op =
     (if r_state op \<noteq> Authorized \<and> r_state op \<noteq> Interrupted
      then aborted i (''not executable: '' @ state_name (r_state op))
      else if r_operation op = ''launch'' then launch env cfg i op
      else if r_operation op \<noteq> ''install'' \<and> r_operation op \<noteq> ''verify''
      then aborted i ''operation requires a different executor''
      else if c_platform cfg = ''win32'' then deferred i windows_release_denial
      else if \<not> c_content cfg then deferred i ''content execution is not provisioned''
      else
        seq (unless_denied env cfg op (defer_denied env op)) (\<lambda>_.
        if steam_login cfg op = None \<or> steam_login cfg op = Some []
        then deferred i ''account has no provisioned Steam login''
        else enter_window env i op))"

definition library_unavailable :: string where
  "library_unavailable = ''library steamapps directory unavailable; deferred''"

definition enter_library :: "env \<Rightarrow> nat \<Rightarrow> (report, (int \<times> int) option) exec" where
  "enter_library env i =
     seq (see_mount env) (\<lambda>there.
     if there = None then deferred i library_unavailable
     else seq (see_mount env) (\<lambda>mount.
     if mount = None then deferred i library_unavailable else give mount))"

definition run_intake :: "env \<Rightarrow> config \<Rightarrow> nat \<Rightarrow> op_row \<Rightarrow> (report, string) exec" where
  "run_intake env cfg i op =
     seq (ledger_do env (\<lambda>now. reading (plan_document (c_plan_name cfg) i)) (\<lambda>_ _. [])) (\<lambda>raw.
     seq (observe (e_view env) (\<lambda>_. [])) (\<lambda>v.
     case intake_checks (nat (r_appid op)) (validating op) raw v of
       Inl reason \<Rightarrow> seq (abort_intake env i (r_prior_client_running op) reason) leave
     | Inr name \<Rightarrow> give name))"


section \<open>Content: the lease and the client\<close>

definition take_lease :: "env \<Rightarrow> nat \<Rightarrow> (report, lease_gates) exec" where
  "take_lease env i =
     seq (see_steamcmd env) (\<lambda>running.
     case running of
       None \<Rightarrow> fault Probe_fault
     | Some True \<Rightarrow> deferred i ''a steamcmd process is already running; deferred''
     | Some False \<Rightarrow>
         seq (see_gates env) (\<lambda>g.
         if \<not> all_clear g
         then deferred i (''lease gates not clear: game='' @ gate_name (g_game_running g) @
                '' remote_play='' @ gate_name (g_remote_play g) @
                '' download='' @ gate_name (g_download_in_flight g))
         else give g))"

definition stop_for_resume :: "env \<Rightarrow> config \<Rightarrow> nat \<Rightarrow> op_row \<Rightarrow> (report, bool) exec" where
  "stop_for_resume env cfg i op =
     (let prior = (r_prior_client_running op = Some True) in
      seq (see_client env) (\<lambda>running.
      seq (unless_denied env cfg op (defer_denied env op)) (\<lambda>_.
      seq (if running then do_stop env else give True) (\<lambda>stopped.
      if stopped then give prior
      else seq (restore_client env (Some prior)) (\<lambda>_.
        deferred i ''client would not exit for resume'')))))"

definition stop_fresh :: "env \<Rightarrow> config \<Rightarrow> nat \<Rightarrow> op_row \<Rightarrow> lease_gates \<Rightarrow> (report, bool) exec" where
  "stop_fresh env cfg i op g =
     (if g_client_running g = Unknown
      then deferred i ''client presence unknown (probe error); deferred''
      else
        let prior = (g_client_running g = Fail) in
        seq (unless_denied env cfg op (defer_denied env op)) (\<lambda>_.
        seq (move_from env i LeaseAcquired None (Some prior) None) (\<lambda>_.
        seq (move env i ClientStopping None) (\<lambda>_.
        seq (unless_denied env cfg op (\<lambda>d. abort_leave env i (Some prior) d d)) (\<lambda>_.
        seq (if prior then do_stop env else give True) (\<lambda>stopped.
        if stopped then give prior
        else abort_leave env i (Some prior) ''client would not exit cleanly''
               ''client would not exit cleanly''))))))"

definition stop_phase :: "env \<Rightarrow> config \<Rightarrow> nat \<Rightarrow> op_row \<Rightarrow> lease_gates \<Rightarrow> (report, bool) exec" where
  "stop_phase env cfg i op g =
     (if resuming op then stop_for_resume env cfg i op else stop_fresh env cfg i op g)"

text \<open>Everything is checked again once the client has stopped; then the state moves.\<close>

definition recheck ::
    "env \<Rightarrow> config \<Rightarrow> nat \<Rightarrow> op_row \<Rightarrow> bool \<Rightarrow> (int \<times> int) option \<Rightarrow> (report, unit) exec" where
  "recheck env cfg i op prior mount =
     seq (see_gates env) (\<lambda>g.
     if \<not> all_clear g \<or> g_client_running g \<noteq> Pass
     then abort_leave env i (Some prior) ''lease gates regressed during client stop''
            ''lease gates regressed during client stop''
     else seq (see_window env i) (\<lambda>valid.
     if \<not> valid
     then abort_leave env i (Some prior) ''window lapsed before content start''
            ''execution window lapsed before content start''
     else seq (see_mount env) (\<lambda>now.
     if now \<noteq> mount
     then abort_leave env i (Some prior) ''library mount changed before content start''
            ''library mount changed before content start''
     else seq (unless_denied env cfg op (\<lambda>d. abort_leave env i (Some prior) d d)) (\<lambda>_.
     move env i ContentRunning (if resuming op then Some ''resume'' else None)))))"


section \<open>Content: the run\<close>

text \<open>The marker comes before steamcmd may write; the policy is read around it.\<close>

definition run_content ::
    "env \<Rightarrow> config \<Rightarrow> nat \<Rightarrow> op_row \<Rightarrow> bool \<Rightarrow> (int \<times> int) option \<Rightarrow>
       (report, string option \<times> content_outcome \<times> string) exec" where
  "run_content env cfg i op prior mount =
     seq (unless_denied env cfg op (\<lambda>d. abort_leave env i (Some prior) d d)) (\<lambda>_.
     seq (record_owned_dir env) (\<lambda>marked.
     case marked of
       Target_escaped \<Rightarrow>
         abort_leave env i (Some prior) ''install target escaped containment during stop''
           ''install target changed during client stop''
     | Mark_error \<Rightarrow>
         fail_leave env i (Some prior) ''content adapter error: OSError''
           ''content adapter failed before completing''
     | Mark_written \<Rightarrow>
         seq (unless_denied env cfg op (\<lambda>d. abort_leave env i (Some prior) d d)) (\<lambda>_.
         seq (content_install env cfg op mount) (\<lambda>(latch, result, log).
         case result of
           None \<Rightarrow>
             fail_leave env i (Some prior) ''content adapter error: OSError''
               ''content adapter failed before completing''
         | Some out \<Rightarrow> give (latch, out, log)))))"

definition judge_content ::
    "env \<Rightarrow> config \<Rightarrow> nat \<Rightarrow> op_row \<Rightarrow> bool \<Rightarrow> string option \<times> content_outcome \<times> string \<Rightarrow>
       (report, unit) exec" where
  "judge_content env cfg i op prior = (\<lambda>(latch, out, log).
     seq (case latch of
            Some d \<Rightarrow> fail_leave env i (Some prior) d d
          | None \<Rightarrow> unless_denied env cfg op (\<lambda>d. fail_leave env i (Some prior) d d)) (\<lambda>_.
     if out = Auth_required
     then seq (finish_failure env i (Some prior) ''auth_required: owner re-seed''
            ''steamcmd needs re-authentication'' Out_auth_required Failed) leave
     else if out \<noteq> Installed
     then fail_leave env i (Some prior) (''steamcmd failed: '' @ log) (''steamcmd failed; see '' @ log)
     else seq (see_window env i) (\<lambda>valid.
     if \<not> valid
     then fail_leave env i (Some prior) ''window lapsed during content run''
            ''execution window lapsed during download''
     else seq (see_nested env) (\<lambda>source.
     if source = Absent
     then fail_leave env i (Some prior) ''no steamcmd-written manifest'' ''steamcmd produced no manifest''
     else seq (see_nested env) (\<lambda>source.
     if manifest_appid source \<noteq> Some (r_appid op)
     then fail_leave env i (Some prior) ''manifest appid mismatch''
            ''steamcmd manifest does not match the requested appid''
     else give ())))))"

text \<open>Before \<open>steamapps/\<close> is touched: the mount, the lease, the absent client, the policy.\<close>

definition before_adoption ::
    "env \<Rightarrow> config \<Rightarrow> nat \<Rightarrow> op_row \<Rightarrow> bool \<Rightarrow> (int \<times> int) option \<Rightarrow> (report, unit) exec" where
  "before_adoption env cfg i op prior mount =
     seq (see_mount env) (\<lambda>now.
     if now \<noteq> mount
     then fail_leave env i (Some prior) ''library mount changed during content run''
            ''library mount changed during content run; adoption skipped''
     else seq (see_gates env) (\<lambda>g.
     if \<not> all_clear g
     then fail_leave env i (Some prior) ''lease gates regressed before adoption''
            ''lease gates regressed before adoption; adoption skipped''
     else seq (see_client env) (\<lambda>running.
     seq (if \<not> running then give ()
          else seq (unless_denied env cfg op (\<lambda>d. fail_leave env i (Some prior) d d)) (\<lambda>_.
            seq (do_stop env) (\<lambda>stopped.
            seq (if stopped then see_client env else give True) (\<lambda>still.
            if still
            then fail_leave env i (Some prior) ''client restarted mid-operation; adoption skipped''
                   ''client restarted mid-operation; adoption skipped''
            else give ())))) (\<lambda>_.
     unless_denied env cfg op (\<lambda>d. fail_leave env i (Some prior) d d)))))"


section \<open>Content: adoption and verification\<close>

definition adoption_reason :: "adoption_error \<Rightarrow> string" where
  "adoption_reason e =
     (case e of AdoptionError msg \<Rightarrow> msg | FilesystemError \<Rightarrow> ''filesystem error: OSError'')"

definition adopt_phase :: "env \<Rightarrow> config \<Rightarrow> nat \<Rightarrow> op_row \<Rightarrow> bool \<Rightarrow> string \<Rightarrow> (report, unit) exec" where
  "adopt_phase env cfg i op prior name =
     seq (move env i Adopting None) (\<lambda>_.
     seq (see_nested env) (\<lambda>source.
     seq (do_adopt env cfg i (nat (r_appid op)) name source) (\<lambda>adopted.
     case adopted of
       Inr _ \<Rightarrow> give ()
     | Inl e \<Rightarrow>
         seq (do_recover env cfg i (nat (r_appid op))) (\<lambda>verdict.
         case verdict of
           Inl _ \<Rightarrow>
             seq (restore_client env (Some prior)) (\<lambda>_.
             aborted i ''adoption journal unreadable; state left for reconcile'')
         | Inr v \<Rightarrow>
             if v = Completed then give ()
             else fail_leave env i (Some prior)
               (''adoption failed: '' @ adoption_reason e @ ''; journal '' @ verdict_name v)
               (''adoption failed: '' @ adoption_reason e)))))"

definition restart_phase :: "env \<Rightarrow> nat \<Rightarrow> bool \<Rightarrow> (report, unit) exec" where
  "restart_phase env i prior =
     seq (move env i ClientRestartPending None) (\<lambda>_.
     seq (do_retire env) (\<lambda>retired.
     if retired \<noteq> Inr ()
     then seq (restore_client env (Some prior)) (\<lambda>_.
       aborted i ''journal cleanup failed; state left for reconcile retry'')
     else seq (restore_client env (Some prior)) (\<lambda>restored.
     if \<not> restored then aborted i ''client restore failed; state left for reconcile retry''
     else move env i Verifying None)))"

definition state_fully_installed :: int where
  "state_fully_installed = 4"

definition show_flags :: "int option \<Rightarrow> string" where
  "show_flags flags = (case flags of None \<Rightarrow> ''None'' | Some n \<Rightarrow> show_nat (nat n))"

definition verify_phase :: "env \<Rightarrow> nat \<Rightarrow> op_row \<Rightarrow> bool \<Rightarrow> (report, report) exec" where
  "verify_phase env i op prior =
     seq (see_manifest env) (\<lambda>m.
     if manifest_appid m \<noteq> Some (r_appid op)
     then seq (move env i Unconfirmed (Some ''manifest appid mismatch'')) (\<lambda>_.
       give (report i Out_unconfirmed ''adopted manifest no longer matches the requested appid''))
     else seq (see_manifest env) (\<lambda>m.
     let flags = manifest_state_flags m in
     if flags = Some state_fully_installed
     then seq (see_downloading env) (\<lambda>downloading.
       if downloading
       then seq (move env i Contradicted (Some ''client re-downloading after adoption'')) (\<lambda>_.
         give (report i Out_contradicted
           ''client rejected the adopted manifest and is re-downloading''))
       else if prior
       then seq (move env i Confirmed (Some ''client_adopted; first_run_required'')) (\<lambda>_.
         give (report i Out_confirmed ''content present and adopted; first run still required''))
       else seq (move env i Confirmed
              (Some ''content_present; client validation deferred to next client start'')) (\<lambda>_.
         give (report i Out_confirmed
           ''content present and adopted; client validation deferred to next client start; first run still required'')))
     else seq (move env i Unconfirmed (Some (''manifest StateFlags='' @ show_flags flags))) (\<lambda>_.
       give (report i Out_unconfirmed (''adoption not confirmed (StateFlags='' @ show_flags flags @ '')'')))))"


section \<open>The whole operation\<close>

definition content_phases :: "env \<Rightarrow> config \<Rightarrow> nat \<Rightarrow> op_row \<Rightarrow> (report, report) exec" where
  "content_phases env cfg i op =
     seq (enter_library env i) (\<lambda>mount.
     seq (run_intake env cfg i op) (\<lambda>name.
     seq (take_lease env i) (\<lambda>g.
     seq (stop_phase env cfg i op g) (\<lambda>prior.
     seq (recheck env cfg i op prior mount) (\<lambda>_.
     seq (run_content env cfg i op prior mount) (\<lambda>result.
     seq (judge_content env cfg i op prior result) (\<lambda>_.
     seq (before_adoption env cfg i op prior mount) (\<lambda>_.
     seq (adopt_phase env cfg i op prior name) (\<lambda>_.
     seq (restart_phase env i prior) (\<lambda>_.
     verify_phase env i op prior))))))))))"

definition execute_locked :: "env \<Rightarrow> config \<Rightarrow> nat \<Rightarrow> (report, report) exec" where
  "execute_locked env cfg i =
     seq (get_operation env i) (\<lambda>op.
     seq (enter env cfg i op) (\<lambda>_. content_phases env cfg i op))"

text \<open>The report of a run, or the exception that ended it, and the world it leaves.\<close>

definition outcome_of :: "'r exit + 'r \<Rightarrow> fault + 'r" where
  "outcome_of r =
     (case r of
        Inr x \<Rightarrow> Inr x
      | Inl (Returned x) \<Rightarrow> Inr x
      | Inl (Raised e) \<Rightarrow> Inl e)"

definition execute :: "env \<Rightarrow> config \<Rightarrow> nat \<Rightarrow> world \<Rightarrow> (fault + report) \<times> world" where
  "execute env cfg i w = (case execute_locked env cfg i w of (r, w') \<Rightarrow> (outcome_of r, w'))"

definition release_client :: "env \<Rightarrow> nat \<Rightarrow> ('r, bool) exec" where
  "release_client env i =
     seq (get_operation env i) (\<lambda>op. restore_client env (r_prior_client_running op))"

end
