(* ===== verification/Reconcile.thy ===== *)
theory Reconcile
  imports Executor
begin

text \<open>
  \<open>Executor._reconcile_locked\<close> of \<open>src/steam_agent/execution/executor.py\<close>: recovery of the
  one operation that a crash may have left active.  The result is the list of actions taken.
\<close>


section \<open>Parts\<close>

definition action :: "nat \<Rightarrow> string \<Rightarrow> string" where
  "action i text = show_nat i @ '': '' @ text"

text \<open>The local function \<open>restore\<close>: \<open>[]\<close> when the client is back, else the action it adds.\<close>

definition restore_actions :: "env \<Rightarrow> op_row \<Rightarrow> (string list, string list) exec" where
  "restore_actions env op =
     seq (restore_client env (r_prior_client_running op)) (\<lambda>restored.
     give (if restored then []
           else [action (r_id op) ''client restore failed; state left for retry'']))"

text \<open>\<open>if not restore(): return actions\<close>.\<close>

definition restored_or_leave :: "env \<Rightarrow> op_row \<Rightarrow> (string list, unit) exec" where
  "restored_or_leave env op =
     seq (restore_actions env op) (\<lambda>failed. if failed = [] then give () else leave failed)"

text \<open>Restore as far as possible, then report a deferral.\<close>

definition defer_action :: "env \<Rightarrow> op_row \<Rightarrow> string \<Rightarrow> (string list, 'a) exec" where
  "defer_action env op text =
     seq (restore_actions env op) (\<lambda>failed. leave (failed @ [action (r_id op) text]))"

definition verified_outcome :: "env \<Rightarrow> op_row \<Rightarrow> (string list, op_state \<times> string) exec" where
  "verified_outcome env op =
     seq (see_manifest env) (\<lambda>m.
     if manifest_appid m \<noteq> Some (r_appid op) then give (Unconfirmed, ''manifest appid mismatch'')
     else seq (see_manifest env) (\<lambda>m.
     let flags = manifest_state_flags m in
     if flags \<noteq> Some state_fully_installed
     then give (Unconfirmed, ''manifest StateFlags='' @ show_flags flags)
     else seq (see_downloading env) (\<lambda>downloading.
     if downloading then give (Contradicted, ''client re-downloading after adoption'')
     else if r_prior_client_running op = Some True then give (Confirmed, ''client_adopted'')
     else give (Confirmed, ''content_present; client validation deferred to next client start''))))"

text \<open>The last two moves of every recovered adoption.\<close>

definition conclude_verified :: "env \<Rightarrow> op_row \<Rightarrow> string \<Rightarrow> (string list, string list) exec" where
  "conclude_verified env op label =
     seq (verified_outcome env op) (\<lambda>(state, why).
     seq (move env (r_id op) state (Some (''reconciled: '' @ why))) (\<lambda>_.
     give [action (r_id op) (label @ '' -> '' @ state_name state)]))"

definition retire_or_defer :: "env \<Rightarrow> op_row \<Rightarrow> (string list, unit) exec" where
  "retire_or_defer env op =
     seq (do_retire env) (\<lambda>retired.
     if retired \<noteq> Inr () then defer_action env op ''journal cleanup failed; deferred'' else give ())"


section \<open>One recovery per state\<close>

definition reconcile_dispatch :: "env \<Rightarrow> op_row \<Rightarrow> (string list, string list) exec" where
  "reconcile_dispatch env op =
     seq (move_from env (r_id op) Unconfirmed
            (Some ''reconciled: dispatch acceptance unknown; not replayable'') None
            (Some DispatchPending)) (\<lambda>_.
     give [action (r_id op) ''dispatch acceptance unknown -> unconfirmed''])"

definition reconcile_early :: "env \<Rightarrow> op_row \<Rightarrow> (string list, string list) exec" where
  "reconcile_early env op =
     seq (restored_or_leave env op) (\<lambda>_.
     seq (move env (r_id op) Aborted (Some ''reconciled: no side effects'')) (\<lambda>_.
     give [action (r_id op) ''aborted (died before content ran)'']))"

definition reconcile_content :: "env \<Rightarrow> op_row \<Rightarrow> (string list, string list) exec" where
  "reconcile_content env op =
     seq (see_steamcmd env) (\<lambda>running.
     case running of
       None \<Rightarrow> fault Probe_fault
     | Some True \<Rightarrow> give [action (r_id op) ''steamcmd may still be running; deferred'']
     | Some False \<Rightarrow>
         seq (see_window env (r_id op)) (\<lambda>valid.
         if valid
         then seq (move env (r_id op) Interrupted (Some ''resume candidate'')) (\<lambda>_.
           give [action (r_id op) ''resume via execute()''])
         else seq (restored_or_leave env op) (\<lambda>_.
           seq (move env (r_id op) Failed (Some ''window lapsed mid-download'')) (\<lambda>_.
           give [action (r_id op) ''failed (window lapsed; partial dir invisible)'']))))"

definition reconcile_interrupted :: "env \<Rightarrow> op_row \<Rightarrow> (string list, string list) exec" where
  "reconcile_interrupted env op =
     seq (see_window env (r_id op)) (\<lambda>valid.
     if valid then give [action (r_id op) ''resume via execute()'']
     else seq (restored_or_leave env op) (\<lambda>_.
       seq (move env (r_id op) Failed (Some ''window lapsed before resume'')) (\<lambda>_.
       give [action (r_id op) ''failed (window lapsed before resume)''])))"

text \<open>Adoption is repaired only under a clear lease and with the client stopped.\<close>

definition adopting_lease :: "env \<Rightarrow> op_row \<Rightarrow> (string list, unit) exec" where
  "adopting_lease env op =
     seq (see_gates env) (\<lambda>g.
     if \<not> all_clear g
     then leave [action (r_id op) ''lease gates not clear; adoption reconcile deferred'']
     else seq (see_client env) (\<lambda>running.
     if \<not> running then give ()
     else seq (do_stop env) (\<lambda>stopped.
     if \<not> stopped then defer_action env op ''client running; adoption reconcile deferred''
     else seq (see_gates env) (\<lambda>g.
     if \<not> all_clear g \<or> g_client_running g \<noteq> Pass
     then defer_action env op ''lease regressed during stop; adoption reconcile deferred''
     else give ()))))"

definition reconcile_adopting :: "env \<Rightarrow> config \<Rightarrow> op_row \<Rightarrow> (string list, string list) exec" where
  "reconcile_adopting env cfg op =
     seq (adopting_lease env op) (\<lambda>_.
     seq (do_recover env cfg (r_id op) (nat (r_appid op))) (\<lambda>verdict.
     case verdict of
       Inl _ \<Rightarrow> defer_action env op ''adoption journal unreadable; deferred''
     | Inr v \<Rightarrow>
         if v \<noteq> Completed
         then seq (restored_or_leave env op) (\<lambda>_.
           seq (move env (r_id op) Failed (Some (''reconciled: adoption '' @ verdict_name v))) (\<lambda>_.
           give [action (r_id op) (''adoption '' @ verdict_name v @ '' -> failed'')]))
         else
           seq (move env (r_id op) ClientRestartPending (Some (''adoption '' @ verdict_name v))) (\<lambda>_.
           seq (retire_or_defer env op) (\<lambda>_.
           seq (restored_or_leave env op) (\<lambda>_.
           seq (move env (r_id op) Verifying (Some (''adoption '' @ verdict_name v))) (\<lambda>_.
           conclude_verified env op (''adoption '' @ verdict_name v)))))))"

definition reconcile_restart :: "env \<Rightarrow> op_row \<Rightarrow> (string list, string list) exec" where
  "reconcile_restart env op =
     seq (retire_or_defer env op) (\<lambda>_.
     seq (restored_or_leave env op) (\<lambda>_.
     seq (if r_state op \<noteq> Verifying then move env (r_id op) Verifying (Some ''reconciled'')
          else give ()) (\<lambda>_.
     conclude_verified env op (state_name (r_state op)))))"


section \<open>Reconciliation\<close>

definition reconcile_state :: "env \<Rightarrow> config \<Rightarrow> op_row \<Rightarrow> (string list, string list) exec" where
  "reconcile_state env cfg op =
     (case r_state op of
        PendingConfirmation \<Rightarrow> give []
      | Authorized \<Rightarrow> give []
      | DispatchPending \<Rightarrow> reconcile_dispatch env op
      | LeaseAcquired \<Rightarrow> reconcile_early env op
      | ClientStopping \<Rightarrow> reconcile_early env op
      | ContentRunning \<Rightarrow> reconcile_content env op
      | Interrupted \<Rightarrow> reconcile_interrupted env op
      | Adopting \<Rightarrow> reconcile_adopting env cfg op
      | ClientRestartPending \<Rightarrow> reconcile_restart env op
      | Verifying \<Rightarrow> reconcile_restart env op
      | _ \<Rightarrow> give [])"

definition get_active :: "env \<Rightarrow> ('r, op_row option) exec" where
  "get_active env = ledger_do env (\<lambda>now. reading active) (\<lambda>_ _. [])"

definition reconcile_locked :: "env \<Rightarrow> config \<Rightarrow> (string list, string list) exec" where
  "reconcile_locked env cfg =
     seq (get_active env) (\<lambda>first.
     if c_platform cfg = ''win32'' \<and>
        (case first of None \<Rightarrow> False | Some op \<Rightarrow> r_operation op \<in> {''install'', ''verify''})
     then give [action (r_id (the first)) ''Windows content recovery unqualified; deferred'']
     else seq (do_expire env) (\<lambda>_.
     seq (get_active env) (\<lambda>now_active.
     case now_active of None \<Rightarrow> give [] | Some op \<Rightarrow> reconcile_state env cfg op)))"

definition reconcile :: "env \<Rightarrow> config \<Rightarrow> world \<Rightarrow> (fault + string list) \<times> world" where
  "reconcile env cfg w = (case reconcile_locked env cfg w of (r, w') \<Rightarrow> (outcome_of r, w'))"

end
