(* ===== verification/Exec_Track.thy ===== *)
theory Exec_Track
  imports Reconcile
begin

text \<open>
  A proof calculus for the executor.  \<open>track i m Q E s p tr\<close>: from every world whose ledger is
  well formed and holds operation \<open>i\<close> in state \<open>s\<close> with recorded client state \<open>p\<close>, and whose
  trace is \<open>tr\<close>, the program \<open>m\<close> gives a value, a state and a trace in \<open>Q\<close>, or leaves early in
  \<open>E\<close>; the environment, the files and the clock are arbitrary.  One rule per primitive step;
  the rules follow the syntax of the program.
\<close>

named_theorems track_rules \<open>rules of the executor's proof calculus\<close>


section \<open>Operations in a ledger\<close>

definition at_state :: "nat \<Rightarrow> op_state \<Rightarrow> bool option \<Rightarrow> db \<Rightarrow> bool" where
  "at_state i s p d \<longleftrightarrow> ledger_wf d \<and> state_of d i = Some s \<and> prior_of i d = p"

lemma at_state_row:
  "at_state i s p d \<longleftrightarrow> ledger_wf d \<and>
     (\<exists>r \<in> set (db_operations d). r_id r = i \<and> r_state r = s \<and> r_prior_client_running r = p)"
proof (cases "ledger_wf d")
  case True
  have "prior_of (r_id r) d = r_prior_client_running r" if "r \<in> set (db_operations d)" for r
    using find_id [OF wf_distinct [OF True] that] by (simp add: prior_of_def)
  with True state_of_Some [OF True, of i s] show ?thesis
    unfolding at_state_def by metis
qed (simp add: at_state_def)

definition new_prior :: "bool option \<Rightarrow> bool option \<Rightarrow> bool option" where
  "new_prior prior p = (case prior of None \<Rightarrow> p | Some b \<Rightarrow> Some b)"

lemma new_prior_simps [simp]: "new_prior None p = p" "new_prior (Some b) p = Some b"
  by (simp_all add: new_prior_def)

lemma transition_at:
  assumes "at_state i s p d" "to \<in> set (transitions s)" "expected = None \<or> expected = Some s"
  shows "\<exists>d'. transition now i to detail prior expected d = (Inr (), d') \<and>
    at_state i to (new_prior prior p) d'"
proof -
  from assms(1) obtain r where wf: "ledger_wf d" and r: "r \<in> set (db_operations d)" "r_id r = i"
    "r_state r = s" "r_prior_client_running r = p"
    by (auto simp: at_state_row)
  let ?d = "moved_db now i s to detail prior d"
  have "transition now i to detail prior expected d = (Inr (), ?d)"
    using transition_wf [OF wf r(1), of now to detail prior expected] r assms(2,3) by auto
  moreover have "ledger_wf ?d"
    using ledger_wf_moved [OF wf r(1)] r assms(2) by simp
  moreover have "move_row now i s to detail prior r \<in> set (db_operations ?d)"
    using r(1) by (simp add: moved_db_def)
  moreover have "r_prior_client_running (move_row now i s to detail prior r) = new_prior prior p"
    using r by (simp add: move_row_def new_prior_def split: option.split)
  ultimately show ?thesis
    using r by (auto simp: at_state_row intro!: bexI [of _ "move_row now i s to detail prior r"])
qed

lemma expire_at:
  assumes "at_state i s p d"
  obtains ids d' s' where "expire_lapsed now d = (Inr ids, d')" "at_state i s' p d'"
    "s' = s \<or> s' = Expired \<and> s \<in> {PendingConfirmation, Authorized}"
proof -
  from assms obtain r where wf: "ledger_wf d" and r: "r \<in> set (db_operations d)" "r_id r = i"
    "r_state r = s" "r_prior_client_running r = p"
    by (auto simp: at_state_row)
  have "expire_row now r \<in> set (db_operations (expired_db now d))"
    using r(1) by simp
  moreover have "r_prior_client_running (expire_row now r) = p"
    using r(4) by (simp add: expire_row_def)
  ultimately have "at_state i (r_state (expire_row now r)) p (expired_db now d)"
    using ledger_wf_expired [OF wf] r(2) expire_row_simps(1) [of now r]
    by (auto simp: at_state_row simp del: expire_row_simps)
  moreover have "r_state (expire_row now r) = s \<or>
      r_state (expire_row now r) = Expired \<and> s \<in> {PendingConfirmation, Authorized}"
    using r(3) by (auto simp: lapsed_def)
  ultimately show thesis
    using that expire_lapsed_wf [OF wf] by blast
qed

lemma get_at:
  assumes "at_state i s p d"
  obtains r where "get_row i d = Inr r" "r_id r = i" "r_state r = s" "r_prior_client_running r = p"
    "r \<in> set (db_operations d)"
proof -
  from assms obtain r where "r \<in> set (db_operations d)" "r_id r = i" "r_state r = s"
    "r_prior_client_running r = p" "ledger_wf d"
    by (auto simp: at_state_row)
  with get_row_in [of d r] assms that [of r] show thesis by simp
qed


section \<open>The judgement\<close>

definition track ::
    "nat \<Rightarrow> ('r, 'a) exec \<Rightarrow> ('a \<Rightarrow> op_state \<Rightarrow> bool option \<Rightarrow> effect list \<Rightarrow> bool) \<Rightarrow>
       ('r exit \<Rightarrow> op_state \<Rightarrow> bool option \<Rightarrow> effect list \<Rightarrow> bool) \<Rightarrow>
       op_state \<Rightarrow> bool option \<Rightarrow> effect list \<Rightarrow> bool" where
  "track i m Q E s p tr \<longleftrightarrow>
     (\<forall>w. at_state i s p (w_db w) \<longrightarrow> w_trace w = tr \<longrightarrow>
        wp m (\<lambda>x w'. \<exists>s' p'. at_state i s' p' (w_db w') \<and> Q x s' p' (w_trace w'))
          (\<lambda>e w'. \<exists>s' p'. at_state i s' p' (w_db w') \<and> E e s' p' (w_trace w')) w)"

lemma trackD:
  "track i m Q E s p tr \<Longrightarrow> at_state i s p (w_db w) \<Longrightarrow> w_trace w = tr \<Longrightarrow>
     wp m (\<lambda>x w'. \<exists>s' p'. at_state i s' p' (w_db w') \<and> Q x s' p' (w_trace w'))
       (\<lambda>e w'. \<exists>s' p'. at_state i s' p' (w_db w') \<and> E e s' p' (w_trace w')) w"
  by (simp add: track_def)

lemma track_mono:
  assumes "track i m Q E s p tr"
    and "\<And>x s p tr. Q x s p tr \<Longrightarrow> Q' x s p tr" "\<And>e s p tr. E e s p tr \<Longrightarrow> E' e s p tr"
  shows "track i m Q' E' s p tr"
  unfolding track_def
proof (intro allI impI)
  fix w :: world
  assume "at_state i s p (w_db w)" "w_trace w = tr"
  from trackD [OF assms(1) this]
  show "wp m (\<lambda>x w'. \<exists>s' p'. at_state i s' p' (w_db w') \<and> Q' x s' p' (w_trace w'))
      (\<lambda>e w'. \<exists>s' p'. at_state i s' p' (w_db w') \<and> E' e s' p' (w_trace w')) w"
    by (rule wp_mono) (use assms(2,3) in blast)+
qed

lemma track_give [track_rules]: "Q x s p tr \<Longrightarrow> track i (give x) Q E s p tr"
  by (auto simp: track_def wp_rules)

lemma track_leave [track_rules]: "E (Returned r) s p tr \<Longrightarrow> track i (leave r) Q E s p tr"
  by (auto simp: track_def wp_rules leave_def)

lemma track_fault [track_rules]: "E (Raised f) s p tr \<Longrightarrow> track i (fault f) Q E s p tr"
  by (auto simp: track_def wp_rules fault_def)

lemma track_seq [track_rules]:
  "track i m (\<lambda>x. track i (f x) Q E) E s p tr \<Longrightarrow> track i (seq m f) Q E s p tr"
  unfolding track_def [of i "seq m f"] wp_seq
  by (auto dest!: trackD elim!: wp_mono)

lemma track_if [track_rules]:
  "(c \<Longrightarrow> track i m Q E s p tr) \<Longrightarrow> (\<not> c \<Longrightarrow> track i n Q E s p tr) \<Longrightarrow>
     track i (if c then m else n) Q E s p tr"
  by simp

lemma track_case_option [track_rules]:
  "(x = None \<Longrightarrow> track i m Q E s p tr) \<Longrightarrow> (\<And>y. x = Some y \<Longrightarrow> track i (f y) Q E s p tr) \<Longrightarrow>
     track i (case x of None \<Rightarrow> m | Some y \<Rightarrow> f y) Q E s p tr"
  by (cases x) simp_all

lemma track_case_bool [track_rules]:
  "(x \<Longrightarrow> track i m Q E s p tr) \<Longrightarrow> (\<not> x \<Longrightarrow> track i n Q E s p tr) \<Longrightarrow>
     track i (case x of True \<Rightarrow> m | False \<Rightarrow> n) Q E s p tr"
  by (cases x) simp_all

lemma track_case_sum [track_rules]:
  "(\<And>y. x = Inl y \<Longrightarrow> track i (f y) Q E s p tr) \<Longrightarrow> (\<And>y. x = Inr y \<Longrightarrow> track i (g y) Q E s p tr) \<Longrightarrow>
     track i (case x of Inl y \<Rightarrow> f y | Inr y \<Rightarrow> g y) Q E s p tr"
  by (cases x) simp_all

lemma track_case_prod [track_rules]:
  "(\<And>a b. x = (a, b) \<Longrightarrow> track i (f a b) Q E s p tr) \<Longrightarrow>
     track i (case x of (a, b) \<Rightarrow> f a b) Q E s p tr"
  by (cases x) simp

lemma track_let [track_rules]: "track i (f x) Q E s p tr \<Longrightarrow> track i (let y = x in f y) Q E s p tr"
  by simp


section \<open>Primitive steps\<close>

lemma track_observe:
  "(\<And>x. Q x s p (tr @ seen x)) \<Longrightarrow> track i (observe f seen) Q E s p tr"
  by (auto simp: track_def wp_def observe_def)

lemma track_emit [track_rules]: "Q () s p (tr @ [e]) \<Longrightarrow> track i (emit e) Q E s p tr"
  by (auto simp: track_def wp_def emit_def)

lemma track_files:
  "(\<And>x. Q x s p (tr @ seen x)) \<Longrightarrow> track i (files_do env f seen) Q E s p tr"
  by (auto simp: track_def wp_def files_do_def split: prod.split)

lemma track_observe_silent [track_rules]:
  "(\<And>x. Q x s p tr) \<Longrightarrow> track i (observe f (\<lambda>_. [])) Q E s p tr"
  by (rule track_observe) simp

lemma track_files_silent [track_rules]:
  "(\<And>x. Q x s p tr) \<Longrightarrow> track i (files_do env f (\<lambda>_. [])) Q E s p tr"
  by (rule track_files) simp

lemma track_files_marked [track_rules]:
  "(\<And>x. Q x s p (tr @ [Marked_target (\<not> x)])) \<Longrightarrow>
     track i (files_do env f (\<lambda>x. [Marked_target (\<not> x)])) Q E s p tr"
  by (rule track_files) simp

lemma track_observe_policy [track_rules]:
  "(\<And>x. Q x s p (tr @ [Saw_policy (x = Permits)])) \<Longrightarrow>
     track i (observe f (\<lambda>r. [Saw_policy (r = Permits)])) Q E s p tr"
  by (rule track_observe) simp

lemma track_see [track_rules]:
  "(\<And>g. Q1 g s p (tr @ [Saw_gates g])) \<Longrightarrow> track i (see_gates env) Q1 E s p tr"
  "(\<And>b. Q2 b s p (tr @ [Saw_client b])) \<Longrightarrow> track i (see_client env) Q2 E s p tr"
  "(\<And>x. Q3 x s p (tr @ [Saw_steamcmd x])) \<Longrightarrow> track i (see_steamcmd env) Q3 E s p tr"
  "(\<And>m. Q4 m s p (tr @ [Saw_mount m])) \<Longrightarrow> track i (see_mount env) Q4 E s p tr"
  "(\<And>f. Q5 f s p tr) \<Longrightarrow> track i (see_manifest env) Q5 E s p tr"
  "(\<And>b. Q2 b s p tr) \<Longrightarrow> track i (see_downloading env) Q2 E s p tr"
  "(\<And>f. Q5 f s p tr) \<Longrightarrow> track i (see_nested env) Q5 E s p tr"
  unfolding see_gates_def see_client_def see_steamcmd_def see_mount_def see_manifest_def
    see_downloading_def see_nested_def
  by (rule track_observe track_files; simp)+

lemma track_do [track_rules]:
  "(\<And>b. Q2 b s p (tr @ [Stopped_client b])) \<Longrightarrow> track i (do_stop env) Q2 E s p tr"
  "(\<And>b. Q2 b s p (tr @ [Started_client b])) \<Longrightarrow> track i (do_start env) Q2 E s p tr"
  "(\<And>b. Q2 b s p (tr @ [Launched appid b])) \<Longrightarrow> track i (do_launch env appid) Q2 E s p tr"
  "(\<And>r. Q6 r s p (tr @ [Adopted (r = Inr ())])) \<Longrightarrow> track i (do_adopt env cfg j appid name f) Q6 E s p tr"
  "(\<And>r. Q7 r s p (tr @ [Recovered])) \<Longrightarrow> track i (do_recover env cfg j appid) Q7 E s p tr"
  "(\<And>r. Q6 r s p tr) \<Longrightarrow> track i (do_retire env) Q6 E s p tr"
  unfolding do_stop_def do_start_def do_launch_def do_adopt_def do_recover_def do_retire_def
  by (rule track_observe track_files; simp)+

lemma track_reading:
  assumes "\<And>now d. at_state i s p d \<Longrightarrow> \<exists>x. f now d = Inr x \<and> Q x s p (tr @ seen x d)"
  shows "track i (ledger_do env (\<lambda>now. reading (f now)) seen) Q E s p tr"
  unfolding track_def
proof (intro allI impI)
  fix w :: world
  assume at: "at_state i s p (w_db w)" "w_trace w = tr"
  from assms [OF at(1), of "e_now env (w_tick w)"] at
  show "wp (ledger_do env (\<lambda>now. reading (f now)) seen)
      (\<lambda>x w'. \<exists>s' p'. at_state i s' p' (w_db w') \<and> Q x s' p' (w_trace w'))
      (\<lambda>e w'. \<exists>s' p'. at_state i s' p' (w_db w') \<and> E e s' p' (w_trace w')) w"
    by (auto simp: wp_def ledger_do_def reading_def intro!: exI [of _ s] exI [of _ p])
qed

lemma track_get [track_rules]:
  assumes "\<And>r. r_id r = i \<Longrightarrow> r_state r = s \<Longrightarrow> r_prior_client_running r = p \<Longrightarrow> Q r s p tr"
  shows "track i (get_operation env i) Q E s p tr"
  unfolding get_operation_def
proof (rule track_reading)
  fix d
  assume "at_state i s p d"
  then obtain r where "get_row i d = Inr r" "r_id r = i" "r_state r = s" "r_prior_client_running r = p"
    by (rule get_at)
  with assms show "\<exists>x. get_row i d = Inr x \<and> Q x s p (tr @ [])" by simp
qed

lemma window_valid_at: "at_state i s p d \<Longrightarrow> \<exists>b. window_valid now i d = Inr b"
  by (auto simp: window_valid_def elim!: get_at)

lemma track_window [track_rules]:
  assumes "\<And>b. Q b s p (tr @ [Saw_window b])"
  shows "track i (see_window env i) Q E s p tr"
  unfolding see_window_def by (rule track_reading) (use assms window_valid_at in blast)

lemma plan_document_at: "at_state i s p d \<Longrightarrow> \<exists>x. plan_document f i d = Inr x"
proof -
  assume "at_state i s p d"
  then obtain r where r: "r \<in> set (db_operations d)" "r_id r = i" and "ledger_wf d"
    by (auto simp: at_state_row)
  with find_id [OF wf_distinct r(1)] show ?thesis
    by (simp add: plan_document_def)
qed

lemma track_plan [track_rules]:
  assumes "\<And>x. Q x s p tr"
  shows "track i (ledger_do env (\<lambda>now. reading (plan_document f i)) (\<lambda>_ _. [])) Q E s p tr"
  by (rule track_reading) (use assms plan_document_at in auto)

lemma track_expire [track_rules]:
  assumes "\<And>x s'. s' = s \<or> s' = Expired \<and> s \<in> {PendingConfirmation, Authorized} \<Longrightarrow> Q x s' p tr"
  shows "track i (do_expire env) Q E s p tr"
  unfolding track_def
proof (intro allI impI)
  fix w :: world
  assume "at_state i s p (w_db w)" "w_trace w = tr"
  then show "wp (do_expire env) (\<lambda>x w'. \<exists>s' p'. at_state i s' p' (w_db w') \<and> Q x s' p' (w_trace w'))
      (\<lambda>e w'. \<exists>s' p'. at_state i s' p' (w_db w') \<and> E e s' p' (w_trace w')) w"
    using assms
    by (cases rule: expire_at [of i s p "w_db w" "e_now env (w_tick w)"])
       (auto simp: wp_def do_expire_def ledger_do_def)
qed

lemma track_move [track_rules]:
  assumes "to \<in> set (transitions s)" "expected = None \<or> expected = Some s"
    and "Q () to (new_prior prior p) (tr @ [Moved to (new_prior prior p)])"
  shows "track i (move_from env i to detail prior expected) Q E s p tr"
  unfolding track_def
proof (intro allI impI)
  fix w :: world
  assume "at_state i s p (w_db w)" "w_trace w = tr"
  moreover from transition_at [OF this(1) assms(1,2), of "e_now env (w_tick w)" detail prior]
  obtain d' where "transition (e_now env (w_tick w)) i to detail prior expected (w_db w) = (Inr (), d')"
    "at_state i to (new_prior prior p) d'" by blast
  ultimately show "wp (move_from env i to detail prior expected)
      (\<lambda>x w'. \<exists>s' p'. at_state i s' p' (w_db w') \<and> Q x s' p' (w_trace w'))
      (\<lambda>e w'. \<exists>s' p'. at_state i s' p' (w_db w') \<and> E e s' p' (w_trace w')) w"
    using assms(3) by (auto simp: wp_def move_from_def ledger_do_def at_state_def)
qed

text \<open>The window read inside the abort check, whose exception is caught.\<close>

lemma track_window_caught [track_rules]:
  assumes "\<And>b. Q (Some b) s p (tr @ [Saw_window b])"
  shows "track i (\<lambda>w. case see_window env i w of
            (Inl (Raised (Ledger_fault e)), w') \<Rightarrow> (Inr None, w')
          | (Inl s, w') \<Rightarrow> (Inl s, w')
          | (Inr b, w') \<Rightarrow> (Inr (Some b), w')) Q E s p tr"
  unfolding track_def
proof (intro allI impI)
  fix w :: world
  assume at: "at_state i s p (w_db w)" "w_trace w = tr"
  with assms window_valid_at [OF at(1), of "e_now env (w_tick w)"]
  show "wp (\<lambda>w. case see_window env i w of
            (Inl (Raised (Ledger_fault e)), w') \<Rightarrow> (Inr None, w')
          | (Inl s, w') \<Rightarrow> (Inl s, w')
          | (Inr b, w') \<Rightarrow> (Inr (Some b), w'))
      (\<lambda>x w'. \<exists>s' p'. at_state i s' p' (w_db w') \<and> Q x s' p' (w_trace w'))
      (\<lambda>e w'. \<exists>s' p'. at_state i s' p' (w_db w') \<and> E e s' p' (w_trace w')) w"
    by (auto simp: wp_def see_window_def ledger_do_def reading_def intro!: exI [of _ s] exI [of _ p])
qed

end
