(* ===== verification/Exec_Safety.thy ===== *)
theory Exec_Safety
  imports Exec_Track
begin

text \<open>
  What the executor may do, and when.  \<open>allowed\<close> gives for each effect the observations that
  must be the latest of their kind when it happens; \<open>guarded\<close> says that every effect of a
  trace was allowed by the trace before it.  Each phase of the executor is then shown to add
  only allowed effects, to make only moves the transition table has, and to establish what
  the next phase needs.
\<close>


section \<open>Reading a trace\<close>

fun latest :: "(effect \<Rightarrow> 'a option) \<Rightarrow> effect list \<Rightarrow> 'a option" where
  "latest f [] = None"
| "latest f (e # es) = (case latest f es of None \<Rightarrow> f e | Some x \<Rightarrow> Some x)"

lemma latest_append [simp]:
  "latest f (tr @ es) = (case latest f es of None \<Rightarrow> latest f tr | Some x \<Rightarrow> Some x)"
  by (induction tr) (auto split: option.split)

fun gates_of :: "effect \<Rightarrow> lease_gates option" where
  "gates_of (Saw_gates g) = Some g" | "gates_of _ = None"

fun policy_of :: "effect \<Rightarrow> bool option" where
  "policy_of (Saw_policy b) = Some b" | "policy_of _ = None"

fun window_of :: "effect \<Rightarrow> bool option" where
  "window_of (Saw_window b) = Some b" | "window_of _ = None"

fun client_of :: "effect \<Rightarrow> bool option" where
  "client_of (Saw_client b) = Some b" | "client_of _ = None"

fun writer_of :: "effect \<Rightarrow> bool option option" where
  "writer_of (Saw_steamcmd x) = Some x" | "writer_of _ = None"

fun mount_of :: "effect \<Rightarrow> (int \<times> int) option option" where
  "mount_of (Saw_mount m) = Some m" | "mount_of _ = None"

fun moved_of :: "effect \<Rightarrow> op_state option" where
  "moved_of (Moved t p) = Some t" | "moved_of _ = None"

fun marked_of :: "effect \<Rightarrow> bool option" where
  "marked_of (Marked_target b) = Some b" | "marked_of _ = None"

text \<open>Whether the client was last started with success, or stopped.\<close>

fun up_of :: "effect \<Rightarrow> bool option" where
  "up_of (Started_client b) = Some b" | "up_of (Stopped_client b) = Some False" | "up_of _ = None"

fun is_launch :: "effect \<Rightarrow> bool" where
  "is_launch (Launched a b) = True" | "is_launch _ = False"

fun is_run :: "effect \<Rightarrow> bool" where
  "is_run (Ran_content a) = True" | "is_run _ = False"

definition lease_clear :: "effect list \<Rightarrow> bool" where
  "lease_clear tr \<longleftrightarrow> (case latest gates_of tr of None \<Rightarrow> False | Some g \<Rightarrow> all_clear g)"

definition client_gone :: "effect list \<Rightarrow> bool" where
  "client_gone tr \<longleftrightarrow>
     (case latest gates_of tr of None \<Rightarrow> False | Some g \<Rightarrow> g_client_running g = Pass)"

definition policy_ok :: "config \<Rightarrow> effect list \<Rightarrow> bool" where
  "policy_ok cfg tr \<longleftrightarrow> (c_dispatch_policy cfg \<longrightarrow> latest policy_of tr = Some True)"

definition writer_gone :: "effect list \<Rightarrow> bool" where
  "writer_gone tr \<longleftrightarrow> latest writer_of tr = Some (Some False)"

definition client_back :: "bool option \<Rightarrow> effect list \<Rightarrow> bool" where
  "client_back p tr \<longleftrightarrow> (p = Some True \<longrightarrow> latest up_of tr = Some True)"


section \<open>What is allowed\<close>

definition launch_ready :: "config \<Rightarrow> effect list \<Rightarrow> bool" where
  "launch_ready cfg tr \<longleftrightarrow>
     latest moved_of tr = Some DispatchPending \<and> \<not> list_ex is_launch tr \<and>
     (case latest gates_of tr of
        None \<Rightarrow> False | Some g \<Rightarrow> \<not> busy g \<and> g_client_running g = Fail) \<and>
     latest window_of tr = Some True \<and> policy_ok cfg tr"

definition run_ready :: "config \<Rightarrow> effect list \<Rightarrow> bool" where
  "run_ready cfg tr \<longleftrightarrow>
     latest moved_of tr = Some ContentRunning \<and> lease_clear tr \<and> client_gone tr \<and> writer_gone tr \<and>
     latest window_of tr = Some True \<and> latest mount_of tr \<noteq> None \<and> latest mount_of tr \<noteq> Some None \<and>
     latest marked_of tr = Some True \<and> policy_ok cfg tr"

definition adopt_ready :: "config \<Rightarrow> effect list \<Rightarrow> bool" where
  "adopt_ready cfg tr \<longleftrightarrow>
     latest moved_of tr = Some Adopting \<and> list_ex is_run tr \<and> lease_clear tr \<and>
     latest client_of tr = Some False \<and> latest window_of tr = Some True \<and> policy_ok cfg tr"

text \<open>\<open>content\<close> is true for the operations that stop the client.\<close>

definition allowed :: "config \<Rightarrow> bool \<Rightarrow> effect list \<Rightarrow> effect \<Rightarrow> bool" where
  "allowed cfg content tr e =
     (case e of
        Stopped_client b \<Rightarrow> lease_clear tr \<and> policy_ok cfg tr
      | Ran_content a \<Rightarrow> run_ready cfg tr
      | Adopted b \<Rightarrow> adopt_ready cfg tr
      | Launched a b \<Rightarrow> launch_ready cfg tr
      | Moved t p \<Rightarrow> content \<longrightarrow> terminal t \<longrightarrow> writer_gone tr \<and> client_back p tr
      | _ \<Rightarrow> True)"

fun guarded_from :: "(effect list \<Rightarrow> effect \<Rightarrow> bool) \<Rightarrow> effect list \<Rightarrow> effect list \<Rightarrow> bool" where
  "guarded_from P pre [] \<longleftrightarrow> True"
| "guarded_from P pre (e # es) \<longleftrightarrow> P pre e \<and> guarded_from P (pre @ [e]) es"

definition guarded :: "(effect list \<Rightarrow> effect \<Rightarrow> bool) \<Rightarrow> effect list \<Rightarrow> bool" where
  "guarded P tr = guarded_from P [] tr"

lemma guarded_from_append:
  "guarded_from P pre (tr @ es) \<longleftrightarrow> guarded_from P pre tr \<and> guarded_from P (pre @ tr) es"
  by (induction P pre tr rule: guarded_from.induct) auto

lemma guarded_Nil [simp]: "guarded P []"
  by (simp add: guarded_def)

lemma guarded_append [simp]:
  "guarded P (tr @ es) \<longleftrightarrow> guarded P tr \<and> guarded_from P tr es"
  by (simp add: guarded_def guarded_from_append)

lemma guardedD: "guarded P (pre @ e # post) \<Longrightarrow> P pre e"
  by simp

lemma allowed_simps [simp]:
  "allowed cfg c tr (Saw_gates g)" "allowed cfg c tr (Saw_policy b)" "allowed cfg c tr (Saw_window b)"
  "allowed cfg c tr (Saw_client b)" "allowed cfg c tr (Saw_steamcmd x)" "allowed cfg c tr (Saw_mount m)"
  "allowed cfg c tr (Started_client b)" "allowed cfg c tr (Marked_target b)" "allowed cfg c tr Recovered"
  "allowed cfg c tr (Stopped_client b) \<longleftrightarrow> lease_clear tr \<and> policy_ok cfg tr"
  "allowed cfg c tr (Ran_content a) \<longleftrightarrow> run_ready cfg tr"
  "allowed cfg c tr (Adopted b) \<longleftrightarrow> adopt_ready cfg tr"
  "allowed cfg c tr (Launched a b) \<longleftrightarrow> launch_ready cfg tr"
  "allowed cfg c tr (Moved t p) \<longleftrightarrow> (c \<longrightarrow> terminal t \<longrightarrow> writer_gone tr \<and> client_back p tr)"
  by (simp_all add: allowed_def)

text \<open>The predicates after one more effect.\<close>

lemmas trace_defs = lease_clear_def client_gone_def policy_ok_def writer_gone_def client_back_def

lemma terminal_simps [simp]:
  "\<not> terminal PendingConfirmation" "\<not> terminal Authorized" "\<not> terminal DispatchPending"
  "\<not> terminal LeaseAcquired" "\<not> terminal ClientStopping" "\<not> terminal ContentRunning"
  "\<not> terminal Adopting" "\<not> terminal ClientRestartPending" "\<not> terminal Verifying"
  "\<not> terminal Interrupted"
  "terminal Confirmed" "terminal Unconfirmed" "terminal Contradicted" "terminal Aborted"
  "terminal Failed" "terminal Dispatched"
  by (simp_all add: terminal_states_def)


section \<open>How a run may end\<close>

text \<open>What a report says of the state the row is left in.\<close>

fun agrees :: "outcome \<Rightarrow> op_state \<Rightarrow> bool" where
  "agrees Out_confirmed s \<longleftrightarrow> s = Confirmed"
| "agrees Out_unconfirmed s \<longleftrightarrow> s = Unconfirmed"
| "agrees Out_contradicted s \<longleftrightarrow> s = Contradicted"
| "agrees Out_failed s \<longleftrightarrow> s = Failed"
| "agrees Out_auth_required s \<longleftrightarrow> s = Failed"
| "agrees Out_dispatched s \<longleftrightarrow> s = Dispatched"
| "agrees Out_deferred s \<longleftrightarrow> \<not> terminal s"
| "agrees Out_aborted s \<longleftrightarrow> True"

lemma rp_outcome_report [simp]: "rp_outcome (report i out d) = out"
  by (simp add: report_def)

lemma transitions_not_terminal: "to \<in> set (transitions s) \<Longrightarrow> \<not> terminal s"
  by (cases s) (simp_all add: terminal_states_def)

definition exit_ok :: "config \<Rightarrow> bool \<Rightarrow> report exit \<Rightarrow> op_state \<Rightarrow> bool option \<Rightarrow> effect list \<Rightarrow> bool" where
  "exit_ok cfg c e s p tr \<longleftrightarrow> guarded (allowed cfg c) tr \<and> (\<forall>l. e \<noteq> Raised (Ledger_fault l)) \<and>
     (\<forall>r. e = Returned r \<longrightarrow> agrees (rp_outcome r) s)"

lemma exit_ok_simps [simp]:
  "exit_ok cfg c (Returned r) s p tr \<longleftrightarrow> guarded (allowed cfg c) tr \<and> agrees (rp_outcome r) s"
  "exit_ok cfg c (Raised Probe_fault) s p tr = guarded (allowed cfg c) tr"
  "exit_ok cfg c (Raised No_fuel) s p tr = guarded (allowed cfg c) tr"
  by (simp_all add: exit_ok_def)


section \<open>Restoration and failure\<close>

text \<open>Restoring the client: nothing but a probe and a start is added.\<close>

lemma track_restore_gen:
  assumes "guarded P tr" "\<And>tr x. P tr (Saw_steamcmd x)" "\<And>tr b. P tr (Started_client b)"
    and "\<And>tr'. guarded P tr' \<Longrightarrow> list_ex is_launch tr' = list_ex is_launch tr \<Longrightarrow> Q False s p tr'"
    and "\<And>tr'. guarded P tr' \<Longrightarrow> list_ex is_launch tr' = list_ex is_launch tr \<Longrightarrow>
      writer_gone tr' \<Longrightarrow> client_back prior tr' \<Longrightarrow> Q True s p tr'"
  shows "track i (restore_client env prior) Q E s p tr"
  unfolding restore_client_def
proof (intro track_seq track_see track_if track_give track_do)
  fix x
  assume "x \<noteq> Some False"
  with assms(1,2) show "Q False s p (tr @ [Saw_steamcmd x])"
    by (intro assms(4)) simp_all
next
  fix x
  assume "\<not> x \<noteq> Some False" "prior \<noteq> Some True"
  with assms(1,2) show "Q True s p (tr @ [Saw_steamcmd x])"
    by (intro assms(5)) (simp_all add: trace_defs)
next
  fix x b
  assume "\<not> x \<noteq> Some False"
  with assms show "Q b s p ((tr @ [Saw_steamcmd x]) @ [Started_client b])"
    by (cases b) (simp_all add: trace_defs)
qed

lemma track_restore:
  assumes "guarded (allowed cfg c) tr"
    and "\<And>tr'. guarded (allowed cfg c) tr' \<Longrightarrow> list_ex is_launch tr' = list_ex is_launch tr \<Longrightarrow>
      Q False s p tr'"
    and "\<And>tr'. guarded (allowed cfg c) tr' \<Longrightarrow> list_ex is_launch tr' = list_ex is_launch tr \<Longrightarrow>
      writer_gone tr' \<Longrightarrow> client_back prior tr' \<Longrightarrow> Q True s p tr'"
  shows "track i (restore_client env prior) Q E s p tr"
  by (rule track_restore_gen [of "allowed cfg c"]) (simp_all add: assms)

lemma track_finish_failure:
  assumes "guarded (allowed cfg c) tr" "to \<in> set (transitions s)" "prior = Some True \<longleftrightarrow> p = Some True"
    and "agrees out to"
    and "\<And>r s' p' tr'. guarded (allowed cfg c) tr' \<Longrightarrow> agrees (rp_outcome r) s' \<Longrightarrow> Q r s' p' tr'"
  shows "track i (finish_failure env i prior detail message out to) Q E s p tr"
  unfolding finish_failure_def
  using assms transitions_not_terminal [OF assms(2)]
  by (intro track_seq track_restore [where cfg = cfg and c = c] track_if track_give track_move)
     (simp_all add: client_back_def)

lemma track_fail_leave:
  assumes "guarded (allowed cfg c) tr" "Failed \<in> set (transitions s)" "prior = Some True \<longleftrightarrow> p = Some True"
  shows "track i (fail_leave env i prior detail message) Q (exit_ok cfg c) s p tr"
  unfolding fail_leave_def fail_with_def
  using assms by (intro track_seq track_finish_failure [where cfg = cfg and c = c] track_leave) simp_all

lemma track_abort_leave:
  assumes "guarded (allowed cfg c) tr" "Aborted \<in> set (transitions s)" "prior = Some True \<longleftrightarrow> p = Some True"
  shows "track i (abort_leave env i prior detail message) Q (exit_ok cfg c) s p tr"
  unfolding abort_leave_def abort_with_def
  using assms by (intro track_seq track_finish_failure [where cfg = cfg and c = c] track_leave) simp_all

lemma track_deferred [track_rules]:
  "guarded (allowed cfg c) tr \<Longrightarrow> \<not> terminal s \<Longrightarrow> track i (deferred j d) Q (exit_ok cfg c) s p tr"
  by (simp add: deferred_def track_leave)

lemma track_aborted [track_rules]:
  "guarded (allowed cfg c) tr \<Longrightarrow> track i (aborted j d) Q (exit_ok cfg c) s p tr"
  by (simp add: aborted_def track_leave)

text \<open>
  Reading the policy: a denial takes the given way out.  The trace afterwards shows a permitted
  policy, and nothing else has changed in it.
\<close>

abbreviation same_but_policy :: "effect list \<Rightarrow> effect list \<Rightarrow> bool" where
  "same_but_policy tr tr' \<equiv>
     latest gates_of tr' = latest gates_of tr \<and> latest window_of tr' = latest window_of tr \<and>
     latest client_of tr' = latest client_of tr \<and> latest writer_of tr' = latest writer_of tr \<and>
     latest mount_of tr' = latest mount_of tr \<and> latest moved_of tr' = latest moved_of tr \<and>
     latest marked_of tr' = latest marked_of tr \<and> latest up_of tr' = latest up_of tr \<and>
     list_ex is_run tr' = list_ex is_run tr \<and> list_ex is_launch tr' = list_ex is_launch tr"

lemma track_unless_denied:
  assumes "guarded (allowed cfg c) tr"
    and "\<And>tr'. guarded (allowed cfg c) tr' \<Longrightarrow> same_but_policy tr tr' \<Longrightarrow> policy_ok cfg tr' \<Longrightarrow> Q () s p tr'"
    and "\<And>d. track i (stopping d) Q E s p (tr @ [Saw_policy False])"
  shows "track i (unless_denied env cfg op stopping) Q E s p tr"
  unfolding unless_denied_def content_policy_denial_def
proof (intro track_seq track_if track_give track_case_option track_observe)
  assume "\<not> c_dispatch_policy cfg"
  with assms(1) show "Q () s p tr"
    by (intro assms(2)) (simp_all add: policy_ok_def)
next
  fix x :: "string option"
  assume "x = None"
  with assms(1) show "Q () s p (tr @ [Saw_policy (x = None)])"
    by (intro assms(2)) (simp_all add: policy_ok_def)
next
  fix x :: "string option" and d
  assume "x = Some d"
  with assms(3) show "track i (stopping d) Q E s p (tr @ [Saw_policy (x = None)])" by simp
qed simp_all


section \<open>Launch\<close>

lemma track_require_window:
  assumes "guarded (allowed cfg c) tr" "Q () s p (tr @ [Saw_window True])"
  shows "track i (require_window env i msg) Q (exit_ok cfg c) s p tr"
  unfolding require_window_def using assms
  by (intro track_seq track_window track_if track_give track_expire track_aborted) simp_all

lemma track_launch_probe:
  assumes "guarded (allowed cfg c) tr" "\<not> list_ex is_launch tr"
    and "\<And>tr' g. guarded (allowed cfg c) tr' \<Longrightarrow> \<not> list_ex is_launch tr' \<Longrightarrow>
      (case latest gates_of tr' of None \<Rightarrow> False | Some g \<Rightarrow> \<not> busy g \<and> g_client_running g = Fail) \<Longrightarrow>
      Q () s p tr'"
    and live: "\<not> terminal s"
  shows "track i (launch_probe env i) Q (exit_ok cfg c) s p tr"
  unfolding launch_probe_def
  by (insert assms(1,2) live, intro track_seq track_see track_if track_give track_do track_deferred;
      (rule assms(3))?; simp)

lemma track_launch_policy:
  assumes "guarded (allowed cfg False) tr" "r_id op = i" "s = Authorized"
    and "\<And>tr'. guarded (allowed cfg False) tr' \<Longrightarrow> same_but_policy tr tr' \<Longrightarrow> policy_ok cfg tr' \<Longrightarrow> Q () s p tr'"
  shows "track i (launch_policy env cfg op) Q (exit_ok cfg False) s p tr"
proof (cases "c_dispatch_policy cfg")
  case False
  with assms(1,4) show ?thesis
    by (simp add: launch_policy_def track_give policy_ok_def)
next
  case True
  have "track i (case reply of Permits \<Rightarrow> give ()
        | Policy_raises \<Rightarrow> fault Probe_fault
        | Denies denial \<Rightarrow>
            seq (move_from env (r_id op) Aborted (Some denial) None (Some Authorized)) (\<lambda>_.
            aborted (r_id op) denial)) Q (exit_ok cfg False) s p (tr @ [Saw_policy (reply = Permits)])"
    for reply
    unfolding assms(2)
    using assms(1,3) assms(4) [of "tr @ [Saw_policy True]"]
    by (cases reply) (auto simp: policy_ok_def intro!: track_give track_fault track_seq track_move track_aborted)
  with True show ?thesis
    by (simp add: launch_policy_def track_seq track_observe_policy)
qed

lemma track_launch:
  assumes "guarded (allowed cfg False) tr" "\<not> list_ex is_launch tr"
    and "r_id op = i" "r_state op = s"
  shows "track i (launch env cfg i op) Q (exit_ok cfg False) s p tr"
  unfolding launch_def
  using assms
  by (intro track_if track_aborted track_seq track_require_window [where c = False and cfg = cfg]
      track_launch_probe [where c = False and cfg = cfg] track_launch_policy [where cfg = cfg]
      track_move track_do track_leave; simp add: launch_ready_def policy_ok_def)


section \<open>Content: up to the lease\<close>

lemmas track_ways_out = track_fail_leave track_abort_leave track_deferred track_aborted track_leave track_fault

lemma track_defer_denied:
  assumes "guarded (allowed cfg c) tr"
    and live: "\<not> terminal s"
  shows "track i (defer_denied env op d) Q (exit_ok cfg c) s p tr"
proof -
  have "track i (defer_content_policy env op d) 
      (\<lambda>r s p tr. guarded (allowed cfg c) tr \<and> agrees (rp_outcome r) s) (exit_ok cfg c) s p tr"
    unfolding defer_content_policy_def Let_def using assms live
    by (intro track_if track_seq track_see track_case_option track_case_bool track_give track_fault
        track_restore [where cfg = cfg and c = c]) simp_all
  then show ?thesis
    unfolding defer_denied_def by (rule track_seq [OF track_mono]) (simp_all add: track_leave)
qed

lemma track_enter_window:
  assumes "guarded (allowed cfg c) tr" "r_prior_client_running op = p" "r_state op = s"
    and "Q () s p (tr @ [Saw_window True])"
    and live: "\<not> terminal s"
  shows "track i (enter_window env i op) Q (exit_ok cfg c) s p tr"
  unfolding enter_window_def resuming_def using assms live
  by (intro track_seq track_window track_if track_give track_expire
      track_restore [where cfg = cfg and c = c] track_deferred track_move track_aborted)
     (auto simp: client_back_def)

lemma track_enter:
  assumes "guarded (allowed cfg True) tr" "r_prior_client_running op = p" "r_state op = s"
    and "r_operation op \<noteq> ''launch''"
    and "\<And>tr'. guarded (allowed cfg True) tr' \<Longrightarrow> s \<in> {Authorized, Interrupted} \<Longrightarrow> Q () s p tr'"
  shows "track i (enter env cfg i op) Q (exit_ok cfg True) s p tr"
  unfolding enter_def if_not_P [OF assms(4)]
  using assms(1-3)
  by (intro track_if track_aborted track_deferred track_seq track_unless_denied [where c = True]
      track_defer_denied track_enter_window assms(5)) (auto simp: assms(5))

lemma track_enter_library:
  assumes "guarded (allowed cfg c) tr"
    and "\<And>m tr'. guarded (allowed cfg c) tr' \<Longrightarrow> m \<noteq> None \<Longrightarrow> Q m s p tr'"
    and live: "\<not> terminal s"
  shows "track i (enter_library env i) Q (exit_ok cfg c) s p tr"
  unfolding enter_library_def
  by (insert assms(1) live, intro track_seq track_see track_if track_deferred track_give; (rule assms(2))?; simp)

lemma track_run_intake:
  assumes "guarded (allowed cfg c) tr" "r_prior_client_running op = p" "s \<in> {Authorized, Interrupted}"
    and "\<And>name. Q name s p tr"
  shows "track i (run_intake env cfg i op) Q (exit_ok cfg c) s p tr"
  unfolding run_intake_def abort_intake_def abort_with_def
  using assms
  by (intro track_seq track_plan track_observe_silent track_case_sum track_case_prod track_give
      track_finish_failure [where cfg = cfg and c = c] track_leave) auto

lemma track_take_lease:
  assumes "guarded (allowed cfg c) tr"
    and "\<And>g tr'. guarded (allowed cfg c) tr' \<Longrightarrow> lease_clear tr' \<Longrightarrow> writer_gone tr' \<Longrightarrow> Q g s p tr'"
    and live: "\<not> terminal s"
  shows "track i (take_lease env i) Q (exit_ok cfg c) s p tr"
  unfolding take_lease_def
  by (insert assms(1) live, intro track_seq track_see track_case_option track_case_bool track_if
      track_deferred track_fault track_give; (rule assms(2))?; simp add: trace_defs)


section \<open>Content: stopping the client\<close>

lemma track_stop_for_resume:
  assumes "guarded (allowed cfg c) tr" "lease_clear tr" "writer_gone tr"
    and "r_prior_client_running op = p"
    and "\<And>tr'. guarded (allowed cfg c) tr' \<Longrightarrow> writer_gone tr' \<Longrightarrow> Q (p = Some True) s p tr'"
    and live: "\<not> terminal s"
  shows "track i (stop_for_resume env cfg i op) Q (exit_ok cfg c) s p tr"
  unfolding stop_for_resume_def
  by (insert assms(1-4) live, intro track_let track_seq track_see track_unless_denied [where c = c]
      track_defer_denied track_if track_do track_give track_restore [where cfg = cfg and c = c]
      track_deferred; (simp only: assms(4))?; (rule assms(5))?; simp add: trace_defs)

lemma track_stop_fresh:
  assumes "guarded (allowed cfg c) tr" "lease_clear tr" "writer_gone tr" "s = Authorized"
    and "\<And>prior tr'. guarded (allowed cfg c) tr' \<Longrightarrow> writer_gone tr' \<Longrightarrow>
      Q prior ClientStopping (Some prior) tr'"
  shows "track i (stop_fresh env cfg i op g) Q (exit_ok cfg c) s p tr"
  unfolding stop_fresh_def
  by (insert assms(1-4), intro track_let track_seq track_unless_denied [where c = c]
      track_defer_denied track_if track_do track_give track_move track_abort_leave
      track_deferred; (simp only: new_prior_simps, rule assms(5))?; simp add: trace_defs)

lemma track_stop_phase:
  assumes "guarded (allowed cfg c) tr" "lease_clear tr" "writer_gone tr"
    and "r_prior_client_running op = p" "r_state op = s" "s \<in> {Authorized, Interrupted}"
    and "\<And>prior s' p' tr'. guarded (allowed cfg c) tr' \<Longrightarrow> writer_gone tr' \<Longrightarrow>
      s' \<in> {ClientStopping, Interrupted} \<Longrightarrow> (prior \<longleftrightarrow> p' = Some True) \<Longrightarrow> Q prior s' p' tr'"
  shows "track i (stop_phase env cfg i op g) Q (exit_ok cfg c) s p tr"
  unfolding stop_phase_def resuming_def
  by (insert assms(1-6), intro track_if track_stop_for_resume track_stop_fresh;
      (rule assms(7))?; auto)

text \<open>What holds when the state has just moved to \<open>content_running\<close>.\<close>

definition content_started :: "effect list \<Rightarrow> bool" where
  "content_started tr \<longleftrightarrow>
     latest moved_of tr = Some ContentRunning \<and> lease_clear tr \<and> client_gone tr \<and> writer_gone tr \<and>
     latest window_of tr = Some True \<and> latest mount_of tr \<noteq> None \<and> latest mount_of tr \<noteq> Some None"

lemma track_recheck:
  assumes "guarded (allowed cfg c) tr" "writer_gone tr" "s \<in> {ClientStopping, Interrupted}"
    and "prior \<longleftrightarrow> p = Some True" "mount \<noteq> None"
    and "\<And>tr'. guarded (allowed cfg c) tr' \<Longrightarrow> content_started tr' \<Longrightarrow> Q () ContentRunning p tr'"
  shows "track i (recheck env cfg i op prior mount) Q (exit_ok cfg c) s p tr"
  unfolding recheck_def
  by (insert assms(1-5), intro track_seq track_see track_if track_window track_abort_leave
      track_unless_denied [where c = c] track_move;
      (simp only: new_prior_simps, rule assms(6))?; auto simp: trace_defs content_started_def)


section \<open>Content: the run\<close>

lemma track_abort_content:
  assumes "guarded (allowed cfg c) tr" "list_ex is_run tr" "r_id op = i"
    and "\<And>x tr'. guarded (allowed cfg c) tr' \<Longrightarrow> list_ex is_run tr' \<Longrightarrow> Q x s p tr'"
  shows "track i (abort_content env cfg op mount latch) Q E s p tr"
  unfolding abort_content_def content_policy_denial_def assms(3)
  by (insert assms(1,2), intro track_let track_seq track_if track_give track_observe track_see
      track_window_caught track_case_option track_case_bool; (rule assms(4))?; simp)

lemma track_content_polls:
  assumes "\<And>latch tr Q. guarded (allowed cfg c) tr \<Longrightarrow> list_ex is_run tr \<Longrightarrow>
      (\<And>x tr'. guarded (allowed cfg c) tr' \<Longrightarrow> list_ex is_run tr' \<Longrightarrow> Q x s p tr') \<Longrightarrow>
      track i (check latch) Q (exit_ok cfg c) s p tr"
    and "\<And>x tr'. guarded (allowed cfg c) tr' \<Longrightarrow> list_ex is_run tr' \<Longrightarrow> Q x s p tr'"
  shows "guarded (allowed cfg c) tr \<Longrightarrow> list_ex is_run tr \<Longrightarrow>
    track i (content_polls check lost polls latch) Q (exit_ok cfg c) s p tr"
proof (induction polls arbitrary: latch tr)
  case Nil
  then show ?case
    by (simp add: track_fault)
next
  case (Cons poll polls)
  obtain remaining ended where "poll = (remaining, ended)" by (cases poll)
  with Cons show ?case
    by (auto intro!: track_if track_give track_seq assms track_case_option track_case_bool)
qed

lemma track_content_install:
  assumes "guarded (allowed cfg c) tr" "run_ready cfg tr" "r_id op = i"
    and "\<And>x tr'. guarded (allowed cfg c) tr' \<Longrightarrow> list_ex is_run tr' \<Longrightarrow> Q x s p tr'"
  shows "track i (content_install env cfg op mount) Q (exit_ok cfg c) s p tr"
  unfolding content_install_def
proof (intro track_seq track_emit track_observe_silent track_if track_give)
  have now: "guarded (allowed cfg c) (tr @ [Ran_content (nat (r_appid op))])"
    "list_ex is_run (tr @ [Ran_content (nat (r_appid op))])"
    using assms(1,2) by simp_all
  show "Q (None, not_spawned cr, cr_log_name cr) s p (tr @ [Ran_content (nat (r_appid op))])" for cr
    using now by (rule assms(4))
  show "track i (content_polls (abort_content env cfg op mount) (cr_capture_fails cr) (cr_polls cr) None)
      (\<lambda>x. track i (case x of (latch, ending) \<Rightarrow> give (latch, conclude cr ending, cr_log_name cr)) Q
        (exit_ok cfg c)) (exit_ok cfg c) s p (tr @ [Ran_content (nat (r_appid op))])" for cr
    using now
    by (intro track_content_polls [where c = c] track_abort_content [OF _ _ assms(3)] track_case_prod track_give assms(4))
qed

lemma track_record_owned:
  assumes "guarded (allowed cfg c) tr" "\<And>m. m \<noteq> Mark_written \<Longrightarrow> Q m s p tr"
    "\<And>b. Q (if b then Mark_error else Mark_written) s p (tr @ [Marked_target (\<not> b)])"
  shows "track i (record_owned_dir env) Q E s p tr"
  unfolding record_owned_dir_def
  by (intro track_seq track_observe_silent track_files_silent track_files_marked track_if track_give assms) simp_all

lemma track_run_content:
  assumes "guarded (allowed cfg c) tr" "content_started tr" "prior \<longleftrightarrow> p = Some True"
    and "r_id op = i"
    and "\<And>x tr'. guarded (allowed cfg c) tr' \<Longrightarrow> list_ex is_run tr' \<Longrightarrow> Q x ContentRunning p tr'"
  shows "track i (run_content env cfg i op prior mount) Q (exit_ok cfg c) ContentRunning p tr"
proof -
  have marked: "track i (case m of
        Target_escaped \<Rightarrow> abort_leave env i (Some prior) d1 m1
      | Mark_error \<Rightarrow> fail_leave env i (Some prior) d2 m2
      | Mark_written \<Rightarrow>
         seq (unless_denied env cfg op (\<lambda>d. abort_leave env i (Some prior) d d)) (\<lambda>_.
         seq (content_install env cfg op mount) (\<lambda>(latch, result, log).
         case result of
           None \<Rightarrow> fail_leave env i (Some prior) d2 m2
         | Some out \<Rightarrow> give (latch, out, log)))) Q (exit_ok cfg c) ContentRunning p tr'"
    if "guarded (allowed cfg c) tr'" "content_started tr'" "m = Mark_written \<Longrightarrow> latest marked_of tr' = Some True"
    for m d1 m1 d2 m2 tr'
    using that assms(3,4)
    by (cases m; simp; intro track_abort_leave track_fail_leave track_seq track_unless_denied [where c = c]
        track_content_install track_case_prod track_case_option track_give assms(5);
        simp add: run_ready_def content_started_def trace_defs)
  show ?thesis
    unfolding run_content_def
    by (insert assms(1-4), intro track_seq track_unless_denied [where c = c] track_record_owned [where c = c and cfg = cfg]
        track_abort_leave marked; simp add: content_started_def trace_defs split: if_splits)
qed


section \<open>Content: adoption and verification\<close>

lemma track_judge_content:
  assumes "guarded (allowed cfg c) tr" "list_ex is_run tr" "prior \<longleftrightarrow> p = Some True" "r_id op = i"
    and "\<And>tr'. guarded (allowed cfg c) tr' \<Longrightarrow> list_ex is_run tr' \<Longrightarrow> latest window_of tr' = Some True \<Longrightarrow>
      Q () ContentRunning p tr'"
  shows "track i (judge_content env cfg i op prior x) Q (exit_ok cfg c) ContentRunning p tr"
proof -
  have judged: "track i (if out = Auth_required
       then seq (finish_failure env i (Some prior) d1 m1 Out_auth_required Failed) leave
       else if out \<noteq> Installed then fail_leave env i (Some prior) d2 m2
       else seq (see_window env i) (\<lambda>valid.
         if \<not> valid then fail_leave env i (Some prior) d3 m3
         else seq (see_nested env) (\<lambda>source.
         if source = Absent then fail_leave env i (Some prior) d4 m4
         else seq (see_nested env) (\<lambda>source.
         if manifest_appid source \<noteq> Some (r_appid op) then fail_leave env i (Some prior) d5 m5
         else give ())))) Q (exit_ok cfg c) ContentRunning p tr'"
    if "guarded (allowed cfg c) tr'" "list_ex is_run tr'" for out d1 d2 d3 d4 d5 m1 m2 m3 m4 m5 tr'
    using that assms(3)
    by (intro track_if track_seq track_window track_see track_fail_leave track_give assms(5)
        track_finish_failure [where cfg = cfg and c = c] track_leave; simp)
  show ?thesis
    unfolding judge_content_def
    by (insert assms(1-4), intro track_case_prod track_seq track_case_option track_fail_leave
        track_unless_denied [where c = c] judged; simp)
qed

definition adoption_cleared :: "config \<Rightarrow> effect list \<Rightarrow> bool" where
  "adoption_cleared cfg tr \<longleftrightarrow>
     list_ex is_run tr \<and> lease_clear tr \<and> latest client_of tr = Some False \<and>
     latest window_of tr = Some True \<and> policy_ok cfg tr"

lemma track_before_adoption:
  assumes "guarded (allowed cfg c) tr" "list_ex is_run tr" "prior \<longleftrightarrow> p = Some True"
    and "latest window_of tr = Some True"
    and "\<And>tr'. guarded (allowed cfg c) tr' \<Longrightarrow> adoption_cleared cfg tr' \<Longrightarrow> Q () ContentRunning p tr'"
  shows "track i (before_adoption env cfg i op prior mount) Q (exit_ok cfg c) ContentRunning p tr"
  unfolding before_adoption_def
  by (insert assms(1-4), intro track_seq track_see track_do track_if track_fail_leave
      track_unless_denied [where c = c] track_give; (rule assms(5))?;
      simp add: adoption_cleared_def trace_defs)

lemma track_adopt_phase:
  assumes "guarded (allowed cfg c) tr" "adoption_cleared cfg tr" "prior \<longleftrightarrow> p = Some True"
    and "\<And>tr'. guarded (allowed cfg c) tr' \<Longrightarrow> Q () Adopting p tr'"
  shows "track i (adopt_phase env cfg i op prior name) Q (exit_ok cfg c) ContentRunning p tr"
  unfolding adopt_phase_def
  by (insert assms(1-3), intro track_seq track_move track_see track_do track_case_sum track_if
      track_fail_leave track_aborted track_give track_restore [where cfg = cfg and c = c];
      (simp only: new_prior_simps)?; (rule assms(4))?;
      simp add: adoption_cleared_def adopt_ready_def trace_defs)

lemma track_restart_phase:
  assumes "guarded (allowed cfg c) tr" "prior \<longleftrightarrow> p = Some True"
    and "\<And>tr'. guarded (allowed cfg c) tr' \<Longrightarrow> writer_gone tr' \<Longrightarrow> client_back p tr' \<Longrightarrow> Q () Verifying p tr'"
  shows "track i (restart_phase env i prior) Q (exit_ok cfg c) Adopting p tr"
  unfolding restart_phase_def
  by (insert assms(1,2), intro track_seq track_move track_do track_if track_aborted
      track_restore [where cfg = cfg and c = c];
      (simp only: new_prior_simps)?; (rule assms(3))?; simp add: trace_defs)

lemma track_verify_phase:
  assumes "guarded (allowed cfg c) tr" "writer_gone tr" "client_back p tr"
  shows "track i (verify_phase env i op prior) (\<lambda>r s p tr. guarded (allowed cfg c) tr \<and> agrees (rp_outcome r) s)
    (exit_ok cfg c) Verifying p tr"
  unfolding verify_phase_def Let_def using assms
  by (intro track_seq track_see track_if track_move track_give) simp_all


section \<open>The whole run\<close>

lemma track_content_phases:
  assumes "guarded (allowed cfg c) tr" "r_id op = i" "r_prior_client_running op = p" "r_state op = s"
    and "s \<in> {Authorized, Interrupted}"
  and live: "\<not> terminal s"
  shows "track i (content_phases env cfg i op) (\<lambda>r s p tr. guarded (allowed cfg c) tr \<and> agrees (rp_outcome r) s)
    (exit_ok cfg c) s p tr"
  unfolding content_phases_def
  by (insert assms live, intro track_seq track_enter_library track_run_intake track_take_lease
      track_stop_phase track_recheck track_run_content track_judge_content track_before_adoption
      track_adopt_phase track_restart_phase track_verify_phase; assumption?; simp?)

text \<open>What a run leaves: an allowed trace, a good ledger, no ledger exception, an honest report.\<close>

definition run_ok :: "config \<Rightarrow> bool \<Rightarrow> nat \<Rightarrow> fault + report \<Rightarrow> world \<Rightarrow> bool" where
  "run_ok cfg c i res w \<longleftrightarrow>
     guarded (allowed cfg c) (w_trace w) \<and> ledger_wf (w_db w) \<and> (\<forall>l. res \<noteq> Inl (Ledger_fault l)) \<and>
     (\<forall>rep. res = Inr rep \<longrightarrow>
        (\<exists>s. state_of (w_db w) i = Some s \<and> agrees (rp_outcome rep) s))"

text \<open>From the judgement to \<open>execute\<close>: the operation read first is the row of the ledger.\<close>

lemma execute_tracked:
  assumes wf: "ledger_wf (w_db w)" and r: "r \<in> set (db_operations (w_db w))" and tr: "w_trace w = []"
    and run: "execute env cfg (r_id r) w = (res, w')"
    and m: "track (r_id r) (seq (enter env cfg (r_id r) r) (\<lambda>_. content_phases env cfg (r_id r) r))
      (\<lambda>x s p tr. guarded (allowed cfg c) tr \<and> agrees (rp_outcome x) s) (exit_ok cfg c) (r_state r) (r_prior_client_running r) []"
  shows "run_ok cfg c (r_id r) res w'"
proof -
  let ?w = "w\<lparr>w_tick := Suc (w_tick w)\<rparr>"
  let ?m = "seq (enter env cfg (r_id r) r) (\<lambda>_. content_phases env cfg (r_id r) r)"
  have "(get_operation env (r_id r) :: (report, op_row) exec) w = (Inr r, ?w)"
    using get_row_in [OF wf r] by (simp add: get_operation_def ledger_do_def reading_def)
  then have ex: "execute_locked env cfg (r_id r) w = ?m ?w"
    by (simp add: execute_locked_def seq_def [of "get_operation env (r_id r)"])
  have "at_state (r_id r) (r_state r) (r_prior_client_running r) (w_db ?w)"
    using wf r by (auto simp: at_state_row)
  from trackD [OF m this] tr have
    post: "wp ?m (\<lambda>x w'. \<exists>s' p'. at_state (r_id r) s' p' (w_db w') \<and>
        guarded (allowed cfg c) (w_trace w') \<and> agrees (rp_outcome x) s')
      (\<lambda>e w'. \<exists>s' p'. at_state (r_id r) s' p' (w_db w') \<and> exit_ok cfg c e s' p' (w_trace w')) ?w"
    by simp
  obtain x where x: "?m ?w = (x, w')" "res = outcome_of x"
    using run ex by (auto simp: execute_def split: prod.splits)
  show ?thesis
    using wp_run [OF post x(1)] x(2)
    by (auto simp: run_ok_def outcome_of_def exit_ok_def at_state_def split: sum.splits exit.splits)
qed

lemma execute_content_safe:
  assumes "ledger_wf (w_db w)" "r \<in> set (db_operations (w_db w))" "w_trace w = []"
    and "r_operation r \<noteq> ''launch''" "execute env cfg (r_id r) w = (res, w')"
  shows "run_ok cfg True (r_id r) res w'"
proof (rule execute_tracked [OF assms(1-3,5)])
  show "track (r_id r) (seq (enter env cfg (r_id r) r) (\<lambda>_. content_phases env cfg (r_id r) r))
      (\<lambda>x s p tr. guarded (allowed cfg True) tr \<and> agrees (rp_outcome x) s) (exit_ok cfg True) (r_state r) (r_prior_client_running r) []"
    by (intro track_seq track_enter track_mono [OF track_content_phases]; (assumption | auto simp: assms(4)))
qed

lemma execute_launch_safe:
  assumes "ledger_wf (w_db w)" "r \<in> set (db_operations (w_db w))" "w_trace w = []"
    and "r_operation r = ''launch''" "execute env cfg (r_id r) w = (res, w')"
  shows "run_ok cfg False (r_id r) res w'"
proof (rule execute_tracked [OF assms(1-3,5)])
  show "track (r_id r) (seq (enter env cfg (r_id r) r) (\<lambda>_. content_phases env cfg (r_id r) r))
      (\<lambda>x s p tr. guarded (allowed cfg False) tr \<and> agrees (rp_outcome x) s) (exit_ok cfg False) (r_state r) (r_prior_client_running r) []"
    unfolding enter_def
    by (intro track_seq track_if track_aborted track_launch; simp add: assms(4))
qed

lemma execute_safe:
  assumes "ledger_wf (w_db w)" "r \<in> set (db_operations (w_db w))" "w_trace w = []"
    and "execute env cfg (r_id r) w = (res, w')"
  shows "run_ok cfg (r_operation r \<noteq> ''launch'') (r_id r) res w'"
  using execute_content_safe [OF assms(1-3) _ assms(4)] execute_launch_safe [OF assms(1-3) _ assms(4)]
  by (cases "r_operation r = ''launch''") simp_all

end
