(* ===== verification/Reconcile_Safety.thy ===== *)
theory Reconcile_Safety
  imports Exec_Safety
begin

text \<open>
  What reconciliation may do: it repairs an adoption only under a clear lease with the client
  absent, restores the client before a row becomes terminal, and never dispatches, downloads
  or adopts anything.
\<close>


section \<open>What is allowed\<close>

definition client_absent :: "effect list \<Rightarrow> bool" where
  "client_absent tr \<longleftrightarrow> latest client_of tr = Some False \<or> client_gone tr"

text \<open>\<open>content\<close> is false for a launch or stop that died with its dispatch pending.\<close>

definition recovers :: "bool \<Rightarrow> effect list \<Rightarrow> effect \<Rightarrow> bool" where
  "recovers content tr e =
     (case e of
        Stopped_client b \<Rightarrow> lease_clear tr
      | Recovered \<Rightarrow> lease_clear tr \<and> client_absent tr
      | Moved t p \<Rightarrow> content \<longrightarrow> terminal t \<longrightarrow> writer_gone tr \<and> client_back p tr
      | Ran_content a \<Rightarrow> False
      | Adopted b \<Rightarrow> False
      | Launched a b \<Rightarrow> False
      | _ \<Rightarrow> True)"

lemma recovers_simps [simp]:
  "recovers c tr (Saw_gates g)" "recovers c tr (Saw_policy b)" "recovers c tr (Saw_window b)"
  "recovers c tr (Saw_client b)" "recovers c tr (Saw_steamcmd x)" "recovers c tr (Saw_mount m)"
  "recovers c tr (Started_client b)" "recovers c tr (Marked_target b)"
  "recovers c tr (Stopped_client b) \<longleftrightarrow> lease_clear tr"
  "recovers c tr Recovered \<longleftrightarrow> lease_clear tr \<and> client_absent tr"
  "recovers c tr (Moved t p) \<longleftrightarrow> (c \<longrightarrow> terminal t \<longrightarrow> writer_gone tr \<and> client_back p tr)"
  "\<not> recovers c tr (Ran_content a)" "\<not> recovers c tr (Adopted b)" "\<not> recovers c tr (Launched a b)"
  by (simp_all add: recovers_def)

text \<open>However it ends: allowed effects, no ledger exception, and nothing left unreported.\<close>

definition recovered_ok :: "bool \<Rightarrow> string list exit \<Rightarrow> op_state \<Rightarrow> bool option \<Rightarrow> effect list \<Rightarrow> bool" where
  "recovered_ok c e s p tr \<longleftrightarrow>
     guarded (recovers c) tr \<and> (\<forall>l. e \<noteq> Raised (Ledger_fault l)) \<and>
     (e = Returned [] \<longrightarrow> s \<in> {PendingConfirmation, Authorized})"

lemma recovered_ok_simps [simp]:
  "recovered_ok c (Returned (a # as)) s p tr = guarded (recovers c) tr"
  "recovered_ok c (Returned (as @ [a])) s p tr = guarded (recovers c) tr"
  "recovered_ok c (Raised Probe_fault) s p tr = guarded (recovers c) tr"
  by (simp_all add: recovered_ok_def)

abbreviation good_actions :: "bool \<Rightarrow> string list \<Rightarrow> op_state \<Rightarrow> bool option \<Rightarrow> effect list \<Rightarrow> bool" where
  "good_actions c \<equiv> (\<lambda>x. recovered_ok c (Returned x))"


section \<open>Parts\<close>

lemma track_restore_actions:
  assumes "guarded (recovers c) tr" "r_prior_client_running op = p"
    and "\<And>a tr'. guarded (recovers c) tr' \<Longrightarrow> Q [a] s p tr'"
    and "\<And>tr'. guarded (recovers c) tr' \<Longrightarrow> writer_gone tr' \<Longrightarrow> client_back p tr' \<Longrightarrow> Q [] s p tr'"
  shows "track i (restore_actions env op) Q E s p tr"
  unfolding restore_actions_def assms(2)
  by (intro track_seq track_restore_gen [of "recovers c"] track_give) (simp_all add: assms)

lemma track_restored_or_leave:
  assumes "guarded (recovers c) tr" "r_prior_client_running op = p"
    and "\<And>tr'. guarded (recovers c) tr' \<Longrightarrow> writer_gone tr' \<Longrightarrow> client_back p tr' \<Longrightarrow> Q () s p tr'"
  shows "track i (restored_or_leave env op) Q (recovered_ok c) s p tr"
  unfolding restored_or_leave_def
  by (intro track_seq track_restore_actions [where c = c] track_if track_give track_leave)
     (simp_all add: assms)

lemma track_defer_action:
  assumes "guarded (recovers c) tr" "r_prior_client_running op = p"
  shows "track i (defer_action env op t) Q (recovered_ok c) s p tr"
  unfolding defer_action_def
  by (intro track_seq track_restore_actions [where c = c] track_leave) (simp_all add: assms)

lemma track_conclude_verified:
  assumes "guarded (recovers c) tr" "writer_gone tr" "client_back p tr" "r_id op = i"
  shows "track i (conclude_verified env op label) (good_actions c) (recovered_ok c) Verifying p tr"
  unfolding conclude_verified_def verified_outcome_def Let_def assms(4)
  using assms(1-3)
  by (intro track_seq track_see track_if track_give) (simp_all add: track_seq track_move track_give)

lemma track_retire_or_defer:
  assumes "guarded (recovers c) tr" "r_prior_client_running op = p" "Q () s p tr"
  shows "track i (retire_or_defer env op) Q (recovered_ok c) s p tr"
  unfolding retire_or_defer_def
  by (intro track_seq track_do track_if track_defer_action track_give) (simp_all add: assms)


section \<open>One recovery per state\<close>

lemma track_reconcile_dispatch:
  assumes "guarded (recovers False) tr" "r_id op = i"
  shows "track i (reconcile_dispatch env op) (good_actions False) (recovered_ok False) DispatchPending p tr"
  unfolding reconcile_dispatch_def assms(2) using assms(1)
  by (intro track_seq track_move track_give) simp_all

lemma track_reconcile_early:
  assumes "guarded (recovers c) tr" "r_id op = i" "r_prior_client_running op = p"
    and "Aborted \<in> set (transitions s)"
  shows "track i (reconcile_early env op) (good_actions c) (recovered_ok c) s p tr"
  unfolding reconcile_early_def assms(2)
  by (insert assms, intro track_seq track_restored_or_leave track_move track_give) simp_all

lemma track_reconcile_content:
  assumes "guarded (recovers c) tr" "r_id op = i" "r_prior_client_running op = p"
  shows "track i (reconcile_content env op) (good_actions c) (recovered_ok c) ContentRunning p tr"
  unfolding reconcile_content_def assms(2)
  by (insert assms, intro track_seq track_see track_case_option track_case_bool track_fault track_give
      track_window track_if track_move track_restored_or_leave) simp_all

lemma track_reconcile_interrupted:
  assumes "guarded (recovers c) tr" "r_id op = i" "r_prior_client_running op = p"
  shows "track i (reconcile_interrupted env op) (good_actions c) (recovered_ok c) Interrupted p tr"
  unfolding reconcile_interrupted_def assms(2)
  by (insert assms, intro track_seq track_window track_if track_give track_move track_restored_or_leave) simp_all

lemma track_adopting_lease:
  assumes "guarded (recovers c) tr" "r_id op = i" "r_prior_client_running op = p"
    and "\<And>tr'. guarded (recovers c) tr' \<Longrightarrow> lease_clear tr' \<Longrightarrow> client_absent tr' \<Longrightarrow> Q () s p tr'"
  shows "track i (adopting_lease env op) Q (recovered_ok c) s p tr"
  unfolding adopting_lease_def
  by (insert assms(1-3), intro track_seq track_see track_if track_leave track_do track_defer_action
      track_give; (rule assms(4))?; simp add: client_absent_def trace_defs)

lemma track_reconcile_adopting:
  assumes "guarded (recovers c) tr" "r_id op = i" "r_prior_client_running op = p"
  shows "track i (reconcile_adopting env cfg op) (good_actions c) (recovered_ok c) Adopting p tr"
  unfolding reconcile_adopting_def assms(2)
  by (insert assms, intro track_seq track_adopting_lease track_do track_case_sum track_defer_action
      track_if track_restored_or_leave track_move track_give track_retire_or_defer
      track_conclude_verified) (simp_all add: trace_defs)

lemma track_reconcile_restart:
  assumes "guarded (recovers c) tr" "r_id op = i" "r_prior_client_running op = p"
    and "r_state op = s" "s \<in> {ClientRestartPending, Verifying}"
  shows "track i (reconcile_restart env op) (good_actions c) (recovered_ok c) s p tr"
proof (cases "s = Verifying")
  case True
  with assms show ?thesis
    unfolding reconcile_restart_def
    by (intro track_seq track_retire_or_defer track_restored_or_leave)
       (simp_all add: track_give track_conclude_verified)
next
  case False
  with assms(5) have s: "s = ClientRestartPending" by simp
  with assms(1-4) show ?thesis
    unfolding reconcile_restart_def
    by (intro track_seq track_retire_or_defer track_restored_or_leave)
       (simp_all add: track_move track_conclude_verified trace_defs)
qed

lemma track_reconcile_state:
  assumes "r_id op = i" "r_prior_client_running op = p" "r_state op = s" "\<not> terminal s" "supported_state s"
  shows "track i (reconcile_state env cfg op) (good_actions (s \<noteq> DispatchPending))
    (recovered_ok (s \<noteq> DispatchPending)) s p []"
  unfolding reconcile_state_def assms(3)
  using assms
  by (cases s) (simp_all add: track_give recovered_ok_def [of _ "Returned []"] track_reconcile_dispatch
      track_reconcile_early track_reconcile_content track_reconcile_interrupted track_reconcile_adopting
      track_reconcile_restart supported_state_def)


section \<open>The whole reconciliation\<close>

lemma active_wf:
  assumes wf: "ledger_wf d"
  obtains (none) "active d = Inr None" "\<forall>r \<in> set (db_operations d). terminal (r_state r)"
    | (some) r where "active d = Inr (Some r)" "r \<in> set (db_operations d)" "\<not> terminal (r_state r)"
proof (cases "find (\<lambda>r. \<not> terminal (r_state r)) (db_operations d)")
  case None
  then have "active d = Inr None" "\<forall>r \<in> set (db_operations d). terminal (r_state r)"
    by (simp add: active_def) (use None in \<open>auto simp: find_None_iff\<close>)
  then show ?thesis by (rule none)
next
  case (Some r)
  then have "r \<in> set (db_operations d)" "\<not> terminal (r_state r)"
    by (auto simp: find_Some_iff)
  with Some get_row_in [OF wf] show ?thesis
    by (intro some [of r]) (simp_all add: active_def)
qed

lemma outcome_of_simps [simp]:
  "outcome_of (Inr x) = Inr x"
  "outcome_of (Inl e) = Inl f \<longleftrightarrow> e = Raised f"
  "outcome_of (Inl e) = Inr x \<longleftrightarrow> e = Returned x"
  by (simp_all add: outcome_of_def split: exit.splits)

lemma get_active_run:
  "active (w_db w) = Inr x \<Longrightarrow> (get_active env :: (string list, op_row option) exec) w = (Inr x, w\<lparr>w_tick := Suc (w_tick w)\<rparr>)"
  by (simp add: get_active_def ledger_do_def reading_def)

lemma do_expire_run:
  "ledger_wf (w_db w) \<Longrightarrow> (do_expire env :: (string list, nat list) exec) w =
     (Inr (map fst (lapsed_rows (e_now env (w_tick w)) (db_operations (w_db w)))),
      w\<lparr>w_tick := Suc (w_tick w), w_db := expired_db (e_now env (w_tick w)) (w_db w)\<rparr>)"
  by (simp add: do_expire_def ledger_do_def expire_lapsed_wf)

text \<open>The operation that is active once the lapsed ones have expired, as the code finds it.\<close>

definition reconciled_row :: "env \<Rightarrow> world \<Rightarrow> op_row option" where
  "reconciled_row env w =
     (case active (expired_db (e_now env (Suc (w_tick w))) (w_db w)) of
        Inr (Some r) \<Rightarrow> Some r | _ \<Rightarrow> None)"

definition dispatching :: "op_row option \<Rightarrow> bool" where
  "dispatching r \<longleftrightarrow> (case r of None \<Rightarrow> False | Some r \<Rightarrow> r_state r = DispatchPending)"

lemma reconcile_safe:
  assumes wf: "ledger_wf (w_db w)" and tr: "w_trace w = []"
    and run: "reconcile env cfg w = (res, w')"
  shows "guarded (recovers (\<not> dispatching (reconciled_row env w))) (w_trace w') \<and> ledger_wf (w_db w') \<and>
    (\<forall>l. res \<noteq> Inl (Ledger_fault l)) \<and>
    (res = Inr [] \<longrightarrow> (\<forall>r \<in> set (db_operations (w_db w')).
       reconciled_row env w \<noteq> None \<longrightarrow> r_id r = r_id (the (reconciled_row env w)) \<longrightarrow>
       r_state r \<in> {PendingConfirmation, Authorized}))"
proof -
  obtain x1 where x1: "active (w_db w) = Inr x1"
    using active_wf [OF wf] by metis
  let ?w1 = "w\<lparr>w_tick := Suc (w_tick w)\<rparr>"
  let ?d = "expired_db (e_now env (Suc (w_tick w))) (w_db w)"
  let ?w2 = "w\<lparr>w_tick := Suc (Suc (w_tick w)), w_db := ?d\<rparr>"
  let ?w3 = "w\<lparr>w_db := ?d, w_tick := Suc (Suc (Suc (w_tick w)))\<rparr>"
  have wf2: "ledger_wf ?d"
    using wf by (rule ledger_wf_expired)
  have unfolded: "reconcile_locked env cfg w =
      (if c_platform cfg = ''win32'' \<and>
          (case x1 of None \<Rightarrow> False | Some op \<Rightarrow> r_operation op \<in> {''install'', ''verify''})
       then (Inr [action (r_id (the x1)) ''Windows content recovery unqualified; deferred''], ?w1)
       else case active ?d of
           Inr (Some r) \<Rightarrow> reconcile_state env cfg r ?w3
         | _ \<Rightarrow> (Inr [], ?w3))"
  proof (cases rule: active_wf [OF wf2])
    case 1
    then show ?thesis
      using get_active_run [OF x1, of env] do_expire_run [of ?w1 env] get_active_run [of ?w2 None env] wf
      by (simp add: reconcile_locked_def seq_def give_def del: case_option_False)
  next
    case (2 r)
    then show ?thesis
      using get_active_run [OF x1, of env] do_expire_run [of ?w1 env] get_active_run [of ?w2 "Some r" env] wf
      by (simp add: reconcile_locked_def seq_def give_def del: case_option_False)
  qed
  obtain y where y: "reconcile_locked env cfg w = (y, w')" "res = outcome_of y"
    using run by (auto simp: reconcile_def split: prod.splits)
  show ?thesis
  proof (cases "reconcile_locked env cfg w = (Inr [action (r_id (the x1)) ''Windows content recovery unqualified; deferred''], ?w1)")
    case True
    with y wf tr show ?thesis by (auto simp: outcome_of_def)
  next
    case False
    with unfolded have eq: "reconcile_locked env cfg w = (case active ?d of
        Inr (Some r) \<Rightarrow> reconcile_state env cfg r ?w3 | _ \<Rightarrow> (Inr [], ?w3))"
      by (simp split: if_splits)
    show ?thesis
    proof (cases rule: active_wf [OF wf2])
      case 1
      with eq y wf2 tr show ?thesis
        by (auto simp: outcome_of_def reconciled_row_def)
    next
      case (2 r)
      have at: "at_state (r_id r) (r_state r) (r_prior_client_running r) (w_db ?w3)"
        using wf2 2 by (auto simp: at_state_row)
      have sup: "supported_state (r_state r)"
        using wf2 2(2) by (auto simp: ledger_wf_def table_ok_def row_supported_def)
      let ?c = "r_state r \<noteq> DispatchPending"
      from trackD [OF track_reconcile_state [OF refl refl refl 2(3) sup, of env cfg] at] tr
      have post: "wp (reconcile_state env cfg r)
          (\<lambda>x w'. \<exists>s' p'. at_state (r_id r) s' p' (w_db w') \<and> good_actions ?c x s' p' (w_trace w'))
          (\<lambda>e w'. \<exists>s' p'. at_state (r_id r) s' p' (w_db w') \<and> recovered_ok ?c e s' p' (w_trace w')) ?w3"
        by simp
      have row: "reconciled_row env w = Some r"
        using 2(1) by (simp add: reconciled_row_def)
      have "reconcile_state env cfg r ?w3 = (y, w')"
        using eq y 2(1) by simp
      from wp_run [OF post this] obtain s' p' where
        fin: "at_state (r_id r) s' p' (w_db w')"
        "guarded (recovers ?c) (w_trace w')" "\<forall>l. res \<noteq> Inl (Ledger_fault l)"
        "res = Inr [] \<longrightarrow> s' \<in> {PendingConfirmation, Authorized}"
        unfolding y(2) by (cases y) (auto simp: recovered_ok_def)
      then have "r_state x = s'" if "x \<in> set (db_operations (w_db w'))" "r_id x = r_id r" for x
        using that state_of_row [of "w_db w'" x] by (simp add: at_state_def)
      with fin row show ?thesis
        by (auto simp: dispatching_def at_state_def)
    qed
  qed
qed

end
