(* ===== verification/Exec_Demo.thy ===== *)
theory Exec_Demo
  imports Reconcile_Safety
begin

text \<open>
  A demonstration environment and its runs: the inputs of the witnesses.  The client runs at
  first, the gates are clear, the policy permits and steamcmd installs AppID 620.
\<close>

definition exec_op :: "bool \<Rightarrow> string" where
  "exec_op content = (if content then ''install'' else ''launch'')"

definition exec_intake :: "bool \<Rightarrow> intake" where
  "exec_intake c = demo_intake\<lparr>in_appid := 620, in_operation := exec_op c\<rparr>"

definition exec_db :: "bool \<Rightarrow> db" where
  "exec_db c = snd (confirm 200 ''n'' ''cli'' 14400 (snd (request 100 ''n'' 900 (exec_intake c) demo_open)))"

lemma reach_exec: "ledger_reachable (exec_db c)"
  unfolding exec_db_def
proof (rule ledger_reachable_step)
  show "ledger_reachable (snd (request 100 ''n'' 900 (exec_intake c) demo_open))"
    by (rule ledger_reachable_step [OF reach_open], rule step_request) (simp add: demo_open_eq used_nonces_def)
qed (rule step_confirm)

definition exec_row :: "bool \<Rightarrow> op_row" where
  "exec_row c = demo_row\<lparr>r_appid := 620, r_operation := exec_op c, r_state := Authorized, r_nonce := None,
     r_nonce_expires_at := None, r_confirmation_actor := Some ''cli'',
     r_window_expires_at := Some 14600, r_updated_at := 200\<rparr>"

lemma exec_db_rows: "db_operations (exec_db c) = [exec_row c]"
  by (cases c; simp only:; code_simp)

definition exec_disk :: disk where
  "exec_disk = \<lparr>d_steamapps = Some (7, 11), d_manifest = Absent, d_journal = NoJournal,
     d_backup = Absent, d_marker = False\<rparr>"

definition exec_world :: "bool \<Rightarrow> world" where
  "exec_world c = \<lparr>w_tick = 0, w_db = exec_db c, w_disk = exec_disk, w_trace = []\<rparr>"

definition exec_target :: target_view where
  "exec_target = \<lparr>tv_symlink = False, tv_escapes = Some False, tv_exists = False, tv_content = None,
     tv_nested = Absent, tv_empty = None, tv_identity = None\<rparr>"

definition exec_env :: env where
  "exec_env = \<lparr>e_now = (\<lambda>t. 300), 
     e_gates = (\<lambda>t. \<lparr>g_game_running = Pass, g_remote_play = Pass, g_download_in_flight = Pass,
        g_client_running = (if t < 9 then Fail else Pass)\<rparr>),
     e_client = (\<lambda>t. False), e_steamcmd = (\<lambda>t. Some False), e_stop = (\<lambda>t. True),
     e_start = (\<lambda>t. True), e_launch = (\<lambda>t. True), e_policy = (\<lambda>t op. Permits),
     e_view = (\<lambda>t. \<lparr>v_manifests = [], v_target = (\<lambda>n. exec_target), v_marker = None\<rparr>),
     e_files = (\<lambda>t d. d), e_io = (\<lambda>t k. Ok), e_contained = (\<lambda>t. True),
     e_content = (\<lambda>t. demo_run), e_nested = (\<lambda>t. File demo_manifest), e_downloading = (\<lambda>t. False)\<rparr>"

definition exec_config :: config where
  "exec_config = \<lparr>c_platform = ''linux'', c_content = True, c_account_login = None,
     c_dispatch_policy = True, c_paths = (\<lambda>appid. demo_paths), c_sha256 = (\<lambda>s. s),
     c_plan_name = (\<lambda>doc. NoName)\<rparr>"


section \<open>Evaluating a run\<close>

text \<open>The steps of a program on a given world, so that only what runs is unfolded.\<close>

lemma run_seq: "seq m f w = (case m w of (Inl e, t) \<Rightarrow> (Inl e, t) | (Inr x, t) \<Rightarrow> f x t)"
  by (simp add: seq_def)

lemma run_give: "give x w = (Inr x, w)"
  by (simp add: give_def)

lemma run_leave: "leave r w = (Inl (Returned r), w)"
  by (simp add: leave_def stop_def)

lemma run_observe:
  "observe f seen w =
     (Inr (f (w_tick w)), w\<lparr>w_tick := Suc (w_tick w), w_trace := w_trace w @ seen (f (w_tick w))\<rparr>)"
  by (simp add: observe_def)

lemma run_emit: "emit e w = (Inr (), w\<lparr>w_trace := w_trace w @ [e]\<rparr>)"
  by (simp add: emit_def)

lemmas run_steps = run_seq run_give run_leave run_observe run_emit if_distribR
  files_do_def [THEN fun_cong] ledger_do_def [THEN fun_cong]
  see_gates_def [THEN fun_cong] see_client_def [THEN fun_cong] see_steamcmd_def [THEN fun_cong]
  do_stop_def [THEN fun_cong] do_start_def [THEN fun_cong] see_mount_def [THEN fun_cong]
  see_manifest_def [THEN fun_cong] see_downloading_def [THEN fun_cong] see_nested_def [THEN fun_cong]
  do_adopt_def [THEN fun_cong] do_recover_def [THEN fun_cong] do_retire_def [THEN fun_cong]
  do_launch_def [THEN fun_cong] get_operation_def [THEN fun_cong] see_window_def [THEN fun_cong]
  do_expire_def [THEN fun_cong] move_from_def [THEN fun_cong]
  content_policy_denial_def [THEN fun_cong] restore_client_def [THEN fun_cong]
  record_owned_dir_def [THEN fun_cong] abort_content_def [THEN fun_cong]
  content_install_def [THEN fun_cong] unless_denied_def [THEN fun_cong]
  enter_window_def [THEN fun_cong] enter_def [THEN fun_cong] enter_library_def [THEN fun_cong]
  run_intake_def [THEN fun_cong] take_lease_def [THEN fun_cong] stop_phase_def [THEN fun_cong]
  stop_fresh_def [THEN fun_cong] recheck_def [THEN fun_cong] run_content_def [THEN fun_cong]
  judge_content_def [THEN fun_cong] before_adoption_def [THEN fun_cong] adopt_phase_def [THEN fun_cong]
  restart_phase_def [THEN fun_cong] verify_phase_def [THEN fun_cong]
  content_phases_def [THEN fun_cong] execute_locked_def [THEN fun_cong]

text \<open>The ledger of the run: one row, moved by each transition.\<close>

definition exec_at :: "bool \<Rightarrow> op_state \<Rightarrow> string option \<Rightarrow> bool option \<Rightarrow> event list \<Rightarrow> db" where
  "exec_at c s detail prior events = (exec_db c)\<lparr>db_operations :=
     [(exec_row c)\<lparr>r_state := s, r_detail := detail, r_prior_client_running := prior,
        r_updated_at := (if s = Authorized then 200 else 300)\<rparr>], db_events := events\<rparr>"

lemma exec_db_at: "exec_db c = exec_at c Authorized None None (db_events (exec_db c))"
  by (simp add: exec_at_def exec_db_rows exec_row_def exec_op_def demo_row_def)

lemma exec_header:
  "db_user_version (exec_db c) = 0" "db_has_operations (exec_db c)" "db_layout_ok (exec_db c)"
  "db_active_index (exec_db c) = Some terminal_states" "db_plan_index (exec_db c)"
  using ledger_reachable_wf [OF reach_exec [of c]] by (simp_all add: ledger_wf_def)

lemma exec_supported: "supported_state s \<Longrightarrow> require_supported (exec_at c s detail prior events) = Inr ()"
  by (simp add: require_supported_def exec_at_def exec_header row_supported_def exec_row_def exec_op_def demo_row_def
      supported_operations_def)

lemma exec_get:
  "supported_state s \<Longrightarrow> get_row (Suc 0) (exec_at c s detail prior events) =
    Inr ((exec_row c)\<lparr>r_state := s, r_detail := detail, r_prior_client_running := prior,
        r_updated_at := (if s = Authorized then 200 else 300)\<rparr>)"
  by (simp add: get_row_def exec_supported) (simp add: exec_at_def exec_row_def exec_op_def demo_row_def)

lemma exec_move:
  assumes "to \<in> set (transitions s)" "to \<noteq> Authorized" "expected = None \<or> expected = Some s"
  shows "transition 300 (Suc 0) to detail' prior' expected (exec_at c s detail prior events) =
    (Inr (), exec_at c to detail' (new_prior prior' prior)
      (events @ [\<lparr>ev_operation = 1, ev_at = 300, ev_from = Some s, ev_to = to, ev_detail = detail'\<rparr>]))"
proof -
  have sup: "supported_state s"
    using transitions_supported [OF assms(1)] by simp
  have row: "move_row 300 (Suc 0) s to detail' prior'
      ((exec_row c)\<lparr>r_state := s, r_detail := detail, r_prior_client_running := prior,
        r_updated_at := (if s = Authorized then 200 else 300)\<rparr>) =
      (exec_row c)\<lparr>r_state := to, r_detail := detail', r_prior_client_running := new_prior prior' prior,
        r_updated_at := (if to = Authorized then 200 else 300)\<rparr>"
    using assms(2) by (simp add: move_row_def exec_row_def exec_op_def demo_row_def new_prior_def split: option.split)
  have "sql_write (map (move_row 300 (Suc 0) s to detail' prior') (db_operations (exec_at c s detail prior events)))
      (exec_at c s detail prior events) = Inr (exec_at c to detail' (new_prior prior' prior) events)"
    using row by (simp add: sql_write_def exec_at_def exec_header active_ok_def plan_ok_def unique_on_def)
  then show ?thesis
    using assms sup
    by (simp add: transition_def exec_get transaction_def exec_supported)
       (auto simp: exec_at_def add_event_def exec_row_def exec_op_def demo_row_def)
qed

lemma exec_prior: "prior_of (Suc 0) (exec_at c s detail prior events) = prior"
  by (simp add: prior_of_def exec_at_def exec_row_def exec_op_def demo_row_def)

lemma exec_window:
  "supported_state s \<Longrightarrow> window_valid 300 (Suc 0) (exec_at c s detail prior events) = Inr True"
  by (simp add: window_valid_def exec_get exec_row_def exec_op_def demo_row_def)

lemma exec_plan: "plan_document f (Suc 0) (exec_at c s detail prior events) = Inr (f ''{}'')"
  by (simp add: plan_document_def exec_at_def exec_row_def exec_op_def demo_row_def)


lemma exec_env_simps [simp]:
  "e_now exec_env t = 300" "e_client exec_env t = False" "e_steamcmd exec_env t = Some False"
  "e_stop exec_env t = True" "e_start exec_env t = True" "e_launch exec_env t = True"
  "e_policy exec_env t op = Permits" "e_files exec_env t d = d" "e_io exec_env t = (\<lambda>k. Ok)"
  "e_contained exec_env t = True" "e_content exec_env t = demo_run"
  "e_nested exec_env t = File demo_manifest" "e_downloading exec_env t = False"
  by (simp_all add: exec_env_def)

definition exec_gates :: "nat \<Rightarrow> lease_gates" where
  "exec_gates t = \<lparr>g_game_running = Pass, g_remote_play = Pass, g_download_in_flight = Pass,
     g_client_running = (if t < 9 then Fail else Pass)\<rparr>"

lemma exec_gates_simps [simp]:
  "e_gates exec_env t = exec_gates t" "all_clear (exec_gates t)" "\<not> busy (exec_gates t)"
  "g_client_running (exec_gates t) = (if t < 9 then Fail else Pass)"
  by (simp_all add: exec_env_def exec_gates_def all_clear_def busy_def)

lemma exec_config_simps [simp]:
  "c_platform exec_config = ''linux''" "c_content exec_config" "c_account_login exec_config = None"
  "c_dispatch_policy exec_config" "c_paths exec_config n = demo_paths" "c_sha256 exec_config = (\<lambda>s. s)"
  "c_plan_name exec_config doc = NoName"
  by (simp_all add: exec_config_def)

lemma exec_intake_checks: "intake_checks 620 False NoName (e_view exec_env t) = Inr ''app_620''"
  by (simp add: exec_env_def) code_simp

lemma exec_manifest:
  "manifest_appid (File demo_manifest) = Some 620" "manifest_state_flags (File demo_manifest) = Some 4"
  "patched_manifest (File demo_manifest) ''app_620'' = Inr demo_manifest"
  by code_simp+

lemma exec_run_cr:
  "cr_spawns demo_run" "cr_polls demo_run = [(1800, False), (1785, True)]" "\<not> cr_capture_fails demo_run"
  "conclude demo_run Exited = Some Installed"
  by (simp_all add: demo_run_def) code_simp

lemma exec_row_simps [simp]:
  "r_id (exec_row c) = Suc 0" "r_appid (exec_row c) = 620" "r_operation (exec_row c) = exec_op c"
  "r_state (exec_row c) = Authorized" "r_account_alias (exec_row c) = ''a''"
  "r_prior_client_running (exec_row c) = None"
  by (simp_all add: exec_row_def exec_op_def demo_row_def demo_intake_def)

lemma exec_adopt:
  "adopt_manifest (\<lambda>s. s) demo_paths (\<lambda>k. Ok) (File demo_manifest) ''app_620'' n (exec_disk\<lparr>d_marker := b\<rparr>) =
     (Inr (), exec_disk\<lparr>d_marker := b,
        d_journal := Journal (journal_entry (\<lambda>s. s) demo_paths n (7, 11) demo_manifest False),
        d_manifest := File demo_manifest\<rparr>)"
  by (simp add: adopt_manifest_def exec_disk_def back_up_def disk_steps exec_manifest)

lemma exec_disk_simps [simp]: "d_steamapps exec_disk = Some (7, 11)"
  by (simp add: exec_disk_def)

definition exec_report :: report where
  "exec_report = report 1 Out_confirmed ''content present and adopted; first run still required''"

text \<open>The trace of the content run, cut before the effects the properties are about.\<close>

definition exec_before_stop :: "effect list" where
  "exec_before_stop = [Saw_policy True, Saw_window True, Saw_mount (Some (7, 11)), Saw_mount (Some (7, 11)),
     Saw_steamcmd (Some False), Saw_gates (exec_gates 8), Saw_policy True,
     Moved LeaseAcquired (Some True), Moved ClientStopping (Some True), Saw_policy True]"

definition exec_stop_to_run :: "effect list" where
  "exec_stop_to_run = [Saw_gates (exec_gates 14), Saw_window True, Saw_mount (Some (7, 11)),
     Saw_policy True, Moved ContentRunning (Some True), Saw_policy True, Marked_target True,
     Saw_policy True]"

definition exec_run_to_adopt :: "effect list" where
  "exec_run_to_adopt = [Saw_policy True, Saw_client False, Saw_window True, Saw_mount (Some (7, 11)),
     Saw_policy True, Saw_window True, Saw_mount (Some (7, 11)), Saw_gates (exec_gates 35),
     Saw_client False, Saw_policy True, Moved Adopting (Some True)]"

definition exec_adopt_to_end :: "effect list" where
  "exec_adopt_to_end = [Moved ClientRestartPending (Some True), Saw_steamcmd (Some False),
     Started_client True, Moved Verifying (Some True)]"

definition exec_trace :: "effect list" where
  "exec_trace = exec_before_stop @ Stopped_client True # exec_stop_to_run @ Ran_content 620 #
     exec_run_to_adopt @ Adopted True # exec_adopt_to_end @ [Moved Confirmed (Some True)]"

lemmas exec_trace_defs = exec_trace_def exec_before_stop_def exec_stop_to_run_def exec_run_to_adopt_def
  exec_adopt_to_end_def

definition launch_before :: "effect list" where
  "launch_before = [Saw_window True, Saw_gates (exec_gates 2), Saw_gates (exec_gates 3), Saw_window True,
     Saw_policy True, Moved DispatchPending None]"

definition launch_trace :: "effect list" where
  "launch_trace = launch_before @ Launched 620 True # [Moved Dispatched None]"

definition launch_report :: report where
  "launch_report = report 1 Out_dispatched
     ''launch requested; this broker does not observe whether the game became playable''"

lemma exec_world_at: "exec_world c = \<lparr>w_tick = 0, w_db = exec_at c Authorized None None (db_events (exec_db c)),
    w_disk = exec_disk, w_trace = []\<rparr>"
  using exec_db_at by (simp add: exec_world_def)

lemmas exec_run_simps = run_steps exec_world_at policy_denial_def steam_login_def reading_def
  exec_window exec_get resuming_def validating_def exec_plan exec_intake_checks exec_move exec_prior
  exec_run_cr exec_manifest exec_adopt exec_report_def state_fully_installed_def retire_records_def
  clear_adoption_journal_def disk_steps supported_state_def Let_def exec_op_def

lemma execI:
  "\<exists>t d ds. execute_locked env cfg i w = (Inr x, \<lparr>w_tick = t, w_db = d, w_disk = ds, w_trace = tr\<rparr>) \<Longrightarrow>
    \<exists>w'. execute env cfg i w = (Inr x, w') \<and> w_trace w' = tr"
  by (auto simp: execute_def outcome_of_def)

lemma execI_left:
  "\<exists>t d ds. execute_locked env cfg i w = (Inl (Returned x), \<lparr>w_tick = t, w_db = d, w_disk = ds, w_trace = tr\<rparr>) \<Longrightarrow>
    \<exists>w'. execute env cfg i w = (Inr x, w') \<and> w_trace w' = tr"
  by (auto simp: execute_def outcome_of_def)

lemma exec_run: "\<exists>w'. execute exec_env exec_config 1 (exec_world True) = (Inr exec_report, w') \<and>
    w_trace w' = exec_trace"
  by (rule execI, simp add: exec_run_simps exec_trace_defs) (simp add: eval_nat_numeral)

lemma launch_run: "\<exists>w'. execute exec_env exec_config 1 (exec_world False) = (Inr launch_report, w') \<and>
    w_trace w' = launch_trace"
  by (rule execI_left, simp add: exec_run_simps exec_trace_defs launch_def [THEN fun_cong] launch_probe_def [THEN fun_cong]
     launch_policy_def [THEN fun_cong] require_window_def [THEN fun_cong]
     launch_report_def enter_def launch_trace_def launch_before_def) (simp add: eval_nat_numeral)

end
