(* ===== verification/Exec_Props.thy ===== *)
theory Exec_Props
  imports Exec_Demo
begin

text \<open>
  The properties of \<open>execute\<close> and \<open>reconcile\<close>, for an arbitrary environment: whatever Steam,
  the file system and the policy file do at each moment.
\<close>


section \<open>Running the demonstration\<close>

lemma exec_world_simps [simp]: "w_db (exec_world c) = exec_db c" "w_trace (exec_world c) = []"
  by (simp_all add: exec_world_def)

lemma exec_start:
  "ledger_wf (w_db (exec_world c))" "exec_row c \<in> set (db_operations (w_db (exec_world c)))"
  using ledger_reachable_wf [OF reach_exec [of c]] by (simp_all add: exec_db_rows)


section \<open>Execution\<close>

text \<open>Executing any recorded operation never makes a ledger call that the ledger refuses:
  no transition is illegal, no row is missing, and the ledger is still well formed afterwards
  however the run ends (a report, a probe that raised, or polls that never end).\<close>

theorem execute_keeps_ledger:
  assumes "ledger_wf (w_db w)" "r \<in> set (db_operations (w_db w))" "w_trace w = []"
    and "execute env cfg (r_id r) w = (res, w')"
  shows "ledger_wf (w_db w') \<and> (\<forall>l. res \<noteq> Inl (Ledger_fault l))"
  using execute_safe [OF assms] by (simp add: run_ok_def)

theorem execute_keeps_ledger_witness:
  "\<exists>w'. execute exec_env exec_config 1 (exec_world True) = (Inr exec_report, w') \<and> ledger_wf (w_db w')"
proof -
  obtain w' where "execute exec_env exec_config 1 (exec_world True) = (Inr exec_report, w')"
    using exec_run by blast
  with execute_keeps_ledger [OF exec_start [of True], of exec_env exec_config _ w'] show ?thesis
    by auto
qed

text \<open>The Steam client is stopped only when the last gates read were all clear (no game,
  no Remote Play, no download) and, where a dispatch policy is configured, the last reading of
  the policy permitted the operation.\<close>

theorem client_stopped_only_under_lease:
  assumes "ledger_wf (w_db w)" "r \<in> set (db_operations (w_db w))" "w_trace w = []"
    and "execute env cfg (r_id r) w = (res, w')"
    and "w_trace w' = before @ Stopped_client b # after"
  shows "lease_clear before \<and> policy_ok cfg before"
  using execute_safe [OF assms(1-4)] guardedD [of _ before "Stopped_client b" after] assms(5)
  by (auto simp: run_ok_def)

theorem client_stopped_only_under_lease_witness:
  "lease_clear exec_before_stop \<and> policy_ok exec_config exec_before_stop"
proof -
  obtain w' where "execute exec_env exec_config 1 (exec_world True) = (Inr exec_report, w')"
    "w_trace w' = exec_trace"
    using exec_run by blast
  with client_stopped_only_under_lease [OF exec_start [of True], of exec_env exec_config "Inr exec_report" w'
      exec_before_stop True]
  show ?thesis by (simp add: exec_trace_def)
qed

text \<open>C6. steamcmd is run only when the row has just been moved to \<open>content_running\<close>, the last
  gates were clear with the client gone, no other steamcmd was seen, the window was valid, the
  library was mounted, the ownership marker was written, and the policy permitted it.\<close>

theorem content_runs_only_when_ready:
  assumes "ledger_wf (w_db w)" "r \<in> set (db_operations (w_db w))" "w_trace w = []"
    and "execute env cfg (r_id r) w = (res, w')"
    and "w_trace w' = before @ Ran_content appid # after"
  shows "run_ready cfg before"
  using execute_safe [OF assms(1-4)] guardedD [of _ before "Ran_content appid" after] assms(5)
  by (auto simp: run_ok_def)

theorem content_runs_only_when_ready_witness:
  "run_ready exec_config (exec_before_stop @ Stopped_client True # exec_stop_to_run)"
proof -
  obtain w' where "execute exec_env exec_config 1 (exec_world True) = (Inr exec_report, w')"
    "w_trace w' = exec_trace"
    using exec_run by blast
  with content_runs_only_when_ready [OF exec_start [of True], of exec_env exec_config "Inr exec_report" w'
      "exec_before_stop @ Stopped_client True # exec_stop_to_run" 620]
  show ?thesis by (simp add: exec_trace_def)
qed

text \<open>C7. The client's manifest is replaced only after steamcmd ran in this execution, the row
  was moved to \<open>adopting\<close>, the last gates were clear, the client was last seen not running, the
  window was valid and the policy permitted it.\<close>

theorem adoption_only_after_run:
  assumes "ledger_wf (w_db w)" "r \<in> set (db_operations (w_db w))" "w_trace w = []"
    and "execute env cfg (r_id r) w = (res, w')"
    and "w_trace w' = before @ Adopted b # after"
  shows "adopt_ready cfg before"
  using execute_safe [OF assms(1-4)] guardedD [of _ before "Adopted b" after] assms(5)
  by (auto simp: run_ok_def)

theorem adoption_only_after_run_witness:
  "adopt_ready exec_config
     (exec_before_stop @ Stopped_client True # exec_stop_to_run @ Ran_content 620 # exec_run_to_adopt)"
proof -
  obtain w' where "execute exec_env exec_config 1 (exec_world True) = (Inr exec_report, w')"
    "w_trace w' = exec_trace"
    using exec_run by blast
  with adoption_only_after_run [OF exec_start [of True], of exec_env exec_config "Inr exec_report" w'
      "exec_before_stop @ Stopped_client True # exec_stop_to_run @ Ran_content 620 # exec_run_to_adopt" True]
  show ?thesis by (simp add: exec_trace_def)
qed



text \<open>C9. A game is launched only with the row's intent recorded (\<open>dispatch_pending\<close>), the last
  gates showing no game, no Remote Play and a running client, the window valid and the policy
  permitting it; and one execution launches at most once.\<close>

theorem launched_once_when_ready:
  assumes "ledger_wf (w_db w)" "r \<in> set (db_operations (w_db w))" "w_trace w = []"
    and "execute env cfg (r_id r) w = (res, w')"
    and "w_trace w' = before @ Launched appid b # after"
  shows "launch_ready cfg before \<and> \<not> list_ex is_launch (before @ after)"
proof -
  let ?P = "allowed cfg (r_operation r \<noteq> ''launch'')"
  have g: "guarded ?P (before @ Launched appid b # after)"
    using execute_safe [OF assms(1-4)] assms(5) by (simp add: run_ok_def)
  then have ready: "launch_ready cfg before"
    using guardedD [of ?P before "Launched appid b" after] by simp
  have "\<not> is_launch e" if mem: "e \<in> set after" for e
  proof
    assume "is_launch e"
    then obtain a x where e: "e = Launched a x"
      by (cases e) auto
    obtain mid rest where "after = mid @ e # rest"
      using split_list [OF mem] by blast
    then have "launch_ready cfg (before @ Launched appid b # mid)"
      using guardedD [of ?P "before @ Launched appid b # mid" e rest] g e by simp
    then show False
      by (simp add: launch_ready_def)
  qed
  with ready show ?thesis
    by (auto simp: launch_ready_def list_ex_iff)
qed

theorem launched_once_when_ready_witness:
  "launch_ready exec_config launch_before \<and> \<not> list_ex is_launch (launch_before @ [Moved Dispatched None])"
proof -
  obtain w' where "execute exec_env exec_config 1 (exec_world False) = (Inr launch_report, w')"
    "w_trace w' = launch_trace"
    using launch_run by blast
  with launched_once_when_ready [OF exec_start [of False], of exec_env exec_config "Inr launch_report" w'
      launch_before 620 True "[Moved Dispatched None]"]
  show ?thesis by (simp add: launch_trace_def)
qed

text \<open>The report is honest: \<open>confirmed\<close>, \<open>unconfirmed\<close>, \<open>contradicted\<close>, \<open>failed\<close>,
  \<open>auth_required\<close> and \<open>dispatched\<close> are reported only when the ledger row is in exactly that
  state (\<open>failed\<close> for \<open>auth_required\<close>), and \<open>deferred\<close> only when the row is not terminal.\<close>

theorem report_agrees_with_ledger:
  assumes "ledger_wf (w_db w)" "r \<in> set (db_operations (w_db w))" "w_trace w = []"
    and "execute env cfg (r_id r) w = (Inr rep, w')"
  shows "case state_of (w_db w') (r_id r) of None \<Rightarrow> False | Some s \<Rightarrow>
    (case rp_outcome rep of
       Out_confirmed \<Rightarrow> s = Confirmed
     | Out_unconfirmed \<Rightarrow> s = Unconfirmed
     | Out_contradicted \<Rightarrow> s = Contradicted
     | Out_failed \<Rightarrow> s = Failed
     | Out_auth_required \<Rightarrow> s = Failed
     | Out_dispatched \<Rightarrow> s = Dispatched
     | Out_deferred \<Rightarrow> s \<notin> set terminal_states
     | Out_aborted \<Rightarrow> True)"
  using execute_safe [OF assms]
  by (auto simp: run_ok_def simp del: terminal_simps split: outcome.split)

theorem report_agrees_with_ledger_witness:
  "\<exists>w'. execute exec_env exec_config 1 (exec_world True) = (Inr exec_report, w') \<and>
     state_of (w_db w') 1 = Some Confirmed"
proof -
  obtain w' where "execute exec_env exec_config 1 (exec_world True) = (Inr exec_report, w')"
    using exec_run by blast
  with report_agrees_with_ledger [OF exec_start [of True], of exec_env exec_config exec_report w'] show ?thesis
    by (auto simp: exec_report_def split: option.splits)
qed

end
