(* ===== verification/Reconcile_Props.thy ===== *)
theory Reconcile_Props
  imports Exec_Props
begin

text \<open>
  The properties of \<open>reconcile\<close>, and a crash between the two moves of an adoption as their
  example: the manifest is in place, the journal is still there, the row is \<open>adopting\<close>.
\<close>


section \<open>A crash to recover from\<close>

text \<open>The ledger of the example, reached by the moves the executor makes.\<close>

lemma reach_exec_move:
  assumes "\<exists>es. ledger_reachable (exec_at c s detail prior es)" "to \<in> set (transitions s)" "to \<noteq> Authorized"
  shows "\<exists>es. ledger_reachable (exec_at c to None (new_prior p prior) es)"
proof -
  obtain es where "ledger_reachable (exec_at c s detail prior es)"
    using assms(1) by blast
  from ledger_reachable_step [OF this step_transition [of _ 300 "Suc 0" to None p None]]
  show ?thesis
    using exec_move [OF assms(2,3), of None None p c detail prior es] by auto
qed

lemma reach_exec_adopting: "\<exists>es. ledger_reachable (exec_at True Adopting None (Some True) es)"
proof -
  have "\<exists>es. ledger_reachable (exec_at True Authorized None None es)"
    using reach_exec [of True] exec_db_at [of True] by metis
  from reach_exec_move [OF this, of LeaseAcquired "Some True"]
  have "\<exists>es. ledger_reachable (exec_at True LeaseAcquired None (Some True) es)" by simp
  from reach_exec_move [OF this, of ClientStopping None]
  have "\<exists>es. ledger_reachable (exec_at True ClientStopping None (Some True) es)" by simp
  from reach_exec_move [OF this, of ContentRunning None]
  have "\<exists>es. ledger_reachable (exec_at True ContentRunning None (Some True) es)" by simp
  from reach_exec_move [OF this, of Adopting None]
  show ?thesis by simp
qed

definition crash_disk :: disk where
  "crash_disk = exec_disk\<lparr>d_marker := True, d_manifest := File demo_manifest,
     d_journal := Journal (journal_entry (\<lambda>s. s) demo_paths 1 (7, 11) demo_manifest False)\<rparr>"

definition crash_world :: "event list \<Rightarrow> world" where
  "crash_world es = \<lparr>w_tick = 0, w_db = exec_at True Adopting None (Some True) es, w_disk = crash_disk,
     w_trace = []\<rparr>"

definition crash_before :: "effect list" where
  "crash_before = [Saw_gates (exec_gates 3), Saw_client False]"

definition crash_after :: "effect list" where
  "crash_after = [Moved ClientRestartPending (Some True), Saw_steamcmd (Some False), Started_client True,
     Moved Verifying (Some True)]"

definition crash_trace :: "effect list" where
  "crash_trace = crash_before @ Recovered # crash_after @ [Moved Confirmed (Some True)]"

lemma crash_manifest: "d_manifest crash_disk = File demo_manifest"
  by (simp add: crash_disk_def)

lemma exec_at_find: "\<not> terminal s \<Longrightarrow> find (\<lambda>r. \<not> terminal (r_state r)) (db_operations (exec_at c s detail p es)) =
    Some ((exec_row c)\<lparr>r_state := s, r_detail := detail, r_prior_client_running := p,
        r_updated_at := (if s = Authorized then 200 else 300)\<rparr>)"
  by (simp add: exec_at_def)

lemma crash_active: "active (exec_at True Adopting None p es) = Inr (Some
    ((exec_row True)\<lparr>r_state := Adopting, r_detail := None, r_prior_client_running := p, r_updated_at := 300\<rparr>))"
  using exec_at_find [of Adopting True None p es] exec_get [of Adopting True None p es]
  by (simp add: active_def supported_state_def exec_row_def demo_row_def)

lemma crash_expire: "expire_lapsed 300 (exec_at c Adopting d p es) = (Inr [], exec_at c Adopting d p es)"
proof -
  have "lapsed_rows 300 (db_operations (exec_at c Adopting d p es)) = []"
    by (simp add: lapsed_rows_def exec_at_def lapsed_def)
  moreover have "sql_write (map (expire_row 300) (db_operations (exec_at c Adopting d p es))) (exec_at c Adopting d p es) =
      Inr (exec_at c Adopting d p es)"
    by (simp add: sql_write_def exec_at_def exec_header active_ok_def plan_ok_def unique_on_def expire_row_def lapsed_def)
  ultimately show ?thesis
    by (simp add: expire_lapsed_def transaction_def exec_supported supported_state_def)
qed

lemma crash_recover: "reconcile_adoption (\<lambda>s. s) demo_paths (\<lambda>k. Ok) 620 (Some 1) crash_disk = (Inr Completed, crash_disk)"
  by code_simp

lemmas reconcile_steps = exec_run_simps get_active_def [THEN fun_cong] reconcile_locked_def [THEN fun_cong]
  reconcile_state_def reconcile_adopting_def [THEN fun_cong] adopting_lease_def [THEN fun_cong]
  retire_or_defer_def [THEN fun_cong] restored_or_leave_def [THEN fun_cong] restore_actions_def [THEN fun_cong]
  conclude_verified_def [THEN fun_cong] verified_outcome_def [THEN fun_cong]

lemma crash_run: "\<exists>as w'. reconcile exec_env exec_config (crash_world es) = (Inr as, w') \<and> w_trace w' = crash_trace"
  by (simp add: reconcile_def outcome_of_def reconcile_steps crash_world_def crash_active crash_expire
      crash_recover crash_manifest crash_trace_def crash_before_def crash_after_def)
     (simp add: eval_nat_numeral)

lemma crash_start: obtains es where "ledger_wf (w_db (crash_world es))" "w_trace (crash_world es) = []"
  using reach_exec_adopting ledger_reachable_wf by (fastforce simp: crash_world_def)

lemma crash_reconciled:
  assumes "ledger_wf (w_db (crash_world es))"
  shows "reconciled_row exec_env (crash_world es) = Some
    ((exec_row True)\<lparr>r_state := Adopting, r_detail := None, r_prior_client_running := Some True, r_updated_at := 300\<rparr>)"
proof -
  have "expired_db 300 (exec_at True Adopting None (Some True) es) = exec_at True Adopting None (Some True) es"
    using expire_lapsed_wf [of _ 300] assms crash_expire [of True None "Some True" es]
    by (simp add: crash_world_def)
  then show ?thesis
    using crash_active [of "Some True" es] by (simp add: reconciled_row_def crash_world_def)
qed


section \<open>Reconciliation\<close>

text \<open>Reconciliation never replays work: its trace holds no launch, no steamcmd run and no
  adoption.  No ledger call of it is refused, and the ledger is well formed afterwards.\<close>

theorem reconcile_never_replays:
  assumes "ledger_wf (w_db w)" "w_trace w = []" "reconcile env cfg w = (res, w')"
  shows "(\<forall>a b. Launched a b \<notin> set (w_trace w')) \<and> (\<forall>a. Ran_content a \<notin> set (w_trace w')) \<and>
    (\<forall>b. Adopted b \<notin> set (w_trace w')) \<and> ledger_wf (w_db w') \<and> (\<forall>l. res \<noteq> Inl (Ledger_fault l))"
proof -
  let ?P = "recovers (\<not> dispatching (reconciled_row env w))"
  have g: "guarded ?P (w_trace w')"
    using reconcile_safe [OF assms] by simp
  have "e \<notin> set (w_trace w')" if "\<And>tr. \<not> ?P tr e" for e
    using that guardedD [of ?P _ e] g by (metis split_list)
  then show ?thesis
    using reconcile_safe [OF assms] by simp
qed

theorem reconcile_never_replays_witness:
  "\<exists>es as w'. reconcile exec_env exec_config (crash_world es) = (Inr as, w') \<and> w_trace w' = crash_trace \<and>
     ledger_wf (w_db w') \<and> Launched 620 True \<notin> set (w_trace w')"
proof -
  obtain es where es: "ledger_wf (w_db (crash_world es))" "w_trace (crash_world es) = []"
    by (rule crash_start)
  obtain as w' where run: "reconcile exec_env exec_config (crash_world es) = (Inr as, w')"
    "w_trace w' = crash_trace"
    using crash_run by blast
  from reconcile_never_replays [OF es run(1)] run show ?thesis by blast
qed

text \<open>C13. An interrupted adoption is repaired only when the last gates were all clear and the
  client was seen not running; and reconciliation stops the client only under clear gates.\<close>

theorem reconcile_repairs_under_lease:
  assumes "ledger_wf (w_db w)" "w_trace w = []" "reconcile env cfg w = (res, w')"
    and "w_trace w' = before @ e # after" "e = Recovered \<or> e = Stopped_client b"
  shows "lease_clear before \<and> (e = Recovered \<longrightarrow> client_absent before)"
  using reconcile_safe [OF assms(1-3)] guardedD [of _ before e after] assms(4,5)
  by auto

theorem reconcile_repairs_under_lease_witness:
  "lease_clear crash_before \<and> client_absent crash_before"
proof -
  obtain es where es: "ledger_wf (w_db (crash_world es))" "w_trace (crash_world es) = []"
    by (rule crash_start)
  obtain as w' where run: "reconcile exec_env exec_config (crash_world es) = (Inr as, w')"
    "w_trace w' = crash_trace"
    using crash_run by blast
  from reconcile_repairs_under_lease [OF es run(1), of crash_before Recovered] run(2)
  show ?thesis by (simp add: crash_trace_def)
qed

text \<open>Reconciliation of an operation that is not a pending dispatch makes a state terminal
  only after steamcmd was last seen absent and, when the row records that the client ran
  before, the client was started again with success since it was last stopped.\<close>

theorem reconcile_restores_before_terminal:
  assumes "ledger_wf (w_db w)" "w_trace w = []" "reconcile env cfg w = (res, w')"
    and "\<not> dispatching (reconciled_row env w)"
    and "w_trace w' = before @ Moved t prior # after" "terminal t"
  shows "writer_gone before \<and> client_back prior before"
  using reconcile_safe [OF assms(1-3)] guardedD [of _ before "Moved t prior" after] assms(4-6)
  by auto

theorem reconcile_restores_before_terminal_witness:
  "writer_gone (crash_before @ Recovered # crash_after) \<and>
   client_back (Some True) (crash_before @ Recovered # crash_after)"
proof -
  obtain es where es: "ledger_wf (w_db (crash_world es))" "w_trace (crash_world es) = []"
    by (rule crash_start)
  obtain as w' where run: "reconcile exec_env exec_config (crash_world es) = (Inr as, w')"
    "w_trace w' = crash_trace"
    using crash_run by blast
  from reconcile_restores_before_terminal [OF es run(1), of
      "crash_before @ Recovered # crash_after" Confirmed "Some True" "[]"] run(2)
    crash_reconciled [OF es(1)]
  show ?thesis by (simp add: crash_trace_def dispatching_def)
qed

text \<open>Reconciliation reports everything it leaves: when it returns no action, the operation
  it found active (after expiring lapsed ones) is still only pending confirmation or authorized,
  with no side effect begun.\<close>

theorem reconcile_silent_only_before_start:
  assumes "ledger_wf (w_db w)" "w_trace w = []" "reconcile env cfg w = (Inr [], w')"
    and "reconciled_row env w = Some r" "x \<in> set (db_operations (w_db w'))" "r_id x = r_id r"
  shows "r_state x \<in> {PendingConfirmation, Authorized}"
  using reconcile_safe [OF assms(1-3)] assms(4-6) by simp

theorem reconcile_silent_only_before_start_witness:
  "\<exists>w'. reconcile exec_env exec_config (exec_world True) = (Inr [], w') \<and>
     list_all (\<lambda>x. r_state x = Authorized) (db_operations (w_db w')) \<and>
     r_state (exec_row True) \<in> {PendingConfirmation, Authorized}"
proof -
  let ?r = "exec_row True"
  have wf: "ledger_wf (w_db (exec_world True))" and tr: "w_trace (exec_world True) = []"
    using exec_start(1) [of True] by simp_all
  have quiet: "expire_lapsed 300 (exec_db True) = (Inr [], exec_db True)" "active (exec_db True) = Inr (Some ?r)"
    by code_simp+
  then have "expired_db 300 (exec_db True) = exec_db True"
    using expire_lapsed_wf [of "exec_db True" 300] wf by simp
  with quiet have row: "reconciled_row exec_env (exec_world True) = Some ?r"
    by (simp add: reconciled_row_def exec_world_def)
  obtain w' where run: "reconcile exec_env exec_config (exec_world True) = (Inr [], w')"
    "w_db w' = exec_db True"
    using quiet by (simp add: reconcile_def outcome_of_def reconcile_locked_def get_active_def do_expire_def
        ledger_do_def reading_def seq_def give_def reconcile_state_def exec_world_def)
  have "?r \<in> set (db_operations (w_db w'))"
    using run(2) by (simp add: exec_db_rows)
  from reconcile_silent_only_before_start [OF wf tr run(1) row this refl] run show ?thesis
    by (simp add: exec_db_rows)
qed

end
