(* ===== verification/Runtime.thy ===== *)
theory Runtime
  imports Exec_Monad "HOL-Library.Product_Lexorder"
begin

text \<open>
  Observing and stopping attributed processes: \<open>src/steam_agent/execution/runtime.py\<close>.
  The operating system answers at a moment of the clock \<open>rt_tick\<close>, which every call to it
  advances; \<open>'w\<close> is the state of the caller, which the gate callback may read and change.
  The trace records what was read of which process, what the gate answered and every request
  to exit that was sent.
\<close>


section \<open>Processes and errors\<close>

definition app_id_variables :: "string list" where
  "app_id_variables = [''SteamAppId'', ''SteamGameId'', ''STEAM_COMPAT_APP_ID'']"

definition infrastructure :: "string list" where
  "infrastructure =
     [''steam'', ''steam.exe'', ''steamwebhelper'', ''steamwebhelper.exe'', ''steamservice.exe'',
      ''steamerrorreporter.exe'', ''steamcmd'', ''steamcmd.exe'', ''wineserver'', ''wineserver64'',
      ''reaper'', ''pressure-vessel-wrap'', ''steam-runtime-launcher-service'',
      ''steam-runtime-launch-client'', ''services.exe'', ''winedevice.exe'', ''explorer.exe'']"

text \<open>
  The environment of a process, reduced to the AppID variables; its order is that of
  \<open>app_id_variables\<close>, since no code depends on the order of the dictionary.
\<close>

record process_record =
  pr_pid :: nat
  pr_create_time :: int
  pr_name :: string
  pr_app_environment :: "(string \<times> string) list"
  pr_same_user :: bool
  pr_same_session :: bool

datatype rt_error =
    Probe_error string
  | Stop_request_error string bool "string option"
  | No_such_process
  | Os_error
  | Invalid_stop_request
  | Stuck

datatype 'a reply =
    Reply 'a
  | Gone_process
  | Os_failure

datatype read_result =
    Found process_record
  | Skipped
  | Unreadable

datatype 'w rt_event =
    Listed "nat list"
  | Read_process nat read_result
  | Saw_owner nat nat
  | Gate_asked 'w "bool option"
  | Exit_sent nat bool bool
  | Close_posted nat bool

record 'w rt_world =
  rt_tick :: nat
  rt_trace :: "'w rt_event list"
  rt_username :: "string option"
  rt_session :: "int option"
  rt_outer :: 'w

type_synonym ('w, 'a) rt = "('w rt_world, rt_error, 'a) prog"

record os =
  os_platform :: string
  os_self :: nat
  os_uid :: int
  os_euid :: int
  os_pids :: "nat \<Rightarrow> nat list option"
  os_open :: "nat \<Rightarrow> nat \<Rightarrow> unit reply"
  os_uids :: "nat \<Rightarrow> nat \<Rightarrow> (int \<times> int) reply"
  os_username :: "nat \<Rightarrow> nat \<Rightarrow> string reply"
  os_session :: "nat \<Rightarrow> nat \<Rightarrow> int option"
  os_create_time :: "nat \<Rightarrow> nat \<Rightarrow> int reply"
  os_name :: "nat \<Rightarrow> nat \<Rightarrow> string reply"
  os_dead :: "nat \<Rightarrow> nat \<Rightarrow> bool reply"
  os_environ :: "nat \<Rightarrow> nat \<Rightarrow> (string \<times> string) list reply"
  os_kill :: "nat \<Rightarrow> nat \<Rightarrow> unit reply"
  os_terminate :: "nat \<Rightarrow> nat \<Rightarrow> unit reply"
  os_windows :: "nat \<Rightarrow> nat list option"
  os_owner :: "nat \<Rightarrow> nat \<Rightarrow> nat option"
  os_close :: "nat \<Rightarrow> nat \<Rightarrow> bool"
  os_monotonic :: "nat \<Rightarrow> int"


section \<open>Primitive steps\<close>

definition handle :: "('s, 'e, 'a) prog \<Rightarrow> ('e \<Rightarrow> ('s, 'f, 'a) prog) \<Rightarrow> ('s, 'f, 'a) prog" where
  "handle m h = (\<lambda>s. case m s of (Inl e, t) \<Rightarrow> h e t | (Inr x, t) \<Rightarrow> (Inr x, t))"

text \<open>\<open>except ProbeError\<close>, where no subclass of it can be raised.\<close>

fun on_probe :: "('w, 'a) rt \<Rightarrow> rt_error \<Rightarrow> ('w, 'a) rt" where
  "on_probe m (Probe_error reason) = m"
| "on_probe m e = stop e"

definition look :: "('s \<Rightarrow> 'a) \<Rightarrow> ('s, 'e, 'a) prog" where
  "look f = (\<lambda>s. (Inr (f s), s))"

definition change :: "('s \<Rightarrow> 's) \<Rightarrow> ('s, 'e, unit) prog" where
  "change f = (\<lambda>s. (Inr (), f s))"

definition call :: "(nat \<Rightarrow> 'a) \<Rightarrow> ('w, 'a) rt" where
  "call f = (\<lambda>s. (Inr (f (rt_tick s)), s\<lparr>rt_tick := Suc (rt_tick s)\<rparr>))"

definition log :: "'w rt_event \<Rightarrow> ('w, unit) rt" where
  "log e = (\<lambda>s. (Inr (), s\<lparr>rt_trace := rt_trace s @ [e]\<rparr>))"

definition answer :: "'a reply \<Rightarrow> ('w, 'a) rt" where
  "answer r =
     (case r of Reply x \<Rightarrow> give x | Gone_process \<Rightarrow> stop No_such_process | Os_failure \<Rightarrow> stop Os_error)"

definition ask :: "(nat \<Rightarrow> nat \<Rightarrow> 'a reply) \<Rightarrow> nat \<Rightarrow> ('w, 'a) rt" where
  "ask f pid = seq (call (\<lambda>t. f t pid)) answer"

definition probe :: "(nat \<Rightarrow> 'a option) \<Rightarrow> string \<Rightarrow> ('w, 'a) rt" where
  "probe f reason = seq (call f) (\<lambda>r. case r of None \<Rightarrow> stop (Probe_error reason) | Some x \<Rightarrow> give x)"


section \<open>Attribution\<close>

definition matching :: "string \<Rightarrow> (string \<times> string) list \<Rightarrow> string list" where
  "matching key env = remdups (map snd (filter (\<lambda>(k, v). casefold k = casefold key) env))"

definition app_environment ::
    "string \<Rightarrow> (string \<times> string) list \<Rightarrow> rt_error + (string \<times> string) list" where
  "app_environment platform env =
     (if platform \<noteq> ''win32''
      then Inr (concat (map (\<lambda>k. case map_of env k of None \<Rightarrow> [] | Some v \<Rightarrow> [(k, v)]) app_id_variables))
      else if list_ex (\<lambda>k. 1 < length (matching k env)) app_id_variables
      then Inl (Probe_error ''process_probe_failed'')
      else Inr (concat (map (\<lambda>k. map (Pair k) (matching k env)) app_id_variables)))"

text \<open>An unsigned 32-bit decimal of at most ten digits.\<close>

definition appid_text :: "string \<Rightarrow> int option" where
  "appid_text v =
     (if length v > 10 \<or> v = [] \<or> \<not> list_all is_digit v then None
      else let number = int (decimal_value v) in
        if 0 < number \<and> number \<le> 4294967295 then Some number else None)"

fun appid_values :: "(string \<times> string) list \<Rightarrow> (string \<times> int) list option" where
  "appid_values [] = Some []"
| "appid_values ((k, v) # rest) =
     (case appid_text v of
        None \<Rightarrow> None
      | Some n \<Rightarrow> map_option (Cons (k, n)) (appid_values rest))"

text \<open>The AppID, the variables it was read from, and whether the environment is ambiguous.\<close>

definition attribution :: "process_record \<Rightarrow> int option \<times> string list \<times> bool" where
  "attribution p =
     (if \<not> pr_same_user p \<or> \<not> pr_same_session p then (None, [], False)
      else if casefold (pr_name p) \<in> set infrastructure then (None, [], False)
      else case appid_values (pr_app_environment p) of
        None \<Rightarrow> (None, [], True)
      | Some values \<Rightarrow>
          if length (remdups (map snd values)) > 1 then (None, [], True)
          else (case values of [] \<Rightarrow> None | (k, n) # _ \<Rightarrow> Some n, map fst values, False))"


section \<open>Reading a process\<close>

text \<open>\<open>_identity\<close>; on Windows the invoking user and session are read once and kept.\<close>

definition invoking_user :: "os \<Rightarrow> ('w, unit) rt" where
  "invoking_user os =
     seq (look rt_username) (\<lambda>known.
     if known \<noteq> None then give ()
     else
       seq (ask (os_username os) (os_self os)) (\<lambda>u.
       seq (change (\<lambda>s. s\<lparr>rt_username := Some (casefold u)\<rparr>)) (\<lambda>_.
       seq (probe (\<lambda>t. os_session os t (os_self os)) ''session_probe_failed'') (\<lambda>sid.
       change (\<lambda>s. s\<lparr>rt_session := Some sid\<rparr>)))))"

definition process_identity :: "os \<Rightarrow> nat \<Rightarrow> ('w, bool \<times> bool) rt" where
  "process_identity os pid =
     (if os_platform os = ''linux''
      then seq (ask (os_uids os) pid) (\<lambda>(real, effective).
        give (real = os_uid os \<and> effective = os_euid os, True))
      else if os_platform os = ''win32''
      then
        seq (invoking_user os) (\<lambda>_.
        seq (look (\<lambda>s. (rt_username s, rt_session s))) (\<lambda>(me, mine).
        if mine = Some 0 then stop (Probe_error ''interactive_session_unavailable'')
        else
          seq (probe (\<lambda>t. os_session os t pid) ''session_probe_failed'') (\<lambda>sid.
          if Some sid \<noteq> mine then give (False, False)
          else
            seq (ask (os_username os) pid) (\<lambda>u.
            if Some (casefold u) \<noteq> me then give (False, False) else give (True, True)))))
      else stop (Probe_error ''unsupported_platform''))"

definition read_environment :: "os \<Rightarrow> nat \<Rightarrow> string \<Rightarrow> ('w, (string \<times> string) list) rt" where
  "read_environment os pid pname =
     (if casefold pname \<in> set infrastructure then give []
      else seq (ask (os_environ os) pid) (\<lambda>env.
        case app_environment (os_platform os) env of Inl e \<Rightarrow> stop e | Inr xs \<Rightarrow> give xs))"

definition read_fields :: "os \<Rightarrow> nat \<Rightarrow> ('w, process_record option) rt" where
  "read_fields os pid =
     (if pid = 0 \<or> pid = os_self os then give None
      else
        seq (ask (os_open os) pid) (\<lambda>_.
        seq (process_identity os pid) (\<lambda>(same_user, same_session).
        if \<not> same_user \<or> \<not> same_session then give None
        else
          seq (ask (os_create_time os) pid) (\<lambda>created.
          seq (ask (os_name os) pid) (\<lambda>pname.
          seq (ask (os_dead os) pid) (\<lambda>dead.
          if dead then give None
          else
            seq (read_environment os pid pname) (\<lambda>env.
            seq (ask (os_open os) pid) (\<lambda>_.
            seq (ask (os_create_time os) pid) (\<lambda>again.
            if again \<noteq> created then stop (Probe_error ''process_identity_changed'')
            else give (Some \<lparr>pr_pid = pid, pr_create_time = created, pr_name = pname,
              pr_app_environment = env, pr_same_user = True, pr_same_session = True\<rparr>))))))))))"

text \<open>\<open>PsutilBackend.read\<close>; the trace notes how it ended.\<close>

definition read_process :: "os \<Rightarrow> nat \<Rightarrow> ('w, process_record option) rt" where
  "read_process os pid =
     handle
       (seq (handle (read_fields os pid) (\<lambda>e. case e of
            No_such_process \<Rightarrow> give None
          | Os_error \<Rightarrow> stop (Probe_error ''process_probe_failed'')
          | _ \<Rightarrow> stop e)) (\<lambda>r.
        seq (log (Read_process pid (case r of None \<Rightarrow> Skipped | Some p \<Rightarrow> Found p))) (\<lambda>_. give r)))
       (\<lambda>e. seq (log (Read_process pid Unreadable)) (\<lambda>_. stop e))"


section \<open>Scanning\<close>

text \<open>The processes found, and whether a read of one failed.\<close>

fun scan_pids :: "os \<Rightarrow> nat list \<Rightarrow> ('w, process_record list \<times> bool) rt" where
  "scan_pids os [] = give ([], False)"
| "scan_pids os (pid # pids) =
     seq (handle (seq (read_process os pid) (\<lambda>r. give (Inr r)))
       (on_probe (give (Inl ())))) (\<lambda>r.
     seq (scan_pids os pids) (\<lambda>(records, failed).
     give (case r of
         Inl _ \<Rightarrow> (records, True)
       | Inr None \<Rightarrow> (records, failed)
       | Inr (Some p) \<Rightarrow> (p # records, failed))))"

definition scan :: "os \<Rightarrow> ('w, process_record list \<times> string list) rt" where
  "scan os =
     seq (call (os_pids os)) (\<lambda>listed.
     case listed of
       None \<Rightarrow> give ([], [''process_probe_failed''])
     | Some pids \<Rightarrow>
         seq (log (Listed pids)) (\<lambda>_.
         seq (scan_pids os pids) (\<lambda>(records, failed).
         give (records, if failed then [''process_probe_failed''] else []))))"


section \<open>Observing\<close>

record observed_process =
  ob_appid :: int
  ob_pid :: nat
  ob_create_time :: int
  ob_evidence :: "string list"

datatype observation_state = Observed | Absent_app | Unknown_app

record runtime_observation =
  ro_state :: observation_state
  ro_processes :: "observed_process list"
  ro_reasons :: "string list"

definition unknown_observation :: "string \<Rightarrow> runtime_observation" where
  "unknown_observation reason = \<lparr>ro_state = Unknown_app, ro_processes = [], ro_reasons = [reason]\<rparr>"

definition attributed_to :: "int option \<Rightarrow> process_record \<Rightarrow> observed_process list" where
  "attributed_to appid p =
     (case attribution p of
        (Some a, variables, _) \<Rightarrow>
          if appid = None \<or> appid = Some a
          then [\<lparr>ob_appid = a, ob_pid = pr_pid p, ob_create_time = pr_create_time p, ob_evidence = variables\<rparr>]
          else []
      | (None, _) \<Rightarrow> [])"

definition observation_of :: "int option \<Rightarrow> process_record list \<Rightarrow> string list \<Rightarrow> runtime_observation" where
  "observation_of appid records reasons =
     (let ambiguous = list_ex (\<lambda>p. snd (snd (attribution p))) records;
          reasons = (if ambiguous then [''ambiguous_appid_environment''] else []) @ reasons;
          found = sort_key (\<lambda>o1. (ob_appid o1, ob_pid o1, ob_create_time o1)) (concat (map (attributed_to appid) records))
      in \<lparr>ro_state = (if reasons \<noteq> [] then Unknown_app else if found \<noteq> [] then Observed else Absent_app),
          ro_processes = found, ro_reasons = reasons\<rparr>)"

text \<open>\<open>RuntimeObserver.observe\<close>.\<close>

definition observe_app :: "os \<Rightarrow> int option \<Rightarrow> ('w, runtime_observation) rt" where
  "observe_app os appid =
     (if os_platform os \<noteq> ''linux'' \<and> os_platform os \<noteq> ''win32''
      then give (unknown_observation ''unsupported_platform'')
      else
        handle (seq (scan os) (\<lambda>(records, reasons). give (observation_of appid records reasons)))
          (on_probe (give (unknown_observation ''process_probe_failed''))))"


section \<open>Requesting exit\<close>

type_synonym 'w gate_callback = "('w \<Rightarrow> bool option \<times> 'w) option"

text \<open>\<open>_check_stop_dispatch_gate\<close>; a callback that answers \<open>None\<close> raised.\<close>

definition check_gate :: "'w gate_callback \<Rightarrow> ('w, unit) rt" where
  "check_gate g =
     (case g of
        None \<Rightarrow> give ()
      | Some f \<Rightarrow>
          (\<lambda>s. case f (rt_outer s) of (permitted, w) \<Rightarrow>
             seq (log (Gate_asked w permitted)) (\<lambda>_.
             case permitted of
               None \<Rightarrow> stop (Stop_request_error ''stop_dispatch_gate_unreadable'' False None)
             | Some True \<Rightarrow> give ()
             | Some False \<Rightarrow> stop (Stop_request_error ''stop_dispatch_gate_denied'' False None))
             (s\<lparr>rt_outer := w\<rparr>)))"

definition send_exit :: "(nat \<Rightarrow> nat \<Rightarrow> unit reply) \<Rightarrow> nat \<Rightarrow> bool \<Rightarrow> ('w, unit) rt" where
  "send_exit signal pid force =
     seq (call (\<lambda>t. signal t pid)) (\<lambda>r.
     seq (log (Exit_sent pid force (r = Reply ()))) (\<lambda>_. answer r))"

definition window_owner :: "os \<Rightarrow> nat \<Rightarrow> ('w, nat) rt" where
  "window_owner os window =
     seq (probe (\<lambda>t. os_owner os t window) ''window_owner_unknown'') (\<lambda>pid.
     seq (log (Saw_owner window pid)) (\<lambda>_. give pid))"

fun owned_windows :: "os \<Rightarrow> nat \<Rightarrow> nat list \<Rightarrow> ('w, nat list) rt" where
  "owned_windows os pid [] = give []"
| "owned_windows os pid (w # ws) =
     seq (window_owner os w) (\<lambda>p.
     seq (owned_windows os pid ws) (\<lambda>rest. give (if p = pid then w # rest else rest)))"

definition stop_probe_error :: "string \<Rightarrow> rt_error" where
  "stop_probe_error reason = Stop_request_error ''stop_probe_failed'' False (Some reason)"

definition close_window :: "os \<Rightarrow> process_record \<Rightarrow> 'w gate_callback \<Rightarrow> nat \<Rightarrow> ('w, unit) rt" where
  "close_window os p g window =
     seq (read_process os (pr_pid p)) (\<lambda>fresh.
     if fresh \<noteq> Some p then stop (stop_probe_error ''process_identity_changed'')
     else
       seq (window_owner os window) (\<lambda>owner.
       if owner \<noteq> pr_pid p then stop (stop_probe_error ''window_identity_changed'')
       else
         seq (check_gate g) (\<lambda>_.
         seq (call (\<lambda>t. os_close os t window)) (\<lambda>posted.
         seq (log (Close_posted window posted)) (\<lambda>_.
         if posted then give () else stop (stop_probe_error ''window_close_failed''))))))"

fun close_windows ::
    "os \<Rightarrow> process_record \<Rightarrow> 'w gate_callback \<Rightarrow> bool \<Rightarrow> nat list \<Rightarrow> ('w, bool) rt" where
  "close_windows os p g requested [] = give requested"
| "close_windows os p g requested (w # ws) =
     seq (handle (close_window os p g w) (\<lambda>e. case e of
         Stop_request_error reason sent why \<Rightarrow> stop (Stop_request_error reason (requested \<or> sent) why)
       | Probe_error _ \<Rightarrow> stop (Stop_request_error ''stop_probe_failed'' requested None)
       | Os_error \<Rightarrow> stop (Stop_request_error ''stop_probe_failed'' requested None)
       | _ \<Rightarrow> stop e)) (\<lambda>_.
     close_windows os p g True ws)"

definition windows_close :: "os \<Rightarrow> process_record \<Rightarrow> 'w gate_callback \<Rightarrow> ('w, bool) rt" where
  "windows_close os p g =
     seq (probe (os_windows os) ''window_probe_failed'') (\<lambda>ws.
     seq (owned_windows os (pr_pid p) ws) (\<lambda>targets.
     if targets = [] then give False else close_windows os p g False targets))"

definition request_stop ::
    "os \<Rightarrow> process_record \<Rightarrow> bool \<Rightarrow> 'w gate_callback \<Rightarrow> ('w, bool) rt" where
  "request_stop os p force g =
     handle
       (seq (read_process os (pr_pid p)) (\<lambda>fresh.
        case fresh of
          None \<Rightarrow> give False
        | Some current \<Rightarrow>
            if current \<noteq> p then stop (Probe_error ''process_identity_changed'')
            else
              seq (ask (os_open os) (pr_pid p)) (\<lambda>_.
              seq (ask (os_create_time os) (pr_pid p)) (\<lambda>created.
              if created \<noteq> pr_create_time p then stop (Probe_error ''process_identity_changed'')
              else if force
              then seq (check_gate g) (\<lambda>_. seq (send_exit (os_kill os) (pr_pid p) True) (\<lambda>_. give True))
              else if os_platform os = ''linux''
              then seq (check_gate g) (\<lambda>_. seq (send_exit (os_terminate os) (pr_pid p) False) (\<lambda>_. give True))
              else if os_platform os = ''win32'' then windows_close os p g
              else give False))))
       (\<lambda>e. case e of
          No_such_process \<Rightarrow> give False
        | Os_error \<Rightarrow> stop (Probe_error ''stop_request_failed'')
        | _ \<Rightarrow> stop e)"


section \<open>Stopping an app\<close>

datatype stop_state = Stop_stopped | Stop_absent | Stop_deferred | Stop_unknown

record stop_result =
  sr_state :: stop_state
  sr_reason :: string
  sr_process_count :: nat
  sr_force :: bool
  sr_requested_count :: nat

definition stop_result :: "stop_state \<Rightarrow> string \<Rightarrow> nat \<Rightarrow> bool \<Rightarrow> nat \<Rightarrow> stop_result" where
  "stop_result st reason n force requested =
     \<lparr>sr_state = st, sr_reason = reason, sr_process_count = n, sr_force = force,
      sr_requested_count = requested\<rparr>"

text \<open>One target: a result that ends the run, or the number of requests so far.\<close>

definition stop_target ::
    "os \<Rightarrow> int \<Rightarrow> bool \<Rightarrow> 'w gate_callback \<Rightarrow> nat \<Rightarrow> observed_process \<Rightarrow> nat \<Rightarrow>
       ('w, stop_result + nat) rt" where
  "stop_target os appid force g n target requested =
     handle
       (seq (read_process os (ob_pid target)) (\<lambda>current.
        case current of
          None \<Rightarrow> give (Inr requested)
        | Some p \<Rightarrow>
            (case attribution p of (attributed, _, invalid) \<Rightarrow>
             if pr_create_time p \<noteq> ob_create_time target \<or> invalid \<or> attributed \<noteq> Some appid
             then give (Inl (stop_result Stop_deferred ''process_identity_changed'' n force requested))
             else
               seq (check_gate g) (\<lambda>_.
               seq (request_stop os p force g) (\<lambda>sent.
               give (Inr (if sent then requested + 1 else requested)))))))
       (\<lambda>e. case e of
          Stop_request_error reason sent _ \<Rightarrow>
            give (Inl (stop_result
              (if reason = ''stop_dispatch_gate_denied'' then Stop_deferred else Stop_unknown)
              reason n force (if sent then requested + 1 else requested)))
        | Probe_error _ \<Rightarrow> give (Inl (stop_result Stop_unknown ''stop_probe_failed'' n force requested))
        | _ \<Rightarrow> stop e)"

fun stop_targets ::
    "os \<Rightarrow> int \<Rightarrow> bool \<Rightarrow> 'w gate_callback \<Rightarrow> nat \<Rightarrow> observed_process list \<Rightarrow> nat \<Rightarrow>
       ('w, stop_result + nat) rt" where
  "stop_targets os appid force g n [] requested = give (Inr requested)"
| "stop_targets os appid force g n (target # targets) requested =
     seq (stop_target os appid force g n target requested) (\<lambda>r.
     case r of
       Inl result \<Rightarrow> give (Inl result)
     | Inr requested \<Rightarrow> stop_targets os appid force g n targets requested)"

text \<open>
  The confirmation loop.  \<open>fuel\<close> bounds its rounds; running out of it, a clock that stands
  still, is \<open>Stuck\<close>.  The length of a sleep has no effect here.
\<close>

fun confirm_stop ::
    "os \<Rightarrow> int \<Rightarrow> bool \<Rightarrow> nat \<Rightarrow> nat \<Rightarrow> int \<Rightarrow> nat \<Rightarrow> ('w, stop_result) rt" where
  "confirm_stop os appid force n requested deadline 0 = stop Stuck"
| "confirm_stop os appid force n requested deadline (Suc fuel) =
     seq (observe_app os (Some appid)) (\<lambda>after.
     if ro_state after = Absent_app
     then give (stop_result Stop_stopped ''attributed_processes_exited'' n force requested)
     else if ro_state after = Unknown_app
     then give (stop_result Stop_unknown ''stop_confirmation_unknown'' n force requested)
     else if requested = 0
     then give (stop_result Stop_deferred ''close_request_unavailable'' n force requested)
     else
       seq (call (os_monotonic os)) (\<lambda>now.
       if deadline \<le> now
       then give (stop_result Stop_deferred ''stop_timeout'' n force requested)
       else seq (call (os_monotonic os)) (\<lambda>_.
         confirm_stop os appid force n requested deadline fuel)))"

definition stop_app ::
    "os \<Rightarrow> nat \<Rightarrow> int \<Rightarrow> bool \<Rightarrow> int \<Rightarrow> 'w gate_callback \<Rightarrow> ('w, stop_result) rt" where
  "stop_app os fuel appid force timeout g =
     (if \<not> (0 < appid \<and> appid \<le> 4294967295) \<or> timeout < 0 then stop Invalid_stop_request
      else
        seq (observe_app os (Some appid)) (\<lambda>seen.
        let n = length (ro_processes seen) in
        if ro_state seen = Unknown_app \<and> ro_processes seen = []
        then give (stop_result Stop_unknown ''runtime_observation_unknown'' n force 0)
        else if ro_state seen = Absent_app
        then give (stop_result Stop_absent ''no_attributed_process'' 0 force 0)
        else
          seq (stop_targets os appid force g n (ro_processes seen) 0) (\<lambda>r.
          case r of
            Inl result \<Rightarrow> give result
          | Inr requested \<Rightarrow>
              seq (call (os_monotonic os)) (\<lambda>start.
              confirm_stop os appid force n requested (start + timeout) fuel))))"

end
