(* ===== verification/Client_Exec.thy ===== *)
theory Client_Exec
  imports Executor Policy Runtime
begin

text \<open>
  \<open>ClientExecutor\<close> of \<open>src/steam_agent/execution/client_executor.py\<close>: the executor, and the
  stopping of games through the runtime observer.  A program of the broker acts on the world
  inside the observer's state; a program of the observer acts on that state.
\<close>


section \<open>Composition\<close>

type_synonym 'a client = "(world rt_world, report exit, 'a) prog"

definition in_broker :: "('r, 'a) exec \<Rightarrow> (world rt_world, 'r exit, 'a) prog" where
  "in_broker m = (\<lambda>s. case m (rt_outer s) of (r, w) \<Rightarrow> (r, s\<lparr>rt_outer := w\<rparr>))"

definition observer_fault :: "rt_error \<Rightarrow> fault" where
  "observer_fault e = (if e = Stuck then No_fuel else Probe_fault)"

definition in_observer :: "(world, 'a) rt \<Rightarrow> 'a client" where
  "in_observer m = handle m (\<lambda>e. stop (Raised (observer_fault e)))"

datatype plan_force =
    Force bool
  | Malformed_force
  | Plan_raises

text \<open>
  The operating system; the policy file at a moment, with the TOML reader and the digest as in
  \<open>load_policy\<close>; \<open>force\<close> of a plan document; and the rounds a confirmation may take.
\<close>

record client_env =
  cl_os :: os
  cl_policy_file :: "nat \<Rightarrow> string option"
  cl_toml :: "string \<Rightarrow> toml_table option"
  cl_digest :: "string \<Rightarrow> string"
  cl_plan_force :: "string \<Rightarrow> plan_force"
  cl_fuel :: nat

definition stop_timeout :: int where
  "stop_timeout = 10"

text \<open>A new \<open>RuntimeObserver\<close>: nothing is known yet of the invoking user.\<close>

definition new_observer :: "unit client" where
  "new_observer = change (\<lambda>s. s\<lparr>rt_username := None, rt_session := None\<rparr>)"

definition client_os :: "client_env \<Rightarrow> config \<Rightarrow> os" where
  "client_os cl cfg = (cl_os cl)\<lparr>os_platform := c_platform cfg\<rparr>"


section \<open>The policy of a stop\<close>

definition stop_allowed :: "policy \<Rightarrow> int \<Rightarrow> bool \<Rightarrow> bool" where
  "stop_allowed p appid force \<longleftrightarrow> grant_for p ''stop'' \<noteq> ''deny'' \<and> stop_permitted p appid force"

definition stop_reply :: "policy_error + policy \<Rightarrow> int \<Rightarrow> bool \<Rightarrow> bool option" where
  "stop_reply r appid force = (case r of Inl e \<Rightarrow> None | Inr p \<Rightarrow> Some (stop_allowed p appid force))"

text \<open>\<open>None\<close>: the policy cannot be read.\<close>

definition see_stop_policy :: "client_env \<Rightarrow> int \<Rightarrow> bool \<Rightarrow> ('r, bool option) exec" where
  "see_stop_policy cl appid force =
     observe (\<lambda>t. stop_reply (load_policy (cl_toml cl) (cl_digest cl) (cl_policy_file cl t)) appid force)
       (\<lambda>r. [Saw_policy (r = Some True)])"

text \<open>\<open>before_request\<close>: read again before each request; any exception is a refusal.\<close>

definition before_request ::
    "env \<Rightarrow> client_env \<Rightarrow> nat \<Rightarrow> int \<Rightarrow> bool \<Rightarrow> world \<Rightarrow> bool option \<times> world" where
  "before_request env cl i appid force w =
     (case (seq (see_stop_policy cl appid force) (\<lambda>reply.
            if reply = Some True then see_window env i else give False) :: (report, bool) exec) w of
        (Inr b, w') \<Rightarrow> (Some b, w')
      | (Inl _, w') \<Rightarrow> (Some False, w'))"


section \<open>Stopping\<close>

definition plan_force_of :: "env \<Rightarrow> client_env \<Rightarrow> nat \<Rightarrow> (report, bool) exec" where
  "plan_force_of env cl i =
     seq (ledger_do env (\<lambda>now. reading (plan_document (cl_plan_force cl) i)) (\<lambda>_ _. [])) (\<lambda>f.
     case f of
       Force b \<Rightarrow> give b
     | Malformed_force \<Rightarrow> deferred i ''malformed force request''
     | Plan_raises \<Rightarrow> fault Probe_fault)"

definition stop_intake :: "env \<Rightarrow> client_env \<Rightarrow> nat \<Rightarrow> op_row \<Rightarrow> (report, bool) exec" where
  "stop_intake env cl i op =
     (if r_state op \<noteq> Authorized then aborted i (''not executable: '' @ state_name (r_state op))
      else
        seq (require_window env i ''execution window lapsed'') (\<lambda>_.
        plan_force_of env cl i))"

text \<open>Intent is recorded only after the policy and the window were read again.\<close>

definition stop_intent :: "env \<Rightarrow> client_env \<Rightarrow> nat \<Rightarrow> op_row \<Rightarrow> bool \<Rightarrow> (report, unit) exec" where
  "stop_intent env cl i op force =
     seq (see_stop_policy cl (r_appid op) force) (\<lambda>reply.
     case reply of
       None \<Rightarrow> deferred i ''policy unreadable before stop''
     | Some False \<Rightarrow>
         seq (move env i Aborted (Some ''stop policy revoked'')) (\<lambda>_. aborted i ''stop policy revoked'')
     | Some True \<Rightarrow>
         seq (require_window env i ''execution window lapsed'') (\<lambda>_.
         move_from env i DispatchPending None None (Some Authorized)))"

fun stop_state_name :: "stop_state \<Rightarrow> string" where
  "stop_state_name Stop_stopped = ''stopped''"
| "stop_state_name Stop_absent = ''absent''"
| "stop_state_name Stop_deferred = ''deferred''"
| "stop_state_name Stop_unknown = ''unknown''"

definition stop_detail :: "stop_result \<Rightarrow> string" where
  "stop_detail res =
     ''stop '' @ stop_state_name (sr_state res) @ '': '' @ sr_reason res @ ''; requested '' @
     show_nat (sr_requested_count res) @ '' attributed processes''"

definition stop_conclude :: "env \<Rightarrow> nat \<Rightarrow> stop_result \<Rightarrow> (report, report) exec" where
  "stop_conclude env i res =
     (if sr_state res = Stop_stopped \<or> sr_state res = Stop_absent
      then seq (move env i Dispatched (Some (stop_detail res))) (\<lambda>_.
        give (report i Out_dispatched (stop_detail res)))
      else seq (move env i Unconfirmed (Some (stop_detail res))) (\<lambda>_.
        give (report i Out_unconfirmed (stop_detail res))))"

definition execute_stop :: "env \<Rightarrow> client_env \<Rightarrow> config \<Rightarrow> nat \<Rightarrow> op_row \<Rightarrow> report client" where
  "execute_stop env cl cfg i op =
     seq (in_broker (stop_intake env cl i op)) (\<lambda>force.
     seq new_observer (\<lambda>_.
     seq (in_observer (observe_app (client_os cl cfg) (Some (r_appid op)))) (\<lambda>seen.
     if ro_state seen = Unknown_app \<and> ro_processes seen = []
     then in_broker (deferred i ''runtime observation unknown'')
     else
       seq (in_broker (stop_intent env cl i op force)) (\<lambda>_.
       seq (in_observer (stop_app (client_os cl cfg) (cl_fuel cl) (r_appid op) force stop_timeout
         (Some (before_request env cl i (r_appid op) force)))) (\<lambda>res.
       in_broker (stop_conclude env i res))))))"


section \<open>Dispatch\<close>

definition client_locked :: "env \<Rightarrow> client_env \<Rightarrow> config \<Rightarrow> nat \<Rightarrow> report client" where
  "client_locked env cl cfg i =
     seq (in_broker (get_operation env i)) (\<lambda>op.
     if r_operation op = ''launch'' \<and> c_platform cfg \<notin> {''linux'', ''win32''}
     then in_broker (deferred i ''client execution requires Windows or Linux'')
     else if r_operation op \<noteq> ''stop''
     then
       if c_platform cfg \<noteq> ''linux'' \<and> r_operation op \<in> {''install'', ''verify''}
       then in_broker (deferred i ''content execution requires a qualified Linux host'')
       else in_broker (execute_locked env cfg i)
     else execute_stop env cl cfg i op)"

definition client_execute ::
    "env \<Rightarrow> client_env \<Rightarrow> config \<Rightarrow> nat \<Rightarrow> world rt_world \<Rightarrow> (fault + report) \<times> world rt_world" where
  "client_execute env cl cfg i s = (case client_locked env cl cfg i s of (r, s') \<Rightarrow> (outcome_of r, s'))"

end
