(* ===== verification/Runtime_Facts.thy ===== *)
theory Runtime_Facts
  imports Runtime
begin

text \<open>
  What the steps of the runtime observer do to the trace and to the caller's state: the reads
  of the operating system are quiet, a read logs one event, a scan one per process listed.
\<close>


section \<open>Handlers\<close>

lemma wp_handle [wp_rules]: "wp (handle m h) Q E s = wp m Q (\<lambda>e. wp (h e) Q E) s"
  by (simp add: wp_def handle_def split: prod.split sum.split)

lemma wp_keeps: "keeps I m \<longleftrightarrow> (\<forall>s. I s \<longrightarrow> wp m (\<lambda>_. I) (\<lambda>_. I) s)"
  unfolding keeps_def wp_def by (auto split: prod.splits sum.splits) (metis prod.collapse sumE)

lemma wp_call [wp_rules]: "wp (call f) Q E s = Q (f (rt_tick s)) (s\<lparr>rt_tick := Suc (rt_tick s)\<rparr>)"
  by (simp add: wp_def call_def)

lemma wp_log [wp_rules]: "wp (log e) Q E s = Q () (s\<lparr>rt_trace := rt_trace s @ [e]\<rparr>)"
  by (simp add: wp_def log_def)


lemma wp_look [wp_rules]: "wp (look f) Q E s = Q (f s) s"
  by (simp add: wp_def look_def)

lemma wp_change [wp_rules]: "wp (change f) Q E s = Q () (f s)"
  by (simp add: wp_def change_def)


section \<open>Quiet steps\<close>

definition plain_error :: "rt_error \<Rightarrow> bool" where
  "plain_error e \<longleftrightarrow> e = No_such_process \<or> e = Os_error \<or> (\<exists>reason. e = Probe_error reason)"

text \<open>Reading: no event, the caller's state untouched, an error of the platform at most.\<close>

definition same_log :: "'w rt_world \<Rightarrow> 'w rt_world \<Rightarrow> bool" where
  "same_log s t \<longleftrightarrow> rt_trace t = rt_trace s \<and> rt_outer t = rt_outer s \<and> rt_tick s \<le> rt_tick t"

definition quiet :: "('w, 'a) rt \<Rightarrow> bool" where
  "quiet m \<longleftrightarrow> (\<forall>s. wp m (\<lambda>_. same_log s) (\<lambda>e t. plain_error e \<and> same_log s t) s)"

named_theorems quiet_rules \<open>quiet programs\<close>

lemma same_log_refl [simp]: "same_log s s"
  by (simp add: same_log_def)

lemma same_log_trans: "same_log s t \<Longrightarrow> same_log t u \<Longrightarrow> same_log s u"
  by (auto simp: same_log_def)

lemma plain_error_simps [simp]:
  "plain_error (Probe_error reason)" "plain_error No_such_process" "plain_error Os_error"
  "\<not> plain_error (Stop_request_error r b w)" "\<not> plain_error Stuck" "\<not> plain_error Invalid_stop_request"
  by (simp_all add: plain_error_def)

lemma quiet_wp: "quiet m \<Longrightarrow> wp m (\<lambda>_. same_log s) (\<lambda>e t. plain_error e \<and> same_log s t) s"
  by (simp add: quiet_def)

lemma quiet_give [quiet_rules]: "quiet (give x)"
  by (simp add: quiet_def wp_give)

lemma quiet_stop [quiet_rules]: "plain_error e \<Longrightarrow> quiet (stop e)"
  by (simp add: quiet_def wp_stop)

lemma quiet_seq [quiet_rules]:
  assumes "quiet m" "\<And>x. quiet (f x)"
  shows "quiet (seq m f)"
  unfolding quiet_def wp_seq
proof
  fix s
  show "wp m (\<lambda>x. wp (f x) (\<lambda>_. same_log s) (\<lambda>e t. plain_error e \<and> same_log s t))
      (\<lambda>e t. plain_error e \<and> same_log s t) s"
  proof (rule wp_mono [OF quiet_wp [OF assms(1)]])
    fix x t
    assume "same_log s t"
    then show "wp (f x) (\<lambda>_. same_log s) (\<lambda>e t. plain_error e \<and> same_log s t) t"
      using quiet_wp [OF assms(2), of x t] by (auto elim!: wp_mono intro: same_log_trans)
  qed auto
qed

lemma quiet_if [quiet_rules]: "quiet m \<Longrightarrow> quiet n \<Longrightarrow> quiet (if c then m else n)"
  by simp

lemma quiet_case_option [quiet_rules]:
  "quiet m \<Longrightarrow> (\<And>y. quiet (f y)) \<Longrightarrow> quiet (case x of None \<Rightarrow> m | Some y \<Rightarrow> f y)"
  by (simp split: option.split)

lemma quiet_case_prod [quiet_rules]: "(\<And>y z. quiet (f y z)) \<Longrightarrow> quiet (case x of (y, z) \<Rightarrow> f y z)"
  by (simp split: prod.split)

lemma quiet_call [quiet_rules]: "quiet (call f)"
  by (simp add: quiet_def wp_call same_log_def)

lemma quiet_answer [quiet_rules]: "quiet (answer r)"
  by (cases r) (simp_all add: answer_def quiet_rules)

lemma quiet_ask [quiet_rules]: "quiet (ask f pid)"
  unfolding ask_def by (intro quiet_rules)

lemma quiet_probe [quiet_rules]: "quiet (probe f reason)"
  unfolding probe_def by (intro quiet_rules) simp

lemma app_environment_error: "app_environment platform env = Inl e \<Longrightarrow> plain_error e"
  by (auto simp: app_environment_def split: if_splits)

lemma quiet_look [quiet_rules]: "quiet (look f)"
  by (simp add: quiet_def wp_rules)

lemma quiet_change [quiet_rules]: "(\<And>s. same_log s (f s)) \<Longrightarrow> quiet (change f)"
  by (simp add: quiet_def wp_rules)

lemma quiet_invoking_user [quiet_rules]: "quiet (invoking_user os)"
  unfolding invoking_user_def by (intro quiet_rules) (simp_all add: same_log_def)

lemma quiet_process_identity [quiet_rules]: "quiet (process_identity os pid)"
  unfolding process_identity_def by (intro quiet_rules) simp_all

lemma quiet_read_environment [quiet_rules]: "quiet (read_environment os pid pname)"
  unfolding read_environment_def
  by (intro quiet_rules) (auto split: sum.split intro!: quiet_rules dest: app_environment_error)

lemma quiet_read_fields: "quiet (read_fields os pid)"
  unfolding read_fields_def by (intro quiet_rules) simp_all

lemma quietD:
  assumes "quiet m" "\<And>x t. same_log s t \<Longrightarrow> Q x t" "\<And>e t. plain_error e \<Longrightarrow> same_log s t \<Longrightarrow> E e t"
  shows "wp m Q E s"
  using wp_mono [OF quiet_wp [OF assms(1)]] assms(2,3) by blast


section \<open>Reading a process\<close>

lemma read_fields_found:
  "wp (read_fields os pid) (\<lambda>r t. \<forall>p. r = Some p \<longrightarrow>
     pr_pid p = pid \<and> pr_same_user p \<and> pr_same_session p \<and> pid \<noteq> 0 \<and> pid \<noteq> os_self os) (\<lambda>_ _. True) s"
proof -
  have *: "wp m (\<lambda>x. wp (f x) Q E) E s" if "\<And>x t. wp (f x) Q E t" "\<And>e t. E e t" for m f Q E and s :: "'w rt_world"
    using that by (auto simp: wp_def split: prod.split sum.split)
  show ?thesis
    unfolding read_fields_def
    by (auto simp: wp_rules split: prod.split intro!: *)
qed

definition read_event :: "process_record option \<Rightarrow> read_result" where
  "read_event r = (case r of None \<Rightarrow> Skipped | Some p \<Rightarrow> Found p)"

definition logged :: "'w rt_world \<Rightarrow> 'w rt_event list \<Rightarrow> 'w rt_world \<Rightarrow> bool" where
  "logged s es t \<longleftrightarrow> rt_trace t = rt_trace s @ es \<and> rt_outer t = rt_outer s \<and> rt_tick s \<le> rt_tick t"

lemma logged_trans: "logged s es t \<Longrightarrow> logged t fs u \<Longrightarrow> logged s (es @ fs) u"
  by (auto simp: logged_def)

lemma same_log_logged: "same_log s t \<longleftrightarrow> logged s [] t"
  by (simp add: same_log_def logged_def)

lemma wp_read_process:
  assumes found: "\<And>r t. logged s [Read_process pid (read_event r)] t \<Longrightarrow>
      (\<forall>p. r = Some p \<longrightarrow> pr_pid p = pid \<and> pr_same_user p \<and> pr_same_session p \<and> pid \<noteq> os_self os) \<Longrightarrow> Q r t"
    and error: "\<And>reason t. logged s [Read_process pid Unreadable] t \<Longrightarrow> E (Probe_error reason) t"
  shows "wp (read_process os pid) Q E s"
proof -
  have "wp (read_fields os pid)
      (\<lambda>r t. same_log s t \<and> (\<forall>p. r = Some p \<longrightarrow>
         pr_pid p = pid \<and> pr_same_user p \<and> pr_same_session p \<and> pid \<noteq> os_self os))
      (\<lambda>e t. plain_error e \<and> same_log s t) s"
    using read_fields_found [of os pid s] quiet_read_fields [unfolded quiet_def, THEN spec, of os pid s]
    by (auto simp: wp_def split: prod.splits sum.splits)
  then show ?thesis
    unfolding read_process_def wp_rules read_event_def [symmetric]
  proof (rule wp_mono)
    fix r :: "process_record option" and t
    assume "same_log s t \<and> (\<forall>p. r = Some p \<longrightarrow>
         pr_pid p = pid \<and> pr_same_user p \<and> pr_same_session p \<and> pid \<noteq> os_self os)"
    then show "Q r (t\<lparr>rt_trace := rt_trace t @ [Read_process pid (read_event r)]\<rparr>)"
      by (intro found) (auto simp: same_log_def logged_def)
  next
    fix e t
    assume "plain_error e \<and> same_log s t"
    then show "wp (case e of No_such_process \<Rightarrow> give None | Os_error \<Rightarrow> stop (Probe_error ''process_probe_failed'')
        | _ \<Rightarrow> stop e)
      (\<lambda>x s. Q x (s\<lparr>rt_trace := rt_trace s @ [Read_process pid (read_event x)]\<rparr>))
      (\<lambda>e s. E e (s\<lparr>rt_trace := rt_trace s @ [Read_process pid Unreadable]\<rparr>)) t"
      by (auto simp: plain_error_def wp_rules same_log_def logged_def read_event_def
          intro!: found [of None, unfolded read_event_def, simplified] error)
  qed
qed


section \<open>Scanning and observing\<close>

definition reads :: "nat list \<Rightarrow> read_result list \<Rightarrow> 'w rt_event list" where
  "reads pids rs = map2 Read_process pids rs"

definition found_records :: "read_result list \<Rightarrow> process_record list" where
  "found_records rs = concat (map (\<lambda>r. case r of Found p \<Rightarrow> [p] | _ \<Rightarrow> []) rs)"

lemma wp_scan_pids:
  assumes "\<And>rs t. length rs = length pids \<Longrightarrow> logged s (reads pids rs) t \<Longrightarrow>
      (\<forall>p. \<forall>r \<in> set rs. r = Found p \<longrightarrow> pr_same_user p \<and> pr_same_session p) \<Longrightarrow>
      Q (found_records rs, Unreadable \<in> set rs) t"
  shows "wp (scan_pids os pids) Q E s"
  using assms
proof (induction pids arbitrary: s Q)
  case Nil
  from Nil [of "[]" s] show ?case
    by (simp add: wp_rules logged_def reads_def found_records_def)
next
  case (Cons pid pids)
  show ?case
    unfolding scan_pids.simps wp_rules
  proof (rule wp_read_process)
    fix r :: "process_record option" and t
    assume t: "logged s [Read_process pid (read_event r)] t"
      and r: "\<forall>p. r = Some p \<longrightarrow> pr_pid p = pid \<and> pr_same_user p \<and> pr_same_session p \<and> pid \<noteq> os_self os"
    show "wp (scan_pids os pids)
       (\<lambda>x. wp (case x of (records, failed) \<Rightarrow>
          give (case Inr r of Inl _ \<Rightarrow> (records, True) | Inr None \<Rightarrow> (records, failed)
            | Inr (Some p) \<Rightarrow> (p # records, failed))) Q E) E t"
    proof (rule Cons.IH)
      fix rs u
      assume "length rs = length pids" "logged t (reads pids rs) u"
        "\<forall>p. \<forall>r \<in> set rs. r = Found p \<longrightarrow> pr_same_user p \<and> pr_same_session p"
      with r t have "Q (found_records (read_event r # rs), Unreadable \<in> set (read_event r # rs)) u"
        by (intro Cons.prems) (auto simp: reads_def logged_def read_event_def split: option.splits)
      then show "wp (case (found_records rs, Unreadable \<in> set rs) of (records, failed) \<Rightarrow>
          give (case Inr r of Inl _ \<Rightarrow> (records, True) | Inr None \<Rightarrow> (records, failed)
            | Inr (Some p) \<Rightarrow> (p # records, failed))) Q E u"
        by (simp add: wp_rules found_records_def read_event_def split: option.splits)
    qed
  next
    fix reason t
    assume t: "logged s [Read_process pid Unreadable] t"
    have "wp (scan_pids os pids) (\<lambda>x. wp (case x of (records, failed) \<Rightarrow> give (records, True)) Q E) E t"
    proof (rule Cons.IH)
      fix rs u
      assume "length rs = length pids" "logged t (reads pids rs) u"
        "\<forall>p. \<forall>r \<in> set rs. r = Found p \<longrightarrow> pr_same_user p \<and> pr_same_session p"
      with t have "Q (found_records (Unreadable # rs), Unreadable \<in> set (Unreadable # rs)) u"
        by (intro Cons.prems) (auto simp: reads_def logged_def)
      then show "wp (case (found_records rs, Unreadable \<in> set rs) of (records, failed) \<Rightarrow> give (records, True)) Q E u"
        by (simp add: wp_rules found_records_def)
    qed
    then show "wp (on_probe (give (Inl ())) (Probe_error reason))
       (\<lambda>x. wp (scan_pids os pids)
          (\<lambda>y. wp (case y of (records, failed) \<Rightarrow>
             give (case x of Inl _ \<Rightarrow> (records, True) | Inr None \<Rightarrow> (records, failed)
               | Inr (Some p) \<Rightarrow> (p # records, failed))) Q E) E) E t"
      by (simp add: wp_rules)
  qed
qed

lemma wp_scan:
  assumes none: "\<And>t. logged s [] t \<Longrightarrow> Q ([], [''process_probe_failed'']) t"
    and some: "\<And>pids rs t. length rs = length pids \<Longrightarrow> logged s (Listed pids # reads pids rs) t \<Longrightarrow>
      Q (found_records rs, if Unreadable \<in> set rs then [''process_probe_failed''] else []) t"
  shows "wp (scan os) Q E s"
proof (cases "os_pids os (rt_tick s)")
  case None
  then show ?thesis
    by (simp add: scan_def wp_rules none logged_def)
next
  case (Some pids)
  have "wp (scan_pids os pids) (\<lambda>x. wp (case x of (records, failed) \<Rightarrow>
      give (records, if failed then [''process_probe_failed''] else [])) Q E) E
      (s\<lparr>rt_tick := Suc (rt_tick s), rt_trace := rt_trace s @ [Listed pids]\<rparr>)"
  proof (rule wp_scan_pids)
    fix rs t
    assume "length rs = length pids" "logged (s\<lparr>rt_tick := Suc (rt_tick s), rt_trace := rt_trace s @ [Listed pids]\<rparr>) (reads pids rs) t"
    then show "wp (case (found_records rs, Unreadable \<in> set rs) of (records, failed) \<Rightarrow>
      give (records, if failed then [''process_probe_failed''] else [])) Q E t"
      using some [of rs pids t] by (simp add: wp_rules logged_def)
  qed
  with Some show ?thesis
    by (simp add: scan_def wp_rules)
qed

lemma wp_observe_app:
  assumes none: "\<And>reason t. logged s [] t \<Longrightarrow> Q (observation_of appid [] [reason]) t"
    and some: "\<And>pids rs t. length rs = length pids \<Longrightarrow> logged s (Listed pids # reads pids rs) t \<Longrightarrow>
      Q (observation_of appid (found_records rs)
        (if Unreadable \<in> set rs then [''process_probe_failed''] else [])) t"
  shows "wp (observe_app os appid) Q E s"
proof -
  have unknown: "unknown_observation reason = observation_of appid [] [reason]" for reason
    by (simp add: unknown_observation_def observation_of_def)
  show ?thesis
    unfolding observe_app_def wp_rules
    by (split if_split, intro conjI impI wp_scan)
       (simp_all add: wp_rules unknown none some none [OF same_log_refl [unfolded same_log_logged]]
         split del: if_split)
qed


section \<open>Earned requests\<close>

definition attributed_app :: "int \<Rightarrow> process_record \<Rightarrow> bool" where
  "attributed_app appid p \<longleftrightarrow> (\<exists>variables. attribution p = (Some appid, variables, False))"

definition approval :: "bool \<Rightarrow> 'w \<Rightarrow> 'w rt_event list" where
  "approval gated w = (if gated then [Gate_asked w (Some True)] else [])"

text \<open>
  A request to exit is earned by what happened right before it: the process was read again and
  attributed to the app, a window still belonged to it, and then the gate permitted.
\<close>

definition earned_at :: "bool \<Rightarrow> bool \<Rightarrow> int \<Rightarrow> 'w rt_event list \<Rightarrow> 'w rt_event \<Rightarrow> bool" where
  "earned_at gated force appid us e \<longleftrightarrow>
     (case e of
        Exit_sent pid forced _ \<Rightarrow>
          forced = force \<and> (\<exists>p w. suffix (Read_process pid (Found p) # approval gated w) us \<and>
            pr_pid p = pid \<and> attributed_app appid p)
      | Close_posted window _ \<Rightarrow>
          \<not> force \<and> (\<exists>p w. suffix (Read_process (pr_pid p) (Found p) # Saw_owner window (pr_pid p) # approval gated w) us \<and> attributed_app appid p)
      | _ \<Rightarrow> True)"

definition earned :: "bool \<Rightarrow> bool \<Rightarrow> int \<Rightarrow> 'w rt_event list \<Rightarrow> bool" where
  "earned gated force appid es \<longleftrightarrow>
     (\<forall>us e vs. es = us @ e # vs \<longrightarrow> earned_at gated force appid us e)"

fun accepts :: "'w rt_event \<Rightarrow> bool" where
  "accepts (Exit_sent _ _ b) = b"
| "accepts (Close_posted _ b) = b"
| "accepts _ = False"

definition accepted :: "'w rt_event list \<Rightarrow> bool" where
  "accepted es \<longleftrightarrow> list_ex accepts es"

fun reading_event :: "'w rt_event \<Rightarrow> bool" where
  "reading_event (Exit_sent _ _ _) = False"
| "reading_event (Close_posted _ _) = False"
| "reading_event _ = True"

lemma accepted_simps [simp]:
  "\<not> accepted []" "accepted (es @ fs) \<longleftrightarrow> accepted es \<or> accepted fs" "accepted (e # es) \<longleftrightarrow> accepts e \<or> accepted es"
  by (simp_all add: accepted_def)

lemma earned_Nil [simp]: "earned gated force appid []"
  by (simp add: earned_def)

lemma earned_snoc:
  "earned gated force appid (es @ [e]) \<longleftrightarrow> earned gated force appid es \<and> earned_at gated force appid es e"
proof
  assume *: "earned gated force appid es \<and> earned_at gated force appid es e"
  show "earned gated force appid (es @ [e])"
    unfolding earned_def
  proof (intro allI impI)
    fix us e' vs
    assume "es @ [e] = us @ e' # vs"
    then show "earned_at gated force appid us e'"
      using * by (cases vs rule: rev_cases) (auto simp: earned_def)
  qed
qed (auto simp: earned_def)

lemma earned_at_prefix: "earned_at gated force appid us e \<Longrightarrow> earned_at gated force appid (pre @ us) e"
  unfolding earned_at_def using suffix_appendI [of _ us pre] by (cases e) (simp_all, blast+)

lemma earned_append:
  "earned gated force appid es \<Longrightarrow> earned gated force appid fs \<Longrightarrow> earned gated force appid (es @ fs)"
proof (induction fs rule: rev_induct)
  case (snoc f fs)
  then show ?case
    by (simp add: earned_snoc earned_at_prefix append_assoc [symmetric] del: append_assoc)
qed simp

lemma earned_at_reading: "reading_event e \<Longrightarrow> earned_at gated force appid us e"
  by (cases e) (simp_all add: earned_at_def)

lemma earned_reading: "list_all reading_event es \<Longrightarrow> earned gated force appid es"
  by (induction es rule: rev_induct) (simp_all add: earned_snoc earned_at_reading)

lemma accepted_reading: "list_all reading_event es \<Longrightarrow> \<not> accepted es"
proof (induction es)
  case (Cons e es)
  then show ?case by (cases e) simp_all
qed simp

lemma reading_events [simp]:
  "list_all reading_event (approval gated w)" "list_all reading_event (reads pids rs)"
  by (auto simp: approval_def reads_def list_all_iff set_zip)


section \<open>The gate\<close>

lemma wp_check_gate:
  assumes granted: "\<And>w t. rt_trace t = rt_trace s @ approval (g \<noteq> None) w \<Longrightarrow> rt_tick t = rt_tick s \<Longrightarrow> Q () t"
    and denied: "\<And>w b reason t. rt_trace t = rt_trace s @ [Gate_asked w b] \<Longrightarrow> rt_tick t = rt_tick s \<Longrightarrow>
      E (Stop_request_error reason False None) t"
  shows "wp (check_gate g) Q E s"
proof (cases g)
  case None
  then show ?thesis
    using granted [of s] by (simp add: check_gate_def wp_rules approval_def)
next
  case (Some f)
  obtain b w where f: "f (rt_outer s) = (b, w)"
    by (cases "f (rt_outer s)")
  have "wp (seq (log (Gate_asked w b)) (\<lambda>_. case b of
       None \<Rightarrow> stop (Stop_request_error ''stop_dispatch_gate_unreadable'' False None)
     | Some True \<Rightarrow> give ()
     | Some False \<Rightarrow> stop (Stop_request_error ''stop_dispatch_gate_denied'' False None))) Q E (s\<lparr>rt_outer := w\<rparr>)"
    using Some granted [of _ w] denied [of _ w b]
    by (auto simp: wp_rules approval_def split: option.split bool.split)
  with Some f show ?thesis
    by (simp add: check_gate_def wp_def)
qed

end
