(* ===== verification/Runtime_Props.thy ===== *)
theory Runtime_Props
  imports Runtime_Facts
begin

text \<open>
  The properties of stopping an app: every request to exit is earned, the counts are honest,
  an exit is only claimed after a complete scan, and the confirmation ends.
\<close>


section \<open>Segments of the trace\<close>

definition seg :: "bool \<Rightarrow> bool \<Rightarrow> int \<Rightarrow> 'w rt_world \<Rightarrow> 'w rt_event list \<Rightarrow> 'w rt_world \<Rightarrow> bool" where
  "seg gated force appid s es t \<longleftrightarrow> rt_trace t = rt_trace s @ es \<and> earned gated force appid es"

lemma seg_trans:
  "seg gated force appid s es t \<Longrightarrow> seg gated force appid t fs u \<Longrightarrow> seg gated force appid s (es @ fs) u"
  by (simp add: seg_def earned_append)

lemma seg_reading: "rt_trace t = rt_trace s @ es \<Longrightarrow> list_all reading_event es \<Longrightarrow> seg gated force appid s es t"
  by (simp add: seg_def earned_reading)

lemma seg_refl [simp]: "seg gated force appid s [] s"
  by (simp add: seg_def)

text \<open>A segment in which every request was earned and \<open>b\<close> says whether one was accepted.\<close>

definition did :: "bool \<Rightarrow> bool \<Rightarrow> int \<Rightarrow> 'w rt_world \<Rightarrow> bool \<Rightarrow> 'w rt_world \<Rightarrow> bool" where
  "did gated force appid s b t \<longleftrightarrow> (\<exists>es. seg gated force appid s es t \<and> accepted es = b)"

lemma did_trans:
  "did gated force appid s a t \<Longrightarrow> did gated force appid t b u \<Longrightarrow> did gated force appid s (a \<or> b) u"
  unfolding did_def by (metis seg_trans accepted_simps(2))

lemma did_reading:
  "rt_trace t = rt_trace s @ es \<Longrightarrow> list_all reading_event es \<Longrightarrow> did gated force appid s False t"
  unfolding did_def by (intro exI [of _ es]) (simp add: seg_reading accepted_reading)

lemma did_nothing: "rt_trace t = rt_trace s \<Longrightarrow> did gated force appid s False t"
  by (rule did_reading [of _ _ "[]"]) simp_all

lemma did_after_nothing: "did gated force appid t b u \<Longrightarrow> did gated force appid s False t \<Longrightarrow> did gated force appid s b u"
  using did_trans [of gated force appid s False t b u] by simp

text \<open>An error of a request, and whether anything had been accepted before it.\<close>

definition request_error :: "rt_error \<Rightarrow> bool \<Rightarrow> bool" where
  "request_error e sent \<longleftrightarrow>
     (\<exists>reason. e = Probe_error reason \<and> \<not> sent) \<or> (\<exists>reason why. e = Stop_request_error reason sent why)"

lemma wp_send_exit:
  assumes "\<And>t. rt_trace t = rt_trace s @ [Exit_sent pid force True] \<Longrightarrow> Q () t"
    and "\<And>e t. rt_trace t = rt_trace s @ [Exit_sent pid force False] \<Longrightarrow> e = No_such_process \<or> e = Os_error \<Longrightarrow> E e t"
  shows "wp (send_exit f pid force) Q E s"
  unfolding send_exit_def wp_rules
  by (cases "f (rt_tick s) pid") (auto simp: answer_def wp_rules assms)

lemma wp_window_owner:
  assumes "\<And>pid t. rt_trace t = rt_trace s @ [Saw_owner window pid] \<Longrightarrow> Q pid t"
    and "\<And>reason t. rt_trace t = rt_trace s \<Longrightarrow> E (Probe_error reason) t"
  shows "wp (window_owner os window) Q E s"
  unfolding window_owner_def probe_def wp_rules
  by (cases "os_owner os (rt_tick s) window") (auto simp: wp_rules assms)

lemma wp_owned_windows:
  "wp (owned_windows os pid ws)
     (\<lambda>_ t. \<exists>es. rt_trace t = rt_trace s @ es \<and> list_all reading_event es)
     (\<lambda>e t. \<exists>es reason. rt_trace t = rt_trace s @ es \<and> list_all reading_event es \<and> e = Probe_error reason) s"
proof (induction ws arbitrary: s)
  case Nil
  show ?case by (simp add: wp_rules)
next
  case (Cons w ws)
  show ?case
    unfolding owned_windows.simps wp_rules
  proof (rule wp_window_owner)
    fix p and t :: "'a rt_world"
    assume t: "rt_trace t = rt_trace s @ [Saw_owner w p]"
    show "wp (owned_windows os pid ws)
       (\<lambda>x u. \<exists>es. rt_trace u = rt_trace s @ es \<and> list_all reading_event es)
       (\<lambda>e u. \<exists>es reason. rt_trace u = rt_trace s @ es \<and> list_all reading_event es \<and> e = Probe_error reason) t"
      by (rule wp_mono [OF Cons.IH [of t]]) (fastforce simp: t)+
  qed auto
qed


lemma wp_read:
  assumes "\<And>r t. logged s [Read_process pid (read_event r)] t \<Longrightarrow> Q r t"
    and "\<And>reason t. logged s [Read_process pid Unreadable] t \<Longrightarrow> E (Probe_error reason) t"
  shows "wp (read_process os pid) Q E s"
  by (rule wp_read_process) (use assms in auto)


section \<open>One request\<close>

lemma request_error_simps [simp]:
  "request_error (Probe_error r) b \<longleftrightarrow> \<not> b"
  "request_error (Stop_request_error r sent why) b \<longleftrightarrow> sent = b"
  "request_error (stop_probe_error r) b \<longleftrightarrow> \<not> b"
  by (auto simp: request_error_def stop_probe_error_def)

text \<open>A step that only reads and fails.\<close>

definition failed ::
    "bool \<Rightarrow> bool \<Rightarrow> int \<Rightarrow> 'w rt_world \<Rightarrow> rt_error \<Rightarrow> 'w rt_world \<Rightarrow> bool" where
  "failed gated force appid s e t \<longleftrightarrow> (\<exists>b. did gated force appid s b t \<and> request_error e b)"

lemma failed_simps [simp]:
  "failed gated force appid s (Probe_error r) t \<longleftrightarrow> did gated force appid s False t"
  "failed gated force appid s (Stop_request_error r b why) t \<longleftrightarrow> did gated force appid s b t"
  "failed gated force appid s (stop_probe_error r) t \<longleftrightarrow> did gated force appid s False t"
  unfolding failed_def by (simp_all, metis+)

lemma failed_reading:
  "rt_trace t = rt_trace s @ es \<Longrightarrow> list_all reading_event es \<Longrightarrow> request_error e False \<Longrightarrow>
     failed gated force appid s e t"
  unfolding failed_def by (intro exI [of _ False]) (simp add: did_reading)

lemma earned_request:
  assumes "list_all reading_event before" "earned_at gated force appid before e"
    and "rt_trace t = rt_trace s @ before @ [e]"
  shows "seg gated force appid s (before @ [e]) t \<and> (accepted (before @ [e]) \<longleftrightarrow> accepts e)"
  using assms by (simp add: seg_def earned_snoc earned_reading accepted_reading)

lemma posted:
  assumes "attributed_app appid p"
    and "rt_trace t = rt_trace s @ Read_process (pr_pid p) (Found p) # Saw_owner window (pr_pid p) #
      approval gated w @ [Close_posted window b]"
  shows "did gated False appid s b t"
proof -
  let ?before = "Read_process (pr_pid p) (Found p) # Saw_owner window (pr_pid p) # approval gated w"
  have "earned_at gated False appid ?before (Close_posted window b)"
    unfolding earned_at_def using assms(1) by (auto intro!: exI [of _ p] exI [of _ w])
  with earned_request [of ?before gated False appid "Close_posted window b" t s] assms(2) show ?thesis
    by (auto simp: did_def)
qed

lemma signalled:
  assumes "attributed_app appid p"
    and "rt_trace t = rt_trace s @ Read_process (pr_pid p) (Found p) # approval gated w @ [Exit_sent (pr_pid p) force b]"
  shows "did gated force appid s b t"
proof -
  let ?before = "Read_process (pr_pid p) (Found p) # approval gated w"
  have "earned_at gated force appid ?before (Exit_sent (pr_pid p) force b)"
    unfolding earned_at_def using assms(1) by (auto intro!: exI [of _ p] exI [of _ w])
  with earned_request [of ?before gated force appid "Exit_sent (pr_pid p) force b" t s] assms(2) show ?thesis
    by (auto simp: did_def)
qed

lemma wp_close_window:
  assumes "attributed_app appid p"
  shows "wp (close_window os p g window)
     (\<lambda>_ t. did (g \<noteq> None) False appid s True t)
     (failed (g \<noteq> None) False appid s) s"
  unfolding close_window_def wp_rules
  apply (rule wp_read)
  subgoal for fresh t
    apply (split if_split, intro conjI impI)
     apply (rule failed_reading [of _ _ "[Read_process (pr_pid p) (read_event fresh)]"]; simp add: logged_def)
    apply (rule wp_window_owner)
    subgoal for owner u
      apply (split if_split, intro conjI impI)
       apply (rule failed_reading [of _ _ "[Read_process (pr_pid p) (read_event fresh), Saw_owner window owner]"]; simp add: logged_def)
      apply (rule wp_check_gate)
      subgoal for w v
        using posted [OF assms, of "v\<lparr>rt_tick := Suc (rt_tick v), rt_trace := rt_trace v @ [Close_posted window (os_close os (rt_tick v) window)]\<rparr>"
            s window "g \<noteq> None" w "os_close os (rt_tick v) window"]
        by (auto simp: read_event_def failed_def logged_def)
      subgoal for w b reason v
        by (rule failed_reading [of _ _ "[Read_process (pr_pid p) (read_event fresh), Saw_owner window owner, Gate_asked w b]"]) (simp_all add: logged_def)
      done
    subgoal for reason u
      by (rule failed_reading [of _ _ "[Read_process (pr_pid p) (read_event fresh)]"]) (simp_all add: logged_def)
    done
  subgoal for reason t
    by (rule failed_reading [of _ _ "[Read_process (pr_pid p) Unreadable]"]) (simp_all add: logged_def)
  done

lemma failed_trans:
  "did gated force appid s False t \<Longrightarrow> failed gated force appid t e u \<Longrightarrow> failed gated force appid s e u"
  unfolding failed_def using did_after_nothing by blast

lemma wp_close_windows:
  assumes "attributed_app appid p"
  shows "wp (close_windows os p g requested ws)
     (\<lambda>b t. \<exists>a. did (g \<noteq> None) False appid s a t \<and> (b \<longleftrightarrow> requested \<or> a))
     (\<lambda>e t. \<exists>a reason why. did (g \<noteq> None) False appid s a t \<and>
        e = Stop_request_error reason (requested \<or> a) why) s"
proof (induction ws arbitrary: requested s)
  case Nil
  show ?case by (auto simp: wp_rules did_nothing intro: exI [of _ False])
next
  case (Cons w ws)
  show ?case
    unfolding close_windows.simps wp_rules
    apply (rule wp_mono [OF wp_close_window [OF assms]])
    subgoal for x t
      apply (rule wp_mono [OF Cons.IH [of True t]])
      using did_trans [of "g \<noteq> None" False appid s True t] by fastforce+
    subgoal for e t
      by (auto simp: failed_def request_error_def wp_rules)
    done
qed

lemma wp_windows_close:
  assumes "attributed_app appid p"
  shows "wp (windows_close os p g) (\<lambda>b t. did (g \<noteq> None) False appid s b t) (failed (g \<noteq> None) False appid s) s"
proof -
  have *: "wp (owned_windows os (pr_pid p) ws)
      (\<lambda>targets. wp (if targets = [] then give False else close_windows os p g False targets)
         (\<lambda>b t. did (g \<noteq> None) False appid s b t) (failed (g \<noteq> None) False appid s))
     (failed (g \<noteq> None) False appid s) t" if "rt_trace t = rt_trace s" for ws t
    apply (rule wp_mono [OF wp_owned_windows])
    subgoal for targets u
      apply (elim exE conjE)
      subgoal for es
        using did_reading [of u s es "g \<noteq> None" False appid] that
        apply (cases "targets = []")
         apply (simp add: wp_rules)
        apply (simp only: if_False)
        apply (rule wp_mono [OF wp_close_windows [OF assms]])
        by (auto simp: failed_def request_error_def dest: did_after_nothing)
      done
    subgoal for e u
      using failed_reading [of u s _ e] that by auto
    done
  show ?thesis
  proof (cases "os_windows os (rt_tick s)")
    case None
    then show ?thesis
      by (simp add: windows_close_def probe_def wp_rules did_nothing)
  next
    case (Some ws)
    with * [of "s\<lparr>rt_tick := Suc (rt_tick s)\<rparr>" ws] show ?thesis
      by (simp add: windows_close_def probe_def wp_rules)
  qed
qed

text \<open>\<open>request_stop\<close>: it answers whether the request was accepted.\<close>

lemma wp_request_stop:
  assumes "attributed_app appid p"
  shows "wp (request_stop os p force g) (\<lambda>b t. did (g \<noteq> None) force appid s b t) (failed (g \<noteq> None) force appid s) s"
proof -
  let ?done = "\<lambda>b t. did (g \<noteq> None) force appid s b t" and ?fail = "failed (g \<noteq> None) force appid s"
  let ?handled = "\<lambda>e. wp (case e of No_such_process \<Rightarrow> give False
      | Os_error \<Rightarrow> stop (Probe_error ''stop_request_failed'') | _ \<Rightarrow> stop e) ?done ?fail"
  have handled: "?handled e t" if "failed (g \<noteq> None) force appid s e t \<or>
      did (g \<noteq> None) force appid s False t \<and> (e = No_such_process \<or> e = Os_error)" for e t
    using that by (auto simp: failed_def request_error_def wp_rules)
  have plain: "?handled e t" if "plain_error e" "did (g \<noteq> None) force appid s False t" for e t
    using that by (auto simp: plain_error_def failed_def wp_rules)
  have signal: "wp (seq (check_gate g) (\<lambda>_. seq (send_exit f (pr_pid p) forced) (\<lambda>_. give True))) ?done ?handled u"
    if u: "rt_trace u = rt_trace s @ [Read_process (pr_pid p) (Found p)]" and "forced = force" for f u forced
    unfolding wp_rules \<open>forced = force\<close>
    apply (rule wp_check_gate)
    subgoal for w v
      apply (rule wp_send_exit)
      using u signalled [OF assms, of _ s "g \<noteq> None" w force] by (auto simp: wp_rules)
    subgoal for w b reason v
      using u by (simp add: wp_rules did_reading [of _ _ "[Read_process (pr_pid p) (Found p), Gate_asked w b]"])
    done
  have windows: "wp (windows_close os p g) ?done ?handled u"
    if "rt_trace u = rt_trace s @ [Read_process (pr_pid p) (Found p)]" "\<not> force" for u
  proof -
    from that(2) have force: "force = False" by simp
    have start: "did (g \<noteq> None) False appid s False u"
      by (rule did_reading [OF that(1)]) simp
    show ?thesis
      unfolding force
    proof (rule wp_mono [OF wp_windows_close [OF assms]])
      fix b t
      assume "did (g \<noteq> None) False appid u b t"
      with start show "did (g \<noteq> None) False appid s b t"
        by (rule did_after_nothing [rotated])
    next
      fix e t
      assume "failed (g \<noteq> None) False appid u e t"
      with start have "failed (g \<noteq> None) False appid s e t"
        by (rule failed_trans)
      then show "wp (case e of No_such_process \<Rightarrow> give False
         | Os_error \<Rightarrow> stop (Probe_error ''stop_request_failed'') | _ \<Rightarrow> stop e)
         (\<lambda>b. did (g \<noteq> None) False appid s b) (failed (g \<noteq> None) False appid s) t"
        using handled unfolding force by blast
    qed
  qed
  show ?thesis
    unfolding request_stop_def wp_rules
    apply (rule wp_read)
    subgoal for fresh t
      apply (cases fresh)
       apply (simp add: did_reading logged_def)
      subgoal for current
        apply (simp only: option.case wp_rules, split if_split, intro conjI impI)
         apply (rule handled, rule disjI1, rule failed_reading [of _ _ "[Read_process (pr_pid p) (Found current)]"];
            simp add: logged_def read_event_def)
        apply (rule quietD [OF quiet_ask])
        subgoal for x u
          apply (rule quietD [OF quiet_ask])
          subgoal for created v
            apply (split if_split, intro conjI impI)
             apply (rule handled, rule disjI1, rule failed_reading [of _ _ "[Read_process (pr_pid p) (Found current)]"];
                simp add: logged_def same_log_def read_event_def)
            apply (split if_split, intro conjI impI)
             apply (rule signal [unfolded wp_rules]; simp add: logged_def same_log_def read_event_def)
            apply (split if_split, intro conjI impI)
             apply (rule signal [unfolded wp_rules]; simp add: logged_def same_log_def read_event_def)
            apply (split if_split, intro conjI impI)
             apply (rule windows; simp add: logged_def same_log_def read_event_def)
            by (simp add: logged_def same_log_def did_reading)
          by (rule plain) (auto simp: logged_def same_log_def intro: did_reading)
        by (rule plain) (auto simp: logged_def same_log_def intro: did_reading)
      done
    by (rule handled, rule disjI1, rule failed_reading [of _ _ "[Read_process (pr_pid p) Unreadable]"])
       (simp_all add: logged_def)
qed


section \<open>All targets\<close>

text \<open>What a result that ends the run early says, and what the count is otherwise.\<close>

definition progress :: "nat \<Rightarrow> bool \<Rightarrow> stop_result + nat \<Rightarrow> nat \<Rightarrow> bool" where
  "progress n force r m \<longleftrightarrow>
     (case r of
        Inl res \<Rightarrow> sr_requested_count res = m \<and> sr_process_count res = n \<and> sr_force res = force \<and>
          (sr_state res = Stop_deferred \<or> sr_state res = Stop_unknown)
      | Inr k \<Rightarrow> k = m)"

lemma wp_stop_target:
  "wp (stop_target os appid force g n target requested)
     (\<lambda>r t. \<exists>b. did (g \<noteq> None) force appid s b t \<and> progress n force r (if b then requested + 1 else requested))
     (\<lambda>_ _. False) s"
  (is "wp _ ?Q _ s")
proof -
  have still: "?Q r t" if "did (g \<noteq> None) force appid s False t" "progress n force r requested" for r t
    using that by (intro exI [of _ False]) simp
  let ?handled = "\<lambda>e. wp (case e of
          Stop_request_error reason sent _ \<Rightarrow>
            give (Inl (stop_result
              (if reason = ''stop_dispatch_gate_denied'' then Stop_deferred else Stop_unknown)
              reason n force (if sent then requested + 1 else requested)))
        | Probe_error _ \<Rightarrow> give (Inl (stop_result Stop_unknown ''stop_probe_failed'' n force requested))
        | _ \<Rightarrow> stop e) ?Q (\<lambda>_ _. False)"
  have handled: "?handled e t" if "failed (g \<noteq> None) force appid s e t" for e t
  proof -
    from that obtain b where "did (g \<noteq> None) force appid s b t" "request_error e b"
      by (auto simp: failed_def)
    then show ?thesis
      by (cases b)
         (auto simp: request_error_def wp_rules progress_def stop_result_def intro: exI [of _ True] exI [of _ False])
  qed
  show ?thesis
    unfolding stop_target_def wp_rules
    apply (rule wp_read)
    subgoal for current t
      apply (cases current)
       apply (simp only: option.case, rule still)
        apply (rule did_reading [of _ _ "[Read_process (ob_pid target) Skipped]"]; simp add: logged_def read_event_def)
       apply (simp add: progress_def)
      subgoal for p
        apply (simp only: option.case, split prod.split, intro allI impI, split prod.split, intro allI impI)
        subgoal for attributed rest variables invalid
          apply (simp only: prod.case wp_rules, split if_split, intro conjI impI)
           apply (rule still)
            apply (rule did_reading [of _ _ "[Read_process (ob_pid target) (Found p)]"]; simp add: logged_def read_event_def)
           apply (simp add: progress_def stop_result_def)
          apply (rule wp_check_gate)
          subgoal for w u
            apply (simp only: wp_seq wp_give)
            apply (rule wp_mono [OF wp_request_stop [of appid]])
              apply (simp add: attributed_app_def)
            subgoal for b v
              apply (simp only: wp_give, rule exI [of _ b])
              using did_after_nothing [of "g \<noteq> None" force appid u b v s]
                did_reading [of u s "Read_process (ob_pid target) (Found p) # approval (g \<noteq> None) w" "g \<noteq> None" force appid]
              by (simp add: logged_def read_event_def progress_def)
            subgoal for e v
              apply (rule handled)
              using failed_trans [of "g \<noteq> None" force appid s u e v]
                did_reading [of u s "Read_process (ob_pid target) (Found p) # approval (g \<noteq> None) w" "g \<noteq> None" force appid]
              by (simp add: logged_def read_event_def)
            done
          subgoal for w b reason u
            by (rule handled)
               (rule failed_reading [of _ _ "[Read_process (ob_pid target) (Found p), Gate_asked w b]"];
                simp add: logged_def read_event_def)
          done
        done
      done
    subgoal for reason t
      by (rule handled)
         (rule failed_reading [of _ _ "[Read_process (ob_pid target) Unreadable]"]; simp add: logged_def)
    done
qed

lemma wp_stop_targets:
  "wp (stop_targets os appid force g n targets requested)
     (\<lambda>r t. \<exists>b m. did (g \<noteq> None) force appid s b t \<and> progress n force r m \<and>
        requested \<le> m \<and> m \<le> requested + length targets \<and> (requested < m \<longleftrightarrow> b))
     (\<lambda>_ _. False) s"
proof (induction targets arbitrary: requested s)
  case Nil
  show ?case
    by (auto simp: wp_rules progress_def did_nothing intro: exI [of _ False])
next
  case (Cons target targets)
  show ?case
    unfolding stop_targets.simps wp_rules
    apply (rule wp_mono [OF wp_stop_target])
    subgoal for r t
      apply (erule exE)
      subgoal for b
        apply (cases r)
         apply (simp only: sum.case, rule exI [of _ b], rule exI [of _ "if b then requested + 1 else requested"], simp split: if_split)
        subgoal for k
          apply (simp only: sum.case wp_rules)
          apply (rule wp_mono [OF Cons.IH [of k t]])
          subgoal for r' u
            apply (elim exE conjE)
            subgoal for b' m
              apply (rule exI [of _ "b \<or> b'"], rule exI [of _ m])
              using did_trans [of "g \<noteq> None" force appid s b t b' u]
              by (auto simp: progress_def split: if_splits)
            done
          by simp
        done
      done
    by simp
qed


section \<open>Confirmation\<close>

text \<open>The last events are a listing and a read of every process listed, none of them the app.\<close>

definition absent_read :: "int \<Rightarrow> read_result \<Rightarrow> bool" where
  "absent_read appid r \<longleftrightarrow>
     (case r of
        Skipped \<Rightarrow> True
      | Unreadable \<Rightarrow> False
      | Found p \<Rightarrow> (case attribution p of (a, _, ambiguous) \<Rightarrow> a \<noteq> Some appid \<and> \<not> ambiguous))"

definition absent_scan :: "int \<Rightarrow> 'w rt_event list \<Rightarrow> bool" where
  "absent_scan appid es \<longleftrightarrow>
     (\<exists>before pids rs. es = before @ Listed pids # reads pids rs \<and> length rs = length pids \<and>
        (\<forall>r \<in> set rs. absent_read appid r))"

lemma absent_scanI:
  "length rs = length pids \<Longrightarrow> \<forall>r \<in> set rs. absent_read appid r \<Longrightarrow> absent_scan appid (Listed pids # reads pids rs)"
  unfolding absent_scan_def by (intro exI [of _ "[]"] exI [of _ pids] exI [of _ rs]) simp

lemma sort_key_Nil: "sort_key f xs = [] \<longleftrightarrow> xs = []"
  by (metis set_empty set_sort)

lemma absent_scan_prefix: "absent_scan appid es \<Longrightarrow> absent_scan appid (pre @ es)"
  unfolding absent_scan_def by (metis append.assoc)

lemma attributed_to_Some:
  "attributed_to (Some appid) p = [] \<longleftrightarrow> fst (attribution p) \<noteq> Some appid"
  by (auto simp: attributed_to_def split: prod.split option.split)

lemma observation_absent:
  assumes "ro_state (observation_of (Some appid) (found_records rs)
      (if Unreadable \<in> set rs then [''process_probe_failed''] else [])) = Absent_app"
  shows "\<forall>r \<in> set rs. absent_read appid r"
proof
  fix r
  assume r: "r \<in> set rs"
  have all: "Unreadable \<notin> set rs" "\<forall>p \<in> set (found_records rs). \<not> snd (snd (attribution p)) \<and> attributed_to (Some appid) p = []"
    using assms by (auto simp: observation_of_def Let_def list_ex_iff sort_key_Nil split: if_splits)
  show "absent_read appid r"
  proof (cases r)
    case (Found p)
    with r have "p \<in> set (found_records rs)"
      by (auto simp: found_records_def intro!: bexI [of _ r])
    with all(2) Found show ?thesis
      by (auto simp: absent_read_def attributed_to_Some split: prod.split)
  qed (use r all(1) in \<open>auto simp: absent_read_def\<close>)
qed

lemma observation_reason: "ro_state (observation_of appid [] [reason]) = Unknown_app"
  "ro_processes (observation_of appid [] [reason]) = []"
  by (simp_all add: observation_of_def)

text \<open>One observation: reading events only, and a complete scan where it answers absence.\<close>

lemma wp_observe_absent:
  assumes "\<And>o1 t es. rt_trace t = rt_trace s @ es \<Longrightarrow> list_all reading_event es \<Longrightarrow> rt_tick s \<le> rt_tick t \<Longrightarrow>
      (ro_state o1 = Absent_app \<longrightarrow> absent_scan appid es) \<Longrightarrow> Q o1 t"
  shows "wp (observe_app os (Some appid)) Q E s"
proof (rule wp_observe_app)
  fix reason t
  assume "logged s [] t"
  then show "Q (observation_of (Some appid) [] [reason]) t"
    by (intro assms [of t "[]"]) (simp_all add: logged_def observation_reason)
next
  fix pids :: "nat list" and rs t
  assume "length rs = length pids" "logged s (Listed pids # reads pids rs) t"
  then show "Q (observation_of (Some appid) (found_records rs)
      (if Unreadable \<in> set rs then [''process_probe_failed''] else [])) t"
    using observation_absent [of appid rs]
    by (intro assms [of t "Listed pids # reads pids rs"]) (auto simp: logged_def absent_scanI)
qed

lemma wp_confirm_stop:
  "wp (confirm_stop os appid force n requested deadline fuel)
     (\<lambda>r t. \<exists>es. rt_trace t = rt_trace s @ es \<and> list_all reading_event es \<and>
        sr_requested_count r = requested \<and> sr_process_count r = n \<and> sr_state r \<noteq> Stop_absent \<and>
        (sr_state r = Stop_stopped \<longrightarrow> absent_scan appid es))
     (\<lambda>e t. \<exists>es. rt_trace t = rt_trace s @ es \<and> list_all reading_event es) s"
proof (induction fuel arbitrary: s)
  case 0
  show ?case by (simp add: wp_rules)
next
  case (Suc fuel)
  show ?case
    unfolding confirm_stop.simps wp_rules
    apply (rule wp_observe_absent)
    subgoal for seen t es
      apply (split if_split, intro conjI impI)
       apply (rule exI [of _ es], simp add: stop_result_def)
      apply (split if_split, intro conjI impI)
       apply (rule exI [of _ es], simp add: stop_result_def)
      apply (split if_split, intro conjI impI)
       apply (rule exI [of _ es], simp add: stop_result_def)
      apply (split if_split, intro conjI impI)
       apply (rule exI [of _ es], simp add: stop_result_def)
      apply (rule wp_mono [OF Suc.IH])
      subgoal for r u
        apply (elim exE conjE)
        subgoal for fs
          by (rule exI [of _ "es @ fs"]) (simp add: absent_scan_prefix)
        done
      subgoal for e u
        apply (elim exE conjE)
        subgoal for fs
          by (rule exI [of _ "es @ fs"]) simp
        done
      done
    done
qed



section \<open>Stopping an app\<close>

lemma wp_stop_app:
  "wp (stop_app os fuel appid force timeout g)
     (\<lambda>r t. \<exists>es. seg (g \<noteq> None) force appid s es t \<and> (0 < sr_requested_count r \<longleftrightarrow> accepted es) \<and>
        sr_requested_count r \<le> sr_process_count r \<and>
        (sr_state r = Stop_stopped \<or> sr_state r = Stop_absent \<longrightarrow> absent_scan appid es))
     (\<lambda>e t. \<exists>es. seg (g \<noteq> None) force appid s es t) s"
  (is "wp _ ?Q ?E s")
proof -
  have reading: "?Q r t" if "rt_trace t = rt_trace s @ es" "list_all reading_event es" "sr_requested_count r = 0"
    "sr_state r = Stop_absent \<longrightarrow> absent_scan appid es" "sr_state r \<noteq> Stop_stopped" for r t es
    using that seg_reading [OF that(1,2)] accepted_reading [OF that(2)] by auto
  show ?thesis
    unfolding stop_app_def wp_rules Let_def
    apply (split if_split, intro conjI impI)
     apply (rule exI [of _ "[]"], simp)
    apply (rule wp_observe_absent)
    subgoal for seen t es
      apply (split if_split, intro conjI impI)
       apply (rule reading [of _ es]; simp add: stop_result_def)
      apply (split if_split, intro conjI impI)
       apply (rule reading [of _ es]; simp add: stop_result_def)
      apply (rule wp_mono [OF wp_stop_targets])
      subgoal for r u
        apply (elim exE conjE)
        subgoal for b m
          apply (drule did_after_nothing [OF _ did_reading [of t s es]]; assumption?)
          apply (unfold did_def, elim exE conjE)
          subgoal for fs
            apply (cases r)
            subgoal for result
              apply (simp only: sum.case)
              apply (rule exI [of _ fs])
              by (auto simp: progress_def)
            subgoal for k
              apply (simp only: sum.case)
              apply (rule wp_mono [OF wp_confirm_stop])
              subgoal for res v
                apply (elim exE conjE)
                subgoal for hs
                  apply (rule exI [of _ "fs @ hs"])
                  using seg_trans [of "g \<noteq> None" force appid s fs u hs v] seg_reading [of v u hs]
                    accepted_reading [of hs]
                  by (auto simp: progress_def absent_scan_prefix)
                done
              subgoal for e v
                apply (elim exE conjE)
                subgoal for hs
                  apply (rule exI [of _ "fs @ hs"])
                  using seg_trans [of "g \<noteq> None" force appid s fs u hs v] seg_reading [of v u hs]
                  by simp
                done
              done
            done
          done
        done
      by simp
    done
qed


section \<open>Properties\<close>

definition demo_os :: os where
  "demo_os = \<lparr>os_platform = ''linux'', os_self = 9, os_uid = 1000, os_euid = 1000, os_pids = \<lambda>t. Some [0, 7, 9],
     os_open = (\<lambda>t pid. if t < 28 then Reply () else Gone_process), os_uids = (\<lambda>t pid. Reply (1000, 1000)),
     os_username = (\<lambda>t pid. Reply ''u''), os_session = (\<lambda>t pid. Some 1), os_create_time = (\<lambda>t pid. Reply 5),
     os_name = (\<lambda>t pid. Reply ''game''), os_dead = (\<lambda>t pid. Reply False),
     os_environ = (\<lambda>t pid. Reply [(''HOME'', ''/''), (''SteamAppId'', ''620'')]),
     os_kill = (\<lambda>t pid. Reply ()), os_terminate = (\<lambda>t pid. Reply ()), os_windows = (\<lambda>t. Some []),
     os_owner = (\<lambda>t w. None), os_close = (\<lambda>t w. False), os_monotonic = int\<rparr>"

definition demo_start :: "unit rt_world" where
  "demo_start = \<lparr>rt_tick = 0, rt_trace = [], rt_username = None, rt_session = None, rt_outer = ()\<rparr>"

definition demo_gate :: "unit gate_callback" where
  "demo_gate = Some (\<lambda>w. (Some True, w))"

lemma demo_stop: obtains res t where "stop_app demo_os 11 620 False 10 demo_gate demo_start = (Inr res, t)"
  "sr_state res = Stop_stopped" "sr_requested_count res = 1" "list_ex accepts (rt_trace t)"
proof -
  have "(case stop_app demo_os 11 620 False 10 demo_gate demo_start of (r, t) \<Rightarrow>
      (map_sum id (\<lambda>res. (sr_state res, sr_requested_count res)) r, list_ex accepts (rt_trace t))) =
      (Inr (Stop_stopped, 1), True)"
    by code_simp
  then show thesis
    using that by (cases "stop_app demo_os 11 620 False 10 demo_gate demo_start"; cases "fst (stop_app demo_os 11 620 False 10 demo_gate demo_start)") auto
qed

text \<open>C15. Every request to exit is earned.  Whatever the operating system does meanwhile, each
  signal and each window message was sent right after the process was read again, found to be
  of this user and session and attributed to this AppID, after a window's owner was confirmed,
  and after the gate permitted it; a kill is sent only where force was asked for, and a window
  is closed only where it was not.\<close>

theorem stop_requests_earned:
  assumes "stop_app os fuel appid force timeout g s = (r, t)"
  shows "\<exists>es. rt_trace t = rt_trace s @ es \<and> earned (g \<noteq> None) force appid es"
  using wp_run [OF wp_stop_app assms] by (auto simp: seg_def split: sum.splits)

theorem stop_requests_earned_witness:
  "\<exists>res t. stop_app demo_os 11 620 False 10 demo_gate demo_start = (Inr res, t) \<and>
     earned True False 620 (rt_trace t) \<and> accepted (rt_trace t)"
proof -
  obtain res t where *: "stop_app demo_os 11 620 False 10 demo_gate demo_start = (Inr res, t)"
    "list_ex accepts (rt_trace t)"
    by (rule demo_stop)
  from stop_requests_earned [OF *(1)] * show ?thesis
    by (auto simp: demo_start_def demo_gate_def accepted_def)
qed

text \<open>The result of a stop is honest: a request is counted exactly where one was accepted, no
  more are counted than processes were seen, and \<open>stopped\<close> or \<open>absent\<close> is answered only
  after a scan that listed the processes, read every one of them without a failure and found
  none that is, or may be, this AppID's.\<close>

theorem stop_result_honest:
  assumes "stop_app os fuel appid force timeout g s = (Inr res, t)"
  shows "\<exists>es. rt_trace t = rt_trace s @ es \<and> (0 < sr_requested_count res \<longleftrightarrow> accepted es) \<and>
    sr_requested_count res \<le> sr_process_count res \<and>
    (sr_state res \<in> {Stop_stopped, Stop_absent} \<longrightarrow> absent_scan appid es)"
  using wp_run [OF wp_stop_app assms] by (auto simp: seg_def)

theorem stop_result_honest_witness:
  "\<exists>res t. stop_app demo_os 11 620 False 10 demo_gate demo_start = (Inr res, t) \<and>
     sr_state res = Stop_stopped \<and> absent_scan 620 (rt_trace t) \<and> accepted (rt_trace t)"
proof -
  obtain res t where *: "stop_app demo_os 11 620 False 10 demo_gate demo_start = (Inr res, t)"
    "sr_state res = Stop_stopped" "sr_requested_count res = 1"
    by (rule demo_stop)
  from stop_result_honest [OF *(1)] * show ?thesis
    by (auto simp: demo_start_def)
qed




section \<open>A session probe that fails once\<close>

text \<open>
  On Windows the invoking user is stored before the invoking session is read.  If that read
  fails, the first observation is rightly unknown; every later one of the same observer
  compares each process with a session that was never stored, skips it as another session's,
  and answers that the app is absent.
\<close>

definition demo_windows :: os where
  "demo_windows = demo_os\<lparr>os_platform := ''win32'', os_pids := \<lambda>t. Some [7], os_open := \<lambda>t pid. Reply (),
     os_session := \<lambda>t pid. if t < 4 then None else Some 1\<rparr>"

lemma session_probe_failure_hides:
  "map_sum id (map ro_state) (fst (seq (observe_app demo_windows (Some 620)) (\<lambda>first.
     seq (observe_app demo_windows (Some 620)) (\<lambda>second. give [first, second])) demo_start)) =
     Inr [Unknown_app, Absent_app]"
  "map_sum id ro_state (fst (observe_app demo_windows (Some 620) (demo_start\<lparr>rt_tick := 4\<rparr>))) = Inr Observed"
  by code_simp+

end
