(* ===== verification/Client_Safety.thy ===== *)
theory Client_Safety
  imports Client_Exec Runtime_Props Exec_Safety
begin

text \<open>
  What a stop does to the broker's world: the observer changes it only through the gate, so
  what the gate keeps holds at every request to exit; and the broker's own steps make only
  moves the ledger accepts.
\<close>


section \<open>Through the gate\<close>

text \<open>The broker's world satisfies \<open>I\<close>, and so did it, with the answer, whenever the gate was asked.\<close>

definition gated_world :: "('w \<Rightarrow> bool) \<Rightarrow> ('w \<Rightarrow> bool option \<Rightarrow> bool) \<Rightarrow> 'w rt_world \<Rightarrow> bool" where
  "gated_world I G s \<longleftrightarrow> I (rt_outer s) \<and> (\<forall>w b. Gate_asked w b \<in> set (rt_trace s) \<longrightarrow> G w b)"

definition gate_keeps :: "('w \<Rightarrow> bool) \<Rightarrow> ('w \<Rightarrow> bool option \<Rightarrow> bool) \<Rightarrow> 'w gate_callback \<Rightarrow> bool" where
  "gate_keeps I G g \<longleftrightarrow> (\<forall>f w b w'. g = Some f \<longrightarrow> I w \<longrightarrow> f w = (b, w') \<longrightarrow> I w' \<and> G w' b)"

lemma keeps_handle [keeps_rules]: "keeps I m \<Longrightarrow> (\<And>e. keeps I (h e)) \<Longrightarrow> keeps I (handle m h)"
  unfolding keeps_def handle_def by (fastforce split: prod.split sum.split)

lemma keeps_quiet: "quiet m \<Longrightarrow> keeps (gated_world I G) m"
  unfolding wp_keeps by (auto intro!: quietD simp: same_log_def gated_world_def)

lemma keeps_log: "(\<And>w b. e \<noteq> Gate_asked w b) \<Longrightarrow> keeps (gated_world I G) (log e)"
  by (auto simp: keeps_def log_def gated_world_def)

lemma keeps_case_prod [keeps_rules]: "(\<And>y z. keeps I (f y z)) \<Longrightarrow> keeps I (case x of (y, z) \<Rightarrow> f y z)"
  by (simp split: prod.split)

lemma keeps_on_probe [keeps_rules]: "keeps I m \<Longrightarrow> keeps I (on_probe m e)"
  by (cases e) (simp_all add: keeps_rules)

lemma keeps_rt_error [keeps_rules]:
  "(\<And>r. keeps I (a r)) \<Longrightarrow> (\<And>r b w. keeps I (f r b w)) \<Longrightarrow> keeps I c \<Longrightarrow> keeps I d \<Longrightarrow> keeps I v \<Longrightarrow> keeps I k \<Longrightarrow>
     keeps I (case e of Probe_error r \<Rightarrow> a r | Stop_request_error r b w \<Rightarrow> f r b w | No_such_process \<Rightarrow> c
       | Os_error \<Rightarrow> d | Invalid_stop_request \<Rightarrow> v | Stuck \<Rightarrow> k)"
  by (cases e) simp_all

lemma keeps_read [keeps_rules]: "keeps (gated_world I G) (read_process os pid)"
  unfolding read_process_def
  by (intro keeps_rules keeps_quiet [OF quiet_read_fields] keeps_log) simp_all

lemma keeps_call [keeps_rules]: "keeps (gated_world I G) (call f)"
  by (rule keeps_quiet) (rule quiet_call)

lemma keeps_ask [keeps_rules]: "keeps (gated_world I G) (ask f pid)"
  by (rule keeps_quiet) (rule quiet_ask)

lemma keeps_probe [keeps_rules]: "keeps (gated_world I G) (probe f reason)"
  by (rule keeps_quiet) (rule quiet_probe)

lemma keeps_answer [keeps_rules]: "keeps (gated_world I G) (answer r)"
  by (rule keeps_quiet) (rule quiet_answer)

lemma keeps_log_events [keeps_rules]:
  "keeps (gated_world I G) (log (Listed pids))" "keeps (gated_world I G) (log (Saw_owner w pid))"
  "keeps (gated_world I G) (log (Exit_sent pid forced b))" "keeps (gated_world I G) (log (Close_posted w b))"
  by (rule keeps_log; simp)+

lemma keeps_window_owner [keeps_rules]: "keeps (gated_world I G) (window_owner os w)"
  unfolding window_owner_def by (intro keeps_rules)

lemma keeps_scan_pids [keeps_rules]: "keeps (gated_world I G) (scan_pids os pids)"
  by (induction pids) (simp_all, (intro keeps_rules; assumption?)+)

lemma keeps_observe [keeps_rules]: "keeps (gated_world I G) (observe_app os appid)"
  unfolding observe_app_def scan_def by (intro keeps_rules)

lemma keeps_gate:
  assumes "gate_keeps I G g"
  shows "keeps (gated_world I G) (check_gate g)"
proof (cases g)
  case None
  then show ?thesis by (simp add: check_gate_def keeps_rules)
next
  case (Some f)
  show ?thesis
    unfolding keeps_def
  proof (intro allI impI)
    fix s
    assume s: "gated_world I G s"
    obtain b w where f: "f (rt_outer s) = (b, w)"
      by (cases "f (rt_outer s)")
    with assms Some s have "I w" "G w b"
      unfolding gate_keeps_def gated_world_def by blast+
    with s Some f show "gated_world I G (snd (check_gate g s))"
      by (auto simp: check_gate_def seq_def log_def stop_def give_def gated_world_def split: option.split bool.split)
  qed
qed

lemma keeps_stop_app:
  assumes "gate_keeps I G g"
  shows "keeps (gated_world I G) (stop_app os fuel appid force timeout g)"
proof -
  note rules = keeps_rules keeps_gate [OF assms]
  have owned: "keeps (gated_world I G) (owned_windows os pid ws)" for pid ws
    by (induction ws) (simp_all, (intro keeps_rules; assumption?)+)
  have close: "keeps (gated_world I G) (close_windows os p g b ws)" for p b ws
    by (induction ws arbitrary: b) (simp_all add: close_window_def, (intro rules; assumption?)+)
  have target: "keeps (gated_world I G) (stop_target os appid force g n t k)" for n t k
    unfolding stop_target_def request_stop_def windows_close_def send_exit_def
    by (intro rules owned close)
  have targets: "keeps (gated_world I G) (stop_targets os appid force g n ts k)" for n ts k
    by (induction ts arbitrary: k) (simp_all, (intro rules target; assumption?)+)
  have confirm: "keeps (gated_world I G) (confirm_stop os appid force n k d fuel)" for n k d
    by (induction fuel) (simp_all only: confirm_stop.simps, (intro rules; assumption?)+)
  show ?thesis
    unfolding stop_app_def Let_def by (intro rules targets confirm)
qed


section \<open>The broker's steps\<close>

text \<open>How a stop may end early: no ledger exception, and a deferral or an abort
  that agrees with the row.\<close>

definition ends_well :: "report exit \<Rightarrow> op_state \<Rightarrow> bool" where
  "ends_well e s \<longleftrightarrow> (\<forall>l. e \<noteq> Raised (Ledger_fault l)) \<and> (\<forall>rep. e = Returned rep \<longrightarrow> agrees (rp_outcome rep) s \<and> rp_outcome rep \<in> {Out_deferred, Out_aborted})"

lemma ends_well_simps [simp]:
  "ends_well (Returned rep) s \<longleftrightarrow> agrees (rp_outcome rep) s \<and> rp_outcome rep \<in> {Out_deferred, Out_aborted}"
  "ends_well (Raised Probe_fault) s"
  "ends_well (Raised No_fuel) s"
  by (simp_all add: ends_well_def)

lemma track_end_early:
  "\<not> terminal s \<Longrightarrow> track i (deferred j d) Q (\<lambda>e s p tr. ends_well e s) s p tr"
  "track i (aborted j d) Q (\<lambda>e s p tr. ends_well e s) s p tr"
  by (simp_all add: deferred_def aborted_def track_leave)

lemma track_window_or_end:
  assumes "Q () s p (tr @ [Saw_window True])"
  shows "track i (require_window env i msg) Q (\<lambda>e s p tr. ends_well e s) s p tr"
  unfolding require_window_def using assms
  by (intro track_seq track_window track_if track_give track_expire track_end_early) simp_all

lemma track_stop_intake:
  assumes "r_state op = s"
  shows "track i (stop_intake env cl i op) (\<lambda>_ s' p' _. s = Authorized \<and> s' = Authorized \<and> p' = p) (\<lambda>e s p tr. ends_well e s) s p tr"
proof -
  have force: "track i (case f of Force b \<Rightarrow> give b | Malformed_force \<Rightarrow> deferred i ''malformed force request''
      | Plan_raises \<Rightarrow> fault Probe_fault)
     (\<lambda>_ s' p' _. Authorized = Authorized \<and> s' = Authorized \<and> p' = p) (\<lambda>e s p tr. ends_well e s) Authorized p tr" for f tr
    by (cases f) (auto intro!: track_give track_end_early track_fault)
  show ?thesis
    unfolding stop_intake_def plan_force_of_def using assms force
    by (auto intro!: track_if track_end_early track_seq track_window_or_end track_plan)
qed

lemma track_stop_intent:
  "track i (stop_intent env cl i op force) (\<lambda>_ s' p' _. s' = DispatchPending \<and> p' = p)
     (\<lambda>e s p tr. ends_well e s) Authorized p tr"
proof -
  have "track i (case reply of
       None \<Rightarrow> deferred i ''policy unreadable before stop''
     | Some False \<Rightarrow>
         seq (move env i Aborted (Some ''stop policy revoked'')) (\<lambda>_. aborted i ''stop policy revoked'')
     | Some True \<Rightarrow>
         seq (require_window env i ''execution window lapsed'') (\<lambda>_.
         move_from env i DispatchPending None None (Some Authorized)))
      (\<lambda>_ s' p' _. s' = DispatchPending \<and> p' = p) (\<lambda>e s p tr. ends_well e s) Authorized p tr" for reply tr
    by (cases reply rule: option.exhaust [case_product bool.exhaust])
       (auto intro!: track_end_early track_seq track_move track_window_or_end split: option.split bool.split)
  then show ?thesis
    unfolding stop_intent_def see_stop_policy_def by (intro track_seq track_observe)
qed

lemma track_stop_conclude:
  "track i (stop_conclude env i res)
     (\<lambda>rep s' _ _. agrees (rp_outcome rep) s' \<and>
        (if sr_state res = Stop_stopped \<or> sr_state res = Stop_absent
         then s' = Dispatched \<and> rp_outcome rep = Out_dispatched
         else s' = Unconfirmed \<and> rp_outcome rep = Out_unconfirmed))
     (\<lambda>_ _ _ _. False) DispatchPending p tr"
  unfolding stop_conclude_def
  by (intro track_if track_seq track_move track_give) simp_all


section \<open>The gate of a stop\<close>

definition permitted_stop :: "nat \<Rightarrow> bool option \<Rightarrow> world \<Rightarrow> bool option \<Rightarrow> bool" where
  "permitted_stop i p w b \<longleftrightarrow> at_state i DispatchPending p (w_db w) \<and>
     (b = Some True \<longrightarrow> suffix [Saw_policy True, Saw_window True] (w_trace w))"

lemma gate_keeps_intent:
  "gate_keeps (\<lambda>w. at_state i DispatchPending p (w_db w)) (permitted_stop i p)
     (Some (before_request env cl i appid force))"
  unfolding gate_keeps_def
proof (intro allI impI)
  fix f w b w'
  let ?m = "seq (see_stop_policy cl appid force) (\<lambda>reply.
      if reply = Some True then see_window env i else give False) :: (report, bool) exec"
  assume f: "Some (before_request env cl i appid force) = Some f" "at_state i DispatchPending p (w_db w)" "f w = (b, w')"
  have "track i ?m (\<lambda>b s' p' tr. s' = DispatchPending \<and> p' = p \<and> (b \<longrightarrow> suffix [Saw_policy True, Saw_window True] tr))
      (\<lambda>_ _ _ _. False) DispatchPending p (w_trace w)"
    unfolding see_stop_policy_def
    by (intro track_seq track_observe track_if track_window track_give) (simp_all add: suffix_def)
  from trackD [OF this f(2) refl] show "at_state i DispatchPending p (w_db w') \<and> permitted_stop i p w' b"
    using f(1,3) by (auto simp: wp_def before_request_def permitted_stop_def split: prod.splits sum.splits)
qed

end
