(* ===== verification/Client_Props.thy ===== *)
theory Client_Props
  imports Client_Safety
begin

text \<open>
  The properties of the client executor: what must hold when a request to exit is sent, and
  what the ledger and the report say afterwards.
\<close>


section \<open>A stop, tracked\<close>

lemma wp_in_broker:
  assumes "track i m Q E s p tr" "at_state i s p (w_db (rt_outer c))" "w_trace (rt_outer c) = tr"
    and "\<And>x c' s' p'. at_state i s' p' (w_db (rt_outer c')) \<Longrightarrow> Q x s' p' (w_trace (rt_outer c')) \<Longrightarrow>
      rt_trace c' = rt_trace c \<Longrightarrow> Q' x c'"
    and "\<And>e c' s' p'. at_state i s' p' (w_db (rt_outer c')) \<Longrightarrow> E e s' p' (w_trace (rt_outer c')) \<Longrightarrow>
      rt_trace c' = rt_trace c \<Longrightarrow> E' e c'"
  shows "wp (in_broker m) Q' E' c"
proof -
  from trackD [OF assms(1-3)] show ?thesis
    using assms(4,5) by (fastforce simp: wp_def in_broker_def split: prod.splits sum.splits)
qed

lemma wp_stop_fun: "wp (stop e) Q E = E e"
  by (rule ext) (rule wp_stop)

lemma wp_in_observer:
  assumes "wp m Q (\<lambda>e t. E (Raised (observer_fault e)) t) s"
  shows "wp (in_observer m) Q E s"
  using assms by (simp add: in_observer_def wp_handle wp_stop_fun)

lemma observer_fault_ends_well [simp]: "ends_well (Raised (observer_fault e)) s"
  by (simp add: observer_fault_def)

text \<open>
  Where the row is and what was sent so far.  Before the intent is recorded nothing is sent;
  afterwards every request is earned and the row can never be authorized again.
\<close>

definition stop_safe :: "nat \<Rightarrow> op_row \<Rightarrow> op_state \<Rightarrow> world rt_world \<Rightarrow> bool" where
  "stop_safe i op s c \<longleftrightarrow>
     (\<exists>force p q. at_state i s q (w_db (rt_outer c)) \<and> earned True force (r_appid op) (rt_trace c) \<and>
        (\<forall>w b. Gate_asked w b \<in> set (rt_trace c) \<longrightarrow> permitted_stop i p w b) \<and>
        (s \<in> {DispatchPending, Dispatched, Unconfirmed} \<or> list_all reading_event (rt_trace c)))"

definition stop_ended :: "nat \<Rightarrow> op_row \<Rightarrow> report exit \<Rightarrow> world rt_world \<Rightarrow> bool" where
  "stop_ended i op e c \<longleftrightarrow> (\<exists>s. stop_safe i op s c \<and> ends_well e s)"

definition stop_reported :: "nat \<Rightarrow> op_row \<Rightarrow> report \<Rightarrow> world rt_world \<Rightarrow> bool" where
  "stop_reported i op rep c \<longleftrightarrow>
     (\<exists>s. stop_safe i op s c \<and> agrees (rp_outcome rep) s \<and>
        (rp_outcome rep = Out_dispatched \<longrightarrow> absent_scan (r_appid op) (rt_trace c)))"

lemma stop_safe_quiet:
  "at_state i s p (w_db (rt_outer c)) \<Longrightarrow> list_all reading_event (rt_trace c) \<Longrightarrow>
     \<forall>w b. Gate_asked w b \<notin> set (rt_trace c) \<Longrightarrow> stop_safe i op s c"
  unfolding stop_safe_def by (blast intro: earned_reading)

text \<open>The first observation neither asks the gate nor touches the broker's world.\<close>

lemma no_gate: "Gate_asked w b \<notin> set (reads pids rs)"
  by (auto simp: reads_def set_zip)

lemma wp_first_observation:
  assumes "\<And>o1 t. list_all reading_event (rt_trace t) \<Longrightarrow> \<forall>w b. Gate_asked w b \<notin> set (rt_trace t) \<Longrightarrow>
      rt_outer t = rt_outer s \<Longrightarrow> Q o1 t"
    and "rt_trace (s :: world rt_world) = []"
  shows "wp (observe_app os appid) Q E s"
proof (rule wp_observe_app)
  fix reason and t :: "world rt_world"
  assume "logged s [] t"
  then show "Q (observation_of appid [] [reason]) t"
    by (intro assms(1)) (simp_all add: logged_def assms(2))
next
  fix pids :: "nat list" and rs and t :: "world rt_world"
  assume "logged s (Listed pids # reads pids rs) t"
  then show "Q (observation_of appid (found_records rs)
      (if Unreadable \<in> set rs then [''process_probe_failed''] else [])) t"
    by (intro assms(1)) (simp_all add: logged_def assms(2) no_gate)
qed

lemma wp_stop_dispatch:
  assumes "at_state i DispatchPending p (w_db (rt_outer c))" "list_all reading_event (rt_trace c)"
    and "\<forall>w b. Gate_asked w b \<notin> set (rt_trace c)"
  shows "wp (seq (in_observer (stop_app os fuel (r_appid op) force timeout
         (Some (before_request env cl i (r_appid op) force)))) (\<lambda>res.
       in_broker (stop_conclude env i res))) (stop_reported i op) (stop_ended i op) c"
proof -
  let ?g = "Some (before_request env cl i (r_appid op) force)"
  let ?I = "\<lambda>w. at_state i DispatchPending p (w_db w)"
  have "gated_world ?I (permitted_stop i p) c"
    using assms by (simp add: gated_world_def)
  then have kept: "wp (stop_app os fuel (r_appid op) force timeout ?g)
      (\<lambda>_. gated_world ?I (permitted_stop i p)) (\<lambda>_. gated_world ?I (permitted_stop i p)) c"
    using keeps_stop_app [OF gate_keeps_intent] by (simp add: wp_keeps)
  have both: "wp m (\<lambda>x t. Q x t \<and> Q' x t) (\<lambda>e t. E e t \<and> E' e t) s" if "wp m Q E s" "wp m Q' E' s"
    for m :: "(world, 'b) rt" and Q Q' E E' s
    using that by (auto simp: wp_def split: prod.splits sum.splits)
  have safe: "stop_safe i op s t" if "at_state i s q (w_db (rt_outer t))"
    "seg True force (r_appid op) c es u" "rt_trace t = rt_trace u" "gated_world ?I (permitted_stop i p) u"
    "s \<in> {DispatchPending, Dispatched, Unconfirmed}" for s q t u es
    using that earned_append [OF earned_reading [OF assms(2)], of True force "r_appid op" es]
    unfolding stop_safe_def seg_def gated_world_def by (intro exI [of _ force] exI [of _ p] exI [of _ q]) auto
  show ?thesis
    unfolding wp_seq
  proof (rule wp_in_observer, rule wp_mono [OF both [OF wp_stop_app kept]])
    fix res :: stop_result and u
    assume *: "(\<exists>es. seg (?g \<noteq> None) force (r_appid op) c es u \<and> (0 < sr_requested_count res \<longleftrightarrow> accepted es) \<and>
        sr_requested_count res \<le> sr_process_count res \<and>
        (sr_state res = Stop_stopped \<or> sr_state res = Stop_absent \<longrightarrow> absent_scan (r_appid op) es)) \<and>
      gated_world ?I (permitted_stop i p) u"
    then obtain es where es: "seg True force (r_appid op) c es u"
      "sr_state res = Stop_stopped \<or> sr_state res = Stop_absent \<longrightarrow> absent_scan (r_appid op) es" by auto
    have at: "at_state i DispatchPending p (w_db (rt_outer u))"
      using * by (simp add: gated_world_def)
    show "wp (in_broker (stop_conclude env i res)) (stop_reported i op) (stop_ended i op) u"
    proof (rule wp_in_broker [OF track_stop_conclude at refl])
      fix rep :: report and c' :: "world rt_world" and s' p'
      assume final: "at_state i s' p' (w_db (rt_outer c'))" "agrees (rp_outcome rep) s' \<and>
        (if sr_state res = Stop_stopped \<or> sr_state res = Stop_absent
         then s' = Dispatched \<and> rp_outcome rep = Out_dispatched
         else s' = Unconfirmed \<and> rp_outcome rep = Out_unconfirmed)" "rt_trace c' = rt_trace u"
      show "stop_reported i op rep c'"
        unfolding stop_reported_def
        using final safe [OF final(1) es(1) final(3)] * es absent_scan_prefix [of "r_appid op" es "rt_trace c"]
        by (intro exI [of _ s']) (auto simp: seg_def split: if_splits)
    qed simp
  next
    fix e u
    assume *: "(\<exists>es. seg (?g \<noteq> None) force (r_appid op) c es u) \<and> gated_world ?I (permitted_stop i p) u"
    then obtain es where "seg True force (r_appid op) c es u" by auto
    with * have "stop_safe i op DispatchPending u"
      by (intro safe [of _ p _ es u]) (simp_all add: gated_world_def)
    then show "stop_ended i op (Raised (observer_fault e)) u"
      unfolding stop_ended_def by (intro exI [of _ DispatchPending]) simp
  qed
qed

lemma wp_execute_stop:
  assumes at: "at_state i (r_state op) p (w_db (rt_outer c))" and tr: "rt_trace c = []"
  shows "wp (execute_stop env cl cfg i op) (stop_reported i op) (stop_ended i op) c"
proof -
  have early: "stop_ended i op e t" if "at_state i s q (w_db (rt_outer t))" "list_all reading_event (rt_trace t)"
    "\<forall>w b. Gate_asked w b \<notin> set (rt_trace t)" "ends_well e s" for e t s q
    using that stop_safe_quiet unfolding stop_ended_def by blast
  show ?thesis
    unfolding execute_stop_def wp_seq new_observer_def wp_change
  proof (rule wp_in_broker [OF track_stop_intake [OF refl] at refl])
    fix force and t :: "world rt_world" and s' p'
    assume intake: "at_state i s' p' (w_db (rt_outer t))" "r_state op = Authorized \<and> s' = Authorized \<and> p' = p"
      "rt_trace t = rt_trace c"
    let ?t = "t\<lparr>rt_username := None, rt_session := None\<rparr>"
    show "wp (in_observer (observe_app (client_os cl cfg) (Some (r_appid op))))
       (\<lambda>seen. wp (if ro_state seen = Unknown_app \<and> ro_processes seen = []
          then in_broker (deferred i ''runtime observation unknown'')
          else seq (in_broker (stop_intent env cl i op force)) (\<lambda>_.
            seq (in_observer (stop_app (client_os cl cfg) (cl_fuel cl) (r_appid op) force stop_timeout
              (Some (before_request env cl i (r_appid op) force)))) (\<lambda>res. in_broker (stop_conclude env i res))))
          (stop_reported i op) (stop_ended i op)) (stop_ended i op) ?t"
    proof (rule wp_in_observer, rule wp_first_observation)
      show "rt_trace ?t = []"
        using intake(3) tr by simp
    next
      fix seen and u :: "world rt_world"
      assume u: "list_all reading_event (rt_trace u)" "\<forall>w b. Gate_asked w b \<notin> set (rt_trace u)"
        "rt_outer u = rt_outer ?t"
      with intake have at': "at_state i Authorized p (w_db (rt_outer u))" by simp
      show "wp (if ro_state seen = Unknown_app \<and> ro_processes seen = []
          then in_broker (deferred i ''runtime observation unknown'')
          else seq (in_broker (stop_intent env cl i op force)) (\<lambda>_.
            seq (in_observer (stop_app (client_os cl cfg) (cl_fuel cl) (r_appid op) force stop_timeout
              (Some (before_request env cl i (r_appid op) force)))) (\<lambda>res. in_broker (stop_conclude env i res))))
          (stop_reported i op) (stop_ended i op) u"
      proof (cases "ro_state seen = Unknown_app \<and> ro_processes seen = []")
        case True
        have "wp (in_broker (deferred i ''runtime observation unknown'')) (stop_reported i op) (stop_ended i op) u"
          by (rule wp_in_broker [OF track_end_early(1) at' refl, where Q = "\<lambda>_ _ _ _. False"]) (use u early in simp_all)
        with True show ?thesis by simp
      next
        case False
        have "wp (seq (in_broker (stop_intent env cl i op force)) (\<lambda>_.
            seq (in_observer (stop_app (client_os cl cfg) (cl_fuel cl) (r_appid op) force stop_timeout
              (Some (before_request env cl i (r_appid op) force)))) (\<lambda>res. in_broker (stop_conclude env i res))))
            (stop_reported i op) (stop_ended i op) u"
          unfolding wp_seq [of "in_broker (stop_intent env cl i op force)"]
          by (rule wp_in_broker [OF track_stop_intent at' refl])
             (use u early in \<open>auto intro!: wp_stop_dispatch\<close>)
        with False show ?thesis by (simp only: if_False)
      qed
    qed
  next
    fix e and t :: "world rt_world" and s' p'
    assume "at_state i s' p' (w_db (rt_outer t))" "ends_well e s'" "rt_trace t = rt_trace c"
    then show "stop_ended i op e t"
      using tr by (intro early [of s' p']) simp_all
  qed
qed


section \<open>Properties\<close>

lemma client_stop_run:
  assumes wf: "ledger_wf (w_db (rt_outer c))" and r: "r \<in> set (db_operations (w_db (rt_outer c)))"
    and op: "r_operation r = ''stop''" and tr: "rt_trace c = []"
    and run: "client_execute env cl cfg (r_id r) c = (res, c')"
  shows "case res of Inl f \<Rightarrow> (\<exists>s. stop_safe (r_id r) r s c') \<and> (\<forall>l. f \<noteq> Ledger_fault l)
    | Inr rep \<Rightarrow> \<exists>s. stop_safe (r_id r) r s c' \<and> agrees (rp_outcome rep) s \<and>
        (rp_outcome rep = Out_dispatched \<longrightarrow> absent_scan (r_appid r) (rt_trace c'))"
proof -
  let ?c = "c\<lparr>rt_outer := (rt_outer c)\<lparr>w_tick := Suc (w_tick (rt_outer c))\<rparr>\<rparr>"
  have "(in_broker (get_operation env (r_id r)) :: op_row client) c = (Inr r, ?c)"
    using get_row_in [OF wf r] by (simp add: in_broker_def get_operation_def ledger_do_def reading_def)
  then have locked: "client_locked env cl cfg (r_id r) c = execute_stop env cl cfg (r_id r) r ?c"
    using op by (simp add: client_locked_def seq_def [of "in_broker (get_operation env (r_id r))"])
  have at: "at_state (r_id r) (r_state r) (r_prior_client_running r) (w_db (rt_outer ?c))"
    using wf r by (auto simp: at_state_row)
  obtain x where x: "execute_stop env cl cfg (r_id r) r ?c = (x, c')" "res = outcome_of x"
    using run locked by (auto simp: client_execute_def split: prod.splits)
  have "wp (execute_stop env cl cfg (r_id r) r) (stop_reported (r_id r) r) (stop_ended (r_id r) r) ?c"
    by (rule wp_execute_stop [OF at]) (simp add: tr)
  note post = wp_run [OF this x(1)]
  show ?thesis
  proof (cases x)
    case (Inl e)
    with post obtain s where "stop_safe (r_id r) r s c'" "ends_well e s"
      by (auto simp: stop_ended_def)
    then show ?thesis
      using Inl x(2) by (cases e) (auto simp: outcome_of_def ends_well_def)
  next
    case (Inr rep)
    with post x(2) show ?thesis
      by (simp add: outcome_of_def stop_reported_def)
  qed
qed

text \<open>C14. A request to exit is sent only under recorded intent and a fresh permission.  Right
  before each signal or window message of a stop, the row was durably in
  \<open>dispatch_pending\<close>, and at that very moment the policy file was read again and permitted
  stopping this app with this force, and the execution window was read again and was open.\<close>

theorem exit_sent_under_intent:
  assumes "ledger_wf (w_db (rt_outer c))" "r \<in> set (db_operations (w_db (rt_outer c)))"
    and "r_operation r = ''stop''" "rt_trace c = []"
    and "client_execute env cl cfg (r_id r) c = (res, c')"
    and "rt_trace c' = before @ e # after" "\<not> reading_event e"
  shows "\<exists>w. suffix [Gate_asked w (Some True)] before \<and> state_of (w_db w) (r_id r) = Some DispatchPending \<and>
    suffix [Saw_policy True, Saw_window True] (w_trace w)"
proof -
  from client_stop_run [OF assms(1-5)] obtain s where "stop_safe (r_id r) r s c'"
    by (cases res) auto
  then obtain force p where earned: "earned True force (r_appid r) (rt_trace c')"
    and gates: "\<forall>w b. Gate_asked w b \<in> set (rt_trace c') \<longrightarrow> permitted_stop (r_id r) p w b"
    by (auto simp: stop_safe_def)
  from earned assms(6) have "earned_at True force (r_appid r) before e"
    by (simp add: earned_def)
  moreover have "suffix [x, g] before \<Longrightarrow> suffix [g] before" "suffix [x, y, g] before \<Longrightarrow> suffix [g] before" for x y g
    using suffix_ConsD [of x "[g]"] suffix_ConsD [of y "[g]"] suffix_ConsD [of x "[y, g]"] by blast+
  ultimately obtain w where w: "suffix [Gate_asked w (Some True)] before"
    using assms(7) by (cases e) (simp_all add: earned_at_def approval_def, blast+)
  then have "Gate_asked w (Some True) \<in> set (rt_trace c')"
    using assms(6) by (auto simp: suffix_def)
  with gates w show ?thesis
    by (auto simp: permitted_stop_def at_state_def)
qed

text \<open>A stop is never replayed and reported truthfully: it makes no ledger call that is
  refused; once anything was sent the row is in \<open>dispatch_pending\<close>, \<open>dispatched\<close> or
  \<open>unconfirmed\<close>, from which no run executes it again; a report agrees with the row it leaves,
  and \<open>dispatched\<close> is reported only after a complete scan that found the app gone.\<close>

theorem stop_never_replayed:
  assumes "ledger_wf (w_db (rt_outer c))" "r \<in> set (db_operations (w_db (rt_outer c)))"
    and "r_operation r = ''stop''" "rt_trace c = []"
    and "client_execute env cl cfg (r_id r) c = (res, c')"
  shows "ledger_wf (w_db (rt_outer c')) \<and> (\<forall>l. res \<noteq> Inl (Ledger_fault l)) \<and>
    (\<exists>s. state_of (w_db (rt_outer c')) (r_id r) = Some s \<and>
       (\<not> list_all reading_event (rt_trace c') \<longrightarrow> s \<in> {DispatchPending, Dispatched, Unconfirmed}) \<and>
       (\<forall>rep. res = Inr rep \<longrightarrow> agrees (rp_outcome rep) s \<and>
          (rp_outcome rep = Out_dispatched \<longrightarrow> absent_scan (r_appid r) (rt_trace c'))))"
  using client_stop_run [OF assms]
  by (cases res) (auto simp: stop_safe_def at_state_def)

text \<open>A run that stops a game: the processes of \<open>demo_os\<close>, under a policy that allows it.\<close>

definition stop_policy_doc :: toml_table where
  "stop_policy_doc =
     [(''grants'', TTable [(''stop'', TString ''confirm'')]),
      (''stop'', TTable [(''allowed_appids'', TArray [TInt 620])])]"

definition stop_env :: env where
  "stop_env = \<lparr>e_now = \<lambda>t. 300, e_gates = \<lambda>t. \<lparr>g_game_running = Fail, g_remote_play = Pass,
       g_download_in_flight = Pass, g_client_running = Fail\<rparr>,
     e_client = \<lambda>t. True, e_steamcmd = \<lambda>t. Some False, e_stop = \<lambda>t. True, e_start = \<lambda>t. True,
     e_launch = \<lambda>t. True, e_policy = \<lambda>t op. Permits,
     e_view = \<lambda>t. \<lparr>v_manifests = [], v_target = \<lambda>n. \<lparr>tv_symlink = False, tv_escapes = Some False,
       tv_exists = False, tv_content = None, tv_nested = Absent, tv_empty = None, tv_identity = None\<rparr>, v_marker = None\<rparr>,
     e_files = \<lambda>t d. d, e_io = \<lambda>t k. Ok, e_contained = \<lambda>t. True,
     e_content = (\<lambda>t. demo_run), e_nested = \<lambda>t. Absent, e_downloading = \<lambda>t. False\<rparr>"

definition stop_client_env :: client_env where
  "stop_client_env = \<lparr>cl_os = demo_os\<lparr>os_open := \<lambda>t pid. if t < 37 then Reply () else Gone_process\<rparr>,
     cl_policy_file = \<lambda>t. Some ''toml'', cl_toml = \<lambda>raw. Some stop_policy_doc, cl_digest = \<lambda>raw. raw,
     cl_plan_force = \<lambda>doc. Force False, cl_fuel = 11\<rparr>"

definition stop_config :: config where
  "stop_config = \<lparr>c_platform = ''linux'', c_content = False, c_account_login = None,
     c_dispatch_policy = True, c_paths = (\<lambda>appid. demo_paths), c_sha256 = \<lambda>s. s, c_plan_name = \<lambda>doc. NoName\<rparr>"

definition stop_db :: db where
  "stop_db = snd (confirm 200 ''n'' ''cli'' 14400
     (snd (request 100 ''n'' 900 (demo_intake\<lparr>in_appid := 620, in_operation := ''stop''\<rparr>) demo_open)))"

lemma reach_stop: "ledger_reachable stop_db"
  unfolding stop_db_def
proof (rule ledger_reachable_step)
  show "ledger_reachable (snd (request 100 ''n'' 900 (demo_intake\<lparr>in_appid := 620, in_operation := ''stop''\<rparr>) demo_open))"
    by (rule ledger_reachable_step [OF reach_open], rule step_request) (simp add: demo_open_eq used_nonces_def)
qed (rule step_confirm)

definition stop_row :: op_row where
  "stop_row = demo_row\<lparr>r_appid := 620, r_operation := ''stop'', r_state := Authorized, r_nonce := None,
     r_nonce_expires_at := None, r_confirmation_actor := Some ''cli'',
     r_window_expires_at := Some 14600, r_updated_at := 200\<rparr>"

definition stop_world :: "world rt_world" where
  "stop_world = \<lparr>rt_tick = 0, rt_trace = [], rt_username = None, rt_session = None,
     rt_outer = \<lparr>w_tick = 0, w_db = stop_db, w_disk = \<lparr>d_steamapps = None, d_manifest = Absent, d_journal = NoJournal,
       d_backup = Absent, d_marker = False\<rparr>, w_trace = []\<rparr>\<rparr>"

lemma stop_start:
  "ledger_wf (w_db (rt_outer stop_world))" "stop_row \<in> set (db_operations (w_db (rt_outer stop_world)))"
  "r_operation stop_row = ''stop''" "rt_trace stop_world = []" "r_id stop_row = 1"
proof -
  have "db_operations stop_db = [stop_row]" by code_simp
  then show "stop_row \<in> set (db_operations (w_db (rt_outer stop_world)))"
    by (simp add: stop_world_def)
  show "ledger_wf (w_db (rt_outer stop_world))"
    using ledger_reachable_wf [OF reach_stop] by (simp add: stop_world_def)
qed (simp_all add: stop_row_def stop_world_def demo_row_def)

lemma stop_run: obtains rep c' before e after where
  "client_execute stop_env stop_client_env stop_config 1 stop_world = (Inr rep, c')"
  "rp_outcome rep = Out_dispatched" "rt_trace c' = before @ e # after" "\<not> reading_event e"
proof -
  obtain res c' where run: "client_execute stop_env stop_client_env stop_config 1 stop_world = (res, c')"
    by (cases "client_execute stop_env stop_client_env stop_config 1 stop_world")
  have "(case client_execute stop_env stop_client_env stop_config 1 stop_world of (res, c) \<Rightarrow>
      (map_sum id rp_outcome res, list_all reading_event (rt_trace c))) = (Inr Out_dispatched, False)"
    by code_simp
  with run obtain rep e where rep: "res = Inr rep" "rp_outcome rep = Out_dispatched"
    and e: "e \<in> set (rt_trace c')" "\<not> reading_event e"
    by (cases res) (auto simp: list_all_iff)
  obtain before after where "rt_trace c' = before @ e # after"
    using split_list [OF e(1)] by blast
  with run rep e that show thesis by blast
qed

theorem exit_sent_under_intent_witness:
  "\<exists>rep c' before e after w. client_execute stop_env stop_client_env stop_config 1 stop_world = (Inr rep, c') \<and>
     rt_trace c' = before @ e # after \<and> \<not> reading_event e \<and> suffix [Gate_asked w (Some True)] before \<and>
     state_of (w_db w) 1 = Some DispatchPending"
proof -
  obtain rep c' before e after where run: "client_execute stop_env stop_client_env stop_config 1 stop_world = (Inr rep, c')"
    "rt_trace c' = before @ e # after" "\<not> reading_event e"
    by (rule stop_run)
  from exit_sent_under_intent [OF stop_start(1-4), unfolded stop_start(5), OF run] run show ?thesis
    by blast
qed

theorem stop_never_replayed_witness:
  "\<exists>rep c'. client_execute stop_env stop_client_env stop_config 1 stop_world = (Inr rep, c') \<and>
     state_of (w_db (rt_outer c')) 1 = Some Dispatched \<and> absent_scan 620 (rt_trace c')"
proof -
  obtain rep c' where run: "client_execute stop_env stop_client_env stop_config 1 stop_world = (Inr rep, c')"
    "rp_outcome rep = Out_dispatched"
    by (rule stop_run)
  from stop_never_replayed [OF stop_start(1-4), unfolded stop_start(5), OF run(1)] run show ?thesis
    by (auto simp: stop_row_def)
qed

end
