(* ===== verification/Json_Value.thy ===== *)
theory Json_Value
  imports Json_Text "HOL-Library.AList"
begin

text \<open>
  JSON documents: \<open>json.dumps(value, sort_keys=True)\<close> and \<open>json.loads\<close> of the Python standard
  library, over strings of code points below 256.  A float is kept as its text.  What is
  written is read back.
\<close>


section \<open>Values and printing\<close>

datatype json =
    JNull
  | JBool bool
  | JInt int
  | JFloat string
  | JString string
  | JList "json list"
  | JObject "(string \<times> json) list"

fun join :: "string \<Rightarrow> string list \<Rightarrow> string" where
  "join sep [] = []"
| "join sep [x] = x"
| "join sep (x # y # ys) = x @ sep @ join sep (y # ys)"

fun json_dumps :: "json \<Rightarrow> string" where
  "json_dumps JNull = ''null''"
| "json_dumps (JBool b) = json_bool b"
| "json_dumps (JInt n) = json_int n"
| "json_dumps (JFloat t) = t"
| "json_dumps (JString s) = json_string s"
| "json_dumps (JList xs) = ''['' @ join '', '' (map json_dumps xs) @ '']''"
| "json_dumps (JObject kvs) =
     ''{'' @ join '', '' (map (\<lambda>(k, t). json_string k @ '': '' @ t)
       (sort_key fst (map (\<lambda>(k, v). (k, json_dumps v)) kvs))) @ ''}''"


section \<open>Reading\<close>

definition json_space :: "char \<Rightarrow> bool" where
  "json_space c \<longleftrightarrow> code c \<in> {9, 10, 13, 32}"

definition skip :: "string \<Rightarrow> string" where
  "skip s = dropWhile json_space s"

text \<open>The fraction and the exponent of a number: the text read, and the rest.\<close>

definition number_fraction :: "string \<Rightarrow> string \<times> string" where
  "number_fraction s =
     (case s of
        c # rest \<Rightarrow>
          if c = CHR ''.'' \<and> takeWhile is_digit rest \<noteq> []
          then (c # takeWhile is_digit rest, dropWhile is_digit rest) else ([], s)
      | [] \<Rightarrow> ([], s))"

definition number_exponent :: "string \<Rightarrow> string \<times> string" where
  "number_exponent s =
     (case s of
        c # rest \<Rightarrow>
          let sign = (case rest of x # _ \<Rightarrow> if x = CHR ''+'' \<or> x = CHR ''-'' then [x] else [] | [] \<Rightarrow> []);
              digits = drop (length sign) rest in
          if (c = CHR ''e'' \<or> c = CHR ''E'') \<and> takeWhile is_digit digits \<noteq> []
          then (c # sign @ takeWhile is_digit digits, dropWhile is_digit digits) else ([], s)
      | [] \<Rightarrow> ([], s))"

definition json_number :: "string \<Rightarrow> (json \<times> string) option" where
  "json_number s =
     (let sign = (case s of c # _ \<Rightarrow> if c = CHR ''-'' then [c] else [] | [] \<Rightarrow> []);
          all = takeWhile is_digit (drop (length sign) s);
          digits = (case all of c # _ \<Rightarrow> if c = CHR ''0'' then [c] else all | [] \<Rightarrow> []);
          rest = drop (length sign + length digits) s;
          (fraction, rest') = number_fraction rest;
          (exponent, rest'') = number_exponent rest' in
      if digits = [] then None
      else if fraction = [] \<and> exponent = []
      then Some (JInt (if sign = [] then int (decimal_value digits) else - int (decimal_value digits)), rest'')
      else Some (JFloat (sign @ digits @ fraction @ exponent), rest''))"

definition json_literals :: "(string \<times> json) list" where
  "json_literals = [(''null'', JNull), (''true'', JBool True), (''false'', JBool False),
     (''NaN'', JFloat ''NaN''), (''Infinity'', JFloat ''Infinity''), (''-Infinity'', JFloat ''-Infinity'')]"

definition json_atom :: "string \<Rightarrow> (json \<times> string) option" where
  "json_atom s =
     (case find (\<lambda>(t, v). prefix t s) json_literals of
        Some (t, v) \<Rightarrow> Some (v, drop (length t) s)
      | None \<Rightarrow> json_number s)"

text \<open>A key that comes twice keeps its last value.\<close>

definition dict_of :: "(string \<times> json) list \<Rightarrow> (string \<times> json) list" where
  "dict_of kvs = fold (\<lambda>(k, v) d. AList.update k v d) kvs []"

fun json_value :: "nat \<Rightarrow> string \<Rightarrow> (json \<times> string) option"
  and json_elements :: "nat \<Rightarrow> string \<Rightarrow> (json list \<times> string) option"
  and json_members :: "nat \<Rightarrow> string \<Rightarrow> ((string \<times> json) list \<times> string) option" where
  "json_value 0 s = None"
| "json_value (Suc n) s =
     (case s of
        [] \<Rightarrow> None
      | c # r \<Rightarrow>
          if c = json_quote then map_option (\<lambda>(t, r). (JString t, r)) (json_read r)
          else if c = CHR ''['' then
            (if skip r \<noteq> [] \<and> hd (skip r) = CHR '']'' then Some (JList [], tl (skip r))
             else map_option (\<lambda>(xs, r). (JList xs, r)) (json_elements n (skip r)))
          else if c = CHR ''{'' then
            (if skip r \<noteq> [] \<and> hd (skip r) = CHR ''}'' then Some (JObject [], tl (skip r))
             else map_option (\<lambda>(kvs, r). (JObject (dict_of kvs), r)) (json_members n (skip r)))
          else json_atom s)"
| "json_elements 0 s = None"
| "json_elements (Suc n) s =
     (case json_value n s of
        None \<Rightarrow> None
      | Some (v, r) \<Rightarrow>
          (case skip r of
             [] \<Rightarrow> None
           | c # r' \<Rightarrow>
               if c = CHR '','' then map_option (\<lambda>(vs, r). (v # vs, r)) (json_elements n (skip r'))
               else if c = CHR '']'' then Some ([v], r') else None))"
| "json_members 0 s = None"
| "json_members (Suc n) s =
     (case s of
        [] \<Rightarrow> None
      | q # r \<Rightarrow>
          if q \<noteq> json_quote then None
          else
            (case json_read r of
               None \<Rightarrow> None
             | Some (k, r) \<Rightarrow>
                 (case skip r of
                    [] \<Rightarrow> None
                  | c # r' \<Rightarrow>
                      if c \<noteq> CHR '':'' then None
                      else
                        (case json_value n (skip r') of
                           None \<Rightarrow> None
                         | Some (v, r) \<Rightarrow>
                             (case skip r of
                                [] \<Rightarrow> None
                              | c # r' \<Rightarrow>
                                  if c = CHR '','' then map_option (\<lambda>(kvs, r). ((k, v) # kvs, r)) (json_members n (skip r'))
                                  else if c = CHR ''}'' then Some ([(k, v)], r') else None)))))"

text \<open>Two units of fuel per character are enough: every second step reads one.\<close>

definition json_loads :: "string \<Rightarrow> json option" where
  "json_loads s =
     (case json_value (2 * length s + 2) (skip s) of
        Some (v, r) \<Rightarrow> if skip r = [] then Some v else None
      | None \<Rightarrow> None)"

definition json_get :: "string \<Rightarrow> (string \<times> json) list \<Rightarrow> json option" where
  "json_get k kvs = map_of kvs k"

text \<open>\<open>bool(value)\<close>; a float is zero when the digits before its exponent are.\<close>

definition zero_float :: "string \<Rightarrow> bool" where
  "zero_float t \<longleftrightarrow> list_all (\<lambda>c. c \<in> set ''-0.'') (takeWhile (\<lambda>c. c \<noteq> CHR ''e'' \<and> c \<noteq> CHR ''E'') t)"

fun truthy :: "json \<Rightarrow> bool" where
  "truthy JNull = False"
| "truthy (JBool b) = b"
| "truthy (JInt n) = (n \<noteq> 0)"
| "truthy (JFloat t) = (\<not> zero_float t)"
| "truthy (JString s) = (s \<noteq> [])"
| "truthy (JList xs) = (xs \<noteq> [])"
| "truthy (JObject kvs) = (kvs \<noteq> [])"


section \<open>What is written is read back\<close>

text \<open>Normal documents: no floats, and objects with their keys in order.\<close>

fun normal :: "json \<Rightarrow> bool" where
  "normal (JFloat t) = False"
| "normal (JList xs) = (\<forall>x \<in> set xs. normal x)"
| "normal (JObject kvs) = (sorted (map fst kvs) \<and> distinct (map fst kvs) \<and> (\<forall>p \<in> set kvs. normal (snd p)))"
| "normal _ = True"

fun weight :: "json \<Rightarrow> nat" where
  "weight (JList xs) = Suc (sum_list (map (\<lambda>x. Suc (weight x)) xs))"
| "weight (JObject kvs) = Suc (sum_list (map (\<lambda>p. Suc (weight (snd p))) kvs))"
| "weight _ = 1"

definition ends :: "string \<Rightarrow> bool" where
  "ends rest \<longleftrightarrow> (case rest of [] \<Rightarrow> True | c # _ \<Rightarrow> c \<in> set '',]}'')"

lemma ends_simps [simp]: "ends []" "ends (c # rest) \<longleftrightarrow> c = CHR '','' \<or> c = CHR '']'' \<or> c = CHR ''}''"
  by (auto simp: ends_def)

lemma ends_cases: "ends rest \<Longrightarrow> rest = [] \<or> (\<exists>c r. rest = c # r \<and> (c = CHR '','' \<or> c = CHR '']'' \<or> c = CHR ''}''))"
  by (cases rest) auto

lemma not_digits [simp]:
  "\<not> is_digit (CHR '','')" "\<not> is_digit (CHR '']'')" "\<not> is_digit (CHR ''}'')" "\<not> is_digit (CHR ''-'')"
  by (simp_all add: is_digit_def code_def)

lemma take_digits: "ends rest \<Longrightarrow> takeWhile is_digit (show_nat n @ rest) = show_nat n"
  using show_nat_digits [of n] ends_cases [of rest] by auto

lemma show_nat_zero: "show_nat n = c # cs \<Longrightarrow> c = CHR ''0'' \<Longrightarrow> n = 0"
proof (induction n arbitrary: cs rule: show_nat.induct)
  case (1 n)
  show ?case
  proof (cases "n < 10")
    case True
    with 1(2,3) have "code (digit_char n) = 48"
      by (subst (asm) show_nat.simps) (simp add: code_def)
    with True show ?thesis by (simp add: code_digit_char)
  next
    case False
    then have "show_nat (n div 10) @ [digit_char (n mod 10)] = c # cs"
      using 1(2) by (subst (asm) show_nat.simps) simp
    then obtain ds where "show_nat (n div 10) = c # ds"
      by (cases "show_nat (n div 10)") auto
    with 1 False have "n div 10 = 0" by blast
    with False show ?thesis by simp
  qed
qed

lemma show_nat_0: "show_nat 0 = ''0''"
  by code_simp

lemma no_fraction: "ends rest \<Longrightarrow> number_fraction rest = ([], rest)" "ends rest \<Longrightarrow> number_exponent rest = ([], rest)"
  by (auto dest!: ends_cases simp: number_fraction_def number_exponent_def Let_def)

lemma first_digit: "show_nat n = c # cs \<Longrightarrow> is_digit c"
  using show_nat_digits [of n] by simp

lemma json_number_nat: "ends rest \<Longrightarrow> json_number (show_nat n @ rest) = Some (JInt (int n), rest)"
proof -
  assume rest: "ends rest"
  obtain c cs where c: "show_nat n = c # cs"
    by (cases "show_nat n") auto
  have "c \<noteq> CHR ''-''"
    using first_digit [OF c] by auto
  moreover have "c = CHR ''0'' \<Longrightarrow> cs = []"
    using show_nat_zero [OF c] show_nat_0 c by auto
  ultimately show ?thesis
    using take_digits [OF rest, of n] no_fraction [OF rest] c decimal_value_show_nat [of n]
    by (auto simp: json_number_def Let_def)
qed

lemma json_number_int: "ends rest \<Longrightarrow> json_number (json_int n @ rest) = Some (JInt n, rest)"
proof (cases "n < 0")
  case True
  assume rest: "ends rest"
  obtain c cs where c: "show_nat (nat (- n)) = c # cs"
    by (cases "show_nat (nat (- n))") auto
  have "c \<noteq> CHR ''0''"
    using show_nat_zero [OF c] True by auto
  with True show ?thesis
    using take_digits [OF rest, of "nat (- n)"] no_fraction [OF rest] c decimal_value_show_nat [of "nat (- n)"]
    by (auto simp: json_number_def json_int_def Let_def)
next
  case False
  assume "ends rest"
  with False json_number_nat [of rest "nat n"] show ?thesis
    by (simp add: json_int_def)
qed

lemma json_int_head: obtains c cs where "json_int n = c # cs"
  "is_digit c \<or> c = CHR ''-'' \<and> (\<exists>d ds. cs = d # ds \<and> is_digit d)"
proof (cases "n < 0")
  case True
  then obtain c cs where "show_nat (nat (- n)) = c # cs" "is_digit c"
    using first_digit by (cases "show_nat (nat (- n))") auto
  with True that show thesis by (simp add: json_int_def)
next
  case False
  then obtain c cs where "show_nat (nat n) = c # cs" "is_digit c"
    using first_digit by (cases "show_nat (nat n)") auto
  with False that show thesis by (simp add: json_int_def)
qed

lemma json_atom_int: "ends rest \<Longrightarrow> json_atom (json_int n @ rest) = Some (JInt n, rest)"
proof -
  assume rest: "ends rest"
  obtain c cs where c: "json_int n = c # cs" "is_digit c \<or> c = CHR ''-'' \<and> (\<exists>d ds. cs = d # ds \<and> is_digit d)"
    by (rule json_int_head)
  have letters: "\<not> is_digit (CHR ''n'')" "\<not> is_digit (CHR ''t'')" "\<not> is_digit (CHR ''f'')"
    "\<not> is_digit (CHR ''N'')" "\<not> is_digit (CHR ''I'')"
    by (simp_all add: is_digit_def code_def)
  have "c \<notin> {CHR ''n'', CHR ''t'', CHR ''f'', CHR ''N'', CHR ''I''}"
    using c(2) letters by auto
  moreover have "\<exists>d ds. cs = d # ds \<and> d \<noteq> CHR ''I''" if "c = CHR ''-''"
    using c(2) letters that by auto
  ultimately have "find (\<lambda>(t, v). prefix t (json_int n @ rest)) json_literals = None"
    unfolding c(1) json_literals_def by (cases "c = CHR ''-''") auto
  with json_number_int [OF rest] show ?thesis
    by (simp add: json_atom_def)
qed

lemma json_atom_literals:
  "json_atom (''null'' @ rest) = Some (JNull, rest)" "json_atom (json_bool b @ rest) = Some (JBool b, rest)"
  by (cases b; simp add: json_atom_def json_literals_def json_bool_def)+

text \<open>The first character of a document decides how it is read, and is no white space.\<close>

lemma skip_head: "\<not> json_space c \<Longrightarrow> skip (c # s) = c # s"
  by (simp add: skip_def)

lemma not_space [simp]:
  "\<not> json_space (CHR '','')" "\<not> json_space (CHR '']'')" "\<not> json_space (CHR ''}'')" "\<not> json_space (CHR '':'')"
  "\<not> json_space (CHR ''['')" "\<not> json_space (CHR ''{'')" "\<not> json_space json_quote" "\<not> json_space (CHR ''-'')"
  "\<not> json_space (CHR ''n'')" "\<not> json_space (CHR ''t'')" "\<not> json_space (CHR ''f'')" "is_digit c \<Longrightarrow> \<not> json_space c"
  by (auto simp: json_space_def json_quote_def code_def is_digit_def)

lemma skip_space [simp]: "skip (CHR '' '' # s) = skip s"
  by (simp add: skip_def json_space_def code_def)

definition opens :: "char \<Rightarrow> bool" where
  "opens c \<longleftrightarrow> \<not> json_space c \<and> c \<noteq> CHR '']'' \<and> c \<noteq> CHR ''}''"

lemma dumps_opens:
  assumes "normal v"
  obtains c r where "json_dumps v = c # r" "opens c"
proof (cases v)
  case (JInt n)
  obtain c cs where c: "json_int n = c # cs" "is_digit c \<or> c = CHR ''-'' \<and> (\<exists>d ds. cs = d # ds \<and> is_digit d)"
    by (rule json_int_head)
  then have "opens c"
    by (auto simp: opens_def)
  with c JInt that show thesis by simp
next
  case (JBool b)
  with that show thesis by (cases b) (simp_all add: json_bool_def opens_def)
next
  case (JString t)
  with that show thesis by (simp add: json_string_def opens_def json_quote_def json_space_def code_def)
qed (use that assms in \<open>auto simp: opens_def\<close>)

lemma skip_dumps: "normal v \<Longrightarrow> skip (json_dumps v @ rest) = json_dumps v @ rest"
  by (rule dumps_opens [of v]) (auto simp: opens_def skip_head)

lemma json_value_atom:
  "json_value (Suc n) (json_int i @ rest) = json_atom (json_int i @ rest)"
  "json_value (Suc n) (''null'' @ rest) = json_atom (''null'' @ rest)"
  "json_value (Suc n) (json_bool b @ rest) = json_atom (json_bool b @ rest)"
proof -
  obtain c cs where c: "json_int i = c # cs" "is_digit c \<or> c = CHR ''-'' \<and> (\<exists>d ds. cs = d # ds \<and> is_digit d)"
    by (rule json_int_head)
  then have "c \<noteq> json_quote \<and> c \<noteq> CHR ''['' \<and> c \<noteq> CHR ''{''"
    by (auto simp: is_digit_def code_def json_quote_def)
  with c(1) show "json_value (Suc n) (json_int i @ rest) = json_atom (json_int i @ rest)" by simp
qed (cases b; simp add: json_bool_def json_quote_def)+

text \<open>What is to be shown of a value: with fuel enough it is read, and what follows it is left.\<close>

definition reads_back :: "json \<Rightarrow> bool" where
  "reads_back v \<longleftrightarrow> (\<forall>n rest. weight v \<le> n \<longrightarrow> ends rest \<longrightarrow> json_value n (json_dumps v @ rest) = Some (v, rest))"

lemma elements_step:
  assumes "json_value m s = Some (x, c # r)"
  shows "c = CHR '']'' \<Longrightarrow> json_elements (Suc m) s = Some ([x], r)"
    and "c = CHR '','' \<Longrightarrow> json_elements m (skip r) = Some (xs, q) \<Longrightarrow> json_elements (Suc m) s = Some (x # xs, q)"
  using assms by (simp_all add: skip_head)

lemma members_step:
  assumes "json_value m t = Some (v, c # r)" "skip t = t"
  shows "c = CHR ''}'' \<Longrightarrow> json_members (Suc m) (json_string k @ '': '' @ t) = Some ([(k, v)], r)"
    and "c = CHR '','' \<Longrightarrow> json_members m (skip r) = Some (kvs, q) \<Longrightarrow>
      json_members (Suc m) (json_string k @ '': '' @ t) = Some ((k, v) # kvs, q)"
  using assms by (simp_all add: skip_head json_string_def json_read_string)

declare json_value.simps [simp del] json_elements.simps [simp del] json_members.simps [simp del]

lemma elements_read_back:
  assumes "xs \<noteq> []" "\<And>x. x \<in> set xs \<Longrightarrow> reads_back x \<and> normal x"
    and "sum_list (map (\<lambda>x. Suc (weight x)) xs) \<le> n"
  shows "json_elements n (join '', '' (map json_dumps xs) @ CHR '']'' # rest) = Some (xs, rest)"
  using assms
proof (induction xs arbitrary: n)
  case (Cons x xs)
  then obtain m where m: "n = Suc m" "weight x \<le> m"
    by (cases n) auto
  have x: "json_value m (json_dumps x @ r) = Some (x, r)" if "ends r" for r
    using Cons.prems(2) [of x] m(2) that by (simp add: reads_back_def)
  show ?case
  proof (cases xs)
    case Nil
    have "json_value m (json_dumps x @ CHR '']'' # rest) = Some (x, CHR '']'' # rest)"
      by (rule x) simp
    from elements_step(1) [OF this refl] show ?thesis
      by (simp add: Nil m)
  next
    case (Cons y ys)
    let ?more = "join '', '' (map json_dumps xs) @ CHR '']'' # rest"
    have "json_elements m ?more = Some (xs, rest)"
      using Cons.IH Cons.prems Cons m by simp
    moreover have "skip ?more = ?more"
      using Cons.prems(2) [of y] Cons skip_dumps [of y] by (cases ys) simp_all
    moreover have "json_value m (json_dumps x @ CHR '','' # CHR '' '' # ?more) = Some (x, CHR '','' # CHR '' '' # ?more)"
      by (rule x) simp
    ultimately have "json_elements (Suc m) (json_dumps x @ CHR '','' # CHR '' '' # ?more) = Some (x # xs, rest)"
      by (intro elements_step(2) [where c = "CHR '',''" and r = "CHR '' '' # ?more"]) (simp_all only: skip_space)
    then show ?thesis
      by (simp add: Cons m)
  qed
qed simp

definition member_text :: "string \<times> json \<Rightarrow> string" where
  "member_text p = json_string (fst p) @ '': '' @ json_dumps (snd p)"

lemma members_read_back:
  assumes "kvs \<noteq> []" "\<And>p. p \<in> set kvs \<Longrightarrow> reads_back (snd p) \<and> normal (snd p)"
    and "sum_list (map (\<lambda>p. Suc (weight (snd p))) kvs) \<le> n"
  shows "json_members n (join '', '' (map member_text kvs) @ CHR ''}'' # rest) = Some (kvs, rest)"
  using assms
proof (induction kvs arbitrary: n)
  case (Cons p kvs)
  obtain k v where p: "p = (k, v)"
    by (cases p)
  from Cons.prems obtain m where m: "n = Suc m" "weight v \<le> m"
    by (cases n) (auto simp: p)
  have v: "json_value m (json_dumps v @ r) = Some (v, r)" if "ends r" for r
    using Cons.prems(2) [of p] m(2) that by (simp add: reads_back_def p)
  have skip: "skip (json_dumps v @ r) = json_dumps v @ r" for r
    using Cons.prems(2) [of p] skip_dumps [of v r] by (simp add: p)
  show ?case
  proof (cases kvs)
    case Nil
    have "json_value m (json_dumps v @ CHR ''}'' # rest) = Some (v, CHR ''}'' # rest)"
      by (rule v(1)) simp
    from members_step(1) [OF this skip refl, of k] show ?thesis
      by (simp add: Nil m p member_text_def)
  next
    case (Cons q qs)
    let ?more = "join '', '' (map member_text kvs) @ CHR ''}'' # rest"
    have "json_members m ?more = Some (kvs, rest)"
      using Cons.IH Cons.prems Cons m by (simp add: p)
    moreover have "skip ?more = ?more"
      using Cons by (cases qs) (simp_all add: member_text_def json_string_def skip_head)
    moreover have "json_value m (json_dumps v @ CHR '','' # CHR '' '' # ?more) = Some (v, CHR '','' # CHR '' '' # ?more)"
      by (rule v(1)) simp
    ultimately have "json_members (Suc m) (json_string k @ '': '' @ json_dumps v @ CHR '','' # CHR '' '' # ?more) = Some ((k, v) # kvs, rest)"
      by (intro members_step(2) [where c = "CHR '',''" and r = "CHR '' '' # ?more"] skip) (simp_all only: skip_space)
    then show ?thesis
      by (simp add: Cons m p member_text_def [abs_def])
  qed
qed simp

lemma array_value:
  assumes "s = c # r" "opens c" "json_elements m s = Some (xs, q)"
  shows "json_value (Suc m) (CHR ''['' # s) = Some (JList xs, q)"
proof -
  have "skip s = s"
    using assms(1,2) by (simp add: opens_def skip_head)
  with assms show ?thesis
    by (simp add: json_value.simps json_quote_def opens_def)
qed

lemma object_value:
  assumes "s = json_quote # r" "json_members m s = Some (kvs, q)"
  shows "json_value (Suc m) (CHR ''{'' # s) = Some (JObject (dict_of kvs), q)"
proof -
  have "skip s = s"
    using assms(1) by (simp add: skip_head)
  with assms show ?thesis
    by (simp add: json_value.simps json_quote_def)
qed

lemma empty_values:
  "json_value (Suc m) (''[]'' @ rest) = Some (JList [], rest)"
  "json_value (Suc m) (''{}'' @ rest) = Some (JObject [], rest)"
  by (simp_all add: json_value.simps json_quote_def skip_head)

lemma dict_of_distinct: "distinct (map fst kvs) \<Longrightarrow> dict_of kvs = kvs"
proof -
  have "distinct (map fst (d @ kvs)) \<Longrightarrow> fold (\<lambda>(k, v) d. AList.update k v d) kvs d = d @ kvs" for d
  proof (induction kvs arbitrary: d)
    case (Cons p kvs)
    obtain k v where p: "p = (k, v)"
      by (cases p)
    have "AList.update k v d = d @ [(k, v)]"
    proof -
      from Cons.prems have "k \<notin> fst ` set d"
        by (auto simp: p)
      then show ?thesis
        by (induction d) auto
    qed
    with Cons.IH [of "d @ [p]"] Cons.prems show ?case
      by (simp add: p)
  qed simp
  then show "distinct (map fst kvs) \<Longrightarrow> dict_of kvs = kvs"
    by (simp add: dict_of_def)
qed

lemma dumps_object:
  assumes "sorted (map fst kvs)"
  shows "json_dumps (JObject kvs) = CHR ''{'' # join '', '' (map member_text kvs) @ ''}''"
proof -
  have "sort_key fst (map (\<lambda>(k, v). (k, json_dumps v)) kvs) = map (\<lambda>(k, v). (k, json_dumps v)) kvs"
    using assms by (intro sort_key_id_if_sorted) (simp add: comp_def case_prod_beta)
  then show ?thesis
    by (simp add: member_text_def [abs_def] comp_def case_prod_beta)
qed

lemma normal_reads_back: "normal v \<Longrightarrow> reads_back v"
proof (induction v rule: json.induct)
  case JNull
  then show ?case
    using json_value_atom(2) json_atom_literals(1)
    by (auto simp: reads_back_def Suc_le_eq gr0_conv_Suc)
next
  case (JBool b)
  then show ?case
    by (auto simp: reads_back_def json_atom_literals json_value_atom Suc_le_eq gr0_conv_Suc)
next
  case (JInt i)
  then show ?case
    by (auto simp: reads_back_def json_atom_int json_value_atom Suc_le_eq gr0_conv_Suc)
next
  case (JString t)
  then show ?case
    by (auto simp: reads_back_def json_string_def json_read_string json_value.simps Suc_le_eq gr0_conv_Suc)
next
  case (JList xs)
  show ?case
    unfolding reads_back_def
  proof (intro allI impI)
    fix n rest
    assume "weight (JList xs) \<le> n" "ends rest"
    then obtain m where m: "n = Suc m" "sum_list (map (\<lambda>x. Suc (weight x)) xs) \<le> m"
      by (cases n) auto
    show "json_value n (json_dumps (JList xs) @ rest) = Some (JList xs, rest)"
    proof (cases xs)
      case Nil
      then show ?thesis
        using empty_values(1) by (simp add: m)
    next
      case (Cons x ys)
      have "normal x"
        using JList.prems Cons by simp
      then obtain c r where x: "json_dumps x = c # r" "opens c"
        by (rule dumps_opens)
      let ?body = "join '', '' (map json_dumps xs) @ CHR '']'' # rest"
      have "?body = c # tl ?body"
        using Cons x by (cases ys) simp_all
      moreover have "json_elements m ?body = Some (xs, rest)"
        using JList m(2) Cons by (intro elements_read_back) auto
      ultimately have "json_value (Suc m) (CHR ''['' # ?body) = Some (JList xs, rest)"
        by (intro array_value [OF _ x(2)])
      then show ?thesis
        by (simp add: m)
    qed
  qed
next
  case (JObject kvs)
  show ?case
    unfolding reads_back_def
  proof (intro allI impI)
    fix n rest
    assume "weight (JObject kvs) \<le> n" "ends rest"
    then obtain m where m: "n = Suc m" "sum_list (map (\<lambda>p. Suc (weight (snd p))) kvs) \<le> m"
      by (cases n) auto
    have keys: "sorted (map fst kvs)" "distinct (map fst kvs)"
      using JObject.prems by simp_all
    show "json_value n (json_dumps (JObject kvs) @ rest) = Some (JObject kvs, rest)"
    proof (cases kvs)
      case Nil
      then show ?thesis
        using empty_values(2) by (simp add: m)
    next
      case (Cons p ps)
      let ?body = "join '', '' (map member_text kvs) @ CHR ''}'' # rest"
      have "?body = json_quote # tl ?body"
        using Cons by (cases ps) (simp_all add: member_text_def json_string_def)
      moreover have "reads_back (snd q) \<and> normal (snd q)" if "q \<in> set kvs" for q
        using JObject.IH [OF that, of "snd q"] JObject.prems that by (simp add: snds.simps)
      with m(2) Cons have "json_members m ?body = Some (kvs, rest)"
        by (intro members_read_back) auto
      ultimately have "json_value (Suc m) (CHR ''{'' # ?body) = Some (JObject (dict_of kvs), rest)"
        by (rule object_value)
      then show ?thesis
        by (simp add: m dumps_object [OF keys(1)] dict_of_distinct [OF keys(2)] del: json_dumps.simps)
    qed
  qed
qed simp

text \<open>The fuel of \<open>json_loads\<close> suffices for every normal document.\<close>

lemma join_length: "sum_list (map (\<lambda>t. length t + length sep) ts) \<le> length (join sep ts) + length sep"
  by (induction sep ts rule: join.induct) simp_all

lemma weights_join:
  assumes "\<And>x. x \<in> set xs \<Longrightarrow> w x \<le> 2 * length (t x)"
  shows "Suc (sum_list (map (\<lambda>x. Suc (w x)) xs)) \<le> 2 * (length (join '', '' (map t xs)) + 2)"
proof -
  have "sum_list (map (\<lambda>x. Suc (w x)) xs) \<le> sum_list (map (\<lambda>x. 2 * (length (t x) + 2) - 3) xs)"
    using assms by (intro sum_list_mono) fastforce
  also have "\<dots> + length xs \<le> 2 * sum_list (map (\<lambda>t. length t + 2) (map t xs))"
    by (induction xs) simp_all
  finally have "sum_list (map (\<lambda>x. Suc (w x)) xs) + length xs \<le> 2 * sum_list (map (\<lambda>t. length t + 2) (map t xs))"
    by simp
  with join_length [of "'', ''" "map t xs"] show ?thesis
    by (cases xs) (simp_all add: eval_nat_numeral)
qed

lemma weight_dumps: "normal v \<Longrightarrow> weight v \<le> 2 * length (json_dumps v)"
proof (induction v rule: json.induct)
  case (JBool b)
  then show ?case by (cases b) (simp_all add: json_bool_def)
next
  case (JInt i)
  obtain c cs where "json_int i = c # cs"
    by (rule json_int_head)
  then show ?case by simp
next
  case (JList xs)
  with weights_join [of xs weight json_dumps] show ?case
    by simp
next
  case (JObject kvs)
  have "weight (snd p) \<le> 2 * length (member_text p)" if "p \<in> set kvs" for p
    using JObject that by (cases p) (fastforce simp: member_text_def)
  from weights_join [of kvs "\<lambda>p. weight (snd p)" member_text, OF this] JObject.prems show ?case
    by (simp add: dumps_object del: json_dumps.simps)
qed (simp_all add: json_string_def)

lemma loads_dumps_normal:
  assumes "normal v"
  shows "json_loads (json_dumps v) = Some v"
proof -
  let ?t = "json_dumps v"
  have "json_value n (?t @ []) = Some (v, [])" if "weight v \<le> n" for n
    using normal_reads_back [OF assms] that unfolding reads_back_def by (metis ends_simps(1))
  from this [of "2 * length ?t + 2"] weight_dumps [OF assms]
  have "json_value (2 * length ?t + 2) ?t = Some (v, [])"
    by simp
  moreover have "skip ?t = ?t"
    using skip_dumps [OF assms, of "[]"] by simp
  ultimately show ?thesis
    by (simp add: json_loads_def skip_def del: add_2_eq_Suc add_2_eq_Suc')
qed


section \<open>Any document without floats\<close>

text \<open>Keys are written in order, so a document comes back with its objects sorted.\<close>

fun ordered :: "json \<Rightarrow> json" where
  "ordered (JList xs) = JList (map ordered xs)"
| "ordered (JObject kvs) = JObject (sort_key fst (map (\<lambda>(k, v). (k, ordered v)) kvs))"
| "ordered v = v"

fun keys_distinct :: "json \<Rightarrow> bool" where
  "keys_distinct (JList xs) = (\<forall>x \<in> set xs. keys_distinct x)"
| "keys_distinct (JObject kvs) = (distinct (map fst kvs) \<and> (\<forall>p \<in> set kvs. keys_distinct (snd p)))"
| "keys_distinct _ = True"

fun float_free :: "json \<Rightarrow> bool" where
  "float_free (JFloat t) = False"
| "float_free (JList xs) = (\<forall>x \<in> set xs. float_free x)"
| "float_free (JObject kvs) = (\<forall>p \<in> set kvs. float_free (snd p))"
| "float_free _ = True"

lemma insort_key_map:
  assumes "\<And>x. k (f x) = k' x"
  shows "insort_key k (f x) (map f xs) = map f (insort_key k' x xs)"
  using assms by (induction xs) simp_all

lemma sort_key_map:
  assumes "\<And>x. k (f x) = k' x"
  shows "sort_key k (map f xs) = map f (sort_key k' xs)"
  using insort_key_map [of k f k'] assms by (induction xs) simp_all

lemma map_snd_fst: "fst (case p of (k, v) \<Rightarrow> (k, f v)) = fst p"
  by (cases p) simp

lemma sort_members: "sort_key fst (map (\<lambda>(k, v). (k, f v)) kvs) = map (\<lambda>(k, v). (k, f v)) (sort_key fst kvs)"
  by (rule sort_key_map) (rule map_snd_fst)

lemma dumps_ordered: "json_dumps (ordered v) = json_dumps v"
proof (induction v rule: json.induct)
  case (JList xs)
  then have "map (json_dumps \<circ> ordered) xs = map json_dumps xs"
    by simp
  then show ?case by (simp only: ordered.simps json_dumps.simps map_map)
next
  case (JObject kvs)
  have members: "json_dumps (ordered v) = json_dumps v" if "(k, v) \<in> set kvs" for k v
    using JObject [OF that, of v] by (simp add: snds.simps)
  have "map (\<lambda>(k, v). (k, json_dumps v)) (map (\<lambda>(k, v). (k, ordered v)) (sort_key fst kvs)) =
      map (\<lambda>(k, v). (k, json_dumps v)) (sort_key fst kvs)"
    using members by auto
  then show ?case
    by (simp add: sort_members sort_key_id_if_sorted del: map_map)
qed simp_all

lemma normal_ordered: "float_free v \<Longrightarrow> keys_distinct v \<Longrightarrow> normal (ordered v)"
proof (induction v rule: json.induct)
  case (JObject kvs)
  have "normal (ordered v)" if "(k, v) \<in> set kvs" for k v
  proof (rule JObject.IH [OF that])
    have "\<forall>p \<in> set kvs. float_free (snd p) \<and> keys_distinct (snd p)"
      using JObject.prems by simp
    from bspec [OF this that] show "float_free v" "keys_distinct v"
      by simp_all
  qed (simp add: snds.simps)
  moreover have "map fst (map (\<lambda>(k, v). (k, ordered v)) kvs) = map fst kvs"
    by (simp add: case_prod_beta)
  ultimately show ?case
    using JObject.prems by (auto simp: sort_members distinct_map case_prod_beta comp_def)
qed auto

theorem json_loads_dumps:
  assumes "float_free v" "keys_distinct v"
  shows "json_loads (json_dumps v) = Some (ordered v)"
  using loads_dumps_normal [OF normal_ordered [OF assms]] by (simp add: dumps_ordered)

lemma json_get_ordered:
  assumes "distinct (map fst kvs)"
  shows "json_get k (sort_key fst (map (\<lambda>(k, v). (k, f v)) kvs)) = map_option f (json_get k kvs)"
proof -
  have "map_of (sort_key fst kvs) = map_of kvs"
    using assms by (intro map_of_inject_set [THEN iffD2]) (simp_all add: distinct_map)
  then show ?thesis
    by (simp add: json_get_def sort_members map_of_map)
qed


section \<open>What is read has distinct keys\<close>

lemma dict_of_keys: "distinct (map fst (dict_of kvs))"
proof -
  have "distinct (map fst d) \<Longrightarrow> distinct (map fst (fold (\<lambda>(k, v) d. AList.update k v d) kvs d))" for d
    by (induction kvs arbitrary: d) (auto simp: distinct_update)
  from this [of "[]"] show ?thesis by (simp add: dict_of_def)
qed

lemma dict_of_values: "p \<in> set (dict_of kvs) \<Longrightarrow> snd p \<in> snd ` set kvs"
proof -
  have "set (AList.update k v d) \<subseteq> insert (k, v) (set d)" for k and v :: json and d
    by (induction d) auto
  then have "set (fold (\<lambda>(k, v) d. AList.update k v d) kvs d) \<subseteq> set kvs \<union> set d" for d
    by (induction kvs arbitrary: d) fastforce+
  from this [of "[]"] show "p \<in> set (dict_of kvs) \<Longrightarrow> snd p \<in> snd ` set kvs"
    by (auto simp: dict_of_def)
qed

lemma json_atom_keys: "json_atom s = Some (v, r) \<Longrightarrow> keys_distinct v"
  by (auto simp: json_atom_def json_literals_def json_number_def Let_def split: if_splits prod.splits)

lemma json_value_keys:
  "json_value n s = Some (v, r) \<Longrightarrow> keys_distinct v"
  "json_elements n s = Some (vs, r) \<Longrightarrow> \<forall>v \<in> set vs. keys_distinct v"
  "json_members n s = Some (kvs, r) \<Longrightarrow> \<forall>p \<in> set kvs. keys_distinct (snd p)"
proof (induction n arbitrary: s r v vs kvs)
  case 0
  {
    case 1
    then show ?case by (simp add: json_value.simps)
  next
    case 2
    then show ?case by (simp add: json_elements.simps)
  next
    case 3
    then show ?case by (simp add: json_members.simps)
  }
next
  case (Suc n)
  {
    case 1
    have "keys_distinct (JObject (dict_of ps))" if "json_members n s = Some (ps, q)" for s ps q
    proof -
      have "\<forall>p \<in> set ps. keys_distinct (snd p)"
        using Suc(3) that by blast
      then have "\<forall>p \<in> set (dict_of ps). keys_distinct (snd p)"
        using dict_of_values by (metis image_iff)
      with dict_of_keys show ?thesis by simp
    qed
    moreover have "keys_distinct (JObject [])"
      by simp
    ultimately show ?case
      using 1 Suc(2)
      by (auto simp: json_value.simps json_atom_keys simp del: keys_distinct.simps(2) split: list.splits if_splits)
  next
    case 2
    then obtain x q c q' where x: "json_value n s = Some (x, q)" "skip q = c # q'"
      by (auto simp: json_elements.simps split: option.splits list.splits)
    with 2 Suc(2) [of "skip q'"] Suc(1) [OF x(1)] show ?case
      by (auto simp: json_elements.simps split: if_splits)
  next
    case 3
    have "keys_distinct x" if "json_value n s = Some (x, q)" for s x q
      using Suc(1) that by blast
    moreover have "keys_distinct y" if "json_members n s = Some (ps, q)" "(j, y) \<in> set ps" for s ps q j y
      using Suc(3) [OF that(1)] that(2) by auto
    ultimately show ?case
      using 3 by (auto simp: json_members.simps split: list.splits if_splits option.splits)
  }
qed

lemma json_loads_keys: "json_loads s = Some v \<Longrightarrow> keys_distinct v"
  by (auto simp: json_loads_def json_value_keys(1) split: option.splits if_splits)

end
