(* ===== verification/Broker_Config.thy ===== *)
theory Broker_Config
  imports Json_Value Requests Manifest
begin

text \<open>
  The configuration of \<open>src/steam_agent/execution/broker_main.py\<close>: reading \<open>broker.json\<close>,
  writing it in \<open>init\<close>, the disk floor, and the reading of the policy just before an effect.
\<close>


section \<open>Failures\<close>

text \<open>What \<open>_fail\<close> is given; the text of an exception is the exception.\<close>

datatype broker_failure =
    Message string
  | Policy_failure policy_error
  | Ledger_failure ledger_error
  | Request_failure request_error
  | Executor_locked

definition not_initialized :: broker_failure where
  "not_initialized = Message ''broker not initialized; run init first''"

definition corrupt_config :: broker_failure where
  "corrupt_config = Message ''broker.json is corrupt; rerun init''"

definition unsupported_ledger :: broker_failure where
  "unsupported_ledger = Message ''unsupported ledger schema, state or operation''"


section \<open>\<open>broker.json\<close>\<close>

definition optional_keys :: "string list" where
  "optional_keys = [''account_alias'', ''steam_login'', ''steam_executable'', ''machine_id'']"

definition json_text :: "json \<Rightarrow> string option" where
  "json_text v = (case v of JString s \<Rightarrow> Some s | _ \<Rightarrow> None)"

definition config_of :: "(string \<times> json) list \<Rightarrow> broker_config" where
  "config_of kvs = (\<lambda>k. Option.bind (json_get k kvs) json_text)"

definition config_valid :: "(string \<times> json) list \<Rightarrow> bool" where
  "config_valid kvs \<longleftrightarrow>
     config_of kvs ''library'' \<noteq> None \<and> config_of kvs ''steamcmd'' \<noteq> None \<and>
     list_all (\<lambda>k. json_get k kvs = None \<or> config_of kvs k \<noteq> None) optional_keys"

text \<open>\<open>_load_config\<close>; a file that is missing or cannot be read is \<open>OSError\<close>.\<close>

definition load_config :: "contents \<Rightarrow> broker_failure + broker_config" where
  "load_config file =
     (case file of
        File raw \<Rightarrow>
          (case json_loads raw of
             Some (JObject kvs) \<Rightarrow> if config_valid kvs then Inr (config_of kvs) else Inl corrupt_config
           | _ \<Rightarrow> Inl corrupt_config)
      | _ \<Rightarrow> Inl not_initialized)"


section \<open>Init\<close>

text \<open>
  The state directory: \<open>broker.json\<close>, \<open>policy.toml\<close> and the ledger.  A path argument is the
  absolute path \<open>Path.resolve\<close> makes of it.
\<close>

record state_dir =
  sd_config :: contents
  sd_policy :: contents
  sd_ledger :: "db option"

record init_args =
  ia_library :: string
  ia_steamcmd :: "string option"
  ia_account :: "string option"
  ia_steam_login :: "string option"
  ia_steam_executable :: "string option"
  ia_machine_id :: "string option"

definition no_config :: broker_config where
  "no_config = (\<lambda>_. None)"

text \<open>\<open>existing_config\<close>: empty where there is no configuration that can be read.\<close>

definition existing_config :: "state_dir \<Rightarrow> broker_config" where
  "existing_config d = (case load_config (sd_config d) of Inl _ \<Rightarrow> no_config | Inr config \<Rightarrow> config)"

definition init_machine :: "init_args \<Rightarrow> state_dir \<Rightarrow> broker_failure + string" where
  "init_machine a d =
     (case ia_machine_id a of
        Some m \<Rightarrow> Inr m
      | None \<Rightarrow>
          if sd_config d = Absent then Inr ''local''
          else case load_config (sd_config d) of
            Inl _ \<Rightarrow> Inl (Message
              ''broker.json is corrupt; rerun init with --machine-id to reassert this broker's identity'')
          | Inr config \<Rightarrow> Inr (config_or config ''machine_id'' ''local''))"

definition init_document :: "init_args \<Rightarrow> broker_config \<Rightarrow> string \<Rightarrow> json" where
  "init_document a old machine =
     JObject
       [(''library'', JString (ia_library a)),
        (''steamcmd'', JString (case ia_steamcmd a of Some p \<Rightarrow> p | None \<Rightarrow> config_or old ''steamcmd'' [])),
        (''account_alias'', JString
          (if ia_account a \<noteq> None \<and> ia_account a \<noteq> Some [] then the (ia_account a)
           else config_or old ''account_alias'' ''desktop'')),
        (''steam_login'', JString (case ia_steam_login a of Some l \<Rightarrow> l | None \<Rightarrow> config_or old ''steam_login'' [])),
        (''steam_executable'', JString
          (case ia_steam_executable a of Some p \<Rightarrow> p | None \<Rightarrow> config_or old ''steam_executable'' [])),
        (''machine_id'', JString machine)]"

text \<open>The check that nothing is active; a lapsed operation expires first.\<close>

definition init_ledger :: "int \<Rightarrow> db \<Rightarrow> (broker_failure + unit) \<times> db" where
  "init_ledger now d =
     (case open_ledger False d of
        (Inl (UnsupportedLedger _), d) \<Rightarrow> (Inl unsupported_ledger, d)
      | (Inl _, d) \<Rightarrow> (Inl (Message ''broker state unavailable or locked''), d)
      | (Inr _, d) \<Rightarrow>
          (case expire_lapsed now d of
             (Inl _, d) \<Rightarrow> (Inl (Message ''broker state unavailable or locked''), d)
           | (Inr _, d) \<Rightarrow>
               (case active d of
                  Inl _ \<Rightarrow> (Inl (Message ''broker state unavailable or locked''), d)
                | Inr (Some _) \<Rightarrow>
                    (Inl (Message ''an operation is active; refusing to reconfigure the broker''), d)
                | Inr None \<Rightarrow> (Inr (), d))))"

text \<open>Policy and configuration; the result tells whether the template was written.\<close>

definition init_files :: "string \<Rightarrow> init_args \<Rightarrow> state_dir \<Rightarrow> (broker_failure + bool) \<times> state_dir" where
  "init_files template a d =
     (case init_machine a d of
        Inl e \<Rightarrow> (Inl e, d)
      | Inr machine \<Rightarrow>
          (let document = json_dumps (init_document a (existing_config d) machine) in
           (Inr (sd_policy d = Absent),
            d\<lparr>sd_policy := (if sd_policy d = Absent then File template else sd_policy d),
              sd_config := File document\<rparr>)))"

definition init_broker :: "string \<Rightarrow> int \<Rightarrow> init_args \<Rightarrow> state_dir \<Rightarrow> (broker_failure + bool) \<times> state_dir" where
  "init_broker template now a d =
     (case sd_ledger d of
        None \<Rightarrow> init_files template a d
      | Some ledger \<Rightarrow>
          (case init_ledger now ledger of
             (Inl e, ledger) \<Rightarrow> (Inl e, d\<lparr>sd_ledger := Some ledger\<rparr>)
           | (Inr _, ledger) \<Rightarrow> init_files template a (d\<lparr>sd_ledger := Some ledger\<rparr>)))"


section \<open>Floor and policy\<close>

text \<open>\<open>_floor_denial\<close>; \<open>None\<close> for free space that cannot be measured.\<close>

definition floor_denial :: "int option \<Rightarrow> int option \<Rightarrow> string option" where
  "floor_denial free min_free_gb =
     (case min_free_gb of
        None \<Rightarrow> Some ''no disk floor configured''
      | Some floor \<Rightarrow>
          (case free of
             None \<Rightarrow> Some ''free disk space could not be measured''
           | Some bytes \<Rightarrow>
               if bytes < floor * 10 ^ 9
               then Some (''free disk '' @ json_int (bytes div 10 ^ 9) @ '' GB below the '' @
                 json_int floor @ '' GB floor'')
               else None))"

text \<open>\<open>_dispatch_denial\<close>.\<close>

definition dispatch_denial :: "policy_error + policy \<Rightarrow> op_row \<Rightarrow> string option" where
  "dispatch_denial reading op =
     (case reading of
        Inl _ \<Rightarrow> Some ''policy unreadable before dispatch''
      | Inr p \<Rightarrow>
          if grant_for p (r_operation op) = ''deny'' then Some ''policy revoked before dispatch''
          else if r_operation op = ''launch'' \<and> \<not> launch_permitted p (r_appid op)
          then Some ''launch allowlist revoked before dispatch''
          else None)"

text \<open>\<open>plan_document(operation_id).get("force", False)\<close>: \<open>None\<close> where that raises.\<close>

definition plan_member :: "string \<Rightarrow> json option \<Rightarrow> json option option" where
  "plan_member key document =
     (case document of Some (JObject kvs) \<Rightarrow> Some (json_get key kvs) | _ \<Rightarrow> None)"

definition plan_force_value :: "string \<Rightarrow> json option" where
  "plan_force_value document =
     map_option (\<lambda>v. case v of None \<Rightarrow> JBool False | Some v \<Rightarrow> v) (plan_member ''force'' (json_loads document))"

end
