(* ===== verification/Broker.thy ===== *)
theory Broker
  imports Broker_Config Reconcile Client_Exec
begin

text \<open>
  The commands of \<open>src/steam_agent/execution/broker_main.py\<close> that touch the ledger.  A command
  is a program over the broker's world that answers with a JSON payload and an exit code, or
  fails with what \<open>_fail\<close> is given.  \<open>run\<close> and the direct commands go on to the client
  executor.  The state lock is not modelled: a command runs alone.
\<close>


section \<open>Environment and answers\<close>

datatype reply =
    Answer json int
  | Failure broker_failure
  | Not_restored broker_failure
  | Not_aborted broker_failure
  | Not_executable "json option"

text \<open>
  Beside the executor's and the observer's environment: \<open>broker.json\<close> and the free bytes of a
  library at a moment, the nonces minted, whether the executor lock is free, the rendering of
  a time, and what \<open>str\<close> prints of a float, a list or a dictionary.
\<close>

record broker_env =
  be_exec :: env
  be_client :: client_env
  be_platform :: string
  be_config_file :: "nat \<Rightarrow> contents"
  be_free :: "nat \<Rightarrow> string \<Rightarrow> int option"
  be_nonce :: "nat \<Rightarrow> string"
  be_lock :: "nat \<Rightarrow> bool"
  be_sha256 :: "string \<Rightarrow> string"
  be_paths :: "nat \<Rightarrow> paths"
  be_stamp :: "int \<Rightarrow> string"
  be_str :: "json \<Rightarrow> string"

type_synonym 'a step = "(reply, 'a) exec"
type_synonym 'a command = "(world rt_world, reply exit, 'a) prog"

definition policy_at :: "broker_env \<Rightarrow> nat \<Rightarrow> policy_error + policy" where
  "policy_at b t =
     load_policy (cl_toml (be_client b)) (cl_digest (be_client b)) (cl_policy_file (be_client b) t)"

text \<open>What the executor is given: the policy just before an effect, and the plan document.\<close>

definition dispatch_reply :: "string option \<Rightarrow> policy_reply" where
  "dispatch_reply denial = (case denial of None \<Rightarrow> Permits | Some reason \<Rightarrow> Denies reason)"

definition run_env :: "broker_env \<Rightarrow> env" where
  "run_env b = (be_exec b)\<lparr>e_policy := \<lambda>t op. dispatch_reply (dispatch_denial (policy_at b t) op)\<rparr>"

definition document_force :: "string \<Rightarrow> plan_force" where
  "document_force document =
     (case plan_force_value document of
        None \<Rightarrow> Plan_raises
      | Some (JBool f) \<Rightarrow> Force f
      | Some _ \<Rightarrow> Malformed_force)"

definition run_client :: "broker_env \<Rightarrow> client_env" where
  "run_client b = (be_client b)\<lparr>cl_plan_force := document_force\<rparr>"

text \<open>\<open>install_dir_name\<close> of a plan; a document that is no object, which no request records,
  counts as one whose name is not a string.\<close>

definition document_name :: "string \<Rightarrow> plan_name" where
  "document_name document =
     (case plan_member ''install_dir_name'' (json_loads document) of
        Some None \<Rightarrow> NoName
      | Some (Some JNull) \<Rightarrow> NoName
      | Some (Some (JString s)) \<Rightarrow> Name s
      | _ \<Rightarrow> NotAString)"

definition run_config :: "broker_env \<Rightarrow> broker_config \<Rightarrow> config" where
  "run_config b config =
     \<lparr>c_platform = be_platform b, c_content = config ''steamcmd'' \<noteq> Some [],
      c_account_login = Some (\<lambda>alias.
        if config ''account_alias'' = Some alias then config ''steam_login'' else None),
      c_dispatch_policy = True, c_paths = be_paths b, c_sha256 = be_sha256 b, c_plan_name = document_name\<rparr>"


section \<open>Steps\<close>

definition fail :: "broker_failure \<Rightarrow> 'a step" where
  "fail f = leave (Failure f)"

text \<open>A ledger method whose exception the command looks at.\<close>

definition ledger_try :: "broker_env \<Rightarrow> (int \<Rightarrow> db \<Rightarrow> 'a ledger_result) \<Rightarrow> (ledger_error + 'a) step" where
  "ledger_try b f = (\<lambda>w.
     case f (e_now (be_exec b) (w_tick w)) (w_db w) of
       (r, d) \<Rightarrow> (Inr r, w\<lparr>w_tick := Suc (w_tick w), w_db := d\<rparr>))"

definition read_policy :: "broker_env \<Rightarrow> (policy_error + policy) step" where
  "read_policy b = observe (policy_at b) (\<lambda>_. [])"

definition read_config :: "broker_env \<Rightarrow> (broker_failure + broker_config) step" where
  "read_config b = observe (\<lambda>t. load_config (be_config_file b t)) (\<lambda>_. [])"

text \<open>\<open>ExecutionLedger(path)\<close>: refused for a newer ledger.\<close>

definition open_for_writing :: "broker_env \<Rightarrow> unit step" where
  "open_for_writing b =
     seq (ledger_try b (\<lambda>_. open_ledger False)) (\<lambda>r.
     case r of
       Inl e \<Rightarrow> (case e of UnsupportedLedger _ \<Rightarrow> fail unsupported_ledger | _ \<Rightarrow> fault (Ledger_fault e))
     | Inr _ \<Rightarrow> give ())"

definition components :: "broker_env \<Rightarrow> broker_config step" where
  "components b =
     seq (read_config b) (\<lambda>r.
     case r of
       Inl f \<Rightarrow> fail f
     | Inr config \<Rightarrow> seq (open_for_writing b) (\<lambda>_. give config))"

definition take_lock :: "broker_env \<Rightarrow> unit step" where
  "take_lock b = seq (observe (be_lock b) (\<lambda>_. [])) (\<lambda>free. if free then give () else fail Executor_locked)"

text \<open>A program of the executor, its report the value.\<close>

definition settled :: "('s, 'r exit, 'r) prog \<Rightarrow> ('s, 'q exit, 'r) prog" where
  "settled m = (\<lambda>s. case m s of (r, t) \<Rightarrow> (map_sum Raised id (outcome_of r), t))"


section \<open>Confirming\<close>

definition plan_force_truthy :: "broker_env \<Rightarrow> nat \<Rightarrow> bool step" where
  "plan_force_truthy b i =
     seq (ledger_do (be_exec b) (\<lambda>_. reading (plan_document plan_force_value i)) (\<lambda>_ _. [])) (\<lambda>v.
     case v of None \<Rightarrow> fault Probe_fault | Some v \<Rightarrow> give (truthy v))"

text \<open>The policy of this moment denies the operation; the force of a stop is read last.\<close>

definition denied_now :: "broker_env \<Rightarrow> policy \<Rightarrow> op_row \<Rightarrow> bool step" where
  "denied_now b p op =
     (if grant_for p (r_operation op) \<notin> {''confirm'', ''allow''} then give True
      else if r_operation op = ''launch'' \<and> \<not> launch_permitted p (r_appid op) then give True
      else if r_operation op = ''stop''
      then seq (plan_force_truthy b (r_id op)) (\<lambda>force. give (\<not> stop_permitted p (r_appid op) force))
      else give False)"

definition now_denies :: "op_row \<Rightarrow> broker_failure" where
  "now_denies op = Message (''policy now denies '' @ quoted (r_operation op))"

text \<open>Abort, unless a concurrent run has already moved the row past \<open>authorized\<close>.\<close>

definition abort_if_authorized :: "broker_env \<Rightarrow> nat \<Rightarrow> string \<Rightarrow> unit step" where
  "abort_if_authorized b i detail =
     seq (ledger_try b (\<lambda>now. transition now i Aborted (Some detail) None (Some Authorized))) (\<lambda>r.
     case r of
       Inl e \<Rightarrow> (case e of InvalidTransition _ \<Rightarrow> give () | _ \<Rightarrow> fault (Ledger_fault e))
     | Inr _ \<Rightarrow> give ())"

definition authorized_answer :: "nat \<Rightarrow> json" where
  "authorized_answer i = JObject [(''operation_id'', JInt (int i)), (''state'', JString ''authorized'')]"

text \<open>What follows the consumption of the nonce.\<close>

definition recheck_confirmed :: "broker_env \<Rightarrow> nat \<Rightarrow> reply step" where
  "recheck_confirmed b i =
     seq (get_operation (be_exec b) i) (\<lambda>op.
     seq (read_policy b) (\<lambda>reading.
     case reading of
       Inl e \<Rightarrow>
         seq (abort_if_authorized b i ''policy unreadable at confirmation'') (\<lambda>_. fail (Policy_failure e))
     | Inr p \<Rightarrow>
         seq (denied_now b p op) (\<lambda>denied.
         if denied
         then seq (abort_if_authorized b i ''policy revoked before confirmation'') (\<lambda>_. fail (now_denies op))
         else give (Answer (authorized_answer i) 0))))"

definition confirm_command :: "broker_env \<Rightarrow> string \<Rightarrow> string \<Rightarrow> reply step" where
  "confirm_command b nonce actor =
     seq (components b) (\<lambda>_.
     seq (ledger_try b (\<lambda>now. confirm now nonce actor default_execution_window)) (\<lambda>r.
     case r of
       Inl e \<Rightarrow> (case e of ConfirmationRejected _ \<Rightarrow> fail (Ledger_failure e) | _ \<Rightarrow> fault (Ledger_fault e))
     | Inr i \<Rightarrow> recheck_confirmed b i))"


section \<open>Running\<close>

definition run_target :: "broker_env \<Rightarrow> nat option \<Rightarrow> nat step" where
  "run_target b given =
     (case given of
        Some i \<Rightarrow> give i
      | None \<Rightarrow>
          seq (do_expire (be_exec b)) (\<lambda>_.
          seq (get_active (be_exec b)) (\<lambda>now_active.
          case now_active of
            None \<Rightarrow> fail (Message ''no authorized operation to run'')
          | Some op \<Rightarrow>
              if r_state op \<in> {Authorized, Interrupted} then give (r_id op)
              else fail (Message ''no authorized operation to run''))))"

definition run_denial :: "broker_env \<Rightarrow> op_row \<Rightarrow> (broker_failure \<times> string) option step" where
  "run_denial b op =
     seq (read_policy b) (\<lambda>reading.
     case reading of
       Inl e \<Rightarrow> give (Some (Policy_failure e, ''policy unreadable before execution''))
     | Inr p \<Rightarrow>
         seq (denied_now b p op) (\<lambda>denied.
         give (if denied then Some (now_denies op, ''policy revoked before execution'') else None)))"

text \<open>A denied run: the client is restored before the row is aborted.\<close>

definition deny_run :: "broker_env \<Rightarrow> op_row \<Rightarrow> broker_failure \<times> string \<Rightarrow> 'a step" where
  "deny_run b op = (\<lambda>(denial, detail).
     if r_state op \<notin> {Authorized, Interrupted} then fail denial
     else
       seq (take_lock b) (\<lambda>_.
       seq (release_client (be_exec b) (r_id op)) (\<lambda>released.
       if \<not> released then leave (Not_restored denial)
       else
         seq (ledger_try b (\<lambda>now. transition now (r_id op) Aborted (Some detail) None (Some (r_state op)))) (\<lambda>r.
         case r of
           Inl e \<Rightarrow> (case e of InvalidTransition _ \<Rightarrow> leave (Not_aborted denial) | _ \<Rightarrow> fault (Ledger_fault e))
         | Inr _ \<Rightarrow> fail denial))))"

text \<open>Up to the call of the executor, with its lock taken: the operation, and the configuration.\<close>

definition run_decide :: "broker_env \<Rightarrow> nat option \<Rightarrow> (nat \<times> broker_config) step" where
  "run_decide b given =
     seq (components b) (\<lambda>config.
     seq (run_target b given) (\<lambda>i.
     seq (ledger_try b (\<lambda>_. reading (get_row i))) (\<lambda>r.
     case r of
       Inl e \<Rightarrow> fail (Ledger_failure e)
     | Inr op \<Rightarrow>
         seq (run_denial b op) (\<lambda>denial.
         case denial of
           Some d \<Rightarrow> deny_run b op d
         | None \<Rightarrow> seq (take_lock b) (\<lambda>_. give (i, config))))))"

fun outcome_name :: "outcome \<Rightarrow> string" where
  "outcome_name Out_confirmed = ''confirmed''"
| "outcome_name Out_unconfirmed = ''unconfirmed''"
| "outcome_name Out_contradicted = ''contradicted''"
| "outcome_name Out_aborted = ''aborted''"
| "outcome_name Out_failed = ''failed''"
| "outcome_name Out_auth_required = ''auth_required''"
| "outcome_name Out_deferred = ''deferred''"
| "outcome_name Out_dispatched = ''dispatched''"

definition report_answer :: "report \<Rightarrow> reply" where
  "report_answer rep =
     Answer (JObject [(''operation_id'', JInt (int (rp_operation rep))),
       (''outcome'', JString (outcome_name (rp_outcome rep))), (''detail'', JString (rp_detail rep))])
       (if rp_outcome rep = Out_confirmed \<or> rp_outcome rep = Out_dispatched then 0 else 1)"

definition run_execute :: "broker_env \<Rightarrow> broker_config \<Rightarrow> nat \<Rightarrow> report command" where
  "run_execute b config i = settled (client_locked (run_env b) (run_client b) (run_config b config) i)"

definition run_command :: "broker_env \<Rightarrow> nat option \<Rightarrow> reply command" where
  "run_command b given =
     seq (in_broker (run_decide b given)) (\<lambda>(i, config).
     seq (run_execute b config i) (\<lambda>rep. give (report_answer rep)))"


section \<open>Recovering and looking\<close>

definition reconcile_command :: "broker_env \<Rightarrow> reply step" where
  "reconcile_command b =
     seq (components b) (\<lambda>config.
     seq (take_lock b) (\<lambda>_.
     seq (settled (reconcile_locked (run_env b) (run_config b config))) (\<lambda>actions.
     give (Answer (JObject [(''actions'', JList (map JString actions))]) 0))))"

definition optional :: "('a \<Rightarrow> json) \<Rightarrow> 'a option \<Rightarrow> json" where
  "optional f v = (case v of None \<Rightarrow> JNull | Some x \<Rightarrow> f x)"

definition events_json :: "broker_env \<Rightarrow> (int \<times> op_state option \<times> op_state) list \<Rightarrow> json" where
  "events_json b evs =
     JList (map (\<lambda>(at, from, to). JList [JString (be_stamp b at),
       JString (case from of None \<Rightarrow> ''none'' | Some s \<Rightarrow> state_name s), JString (state_name to)]) evs)"

definition recent_json :: "broker_env \<Rightarrow> nat \<times> string \<times> int \<times> op_state \<times> string option \<times> int \<Rightarrow> json" where
  "recent_json b = (\<lambda>(i, operation, appid, state, detail, updated).
     JObject [(''operation_id'', JInt (int i)), (''operation'', JString operation),
       (''appid'', JInt appid), (''state'', JString (state_name state)),
       (''detail'', optional JString detail), (''updated_at'', JString (be_stamp b updated))])"

definition active_json :: "broker_env \<Rightarrow> op_row \<Rightarrow> (int \<times> op_state option \<times> op_state) list \<Rightarrow> json" where
  "active_json b op evs =
     JObject [(''operation_id'', JInt (int (r_id op))), (''operation'', JString (r_operation op)),
       (''appid'', JInt (r_appid op)), (''state'', JString (state_name (r_state op))),
       (''detail'', optional JString (r_detail op)),
       (''execution_window_expires_at'', optional (\<lambda>t. JString (be_stamp b t)) (r_window_expires_at op)),
       (''events'', events_json b evs)]"

definition status_command :: "broker_env \<Rightarrow> int \<Rightarrow> reply step" where
  "status_command b limit =
     seq (components b) (\<lambda>_.
     if limit < 0 then fail (Message ''--limit must be non-negative'')
     else
       seq (do_expire (be_exec b)) (\<lambda>_.
       seq (get_active (be_exec b)) (\<lambda>now_active.
       seq (ledger_do (be_exec b) (\<lambda>_. reading (\<lambda>d. Inr (recent (nat limit) d))) (\<lambda>_ _. [])) (\<lambda>rows.
       let recent_rows = JList (map (recent_json b) rows) in
       case now_active of
         None \<Rightarrow> give (Answer (JObject [(''active'', JNull), (''recent'', recent_rows)]) 0)
       | Some op \<Rightarrow>
           seq (ledger_do (be_exec b) (\<lambda>_. reading (\<lambda>d. Inr (events_of (r_id op) d))) (\<lambda>_ _. [])) (\<lambda>evs.
           give (Answer (JObject [(''active'', active_json b op evs), (''recent'', recent_rows)]) 0))))))"

text \<open>\<open>inspect\<close> opens the ledger for reading only; \<open>None\<close> is a ledger file that is not there.\<close>

definition inspect_lookup :: "broker_env \<Rightarrow> nat option \<Rightarrow> string option \<Rightarrow> db \<Rightarrow> ledger_error + op_row option" where
  "inspect_lookup b i request_id d =
     (case (i, request_id) of
        (Some i, _) \<Rightarrow> bindE (get_row i d) (\<lambda>r. Inr (Some r))
      | (None, Some q) \<Rightarrow> lookup_request_id (be_sha256 b) q d
      | (None, None) \<Rightarrow> Inr None)"

definition inspect_json :: "broker_env \<Rightarrow> op_row \<Rightarrow> (int \<times> op_state option \<times> op_state) list \<Rightarrow> json" where
  "inspect_json b op evs =
     (case active_json b op evs of
        JObject kvs \<Rightarrow> JObject (kvs @ [(''machine_id'', JString (r_machine_id op))]) | v \<Rightarrow> v)"

definition inspect_command :: "broker_env \<Rightarrow> nat option \<Rightarrow> string option \<Rightarrow> db option \<Rightarrow> reply" where
  "inspect_command b i request_id ledger =
     (if (i = None) = (request_id = None)
      then Failure (Message ''inspect requires one operation ID or --request-id'')
      else case ledger of
        None \<Rightarrow> Failure (Message ''request not found'')
      | Some d \<Rightarrow>
          (case fst (open_ledger True d) of
             Inl _ \<Rightarrow> Failure unsupported_ledger
           | Inr _ \<Rightarrow>
               (case inspect_lookup b i request_id d of
                  Inl e \<Rightarrow> Failure (Ledger_failure e)
                | Inr None \<Rightarrow> Failure (Message ''request not found'')
                | Inr (Some op) \<Rightarrow> Answer (inspect_json b op (events_of (r_id op) d)) 0)))"

end
