(* ===== verification/Broker_Intake.thy ===== *)
theory Broker_Intake
  imports Broker
begin

text \<open>
  Intake of \<open>src/steam_agent/execution/broker_main.py\<close>: a plan on standard input
  (\<open>request\<close>), the direct commands, and the exit of the process (\<open>_invoke\<close>).
\<close>


section \<open>A submitted plan\<close>

record plan_request =
  pq_plan :: "(string \<times> json) list"
  pq_operation :: string
  pq_appid :: int
  pq_force :: bool
  pq_key :: string
  pq_target :: "(string \<times> json) list"

definition plan_byte_limit :: nat where
  "plan_byte_limit = 64 * 1024"

definition get_or :: "string \<Rightarrow> json \<Rightarrow> (string \<times> json) list \<Rightarrow> json" where
  "get_or k dflt kvs = (case json_get k kvs of None \<Rightarrow> dflt | Some v \<Rightarrow> v)"

definition refuse :: "string \<Rightarrow> reply exit + 'a" where
  "refuse message = Inl (Returned (Failure (Message message)))"

definition refuse_if :: "bool \<Rightarrow> string \<Rightarrow> reply exit + unit" where
  "refuse_if c message = (if c then refuse message else Inr ())"

definition read_plan :: "string \<Rightarrow> reply exit + (string \<times> json) list" where
  "read_plan raw =
     (if plan_byte_limit < length raw then refuse ''operation plan exceeds the size limit''
      else case json_loads raw of
        None \<Rightarrow> refuse ''stdin is not a JSON operation plan''
      | Some (JObject kvs) \<Rightarrow> Inr kvs
      | Some _ \<Rightarrow> refuse ''operation plan must be a JSON object'')"

text \<open>
  \<open>plan.get("schema") not in {...}\<close> hashes the value: a list or an object is a \<open>TypeError\<close>
  that nothing catches.
\<close>

definition plan_schema :: "(string \<times> json) list \<Rightarrow> reply exit + string" where
  "plan_schema plan =
     (case get_or ''schema'' JNull plan of
        JList _ \<Rightarrow> Inl (Raised Probe_fault)
      | JObject _ \<Rightarrow> Inl (Raised Probe_fault)
      | JString s \<Rightarrow>
          if s = ''operation-plan/0.1'' \<or> s = ''operation-intent/0.1'' then Inr s
          else refuse ''unsupported plan schema''
      | _ \<Rightarrow> refuse ''unsupported plan schema'')"

definition plan_operation :: "policy \<Rightarrow> (string \<times> json) list \<Rightarrow> reply exit + string" where
  "plan_operation p plan =
     (case get_or ''operation'' (JString []) plan of
        JString operation \<Rightarrow>
          if operation \<notin> set supported_operations
          then Inl (Returned (Not_executable (Some (JString operation))))
          else if grant_for p operation \<notin> {''confirm'', ''allow''}
          then refuse (''policy denies '' @ quoted operation)
          else Inr operation
      | v \<Rightarrow> Inl (Returned (Not_executable (Some v))))"

definition plan_force_field :: "string \<Rightarrow> string \<Rightarrow> (string \<times> json) list \<Rightarrow> reply exit + bool" where
  "plan_force_field schema_name operation plan =
     (if operation = ''stop'' \<and> schema_name \<noteq> ''operation-intent/0.1''
      then refuse ''stop requires an operation-intent/0.1 request''
      else case get_or ''force'' (JBool False) plan of
        JBool f \<Rightarrow>
          if f \<and> operation \<noteq> ''stop'' then refuse ''force is supported only for stop'' else Inr f
      | _ \<Rightarrow> refuse ''force must be a boolean'')"

definition plan_target :: "(string \<times> json) list \<Rightarrow> reply exit + (string \<times> json) list" where
  "plan_target plan =
     (case get_or ''target'' (JObject []) plan of
        JObject kvs \<Rightarrow> Inr kvs
      | _ \<Rightarrow> refuse ''plan target is malformed'')"

definition plan_dir_ok :: "(string \<times> json) list \<Rightarrow> bool" where
  "plan_dir_ok plan =
     (case get_or ''install_dir_name'' JNull plan of
        JNull \<Rightarrow> True
      | JString s \<Rightarrow> s = [] \<or> safe_install_dir_name s
      | _ \<Rightarrow> False)"

definition plan_key_field :: "(string \<times> json) list \<Rightarrow> reply exit + string" where
  "plan_key_field plan =
     (case get_or ''idempotency_key'' JNull plan of
        JString s \<Rightarrow>
          if 8 \<le> length s \<and> length s \<le> 128 then Inr s
          else refuse ''plan idempotency_key must be a string of 8-128 characters''
      | _ \<Rightarrow> refuse ''plan idempotency_key must be a string of 8-128 characters'')"

definition plan_appid :: "(string \<times> json) list \<Rightarrow> reply exit + int" where
  "plan_appid target =
     (case get_or ''appid'' JNull target of
        JInt n \<Rightarrow> if n \<le> 0 \<or> 4294967295 < n then refuse ''plan target appid is malformed'' else Inr n
      | _ \<Rightarrow> refuse ''plan target appid is malformed'')"

definition check_plan :: "policy \<Rightarrow> string \<Rightarrow> reply exit + plan_request" where
  "check_plan p raw =
     bindE (read_plan raw) (\<lambda>plan.
     bindE (plan_schema plan) (\<lambda>schema_name.
     bindE (plan_operation p plan) (\<lambda>operation.
     bindE (plan_force_field schema_name operation plan) (\<lambda>force.
     bindE (plan_target plan) (\<lambda>target.
     bindE (refuse_if (\<not> plan_dir_ok plan) ''install_dir_name must be a string path component'') (\<lambda>_.
     bindE (plan_key_field plan) (\<lambda>key.
     bindE (plan_appid target) (\<lambda>appid.
     bindE (refuse_if (operation = ''launch'' \<and> \<not> launch_permitted p appid)
       ''appid is not on the launch allowlist'') (\<lambda>_.
     bindE (refuse_if (operation = ''stop'' \<and> \<not> stop_permitted p appid force)
       ''appid or force is not permitted by the stop policy'') (\<lambda>_.
     Inr \<lparr>pq_plan = plan, pq_operation = operation, pq_appid = appid, pq_force = force, pq_key = key,
       pq_target = target\<rparr>))))))))))"


section \<open>The command \<open>request\<close>\<close>

definition lift_exit :: "reply exit + 'a \<Rightarrow> 'a step" where
  "lift_exit r = (case r of Inl e \<Rightarrow> stop e | Inr x \<Rightarrow> give x)"

definition json_str :: "broker_env \<Rightarrow> json \<Rightarrow> string" where
  "json_str b v = (case v of JString s \<Rightarrow> s | JInt n \<Rightarrow> json_int n
     | JBool t \<Rightarrow> if t then ''True'' else ''False'' | JNull \<Rightarrow> ''None'' | _ \<Rightarrow> be_str b v)"

definition other_machine :: "broker_env \<Rightarrow> plan_request \<Rightarrow> string \<Rightarrow> bool" where
  "other_machine b q machine =
     (case get_or ''machine_id'' JNull (pq_target q) of JNull \<Rightarrow> False | v \<Rightarrow> json_str b v \<noteq> machine)"

definition plan_intake :: "plan_request \<Rightarrow> string \<Rightarrow> string \<Rightarrow> string \<Rightarrow> intake" where
  "plan_intake q account machine version =
     \<lparr>in_plan_key = pq_key q, in_plan_document = json_dumps (JObject (pq_plan q)),
      in_operation = pq_operation q, in_appid = pq_appid q, in_account_alias = account,
      in_machine_id = machine, in_policy_version = version\<rparr>"

definition see_floor :: "broker_env \<Rightarrow> broker_config \<Rightarrow> int option \<Rightarrow> string option step" where
  "see_floor b config min_free =
     observe (\<lambda>t. floor_denial (be_free b t (config_or config ''library'' [])) min_free) (\<lambda>_. [])"

definition pending_answer :: "nat \<Rightarrow> string \<Rightarrow> string option \<Rightarrow> reply" where
  "pending_answer i nonce denied =
     Answer (JObject ([(''operation_id'', JInt (int i)), (''nonce'', JString nonce),
       (''state'', JString ''pending_confirmation'')] @
       (case denied of None \<Rightarrow> [] | Some why \<Rightarrow> [(''auto_confirm_denied'', JString why)]))) 0"

definition still_allowed :: "policy \<Rightarrow> plan_request \<Rightarrow> bool" where
  "still_allowed p q \<longleftrightarrow>
     grant_for p (pq_operation q) = ''allow'' \<and>
     (pq_operation q \<noteq> ''launch'' \<or> launch_permitted p (pq_appid q)) \<and>
     (pq_operation q \<noteq> ''stop'' \<or> stop_permitted p (pq_appid q) (pq_force q))"

text \<open>Auto-confirmation: the policy is read again, and its version is the actor.\<close>

definition auto_authorize :: "broker_env \<Rightarrow> broker_config \<Rightarrow> plan_request \<Rightarrow> nat \<Rightarrow> string \<Rightarrow> reply step" where
  "auto_authorize b config q i nonce =
     seq (read_policy b) (\<lambda>reading.
     case reading of
       Inl _ \<Rightarrow> give (pending_answer i nonce None)
     | Inr p \<Rightarrow>
         if \<not> still_allowed p q then give (pending_answer i nonce None)
         else
           seq (if pq_operation q = ''stop'' then give None else see_floor b config (p_min_free_gb p)) (\<lambda>denied.
           if denied \<noteq> None then give (pending_answer i nonce denied)
           else
             seq (ledger_try b (\<lambda>now. confirm now nonce (''policy:'' @ p_version p) default_execution_window)) (\<lambda>r.
             case r of
               Inl e \<Rightarrow> (case e of ConfirmationRejected _ \<Rightarrow> fail (Ledger_failure e) | _ \<Rightarrow> fault (Ledger_fault e))
             | Inr _ \<Rightarrow> give (Answer (authorized_answer i) 0))))"

definition mint_nonce :: "broker_env \<Rightarrow> string step" where
  "mint_nonce b = observe (be_nonce b) (\<lambda>_. [])"

definition record_plan :: "broker_env \<Rightarrow> broker_config \<Rightarrow> plan_request \<Rightarrow> intake \<Rightarrow> reply step" where
  "record_plan b config q iq =
     seq (mint_nonce b) (\<lambda>nonce.
     seq (ledger_try b (\<lambda>now. request now nonce default_nonce_ttl iq)) (\<lambda>r.
     case r of
       Inl e \<Rightarrow> (case e of IntegrityError \<Rightarrow> fault (Ledger_fault e) | _ \<Rightarrow> fail (Ledger_failure e))
     | Inr (i, nonce) \<Rightarrow> auto_authorize b config q i nonce))"

definition request_command :: "broker_env \<Rightarrow> string \<Rightarrow> string \<Rightarrow> reply step" where
  "request_command b account raw =
     seq (read_policy b) (\<lambda>reading.
     case reading of
       Inl e \<Rightarrow> fail (Policy_failure e)
     | Inr p \<Rightarrow>
         seq (lift_exit (check_plan p raw)) (\<lambda>q.
         seq (read_config b) (\<lambda>r.
         case r of
           Inl f \<Rightarrow> fail f
         | Inr config \<Rightarrow>
             let machine = config_or config ''machine_id'' ''local'' in
             if other_machine b q machine then fail (Message ''plan targets a different machine than this broker'')
             else case content_provisioning config (pq_operation q) account (be_platform b) of
               Inl e \<Rightarrow> fail (Request_failure e)
             | Inr _ \<Rightarrow>
                 seq (components b) (\<lambda>_.
                 record_plan b config q (plan_intake q account machine (p_version p))))))"


section \<open>Direct commands\<close>

definition intake_at :: "broker_env \<Rightarrow> nat \<Rightarrow> intake_env" where
  "intake_at b t =
     \<lparr>ie_expire_at = e_now (be_exec b) t, ie_request_at = e_now (be_exec b) (t + 1),
      ie_confirm_at = e_now (be_exec b) (t + 2), ie_nonce = be_nonce b t, ie_platform = be_platform b,
      ie_first_policy = policy_at b t, ie_second_policy = policy_at b (t + 1),
      ie_disk_floor = \<lambda>library. floor_denial (be_free b (t + 1) library)\<rparr>"

definition record_direct :: "broker_env \<Rightarrow> broker_config \<Rightarrow> direct_request \<Rightarrow> (request_error + receipt) step" where
  "record_direct b config q = (\<lambda>w.
     case record_or_reuse (be_sha256 b) (intake_at b (w_tick w)) config q (w_db w) of
       (r, d) \<Rightarrow> (Inr r, w\<lparr>w_tick := w_tick w + 3, w_db := d\<rparr>))"

definition check_machine :: "broker_env \<Rightarrow> string option \<Rightarrow> broker_config step" where
  "check_machine b expected =
     seq (read_config b) (\<lambda>r.
     case r of
       Inl f \<Rightarrow> fail f
     | Inr config \<Rightarrow>
         if expected \<noteq> None \<and> expected \<noteq> Some (config_or config ''machine_id'' ''local'')
         then fail (Message ''expected machine differs from this broker'')
         else give config)"

text \<open>Checked before the ledger is opened, and again under the state lock.\<close>

definition direct_receipt :: "broker_env \<Rightarrow> string option \<Rightarrow> direct_request \<Rightarrow> receipt step" where
  "direct_receipt b expected q =
     seq (check_machine b expected) (\<lambda>_.
     seq (check_machine b expected) (\<lambda>config.
     seq (open_for_writing b) (\<lambda>_.
     seq (record_direct b config q) (\<lambda>r.
     case r of
       Inl e \<Rightarrow> (case e of Ledger_refused IntegrityError \<Rightarrow> fault (Ledger_fault IntegrityError)
         | _ \<Rightarrow> fail (Request_failure e))
     | Inr x \<Rightarrow> give x))))"

definition receipt_json :: "receipt \<Rightarrow> json" where
  "receipt_json x =
     JObject ([(''operation_id'', JInt (int (re_operation_id x))),
       (''state'', JString (state_name (re_state x))), (''reused'', JBool (re_reused x))] @
       (case re_nonce x of None \<Rightarrow> [] | Some n \<Rightarrow> [(''nonce'', JString n)]) @
       (case re_detail x of None \<Rightarrow> [] | Some d \<Rightarrow> [(''detail'', JString d)]) @
       (case re_denied x of None \<Rightarrow> [] | Some d \<Rightarrow> [(''auto_confirm_denied'', JString d)]))"

definition direct_command ::
    "broker_env \<Rightarrow> string option \<Rightarrow> bool \<Rightarrow> direct_request \<Rightarrow> reply command" where
  "direct_command b expected request_only q =
     seq (in_broker (direct_receipt b expected q)) (\<lambda>x.
     if re_state x \<in> {Authorized, Interrupted} \<and> \<not> request_only
     then run_command b (Some (re_operation_id x))
     else give (Answer (receipt_json x)
       (if re_state x \<in> {PendingConfirmation, Authorized, Confirmed, Dispatched} then 0 else 1)))"


section \<open>The process\<close>

datatype broker_command =
    Request_plan string string
  | Confirm string string
  | Run "nat option"
  | Reconcile
  | Status int
  | Direct "string option" bool direct_request

definition dispatch_command :: "broker_env \<Rightarrow> broker_command \<Rightarrow> reply command" where
  "dispatch_command b c =
     (case c of
        Request_plan account raw \<Rightarrow> in_broker (request_command b account raw)
      | Confirm nonce actor \<Rightarrow> in_broker (confirm_command b nonce actor)
      | Run i \<Rightarrow> run_command b i
      | Reconcile \<Rightarrow> in_broker (reconcile_command b)
      | Status limit \<Rightarrow> in_broker (status_command b limit)
      | Direct expected request_only q \<Rightarrow> direct_command b expected request_only q)"

text \<open>\<open>_invoke\<close>: what it does not catch is left, \<open>Inl\<close>.\<close>

definition answer_of :: "fault + reply \<Rightarrow> fault + reply" where
  "answer_of r =
     (case r of
        Inl (Ledger_fault (UnsupportedLedger _)) \<Rightarrow> Inr (Failure unsupported_ledger)
      | Inl (Ledger_fault _) \<Rightarrow> Inr (Failure (Message ''broker state unavailable or locked''))
      | _ \<Rightarrow> r)"

definition exit_code :: "reply \<Rightarrow> int" where
  "exit_code r = (case r of Answer _ c \<Rightarrow> c | _ \<Rightarrow> 2)"

definition invoke :: "broker_env \<Rightarrow> broker_command \<Rightarrow> world rt_world \<Rightarrow> (fault + reply) \<times> world rt_world" where
  "invoke b c s = (case dispatch_command b c s of (r, s') \<Rightarrow> (answer_of (outcome_of r), s'))"

end
