(* ===== verification/Broker_Facts.thy ===== *)
theory Broker_Facts
  imports Broker_Intake Client_Props Reconcile_Safety Requests_Props
begin

text \<open>
  What the broker's steps do on a well-formed ledger: the steps before an effect leave no
  trace, and none of them breaks the ledger.
\<close>


section \<open>Steps on a well-formed ledger\<close>

abbreviation later :: "world \<Rightarrow> nat \<Rightarrow> world" where
  "later w k \<equiv> w\<lparr>w_tick := w_tick w + k\<rparr>"

lemma fail_run [simp]: "fail f w = (Inl (Returned (Failure f)), w)"
  by (simp add: fail_def leave_def stop_def)

lemma wp_steps [wp_rules]:
  "wp (fail f) Q E w = E (Returned (Failure f)) w"
  "wp (leave r) Q2 E2 w = E2 (Returned r) w"
  "wp (fault e) Q3 E3 w = E3 (Raised e) w"
  "wp (observe g seen) Q4 E4 w =
     Q4 (g (w_tick w)) (w\<lparr>w_tick := Suc (w_tick w), w_trace := w_trace w @ seen (g (w_tick w))\<rparr>)"
  by (simp_all add: wp_def fail_def leave_def fault_def stop_def observe_def)

lemma wp_ledger_try [wp_rules]:
  "wp (ledger_try b f) Q E w =
     (case f (e_now (be_exec b) (w_tick w)) (w_db w) of
        (r, d) \<Rightarrow> Q r (w\<lparr>w_tick := Suc (w_tick w), w_db := d\<rparr>))"
  by (simp add: wp_def ledger_try_def split: prod.split)

lemma read_run [simp]:
  "read_policy b w = (Inr (policy_at b (w_tick w)), later w 1)"
  "read_config b w = (Inr (load_config (be_config_file b (w_tick w))), later w 1)"
  by (simp_all add: read_policy_def read_config_def observe_def)

lemma take_lock_run:
  "take_lock b w = (if be_lock b (w_tick w) then Inr () else Inl (Returned (Failure Executor_locked)), later w 1)"
  by (simp add: take_lock_def seq_def observe_def give_def)

lemma open_run: "ledger_wf (w_db w) \<Longrightarrow> open_for_writing b w = (Inr (), later w 1)"
  by (simp add: open_for_writing_def seq_def ledger_try_def open_ledger_wf give_def)

lemma components_run:
  "ledger_wf (w_db w) \<Longrightarrow> components b w =
     (case load_config (be_config_file b (w_tick w)) of
        Inl f \<Rightarrow> (Inl (Returned (Failure f)), later w 1)
      | Inr config \<Rightarrow> (Inr config, later w 2))"
  by (simp add: components_def seq_def open_run give_def split: sum.split)

lemma get_run:
  "ledger_wf (w_db w) \<Longrightarrow> r \<in> set (db_operations (w_db w)) \<Longrightarrow>
     (get_operation env (r_id r) :: op_row step) w = (Inr r, later w 1)"
  by (simp add: get_operation_def ledger_do_def reading_def get_row_in)

lemma get_missing:
  assumes "ledger_wf (w_db w)" "i \<notin> r_id ` set (db_operations (w_db w))"
  shows "\<exists>m. get_row i (w_db w) = Inl (LedgerError m)"
  using assms by (cases rule: get_row_cases [OF assms(1), of i]) auto

text \<open>What the policy of a moment says of a row, the force read from the plan's document.\<close>

definition row_force :: "op_row \<Rightarrow> json option" where
  "row_force r = plan_force_value (r_plan_document r)"

definition permits :: "policy \<Rightarrow> op_row \<Rightarrow> bool" where
  "permits p r \<longleftrightarrow> granted p (r_operation r) \<and>
     (r_operation r = ''launch'' \<longrightarrow> launch_permitted p (r_appid r)) \<and>
     (r_operation r = ''stop'' \<longrightarrow>
        (case row_force r of None \<Rightarrow> False | Some v \<Rightarrow> stop_permitted p (r_appid r) (truthy v)))"

definition permitted_at :: "broker_env \<Rightarrow> nat \<Rightarrow> op_row \<Rightarrow> bool" where
  "permitted_at b t r = (case policy_at b t of Inl _ \<Rightarrow> False | Inr p \<Rightarrow> permits p r)"

lemma denied_now_run:
  assumes "ledger_wf (w_db w)" "r \<in> set (db_operations (w_db w))"
  obtains (answered) k where "denied_now b p r w = (Inr (\<not> permits p r), later w k)"
    | (crashed) "denied_now b p r w = (Inl (Raised Probe_fault), later w 1)"
      "\<not> permits p r" "r_operation r = ''stop''" "row_force r = None"
proof (cases "granted p (r_operation r) \<and> r_operation r = ''stop''")
  case True
  have "find (\<lambda>x. r_id x = r_id r) (db_operations (w_db w)) = Some r"
    using find_id [OF wf_distinct] assms by blast
  then have "plan_force_truthy b (r_id r) w =
      (case row_force r of None \<Rightarrow> Inl (Raised Probe_fault) | Some v \<Rightarrow> Inr (truthy v), later w 1)"
    by (simp add: plan_force_truthy_def seq_def ledger_do_def reading_def plan_document_def give_def
        fault_def stop_def row_force_def split: option.split)
  with True have "denied_now b p r w = (case row_force r of None \<Rightarrow> (Inl (Raised Probe_fault), later w 1)
      | Some v \<Rightarrow> (Inr (\<not> permits p r), later w 1))"
    by (auto simp: denied_now_def seq_def permits_def granted_def give_def split: option.split)
  then show ?thesis
    using True that by (cases "row_force r") (auto simp: permits_def simp del: One_nat_def)
next
  case False
  then have "denied_now b p r w = (Inr (\<not> permits p r), later w 0)"
    by (auto simp: denied_now_def permits_def granted_def give_def)
  then show ?thesis by (rule answered)
qed


section \<open>Keeping the ledger\<close>

text \<open>A silent step: the ledger stays well formed, no nonce is minted, nothing is traced.\<close>

definition calm :: "effect list \<Rightarrow> string set \<Rightarrow> world \<Rightarrow> bool" where
  "calm tr used w \<longleftrightarrow> ledger_wf (w_db w) \<and> w_trace w = tr \<and> used_nonces (w_db w) \<subseteq> used"

lemma calm_later [simp]: "calm tr used (w\<lparr>w_tick := n\<rparr>) = calm tr used w"
  by (simp add: calm_def)

lemma keeps_observe_silent [keeps_rules]: "keeps (calm tr used) (observe f (\<lambda>_. []) :: 'a step)"
  by (simp add: keeps_def observe_def calm_def)

lemma keeps_leave [keeps_rules]: "keeps I (leave r)" and keeps_fault [keeps_rules]: "keeps I (fault e)"
  by (simp_all add: leave_def fault_def keeps_stop)

lemma keeps_fail [keeps_rules]: "keeps I (fail f)"
  by (simp add: fail_def keeps_leave)

lemma keeps_try:
  assumes "\<And>now d. ledger_wf d \<Longrightarrow> ledger_wf (snd (f now d)) \<and> used_nonces (snd (f now d)) \<subseteq> used_nonces d"
  shows "keeps (calm tr used) (ledger_try b f)"
  unfolding keeps_def
proof (intro allI impI)
  fix w
  assume "calm tr used w"
  with assms [of "w_db w" "e_now (be_exec b) (w_tick w)"] show "calm tr used (snd (ledger_try b f w))"
    by (simp add: calm_def ledger_try_def case_prod_beta) blast
qed

lemma keeps_try_reading [keeps_rules]: "keeps (calm tr used) (ledger_try b (\<lambda>now. reading (f now)))"
  by (rule keeps_try) (simp add: reading_def)

lemma keeps_do_reading [keeps_rules]:
  "keeps (calm tr used) (ledger_do env (\<lambda>now. reading (f now)) (\<lambda>_ _. []) :: 'a step)"
  by (auto simp: keeps_def ledger_do_def reading_def calm_def split: sum.split)

lemma keeps_open [keeps_rules]: "keeps (calm tr used) (open_for_writing b)"
  unfolding keeps_def
  by (intro allI impI) (simp add: calm_def open_run)

lemma keeps_components [keeps_rules]: "keeps (calm tr used) (components b)"
  unfolding components_def read_config_def by (intro keeps_rules)

lemma keeps_take_lock [keeps_rules]: "keeps (calm tr used) (take_lock b)"
  unfolding take_lock_def by (intro keeps_rules)

lemma nonces_transition:
  assumes "ledger_wf d"
  shows "used_nonces (snd (transition now i to detail prior expected d)) \<subseteq> used_nonces d"
proof (cases "\<exists>r \<in> set (db_operations d). r_id r = i")
  case True
  then obtain r where "r \<in> set (db_operations d)" "i = r_id r"
    by blast
  then show ?thesis
    using transition_wf [OF assms, of r now to detail prior expected]
    by (auto simp: used_nonces_def moved_db_def split: if_splits)
next
  case False
  then show ?thesis
    using transition_missing [OF assms, of i now to detail prior expected] by auto
qed

lemma keeps_try_transition [keeps_rules]:
  "keeps (calm tr used) (ledger_try b (\<lambda>now. transition now i to detail prior expected))"
  by (rule keeps_try) (simp add: ledger_wf_transition nonces_transition)

lemma nonces_confirm:
  assumes "ledger_wf d"
  shows "used_nonces (snd (confirm now nonce actor window d)) \<subseteq> used_nonces d"
  using confirm_wf_cases [OF assms, of now nonce actor window]
  by cases (auto simp: used_nonces_def confirmed_db_def confirm_row_def split: if_splits)

lemma keeps_try_confirm [keeps_rules]:
  "keeps (calm tr used) (ledger_try b (\<lambda>now. confirm now nonce actor window))"
  by (rule keeps_try) (simp add: ledger_wf_confirm nonces_confirm)

lemma keeps_do_expire [keeps_rules]: "keeps (calm tr used) (do_expire env :: nat list step)"
  by (auto simp: keeps_def do_expire_def ledger_do_def calm_def expire_lapsed_wf ledger_wf_expired
      used_nonces_expired)

lemma keeps_get_active [keeps_rules]: "keeps (calm tr used) (get_active env :: op_row option step)"
  unfolding get_active_def by (intro keeps_rules)

lemma keeps_get_operation [keeps_rules]: "keeps (calm tr used) (get_operation env i :: op_row step)"
  unfolding get_operation_def by (intro keeps_rules)

lemma keeps_reading [keeps_rules]: "keeps (calm tr used) (read_policy b)" "keeps (calm tr used) (read_config b)"
  unfolding read_policy_def read_config_def by (intro keeps_rules)+

lemma keeps_ledger_error [keeps_rules]:
  "(\<And>m. keeps I (f1 m)) \<Longrightarrow> (\<And>m. keeps I (f2 m)) \<Longrightarrow> (\<And>m. keeps I (f3 m)) \<Longrightarrow> (\<And>m. keeps I (f4 m)) \<Longrightarrow>
     keeps I f5 \<Longrightarrow> keeps I (case e of LedgerError m \<Rightarrow> f1 m | UnsupportedLedger m \<Rightarrow> f2 m
       | InvalidTransition m \<Rightarrow> f3 m | ConfirmationRejected m \<Rightarrow> f4 m | IntegrityError \<Rightarrow> f5)"
  by (cases e) simp_all

lemma keeps_denied_now [keeps_rules]: "keeps (calm tr used) (denied_now b p op)"
  unfolding denied_now_def plan_force_truthy_def by (intro keeps_rules)

lemma keeps_confirm_command: "keeps (calm tr used) (confirm_command b nonce actor)"
  unfolding confirm_command_def recheck_confirmed_def abort_if_authorized_def by (intro keeps_rules)

lemma keeps_status_command: "keeps (calm tr used) (status_command b limit)"
  unfolding status_command_def Let_def by (intro keeps_rules)

lemma keeps_auto_authorize: "keeps (calm tr used) (auto_authorize b config q i nonce)"
  unfolding auto_authorize_def see_floor_def by (intro keeps_rules)


section \<open>Commands that record\<close>

lemma wp_calm:
  assumes "keeps I m" "I w" "\<And>x w'. I w' \<Longrightarrow> Q x w'" "\<And>e w'. I w' \<Longrightarrow> E e w'"
  shows "wp m Q E w"
  using keepsD [OF assms(1,2)] assms(3,4) by (auto simp: wp_def split: prod.split sum.split)

lemma keeps_wf: "(\<And>tr used. keeps (calm tr used) m) \<Longrightarrow> keeps (\<lambda>w. ledger_wf (w_db w)) m"
  unfolding keeps_def calm_def by blast

lemma keeps_lift_exit [keeps_rules]: "keeps I (lift_exit r)"
  by (cases r) (simp_all add: lift_exit_def keeps_rules)

lemma keeps_let [keeps_rules]: "keeps I (f x) \<Longrightarrow> keeps I (let y = x in f y)"
  by simp

text \<open>The nonces of the environment are new to this ledger.\<close>

definition fresh_nonces :: "broker_env \<Rightarrow> db \<Rightarrow> bool" where
  "fresh_nonces b d \<longleftrightarrow> (\<forall>t. be_nonce b t \<notin> used_nonces d)"

lemma wp_wf_of_keeps:
  "keeps (\<lambda>w. ledger_wf (w_db w)) m \<Longrightarrow> ledger_wf (w_db w) \<Longrightarrow>
     wp m (\<lambda>_ w'. ledger_wf (w_db w')) (\<lambda>_ w'. ledger_wf (w_db w')) w"
  by (rule wp_calm)

lemma wp_record_plan:
  assumes "calm tr used w" "\<forall>t. be_nonce b t \<notin> used"
  shows "wp (record_plan b config q iq) (\<lambda>_ w'. ledger_wf (w_db w')) (\<lambda>_ w'. ledger_wf (w_db w')) w"
proof -
  let ?wf = "\<lambda>_ w'. ledger_wf (w_db w')"
  let ?n = "be_nonce b (w_tick w)" and ?now = "e_now (be_exec b) (Suc (w_tick w))"
  obtain r d where r: "request ?now ?n default_nonce_ttl iq (w_db w) = (r, d)"
    by (cases "request ?now ?n default_nonce_ttl iq (w_db w)")
  have "?n \<notin> used_nonces (w_db w)"
    using assms by (auto simp: calm_def)
  then have wf: "ledger_wf d"
    using ledger_wf_request [of "w_db w" ?n ?now default_nonce_ttl iq] assms(1) r by (simp add: calm_def)
  have rest: "wp (auto_authorize b config q i nonce) ?wf ?wf w'" if "ledger_wf (w_db w')" for i nonce w'
    using that by (intro wp_wf_of_keeps keeps_wf keeps_auto_authorize)
  show ?thesis
    using wf r rest
    by (auto simp: record_plan_def mint_nonce_def wp_rules split: sum.split ledger_error.split)
qed

lemma wp_request_command:
  assumes "calm tr used w" "\<forall>t. be_nonce b t \<notin> used"
  shows "wp (request_command b account raw) (\<lambda>_ w'. ledger_wf (w_db w')) (\<lambda>_ w'. ledger_wf (w_db w')) w"
proof -
  let ?Q = "\<lambda>_ w'. ledger_wf (w_db w')"
  have calm: "wp m Q ?Q w'" if "keeps (calm tr used) m" "calm tr used w'" "\<And>x w''. calm tr used w'' \<Longrightarrow> Q x w''"
    for m :: "'x step" and Q w'
    using that by (intro wp_calm [OF that(1,2)]) (auto simp: calm_def)
  have wf: "?Q x w'" if "calm tr used w'" for x w'
    using that by (simp add: calm_def)
  note stops = calm [OF keeps_fail _ wf]
  show ?thesis
    unfolding request_command_def wp_seq Let_def
    apply (rule calm [OF keeps_reading(1) assms(1)])
    apply (auto simp: wp_seq intro!: stops calm [OF keeps_lift_exit] calm [OF keeps_reading(2)]
        calm [OF keeps_components] wp_record_plan [OF _ assms(2)] split: sum.split)
    done
qed

lemma record_or_reuse_keeps:
  assumes wf: "ledger_wf d" and nonce: "ie_nonce env \<notin> used_nonces d"
  shows "ledger_wf (snd (record_or_reuse sha256 env config q d))"
proof -
  have auto_wf: "ledger_wf (snd (auto_confirm env config q i n d))" if "ledger_wf d" for i n d
    using that ledger_wf_confirm [OF that, of "ie_confirm_at env" n]
    by (auto simp: auto_confirm_def Let_def split: sum.split option.split prod.split) (metis snd_conv)+
  have new: "ledger_wf (snd (record_new env config q it d))"
    if "ledger_wf d" "ie_nonce env \<notin> used_nonces d" for it d
  proof -
    have "ledger_wf d'" if "request t (ie_nonce env) ttl iq d = (r, d')" for t ttl iq r d'
      using ledger_wf_request [OF \<open>ledger_wf d\<close> \<open>ie_nonce env \<notin> used_nonces d\<close>, of t ttl iq] that by simp
    with auto_wf that(1) show ?thesis
      by (auto simp: record_new_def split: sum.split prod.split)
  qed
  have "ledger_wf (expired_db (ie_expire_at env) d)" "ie_nonce env \<notin> used_nonces (expired_db (ie_expire_at env) d)"
    using wf nonce by (simp_all add: ledger_wf_expired used_nonces_expired)
  with new wf show ?thesis
    by (auto simp: record_or_reuse_def expire_lapsed_wf split: sum.split option.split)
qed

lemma wp_direct_receipt:
  assumes "calm tr used w" "\<forall>t. be_nonce b t \<notin> used"
  shows "wp (direct_receipt b expected q) (\<lambda>_ w'. ledger_wf (w_db w') \<and> w_trace w' = tr) (\<lambda>_ w'. ledger_wf (w_db w')) w"
proof -
  have machine: "keeps (calm tr used) (check_machine b expected)"
    unfolding check_machine_def by (intro keeps_rules)
  have recorded: "ledger_wf (w_db (snd (record_direct b config q w'))) \<and> w_trace (snd (record_direct b config q w')) = tr"
    if "calm tr used w'" for config w'
  proof -
    have "ledger_wf (w_db w')" "ie_nonce (intake_at b (w_tick w')) \<notin> used_nonces (w_db w')"
      using that assms(2) by (auto simp: calm_def intake_at_def)
    from record_or_reuse_keeps [OF this, of "be_sha256 b" config q] that show ?thesis
      by (auto simp: record_direct_def calm_def split: prod.split)
  qed
  have wf: "ledger_wf (w_db w')" if "calm tr used w'" for w'
    using that by (simp add: calm_def)
  show ?thesis
    unfolding direct_receipt_def wp_seq
    apply (rule wp_calm [OF machine assms(1) wp_calm [OF machine _ wp_calm [OF keeps_open]] wf]; (rule wf)?; assumption?)
    subgoal for x w1 y w2 z w3
      using recorded [of w3 y]
      by (auto simp: wp_def record_direct_def fault_def stop_def give_def fail_def leave_def
          split: prod.split sum.split request_error.split ledger_error.split)
    done
qed


section \<open>Commands that execute\<close>

lemma client_execute_wf:
  assumes wf: "ledger_wf (w_db (rt_outer s))" and r: "r \<in> set (db_operations (w_db (rt_outer s)))"
    and tr: "w_trace (rt_outer s) = []" "rt_trace s = []"
    and run: "client_execute env cl cfg (r_id r) s = (res, s')"
  shows "ledger_wf (w_db (rt_outer s')) \<and> (\<forall>l. res \<noteq> Inl (Ledger_fault l))"
proof (cases "r_operation r = ''stop''")
  case True
  from stop_never_replayed [OF wf r True tr(2) run] show ?thesis
    by simp
next
  case False
  let ?w = "rt_outer s"
  have get: "(in_broker (get_operation env (r_id r)) :: op_row client) s = (Inr r, s\<lparr>rt_outer := later ?w 1\<rparr>)"
    using get_row_in [OF wf r] by (simp add: in_broker_def get_operation_def ledger_do_def reading_def)
  show ?thesis
  proof (cases "client_locked env cl cfg (r_id r) s = in_broker (execute_locked env cfg (r_id r)) (s\<lparr>rt_outer := later ?w 1\<rparr>)")
    case True
    then obtain w' where w': "execute env cfg (r_id r) (later ?w 1) = (res, w')" "s' = s\<lparr>rt_outer := w'\<rparr>"
      using run by (auto simp: client_execute_def execute_def in_broker_def split: prod.splits)
    from execute_safe [OF _ _ _ w'(1)] wf r tr w'(2) show ?thesis
      by (simp add: run_ok_def)
  next
    case False
    with \<open>r_operation r \<noteq> ''stop''\<close> get have "\<exists>why. client_locked env cl cfg (r_id r) s = (in_broker (deferred (r_id r) why) :: report client) (s\<lparr>rt_outer := later ?w 1\<rparr>)"
      by (auto simp: client_locked_def seq_def [of "in_broker (get_operation env (r_id r))"] split: if_splits)
    with run wf show ?thesis
      by (auto simp: client_execute_def in_broker_def deferred_def leave_def stop_def outcome_of_def)
  qed
qed

lemma wp_settled: "wp (settled m) Q E s = (case m s of (r, t) \<Rightarrow>
     (case outcome_of r of Inl f \<Rightarrow> E (Raised f) t | Inr x \<Rightarrow> Q x t))"
  by (simp add: settled_def wp_def split: prod.split sum.split)

lemma keeps_wf_observe: "keeps (\<lambda>w. ledger_wf (w_db w)) (observe f seen :: 'a step)"
  by (simp add: keeps_def observe_def)

lemma keeps_wf_restore: "keeps (\<lambda>w. ledger_wf (w_db w)) (release_client env i :: bool step)"
  unfolding release_client_def restore_client_def see_steamcmd_def do_start_def
  by (intro keeps_rules keeps_wf [OF keeps_get_operation] keeps_wf_observe)

text \<open>A denied run never goes on.\<close>

lemma wp_deny_run:
  assumes "ledger_wf (w_db w)"
  shows "wp (deny_run b op d) (\<lambda>_ _. False) (\<lambda>_ w'. ledger_wf (w_db w')) w"
proof -
  have "ledger_wf (w_db w') \<Longrightarrow> wp (ledger_try b (\<lambda>now. transition now (r_id op) Aborted (Some why) None (Some (r_state op))))
      (\<lambda>_ w'. ledger_wf (w_db w')) (\<lambda>_ _. False) w'" for why w'
    using ledger_wf_transition by (simp add: wp_ledger_try case_prod_beta)
  then have "ledger_wf (w_db w') \<Longrightarrow> wp (seq (ledger_try b (\<lambda>now. transition now (r_id op) Aborted (Some why) None (Some (r_state op))))
      (\<lambda>r. case r of Inl e \<Rightarrow> (case e of InvalidTransition _ \<Rightarrow> leave (Not_aborted f) | _ \<Rightarrow> fault (Ledger_fault e))
         | Inr _ \<Rightarrow> fail f)) (\<lambda>_ _. False) (\<lambda>_ w'. ledger_wf (w_db w')) w'" for why f w'
    unfolding wp_seq by (rule wp_mono) (auto simp: wp_rules split: sum.split ledger_error.split)
  with assms show ?thesis
    by (auto simp: deny_run_def wp_seq wp_rules take_lock_def case_prod_beta
        intro!: wp_calm [OF keeps_wf_restore] simp del: wp_ledger_try)
qed

text \<open>What the executor is started on: a row of the ledger, and no effect so far.\<close>

definition run_start :: "nat \<Rightarrow> world \<Rightarrow> bool" where
  "run_start i w \<longleftrightarrow> ledger_wf (w_db w) \<and> w_trace w = [] \<and> i \<in> r_id ` set (db_operations (w_db w))"

lemma wp_run_decide:
  assumes "calm [] used w"
  shows "wp (run_decide b given) (\<lambda>(i, config). run_start i) (\<lambda>_ w'. ledger_wf (w_db w')) w"
proof -
  have wf: "ledger_wf (w_db w')" if "calm [] used w'" for w'
    using that by (simp add: calm_def)
  have target: "keeps (calm [] used) (run_target b given)"
    unfolding run_target_def by (intro keeps_rules)
  have denial: "keeps (\<lambda>w. calm [] used w \<and> r \<in> set (db_operations (w_db w))) (run_denial b r)" for r
  proof -
    have "keeps (\<lambda>w. w_db w = d) (denied_now b p r)" for d p
      unfolding denied_now_def plan_force_truthy_def
      by (intro keeps_rules) (auto simp: keeps_def ledger_do_def reading_def split: sum.split)
    then have "keeps (\<lambda>w. w_db w = d) (run_denial b r)" for d
      unfolding run_denial_def
      by (intro keeps_rules) (auto simp: keeps_def read_policy_def observe_def)
    moreover have "keeps (calm [] used) (run_denial b r)"
      unfolding run_denial_def by (intro keeps_rules)
    ultimately show ?thesis
      unfolding keeps_def by metis
  qed
  have "wp (case d of None \<Rightarrow> seq (take_lock b) (\<lambda>_. give (r_id r, config)) | Some x \<Rightarrow> deny_run b r x)
      (\<lambda>(i, config). run_start i) (\<lambda>_ w'. ledger_wf (w_db w')) w'"
    if "calm [] used w'" "r \<in> set (db_operations (w_db w'))" for d r config w'
  proof (cases d)
    case None
    with that show ?thesis
      by (auto simp: wp_def seq_def take_lock_run give_def run_start_def calm_def)
  next
    case (Some x)
    then show ?thesis
      using wp_mono [OF wp_deny_run [OF wf [OF that(1)], of b r x]] by simp
  qed
  then have op: "wp (seq (run_denial b r) (\<lambda>d. case d of None \<Rightarrow> seq (take_lock b) (\<lambda>_. give (r_id r, config))
      | Some x \<Rightarrow> deny_run b r x)) (\<lambda>(i, config). run_start i) (\<lambda>_ w'. ledger_wf (w_db w')) w'"
    if "calm [] used w'" "r \<in> set (db_operations (w_db w'))" for r config w'
    unfolding wp_seq using that by (intro wp_calm [OF denial]) (auto simp: wf)
  have "wp (seq (ledger_try b (\<lambda>_. reading (get_row i))) (\<lambda>r. case r of Inl e \<Rightarrow> fail (Ledger_failure e)
      | Inr op \<Rightarrow> seq (run_denial b op) (\<lambda>d. case d of None \<Rightarrow> seq (take_lock b) (\<lambda>_. give (i, config))
         | Some x \<Rightarrow> deny_run b op x))) (\<lambda>(i, config). run_start i) (\<lambda>_ w'. ledger_wf (w_db w')) w'"
    if "calm [] used w'" for i config w'
  proof (cases rule: get_row_cases [OF wf [OF that], of i])
    case (1 r)
    then have "r \<in> set (db_operations (w_db (later w' 1)))" "calm [] used (later w' 1)"
      using that by simp_all
    from op [OF this(2,1), of config] 1 show ?thesis
      by (auto simp: wp_rules reading_def)
  next
    case (2 msg)
    with wf [OF that] show ?thesis
      by (simp add: wp_rules reading_def)
  qed
  then show ?thesis
    unfolding run_decide_def wp_seq using assms
    by (intro wp_calm [OF keeps_components] wp_calm [OF target]) (auto simp: wf option.case_eq_if)
qed

end
