(* ===== verification/Broker_Safety.thy ===== *)
theory Broker_Safety
  imports Broker_Facts
begin

text \<open>
  Whole commands of the broker: every one keeps the ledger well formed, and a run that the
  policy denies restores the client and aborts, nothing else.
\<close>


section \<open>Every command keeps the ledger\<close>

lemma wp_in_broker_eq [wp_rules]:
  "wp (in_broker m) Q E s = wp m (\<lambda>x w. Q x (s\<lparr>rt_outer := w\<rparr>)) (\<lambda>e w. E e (s\<lparr>rt_outer := w\<rparr>)) (rt_outer s)"
  by (simp add: wp_def in_broker_def split: prod.split sum.split)

abbreviation good :: "world rt_world \<Rightarrow> bool" where
  "good s \<equiv> ledger_wf (w_db (rt_outer s))"

lemma wp_run_execute:
  assumes "run_start i (rt_outer s)" "rt_trace s = []"
  shows "wp (run_execute b config i) (\<lambda>_. good) (\<lambda>_. good) s"
proof -
  from assms(1) obtain r where r: "ledger_wf (w_db (rt_outer s))" "r \<in> set (db_operations (w_db (rt_outer s)))"
    "w_trace (rt_outer s) = []" "i = r_id r"
    by (auto simp: run_start_def)
  obtain x t where run: "client_locked (run_env b) (run_client b) (run_config b config) i s = (x, t)"
    by (cases "client_locked (run_env b) (run_client b) (run_config b config) i s")
  then have "client_execute (run_env b) (run_client b) (run_config b config) (r_id r) s = (outcome_of x, t)"
    by (simp add: client_execute_def r(4))
  from client_execute_wf [OF r(1-3) assms(2) this] run show ?thesis
    by (simp add: run_execute_def wp_settled split: sum.split)
qed

lemma wp_give_fun: "wp (give x) Q E = Q x"
  by (rule ext) (rule wp_give)

lemma wp_components:
  "ledger_wf (w_db w) \<Longrightarrow> wp (components b) Q E w =
     (case load_config (be_config_file b (w_tick w)) of
        Inl f \<Rightarrow> E (Returned (Failure f)) (later w 1) | Inr config \<Rightarrow> Q config (later w 2))"
  by (simp add: wp_def components_run split: sum.split)

lemma wp_run_command:
  assumes "calm [] used (rt_outer s)" "rt_trace s = []"
  shows "wp (run_command b given) (\<lambda>_. good) (\<lambda>_. good) s"
  unfolding run_command_def wp_seq wp_in_broker_eq
proof (rule wp_mono [OF wp_run_decide [OF assms(1)]])
  fix x :: "nat \<times> broker_config" and w :: world
  assume "(case x of (i, config) \<Rightarrow> run_start i) w"
  then have "run_start (fst x) (rt_outer (s\<lparr>rt_outer := w\<rparr>))"
    by (cases x) simp
  from wp_run_execute [OF this, of b "snd x"] assms(2)
  show "wp (case x of (i, config) \<Rightarrow> seq (run_execute b config i) (\<lambda>rep. give (report_answer rep)))
      (\<lambda>_. good) (\<lambda>_. good) (s\<lparr>rt_outer := w\<rparr>)"
    by (cases x) (simp add: wp_seq wp_give_fun)
qed simp

lemma wp_reconcile_command:
  assumes "calm [] used w"
  shows "wp (reconcile_command b) (\<lambda>_ w'. ledger_wf (w_db w')) (\<lambda>_ w'. ledger_wf (w_db w')) w"
proof -
  have "wp (settled (reconcile_locked env cfg) :: string list step) (\<lambda>_ w'. ledger_wf (w_db w')) (\<lambda>_ w'. ledger_wf (w_db w')) w'"
    if "calm [] used w'" for env cfg w'
  proof -
    obtain x t where run: "reconcile_locked env cfg w' = (x, t)"
      by (cases "reconcile_locked env cfg w'")
    with reconcile_safe [of w' env cfg "outcome_of x" t] that show ?thesis
      by (simp add: wp_settled reconcile_def calm_def split: sum.split)
  qed
  moreover have "ledger_wf (w_db w')" if "calm [] used w'" for w'
    using that by (simp add: calm_def)
  ultimately show ?thesis
    unfolding reconcile_command_def wp_seq wp_give
    using assms by (intro wp_calm [OF keeps_components] wp_calm [OF keeps_take_lock])
qed

lemma wp_direct_command:
  assumes "calm [] used (rt_outer s)" "\<forall>t. be_nonce b t \<notin> used" "rt_trace s = []"
  shows "wp (direct_command b expected request_only q) (\<lambda>_. good) (\<lambda>_. good) s"
  unfolding direct_command_def wp_seq wp_in_broker_eq
proof (rule wp_mono [OF wp_direct_receipt [OF assms(1,2)]])
  fix x and w :: world
  assume "ledger_wf (w_db w) \<and> w_trace w = []"
  then have "calm [] (used_nonces (w_db w)) (rt_outer (s\<lparr>rt_outer := w\<rparr>))" "good (s\<lparr>rt_outer := w\<rparr>)"
    by (simp_all add: calm_def)
  with assms(3) show "wp (if re_state x \<in> {Authorized, Interrupted} \<and> \<not> request_only
         then run_command b (Some (re_operation_id x))
         else give (Answer (receipt_json x)
           (if re_state x \<in> {PendingConfirmation, Authorized, Confirmed, Dispatched} then 0 else 1)))
      (\<lambda>_. good) (\<lambda>_. good) (s\<lparr>rt_outer := w\<rparr>)"
    by (simp only: wp_if wp_give) (simp add: wp_run_command)
qed simp

lemma invoke_wf:
  assumes wf: "good s" and tr: "w_trace (rt_outer s) = []" "rt_trace s = []"
    and nonces: "fresh_nonces b (w_db (rt_outer s))" and run: "invoke b c s = (res, s')"
  shows "good s'"
proof -
  let ?used = "used_nonces (w_db (rt_outer s))"
  have calm: "calm [] ?used (rt_outer s)" and new: "\<forall>t. be_nonce b t \<notin> ?used"
    using wf tr nonces by (simp_all add: calm_def fresh_nonces_def)
  have broker: "wp (in_broker m) (\<lambda>_. good) (\<lambda>_. good) s"
    if "wp m (\<lambda>_ w'. ledger_wf (w_db w')) (\<lambda>_ w'. ledger_wf (w_db w')) (rt_outer s)" for m :: "'x step"
    using that by (simp add: wp_in_broker_eq)
  have kept: "wp m (\<lambda>_ w'. ledger_wf (w_db w')) (\<lambda>_ w'. ledger_wf (w_db w')) (rt_outer s)"
    if "keeps (calm [] ?used) m" for m :: "'x step"
    by (rule wp_calm [OF that calm]) (simp_all add: calm_def)
  have "wp (dispatch_command b c) (\<lambda>_. good) (\<lambda>_. good) s"
    unfolding dispatch_command_def
    using tr(2) calm new
    by (cases c) (simp_all add: broker kept keeps_confirm_command keeps_status_command wp_request_command
        wp_reconcile_command wp_run_command wp_direct_command)
  with run show ?thesis
    by (auto simp: invoke_def wp_def split: prod.splits sum.splits)
qed


section \<open>A denied run\<close>

fun restoring :: "effect \<Rightarrow> bool" where
  "restoring (Saw_steamcmd x) = True"
| "restoring (Started_client x) = True"
| "restoring e = False"

lemma guarded_restoring: "guarded (\<lambda>_. restoring) tr = list_all restoring tr"
proof -
  have "guarded_from (\<lambda>_. restoring) pre tr = list_all restoring tr" for pre
    by (induction tr arbitrary: pre) simp_all
  then show ?thesis by (simp add: guarded_def)
qed

text \<open>What a denied run leaves of the row: as it was, or aborted with the client back.\<close>

definition denied_end :: "op_state \<Rightarrow> bool option \<Rightarrow> op_state \<Rightarrow> effect list \<Rightarrow> bool" where
  "denied_end s p s' tr \<longleftrightarrow>
     list_all restoring tr \<and>
     (s' = s \<or> s' = Aborted \<and> s \<in> {Authorized, Interrupted} \<and> writer_gone tr \<and> client_back p tr)"

fun no_answer :: "reply exit \<Rightarrow> bool" where
  "no_answer (Returned (Answer j c)) = False"
| "no_answer e = True"

lemma track_try_transition:
  assumes "to \<in> set (transitions s)" "Q (Inr ()) to p tr"
  shows "track i (ledger_try b (\<lambda>now. transition now i to (Some why) None (Some s))) Q E s p tr"
  unfolding track_def
proof (intro allI impI)
  fix w :: world
  assume w: "at_state i s p (w_db w)" "w_trace w = tr"
  from transition_at [OF w(1) assms(1), of "Some s" "e_now (be_exec b) (w_tick w)" "Some why" None]
  obtain d' where "transition (e_now (be_exec b) (w_tick w)) i to (Some why) None (Some s) (w_db w) = (Inr (), d')"
    "at_state i to p d'"
    by auto
  with w(2) assms(2) show "wp (ledger_try b (\<lambda>now. transition now i to (Some why) None (Some s)))
      (\<lambda>x w'. \<exists>s' p'. at_state i s' p' (w_db w') \<and> Q x s' p' (w_trace w'))
      (\<lambda>e w'. \<exists>s' p'. at_state i s' p' (w_db w') \<and> E e s' p' (w_trace w')) w"
    by (auto simp: wp_ledger_try)
qed

lemma track_fail: "E (Returned (Failure f)) s p tr \<Longrightarrow> track i (fail f) Q E s p tr"
  by (simp add: fail_def track_leave)

lemma track_take_lock:
  "Q () s p tr \<Longrightarrow> E (Returned (Failure Executor_locked)) s p tr \<Longrightarrow> track i (take_lock b) Q E s p tr"
  unfolding take_lock_def by (intro track_seq track_observe_silent track_if track_give track_fail)

lemma track_deny_run:
  assumes "r_id r = i" "r_state r = s" "r_prior_client_running r = p"
  shows "track i (deny_run b r d) (\<lambda>_ _ _ _. False) (\<lambda>e s' _ tr. no_answer e \<and> denied_end s p s' tr) s p []"
proof (cases "s \<in> {Authorized, Interrupted}")
  case False
  then show ?thesis
    by (auto simp: deny_run_def case_prod_beta assms(2) denied_end_def intro!: track_fail)
next
  case True
  then have to: "Aborted \<in> set (transitions s)"
    by auto
  let ?E = "\<lambda>e s' (_ :: bool option) tr. no_answer e \<and> denied_end s p s' tr"
  have release: "track i (release_client (be_exec b) i) Q ?E s p []"
    if "\<And>tr. list_all restoring tr \<Longrightarrow> Q False s p tr"
      "\<And>tr. list_all restoring tr \<Longrightarrow> writer_gone tr \<Longrightarrow> client_back p tr \<Longrightarrow> Q True s p tr" for Q
    unfolding release_client_def
    by (intro track_seq track_get, simp) (rule track_restore_gen [of "\<lambda>_. restoring"], simp_all add: guarded_restoring that)
  have rest: "track i (if \<not> x then leave (Not_restored (fst d))
       else seq (ledger_try b (\<lambda>now. transition now i Aborted (Some (snd d)) None (Some s))) (\<lambda>r.
         case r of
           Inl e \<Rightarrow> (case e of InvalidTransition _ \<Rightarrow> leave (Not_aborted (fst d)) | _ \<Rightarrow> fault (Ledger_fault e))
         | Inr _ \<Rightarrow> fail (fst d))) (\<lambda>_ _ _ _. False) ?E s p tr"
    if "list_all restoring tr" "x \<longrightarrow> writer_gone tr \<and> client_back p tr" for x tr
    using that True
    by (intro track_if track_leave track_seq track_try_transition [OF to])
       (auto intro!: track_fail simp: denied_end_def)
  have "track i (seq (take_lock b) (\<lambda>_. seq (release_client (be_exec b) i) (\<lambda>x. if \<not> x then leave (Not_restored (fst d))
       else seq (ledger_try b (\<lambda>now. transition now i Aborted (Some (snd d)) None (Some s))) (\<lambda>r.
         case r of
           Inl e \<Rightarrow> (case e of InvalidTransition _ \<Rightarrow> leave (Not_aborted (fst d)) | _ \<Rightarrow> fault (Ledger_fault e))
         | Inr _ \<Rightarrow> fail (fst d))))) (\<lambda>_ _ _ _. False) ?E s p []"
    by (intro track_seq track_take_lock release rest) (simp_all add: denied_end_def)
  with True show ?thesis
    unfolding deny_run_def case_prod_beta assms(1,2) by simp
qed


text \<open>The whole command, on a row the policy denies when \<open>run\<close> reads it.\<close>

lemma run_denial_denied:
  assumes "ledger_wf (w_db w)" "r \<in> set (db_operations (w_db w))" "\<not> permitted_at b (w_tick w) r"
  obtains d k where "run_denial b r w = (Inr (Some d), w\<lparr>w_tick := k\<rparr>)"
    | k where "run_denial b r w = (Inl (Raised Probe_fault), w\<lparr>w_tick := k\<rparr>)"
proof (cases "policy_at b (w_tick w)")
  case (Inl e)
  then have "run_denial b r w = (Inr (Some (Policy_failure e, ''policy unreadable before execution'')), later w 1)"
    by (simp add: run_denial_def seq_def give_def)
  then show ?thesis by (rule that(1))
next
  case (Inr p)
  with assms(3) have deny: "\<not> permits p r"
    by (simp add: permitted_at_def)
  have "ledger_wf (w_db (later w 1))" "r \<in> set (db_operations (w_db (later w 1)))"
    using assms(1,2) by simp_all
  then show ?thesis
  proof (cases rule: denied_now_run [of "later w 1" r b p])
    case (answered k)
    with Inr deny have "run_denial b r w = (Inr (Some (now_denies r, ''policy revoked before execution'')), later w (1 + k))"
      by (simp add: run_denial_def seq_def give_def)
    then show ?thesis by (rule that(1))
  next
    case crashed
    with Inr have "run_denial b r w = (Inl (Raised Probe_fault), later w 2)"
      by (simp add: run_denial_def seq_def)
    then show ?thesis by (rule that(2))
  qed
qed

lemma run_decide_denied:
  assumes wf: "ledger_wf (w_db w)" and r: "r \<in> set (db_operations (w_db w))" and tr: "w_trace w = []"
    and denied: "\<not> permitted_at b (w_tick w + 3) r"
  shows "wp (run_decide b (Some (r_id r))) (\<lambda>_ _. False)
    (\<lambda>e w'. no_answer e \<and> (\<exists>s'. state_of (w_db w') (r_id r) = Some s' \<and>
       denied_end (r_state r) (r_prior_client_running r) s' (w_trace w'))) w"
proof -
  let ?E = "\<lambda>e w'. no_answer e \<and> (\<exists>s'. state_of (w_db w') (r_id r) = Some s' \<and>
       denied_end (r_state r) (r_prior_client_running r) s' (w_trace w'))"
  have at: "at_state (r_id r) (r_state r) (r_prior_client_running r) (w_db w)"
    using wf r by (auto simp: at_state_row)
  have idle: "\<exists>s'. state_of (w_db w) (r_id r) = Some s' \<and> denied_end (r_state r) (r_prior_client_running r) s' (w_trace w)"
    using at tr by (simp add: at_state_def denied_end_def)
  have deny: "wp (deny_run b r d) (\<lambda>_ _. False) ?E (w\<lparr>w_tick := k\<rparr>)" for d k
  proof (rule wp_mono)
    show "wp (deny_run b r d) (\<lambda>_ w'. \<exists>s' p'. at_state (r_id r) s' p' (w_db w') \<and> False)
        (\<lambda>e w'. \<exists>s' p'. at_state (r_id r) s' p' (w_db w') \<and>
           no_answer e \<and> denied_end (r_state r) (r_prior_client_running r) s' (w_trace w')) (w\<lparr>w_tick := k\<rparr>)"
      by (rule trackD [OF track_deny_run [OF refl refl refl]]) (simp_all add: at tr)
  qed (auto simp: at_state_def)
  have get: "ledger_try b (\<lambda>_. reading (get_row (r_id r))) (w\<lparr>w_tick := k\<rparr>) = (Inr (Inr r), w\<lparr>w_tick := Suc k\<rparr>)" for k
    using get_row_in [OF wf r] by (simp add: ledger_try_def reading_def)
  have later: "ledger_wf (w_db (later w 3))" "r \<in> set (db_operations (w_db (later w 3)))"
    "\<not> permitted_at b (w_tick (later w 3)) r"
    using wf r denied by simp_all
  have "wp (run_denial b r) (\<lambda>d. wp (case d of None \<Rightarrow> seq (take_lock b) (\<lambda>_. give (r_id r, config))
      | Some d \<Rightarrow> deny_run b r d) (\<lambda>_ _. False) ?E) ?E (later w 3)" for config
    by (rule run_denial_denied [OF later])
       (simp_all add: wp_def [of "run_denial b r"] deny idle)
  then show ?thesis
    unfolding run_decide_def run_target_def wp_seq option.case wp_components [OF wf] wp_give_fun
    by (auto simp: wp_def [of "ledger_try _ _"] get idle wp_seq numeral_3_eq_3 split: sum.split)
qed

end
