(* ===== verification/Broker_Props.thy ===== *)
theory Broker_Props
  imports Broker_Safety
begin

text \<open>
  The properties of the broker's commands: the ledger after any command, what a denied run and
  a denied confirmation leave, and what a submitted plan records.
\<close>


section \<open>A broker with a stop to run\<close>

definition broker_file :: json where
  "broker_file = JObject [(''library'', JString ''/games''), (''steamcmd'', JString ''/usr/bin/steamcmd'')]"

definition demo_config :: broker_config where
  "demo_config = [''library'' \<mapsto> ''/games'', ''steamcmd'' \<mapsto> ''/usr/bin/steamcmd'']"

lemma demo_config: "load_config (File (json_dumps broker_file)) = Inr demo_config"
proof -
  have "json_loads (json_dumps broker_file) = Some (ordered broker_file)"
    by (rule json_loads_dumps) (simp_all add: broker_file_def)
  moreover have "ordered broker_file = broker_file"
    by (simp add: broker_file_def)
  ultimately show ?thesis
    by (auto simp: load_config_def broker_file_def config_valid_def config_of_def optional_keys_def json_get_def
        json_text_def demo_config_def)
qed

text \<open>The world of \<open>stop_world\<close>; the policy file is there when \<open>readable\<close> says so.\<close>

definition demo_be :: "(nat \<Rightarrow> bool) \<Rightarrow> broker_env" where
  "demo_be readable = \<lparr>be_exec = stop_env,
     be_client = stop_client_env\<lparr>cl_policy_file := \<lambda>t. if readable t then Some ''toml'' else None\<rparr>,
     be_platform = ''linux'', be_config_file = \<lambda>t. File (json_dumps broker_file),
     be_free = \<lambda>t library. None, be_nonce = \<lambda>t. ''fresh'', be_lock = \<lambda>t. True, be_sha256 = \<lambda>s. s,
     be_paths = \<lambda>appid. demo_paths, be_stamp = json_int, be_str = json_dumps\<rparr>"



lemma stop_idle: "w_trace (rt_outer stop_world) = []" "rt_trace stop_world = []"
  by (simp_all add: stop_world_def)


section \<open>The ledger\<close>




section \<open>A run under a denial\<close>

text \<open>C3. A run of an operation that the policy denies when \<open>run\<close> reads it, or cannot be read, sends
  nothing to any process and answers nothing: it looks for steamcmd, may start the client again,
  and leaves the row as it was, or aborted if it was authorized or interrupted and the client
  that ran before is back.\<close>

theorem denied_run_restores:
  assumes "ledger_wf (w_db (rt_outer s))" "r \<in> set (db_operations (w_db (rt_outer s)))"
    and "w_trace (rt_outer s) = []" "\<not> permitted_at b (w_tick (rt_outer s) + 3) r"
    and "invoke b (Run (Some (r_id r))) s = (res, s')"
  shows "rt_trace s' = rt_trace s \<and> list_all restoring (w_trace (rt_outer s')) \<and>
    (\<forall>j k. res \<noteq> Inr (Answer j k)) \<and>
    (\<exists>st. state_of (w_db (rt_outer s')) (r_id r) = Some st \<and>
       (st = r_state r \<or> st = Aborted \<and> r_state r \<in> {Authorized, Interrupted} \<and>
          writer_gone (w_trace (rt_outer s')) \<and> client_back (r_prior_client_running r) (w_trace (rt_outer s'))))"
proof -
  obtain x t where x: "dispatch_command b (Run (Some (r_id r))) s = (x, t)" "res = answer_of (outcome_of x)" "s' = t"
    using assms(5) by (auto simp: invoke_def split: prod.splits)
  from run_decide_denied [OF assms(1-4)] obtain e w where
    e: "run_decide b (Some (r_id r)) (rt_outer s) = (Inl e, w)" "no_answer e"
      "\<exists>st. state_of (w_db w) (r_id r) = Some st \<and> denied_end (r_state r) (r_prior_client_running r) st (w_trace w)"
    by (auto simp: wp_def split: prod.splits sum.splits)
  then have run: "x = Inl e" "t = s\<lparr>rt_outer := w\<rparr>"
    using x(1) by (simp_all add: dispatch_command_def run_command_def seq_def in_broker_def)
  have "\<forall>j k. answer_of (outcome_of (Inl e)) \<noteq> Inr (Answer j k)"
    using e(2) by (cases e) (auto simp: answer_of_def outcome_of_def split: reply.splits fault.splits ledger_error.splits)
  with e(3) x(2,3) run show ?thesis
    by (auto simp: denied_end_def)
qed

theorem denied_run_restores_witness:
  "\<exists>res s'. invoke (demo_be (\<lambda>t. False)) (Run (Some 1)) stop_world = (res, s') \<and> rt_trace s' = [] \<and>
     (\<forall>j k. res \<noteq> Inr (Answer j k))"
proof -
  obtain res s' where run: "invoke (demo_be (\<lambda>t. False)) (Run (Some (r_id stop_row))) stop_world = (res, s')"
    by (metis surj_pair)
  have "\<not> permitted_at (demo_be (\<lambda>t. False)) (w_tick (rt_outer stop_world) + 3) stop_row"
    by (simp add: permitted_at_def policy_at_def demo_be_def load_policy_def)
  from denied_run_restores [OF stop_start(1,2) stop_idle(1) this run] run stop_start(5) show ?thesis
    by (auto simp: stop_idle)
qed


section \<open>Confirmation\<close>






end
