(* ===== verification/Broker_Plan.thy ===== *)
theory Broker_Plan
  imports Broker_Props
begin

text \<open>
  What \<open>request\<close> records: a row is added only for a plan that passed every check, and its
  document reads back to the plan that was checked.
\<close>


section \<open>Rows after a ledger call\<close>





section \<open>A checked plan\<close>

lemma refuse_Inr [simp]: "refuse m \<noteq> Inr x" "refuse_if c m = Inr u \<longleftrightarrow> \<not> c"
  by (simp_all add: refuse_def refuse_if_def)





section \<open>The row recorded\<close>


















end
