(* ===== verification/Init_Props.thy ===== *)
theory Init_Props
  imports Broker_Config Reconcile_Safety
begin

text \<open>
  The properties of \<open>init\<close>: the configuration it writes is read back, and the broker keeps its
  identity, its policy and the configuration of an active operation.
\<close>


section \<open>The written configuration\<close>

lemma load_config_dumps:
  assumes "float_free (JObject kvs)" "keys_distinct (JObject kvs)" "config_valid kvs"
  shows "load_config (File (json_dumps (JObject kvs))) = Inr (config_of kvs)"
proof -
  let ?kvs = "sort_key fst (map (\<lambda>(k, v). (k, ordered v)) kvs)"
  have "json_get k ?kvs = map_option ordered (json_get k kvs)" for k
    using assms(2) by (intro json_get_ordered) simp
  moreover have "json_text (ordered v) = json_text v" for v
    by (cases v) (simp_all add: json_text_def)
  ultimately have same: "config_of ?kvs = config_of kvs" "json_get k ?kvs = None \<longleftrightarrow> json_get k kvs = None" for k
    by (auto simp: config_of_def fun_eq_iff bind_map_option comp_def)
  with assms(3) have "config_valid ?kvs"
    by (simp add: config_valid_def)
  with same(1) json_loads_dumps [OF assms(1,2)] show ?thesis
    by (simp add: load_config_def)
qed

lemma init_document_loads:
  "load_config (File (json_dumps (init_document a old machine))) =
     Inr (config_of (case init_document a old machine of JObject kvs \<Rightarrow> kvs))"
proof -
  obtain kvs where kvs: "init_document a old machine = JObject kvs"
    by (simp add: init_document_def)
  moreover have "float_free (init_document a old machine)" "keys_distinct (init_document a old machine)"
    by (simp_all add: init_document_def)
  moreover have "config_valid kvs"
    using kvs by (auto simp: init_document_def config_valid_def config_of_def json_get_def json_text_def optional_keys_def)
  ultimately show ?thesis
    using load_config_dumps [of kvs] by simp
qed

lemma init_document_config:
  "config_of (case init_document a old machine of JObject kvs \<Rightarrow> kvs) ''library'' = Some (ia_library a)"
  "config_of (case init_document a old machine of JObject kvs \<Rightarrow> kvs) ''machine_id'' = Some machine"
  by (simp_all add: init_document_def config_of_def json_get_def json_text_def)

lemma init_ledger_none:
  assumes "ledger_wf l" "init_ledger now l = (Inr u, l')"
  shows "\<forall>r \<in> set (db_operations l'). terminal (r_state r)"
proof -
  have eq: "init_ledger now l = (case active (expired_db now l) of
      Inl _ \<Rightarrow> (Inl (Message ''broker state unavailable or locked''), expired_db now l)
    | Inr (Some _) \<Rightarrow> (Inl (Message ''an operation is active; refusing to reconfigure the broker''), expired_db now l)
    | Inr None \<Rightarrow> (Inr (), expired_db now l))"
    using assms(1) by (simp add: init_ledger_def open_ledger_wf expire_lapsed_wf)
  show ?thesis
    using assms(2) unfolding eq
    by (cases rule: active_wf [OF ledger_wf_expired [OF assms(1), of now]]) auto
qed

text \<open>The machine that the configuration names before \<open>init\<close>, or would name by default.\<close>

definition machine_before :: "state_dir \<Rightarrow> string" where
  "machine_before d = config_or (existing_config d) ''machine_id'' ''local''"

lemma init_machine_Inr:
  "init_machine a d = Inr m \<longleftrightarrow>
     (case ia_machine_id a of
        Some m' \<Rightarrow> m = m'
      | None \<Rightarrow> m = machine_before d \<and> (sd_config d = Absent \<or> (\<exists>old. load_config (sd_config d) = Inr old)))"
  by (auto simp: init_machine_def machine_before_def existing_config_def no_config_def config_or_def load_config_def
      split: option.splits sum.splits contents.splits)

lemma init_files_Inr:
  assumes "init_files template a d = (Inr wrote, d')"
  shows "\<exists>config. load_config (sd_config d') = Inr config \<and> config ''library'' = Some (ia_library a) \<and>
      config ''machine_id'' = Some (case ia_machine_id a of Some m \<Rightarrow> m | None \<Rightarrow> machine_before d)"
    and "ia_machine_id a = None \<Longrightarrow> sd_config d \<noteq> Absent \<Longrightarrow> \<exists>old. load_config (sd_config d) = Inr old"
    and "sd_policy d' = (if sd_policy d = Absent then File template else sd_policy d)" "sd_ledger d' = sd_ledger d"
proof -
  obtain m where m: "init_machine a d = Inr m"
    "d' = d\<lparr>sd_policy := if sd_policy d = Absent then File template else sd_policy d,
       sd_config := File (json_dumps (init_document a (existing_config d) m))\<rparr>"
    using assms by (auto simp: init_files_def Let_def split: sum.splits)
  then show "\<exists>config. load_config (sd_config d') = Inr config \<and> config ''library'' = Some (ia_library a) \<and>
      config ''machine_id'' = Some (case ia_machine_id a of Some m \<Rightarrow> m | None \<Rightarrow> machine_before d)"
    using init_document_config [of a "existing_config d" m]
    by (auto simp: init_document_loads init_machine_Inr split: option.splits)
  show "ia_machine_id a = None \<Longrightarrow> sd_config d \<noteq> Absent \<Longrightarrow> \<exists>old. load_config (sd_config d) = Inr old"
    "sd_policy d' = (if sd_policy d = Absent then File template else sd_policy d)" "sd_ledger d' = sd_ledger d"
    using m by (auto simp: init_machine_Inr)
qed

text \<open>C22. \<open>init\<close> never silently retargets a broker.  When it succeeds no operation is active, what it
  wrote is read back with the given library and, unless \<open>--machine-id\<close> is given, the machine
  identity that was configured before, which it could read; an existing policy file stays.
  When it fails, configuration and policy are untouched.\<close>

theorem init_keeps_identity:
  assumes "\<forall>l. sd_ledger d = Some l \<longrightarrow> ledger_wf l" "init_broker template now a d = (res, d')"
  shows "case res of
      Inl _ \<Rightarrow> sd_config d' = sd_config d \<and> sd_policy d' = sd_policy d
    | Inr wrote \<Rightarrow>
        (\<exists>config. load_config (sd_config d') = Inr config \<and> config ''library'' = Some (ia_library a) \<and>
           config ''machine_id'' = Some (case ia_machine_id a of Some m \<Rightarrow> m | None \<Rightarrow> machine_before d)) \<and>
        (ia_machine_id a = None \<longrightarrow> sd_config d \<noteq> Absent \<longrightarrow> (\<exists>old. load_config (sd_config d) = Inr old)) \<and>
        (sd_policy d \<noteq> Absent \<longrightarrow> sd_policy d' = sd_policy d) \<and>
        (\<forall>l. sd_ledger d' = Some l \<longrightarrow> (\<forall>r \<in> set (db_operations l). terminal (r_state r)))"
proof (cases res)
  case (Inl e)
  with assms(2) show ?thesis
    by (auto simp: init_broker_def init_files_def Let_def split: option.splits prod.splits sum.splits)
next
  case (Inr wrote)
  show ?thesis
  proof (cases "sd_ledger d")
    case None
    with assms(2) Inr have "init_files template a d = (Inr wrote, d')"
      by (simp add: init_broker_def)
    from init_files_Inr [OF this] None Inr show ?thesis
      by auto
  next
    case (Some l)
    with assms(2) Inr obtain l' where l': "init_ledger now l = (Inr (), l')"
      "init_files template a (d\<lparr>sd_ledger := Some l'\<rparr>) = (Inr wrote, d')"
      by (auto simp: init_broker_def split: prod.splits sum.splits)
    have "machine_before (d\<lparr>sd_ledger := Some l'\<rparr>) = machine_before d"
      by (simp add: machine_before_def existing_config_def)
    note files = init_files_Inr [OF l'(2), unfolded this]
    from files init_ledger_none [OF _ l'(1)] assms(1) Some Inr show ?thesis
      by simp
  qed
qed

definition demo_args :: init_args where
  "demo_args = \<lparr>ia_library = ''/games'', ia_steamcmd = None, ia_account = None, ia_steam_login = None,
     ia_steam_executable = None, ia_machine_id = None\<rparr>"

definition demo_dir :: state_dir where
  "demo_dir = \<lparr>sd_config = File (json_dumps (init_document demo_args no_config ''den'')), sd_policy = Absent,
     sd_ledger = None\<rparr>"

theorem init_keeps_identity_witness:
  "\<exists>d' config. init_broker ''template'' 0 demo_args demo_dir = (Inr True, d') \<and>
     load_config (sd_config d') = Inr config \<and> config ''machine_id'' = Some ''den''"
proof -
  have "machine_before demo_dir = ''den''"
    by (simp add: machine_before_def existing_config_def demo_dir_def init_document_loads config_or_def
        init_document_config)
  moreover obtain d' where run: "init_broker ''template'' 0 demo_args demo_dir = (Inr True, d')"
    using init_document_loads [of demo_args no_config "''den''"]
    by (auto simp: init_broker_def init_files_def init_machine_def demo_dir_def demo_args_def Let_def)
  ultimately show ?thesis
    using init_keeps_identity [OF _ run] by (auto simp: demo_dir_def demo_args_def)
qed

end
