(* ===== verification/Capture.thy ===== *)
theory Capture
  imports Broker_Prelude "HOL-Library.Word"
begin

text \<open>
  The bounded capture of a child's output in \<open>src/steam_agent/execution/output_capture.py\<close>.

  A stream keeps the first half of its limit in \<open>st_head\<close> and a queue of the latest chunks in
  \<open>st_tail\<close>; the reader thread is the list of what its \<open>os.read\<close> calls return (\<open>None\<close> for a
  call that raises).  Decoding the bytes is a parameter.
\<close>


section \<open>One stream\<close>

type_synonym bytes = "8 word list"

record stream =
  st_head_limit :: nat
  st_tail_limit :: nat
  st_head :: bytes
  st_tail :: "bytes list"
  st_tail_size :: nat
  st_total :: nat

definition new_stream :: "nat \<Rightarrow> stream" where
  "new_stream limit =
     \<lparr>st_head_limit = limit div 2, st_tail_limit = limit - limit div 2, st_head = [],
      st_tail = [], st_tail_size = 0, st_total = 0\<rparr>"

text \<open>
  The loop that drops the oldest bytes of the queue.  \<open>None\<close>: \<open>popleft\<close> on an empty queue,
  an \<open>IndexError\<close> that the reader turns into a failed capture.
\<close>

fun drop_oldest :: "nat \<Rightarrow> nat \<Rightarrow> bytes list \<Rightarrow> (nat \<times> bytes list) option" where
  "drop_oldest limit held [] = (if limit < held then None else Some (held, []))"
| "drop_oldest limit held (first # rest) =
     (if limit < held
      then
        let excess = held - limit in
        if excess < length first then Some (held - excess, drop excess first # rest)
        else drop_oldest limit (held - length first) rest
      else Some (held, first # rest))"

definition append_data :: "bytes \<Rightarrow> stream \<Rightarrow> stream option" where
  "append_data data s =
     (let needed = st_head_limit s - length (st_head s);
          head = (if needed \<noteq> 0 then st_head s @ take needed data else st_head s);
          rest = (if needed \<noteq> 0 then drop needed data else data);
          tail = (if rest \<noteq> [] then st_tail s @ [rest] else st_tail s);
          held = (if rest \<noteq> [] then st_tail_size s + length rest else st_tail_size s)
      in case drop_oldest (st_tail_limit s) held tail of
           None \<Rightarrow> None
         | Some (held, tail) \<Rightarrow>
             Some (s\<lparr>st_total := st_total s + length data, st_head := head, st_tail := tail,
                     st_tail_size := held\<rparr>))"

text \<open>The reader: how it stands when its calls so far have returned.\<close>

datatype drained =
    Reading stream
  | At_eof stream
  | Capture_failed

fun drain :: "bytes option list \<Rightarrow> stream \<Rightarrow> drained" where
  "drain [] s = Reading s"
| "drain (None # reads) s = Capture_failed"
| "drain (Some data # reads) s =
     (if data = [] then At_eof s
      else case append_data data s of None \<Rightarrow> Capture_failed | Some s \<Rightarrow> drain reads s)"

definition truncation_mark :: bytes where
  "truncation_mark = map (\<lambda>c. of_nat (code c)) ([CHR 0x0A] @ ''[output truncated]'' @ [CHR 0x0A])"

definition stream_bytes :: "stream \<Rightarrow> bytes" where
  "stream_bytes s =
     st_head s @
     (if st_head_limit s + st_tail_limit s < st_total s then truncation_mark else []) @
     concat (st_tail s)"


section \<open>The two streams of a process\<close>

datatype capture_error =
    Value_error string
  | Output_capture_error string

definition new_capture :: "nat \<Rightarrow> capture_error + stream \<times> stream" where
  "new_capture limit =
     (if limit < 2 then Inl (Value_error ''capture limit must be at least two bytes'')
      else Inr (new_stream limit, new_stream limit))"

text \<open>\<open>join\<close>: a thread still reading, or a failed one, leaves the capture unconfirmed.\<close>

definition join_stream :: "drained \<Rightarrow> capture_error + stream" where
  "join_stream r =
     (case r of
        At_eof s \<Rightarrow> Inr s
      | _ \<Rightarrow> Inl (Output_capture_error ''content output capture unconfirmed''))"

text \<open>\<open>finish\<close>; the writers close without error unless \<open>close_fails\<close>.\<close>

definition finish_capture ::
    "(bytes \<Rightarrow> string) \<Rightarrow> bool \<Rightarrow> drained \<Rightarrow> drained \<Rightarrow> capture_error + string" where
  "finish_capture decode close_fails out err =
     bindE (raise_if close_fails (Output_capture_error ''content output capture unconfirmed'')) (\<lambda>_.
     bindE (join_stream out) (\<lambda>out.
     bindE (join_stream err) (\<lambda>err.
     Inr (decode (stream_bytes out) @ [CHR 0x0A] @ decode (stream_bytes err)))))"


section \<open>What a stream holds\<close>

text \<open>The reference: the first half of the limit, and of the rest the last half.\<close>

definition kept_tail :: "nat \<Rightarrow> bytes \<Rightarrow> bytes" where
  "kept_tail limit data = drop (length data - limit) data"

definition holds :: "bytes \<Rightarrow> stream \<Rightarrow> bool" where
  "holds data s \<longleftrightarrow>
     st_total s = length data \<and> st_head s = take (st_head_limit s) data \<and>
     concat (st_tail s) = kept_tail (st_tail_limit s) (drop (st_head_limit s) data) \<and>
     st_tail_size s = length (concat (st_tail s))"

lemma kept_tail_append:
  "kept_tail limit (kept_tail limit xs @ ys) = kept_tail limit (xs @ ys)"
proof (cases "length xs \<le> limit")
  case False
  then have "length xs + length ys - (length xs - limit + limit) + (length xs - limit) =
      length xs + length ys - limit" by simp
  with False show ?thesis by (simp add: kept_tail_def)
qed (simp add: kept_tail_def)

lemma drop_oldest_concat:
  assumes "held = length (concat tail)"
  shows "\<exists>tail'. drop_oldest limit held tail = Some (length (concat tail'), tail') \<and>
    concat tail' = kept_tail limit (concat tail)"
  using assms
proof (induction tail arbitrary: held)
  case Nil
  then show ?case by (simp add: kept_tail_def)
next
  case (Cons first rest)
  consider "held \<le> limit" | "limit < held" "held - limit < length first"
    | "limit < held" "length first \<le> held - limit" by linarith
  then show ?case
  proof cases
    case 1
    with Cons.prems show ?thesis
      by (auto simp: kept_tail_def)
  next
    case 2
    with Cons.prems show ?thesis
      by (auto simp: kept_tail_def Let_def intro!: exI [of _ "drop (held - limit) first # rest"])
  next
    case 3
    then have "kept_tail limit (concat (first # rest)) = kept_tail limit (concat rest)"
      using Cons.prems by (auto simp: kept_tail_def)
    with 3 Cons.IH [of "held - length first"] Cons.prems show ?thesis
      by (auto simp: Let_def)
  qed
qed

lemma append_data_holds:
  assumes "holds old s"
  shows "\<exists>s'. append_data data s = Some s' \<and> holds (old @ data) s' \<and>
    st_head_limit s' = st_head_limit s \<and> st_tail_limit s' = st_tail_limit s"
proof -
  let ?h = "st_head_limit s" and ?t = "st_tail_limit s"
  define needed where "needed = ?h - length (st_head s)"
  define rest where "rest = drop needed data"
  define tail where "tail = (if rest \<noteq> [] then st_tail s @ [rest] else st_tail s)"
  define held where "held = (if rest \<noteq> [] then st_tail_size s + length rest else st_tail_size s)"
  have head: "st_head s @ take needed data = take ?h (old @ data)" and
    dropped: "drop ?h (old @ data) = drop ?h old @ rest"
    using assms by (auto simp: holds_def needed_def rest_def min_def)
  have held: "held = length (concat tail)" and concat: "concat tail = kept_tail ?t (drop ?h old) @ rest"
    using assms by (auto simp: holds_def tail_def held_def)
  obtain tail' where tail': "drop_oldest ?t held tail = Some (length (concat tail'), tail')"
    "concat tail' = kept_tail ?t (concat tail)"
    using drop_oldest_concat [OF held] by blast
  have "kept_tail ?t (concat tail) = kept_tail ?t (drop ?h (old @ data))"
    by (simp only: concat dropped kept_tail_append)
  moreover have "append_data data s = Some (s\<lparr>st_total := st_total s + length data,
      st_head := st_head s @ take needed data, st_tail := tail', st_tail_size := length (concat tail')\<rparr>)"
    using tail'(1) unfolding append_data_def Let_def needed_def rest_def tail_def held_def by auto
  ultimately show ?thesis
    using assms tail'(2) head by (auto simp: holds_def)
qed

lemma drain_holds:
  assumes "holds old s" "[] \<notin> set chunks"
  shows "\<exists>s'. drain (map Some chunks @ [Some []]) s = At_eof s' \<and> holds (old @ concat chunks) s' \<and>
    st_head_limit s' = st_head_limit s \<and> st_tail_limit s' = st_tail_limit s"
  using assms
proof (induction chunks arbitrary: old s)
  case (Cons data chunks)
  from append_data_holds [OF Cons.prems(1), of data]
  obtain s1 where s1: "append_data data s = Some s1" "holds (old @ data) s1"
    "st_head_limit s1 = st_head_limit s" "st_tail_limit s1 = st_tail_limit s" by blast
  from Cons.IH [OF s1(2)] Cons.prems(2) s1 show ?case
    by auto
qed simp

lemma holds_new: "holds [] (new_stream limit)"
  by (simp add: holds_def new_stream_def kept_tail_def)


section \<open>The capture is exact\<close>

text \<open>The reference for a whole stream: everything, or its two ends around the mark.\<close>

definition bounded_copy :: "nat \<Rightarrow> bytes \<Rightarrow> bytes" where
  "bounded_copy limit data =
     (if length data \<le> limit then data
      else take (limit div 2) data @ truncation_mark @
           drop (length data - (limit - limit div 2)) data)"

text \<open>C18. However the output is cut into reads, a stream that reaches the end of file never
  fails, holds at most \<open>limit\<close> bytes of it, and its text is the output itself when that fits,
  and otherwise its first half-limit, the truncation mark, and its last half-limit.\<close>

theorem capture_keeps_both_ends:
  assumes "[] \<notin> set chunks"
  shows "\<exists>s. drain (map Some chunks @ [Some []]) (new_stream limit) = At_eof s \<and>
    length (st_head s) + length (concat (st_tail s)) \<le> limit \<and>
    stream_bytes s = bounded_copy limit (concat chunks)"
proof -
  let ?d = "concat chunks"
  obtain s where s: "drain (map Some chunks @ [Some []]) (new_stream limit) = At_eof s"
    "holds ?d s" "st_head_limit s = limit div 2" "st_tail_limit s = limit - limit div 2"
    using drain_holds [OF holds_new assms, of limit] by (auto simp: new_stream_def)
  have "stream_bytes s = bounded_copy limit ?d"
  proof (cases "length ?d \<le> limit")
    case True
    then have "concat (st_tail s) = drop (limit div 2) ?d"
      using s by (auto simp: holds_def kept_tail_def)
    with True s show ?thesis
      by (simp add: holds_def stream_bytes_def bounded_copy_def)
  next
    case False
    then have "drop (length (drop (limit div 2) ?d) - (limit - limit div 2)) (drop (limit div 2) ?d) =
        drop (length ?d - (limit - limit div 2)) ?d"
      by (simp add: algebra_simps)
    with False s show ?thesis
      by (simp add: holds_def stream_bytes_def bounded_copy_def kept_tail_def)
  qed
  with s show ?thesis
    by (auto simp: holds_def kept_tail_def)
qed

theorem capture_keeps_both_ends_witness:
  "\<exists>s. drain (map Some [[1, 2, 3], [4, 5], [6 :: 8 word]] @ [Some []]) (new_stream 4) = At_eof s \<and>
     stream_bytes s = [1, 2] @ truncation_mark @ [5, 6]"
  using capture_keeps_both_ends [of "[[1, 2, 3], [4, 5], [6]]" 4]
  by (auto simp: bounded_copy_def)

end
