(* ===== verification/Ranking.thy ===== *)
theory Ranking
  imports Broker_Prelude "HOL-Library.Multiset" "HOL-Library.Product_Lexorder"
begin

text \<open>
  What the ranking recipes share: a result per candidate, sorted by a key that ends in the
  AppID; and the validation helpers they repeat.  Python's \<open>list.sort\<close> is stable, as
  \<open>sort_key\<close> is, and its tuples compare lexicographically.
\<close>


section \<open>Rankings\<close>

locale ranking =
  fixes result :: "'c \<Rightarrow> 'r" and key :: "'r \<Rightarrow> 'k::linorder" and ident :: "'c \<Rightarrow> 'i"
  assumes key_ident: "key (result x) = key (result y) \<Longrightarrow> ident x = ident y"
begin

lemma keeps_all: "mset (sort_key key (map result xs)) = image_mset result (mset xs)"
  by simp

lemma in_order: "sorted_wrt (\<lambda>a b. key a \<le> key b) (sort_key key (map result xs))"
  using sorted_sort_key [of key "map result xs"] by (simp add: sorted_wrt_map)

lemma order_irrelevant:
  assumes "distinct (map ident xs)" "mset xs = mset ys"
  shows "sort_key key (map result xs) = sort_key key (map result ys)"
proof (rule sort_key_inj_key_eq)
  show "mset (map result xs) = mset (sort_key key (map result ys))"
    using assms(2) by simp
  have "inj_on ident (set xs)"
    using assms(1) by (simp add: distinct_map)
  then show "inj_on key (set (map result xs))"
    by (auto simp: inj_on_def dest!: key_ident)
qed simp

end


section \<open>Validation\<close>

definition max_bytes :: int where
  "max_bytes = 2 ^ 63 - 1"

definition appid_error :: "int \<Rightarrow> bool" where
  "appid_error a \<longleftrightarrow> \<not> (1 \<le> a \<and> a \<le> 2 ^ 32 - 1)"

text \<open>\<open>str.isprintable\<close> of one character.\<close>

definition printable :: "char \<Rightarrow> bool" where
  "printable c \<longleftrightarrow> (32 \<le> code c \<and> code c \<le> 126) \<or> (161 \<le> code c \<and> code c \<noteq> 173)"

definition name_error :: "string option \<Rightarrow> bool" where
  "name_error n = (case n of None \<Rightarrow> False | Some s \<Rightarrow> 512 < length s \<or> \<not> list_all printable s)"

definition bytes_error :: "int \<Rightarrow> bool" where
  "bytes_error n \<longleftrightarrow> \<not> (0 \<le> n \<and> n \<le> max_bytes)"

datatype evidence_id =
    Id_int int
  | Id_str string

definition evidence_id_error :: "evidence_id \<Rightarrow> bool" where
  "evidence_id_error e = (case e of Id_int n \<Rightarrow> n \<le> 0 | Id_str s \<Rightarrow> s = [] \<or> 128 < length s)"

definition first_error :: "(bool \<times> string) list \<Rightarrow> string + unit" where
  "first_error checks = (case filter fst checks of [] \<Rightarrow> Inr () | (_, msg) # _ \<Rightarrow> Inl msg)"

definition evidence_ids_checks :: "evidence_id list \<Rightarrow> (bool \<times> string) list" where
  "evidence_ids_checks ids =
     [(32 < length ids \<or> \<not> distinct ids, ''evidence IDs must be a bounded unique tuple''),
      (list_ex evidence_id_error ids, ''evidence ID is invalid'')]"

end
