(* ===== verification/Storage_Ranking.thy ===== *)
theory Storage_Ranking
  imports Ranking
begin

text \<open>
  The storage and travel recipes of \<open>src/steam_agent/storage_ranking.py\<close>: gates, eligibility
  and the two rankings.  The \<open>Literal\<close> types are datatypes, so the checks that a value is one
  of the literals have no counterpart; every other \<open>ValueError\<close> is a value.
\<close>


section \<open>Evidence, gates and candidates\<close>

datatype evidence = Is_present | Is_absent | Not_known

datatype freshness = Fresh | Stale | Freshness_unknown

datatype gate_state = Passes | Fails | Uncertain

datatype eligibility = Eligible | Conditional | Excluded

fun freshness_name :: "freshness \<Rightarrow> string" where
  "freshness_name Fresh = ''fresh''"
| "freshness_name Stale = ''stale''"
| "freshness_name Freshness_unknown = ''unknown''"

record ranking_gate =
  gt_name :: string
  gt_state :: gate_state
  gt_reason :: string

definition ranking_gate :: "string \<Rightarrow> gate_state \<Rightarrow> string \<Rightarrow> ranking_gate" where
  "ranking_gate n s r = \<lparr>gt_name = n, gt_state = s, gt_reason = r\<rparr>"

record reclaim_candidate =
  rc_appid :: int
  rc_name :: "string option"
  rc_installed :: evidence
  rc_freshness :: freshness
  rc_size_bytes :: "int option"
  rc_evidence_ids :: "evidence_id list"
  rc_residual :: evidence

definition reclaim_candidate :: "reclaim_candidate \<Rightarrow> string + reclaim_candidate" where
  "reclaim_candidate c =
     bindE (first_error
       ([(appid_error (rc_appid c), ''appid must be a positive uint32''),
         (name_error (rc_name c), ''name must be a bounded printable string or None''),
         (case rc_size_bytes c of None \<Rightarrow> False | Some n \<Rightarrow> bytes_error n,
            ''byte count must be a bounded non-negative integer'')] @
        evidence_ids_checks (rc_evidence_ids c))) (\<lambda>_. Inr c)"

record travel_candidate =
  tc_appid :: int
  tc_name :: "string option"
  tc_ownership :: evidence
  tc_ownership_freshness :: freshness
  tc_installed :: evidence
  tc_installed_freshness :: freshness
  tc_compatibility :: gate_state
  tc_storage_lower :: "int option"
  tc_storage_upper :: "int option"
  tc_preference :: "int option"
  tc_evidence_ids :: "evidence_id list"

definition travel_candidate :: "travel_candidate \<Rightarrow> string + travel_candidate" where
  "travel_candidate c =
     bindE (first_error
       [(appid_error (tc_appid c), ''appid must be a positive uint32''),
        (name_error (tc_name c), ''name must be a bounded printable string or None''),
        ((tc_storage_lower c = None) \<noteq> (tc_storage_upper c = None),
           ''storage interval must be entirely known or unknown'')]) (\<lambda>_.
     bindE (case (tc_storage_lower c, tc_storage_upper c) of
          (Some lo, Some hi) \<Rightarrow> first_error
            [(bytes_error lo \<or> bytes_error hi, ''byte count must be a bounded non-negative integer''),
             (\<not> (0 < lo \<and> lo \<le> hi), ''storage interval is invalid'')]
        | _ \<Rightarrow> Inr ()) (\<lambda>_.
     bindE (first_error
       ((case tc_preference c of None \<Rightarrow> False | Some p \<Rightarrow> \<not> (- 10000 \<le> p \<and> p \<le> 10000),
           ''preference score must be bounded basis points'') #
        evidence_ids_checks (tc_evidence_ids c))) (\<lambda>_. Inr c)))"


section \<open>Gates\<close>

definition presence_gate :: "evidence \<Rightarrow> string \<Rightarrow> ranking_gate" where
  "presence_gate s absent_reason =
     ranking_gate (if absent_reason = ''not_installed'' then ''installed_present'' else ''visible_owned'')
       (case s of Is_present \<Rightarrow> Passes | Is_absent \<Rightarrow> Fails | Not_known \<Rightarrow> Uncertain)
       (case s of
          Is_present \<Rightarrow> ''presence_observed'' | Is_absent \<Rightarrow> absent_reason
        | Not_known \<Rightarrow> ''presence_unknown'')"

definition fresh_presence_gate :: "evidence \<Rightarrow> freshness \<Rightarrow> string \<Rightarrow> ranking_gate" where
  "fresh_presence_gate s f name =
     (case s of
        Is_absent \<Rightarrow> ranking_gate name Fails ''not_visible_owned''
      | Not_known \<Rightarrow> ranking_gate name Uncertain ''ownership_unknown''
      | Is_present \<Rightarrow>
          if f \<noteq> Fresh then ranking_gate name Uncertain (''ownership_'' @ freshness_name f)
          else ranking_gate name Passes ''fresh_visible_owned_presence'')"

definition absence_gate :: "evidence \<Rightarrow> freshness \<Rightarrow> ranking_gate" where
  "absence_gate s f =
     (if f \<noteq> Fresh then ranking_gate ''not_installed'' Uncertain (''installed_snapshot_'' @ freshness_name f)
      else case s of
             Is_present \<Rightarrow> ranking_gate ''not_installed'' Fails ''already_installed''
           | Is_absent \<Rightarrow> ranking_gate ''not_installed'' Passes ''fresh_absence_observed''
           | Not_known \<Rightarrow> ranking_gate ''not_installed'' Uncertain ''installation_unknown'')"

definition storage_fit_gate :: "travel_candidate \<Rightarrow> int \<Rightarrow> ranking_gate" where
  "storage_fit_gate c budget =
     (case (tc_storage_lower c, tc_storage_upper c) of
        (Some lo, Some hi) \<Rightarrow>
          if hi \<le> budget
          then ranking_gate ''declared_minimum_storage_fit'' Passes ''declared_upper_bound_within_budget''
          else if budget < lo
          then ranking_gate ''declared_minimum_storage_fit'' Fails ''declared_lower_bound_exceeds_budget''
          else ranking_gate ''declared_minimum_storage_fit'' Uncertain ''budget_inside_unit_ambiguity_interval''
      | _ \<Rightarrow> ranking_gate ''declared_minimum_storage_fit'' Uncertain ''minimum_storage_not_parsed'')"

definition compatibility_gate :: "gate_state \<Rightarrow> ranking_gate" where
  "compatibility_gate s =
     ranking_gate ''compatibility'' s
       (case s of
          Passes \<Rightarrow> ''compatible_for_selected_target''
        | Fails \<Rightarrow> ''known_incompatible_for_selected_target''
        | Uncertain \<Rightarrow> ''compatibility_not_established'')"

definition eligibility_of :: "ranking_gate list \<Rightarrow> eligibility" where
  "eligibility_of gates =
     (if list_ex (\<lambda>g. gt_state g = Fails) gates then Excluded
      else if list_ex (\<lambda>g. gt_state g = Uncertain) gates then Conditional
      else Eligible)"


section \<open>Reclaiming space\<close>

record reclaim_result =
  rr_appid :: int
  rr_name :: "string option"
  rr_eligibility :: eligibility
  rr_gates :: "ranking_gate list"
  rr_reclaim_bytes :: "int option"
  rr_meets_target_alone :: "bool option"
  rr_target_fraction_bps :: "int option"
  rr_freshness :: freshness
  rr_evidence_ids :: "evidence_id list"

definition reclaim_gates :: "reclaim_candidate \<Rightarrow> ranking_gate list" where
  "reclaim_gates c =
     [presence_gate (rc_installed c) ''not_installed'',
      ranking_gate ''installed_observation_fresh'' (if rc_freshness c = Fresh then Passes else Uncertain)
        (''observation_'' @ freshness_name (rc_freshness c)),
      ranking_gate ''reclaim_size_known'' (if rc_size_bytes c \<noteq> None then Passes else Uncertain)
        (if rc_size_bytes c \<noteq> None then ''manifest_size_known'' else ''size_not_observed'')]"

definition residual_gates :: "reclaim_candidate \<Rightarrow> ranking_gate list" where
  "residual_gates c =
     (if rc_residual c = Is_present
      then [ranking_gate ''residual_content'' Passes ''residual_content_present''] else [])"

definition reclaim_result :: "int \<Rightarrow> reclaim_candidate \<Rightarrow> reclaim_result" where
  "reclaim_result target c =
     \<lparr>rr_appid = rc_appid c, rr_name = rc_name c,
      rr_eligibility = eligibility_of (reclaim_gates c),
      rr_gates = reclaim_gates c @ residual_gates c,
      rr_reclaim_bytes = rc_size_bytes c,
      rr_meets_target_alone = map_option (\<lambda>n. target \<le> n) (rc_size_bytes c),
      rr_target_fraction_bps = map_option (\<lambda>n. (n * 10000) div target) (rc_size_bytes c),
      rr_freshness = rc_freshness c, rr_evidence_ids = rc_evidence_ids c\<rparr>"

fun eligibility_rank :: "eligibility \<Rightarrow> nat" where
  "eligibility_rank Eligible = 0"
| "eligibility_rank Conditional = 1"
| "eligibility_rank Excluded = 2"

definition reclaim_key :: "reclaim_result \<Rightarrow> nat \<times> bool \<times> int \<times> int" where
  "reclaim_key r =
     (eligibility_rank (rr_eligibility r), rr_reclaim_bytes r = None,
      - (case rr_reclaim_bytes r of None \<Rightarrow> 0 | Some n \<Rightarrow> n), rr_appid r)"

definition max_candidates :: nat where
  "max_candidates = 10000"

definition candidates_error :: "int list \<Rightarrow> string + unit" where
  "candidates_error appids =
     first_error
       [(max_candidates < length appids, ''candidates must be a bounded tuple''),
        (\<not> distinct appids, ''candidate AppIDs must be unique'')]"

definition positive_bytes_error :: "int \<Rightarrow> string \<Rightarrow> string + unit" where
  "positive_bytes_error n name =
     first_error
       [(bytes_error n, ''byte count must be a bounded non-negative integer''),
        (n = 0, name @ '' must be positive'')]"

definition rank_reclaim_space :: "reclaim_candidate list \<Rightarrow> int \<Rightarrow> string + reclaim_result list" where
  "rank_reclaim_space candidates target =
     bindE (candidates_error (map rc_appid candidates)) (\<lambda>_.
     bindE (positive_bytes_error target ''target_bytes'') (\<lambda>_.
     Inr (sort_key reclaim_key (map (reclaim_result target) candidates))))"


section \<open>Travel installs\<close>

record travel_result =
  tr_appid :: int
  tr_name :: "string option"
  tr_eligibility :: eligibility
  tr_gates :: "ranking_gate list"
  tr_storage_lower :: "int option"
  tr_storage_upper :: "int option"
  tr_preference :: "int option"
  tr_evidence_ids :: "evidence_id list"

definition travel_gates :: "int \<Rightarrow> travel_candidate \<Rightarrow> ranking_gate list" where
  "travel_gates budget c =
     [fresh_presence_gate (tc_ownership c) (tc_ownership_freshness c) ''visible_owned'',
      absence_gate (tc_installed c) (tc_installed_freshness c),
      compatibility_gate (tc_compatibility c),
      storage_fit_gate c budget]"

definition travel_result :: "int \<Rightarrow> travel_candidate \<Rightarrow> travel_result" where
  "travel_result budget c =
     \<lparr>tr_appid = tc_appid c, tr_name = tc_name c,
      tr_eligibility =
        (if list_ex (\<lambda>g. gt_state g = Fails) (travel_gates budget c) then Excluded else Conditional),
      tr_gates = travel_gates budget c,
      tr_storage_lower = tc_storage_lower c, tr_storage_upper = tc_storage_upper c,
      tr_preference = tc_preference c, tr_evidence_ids = tc_evidence_ids c\<rparr>"

fun state_rank :: "gate_state \<Rightarrow> nat" where
  "state_rank Passes = 0"
| "state_rank Uncertain = 1"
| "state_rank Fails = 2"

fun travel_rank :: "eligibility \<Rightarrow> nat" where
  "travel_rank Conditional = 0"
| "travel_rank Excluded = 1"
| "travel_rank Eligible = 0"

definition travel_key ::
    "travel_result \<Rightarrow> nat \<times> nat \<times> nat \<times> nat \<times> nat \<times> int \<times> bool \<times> int \<times> int" where
  "travel_key r =
     (travel_rank (tr_eligibility r), state_rank (gt_state (tr_gates r ! 0)),
      state_rank (gt_state (tr_gates r ! 1)), state_rank (gt_state (tr_gates r ! 2)),
      state_rank (gt_state (tr_gates r ! 3)),
      - (case tr_preference r of None \<Rightarrow> 0 | Some n \<Rightarrow> n), tr_storage_upper r = None,
      (case tr_storage_upper r of None \<Rightarrow> 0 | Some n \<Rightarrow> n), tr_appid r)"

definition rank_travel_install :: "travel_candidate list \<Rightarrow> int \<Rightarrow> string + travel_result list" where
  "rank_travel_install candidates budget =
     bindE (candidates_error (map tc_appid candidates)) (\<lambda>_.
     bindE (positive_bytes_error budget ''budget_bytes'') (\<lambda>_.
     Inr (sort_key travel_key (map (travel_result budget) candidates))))"


section \<open>The shared contract\<close>

interpretation reclaim: ranking "reclaim_result target" reclaim_key rc_appid for target
  by unfold_locales (simp add: reclaim_key_def reclaim_result_def)

interpretation travel: ranking "travel_result budget" travel_key tc_appid for budget
  by unfold_locales (simp add: travel_key_def travel_result_def)

lemma first_error_Inr: "first_error checks = Inr u \<longleftrightarrow> (\<forall>(bad, msg) \<in> set checks. \<not> bad)"
  by (induction checks) (auto simp: first_error_def split: list.splits prod.splits)

lemma rank_reclaim_Inr:
  "rank_reclaim_space cs target = Inr rs \<longleftrightarrow>
     length cs \<le> max_candidates \<and> distinct (map rc_appid cs) \<and> 0 < target \<and> target \<le> max_bytes \<and>
     rs = sort_key reclaim_key (map (reclaim_result target) cs)"
  by (auto simp: rank_reclaim_space_def bindE_eq_Inr candidates_error_def positive_bytes_error_def
      first_error_Inr bytes_error_def)

lemma rank_travel_Inr:
  "rank_travel_install cs budget = Inr rs \<longleftrightarrow>
     length cs \<le> max_candidates \<and> distinct (map tc_appid cs) \<and> 0 < budget \<and> budget \<le> max_bytes \<and>
     rs = sort_key travel_key (map (travel_result budget) cs)"
  by (auto simp: rank_travel_install_def bindE_eq_Inr candidates_error_def positive_bytes_error_def
      first_error_Inr bytes_error_def)


section \<open>Properties\<close>

text \<open>What each eligibility means, read off the evidence.\<close>

definition reclaim_meaning :: "reclaim_candidate \<Rightarrow> eligibility" where
  "reclaim_meaning c =
     (if rc_installed c = Is_absent then Excluded
      else if rc_installed c = Is_present \<and> rc_freshness c = Fresh \<and> rc_size_bytes c \<noteq> None
      then Eligible else Conditional)"

lemma eligibility_reclaim_gates: "eligibility_of (reclaim_gates c) = reclaim_meaning c"
  by (cases "rc_installed c")
     (auto simp: eligibility_of_def reclaim_gates_def reclaim_meaning_def presence_gate_def ranking_gate_def)

definition travel_excluded :: "int \<Rightarrow> travel_candidate \<Rightarrow> bool" where
  "travel_excluded budget c \<longleftrightarrow>
     tc_ownership c = Is_absent \<or> (tc_installed_freshness c = Fresh \<and> tc_installed c = Is_present) \<or>
     tc_compatibility c = Fails \<or>
     (case (tc_storage_lower c, tc_storage_upper c) of
        (Some lo, Some hi) \<Rightarrow> budget < lo \<and> budget < hi | _ \<Rightarrow> False)"

lemma travel_gates_fail:
  "list_ex (\<lambda>g. gt_state g = Fails) (travel_gates budget c) \<longleftrightarrow> travel_excluded budget c"
  by (auto simp: travel_gates_def travel_excluded_def fresh_presence_gate_def absence_gate_def
      compatibility_gate_def storage_fit_gate_def ranking_gate_def split: evidence.split option.split)

text \<open>The order the reclaim ranking promises between two of its results.\<close>

definition reclaim_before :: "reclaim_result \<Rightarrow> reclaim_result \<Rightarrow> bool" where
  "reclaim_before a b \<longleftrightarrow>
     eligibility_rank (rr_eligibility a) < eligibility_rank (rr_eligibility b) \<or>
     rr_eligibility a = rr_eligibility b \<and>
       (case (rr_reclaim_bytes a, rr_reclaim_bytes b) of
          (Some m, Some n) \<Rightarrow> n < m \<or> m = n \<and> rr_appid a \<le> rr_appid b
        | (Some m, None) \<Rightarrow> True
        | (None, Some n) \<Rightarrow> False
        | (None, None) \<Rightarrow> rr_appid a \<le> rr_appid b)"

lemma eligibility_rank_inject [simp]: "eligibility_rank a = eligibility_rank b \<longleftrightarrow> a = b"
  by (cases a; cases b) simp_all

lemma eligibility_rank_le:
  "eligibility_rank a \<le> eligibility_rank b \<longleftrightarrow> eligibility_rank a < eligibility_rank b \<or> a = b"
  by (cases a; cases b) simp_all

lemma reclaim_key_before: "reclaim_key a \<le> reclaim_key b \<longleftrightarrow> reclaim_before a b"
  by (auto simp: reclaim_key_def reclaim_before_def less_eq_prod_def eligibility_rank_le
      split: option.split)

text \<open>C19. A reclaim ranking keeps every candidate once; its order is eligible before conditional
  before excluded, then known sizes before unknown, larger before smaller, and AppID; the
  eligibility is what the evidence means (only a fresh, present, measured title is eligible, only
  an absent one excluded, and residual content never counts); and the order in which the
  candidates came does not matter.\<close>

theorem reclaim_ranking_exact:
  assumes "rank_reclaim_space candidates target = Inr results"
  shows "mset results = mset (map (reclaim_result target) candidates) \<and>
    sorted_wrt reclaim_before results \<and>
    (\<forall>c \<in> set candidates. rr_eligibility (reclaim_result target c) = reclaim_meaning c) \<and>
    (\<forall>shuffled. mset shuffled = mset candidates \<longrightarrow>
       rank_reclaim_space shuffled target = Inr results)"
proof -
  have rs: "results = sort_key reclaim_key (map (reclaim_result target) candidates)"
    and ok: "length candidates \<le> max_candidates" "distinct (map rc_appid candidates)" "0 < target" "target \<le> max_bytes"
    using assms by (simp_all add: rank_reclaim_Inr)
  have "rank_reclaim_space shuffled target = Inr results" if "mset shuffled = mset candidates" for shuffled
  proof -
    have "mset (map rc_appid shuffled) = mset (map rc_appid candidates)"
      using that by simp
    then have "distinct (map rc_appid shuffled)" "length shuffled = length candidates"
      using ok(2) mset_eq_imp_distinct_iff mset_eq_length [OF that] by blast+
    with ok reclaim.order_irrelevant [OF ok(2), of shuffled target] that show ?thesis
      by (simp add: rank_reclaim_Inr rs)
  qed
  moreover have "sorted_wrt reclaim_before results"
    using reclaim.in_order [of target candidates] by (simp add: rs reclaim_key_before)
  ultimately show ?thesis
    by (simp add: rs reclaim_result_def eligibility_reclaim_gates)
qed

definition demo_titles :: "reclaim_candidate list" where
  "demo_titles = map (\<lambda>(a, p, n). \<lparr>rc_appid = a, rc_name = None, rc_installed = p, rc_freshness = Fresh,
     rc_size_bytes = n, rc_evidence_ids = [Id_int 1], rc_residual = Is_present\<rparr>)
     [(10, Is_present, Some 5), (20, Is_absent, None), (30, Is_present, Some 700)]"

theorem reclaim_ranking_exact_witness:
  "\<exists>rs. rank_reclaim_space demo_titles 100 = Inr rs \<and> map rr_appid rs = [30, 10, 20] \<and>
     sorted_wrt reclaim_before rs \<and> rank_reclaim_space (rev demo_titles) 100 = Inr rs"
proof -
  have "map_sum id (map rr_appid) (rank_reclaim_space demo_titles 100) = Inr [30, 10, 20]"
    by code_simp
  then obtain rs where rs: "rank_reclaim_space demo_titles 100 = Inr rs" "map rr_appid rs = [30, 10, 20]"
    by (cases "rank_reclaim_space demo_titles 100") auto
  with reclaim_ranking_exact [OF rs(1)] show ?thesis by simp
qed

text \<open>A travel ranking keeps every candidate once and never calls one eligible; a candidate
  is excluded exactly when some evidence rules it out (not owned, freshly seen installed,
  incompatible, or a declared minimum above the budget), and excluded ones come last; and the
  order in which the candidates came does not matter.\<close>

theorem travel_ranking_exact:
  assumes "rank_travel_install candidates budget = Inr results"
  shows "mset results = mset (map (travel_result budget) candidates) \<and>
    (\<forall>c \<in> set candidates. tr_eligibility (travel_result budget c) =
       (if travel_excluded budget c then Excluded else Conditional)) \<and>
    sorted_wrt (\<lambda>a b. tr_eligibility a = Excluded \<longrightarrow> tr_eligibility b = Excluded) results \<and>
    (\<forall>shuffled. mset shuffled = mset candidates \<longrightarrow>
       rank_travel_install shuffled budget = Inr results)"
proof -
  have rs: "results = sort_key travel_key (map (travel_result budget) candidates)"
    and ok: "length candidates \<le> max_candidates" "distinct (map tc_appid candidates)" "0 < budget" "budget \<le> max_bytes"
    using assms by (simp_all add: rank_travel_Inr)
  have "rank_travel_install shuffled budget = Inr results" if "mset shuffled = mset candidates" for shuffled
  proof -
    have "mset (map tc_appid shuffled) = mset (map tc_appid candidates)"
      using that by simp
    then have "distinct (map tc_appid shuffled)" "length shuffled = length candidates"
      using ok(2) mset_eq_imp_distinct_iff mset_eq_length [OF that] by blast+
    with ok travel.order_irrelevant [OF ok(2), of shuffled budget] that show ?thesis
      by (simp add: rank_travel_Inr rs)
  qed
  moreover have "sorted_wrt (\<lambda>a b. tr_eligibility a = Excluded \<longrightarrow> tr_eligibility b = Excluded) results"
  proof (rule sorted_wrt_mono_rel [rotated])
    show "sorted_wrt (\<lambda>a b. travel_key a \<le> travel_key b) results"
      using travel.in_order [of budget candidates] by (simp add: rs)
  next
    fix a b
    assume in_results: "a \<in> set results" "b \<in> set results" and le: "travel_key a \<le> travel_key b"
    then have "tr_eligibility b \<noteq> Eligible"
      by (auto simp: rs travel_result_def split: if_splits)
    with le show "tr_eligibility a = Excluded \<longrightarrow> tr_eligibility b = Excluded"
      by (cases "tr_eligibility b") (auto simp: travel_key_def less_eq_prod_def)
  qed
  ultimately show ?thesis
    by (simp add: rs travel_result_def travel_gates_fail)
qed

definition demo_trips :: "travel_candidate list" where
  "demo_trips = map (\<lambda>(a, p, n). \<lparr>tc_appid = a, tc_name = None, tc_ownership = p,
     tc_ownership_freshness = Fresh, tc_installed = Is_absent, tc_installed_freshness = Fresh,
     tc_compatibility = Passes, tc_storage_lower = Some n, tc_storage_upper = Some n,
     tc_preference = None, tc_evidence_ids = []\<rparr>)
     [(10, Is_absent, 5), (20, Is_present, 50), (30, Is_present, 7)]"

theorem travel_ranking_exact_witness:
  "\<exists>rs. rank_travel_install demo_trips 20 = Inr rs \<and> map tr_appid rs = [30, 20, 10] \<and>
     rank_travel_install (rev demo_trips) 20 = Inr rs"
proof -
  have "map_sum id (map tr_appid) (rank_travel_install demo_trips 20) = Inr [30, 20, 10]"
    by code_simp
  then obtain rs where rs: "rank_travel_install demo_trips 20 = Inr rs" "map tr_appid rs = [30, 20, 10]"
    by (cases "rank_travel_install demo_trips 20") auto
  with travel_ranking_exact [OF rs(1)] show ?thesis by simp
qed

end
