(* ===== verification/Deal_Ranking.thy ===== *)
theory Deal_Ranking
  imports Ranking
begin

text \<open>
  The deal evidence records of \<open>src/steam_agent/deal_evidence.py\<close> and the comparison and
  ranking of \<open>src/steam_agent/deal_ranking.py\<close>.  Amounts are Python integers in minor units.
\<close>


section \<open>Evidence\<close>

datatype comparability = Exact_product | Normalized_game | Not_comparable

datatype store_class = Official | Keyshop | Unknown_store

record product_identity =
  pi_provider_product_id :: string
  pi_steam_appid :: int
  pi_mapping :: string

record money =
  mo_amount :: int
  mo_currency :: string
  mo_country :: string

definition upper_letters :: "string \<Rightarrow> bool" where
  "upper_letters s \<longleftrightarrow> s \<noteq> [] \<and> list_all (\<lambda>c. 65 \<le> code c \<and> code c \<le> 90) s"

definition max_signed_64 :: int where
  "max_signed_64 = 2 ^ 63 - 1"

datatype deal_error =
    Value_error string
  | Key_error string

definition checked :: "(bool \<times> string) list \<Rightarrow> deal_error + unit" where
  "checked checks = map_sum Value_error id (first_error checks)"

definition product_checks :: "product_identity \<Rightarrow> deal_error + unit" where
  "product_checks p = checked
     [(appid_error (pi_steam_appid p), ''steam_appid must be an unsigned 32-bit integer''),
      (pi_provider_product_id p = [], ''provider_product_id must not be empty'')]"

definition money_checks :: "money \<Rightarrow> deal_error + unit" where
  "money_checks m = checked
     [(mo_amount m < 0 \<or> max_signed_64 < mo_amount m,
         ''amount_minor must be a non-negative 64-bit integer''),
      (length (mo_currency m) \<noteq> 3 \<or> \<not> upper_letters (mo_currency m),
         ''currency must be an uppercase ISO-style code''),
      (length (mo_country m) \<noteq> 2 \<or> \<not> upper_letters (mo_country m),
         ''country must be an uppercase country code'')]"

record offer =
  of_provider :: string
  of_product :: product_identity
  of_price :: money
  of_regular :: "money option"
  of_store_class :: store_class
  of_observed_at :: string
  of_comparability :: comparability

record low =
  lo_provider :: string
  lo_product :: product_identity
  lo_price :: money
  lo_observed_at :: string
  lo_scope :: string
  lo_comparability :: comparability

record snapshot =
  sn_provider :: string
  sn_product :: product_identity
  sn_offers :: "offer list"
  sn_lows :: "low list"

datatype attempt_status = Ready | Not_found | Attempt_failed | Unavailable

record attempt =
  at_provider :: string
  at_rung :: int
  at_status :: attempt_status
  at_error :: "string option"

definition attempt_checks :: "attempt \<Rightarrow> deal_error + unit" where
  "attempt_checks a = checked
     [(at_provider a = [] \<or> 128 < length (at_provider a), ''provider must be between 1 and 128 characters''),
      (\<not> (0 \<le> at_rung a \<and> at_rung a \<le> max_signed_64), ''fallback_rung must be a non-negative integer''),
      (case at_error a of None \<Rightarrow> False | Some e \<Rightarrow> 128 < length e, ''error_code must not exceed 128 characters''),
      (at_status a = Ready \<and> at_error a \<noteq> None, ''a ready provider attempt cannot have an error''),
      (at_status a \<in> {Attempt_failed, Unavailable} \<and> (at_error a = None \<or> at_error a = Some []),
         ''failed provider attempts require an error code'')]"

record candidate =
  ca_appid :: int
  ca_snapshots :: "snapshot list"
  ca_attempts :: "attempt list"

fun snapshot_checks :: "int \<Rightarrow> string list \<Rightarrow> snapshot list \<Rightarrow> deal_error + unit" where
  "snapshot_checks appid attempted [] = Inr ()"
| "snapshot_checks appid attempted (s # ss) =
     (if sn_provider s \<notin> set attempted
      then Inl (Value_error ''every snapshot provider must have attempt metadata'')
      else if pi_steam_appid (sn_product s) \<noteq> appid
      then Inl (Value_error ''snapshot product does not match candidate AppID'')
      else snapshot_checks appid attempted ss)"

definition candidate_checks :: "candidate \<Rightarrow> deal_error + unit" where
  "candidate_checks c =
     bindE (checked
       [(appid_error (ca_appid c), ''steam_appid must be an unsigned 32-bit integer''),
        (\<not> distinct (map at_provider (ca_attempts c)), ''provider attempts must be unique'')]) (\<lambda>_.
     snapshot_checks (ca_appid c) (map at_provider (ca_attempts c)) (ca_snapshots c))"

record deal_context =
  cx_country :: string
  cx_currency :: string
  cx_store_class :: store_class
  cx_history_scope :: string

definition context_checks :: "deal_context \<Rightarrow> deal_error + unit" where
  "context_checks cx =
     bindE (money_checks \<lparr>mo_amount = 0, mo_currency = cx_currency cx, mo_country = cx_country cx\<rparr>) (\<lambda>_.
     checked [(cx_history_scope cx = [] \<or> 128 < length (cx_history_scope cx),
       ''history_scope must be between 1 and 128 characters'')])"


section \<open>Comparable evidence\<close>

definition product_matches :: "int \<Rightarrow> product_identity \<Rightarrow> bool" where
  "product_matches appid p \<longleftrightarrow> pi_mapping p = ''exact'' \<and> pi_steam_appid p = appid"

definition money_matches :: "money \<Rightarrow> deal_context \<Rightarrow> bool" where
  "money_matches m cx \<longleftrightarrow> mo_country m = cx_country cx \<and> mo_currency m = cx_currency cx"

definition scope_matches :: "string \<Rightarrow> store_class \<Rightarrow> bool" where
  "scope_matches scope sc \<longleftrightarrow>
     (sc, scope) \<in> {(Official, ''all_time_official_stores''), (Keyshop, ''all_time_keyshops''),
       (Unknown_store, ''all_time_any_store'')}"

definition comparable :: "int \<Rightarrow> deal_context \<Rightarrow> comparability \<Rightarrow> offer \<Rightarrow> low \<Rightarrow> bool" where
  "comparable appid cx expected offer low \<longleftrightarrow>
     of_provider offer = lo_provider low \<and>
     of_comparability offer = expected \<and> lo_comparability low = expected \<and>
     product_matches appid (of_product offer) \<and> product_matches appid (lo_product low) \<and>
     pi_provider_product_id (of_product offer) = pi_provider_product_id (lo_product low) \<and>
     money_matches (of_price offer) cx \<and> money_matches (lo_price low) cx \<and>
     of_store_class offer = cx_store_class cx \<and> lo_scope low = cx_history_scope cx \<and>
     scope_matches (lo_scope low) (of_store_class offer)"

definition pairs :: "int \<Rightarrow> offer list \<Rightarrow> low list \<Rightarrow> deal_context \<Rightarrow> bool \<Rightarrow> (offer \<times> low) list" where
  "pairs appid offers lows cx exact =
     filter (\<lambda>(offer, low). comparable appid cx (if exact then Exact_product else Normalized_game) offer low)
       (List.product offers lows)"

definition pair_choice_key :: "offer \<times> low \<Rightarrow> int \<times> int \<times> string \<times> string" where
  "pair_choice_key = (\<lambda>(offer, low).
     (mo_amount (of_price offer), mo_amount (lo_price low), of_provider offer, of_observed_at offer))"

fun comparability_rank :: "comparability \<Rightarrow> nat" where
  "comparability_rank Exact_product = 0"
| "comparability_rank Normalized_game = 1"
| "comparability_rank Not_comparable = 2"

definition offer_choice_key :: "offer \<Rightarrow> nat \<times> int \<times> string \<times> string" where
  "offer_choice_key offer =
     (comparability_rank (of_comparability offer), mo_amount (of_price offer), of_provider offer,
      of_observed_at offer)"

text \<open>\<open>min\<close> with a key and a default: the first of the least.\<close>

definition first_min :: "('a \<Rightarrow> 'k::linorder) \<Rightarrow> 'a list \<Rightarrow> 'a option" where
  "first_min key xs = (case sort_key key xs of [] \<Rightarrow> None | x # _ \<Rightarrow> Some x)"

definition current_eligible :: "int \<Rightarrow> deal_context \<Rightarrow> offer \<Rightarrow> bool" where
  "current_eligible appid cx offer \<longleftrightarrow>
     product_matches appid (of_product offer) \<and> money_matches (of_price offer) cx \<and>
     of_store_class offer = cx_store_class cx"

definition best_current :: "int \<Rightarrow> offer list \<Rightarrow> deal_context \<Rightarrow> offer option" where
  "best_current appid offers cx = first_min offer_choice_key (filter (current_eligible appid cx) offers)"


section \<open>Amounts\<close>

definition discount_bps :: "offer \<Rightarrow> int option" where
  "discount_bps offer =
     (case of_regular offer of
        None \<Rightarrow> None
      | Some regular \<Rightarrow>
          if mo_currency regular \<noteq> mo_currency (of_price offer) \<or>
             mo_country regular \<noteq> mo_country (of_price offer) then None
          else if mo_amount regular = 0
          then (if mo_amount (of_price offer) = 0 then Some 0 else None)
          else if mo_amount regular \<le> mo_amount (of_price offer) then Some 0
          else Some (((mo_amount regular - mo_amount (of_price offer)) * 10000) div mo_amount regular))"

definition distance_above_low :: "money \<Rightarrow> money \<Rightarrow> int option" where
  "distance_above_low current low =
     (if mo_amount current \<le> mo_amount low then Some 0
      else if mo_amount low = 0 then None
      else Some (min (((mo_amount current - mo_amount low) * 10000) div mo_amount low) max_signed_64))"

definition within_five_percent :: "money \<Rightarrow> money \<Rightarrow> bool" where
  "within_five_percent current low \<longleftrightarrow>
     (if mo_amount low = 0 then mo_amount current = 0
      else mo_amount current * 10000 \<le> mo_amount low * 10500)"


section \<open>One candidate\<close>

datatype grade = Grade_exact | Grade_normalized | Grade_degraded | Grade_unknown

datatype bucket = At_or_below_low | Within_5_percent | Discounted | Current_only | Noncomparable | Bucket_unknown

record ranked =
  rk_appid :: int
  rk_bucket :: bucket
  rk_grade :: grade
  rk_offer :: "offer option"
  rk_low :: "low option"
  rk_discount_bps :: "int option"
  rk_distance_bps :: "int option"
  rk_reasons :: "string list"
  rk_tradeoffs :: "string list"
  rk_fallback_rung :: "int option"
  rk_attempts :: "attempt list"
  rk_used :: "string list"

definition all_offers :: "candidate \<Rightarrow> offer list" where
  "all_offers c = concat (map sn_offers (ca_snapshots c))"

definition all_lows :: "candidate \<Rightarrow> low list" where
  "all_lows c = concat (map sn_lows (ca_snapshots c))"

definition chosen :: "deal_context \<Rightarrow> candidate \<Rightarrow> offer option \<times> low option \<times> grade" where
  "chosen cx c =
     (let offers = all_offers c; lows = all_lows c in
      case first_min pair_choice_key (pairs (ca_appid c) offers lows cx True) of
        Some (offer, low) \<Rightarrow> (Some offer, Some low, Grade_exact)
      | None \<Rightarrow>
          (case first_min pair_choice_key (pairs (ca_appid c) offers lows cx False) of
             Some (offer, low) \<Rightarrow> (Some offer, Some low, Grade_normalized)
           | None \<Rightarrow>
               (case best_current (ca_appid c) offers cx of
                  None \<Rightarrow> (None, None,
                    if offers \<noteq> [] \<or> lows \<noteq> [] then Grade_degraded else Grade_unknown)
                | Some offer \<Rightarrow> (Some offer, None,
                    case of_comparability offer of
                      Exact_product \<Rightarrow> Grade_exact
                    | Normalized_game \<Rightarrow> Grade_normalized
                    | Not_comparable \<Rightarrow> Grade_degraded))))"

definition bucket_of :: "offer option \<Rightarrow> low option \<Rightarrow> bool \<Rightarrow> bucket \<times> string" where
  "bucket_of offer low evidence =
     (case offer of
        None \<Rightarrow>
          if evidence
          then (Noncomparable, ''available_evidence_does_not_match_requested_dimensions'')
          else (Bucket_unknown, ''no_current_or_historical_evidence'')
      | Some o1 \<Rightarrow>
          if (case low of None \<Rightarrow> False | Some l \<Rightarrow> mo_amount (of_price o1) \<le> mo_amount (lo_price l))
          then (At_or_below_low, ''current_price_is_at_or_below_supported_low'')
          else if (case low of None \<Rightarrow> False | Some l \<Rightarrow> within_five_percent (of_price o1) (lo_price l))
          then (Within_5_percent, ''current_price_is_within_5_percent_of_supported_low'')
          else if (case discount_bps o1 of None \<Rightarrow> False | Some d \<Rightarrow> 0 < d)
          then (Discounted, ''current_price_is_below_comparable_regular_price'')
          else (Current_only, ''current_price_has_no_stronger_comparable_signal''))"

definition tradeoffs_of :: "grade \<Rightarrow> offer option \<Rightarrow> low option \<Rightarrow> string list" where
  "tradeoffs_of g offer low =
     (case g of
        Grade_exact \<Rightarrow> []
      | Grade_normalized \<Rightarrow> [''product_or_offer_evidence_is_game_level_normalized'']
      | Grade_degraded \<Rightarrow> [''requested_comparison_dimensions_are_not_fully_supported'']
      | Grade_unknown \<Rightarrow> [''no_provider_evidence_was_available'']) @
     (case (offer, low) of
        (Some o1, Some l) \<Rightarrow>
          if mo_amount (lo_price l) = 0 \<and> 0 < mo_amount (of_price o1)
          then [''historical_low_was_free_so_relative_distance_is_undefined''] else []
      | _ \<Rightarrow> [])"

definition used_providers :: "offer option \<Rightarrow> low option \<Rightarrow> string list" where
  "used_providers offer low =
     sort (remdups ((case offer of None \<Rightarrow> [] | Some o1 \<Rightarrow> [of_provider o1]) @
       (case low of None \<Rightarrow> [] | Some l \<Rightarrow> [lo_provider l])))"

definition sorted_attempts :: "candidate \<Rightarrow> attempt list" where
  "sorted_attempts c = sort_key (\<lambda>a. (at_rung a, at_provider a)) (ca_attempts c)"

text \<open>The dictionary lookup of a provider that was never attempted raises.\<close>

fun rungs :: "attempt list \<Rightarrow> string list \<Rightarrow> deal_error + int list" where
  "rungs attempts [] = Inr []"
| "rungs attempts (name # names) =
     (case find (\<lambda>a. at_provider a = name) attempts of
        None \<Rightarrow> Inl (Key_error name)
      | Some a \<Rightarrow> map_sum id (\<lambda>rs. at_rung a # rs) (rungs attempts names))"

definition fallback_rung :: "deal_context \<Rightarrow> candidate \<Rightarrow> deal_error + int option" where
  "fallback_rung cx c =
     (case chosen cx c of (offer, low, g) \<Rightarrow>
        map_sum id (first_min (\<lambda>r. r)) (rungs (sorted_attempts c) (used_providers offer low)))"

definition ranked_candidate :: "deal_context \<Rightarrow> int option \<Rightarrow> candidate \<Rightarrow> ranked" where
  "ranked_candidate cx rung c =
     (case chosen cx c of (offer, low, g) \<Rightarrow>
        let (bucket, reason) = bucket_of offer low (all_offers c \<noteq> [] \<or> all_lows c \<noteq> []) in
        \<lparr>rk_appid = ca_appid c, rk_bucket = bucket, rk_grade = g, rk_offer = offer, rk_low = low,
         rk_discount_bps = (case offer of None \<Rightarrow> None | Some o1 \<Rightarrow> discount_bps o1),
         rk_distance_bps =
           (case (offer, low) of
              (Some o1, Some l) \<Rightarrow> distance_above_low (of_price o1) (lo_price l) | _ \<Rightarrow> None),
         rk_reasons = reason #
           (case offer of
              None \<Rightarrow> []
            | Some o1 \<Rightarrow> if mo_amount (of_price o1) = 0 then [''current_price_is_explicitly_free''] else []),
         rk_tradeoffs = tradeoffs_of g offer low,
         rk_fallback_rung = rung, rk_attempts = sorted_attempts c,
         rk_used = used_providers offer low\<rparr>)"

definition rank_candidate :: "deal_context \<Rightarrow> candidate \<Rightarrow> deal_error + ranked" where
  "rank_candidate cx c = map_sum id (\<lambda>rung. ranked_candidate cx rung c) (fallback_rung cx c)"


section \<open>The ranking\<close>

fun grade_rank :: "grade \<Rightarrow> nat" where
  "grade_rank Grade_exact = 0"
| "grade_rank Grade_normalized = 1"
| "grade_rank Grade_degraded = 2"
| "grade_rank Grade_unknown = 3"

fun bucket_rank :: "bucket \<Rightarrow> nat" where
  "bucket_rank At_or_below_low = 0"
| "bucket_rank Within_5_percent = 1"
| "bucket_rank Discounted = 2"
| "bucket_rank Current_only = 3"
| "bucket_rank Noncomparable = 4"
| "bucket_rank Bucket_unknown = 5"

definition deal_key :: "ranked \<Rightarrow> nat \<times> nat \<times> int \<times> int \<times> int" where
  "deal_key r =
     (grade_rank (rk_grade r), bucket_rank (rk_bucket r),
      - (case rk_discount_bps r of None \<Rightarrow> - 1 | Some d \<Rightarrow> d),
      (case rk_distance_bps r of None \<Rightarrow> max_signed_64 | Some d \<Rightarrow> d), rk_appid r)"

fun rank_each :: "deal_context \<Rightarrow> candidate list \<Rightarrow> deal_error + ranked list" where
  "rank_each cx [] = Inr []"
| "rank_each cx (c # cs) =
     bindE (rank_candidate cx c) (\<lambda>r. map_sum id (\<lambda>rs. r # rs) (rank_each cx cs))"

definition rank_deals :: "candidate list \<Rightarrow> deal_context \<Rightarrow> deal_error + ranked list" where
  "rank_deals candidates cx =
     (if \<not> distinct (map ca_appid candidates)
      then Inl (Value_error ''candidate AppIDs must be unique'')
      else map_sum id (sort_key deal_key) (rank_each cx candidates))"

end
