(* ===== verification/Deal_Props.thy ===== *)
theory Deal_Props
  imports Deal_Ranking
begin

text \<open>
  The properties of the deal ranking: every candidate once and in an order of its own, no
  comparison across currencies, products or stores, and bounded basis points.
\<close>


section \<open>The results of a ranking\<close>

definition deal_result :: "deal_context \<Rightarrow> candidate \<Rightarrow> ranked" where
  "deal_result cx c =
     ranked_candidate cx (case fallback_rung cx c of Inl e \<Rightarrow> None | Inr rung \<Rightarrow> rung) c"

definition has_rung :: "deal_context \<Rightarrow> candidate \<Rightarrow> bool" where
  "has_rung cx c \<longleftrightarrow> (\<exists>rung. fallback_rung cx c = Inr rung)"

lemma map_sum_id_Inr: "map_sum id f x = Inr y \<longleftrightarrow> (\<exists>z. x = Inr z \<and> y = f z)"
  by (cases x) auto

lemma rank_candidate_Inr: "rank_candidate cx c = Inr r \<longleftrightarrow> has_rung cx c \<and> r = deal_result cx c"
  by (auto simp: rank_candidate_def map_sum_id_Inr has_rung_def deal_result_def)

lemma rank_each_Inr:
  "rank_each cx cs = Inr rs \<longleftrightarrow> (\<forall>c \<in> set cs. has_rung cx c) \<and> rs = map (deal_result cx) cs"
  by (induction cs arbitrary: rs) (auto simp: bindE_eq_Inr rank_candidate_Inr map_sum_id_Inr)

lemma rank_deals_Inr:
  "rank_deals cs cx = Inr rs \<longleftrightarrow>
     distinct (map ca_appid cs) \<and> (\<forall>c \<in> set cs. has_rung cx c) \<and>
     rs = sort_key deal_key (map (deal_result cx) cs)"
  by (auto simp: rank_deals_def map_sum_id_Inr rank_each_Inr)

lemma rk_appid_result [simp]: "rk_appid (deal_result cx c) = ca_appid c"
  by (simp add: deal_result_def ranked_candidate_def Let_def split: prod.split)

interpretation deals: ranking "deal_result cx" deal_key ca_appid for cx
  by unfold_locales (simp add: deal_key_def)

lemma rungs_Inr: "(\<exists>rs. rungs attempts names = Inr rs) \<longleftrightarrow> set names \<subseteq> at_provider ` set attempts"
proof (induction names)
  case (Cons name names)
  show ?case
  proof (cases "find (\<lambda>a. at_provider a = name) attempts")
    case None
    then have "name \<notin> at_provider ` set attempts"
      by (auto simp: find_None_iff)
    with None show ?thesis by simp
  next
    case (Some a)
    then have "name \<in> at_provider ` set attempts"
      by (auto simp: find_Some_iff)
    with Some Cons.IH show ?thesis
      by (auto simp: map_sum_id_Inr)
  qed
qed simp

lemma first_min_Some:
  assumes "first_min key xs = Some x"
  shows "x \<in> set xs"
proof -
  obtain ys where "sort_key key xs = x # ys"
    using assms by (auto simp: first_min_def split: list.splits)
  then have "x \<in> set (sort_key key xs)"
    by (metis list.set_intros(1))
  then show ?thesis by simp
qed

lemma pairs_iff:
  "(o1, l) \<in> set (pairs appid offers lows cx exact) \<longleftrightarrow>
     o1 \<in> set offers \<and> l \<in> set lows \<and>
     comparable appid cx (if exact then Exact_product else Normalized_game) o1 l"
  by (auto simp: pairs_def)

text \<open>What is chosen comes from the evidence, and a low is comparable to its offer.\<close>

lemma chosen_evidence:
  assumes "chosen cx c = (offer, low, g)"
  shows "(\<forall>o1. offer = Some o1 \<longrightarrow> o1 \<in> set (all_offers c) \<and> current_eligible (ca_appid c) cx o1) \<and>
    (\<forall>l. low = Some l \<longrightarrow> l \<in> set (all_lows c) \<and>
       (\<exists>o1 e. offer = Some o1 \<and> comparable (ca_appid c) cx e o1 l))"
  using assms
  by (auto simp: chosen_def Let_def pairs_iff best_current_def comparable_def current_eligible_def
      dest!: first_min_Some split: option.splits prod.splits)

text \<open>A ranking fails only for a duplicate AppID or evidence of a provider never attempted.\<close>

lemma rank_deals_total:
  assumes "distinct (map ca_appid cs)"
    and "\<forall>c \<in> set cs. of_provider ` set (all_offers c) \<union> lo_provider ` set (all_lows c) \<subseteq>
      at_provider ` set (ca_attempts c)"
  shows "\<exists>rs. rank_deals cs cx = Inr rs"
proof -
  have "has_rung cx c" if "c \<in> set cs" for c
  proof -
    obtain offer low g where ch: "chosen cx c = (offer, low, g)"
      by (cases "chosen cx c")
    have "set (used_providers offer low) \<subseteq> of_provider ` set (all_offers c) \<union> lo_provider ` set (all_lows c)"
      using chosen_evidence [OF ch] by (cases offer; cases low) (simp_all add: used_providers_def)
    also have "\<dots> \<subseteq> at_provider ` set (ca_attempts c)"
      using assms(2) that by blast
    finally have "set (used_providers offer low) \<subseteq> at_provider ` set (sorted_attempts c)"
      by (simp add: sorted_attempts_def)
    then show ?thesis
      using rungs_Inr [of "sorted_attempts c"] ch by (auto simp: has_rung_def fallback_rung_def map_sum_id_Inr)
  qed
  with assms(1) show ?thesis by (simp add: rank_deals_Inr)
qed

lemma result_fields:
  assumes "chosen cx c = (offer, low, g)"
  shows "rk_offer (deal_result cx c) = offer" "rk_low (deal_result cx c) = low"
    "rk_bucket (deal_result cx c) = fst (bucket_of offer low (all_offers c \<noteq> [] \<or> all_lows c \<noteq> []))"
    "rk_discount_bps (deal_result cx c) = (case offer of None \<Rightarrow> None | Some o1 \<Rightarrow> discount_bps o1)"
    "rk_distance_bps (deal_result cx c) = (case (offer, low) of
       (Some o1, Some l) \<Rightarrow> distance_above_low (of_price o1) (lo_price l) | _ \<Rightarrow> None)"
  using assms by (simp_all add: deal_result_def ranked_candidate_def Let_def split: prod.split)


section \<open>Properties\<close>

text \<open>A deal ranking keeps every requested candidate exactly once, in the order of its key
  (evidence grade, bucket, larger discount, smaller distance above the low, AppID), and the
  order in which the candidates came does not matter.\<close>

theorem deal_ranking_exact:
  assumes "rank_deals candidates cx = Inr results"
  shows "mset (map rk_appid results) = mset (map ca_appid candidates) \<and>
    sorted_wrt (\<lambda>a b. deal_key a \<le> deal_key b) results \<and>
    (\<forall>shuffled. mset shuffled = mset candidates \<longrightarrow> rank_deals shuffled cx = Inr results)"
proof -
  have rs: "results = sort_key deal_key (map (deal_result cx) candidates)"
    and ok: "distinct (map ca_appid candidates)" "\<forall>c \<in> set candidates. has_rung cx c"
    using assms by (simp_all add: rank_deals_Inr)
  have "rank_deals shuffled cx = Inr results" if "mset shuffled = mset candidates" for shuffled
  proof -
    have "mset (map ca_appid shuffled) = mset (map ca_appid candidates)"
      using that by simp
    then have "distinct (map ca_appid shuffled)" "set shuffled = set candidates"
      using ok(1) mset_eq_imp_distinct_iff mset_eq_setD [OF that] by blast+
    with ok deals.order_irrelevant [OF ok(1), of shuffled cx] that show ?thesis
      by (simp add: rank_deals_Inr rs)
  qed
  moreover have "mset (map rk_appid results) = mset (map ca_appid candidates)"
    by (simp add: rs image_mset.compositionality comp_def)
  moreover have "sorted_wrt (\<lambda>a b. deal_key a \<le> deal_key b) results"
    using deals.in_order [of cx candidates] by (simp add: rs)
  ultimately show ?thesis by simp
qed

definition demo_money :: "int \<Rightarrow> string \<Rightarrow> money" where
  "demo_money n currency = \<lparr>mo_amount = n, mo_currency = currency, mo_country = ''US''\<rparr>"

definition demo_product :: "int \<Rightarrow> product_identity" where
  "demo_product a = \<lparr>pi_provider_product_id = ''p'', pi_steam_appid = a, pi_mapping = ''exact''\<rparr>"

definition demo_deal :: "int \<Rightarrow> int \<Rightarrow> int \<Rightarrow> string \<Rightarrow> candidate" where
  "demo_deal a price lowest currency = \<lparr>ca_appid = a, ca_snapshots = [\<lparr>sn_provider = ''gg'',
     sn_product = demo_product a,
     sn_offers = [\<lparr>of_provider = ''gg'', of_product = demo_product a, of_price = demo_money price currency,
       of_regular = Some (demo_money 2000 currency), of_store_class = Official, of_observed_at = ''t'',
       of_comparability = Exact_product\<rparr>],
     sn_lows = [\<lparr>lo_provider = ''gg'', lo_product = demo_product a, lo_price = demo_money lowest ''USD'',
       lo_observed_at = ''t'', lo_scope = ''all_time_official_stores'', lo_comparability = Exact_product\<rparr>]\<rparr>],
     ca_attempts = [\<lparr>at_provider = ''gg'', at_rung = 0, at_status = Ready, at_error = None\<rparr>]\<rparr>"

definition demo_context :: deal_context where
  "demo_context = \<lparr>cx_country = ''US'', cx_currency = ''USD'', cx_store_class = Official,
     cx_history_scope = ''all_time_official_stores''\<rparr>"

definition demo_deals :: "candidate list" where
  "demo_deals = [demo_deal 10 500 300 ''EUR'', demo_deal 20 1040 1000 ''USD'', demo_deal 30 500 500 ''USD'']"

lemma demo_deals_ranked: obtains results where
  "rank_deals demo_deals demo_context = Inr results" "map rk_appid results = [30, 20, 10]"
  "map rk_bucket results = [At_or_below_low, Within_5_percent, Noncomparable]"
proof -
  have "map_sum id (\<lambda>rs. (map rk_appid rs, map rk_bucket rs)) (rank_deals demo_deals demo_context) =
      Inr ([30, 20, 10], [At_or_below_low, Within_5_percent, Noncomparable])"
    by code_simp
  then show thesis
    using that by (cases "rank_deals demo_deals demo_context") auto
qed

theorem deal_ranking_exact_witness:
  "\<exists>results. rank_deals demo_deals demo_context = Inr results \<and> map rk_appid results = [30, 20, 10] \<and>
     rank_deals (rev demo_deals) demo_context = Inr results"
proof -
  obtain results where rs: "rank_deals demo_deals demo_context = Inr results"
    "map rk_appid results = [30, 20, 10]"
    by (rule demo_deals_ranked)
  from deal_ranking_exact [OF rs(1)] rs show ?thesis by simp
qed

text \<open>C20. A price is compared with a historical low only like with like: both are evidence given
  for this candidate, of one provider product of this AppID, in the requested currency and
  country, for the requested store class and its history scope.  Then the bucket is
  \<open>at_or_below_low\<close> exactly when the price does not exceed the low, and \<open>within_5_percent\<close>
  exactly when it exceeds it by at most five percent, computed without rounding.\<close>

theorem deals_compare_like_with_like:
  assumes "rank_deals candidates cx = Inr results" "r \<in> set results"
    and "rk_offer r = Some offer" "rk_low r = Some low"
  shows "(\<exists>c \<in> set candidates. rk_appid r = ca_appid c \<and>
      offer \<in> set (all_offers c) \<and> low \<in> set (all_lows c)) \<and>
    mo_currency (of_price offer) = cx_currency cx \<and> mo_currency (lo_price low) = cx_currency cx \<and>
    mo_country (of_price offer) = cx_country cx \<and> mo_country (lo_price low) = cx_country cx \<and>
    pi_steam_appid (of_product offer) = rk_appid r \<and> pi_steam_appid (lo_product low) = rk_appid r \<and>
    of_provider offer = lo_provider low \<and>
    pi_provider_product_id (of_product offer) = pi_provider_product_id (lo_product low) \<and>
    of_store_class offer = cx_store_class cx \<and> scope_matches (lo_scope low) (cx_store_class cx) \<and>
    (rk_bucket r = At_or_below_low \<longleftrightarrow> mo_amount (of_price offer) \<le> mo_amount (lo_price low)) \<and>
    (rk_bucket r = Within_5_percent \<longleftrightarrow>
       mo_amount (lo_price low) < mo_amount (of_price offer) \<and> mo_amount (lo_price low) \<noteq> 0 \<and>
       100 * mo_amount (of_price offer) \<le> 105 * mo_amount (lo_price low))"
proof -
  obtain c where c: "c \<in> set candidates" "r = deal_result cx c"
    using assms(1,2) by (auto simp: rank_deals_Inr)
  obtain g where ch: "chosen cx c = (Some offer, Some low, g)"
    using assms(3,4) result_fields(1,2) [of cx c] unfolding c(2) by (cases "chosen cx c") auto
  from chosen_evidence [OF ch] obtain e where e: "comparable (ca_appid c) cx e offer low"
    "offer \<in> set (all_offers c)" "low \<in> set (all_lows c)" by auto
  have bucket: "rk_bucket r = fst (bucket_of (Some offer) (Some low) (all_offers c \<noteq> [] \<or> all_lows c \<noteq> []))"
    using result_fields(3) [OF ch] c(2) by simp
  from c e show ?thesis
    unfolding bucket
    by (auto simp: bucket_of_def within_five_percent_def comparable_def product_matches_def money_matches_def
        split: option.split)
qed

theorem deals_compare_like_with_like_witness:
  "\<exists>results offer low. rank_deals demo_deals demo_context = Inr results \<and>
     rk_offer (results ! 1) = Some offer \<and> rk_low (results ! 1) = Some low \<and>
     mo_currency (of_price offer) = ''USD'' \<and> mo_currency (lo_price low) = ''USD'' \<and>
     100 * mo_amount (of_price offer) \<le> 105 * mo_amount (lo_price low)"
proof -
  obtain results where rs: "rank_deals demo_deals demo_context = Inr results"
    "map rk_appid results = [30, 20, 10]"
    "map rk_bucket results = [At_or_below_low, Within_5_percent, Noncomparable]"
    by (rule demo_deals_ranked)
  have "map_sum id (\<lambda>rs. (rk_offer (rs ! 1) \<noteq> None, rk_low (rs ! 1) \<noteq> None)) (rank_deals demo_deals demo_context) =
      Inr (True, True)"
    by code_simp
  with rs(1) obtain offer low where picked: "rk_offer (results ! 1) = Some offer" "rk_low (results ! 1) = Some low"
    by auto
  have len: "length results = 3"
    using arg_cong [OF rs(2), of length] by simp
  then have "results ! 1 \<in> set results" by simp
  moreover have "rk_bucket (results ! 1) = Within_5_percent"
    using arg_cong [OF rs(3), of "\<lambda>xs. xs ! 1"] len by simp
  ultimately show ?thesis
    using deals_compare_like_with_like [OF rs(1) _ picked] rs(1) picked
    by (simp add: demo_context_def)
qed

text \<open>Basis points are bounded: on valid amounts the discount lies between 0 and 10,000, the
  distance above the low between 0 and \<open>2 ^ 63 - 1\<close>, and a candidate bucketed
  \<open>within_5_percent\<close> shows a distance of at most 500.\<close>

theorem deal_basis_points_bounded:
  assumes "rank_deals candidates cx = Inr results" "r \<in> set results"
    and "\<forall>c \<in> set candidates. \<forall>o1 \<in> set (all_offers c). 0 \<le> mo_amount (of_price o1) \<and>
      (\<forall>m. of_regular o1 = Some m \<longrightarrow> 0 \<le> mo_amount m)"
    and "\<forall>c \<in> set candidates. \<forall>l \<in> set (all_lows c). 0 \<le> mo_amount (lo_price l)"
  shows "(\<forall>d. rk_discount_bps r = Some d \<longrightarrow> 0 \<le> d \<and> d \<le> 10000) \<and>
    (\<forall>d. rk_distance_bps r = Some d \<longrightarrow> 0 \<le> d \<and> d \<le> max_signed_64 \<and>
       (rk_bucket r = Within_5_percent \<longrightarrow> d \<le> 500))"
proof -
  obtain c where c: "c \<in> set candidates" "r = deal_result cx c"
    using assms(1,2) by (auto simp: rank_deals_Inr)
  obtain offer low g where ch: "chosen cx c = (offer, low, g)"
    by (cases "chosen cx c")
  note ev = chosen_evidence [OF ch]
  have discount: "0 \<le> d \<and> d \<le> 10000"
    if "discount_bps o1 = Some d" "0 \<le> mo_amount (of_price o1)" "\<forall>m. of_regular o1 = Some m \<longrightarrow> 0 \<le> mo_amount m"
    for o1 d
  proof -
    have "p \<ge> 0 \<Longrightarrow> p < n \<Longrightarrow> 0 \<le> ((n - p) * 10000) div n \<and> ((n - p) * 10000) div n \<le> 10000" for p n :: int
      using zdiv_mono1 [of "(n - p) * 10000" "n * 10000" n]
      by (auto simp: pos_imp_zdiv_nonneg_iff)
    with that show ?thesis
      by (fastforce simp: discount_bps_def split: option.splits if_splits)
  qed
  have distance: "0 \<le> d \<and> d \<le> max_signed_64 \<and> (within_five_percent p l \<longrightarrow> d \<le> 500)"
    if "distance_above_low p l = Some d" "0 \<le> mo_amount p" "0 \<le> mo_amount l" for p l d
  proof -
    have "((n - m) * 10000) div m \<le> 500" if "0 < m" "n * 10000 \<le> m * 10500" for m n :: int
    proof -
      have "((n - m) * 10000) div m \<le> (500 * m) div m"
        using that by (intro zdiv_mono1) (simp_all add: algebra_simps)
      with that(1) show ?thesis by simp
    qed
    moreover have "0 \<le> ((n - m) * 10000) div m" if "0 < m" "m < n" for m n :: int
      using that by (simp add: pos_imp_zdiv_nonneg_iff)
    moreover have "d = 0 \<or> 0 < mo_amount l \<and> mo_amount l < mo_amount p \<and>
        d = min (((mo_amount p - mo_amount l) * 10000) div mo_amount l) max_signed_64"
      using that by (auto simp: distance_above_low_def split: if_splits)
    ultimately show ?thesis
      by (auto simp: within_five_percent_def max_signed_64_def simp del: min_less_iff_conj
          intro: min.coboundedI1 split: if_splits)
  qed
  show ?thesis
  proof (intro conjI allI impI)
    fix d
    assume "rk_discount_bps r = Some d"
    then obtain o1 where "offer = Some o1" "discount_bps o1 = Some d"
      using result_fields(4) [OF ch] c(2) by (auto split: option.splits)
    with discount ev assms(3) c(1) show "0 \<le> d" "d \<le> 10000" by blast+
  next
    fix d
    assume "rk_distance_bps r = Some d"
    then obtain o1 l where picked: "offer = Some o1" "low = Some l" "distance_above_low (of_price o1) (lo_price l) = Some d"
      using result_fields(5) [OF ch] c(2) by (auto split: option.splits)
    with ev assms(3,4) c(1) distance [OF picked(3)]
    have d: "0 \<le> d \<and> d \<le> max_signed_64 \<and> (within_five_percent (of_price o1) (lo_price l) \<longrightarrow> d \<le> 500)" by blast
    then show "0 \<le> d" "d \<le> max_signed_64" by simp_all
    assume "rk_bucket r = Within_5_percent"
    then have "within_five_percent (of_price o1) (lo_price l)"
      using result_fields(3) [OF ch] c(2) picked by (auto simp: bucket_of_def split: if_splits option.splits)
    with d show "d \<le> 500" by simp
  qed
qed

theorem deal_basis_points_bounded_witness:
  "\<exists>results. rank_deals demo_deals demo_context = Inr results \<and>
     (\<forall>r \<in> set results. \<forall>d. rk_discount_bps r = Some d \<longrightarrow> 0 \<le> d \<and> d \<le> 10000)"
proof -
  obtain results where rs: "rank_deals demo_deals demo_context = Inr results"
    by (rule demo_deals_ranked)
  have "\<forall>c \<in> set demo_deals. \<forall>o1 \<in> set (all_offers c). 0 \<le> mo_amount (of_price o1) \<and>
      (\<forall>m. of_regular o1 = Some m \<longrightarrow> 0 \<le> mo_amount m)"
    "\<forall>c \<in> set demo_deals. \<forall>l \<in> set (all_lows c). 0 \<le> mo_amount (lo_price l)"
    by (simp_all add: demo_deals_def demo_deal_def demo_money_def all_offers_def all_lows_def)
  from deal_basis_points_bounded [OF rs _ this] rs show ?thesis by blast
qed

end
