(* ===== verification/Group_Data.thy ===== *)
theory Group_Data
  imports Ranking "HOL-Library.FSet"
begin

text \<open>
  The subjects of \<open>groups.py\<close>: members and copy sources, three-valued facts about
  ownership, family sharing and policies, and the checks their constructors make.  A
  constructor that raises \<open>ValueError\<close> is a function into \<open>string + _\<close>; the checks of
  Python types have no counterpart, as the model is typed.
\<close>


section \<open>Members and copy sources\<close>

datatype profile_kind = Account | Synthetic

definition profile_kind_of :: "string \<Rightarrow> profile_kind option" where
  "profile_kind_of s = (if s = ''account'' then Some Account
     else if s = ''synthetic'' then Some Synthetic else None)"

text \<open>The order of the kind strings, \<open>account\<close> before \<open>synthetic\<close>.\<close>

primrec kind_rank :: "profile_kind \<Rightarrow> nat" where
  "kind_rank Account = 0"
| "kind_rank Synthetic = 1"

lemma kind_rank_eq [simp]: "kind_rank a = kind_rank b \<longleftrightarrow> a = b"
  by (cases a; cases b) simp_all

definition key_char :: "char \<Rightarrow> bool" where
  "key_char c \<longleftrightarrow> is_alpha c \<or> is_digit c \<or> c = CHR ''_'' \<or> c = CHR ''-''"

definition key_matches :: "string \<Rightarrow> bool" where
  "key_matches s \<longleftrightarrow> s \<noteq> [] \<and> length s \<le> 64 \<and> is_alpha (hd s) \<and> list_all key_char s"

definition bounded_key :: "string \<Rightarrow> string + string" where
  "bounded_key s = (if key_matches s then Inr (lower s) else Inl ''profile key is invalid'')"

datatype member_ref = MemberRef (member_kind: profile_kind) (member_key: string)

datatype copy_source = CopySourceRef (source_kind: profile_kind) (source_key: string)

definition member_ref :: "string \<Rightarrow> string \<Rightarrow> string + member_ref" where
  "member_ref kind key = (case profile_kind_of kind of
       None \<Rightarrow> Inl ''member kind is invalid''
     | Some k \<Rightarrow> bindE (bounded_key key) (\<lambda>s. Inr (MemberRef k s)))"

definition copy_source_ref :: "string \<Rightarrow> string \<Rightarrow> string + copy_source" where
  "copy_source_ref kind key = (case profile_kind_of kind of
       None \<Rightarrow> Inl ''copy-source kind is invalid''
     | Some k \<Rightarrow> bindE (bounded_key key) (\<lambda>s. Inr (CopySourceRef k s)))"

text \<open>
  \<open>CopySourceRef.for_member\<close> checks and folds a key that \<open>MemberRef\<close> checked and folded
  before, which changes nothing (\<open>for_member_rechecks\<close>).
\<close>

definition for_member :: "member_ref \<Rightarrow> copy_source" where
  "for_member m = CopySourceRef (member_kind m) (member_key m)"

lemma for_member_eq [simp]: "for_member a = for_member b \<longleftrightarrow> a = b"
  by (cases a; cases b) (simp add: for_member_def)

lemma inj_for_member: "inj for_member"
  by (simp add: inj_def)

definition kind_text :: "profile_kind \<Rightarrow> string" where
  "kind_text k = (case k of Account \<Rightarrow> ''account'' | Synthetic \<Rightarrow> ''synthetic'')"

lemma kind_text_inverse [simp]: "profile_kind_of (kind_text k) = Some k"
  by (cases k) (simp_all add: kind_text_def profile_kind_of_def)

lemma code_lower_char:
  "code (lower_char c) = (if 65 \<le> code c \<and> code c \<le> 90 then code c + 32 else code c)"
  by (simp add: lower_char_def code_def take_bit_eq_mod)

lemma code_inject: "code a = code b \<longleftrightarrow> a = b"
  by (simp add: code_def)

lemma lower_char_idem [simp]: "lower_char (lower_char c) = lower_char c"
  by (rule iffD1 [OF code_inject]) (simp add: code_lower_char)

lemma lower_idem [simp]: "lower (lower s) = lower s"
  by (simp add: lower_def)

lemma alpha_lower [simp]: "is_alpha (lower_char c) \<longleftrightarrow> is_alpha c"
  by (auto simp: is_alpha_def code_lower_char)

lemma key_char_lower:
  assumes "key_char c" shows "key_char (lower_char c)"
proof (cases "is_alpha c")
  case True
  then show ?thesis by (simp add: key_char_def)
next
  case False
  then have "lower_char c = c"
    by (auto simp: lower_char_def is_alpha_def)
  with assms show ?thesis by simp
qed

lemma key_matches_lower: "key_matches s \<Longrightarrow> key_matches (lower s)"
  by (auto simp: key_matches_def lower_def list_all_iff hd_map key_char_lower)

lemma for_member_rechecks:
  "member_ref k s = Inr m \<Longrightarrow> copy_source_ref (kind_text (member_kind m)) (member_key m) = Inr (for_member m)"
  by (auto simp: member_ref_def copy_source_ref_def bounded_key_def for_member_def key_matches_lower
      split: option.splits if_splits)

text \<open>Both classes are ordered as their field tuples, kind before key.\<close>

instantiation member_ref :: linorder
begin

definition less_eq_member_ref :: "member_ref \<Rightarrow> member_ref \<Rightarrow> bool" where
  "less_eq_member_ref a b \<longleftrightarrow> (kind_rank (member_kind a), member_key a) \<le> (kind_rank (member_kind b), member_key b)"

definition less_member_ref :: "member_ref \<Rightarrow> member_ref \<Rightarrow> bool" where
  "less_member_ref a b \<longleftrightarrow> (kind_rank (member_kind a), member_key a) < (kind_rank (member_kind b), member_key b)"

instance
  by intro_classes
    (auto simp: less_eq_member_ref_def less_member_ref_def member_ref.expand)

end

instantiation copy_source :: linorder
begin

definition less_eq_copy_source :: "copy_source \<Rightarrow> copy_source \<Rightarrow> bool" where
  "less_eq_copy_source a b \<longleftrightarrow> (kind_rank (source_kind a), source_key a) \<le> (kind_rank (source_kind b), source_key b)"

definition less_copy_source :: "copy_source \<Rightarrow> copy_source \<Rightarrow> bool" where
  "less_copy_source a b \<longleftrightarrow> (kind_rank (source_kind a), source_key a) < (kind_rank (source_kind b), source_key b)"

instance
  by intro_classes
    (auto simp: less_eq_copy_source_def less_copy_source_def copy_source.expand)

end


section \<open>Facts\<close>

datatype ownership_state = Owned | Not_owned | Ownership_unknown

datatype family_state = Available | Unavailable | Family_unknown

datatype group_gate = Gate_pass | Gate_fail | Gate_unknown

record ownership_fact =
  of_source :: copy_source
  of_state :: ownership_state

record family_edge =
  fe_member :: member_ref
  fe_source :: copy_source
  fe_state :: family_state

definition make_family_edge :: "member_ref \<Rightarrow> copy_source \<Rightarrow> family_state \<Rightarrow> string + family_edge" where
  "make_family_edge m s st =
     bindE (raise_if (for_member m = s) ''self access comes from ownership, not a family edge'')
       (\<lambda>_. Inr \<lparr>fe_member = m, fe_source = s, fe_state = st\<rparr>)"

record ownership_summary =
  os_per_member :: "(member_ref \<times> ownership_state) list"
  os_union :: ownership_state
  os_intersection :: ownership_state

record missing_copies =
  mc_minimum :: int
  mc_maximum :: int

definition make_missing :: "int \<Rightarrow> int \<Rightarrow> string + missing_copies" where
  "make_missing lo hi =
     bindE (raise_if (\<not> (0 \<le> lo \<and> lo \<le> hi)) ''missing-copy range is invalid'')
       (\<lambda>_. Inr \<lparr>mc_minimum = lo, mc_maximum = hi\<rparr>)"

datatype guarantee_class = Guaranteed | Conditional | Insufficient

record copy_assessment =
  ca_required :: int
  ca_known :: int
  ca_possible :: int
  ca_missing :: missing_copies
  ca_guarantee :: guarantee_class
  ca_known_assignments :: "(member_ref \<times> copy_source) list"
  ca_possible_assignments :: "(member_ref \<times> copy_source) list"

definition guarantee_of :: "missing_copies \<Rightarrow> guarantee_class" where
  "guarantee_of m = (if mc_maximum m = 0 then Guaranteed
     else if mc_minimum m = 0 then Conditional else Insufficient)"

text \<open>\<open>CopyAssessment.__post_init__\<close>, in the order of its checks.\<close>

definition make_copy_assessment :: "copy_assessment \<Rightarrow> string + copy_assessment" where
  "make_copy_assessment a =
     bindE (raise_if (ca_required a < 0) ''required_copies is invalid'') (\<lambda>_.
     bindE (raise_if (ca_known a < 0) ''known_matching is invalid'') (\<lambda>_.
     bindE (raise_if (ca_possible a < 0) ''possible_matching is invalid'') (\<lambda>_.
     bindE (raise_if (\<not> (ca_known a \<le> ca_possible a \<and> ca_possible a \<le> ca_required a))
       ''copy matching counts are inconsistent'') (\<lambda>_.
     bindE (make_missing (ca_required a - ca_possible a) (ca_required a - ca_known a)) (\<lambda>expected.
     bindE (raise_if (ca_missing a \<noteq> expected) ''missing-copy range does not match the matchings'') (\<lambda>_.
     bindE (raise_if (ca_guarantee a \<noteq> guarantee_of (ca_missing a))
       ''copy guarantee class is inconsistent'') (\<lambda>_.
     bindE (raise_if (int (length (ca_known_assignments a)) \<noteq> ca_known a)
       ''known assignments do not match their count'') (\<lambda>_.
     bindE (raise_if (int (length (ca_possible_assignments a)) \<noteq> ca_possible a)
       ''possible assignments do not match their count'') (\<lambda>_.
     Inr a)))))))))"

end
