(* ===== verification/Group_Match.thy ===== *)
theory Group_Match
  imports Group_Data "HOL-Library.AList"
begin

text \<open>
  \<open>_maximum_matching\<close> of \<open>groups.py\<close>: augmenting paths from each member in order.  The
  dictionary \<open>source_to_member\<close> is an association list, \<open>seen\<close> a set.

  The search that fails leaves a set of sources that is closed: each is taken, and whoever
  took it, like the member that failed, has its edges inside.  The closed sets are the
  certificate that the matching is maximum (\<open>matching_maximum\<close>).
\<close>


section \<open>The search\<close>

text \<open>
  \<open>augment edges m ss seen M\<close> is the loop of \<open>augment(m, seen)\<close> over the sources \<open>ss\<close> it has
  yet to try; the call itself starts it on the sorted edges of \<open>m\<close>.
\<close>

function (domintros) augment :: "('m \<Rightarrow> 's::linorder list) \<Rightarrow> 'm \<Rightarrow> 's list \<Rightarrow> 's set \<Rightarrow> ('s \<times> 'm) list
    \<Rightarrow> bool \<times> 's set \<times> ('s \<times> 'm) list" where
  "augment edges m [] seen M = (False, seen, M)"
| "augment edges m (s # ss) seen M =
     (if s \<in> seen then augment edges m ss seen M
      else case map_of M s of
          None \<Rightarrow> (True, insert s seen, AList.update s m M)
        | Some i \<Rightarrow>
            (case augment edges i (sort (edges i)) (insert s seen) M of
               (ok, seen', M') \<Rightarrow>
                 if ok then (True, seen', AList.update s m M')
                 else augment edges m ss seen' M'))"
  by pat_completeness auto

text \<open>
  A call starts from a source not seen before, so the sources that can still be reached
  shrink: those on the list at hand and those of the members in the matching.
\<close>

definition reach :: "('m \<Rightarrow> 's list) \<Rightarrow> 's list \<Rightarrow> ('s \<times> 'm) list \<Rightarrow> 's set" where
  "reach edges ss M = set ss \<union> (\<Union>m\<in>snd ` set M. set (edges m))"

lemma augment_dom_failed:
  "augment_dom (edges, m, ss, seen, M) \<Longrightarrow>
   (case augment edges m ss seen M of (ok, seen', M') \<Rightarrow> seen \<subseteq> seen' \<and> (\<not> ok \<longrightarrow> M' = M))"
proof (induction edges m ss seen M rule: augment.pinduct)
  case (1 edges m seen M)
  then show ?case by (simp add: augment.psimps)
next
  case (2 edges m s ss seen M)
  show ?case
  proof (cases "s \<in> seen")
    case True
    then show ?thesis using 2 by (simp add: augment.psimps)
  next
    case False
    show ?thesis
    proof (cases "map_of M s")
      case None
      then show ?thesis using 2(1) False by (auto simp: augment.psimps)
    next
      case (Some i)
      obtain ok seen' M' where inner: "augment edges i (sort (edges i)) (insert s seen) M = (ok, seen', M')"
        by (metis prod_cases3)
      have sub: "insert s seen \<subseteq> seen' \<and> (\<not> ok \<longrightarrow> M' = M)"
        using "2.IH"(2) [OF False Some] inner by simp
      obtain ok2 seen2 M2 where rest: "augment edges m ss seen' M' = (ok2, seen2, M2)"
        by (metis prod_cases3)
      have "\<not> ok \<Longrightarrow> seen' \<subseteq> seen2 \<and> (\<not> ok2 \<longrightarrow> M2 = M')"
        using "2.IH"(3) [OF False Some inner [symmetric] refl] rest by simp
      then show ?thesis
        using 2(1) False Some inner sub rest by (cases ok) (auto simp: augment.psimps)
    qed
  qed
qed

lemma finite_reach [simp]: "finite (reach edges ss M)"
  by (simp add: reach_def)

lemma reach_mono: "set ss \<subseteq> set ss' \<Longrightarrow> reach edges ss M \<subseteq> reach edges ss' M"
  by (auto simp: reach_def)

lemma reach_incumbent: "map_of M s = Some i \<Longrightarrow> reach edges (sort (edges i)) M \<subseteq> reach edges ss M"
  by (force simp: reach_def dest: map_of_SomeD)

lemma fewer_left:
  assumes "A \<subseteq> B" "finite B" "seen \<subseteq> seen'"
  shows "card (A - seen') \<le> card (B - seen)"
  using assms by (intro card_mono) auto

definition search_order ::
    "((('m \<Rightarrow> 's list) \<times> 'm \<times> 's list \<times> 's set \<times> ('s \<times> 'm) list) \<times>
      (('m \<Rightarrow> 's list) \<times> 'm \<times> 's list \<times> 's set \<times> ('s \<times> 'm) list)) set" where
  "search_order = (\<lambda>(edges, m, ss, seen, M). card (reach edges ss M - seen)) <*mlex*>
     measure (\<lambda>(edges, m, ss, seen, M). length ss)"

lemma wf_search_order: "wf search_order"
  by (simp add: search_order_def wf_mlex)

lemma search_goes_on: "seen \<subseteq> seen' \<Longrightarrow> ((edges, m, ss, seen', M), edges, m, s # ss, seen, M) \<in> search_order"
  unfolding search_order_def by (rule mlex_leq) (auto intro!: fewer_left reach_mono)

lemma search_goes_deeper:
  assumes "s \<notin> seen" "map_of M s = Some i"
  shows "((edges, i, sort (edges i), insert s seen, M), edges, m, s # ss, seen, M) \<in> search_order"
proof -
  have "reach edges (sort (edges i)) M - insert s seen \<subset> reach edges (s # ss) M - seen"
    using assms reach_incumbent [of M s i edges "s # ss"] by (auto simp: reach_def)
  then show ?thesis
    unfolding search_order_def by (intro mlex_less) (simp add: psubset_card_mono)
qed

lemma augment_ends: "augment_dom (edges, m, ss, seen, M)"
proof (induction "(edges, m, ss, seen, M)" arbitrary: edges m ss seen M rule: wf_induct_rule [OF wf_search_order])
  case (1 edges m ss seen M)
  show ?case
  proof (cases ss)
    case Nil
    then show ?thesis by (simp add: augment.domintros)
  next
    case (Cons s rest)
    have next_one: "augment_dom (edges, m, rest, seen', M)" if "seen \<subseteq> seen'" for seen'
      by (rule 1) (simp add: Cons search_goes_on that)
    have inner: "augment_dom (edges, i, sort (edges i), insert s seen, M)"
      if "s \<notin> seen" "map_of M s = Some i" for i
      by (rule 1) (simp add: Cons search_goes_deeper that)
    have later: "augment_dom (edges, m, rest, seen', M')"
      if "s \<notin> seen" "map_of M s = Some i"
        "(False, seen', M') = augment edges i (sort (edges i)) (insert s seen) M" for i seen' M'
      using next_one augment_dom_failed [OF inner [OF that(1,2)]] that(3)
      by (auto split: prod.splits)
    show ?thesis
      unfolding Cons using next_one inner later by (intro augment.domintros) auto
  qed
qed

termination augment
  using augment_ends by auto

lemma augment_seen:
  assumes "augment edges m ss seen M = (ok, seen', M')"
  shows "seen \<subseteq> seen'" "\<not> ok \<Longrightarrow> M' = M"
proof -
  have "case augment edges m ss seen M of (ok, seen', M') \<Rightarrow> seen \<subseteq> seen' \<and> (\<not> ok \<longrightarrow> M' = M)"
    by (rule augment_dom_failed) (rule augment_ends)
  then show "seen \<subseteq> seen'" "\<not> ok \<Longrightarrow> M' = M"
    using assms by auto
qed

text \<open>\<open>for member in sorted(members): augment(member, set())\<close>.\<close>

fun match_members :: "('m \<Rightarrow> 's::linorder list) \<Rightarrow> 'm list \<Rightarrow> ('s \<times> 'm) list \<Rightarrow> ('s \<times> 'm) list" where
  "match_members edges [] M = M"
| "match_members edges (m # ms) M =
     (case augment edges m (sort (edges m)) {} M of (ok, seen, M') \<Rightarrow> match_members edges ms M')"

definition maximum_matching :: "('m::linorder) list \<Rightarrow> ('m \<Rightarrow> 's::linorder list) \<Rightarrow> ('m \<times> 's) list" where
  "maximum_matching members edges =
     sort (map (\<lambda>(s, m). (m, s)) (match_members edges (sort members) []))"


section \<open>A search that succeeds\<close>

definition placed :: "('s \<rightharpoonup> 'm) \<Rightarrow> 's set \<Rightarrow> 'm set" where
  "placed f seen = {x. \<exists>s. s \<notin> seen \<and> f s = Some x}"

definition apart :: "('s \<rightharpoonup> 'm) \<Rightarrow> 's set \<Rightarrow> bool" where
  "apart f seen \<longleftrightarrow> (\<forall>a b x. a \<notin> seen \<and> b \<notin> seen \<and> f a = Some x \<and> f b = Some x \<longrightarrow> a = b)"

text \<open>\<open>f'\<close> places \<open>m\<close> outside \<open>seen\<close> and keeps everyone else placed.\<close>

definition grown :: "('s \<rightharpoonup> 'm) \<Rightarrow> 's set \<Rightarrow> 'm \<Rightarrow> ('s \<rightharpoonup> 'm) \<Rightarrow> bool" where
  "grown f seen m f' \<longleftrightarrow> apart f' seen \<and> placed f' seen = insert m (placed f seen) \<and> (\<forall>s\<in>seen. f' s = f s)"

lemma grown_weaken:
  assumes "apart f seen" "m \<notin> placed f seen" "seen \<subseteq> seen'" "grown f seen' m f'"
  shows "grown f seen m f'"
proof -
  have old: "f' s = f s" if "s \<in> seen'" for s
    using assms(4) that by (simp add: grown_def)
  have new: "x = m \<or> (\<exists>c. c \<notin> seen' \<and> f c = Some x)" if "s \<notin> seen'" "f' s = Some x" for s x
    using assms(4) that by (auto simp: grown_def placed_def)
  have "apart f' seen"
    unfolding apart_def
  proof (intro allI impI, elim conjE)
    fix a b x
    assume ab: "a \<notin> seen" "b \<notin> seen" "f' a = Some x" "f' b = Some x"
    have clash: False if "u \<in> seen'" "v \<notin> seen'" "u \<notin> seen" "f' u = Some x" "f' v = Some x" for u v
    proof -
      have u: "f u = Some x" using old [OF that(1)] that(4) by simp
      from new [OF that(2,5)] show False
      proof
        assume "x = m"
        with u that(3) assms(2) show False by (auto simp: placed_def)
      next
        assume "\<exists>c. c \<notin> seen' \<and> f c = Some x"
        then obtain c where "c \<notin> seen'" "f c = Some x" by blast
        with u that(1,3) assms(1,3) have "u = c" unfolding apart_def by blast
        with that(1) \<open>c \<notin> seen'\<close> show False by simp
      qed
    qed
    show "a = b"
    proof (cases "a \<in> seen'"; cases "b \<in> seen'")
      assume "a \<in> seen'" "b \<in> seen'"
      with old ab assms(1) show ?thesis by (auto simp: apart_def)
    next
      assume "a \<notin> seen'" "b \<notin> seen'"
      with ab assms(4) show ?thesis by (auto simp: grown_def apart_def)
    qed (use clash ab in blast)+
  qed
  moreover have "placed f' seen = insert m (placed f seen)"
  proof -
    have split: "placed g seen = {x. \<exists>s. s \<in> seen' - seen \<and> g s = Some x} \<union> placed g seen'" for g :: "'a \<rightharpoonup> 'b"
      using assms(3) by (auto simp: placed_def)
    have "{x. \<exists>s. s \<in> seen' - seen \<and> f' s = Some x} = {x. \<exists>s. s \<in> seen' - seen \<and> f s = Some x}"
      using old by auto
    then show ?thesis
      using split [of f] split [of f'] assms(4) by (auto simp: grown_def)
  qed
  ultimately show ?thesis
    using assms(3) old by (auto simp: grown_def)
qed

lemma grown_free: "apart f seen \<Longrightarrow> m \<notin> placed f seen \<Longrightarrow> s \<notin> seen \<Longrightarrow> f s = None \<Longrightarrow> grown f seen m (f(s \<mapsto> m))"
  by (auto simp: grown_def apart_def placed_def) (metis option.distinct(1))

lemma grown_moved:
  assumes "apart f seen" "m \<notin> placed f seen" "s \<notin> seen" "f s = Some i" "grown f (insert s seen) i f'"
  shows "grown f seen m (f'(s \<mapsto> m))"
proof -
  have ap: "apart f' (insert s seen)" and pl: "placed f' (insert s seen) = insert i (placed f (insert s seen))"
    and old: "\<And>t. t \<in> seen \<Longrightarrow> f' t = f t"
    using assms(5) by (auto simp: grown_def)
  have all: "placed f seen = insert i (placed f (insert s seen))"
    using assms(3,4) by (auto simp: placed_def) (metis option.inject)
  have out: "placed (f'(s \<mapsto> m)) seen = insert m (placed f' (insert s seen))"
    using assms(3) by (auto simp: placed_def)
  have "m \<notin> placed f' (insert s seen)"
    using assms(2) all pl by simp
  then have "apart (f'(s \<mapsto> m)) seen"
    using ap by (auto simp: apart_def placed_def)
  then show ?thesis
    using out pl all old assms(3) by (auto simp: grown_def)
qed

lemma augment_grows:
  assumes "augment edges m ss seen M = (True, seen', M')" "apart (map_of M) seen" "m \<notin> placed (map_of M) seen"
  shows "grown (map_of M) seen m (map_of M')"
  using assms
proof (induction edges m ss seen M arbitrary: seen' M' rule: augment.induct)
  case (1 edges m seen M)
  then show ?case by simp
next
  case (2 edges m s ss seen M)
  show ?case
  proof (cases "s \<in> seen")
    case True
    then show ?thesis using 2 by simp
  next
    case new: False
    show ?thesis
    proof (cases "map_of M s")
      case None
      then have eq: "map_of M' = (map_of M)(s \<mapsto> m)"
        using new 2(4) by (auto simp: update_conv')
      show ?thesis
        unfolding eq by (rule grown_free [OF 2(5,6) new None])
    next
      case (Some i)
      obtain ok seen1 M1 where inner: "augment edges i (sort (edges i)) (insert s seen) M = (ok, seen1, M1)"
        by (metis prod_cases3)
      show ?thesis
      proof (cases ok)
        case True
        have "apart (map_of M) (insert s seen)" "i \<notin> placed (map_of M) (insert s seen)"
          using 2(5) new Some by (auto simp: apart_def placed_def)
        then have moved: "grown (map_of M) (insert s seen) i (map_of M1)"
          using "2.IH"(2) [OF new Some] inner True by simp
        have eq: "map_of M' = (map_of M1)(s \<mapsto> m)"
          using new Some inner True 2(4) by (auto simp: update_conv')
        show ?thesis
          unfolding eq by (rule grown_moved [OF 2(5,6) new Some moved])
      next
        case False
        have sub: "seen \<subseteq> seen1" "M1 = M"
          using augment_seen [OF inner] False by auto
        have "apart (map_of M) seen1" "m \<notin> placed (map_of M) seen1"
          using 2(5,6) sub by (auto simp: apart_def placed_def)
        then have "grown (map_of M) seen1 m (map_of M')"
          using "2.IH"(3) [OF new Some inner [symmetric] refl False] 2(4) new Some inner False sub by simp
        then show ?thesis
          using grown_weaken [OF 2(5,6) sub(1)] by simp
      qed
    qed
  qed
qed


section \<open>A search that fails\<close>

definition closed :: "('m \<Rightarrow> 's list) \<Rightarrow> ('s \<rightharpoonup> 'm) \<Rightarrow> 's set \<Rightarrow> bool" where
  "closed edges f C \<longleftrightarrow> (\<forall>s\<in>C. \<exists>i. f s = Some i \<and> set (edges i) \<subseteq> C)"

lemma augment_closes:
  assumes "augment edges m ss seen M = (False, seen', M')"
  shows "set ss \<subseteq> seen' \<and> (\<forall>s\<in>seen' - seen. \<exists>i. map_of M s = Some i \<and> set (edges i) \<subseteq> seen')"
  using assms
proof (induction edges m ss seen M arbitrary: seen' M' rule: augment.induct)
  case (1 edges m seen M)
  then show ?case by simp
next
  case (2 edges m s ss seen M)
  show ?case
  proof (cases "s \<in> seen")
    case True
    with 2 show ?thesis using augment_seen [of edges m ss seen M False seen' M'] by auto
  next
    case new: False
    with 2(4) obtain i where i: "map_of M s = Some i" by (cases "map_of M s") auto
    obtain ok seen1 M1 where inner: "augment edges i (sort (edges i)) (insert s seen) M = (ok, seen1, M1)"
      by (metis prod_cases3)
    with 2(4) new i have failed: "\<not> ok" "augment edges m ss seen1 M1 = (False, seen', M')"
      by (auto split: if_splits)
    have sub: "insert s seen \<subseteq> seen1" "M1 = M" "seen1 \<subseteq> seen'"
      using augment_seen [OF inner] augment_seen [OF failed(2)] failed(1) by auto
    have "set (edges i) \<subseteq> seen1 \<and> (\<forall>t\<in>seen1 - insert s seen. \<exists>i. map_of M t = Some i \<and> set (edges i) \<subseteq> seen1)"
      using "2.IH"(2) [OF new i, of seen1 M1] inner failed(1) by simp
    moreover have "set ss \<subseteq> seen' \<and> (\<forall>t\<in>seen' - seen1. \<exists>i. map_of M t = Some i \<and> set (edges i) \<subseteq> seen')"
      using "2.IH"(3) [OF new i inner [symmetric] refl failed(1) failed(2)] sub(2) by simp
    ultimately show ?thesis
      using sub i by (auto dest: subsetD) (metis DiffI insertE subset_trans)
  qed
qed

lemma augment_keeps_closed:
  assumes "augment edges m ss seen M = (ok, seen', M')" "closed edges (map_of M) C"
  shows "(\<forall>s\<in>C. map_of M' s = map_of M s) \<and> (set ss \<subseteq> C \<longrightarrow> \<not> ok)"
  using assms
proof (induction edges m ss seen M arbitrary: ok seen' M' rule: augment.induct)
  case (1 edges m seen M)
  then show ?case by simp
next
  case (2 edges m s ss seen M)
  show ?case
  proof (cases "s \<in> seen")
    case True
    with 2 show ?thesis by simp
  next
    case new: False
    show ?thesis
    proof (cases "map_of M s")
      case None
      then have "s \<notin> C" using 2(5) by (auto simp: closed_def)
      then show ?thesis using None new 2(4) by (auto simp: update_conv')
    next
      case (Some i)
      obtain ok1 seen1 M1 where inner: "augment edges i (sort (edges i)) (insert s seen) M = (ok1, seen1, M1)"
        by (metis prod_cases3)
      have kept: "\<forall>t\<in>C. map_of M1 t = map_of M t" "set (edges i) \<subseteq> C \<Longrightarrow> \<not> ok1"
        using "2.IH"(2) [OF new Some inner 2(5)] by simp_all
      show ?thesis
      proof (cases ok1)
        case True
        then have "s \<notin> C" using kept(2) Some 2(5) by (auto simp: closed_def)
        then show ?thesis using kept(1) new Some inner True 2(4) by (auto simp: update_conv')
      next
        case False
        have "M1 = M" using augment_seen(2) [OF inner False] .
        then show ?thesis
          using "2.IH"(3) [OF new Some inner [symmetric] refl False, of ok seen' M'] 2(4,5) new Some inner False
          by simp
      qed
    qed
  qed
qed

lemma in_update: "p \<in> set (AList.update k v al) \<Longrightarrow> p = (k, v) \<or> p \<in> set al"
  by (induction al) (auto split: if_splits)

lemma augment_edges:
  assumes "augment edges m ss seen M = (ok, seen', M')" "set ss \<subseteq> set (edges m)"
    "\<forall>(s, i)\<in>set M. s \<in> set (edges i)" "distinct (map fst M)"
  shows "(\<forall>(s, i)\<in>set M'. s \<in> set (edges i)) \<and> distinct (map fst M')"
  using assms
proof (induction edges m ss seen M arbitrary: ok seen' M' rule: augment.induct)
  case (1 edges m seen M)
  then show ?case by simp
next
  case (2 edges m s ss seen M)
  have put: "(\<forall>(t, i)\<in>set (AList.update s m N). t \<in> set (edges i)) \<and> distinct (map fst (AList.update s m N))"
    if "(\<forall>(t, i)\<in>set N. t \<in> set (edges i)) \<and> distinct (map fst N)" for N
    using that 2(5) by (auto simp: distinct_update dest!: in_update)
  show ?case
  proof (cases "s \<in> seen")
    case True
    with 2 show ?thesis by simp
  next
    case new: False
    show ?thesis
    proof (cases "map_of M s")
      case None
      then show ?thesis using new 2(4,6,7) put [of M] by auto
    next
      case (Some i)
      obtain ok1 seen1 M1 where inner: "augment edges i (sort (edges i)) (insert s seen) M = (ok1, seen1, M1)"
        by (metis prod_cases3)
      have one: "(\<forall>(s, i)\<in>set M1. s \<in> set (edges i)) \<and> distinct (map fst M1)"
        using "2.IH"(2) [OF new Some inner] 2(6,7) by simp
      show ?thesis
      proof (cases ok1)
        case True
        then show ?thesis using put [OF one] 2(4) new Some inner by auto
      next
        case False
        then show ?thesis
          using "2.IH"(3) [OF new Some inner [symmetric] refl False, of ok seen' M'] one 2(4,5) new Some inner
          by simp
      qed
    qed
  qed
qed


section \<open>The matching is maximum\<close>

text \<open>
  What holds once the members \<open>P\<close> have had their turn; \<open>C\<close> is the union of the sources the
  failed searches saw.
\<close>

definition matched :: "('m \<Rightarrow> 's list) \<Rightarrow> 'm set \<Rightarrow> 's set \<Rightarrow> ('s \<times> 'm) list \<Rightarrow> bool" where
  "matched edges P C M \<longleftrightarrow>
     distinct (map fst M) \<and> (\<forall>(s, i)\<in>set M. s \<in> set (edges i)) \<and> apart (map_of M) {} \<and>
     placed (map_of M) {} \<subseteq> P \<and> closed edges (map_of M) C \<and>
     (\<forall>m\<in>P - placed (map_of M) {}. set (edges m) \<subseteq> C)"

lemma matched_empty: "matched edges {} {} []"
  by (auto simp: matched_def apart_def placed_def closed_def)

lemma closed_agree: "closed edges f C \<Longrightarrow> \<forall>s\<in>C. f' s = f s \<Longrightarrow> closed edges f' C"
  by (auto simp: closed_def)

lemma matched_step:
  assumes "matched edges P C M" "m \<notin> P" "augment edges m (sort (edges m)) {} M = (ok, seen, M')"
  shows "\<exists>C'. matched edges (insert m P) C' M'"
proof -
  have wf: "distinct (map fst M)" "\<forall>(s, i)\<in>set M. s \<in> set (edges i)" and ap: "apart (map_of M) {}"
    and pl: "placed (map_of M) {} \<subseteq> P" and cl: "closed edges (map_of M) C"
    and left: "\<And>x. x \<in> P \<Longrightarrow> x \<notin> placed (map_of M) {} \<Longrightarrow> set (edges x) \<subseteq> C"
    using assms(1) by (auto simp: matched_def)
  have wf': "(\<forall>(s, i)\<in>set M'. s \<in> set (edges i)) \<and> distinct (map fst M')"
    using augment_edges [OF assms(3) _ wf(2,1)] by simp
  show ?thesis
  proof (cases ok)
    case True
    have "grown (map_of M) {} m (map_of M')"
      using augment_grows [OF _ ap, of edges m "sort (edges m)" seen M'] assms(2,3) pl True by auto
    moreover have "closed edges (map_of M') C"
      using augment_keeps_closed [OF assms(3) cl] closed_agree [OF cl] by simp
    ultimately have "matched edges (insert m P) C M'"
      using wf' pl left by (auto simp: matched_def grown_def)
    then show ?thesis by blast
  next
    case False
    have same: "M' = M" using augment_seen(2) [OF assms(3) False] .
    have seen: "set (edges m) \<subseteq> seen" "\<forall>s\<in>seen. \<exists>i. map_of M s = Some i \<and> set (edges i) \<subseteq> seen"
      using augment_closes [of edges m "sort (edges m)" "{}" M seen M'] assms(3) False by simp_all
    have "closed edges (map_of M) (C \<union> seen)"
      using cl seen(2) by (fastforce simp: closed_def)
    then have "matched edges (insert m P) (C \<union> seen) M'"
      using same wf ap pl left seen(1) by (auto simp: matched_def)
    then show ?thesis by blast
  qed
qed

lemma matched_members:
  assumes "matched edges P C M" "distinct ms" "set ms \<inter> P = {}"
  shows "\<exists>C'. matched edges (set ms \<union> P) C' (match_members edges ms M)"
  using assms
proof (induction ms arbitrary: P C M)
  case Nil
  then show ?case by auto
next
  case (Cons m ms)
  obtain ok seen M' where run: "augment edges m (sort (edges m)) {} M = (ok, seen, M')"
    by (metis prod_cases3)
  obtain C' where "matched edges (insert m P) C' M'"
    using matched_step [OF Cons.prems(1) _ run] Cons.prems(3) by auto
  from Cons.IH [OF this] Cons.prems(2,3) show ?case
    by (auto simp: run)
qed

text \<open>Distinct sources for the members \<open>T\<close>, each on an edge.\<close>

definition serves :: "('m \<Rightarrow> 's list) \<Rightarrow> 'm set \<Rightarrow> ('m \<Rightarrow> 's) \<Rightarrow> bool" where
  "serves edges T f \<longleftrightarrow> inj_on f T \<and> (\<forall>m\<in>T. f m \<in> set (edges m))"

lemma card_placed:
  assumes "finite (dom f)" shows "card (placed f A) \<le> card (dom f - A)"
proof -
  have "placed f A = (\<lambda>s. the (f s)) ` (dom f - A)"
    by (force simp: placed_def)
  then show ?thesis
    using assms by (simp add: card_image_le)
qed

lemma placed_finite: "finite (dom f) \<Longrightarrow> finite (placed f A)"
  by (rule finite_subset [of _ "(\<lambda>s. the (f s)) ` dom f"]) (force simp: placed_def)+

lemma served_bound:
  assumes "matched edges P C M" "serves edges T g" "T \<subseteq> P" "finite P"
  shows "card T \<le> length M"
proof -
  let ?f = "map_of M"
  have cl: "closed edges ?f C"
    and left: "\<And>m. m \<in> P \<Longrightarrow> m \<notin> placed ?f {} \<Longrightarrow> set (edges m) \<subseteq> C"
    and keys: "distinct (map fst M)"
    using assms(1) by (auto simp: matched_def)
  have sub: "C \<subseteq> dom ?f" using cl by (auto simp: closed_def)
  have fin: "finite (dom ?f)" by (rule finite_dom_map_of)
  have "{m\<in>T. g m \<notin> C} \<subseteq> placed ?f C"
  proof
    fix m assume "m \<in> {m\<in>T. g m \<notin> C}"
    then have m: "m \<in> P" "\<not> set (edges m) \<subseteq> C"
      using assms(2,3) by (auto simp: serves_def)
    then obtain s where "?f s = Some m" using left [OF m(1)] by (auto simp: placed_def)
    moreover have "s \<notin> C"
    proof
      assume "s \<in> C"
      with cl calculation have "set (edges m) \<subseteq> C" by (force simp: closed_def)
      with m(2) show False by simp
    qed
    ultimately show "m \<in> placed ?f C" by (auto simp: placed_def)
  qed
  then have "card {m\<in>T. g m \<notin> C} \<le> card (dom ?f - C)"
    using card_placed [OF fin, of C] fin
    by (meson card_mono finite_subset finite_imageI order_trans placed_finite)
  moreover have "card {m\<in>T. g m \<in> C} \<le> card C"
    using assms(2) sub fin by (intro card_inj_on_le [of g]) (auto simp: serves_def inj_on_def intro: finite_subset)
  moreover have "card T = card {m\<in>T. g m \<in> C} + card {m\<in>T. g m \<notin> C}"
    using finite_subset [OF assms(3,4)] by (subst card_Un_disjoint [symmetric]) (auto intro: arg_cong [where f = card])
  moreover have "card (dom ?f) = card C + card (dom ?f - C)"
    using sub fin by (metis card_mono card_Diff_subset finite_subset le_add_diff_inverse)
  moreover have "card (dom ?f) = length M"
    using distinct_card [OF keys] by (simp add: dom_map_of_conv_image_fst)
  ultimately show ?thesis by simp
qed


text \<open>The result as a whole: a matching along the edges, and no larger one exists.\<close>

lemma maximum_matching_exact:
  assumes "distinct members"
  shows matching_edges: "\<forall>(m, s)\<in>set (maximum_matching members edges). m \<in> set members \<and> s \<in> set (edges m)"
    and matching_distinct: "distinct (map fst (maximum_matching members edges))"
      "distinct (map snd (maximum_matching members edges))"
    and matching_maximum: "serves edges T g \<Longrightarrow> T \<subseteq> set members \<Longrightarrow> card T \<le> length (maximum_matching members edges)"
proof -
  let ?M = "match_members edges (sort members) []"
  obtain C where C: "matched edges (set members) C ?M"
    using matched_members [OF matched_empty, of "sort members" edges] assms by auto
  then have M: "distinct (map fst ?M)" "\<forall>(s, i)\<in>set ?M. s \<in> set (edges i)" "apart (map_of ?M) {}"
    "placed (map_of ?M) {} \<subseteq> set members"
    by (simp_all add: matched_def)
  have look: "map_of ?M s = Some i \<longleftrightarrow> (s, i) \<in> set ?M" for s i
    using M(1) by simp
  have shape: "mset (maximum_matching members edges) = image_mset (\<lambda>(s, m). (m, s)) (mset ?M)"
    by (simp add: maximum_matching_def)
  have len: "length (maximum_matching members edges) = length ?M"
    by (simp add: maximum_matching_def)
  have elems: "set (maximum_matching members edges) = (\<lambda>(s, m). (m, s)) ` set ?M"
    by (simp add: maximum_matching_def)
  show "\<forall>(m, s)\<in>set (maximum_matching members edges). m \<in> set members \<and> s \<in> set (edges m)"
    using M(2,4) by (auto simp: elems placed_def look)
  have "distinct (map snd ?M)"
  proof -
    have "inj_on snd (set ?M)"
      using M(3) unfolding inj_on_def apart_def look by (metis empty_iff prod.collapse)
    then show ?thesis
      using M(1) by (simp add: distinct_map)
  qed
  moreover have "mset (map fst (maximum_matching members edges)) = mset (map snd ?M)"
    using shape by (simp add: mset_map image_mset.compositionality comp_def case_prod_unfold)
  ultimately show "distinct (map fst (maximum_matching members edges))"
    using mset_eq_imp_distinct_iff by blast
  have "mset (map snd (maximum_matching members edges)) = mset (map fst ?M)"
    using shape by (simp add: mset_map image_mset.compositionality comp_def case_prod_unfold)
  then show "distinct (map snd (maximum_matching members edges))"
    using mset_eq_imp_distinct_iff M(1) by blast
  show "card T \<le> length (maximum_matching members edges)" if "serves edges T g" "T \<subseteq> set members"
    using served_bound [OF C that] len by simp
qed

text \<open>So its length is the number of members that can be served at once.\<close>

lemma matching_serves:
  assumes "distinct members"
  shows "serves edges (fst ` set (maximum_matching members edges)) (\<lambda>m. the (map_of (maximum_matching members edges) m))"
    "card (fst ` set (maximum_matching members edges)) = length (maximum_matching members edges)"
    "fst ` set (maximum_matching members edges) \<subseteq> set members"
proof -
  let ?A = "maximum_matching members edges"
  have d: "distinct (map fst ?A)" "distinct (map snd ?A)" and e: "\<forall>(m, s)\<in>set ?A. m \<in> set members \<and> s \<in> set (edges m)"
    using maximum_matching_exact [OF assms] by blast+
  have get: "(m, s) \<in> set ?A \<Longrightarrow> map_of ?A m = Some s" for m s
    using d(1) by simp
  show "serves edges (fst ` set ?A) (\<lambda>m. the (map_of ?A m))"
    using d(2) e by (fastforce simp: serves_def inj_on_def get distinct_map)
  show "card (fst ` set ?A) = length ?A"
    using distinct_card [OF d(1)] by simp
  show "fst ` set ?A \<subseteq> set members"
    using e by auto
qed

end
