(* ===== verification/Group_Copies.thy ===== *)
theory Group_Copies
  imports Group_Match
begin

text \<open>
  \<open>summarize_ownership\<close> and \<open>assess_copies\<close> of \<open>groups.py\<close>.  What the counts mean is stated
  over the worlds the facts allow: in each, every source owns the game or not and shares it
  with a member or not, and a member can play on a source that owns it and is its own or is
  shared with it.
\<close>


section \<open>Input checks\<close>

definition check_members :: "member_ref list \<Rightarrow> string + unit" where
  "check_members ms =
     bindE (raise_if (\<not> (2 \<le> length ms \<and> length ms \<le> 32)) ''a group requires between 2 and 32 members'') (\<lambda>_.
     raise_if (\<not> distinct ms) ''group members must be unique'')"

definition group_sources :: "member_ref list \<Rightarrow> copy_source list \<Rightarrow> string + copy_source list" where
  "group_sources ms extra =
     (let values = List.map for_member ms @ extra in
      bindE (raise_if (64 < length values) ''copy-source limit exceeded'') (\<lambda>_.
      bindE (raise_if (\<not> distinct values) ''copy sources must be distinct from members and each other'') (\<lambda>_.
      Inr values)))"

text \<open>The loop of \<open>_ownership_map\<close>; a dictionary is its list of items.\<close>

fun ownership_map :: "ownership_fact list \<Rightarrow> (copy_source \<times> ownership_state) list
    \<Rightarrow> string + (copy_source \<times> ownership_state) list" where
  "ownership_map [] result = Inr result"
| "ownership_map (f # facts) result =
     bindE (raise_if (of_source f \<in> fst ` set result) ''ownership facts must be unique per copy source'') (\<lambda>_.
     ownership_map facts (result @ [(of_source f, of_state f)]))"

definition host_modes :: "string list" where
  "host_modes = [''shared_split_coop'', ''shared_split_pvp'', ''remote_play_together'']"

definition per_participant_modes :: "string list" where
  "per_participant_modes = [''online_coop'', ''online_pvp'', ''lan_coop'', ''lan_pvp'']"

definition topology :: "member_ref list \<Rightarrow> string \<Rightarrow> member_ref option \<Rightarrow> string + (member_ref list \<times> int)" where
  "topology ms mode host =
     bindE (raise_if (mode \<notin> set (host_modes @ per_participant_modes)) ''exact multiplayer mode is invalid'') (\<lambda>_.
     if mode \<in> set host_modes
     then (case host of
         None \<Rightarrow> Inl ''host topology requires an explicitly selected host''
       | Some h \<Rightarrow>
           bindE (raise_if (h \<notin> set ms) ''host topology requires an explicitly selected host'') (\<lambda>_.
           Inr ([h], 1)))
     else bindE (raise_if (host \<noteq> None) ''online/LAN topology does not accept a host'') (\<lambda>_.
       Inr (ms, int (length ms))))"

text \<open>The loop that fills \<open>family_by_edge\<close>.\<close>

fun family_map :: "member_ref list \<Rightarrow> copy_source list \<Rightarrow> family_edge list
    \<Rightarrow> ((member_ref \<times> copy_source) \<times> family_state) list
    \<Rightarrow> string + ((member_ref \<times> copy_source) \<times> family_state) list" where
  "family_map ms sources [] result = Inr result"
| "family_map ms sources (e # es) result =
     bindE (raise_if (fe_member e \<notin> set ms \<or> fe_source e \<notin> set sources)
       ''family edge references an unselected subject'') (\<lambda>_.
     bindE (raise_if ((fe_member e, fe_source e) \<in> fst ` set result) ''family edges must be unique'') (\<lambda>_.
     family_map ms sources es (result @ [((fe_member e, fe_source e), fe_state e)])))"


section \<open>Ownership summary\<close>

definition summarize_ownership :: "member_ref list \<Rightarrow> ownership_fact list \<Rightarrow> string + ownership_summary" where
  "summarize_ownership members facts =
     bindE (check_members members) (\<lambda>_.
     bindE (ownership_map facts []) (\<lambda>by_source.
     let states = List.map (\<lambda>m. (m, case map_of by_source (for_member m) of Some s \<Rightarrow> s | None \<Rightarrow> Ownership_unknown)) members;
         values = List.map snd states;
         u = (if Owned \<in> set values then Owned
           else if list_all (\<lambda>s. s = Not_owned) values then Not_owned else Ownership_unknown);
         i = (if list_all (\<lambda>s. s = Owned) values then Owned
           else if Not_owned \<in> set values then Not_owned else Ownership_unknown)
     in Inr \<lparr>os_per_member = states, os_union = u, os_intersection = i\<rparr>))"


section \<open>Copies\<close>

datatype edge_state = Edge_known | Edge_possible | Edge_absent

definition self_edge :: "ownership_state \<Rightarrow> edge_state" where
  "self_edge st = (case st of Owned \<Rightarrow> Edge_known | Ownership_unknown \<Rightarrow> Edge_possible | Not_owned \<Rightarrow> Edge_absent)"

definition family_edge_state :: "ownership_state \<Rightarrow> family_state option \<Rightarrow> edge_state" where
  "family_edge_state own fam =
     (if fam = None \<or> fam = Some Unavailable \<or> own = Not_owned then Edge_absent
      else if fam = Some Available \<and> own = Owned then Edge_known
      else Edge_possible)"

definition source_state :: "(copy_source \<rightharpoonup> ownership_state) \<Rightarrow> copy_source \<Rightarrow> ownership_state" where
  "source_state owner s = (case owner s of Some st \<Rightarrow> st | None \<Rightarrow> Ownership_unknown)"

definition edge_of :: "(copy_source \<rightharpoonup> ownership_state) \<Rightarrow> (member_ref \<times> copy_source \<rightharpoonup> family_state)
    \<Rightarrow> member_ref \<Rightarrow> copy_source \<Rightarrow> edge_state" where
  "edge_of owner fam m s =
     (if s = for_member m then self_edge (source_state owner s)
      else family_edge_state (source_state owner s) (fam (m, s)))"

text \<open>\<open>edges.get(member, ())\<close>: a member outside the topology has no edges.\<close>

definition known_edges :: "(copy_source \<rightharpoonup> ownership_state) \<Rightarrow> (member_ref \<times> copy_source \<rightharpoonup> family_state)
    \<Rightarrow> copy_source list \<Rightarrow> member_ref list \<Rightarrow> member_ref \<Rightarrow> copy_source list" where
  "known_edges owner fam sources seats m =
     (if m \<in> set seats then [s \<leftarrow> sources. edge_of owner fam m s = Edge_known] else [])"

definition possible_edges :: "(copy_source \<rightharpoonup> ownership_state) \<Rightarrow> (member_ref \<times> copy_source \<rightharpoonup> family_state)
    \<Rightarrow> copy_source list \<Rightarrow> member_ref list \<Rightarrow> member_ref \<Rightarrow> copy_source list" where
  "possible_edges owner fam sources seats m =
     (if m \<in> set seats then [s \<leftarrow> sources. edge_of owner fam m s \<noteq> Edge_absent] else [])"

definition assess_copies :: "member_ref list \<Rightarrow> copy_source list \<Rightarrow> ownership_fact list \<Rightarrow> family_edge list
    \<Rightarrow> string \<Rightarrow> member_ref option \<Rightarrow> string + copy_assessment" where
  "assess_copies members extra ownership family mode host =
     bindE (check_members members) (\<lambda>_.
     bindE (topology members mode host) (\<lambda>(seats, required).
     bindE (group_sources members extra) (\<lambda>sources.
     bindE (ownership_map ownership []) (\<lambda>owned.
     bindE (raise_if (list_ex (\<lambda>f. of_source f \<notin> set sources) ownership)
       ''ownership fact references an unselected copy source'') (\<lambda>_.
     bindE (family_map members sources family []) (\<lambda>shared.
     let owner = map_of owned; fam = map_of shared;
         known = maximum_matching seats (known_edges owner fam sources seats);
         possible = maximum_matching seats (possible_edges owner fam sources seats);
         known_count = int (length known);
         possible_count = int (length possible)
     in bindE (make_missing (max 0 (required - possible_count)) (max 0 (required - known_count))) (\<lambda>missing.
     make_copy_assessment
       \<lparr>ca_required = required, ca_known = known_count, ca_possible = possible_count, ca_missing = missing,
        ca_guarantee = guarantee_of missing, ca_known_assignments = known,
        ca_possible_assignments = possible\<rparr>)))))))"


section \<open>The checks\<close>

definition fact_item :: "ownership_fact \<Rightarrow> copy_source \<times> ownership_state" where
  "fact_item f = (of_source f, of_state f)"

definition edge_item :: "family_edge \<Rightarrow> (member_ref \<times> copy_source) \<times> family_state" where
  "edge_item e = ((fe_member e, fe_source e), fe_state e)"

lemma ownership_map_Inr:
  "distinct (List.map fst result) \<Longrightarrow>
   ownership_map facts result = Inr r \<longleftrightarrow>
   r = result @ List.map fact_item facts \<and> distinct (List.map fst (result @ List.map fact_item facts))"
proof (induction facts arbitrary: result)
  case Nil
  then show ?case by auto
next
  case (Cons f fs)
  show ?case
  proof (cases "of_source f \<in> fst ` set result")
    case True
    then show ?thesis by (auto simp: fact_item_def)
  next
    case False
    then show ?thesis
      using Cons.prems Cons.IH [of "result @ [(of_source f, of_state f)]"] by (simp add: fact_item_def)
  qed
qed

lemma family_map_Inr:
  "distinct (List.map fst result) \<Longrightarrow>
   family_map ms sources es result = Inr r \<longleftrightarrow>
   r = result @ List.map edge_item es \<and> distinct (List.map fst (result @ List.map edge_item es)) \<and>
   (\<forall>e\<in>set es. fe_member e \<in> set ms \<and> fe_source e \<in> set sources)"
proof (induction es arbitrary: result)
  case Nil
  then show ?case by auto
next
  case (Cons e es)
  show ?case
  proof (cases "(fe_member e, fe_source e) \<in> fst ` set result")
    case True
    then show ?thesis by (auto simp: edge_item_def)
  next
    case False
    then show ?thesis
      using Cons.prems Cons.IH [of "result @ [((fe_member e, fe_source e), fe_state e)]"]
      by (auto simp: edge_item_def)
  qed
qed

lemma topology_Inr:
  "topology ms mode host = Inr (seats, n) \<Longrightarrow> distinct ms \<Longrightarrow>
   distinct seats \<and> set seats \<subseteq> set ms \<and> n = int (length seats)"
  by (auto simp: topology_def bindE_eq_Inr split: if_splits option.splits)


section \<open>Worlds\<close>

text \<open>
  A world says of each source whether it owns the game and of each member and source whether
  the source is shared with the member.  It agrees with the facts where they know; what no
  family edge lists is not shared, and what no ownership fact lists may be owned or not.
\<close>

record sharing_world =
  w_owns :: "copy_source \<Rightarrow> bool"
  w_shares :: "member_ref \<Rightarrow> copy_source \<Rightarrow> bool"

definition allows :: "ownership_fact list \<Rightarrow> family_edge list \<Rightarrow> sharing_world \<Rightarrow> bool" where
  "allows ownership family w \<longleftrightarrow>
     (\<forall>f\<in>set ownership. (of_state f = Owned \<longrightarrow> w_owns w (of_source f)) \<and>
        (of_state f = Not_owned \<longrightarrow> \<not> w_owns w (of_source f))) \<and>
     (\<forall>e\<in>set family. (fe_state e = Available \<longrightarrow> w_shares w (fe_member e) (fe_source e)) \<and>
        (fe_state e = Unavailable \<longrightarrow> \<not> w_shares w (fe_member e) (fe_source e))) \<and>
     (\<forall>m s. (m, s) \<notin> (\<lambda>e. (fe_member e, fe_source e)) ` set family \<longrightarrow> \<not> w_shares w m s)"

definition usable :: "sharing_world \<Rightarrow> member_ref \<Rightarrow> copy_source \<Rightarrow> bool" where
  "usable w m s \<longleftrightarrow> w_owns w s \<and> (s = for_member m \<or> w_shares w m s)"

text \<open>The members \<open>T\<close> can play at once: each on a source of its own choice, no two on one.\<close>

definition play_together :: "sharing_world \<Rightarrow> copy_source list \<Rightarrow> member_ref set \<Rightarrow> bool" where
  "play_together w sources T \<longleftrightarrow> (\<exists>f. inj_on f T \<and> (\<forall>m\<in>T. f m \<in> set sources \<and> usable w m (f m)))"

text \<open>The two extreme worlds: every unknown resolved against, or for, the group.\<close>

definition worst_world :: "(copy_source \<rightharpoonup> ownership_state) \<Rightarrow> (member_ref \<times> copy_source \<rightharpoonup> family_state) \<Rightarrow> sharing_world" where
  "worst_world owner fam = \<lparr>w_owns = \<lambda>s. owner s = Some Owned, w_shares = \<lambda>m s. fam (m, s) = Some Available\<rparr>"

definition best_world :: "(copy_source \<rightharpoonup> ownership_state) \<Rightarrow> (member_ref \<times> copy_source \<rightharpoonup> family_state) \<Rightarrow> sharing_world" where
  "best_world owner fam = \<lparr>w_owns = \<lambda>s. owner s \<noteq> Some Not_owned,
     w_shares = \<lambda>m s. fam (m, s) \<noteq> None \<and> fam (m, s) \<noteq> Some Unavailable\<rparr>"

lemma edge_known_worst: "edge_of owner fam m s = Edge_known \<longleftrightarrow> usable (worst_world owner fam) m s"
  by (auto simp: edge_of_def self_edge_def family_edge_state_def source_state_def usable_def worst_world_def
      split: option.splits ownership_state.splits)

lemma edge_possible_best: "edge_of owner fam m s \<noteq> Edge_absent \<longleftrightarrow> usable (best_world owner fam) m s"
  by (auto simp: edge_of_def self_edge_def family_edge_state_def source_state_def usable_def best_world_def
      split: option.splits ownership_state.splits)

text \<open>The two dictionaries say what the facts say.\<close>

definition reflects :: "ownership_fact list \<Rightarrow> family_edge list \<Rightarrow> (copy_source \<rightharpoonup> ownership_state)
    \<Rightarrow> (member_ref \<times> copy_source \<rightharpoonup> family_state) \<Rightarrow> bool" where
  "reflects ownership family owner fam \<longleftrightarrow>
     (\<forall>s st. owner s = Some st \<longleftrightarrow> \<lparr>of_source = s, of_state = st\<rparr> \<in> set ownership) \<and>
     (\<forall>m s fs. fam (m, s) = Some fs \<longleftrightarrow> \<lparr>fe_member = m, fe_source = s, fe_state = fs\<rparr> \<in> set family)"

lemma fact_record [simp]:
  "\<lparr>of_source = of_source f, of_state = of_state f\<rparr> = f"
  "\<lparr>fe_member = fe_member e, fe_source = fe_source e, fe_state = fe_state e\<rparr> = e"
  by (cases f, simp) (cases e, simp)

lemma reflected:
  assumes "reflects ownership family owner fam"
  shows owner_iff: "owner s = Some st \<longleftrightarrow> \<lparr>of_source = s, of_state = st\<rparr> \<in> set ownership"
    and fam_iff: "fam (m, s) = Some fs \<longleftrightarrow> \<lparr>fe_member = m, fe_source = s, fe_state = fs\<rparr> \<in> set family"
    and owner_fact: "f \<in> set ownership \<Longrightarrow> owner (of_source f) = Some (of_state f)"
    and family_fact: "e \<in> set family \<Longrightarrow> fam (fe_member e, fe_source e) = Some (fe_state e)"
  using assms by (simp_all add: reflects_def)

lemma unlisted:
  assumes "reflects ownership family owner fam" "(m, s) \<notin> (\<lambda>e. (fe_member e, fe_source e)) ` set family"
  shows "fam (m, s) = None"
  using assms(2) fam_iff [OF assms(1)] by (cases "fam (m, s)") (force simp: image_iff)+

lemma worst_allowed: "reflects ownership family owner fam \<Longrightarrow> allows ownership family (worst_world owner fam)"
  by (auto simp: allows_def worst_world_def owner_fact family_fact unlisted)

lemma best_allowed: "reflects ownership family owner fam \<Longrightarrow> allows ownership family (best_world owner fam)"
  by (auto simp: allows_def best_world_def owner_fact family_fact unlisted)

lemma worst_usable:
  assumes "reflects ownership family owner fam" "allows ownership family w" "usable (worst_world owner fam) m s"
  shows "usable w m s"
  using assms by (fastforce simp: usable_def worst_world_def allows_def owner_iff [OF assms(1)] fam_iff [OF assms(1)])

lemma usable_best:
  assumes r: "reflects ownership family owner fam" and a: "allows ownership family w" and u: "usable w m s"
  shows "usable (best_world owner fam) m s"
proof -
  have "owner s \<noteq> Some Not_owned"
    using a u by (fastforce simp: usable_def allows_def owner_iff [OF r])
  moreover have "fam (m, s) \<noteq> None \<and> fam (m, s) \<noteq> Some Unavailable" if "w_shares w m s"
  proof
    have "(m, s) \<in> (\<lambda>e. (fe_member e, fe_source e)) ` set family"
      using a that unfolding allows_def by blast
    then show "fam (m, s) \<noteq> None"
      using family_fact [OF r] by auto
    show "fam (m, s) \<noteq> Some Unavailable"
      using a that by (fastforce simp: allows_def fam_iff [OF r])
  qed
  ultimately show ?thesis
    using u by (auto simp: usable_def best_world_def)
qed

lemma play_worst:
  "reflects ownership family owner fam \<Longrightarrow> allows ownership family w \<Longrightarrow>
   play_together (worst_world owner fam) sources T \<Longrightarrow> play_together w sources T"
  unfolding play_together_def using worst_usable by blast

lemma play_best:
  "reflects ownership family owner fam \<Longrightarrow> allows ownership family w \<Longrightarrow>
   play_together w sources T \<Longrightarrow> play_together (best_world owner fam) sources T"
  unfolding play_together_def using usable_best by blast


section \<open>The assessment\<close>

lemma items_reflect:
  assumes "distinct (List.map of_source ownership)" "distinct (List.map (\<lambda>e. (fe_member e, fe_source e)) family)"
  shows "reflects ownership family (map_of (List.map fact_item ownership)) (map_of (List.map edge_item family))"
  unfolding reflects_def
proof (intro conjI allI)
  show "map_of (List.map fact_item ownership) s = Some st \<longleftrightarrow> \<lparr>of_source = s, of_state = st\<rparr> \<in> set ownership" for s st
    using assms(1) by (subst map_of_eq_Some_iff) (auto simp: fact_item_def comp_def image_iff intro: rev_bexI)
  show "map_of (List.map edge_item family) (m, s) = Some fs \<longleftrightarrow>
      \<lparr>fe_member = m, fe_source = s, fe_state = fs\<rparr> \<in> set family" for m s fs
    using assms(2) by (subst map_of_eq_Some_iff) (auto simp: edge_item_def comp_def image_iff intro: rev_bexI)
qed

lemma serves_known:
  "serves (known_edges owner fam sources seats) T f \<longleftrightarrow>
   inj_on f T \<and> T \<subseteq> set seats \<and> (\<forall>m\<in>T. f m \<in> set sources \<and> usable (worst_world owner fam) m (f m))"
  by (auto simp: serves_def known_edges_def edge_known_worst split: if_splits)

lemma serves_possible:
  "serves (possible_edges owner fam sources seats) T f \<longleftrightarrow>
   inj_on f T \<and> T \<subseteq> set seats \<and> (\<forall>m\<in>T. f m \<in> set sources \<and> usable (best_world owner fam) m (f m))"
  by (auto simp: serves_def possible_edges_def edge_possible_best split: if_splits)

text \<open>A maximum matching counts the most members that play at once in a world.\<close>

definition most_players :: "sharing_world \<Rightarrow> copy_source list \<Rightarrow> member_ref set \<Rightarrow> nat \<Rightarrow> bool" where
  "most_players w sources seats n \<longleftrightarrow>
     (\<exists>T\<subseteq>seats. play_together w sources T \<and> card T = n) \<and>
     (\<forall>T\<subseteq>seats. play_together w sources T \<longrightarrow> card T \<le> n)"

lemma matching_most:
  assumes "distinct seats"
    and serves: "\<And>T f. serves edges T f \<longleftrightarrow>
      inj_on f T \<and> T \<subseteq> set seats \<and> (\<forall>m\<in>T. f m \<in> set sources \<and> usable w m (f m))"
  shows "most_players w sources (set seats) (length (maximum_matching seats edges))"
  unfolding most_players_def play_together_def
proof (intro conjI allI impI)
  show "\<exists>T\<subseteq>set seats. (\<exists>f. inj_on f T \<and> (\<forall>m\<in>T. f m \<in> set sources \<and> usable w m (f m))) \<and>
      card T = length (maximum_matching seats edges)"
    using matching_serves [OF assms(1), of edges] unfolding serves by blast
  show "card T \<le> length (maximum_matching seats edges)"
    if "T \<subseteq> set seats" "\<exists>f. inj_on f T \<and> (\<forall>m\<in>T. f m \<in> set sources \<and> usable w m (f m))" for T
    using matching_maximum [OF assms(1) _ that(1)] that serves by blast
qed

end
