(* ===== verification/Group_Copy_Props.thy ===== *)
theory Group_Copy_Props
  imports Group_Copies
begin

text \<open>
  What an assessment of copies says: it is made for exactly the inputs that pass the checks,
  its two counts are the members that play at once in the worst and the best world the facts
  allow, and its guarantee class quantifies over all of them.
\<close>

definition group_seats :: "member_ref list \<Rightarrow> string \<Rightarrow> member_ref option \<Rightarrow> member_ref list" where
  "group_seats members mode host =
     (if mode \<in> set host_modes then (case host of None \<Rightarrow> [] | Some h \<Rightarrow> [h]) else members)"

definition copies_input_ok :: "member_ref list \<Rightarrow> copy_source list \<Rightarrow> ownership_fact list \<Rightarrow> family_edge list
    \<Rightarrow> string \<Rightarrow> member_ref option \<Rightarrow> bool" where
  "copies_input_ok members extra ownership family mode host \<longleftrightarrow>
     2 \<le> length members \<and> length members \<le> 32 \<and> distinct members \<and>
     (if mode \<in> set host_modes then \<exists>h\<in>set members. host = Some h
      else mode \<in> set per_participant_modes \<and> host = None) \<and>
     length members + length extra \<le> 64 \<and> distinct (List.map for_member members @ extra) \<and>
     distinct (List.map of_source ownership) \<and>
     of_source ` set ownership \<subseteq> set (List.map for_member members @ extra) \<and>
     distinct (List.map (\<lambda>e. (fe_member e, fe_source e)) family) \<and>
     (\<forall>e\<in>set family. fe_member e \<in> set members \<and> fe_source e \<in> set (List.map for_member members @ extra))"

lemma topology_exact:
  "topology members mode host = Inr (seats, n) \<longleftrightarrow>
   (if mode \<in> set host_modes then \<exists>h\<in>set members. host = Some h
    else mode \<in> set per_participant_modes \<and> host = None) \<and>
   seats = group_seats members mode host \<and> n = int (length seats)"
  by (auto simp: topology_def group_seats_def bindE_eq_Inr split: option.splits)

lemma seats_ok:
  "copies_input_ok members extra ownership family mode host \<Longrightarrow>
   distinct (group_seats members mode host) \<and> set (group_seats members mode host) \<subseteq> set members"
  by (auto simp: copies_input_ok_def group_seats_def split: if_splits)

text \<open>The assessment, once the checks are passed.\<close>

definition assessed :: "member_ref list \<Rightarrow> copy_source list \<Rightarrow> (copy_source \<rightharpoonup> ownership_state)
    \<Rightarrow> (member_ref \<times> copy_source \<rightharpoonup> family_state) \<Rightarrow> copy_assessment" where
  "assessed seats sources owner fam =
     (let known = maximum_matching seats (known_edges owner fam sources seats);
          possible = maximum_matching seats (possible_edges owner fam sources seats);
          missing = \<lparr>mc_minimum = int (length seats) - int (length possible),
            mc_maximum = int (length seats) - int (length known)\<rparr>
      in \<lparr>ca_required = int (length seats), ca_known = int (length known), ca_possible = int (length possible),
          ca_missing = missing, ca_guarantee = guarantee_of missing, ca_known_assignments = known,
          ca_possible_assignments = possible\<rparr>)"

lemma most_players_unique: "most_players w sources seats m \<Longrightarrow> most_players w sources seats n \<Longrightarrow> m = n"
  unfolding most_players_def by (meson order_antisym)

lemma counts_most:
  assumes "distinct seats"
  shows "most_players (worst_world owner fam) sources (set seats)
      (length (maximum_matching seats (known_edges owner fam sources seats)))"
    "most_players (best_world owner fam) sources (set seats)
      (length (maximum_matching seats (possible_edges owner fam sources seats)))"
  by (rule matching_most [OF assms serves_known]) (rule matching_most [OF assms serves_possible])

lemma most_le_seats: "most_players w sources (set seats) n \<Longrightarrow> distinct seats \<Longrightarrow> n \<le> length seats"
  unfolding most_players_def by (metis List.finite_set card_mono distinct_card)

lemma known_le_possible:
  assumes "distinct seats" "reflects ownership family owner fam"
  shows "length (maximum_matching seats (known_edges owner fam sources seats))
      \<le> length (maximum_matching seats (possible_edges owner fam sources seats))"
  using counts_most [OF assms(1), of owner fam sources]
    play_best [OF assms(2) worst_allowed [OF assms(2)]]
  unfolding most_players_def by metis

lemma make_assessed:
  assumes "distinct seats" "reflects ownership family owner fam"
  shows "make_missing
      (max 0 (int (length seats) - int (length (maximum_matching seats (possible_edges owner fam sources seats)))))
      (max 0 (int (length seats) - int (length (maximum_matching seats (known_edges owner fam sources seats)))))
      = Inr (ca_missing (assessed seats sources owner fam))"
    and "make_copy_assessment (assessed seats sources owner fam) = Inr (assessed seats sources owner fam)"
proof -
  have "length (maximum_matching seats (possible_edges owner fam sources seats)) \<le> length seats"
    by (rule most_le_seats [OF counts_most(2) [OF assms(1)] assms(1)])
  moreover note known_le_possible [OF assms, of sources]
  ultimately show "make_missing
      (max 0 (int (length seats) - int (length (maximum_matching seats (possible_edges owner fam sources seats)))))
      (max 0 (int (length seats) - int (length (maximum_matching seats (known_edges owner fam sources seats)))))
      = Inr (ca_missing (assessed seats sources owner fam))"
    "make_copy_assessment (assessed seats sources owner fam) = Inr (assessed seats sources owner fam)"
    by (simp_all add: make_missing_def make_copy_assessment_def assessed_def Let_def)
qed

lemma assess_copies_eq:
  "case assess_copies members extra ownership family mode host of
     Inl _ \<Rightarrow> \<not> copies_input_ok members extra ownership family mode host
   | Inr a \<Rightarrow> copies_input_ok members extra ownership family mode host \<and>
       a = assessed (group_seats members mode host) (List.map for_member members @ extra)
         (map_of (List.map fact_item ownership)) (map_of (List.map edge_item family))"
proof (cases "copies_input_ok members extra ownership family mode host")
  case True
  define sources where "sources = List.map for_member members @ extra"
  let ?seats = "group_seats members mode host"
  let ?owner = "map_of (List.map fact_item ownership)" and ?fam = "map_of (List.map edge_item family)"
  have r: "reflects ownership family ?owner ?fam"
    using True by (intro items_reflect) (auto simp: copies_input_ok_def)
  have checks: "check_members members = Inr ()" "group_sources members extra = Inr sources"
    "topology members mode host = Inr (?seats, int (length ?seats))"
    "ownership_map ownership [] = Inr (List.map fact_item ownership)"
    "family_map members sources family [] = Inr (List.map edge_item family)"
    "\<not> list_ex (\<lambda>f. of_source f \<notin> set sources) ownership"
    using True
    by (auto simp: sources_def copies_input_ok_def check_members_def group_sources_def topology_exact ownership_map_Inr
        family_map_Inr fact_item_def edge_item_def comp_def list_ex_iff Let_def)
  have "assess_copies members extra ownership family mode host = Inr (assessed ?seats sources ?owner ?fam)"
    using make_assessed [OF _ r, of ?seats sources] seats_ok [OF True]
    by (simp add: assess_copies_def checks Let_def) (simp add: assessed_def Let_def)
  then show ?thesis using True by (simp add: sources_def)
next
  case False
  have "copies_input_ok members extra ownership family mode host"
    if "assess_copies members extra ownership family mode host = Inr a" for a
  proof -
    from that obtain seats n sources owned shared where
      "check_members members = Inr ()" "topology members mode host = Inr (seats, n)"
      "group_sources members extra = Inr sources" "ownership_map ownership [] = Inr owned"
      "\<not> list_ex (\<lambda>f. of_source f \<notin> set sources) ownership"
      "family_map members sources family [] = Inr shared"
      by (auto simp: assess_copies_def bindE_eq_Inr split: prod.splits if_splits)
    then show ?thesis
      by (auto simp: copies_input_ok_def check_members_def group_sources_def bindE_eq_Inr
          topology_exact ownership_map_Inr family_map_Inr fact_item_def edge_item_def comp_def list_ex_iff Let_def
          split: if_splits)
  qed
  with False show ?thesis by (auto split: sum.splits)
qed

lemma assessed_parts:
  assumes "assess_copies members extra ownership family mode host = Inr a"
  obtains owner fam seats sources where "reflects ownership family owner fam" "distinct seats"
    "seats = group_seats members mode host" "sources = List.map for_member members @ extra"
    "a = assessed seats sources owner fam"
    "copies_input_ok members extra ownership family mode host"
proof
  have ok: "copies_input_ok members extra ownership family mode host"
    using assess_copies_eq [of members extra ownership family mode host] assms by simp
  then show "reflects ownership family (map_of (List.map fact_item ownership)) (map_of (List.map edge_item family))"
    by (intro items_reflect) (auto simp: copies_input_ok_def)
  show "distinct (group_seats members mode host)"
    using seats_ok [OF ok] by simp
  show "a = assessed (group_seats members mode host) (List.map for_member members @ extra)
      (map_of (List.map fact_item ownership)) (map_of (List.map edge_item family))"
    using assess_copies_eq [of members extra ownership family mode host] assms by simp
  show "copies_input_ok members extra ownership family mode host" by (rule ok)
qed simp_all


lemma most_all:
  assumes "most_players w sources (set seats) n" "distinct seats"
  shows "play_together w sources (set seats) \<longleftrightarrow> n = length seats"
proof
  assume "play_together w sources (set seats)"
  then show "n = length seats"
    using assms most_le_seats [OF assms] distinct_card [OF assms(2)]
    unfolding most_players_def by (metis order_antisym subset_refl)
next
  assume "n = length seats"
  then obtain T where "T \<subseteq> set seats" "play_together w sources T" "card T = card (set seats)"
    using assms by (auto simp: most_players_def distinct_card)
  then show "play_together w sources (set seats)"
    by (metis List.finite_set card_subset_eq)
qed


section \<open>Properties\<close>

text \<open>An assessment of copies is made for exactly the inputs that pass the documented
  checks; on them neither the missing-copy range nor the consistency checks of
  \<open>CopyAssessment\<close> ever refuse what the matchings computed.\<close>

theorem copies_assessed:
  "(\<exists>a. assess_copies members extra ownership family mode host = Inr a) \<longleftrightarrow>
   copies_input_ok members extra ownership family mode host"
  using assess_copies_eq [of members extra ownership family mode host] by (auto split: sum.splits)

text \<open>C23. The known count is the number of members that can play at once however the unknown
  facts turn out, and no better one holds for every world; the possible count is the most
  that play at once in any world the facts allow, and some world reaches it.\<close>

theorem copy_counts_exact:
  assumes "assess_copies members extra ownership family mode host = Inr a"
  defines "sources \<equiv> List.map for_member members @ extra" and "seats \<equiv> set (group_seats members mode host)"
  shows "(\<forall>w. allows ownership family w \<longrightarrow> (\<exists>T\<subseteq>seats. play_together w sources T \<and> int (card T) = ca_known a))
    \<and> (\<exists>w. allows ownership family w \<and> (\<forall>T\<subseteq>seats. play_together w sources T \<longrightarrow> int (card T) \<le> ca_known a))
    \<and> (\<forall>w T. allows ownership family w \<and> T \<subseteq> seats \<and> play_together w sources T \<longrightarrow> int (card T) \<le> ca_possible a)
    \<and> (\<exists>w T. allows ownership family w \<and> T \<subseteq> seats \<and> play_together w sources T \<and> int (card T) = ca_possible a)"
proof -
  obtain owner fam where p: "reflects ownership family owner fam" "distinct (group_seats members mode host)"
    "a = assessed (group_seats members mode host) sources owner fam"
    using assms(1) unfolding sources_def by (rule assessed_parts) blast
  have worst: "most_players (worst_world owner fam) sources seats (nat (ca_known a))"
    and best: "most_players (best_world owner fam) sources seats (nat (ca_possible a))"
    using counts_most [OF p(2)] by (simp_all add: p(3) assessed_def Let_def seats_def)
  have pos: "int (nat (ca_known a)) = ca_known a" "int (nat (ca_possible a)) = ca_possible a"
    by (simp_all add: p(3) assessed_def Let_def)
  show ?thesis
    using worst best worst_allowed [OF p(1)] best_allowed [OF p(1)] play_worst [OF p(1)] play_best [OF p(1)] pos
    unfolding most_players_def by (smt (verit, best) zle_int)
qed

text \<open>C24. The guarantee class speaks about every world the facts allow: guaranteed means that
  in all of them every seat is served, insufficient that in none of them, conditional that in
  some and not in others.\<close>

theorem copy_guarantee_exact:
  assumes "assess_copies members extra ownership family mode host = Inr a"
  defines "served \<equiv> \<lambda>w. play_together w (List.map for_member members @ extra) (set (group_seats members mode host))"
  shows "(ca_guarantee a = Guaranteed \<longleftrightarrow> (\<forall>w. allows ownership family w \<longrightarrow> served w)) \<and>
    (ca_guarantee a = Insufficient \<longleftrightarrow> (\<forall>w. allows ownership family w \<longrightarrow> \<not> served w)) \<and>
    (ca_guarantee a = Conditional \<longleftrightarrow>
      (\<exists>w. allows ownership family w \<and> served w) \<and> (\<exists>w. allows ownership family w \<and> \<not> served w))"
proof -
  obtain owner fam seats sources where p: "reflects ownership family owner fam" "distinct seats"
    "a = assessed seats sources owner fam"
    and served: "served = (\<lambda>w. play_together w sources (set seats))"
    using assms by (metis assessed_parts)
  let ?known = "maximum_matching seats (known_edges owner fam sources seats)"
  let ?possible = "maximum_matching seats (possible_edges owner fam sources seats)"
  have "ca_guarantee a = Guaranteed \<longleftrightarrow> length ?known = length seats"
    "ca_guarantee a = Insufficient \<longleftrightarrow> length ?possible \<noteq> length seats"
    using known_le_possible [OF p(2,1), of sources] most_le_seats [OF counts_most(2) [OF p(2)] p(2), of owner fam sources]
    by (auto simp: p(3) assessed_def Let_def guarantee_of_def)
  moreover have "served (worst_world owner fam) \<longleftrightarrow> length ?known = length seats"
    "served (best_world owner fam) \<longleftrightarrow> length ?possible = length seats"
    unfolding served using counts_most [OF p(2), of owner fam sources] most_all [OF _ p(2)] by blast+
  moreover have "allows ownership family w \<Longrightarrow> served (worst_world owner fam) \<Longrightarrow> served w"
    "allows ownership family w \<Longrightarrow> served w \<Longrightarrow> served (best_world owner fam)" for w
    unfolding served using play_worst [OF p(1)] play_best [OF p(1)] by blast+
  moreover note worst_allowed [OF p(1)] best_allowed [OF p(1)]
  moreover have "ca_guarantee a = Conditional \<longleftrightarrow> ca_guarantee a \<noteq> Guaranteed \<and> ca_guarantee a \<noteq> Insufficient"
    by (cases "ca_guarantee a") simp_all
  ultimately show ?thesis by metis
qed


section \<open>A group of three\<close>

definition ana :: member_ref where "ana = MemberRef Account ''ana''"
definition ben :: member_ref where "ben = MemberRef Account ''ben''"
definition cat :: member_ref where "cat = MemberRef Synthetic ''cat''"

text \<open>\<open>ana\<close> owns the game and shares it with \<open>ben\<close>; whether \<open>ben\<close> owns it is unknown.\<close>

definition demo_facts :: "ownership_fact list" where
  "demo_facts = [\<lparr>of_source = for_member ana, of_state = Owned\<rparr>, \<lparr>of_source = for_member cat, of_state = Owned\<rparr>]"

definition demo_family :: "family_edge list" where
  "demo_family = [\<lparr>fe_member = ben, fe_source = for_member ana, fe_state = Available\<rparr>]"

definition demo_copies :: copy_assessment where
  "demo_copies = \<lparr>ca_required = 3, ca_known = 2, ca_possible = 3,
     ca_missing = \<lparr>mc_minimum = 0, mc_maximum = 1\<rparr>, ca_guarantee = Conditional,
     ca_known_assignments = [(ana, for_member ana), (cat, for_member cat)],
     ca_possible_assignments = [(ana, for_member ana), (ben, for_member ben), (cat, for_member cat)]\<rparr>"

lemma demo_assessed:
  "assess_copies [ben, ana, cat] [] demo_facts demo_family ''online_coop'' None = Inr demo_copies"
  by code_simp

theorem copy_counts_exact_witness:
  "(\<exists>w. allows demo_facts demo_family w \<and>
      (\<forall>T\<subseteq>{ana, ben, cat}. play_together w [for_member ben, for_member ana, for_member cat] T \<longrightarrow> card T \<le> 2))"
  using copy_counts_exact [OF demo_assessed]
  by (simp add: group_seats_def host_modes_def demo_copies_def insert_commute)

theorem copy_guarantee_exact_witness:
  "\<exists>w. allows demo_facts demo_family w \<and>
     play_together w [for_member ben, for_member ana, for_member cat] {ana, ben, cat}"
  using copy_guarantee_exact [OF demo_assessed]
  by (simp add: group_seats_def host_modes_def demo_copies_def insert_commute)

end
