(* ===== verification/Group_Rank.thy ===== *)
theory Group_Rank
  imports Group_Copy_Props
begin

text \<open>
  Eligibility, preferences and the ranking objectives of \<open>groups.py\<close>.  A frozenset of IDs is
  a finite set.
\<close>


section \<open>Eligibility\<close>

record player_limits =
  pl_minimum :: "int option"
  pl_maximum :: "int option"
  pl_conflicting :: bool

definition make_player_limits :: "int option \<Rightarrow> int option \<Rightarrow> bool \<Rightarrow> string + player_limits" where
  "make_player_limits lo hi conflicting =
     bindE (raise_if (case lo of None \<Rightarrow> False | Some n \<Rightarrow> n < 1) ''player minimum is invalid'') (\<lambda>_.
     bindE (raise_if (case hi of None \<Rightarrow> False | Some n \<Rightarrow> n < 1) ''player maximum is invalid'') (\<lambda>_.
     bindE (raise_if (\<not> conflicting \<and> (case (lo, hi) of (Some a, Some b) \<Rightarrow> b < a | _ \<Rightarrow> False))
       ''player limits are inverted'') (\<lambda>_.
     Inr \<lparr>pl_minimum = lo, pl_maximum = hi, pl_conflicting = conflicting\<rparr>)))"

definition slug_end :: "char \<Rightarrow> bool" where
  "slug_end c \<longleftrightarrow> (97 \<le> code c \<and> code c \<le> 122) \<or> is_digit c"

definition slug_char :: "char \<Rightarrow> bool" where
  "slug_char c \<longleftrightarrow> slug_end c \<or> c = CHR ''.'' \<or> c = CHR ''_'' \<or> c = CHR ''-''"

text \<open>\<open>user:[a-z0-9](?:[a-z0-9._-]{0,57}[a-z0-9])?\<close>\<close>

definition policy_matches :: "string \<Rightarrow> bool" where
  "policy_matches s \<longleftrightarrow>
     prefix ''user:'' s \<and>
     (let slug = drop 5 s in slug \<noteq> [] \<and> length slug \<le> 59 \<and> slug_end (hd slug) \<and> slug_end (last slug) \<and>
        list_all slug_char slug)"

record policy_fact =
  pf_member :: member_ref
  pf_policy :: string
  pf_state :: group_gate

definition make_policy_fact :: "member_ref \<Rightarrow> string \<Rightarrow> group_gate \<Rightarrow> string + policy_fact" where
  "make_policy_fact m p st =
     bindE (raise_if (\<not> policy_matches p) ''policy must be a bounded user: slug'') (\<lambda>_.
     Inr \<lparr>pf_member = m, pf_policy = p, pf_state = st\<rparr>)"

record group_eligibility =
  el_state :: group_gate
  el_gates :: "(string \<times> group_gate) list"

text \<open>The first gate that fails, else the first that is unknown, decides.\<close>

definition combined :: "group_gate list \<Rightarrow> group_gate" where
  "combined states = (if Gate_fail \<in> set states then Gate_fail
     else if Gate_unknown \<in> set states then Gate_unknown else Gate_pass)"

text \<open>\<open>EligibilityGate\<close> and \<open>EligibilityAssessment\<close> with their checks.\<close>

definition make_eligibility :: "group_gate \<Rightarrow> (string \<times> group_gate) list \<Rightarrow> string + group_eligibility" where
  "make_eligibility st gates =
     bindE (raise_if (list_ex (\<lambda>g. fst g \<notin> {''mode'', ''player_count'', ''policy''}) gates)
       ''eligibility gate name is invalid'') (\<lambda>_.
     bindE (raise_if (gates = []) ''eligibility gates must be a non-empty tuple'') (\<lambda>_.
     bindE (raise_if (st \<noteq> combined (List.map snd gates)) ''eligibility state is inconsistent with its gates'') (\<lambda>_.
     Inr \<lparr>el_state = st, el_gates = gates\<rparr>)))"

definition count_state :: "int \<Rightarrow> group_gate \<Rightarrow> player_limits \<Rightarrow> group_gate" where
  "count_state n mode_state limits =
     (if pl_conflicting limits then Gate_unknown
      else if (case pl_minimum limits of None \<Rightarrow> False | Some lo \<Rightarrow> n < lo) then Gate_fail
      else if (case pl_maximum limits of None \<Rightarrow> False | Some hi \<Rightarrow> hi < n) then Gate_fail
      else if mode_state \<noteq> Gate_pass then Gate_unknown
      else if n = 2 \<or> (case pl_maximum limits of None \<Rightarrow> False | Some hi \<Rightarrow> n \<le> hi) then Gate_pass
      else Gate_unknown)"

fun policy_map :: "member_ref list \<Rightarrow> string \<Rightarrow> policy_fact list \<Rightarrow> (member_ref \<times> group_gate) list
    \<Rightarrow> string + (member_ref \<times> group_gate) list" where
  "policy_map ms required [] result = Inr result"
| "policy_map ms required (f # fs) result =
     bindE (raise_if (pf_policy f \<noteq> required \<or> pf_member f \<notin> set ms)
       ''policy fact does not match the all-member request'') (\<lambda>_.
     bindE (raise_if (pf_member f \<in> fst ` set result) ''policy facts must be unique per member'') (\<lambda>_.
     policy_map ms required fs (result @ [(pf_member f, pf_state f)])))"

definition policy_state :: "member_ref list \<Rightarrow> string option \<Rightarrow> policy_fact list \<Rightarrow> string + group_gate" where
  "policy_state ms required facts = (case required of
       None \<Rightarrow> bindE (raise_if (facts \<noteq> []) ''policy facts require a requested policy'') (\<lambda>_. Inr Gate_pass)
     | Some p \<Rightarrow>
         bindE (raise_if (\<not> policy_matches p) ''policy must be a bounded user: slug'') (\<lambda>_.
         bindE (policy_map ms p facts []) (\<lambda>by_member.
         Inr (combined (List.map (\<lambda>m. case map_of by_member m of Some st \<Rightarrow> st | None \<Rightarrow> Gate_unknown) ms)))))"

definition assess_eligibility :: "member_ref list \<Rightarrow> group_gate \<Rightarrow> player_limits \<Rightarrow> string option
    \<Rightarrow> policy_fact list \<Rightarrow> string + group_eligibility" where
  "assess_eligibility members mode_state limits required facts =
     bindE (check_members members) (\<lambda>_.
     let players = count_state (int (length members)) mode_state limits in
     bindE (policy_state members required facts) (\<lambda>pol.
     let gates = [(''mode'', mode_state), (''player_count'', players), (''policy'', pol)] in
     make_eligibility (combined (List.map snd gates)) gates))"


section \<open>Preferences\<close>

record feature_set =
  fs_appid :: int
  fs_genres :: "int fset"
  fs_categories :: "int fset"
  fs_known :: bool

definition make_feature_set :: "int \<Rightarrow> int fset \<Rightarrow> int fset \<Rightarrow> bool \<Rightarrow> string + feature_set" where
  "make_feature_set appid genres categories known =
     bindE (raise_if (appid_error appid) ''appid is invalid'') (\<lambda>_.
     bindE (raise_if (512 < fcard genres) ''genre_ids must be a bounded frozenset'') (\<lambda>_.
     bindE (raise_if (fBex genres (\<lambda>n. n < 0)) ''genre_ids contains an invalid ID'') (\<lambda>_.
     bindE (raise_if (512 < fcard categories) ''category_ids must be a bounded frozenset'') (\<lambda>_.
     bindE (raise_if (fBex categories (\<lambda>n. n < 0)) ''category_ids contains an invalid ID'') (\<lambda>_.
     bindE (raise_if (\<not> known \<and> (genres \<noteq> {||} \<or> categories \<noteq> {||})) ''unknown features cannot carry IDs'') (\<lambda>_.
     Inr \<lparr>fs_appid = appid, fs_genres = genres, fs_categories = categories, fs_known = known\<rparr>))))))"

record member_preference =
  mp_member :: member_ref
  mp_liked :: "feature_set list"
  mp_disliked :: "feature_set list"

definition make_preference :: "member_ref \<Rightarrow> feature_set list \<Rightarrow> feature_set list \<Rightarrow> string + member_preference" where
  "make_preference m liked disliked =
     bindE (raise_if (liked = [] \<and> disliked = []) ''each member needs at least one preference seed'') (\<lambda>_.
     bindE (raise_if (64 < length liked + length disliked) ''preference seed limit exceeded'') (\<lambda>_.
     bindE (raise_if (\<not> distinct (List.map fs_appid (liked @ disliked))) ''preference seeds must be unique per member'') (\<lambda>_.
     Inr \<lparr>mp_member = m, mp_liked = liked, mp_disliked = disliked\<rparr>)))"

record preference_score =
  ps_per_member :: "(member_ref \<times> int option) list"
  ps_least :: "int option"
  ps_total :: "int option"

text \<open>\<open>PreferenceScore.__post_init__\<close>\<close>

definition make_score :: "preference_score \<Rightarrow> string + preference_score" where
  "make_score p =
     bindE (raise_if (ps_per_member p = []) ''member scores must be a non-empty tuple'') (\<lambda>_.
     bindE (raise_if (\<not> distinct (List.map fst (ps_per_member p))) ''member scores must be unique'') (\<lambda>_.
     bindE (raise_if (list_ex (\<lambda>v. case v of None \<Rightarrow> False | Some n \<Rightarrow> \<not> (-10000 \<le> n \<and> n \<le> 10000))
         (List.map snd (ps_per_member p))) ''member preference score is invalid'') (\<lambda>_.
     bindE (if None \<in> set (List.map snd (ps_per_member p))
       then raise_if (ps_least p \<noteq> None \<or> ps_total p \<noteq> None) ''unknown member score requires unknown aggregates''
       else let numeric = List.map_filter snd (ps_per_member p) in
         raise_if (ps_least p \<noteq> Some (Min (set numeric)) \<or> ps_total p \<noteq> Some (sum_list numeric))
           ''preference aggregates are inconsistent'') (\<lambda>_.
     Inr p))))"

definition weighted_jaccard :: "feature_set \<Rightarrow> feature_set \<Rightarrow> int option" where
  "weighted_jaccard l r =
     (if \<not> fs_known l \<or> \<not> fs_known r then None
      else let shared = 2 * int (fcard (fs_genres l |\<inter>| fs_genres r)) + int (fcard (fs_categories l |\<inter>| fs_categories r));
               all = 2 * int (fcard (fs_genres l |\<union>| fs_genres r)) + int (fcard (fs_categories l |\<union>| fs_categories r))
           in if all = 0 then None else Some (shared * 10000 div all))"

fun preference_map :: "member_ref list \<Rightarrow> member_preference list \<Rightarrow> (member_ref \<times> member_preference) list
    \<Rightarrow> string + (member_ref \<times> member_preference) list" where
  "preference_map ms [] result = Inr result"
| "preference_map ms (p # ps) result =
     bindE (raise_if (mp_member p \<notin> set ms) ''preference references an unselected member'') (\<lambda>_.
     bindE (raise_if (mp_member p \<in> fst ` set result) ''preferences must be unique per member'') (\<lambda>_.
     preference_map ms ps (result @ [(mp_member p, p)])))"

text \<open>\<open>max(values, default=0)\<close>\<close>

definition max_default :: "int list \<Rightarrow> int" where
  "max_default ns = (case ns of [] \<Rightarrow> 0 | _ \<Rightarrow> Max (set ns))"

definition member_score :: "feature_set \<Rightarrow> member_preference \<Rightarrow> int option" where
  "member_score candidate p =
     (let positive = List.map (weighted_jaccard candidate) (mp_liked p);
          negative = List.map (weighted_jaccard candidate) (mp_disliked p)
      in if None \<in> set (positive @ negative) then None
         else Some (max_default (List.map the positive) - max_default (List.map the negative)))"

definition score_preferences :: "feature_set \<Rightarrow> member_ref list \<Rightarrow> member_preference list \<Rightarrow> string + preference_score" where
  "score_preferences candidate members preferences =
     bindE (check_members members) (\<lambda>_.
     bindE (preference_map members preferences []) (\<lambda>by_member.
     bindE (raise_if (fst ` set by_member \<noteq> set members)
       ''every member needs member-qualified preference seeds'') (\<lambda>_.
     let scores = List.map (\<lambda>m. (m, case map_of by_member m of None \<Rightarrow> None | Some p \<Rightarrow> member_score candidate p)) members;
         numeric = List.map_filter snd scores
     in make_score \<lparr>ps_per_member = scores,
          ps_least = (if length numeric \<noteq> length scores then None else Some (Min (set numeric))),
          ps_total = (if length numeric \<noteq> length scores then None else Some (sum_list numeric))\<rparr>)))"


section \<open>Ranking\<close>

record group_candidate =
  gc_appid :: int
  gc_copies :: copy_assessment
  gc_eligibility :: group_eligibility
  gc_preference :: "preference_score option"

definition make_group_candidate :: "group_candidate \<Rightarrow> string + group_candidate" where
  "make_group_candidate c = bindE (raise_if (appid_error (gc_appid c)) ''appid is invalid'') (\<lambda>_. Inr c)"

definition group_eligibility_rank :: "group_candidate \<Rightarrow> int" where
  "group_eligibility_rank c = (if el_state (gc_eligibility c) = Gate_pass then 0 else 1)"

definition guarantee_order :: "guarantee_class \<Rightarrow> int" where
  "guarantee_order g = (case g of Guaranteed \<Rightarrow> 0 | Conditional \<Rightarrow> 1 | Insufficient \<Rightarrow> 2)"

definition no_purchase_key :: "group_candidate \<Rightarrow> int \<times> int" where
  "no_purchase_key c = (group_eligibility_rank c, gc_appid c)"

definition min_copies_key :: "group_candidate \<Rightarrow> int \<times> int \<times> int \<times> int" where
  "min_copies_key c = (mc_maximum (ca_missing (gc_copies c)), mc_minimum (ca_missing (gc_copies c)),
     group_eligibility_rank c, gc_appid c)"

text \<open>\<open>_preference_sort_key\<close>; the code asserts that there is a score.\<close>

definition preference_key :: "group_candidate \<Rightarrow> int \<times> int \<times> int \<times> int \<times> int \<times> int" where
  "preference_key c = (case gc_preference c of
       None \<Rightarrow> (0, 0, 0, 0, 0, gc_appid c)
     | Some p \<Rightarrow>
         (guarantee_order (ca_guarantee (gc_copies c)), group_eligibility_rank c,
          case (ps_least p, ps_total p) of
            (Some lo, Some tot) \<Rightarrow> (0, - lo, - tot, gc_appid c)
          | _ \<Rightarrow> (1, 0, 0, gc_appid c)))"

definition rank_candidates :: "group_candidate list \<Rightarrow> string \<Rightarrow> string + group_candidate list" where
  "rank_candidates candidates objective =
     bindE (raise_if (100000 < length candidates) ''candidates must be a bounded tuple'') (\<lambda>_.
     bindE (raise_if (objective \<notin> {''no-purchase'', ''min-copies'', ''preference-fit''}) ''group objective is invalid'') (\<lambda>_.
     bindE (raise_if (\<not> distinct (List.map gc_appid candidates)) ''candidate AppIDs must be unique'') (\<lambda>_.
     let eligible = [c \<leftarrow> candidates. el_state (gc_eligibility c) \<noteq> Gate_fail] in
     if objective = ''no-purchase''
     then Inr (sort_key no_purchase_key
       [c \<leftarrow> eligible. ca_missing (gc_copies c) = \<lparr>mc_minimum = 0, mc_maximum = 0\<rparr>])
     else if objective = ''min-copies'' then Inr (sort_key min_copies_key eligible)
     else bindE (raise_if (list_ex (\<lambda>c. gc_preference c = None) eligible)
         ''preference-fit candidates require preference scores'') (\<lambda>_.
       Inr (sort_key preference_key eligible)))))"


section \<open>Scores are sound\<close>

lemma preference_map_Inr:
  "distinct (List.map fst result) \<Longrightarrow>
   preference_map ms ps result = Inr r \<longleftrightarrow>
   r = result @ List.map (\<lambda>p. (mp_member p, p)) ps \<and> distinct (List.map fst result @ List.map mp_member ps) \<and>
   mp_member ` set ps \<subseteq> set ms"
proof (induction ps arbitrary: result)
  case Nil
  then show ?case by auto
next
  case (Cons p ps)
  show ?case
  proof (cases "mp_member p \<in> fst ` set result")
    case True
    then show ?thesis by auto
  next
    case False
    then show ?thesis
      using Cons.prems Cons.IH [of "result @ [(mp_member p, p)]"] by auto
  qed
qed

lemma share_bounds:
  fixes a b :: int
  assumes "0 \<le> a" "a \<le> b" "0 < b"
  shows "0 \<le> a * 10000 div b" "a * 10000 div b \<le> 10000"
proof -
  show "0 \<le> a * 10000 div b"
    using assms by (simp add: pos_imp_zdiv_nonneg_iff)
  have "a * 10000 div b \<le> b * 10000 div b"
    using assms by (intro zdiv_mono1) simp_all
  then show "a * 10000 div b \<le> 10000"
    using assms(3) by simp
qed

lemma jaccard_bounds: "weighted_jaccard l r = Some n \<Longrightarrow> 0 \<le> n \<and> n \<le> 10000"
proof -
  assume n: "weighted_jaccard l r = Some n"
  let ?shared = "2 * int (fcard (fs_genres l |\<inter>| fs_genres r)) + int (fcard (fs_categories l |\<inter>| fs_categories r))"
  let ?all = "2 * int (fcard (fs_genres l |\<union>| fs_genres r)) + int (fcard (fs_categories l |\<union>| fs_categories r))"
  have "fcard (fs_genres l |\<inter>| fs_genres r) \<le> fcard (fs_genres l |\<union>| fs_genres r)"
    "fcard (fs_categories l |\<inter>| fs_categories r) \<le> fcard (fs_categories l |\<union>| fs_categories r)"
    by (intro fcard_mono; auto)+
  then have le: "?shared \<le> ?all" by simp
  have "?all \<noteq> 0" "n = ?shared * 10000 div ?all"
    using n by (auto simp: weighted_jaccard_def Let_def split: if_splits)
  then show ?thesis
    using share_bounds [OF _ le] by simp
qed

lemma max_default_bounds: "\<forall>n\<in>set ns. 0 \<le> n \<and> n \<le> 10000 \<Longrightarrow> 0 \<le> max_default ns \<and> max_default ns \<le> 10000"
  by (cases ns) (auto simp: max_default_def Max_ge_iff)

lemma member_score_bounds:
  assumes "member_score c p = Some n" shows "-10000 \<le> n \<and> n \<le> 10000"
proof -
  have seed: "0 \<le> x \<and> x \<le> 10000"
    if "x \<in> set (List.map the (List.map (weighted_jaccard c) seeds))" "None \<notin> set (List.map (weighted_jaccard c) seeds)"
    for x seeds
    using that by (auto dest!: jaccard_bounds [rotated] simp: image_iff) (metis jaccard_bounds option.sel option.exhaust)+
  show ?thesis
    using assms max_default_bounds [of "List.map the (List.map (weighted_jaccard c) (mp_liked p))"]
      max_default_bounds [of "List.map the (List.map (weighted_jaccard c) (mp_disliked p))"]
      seed [of _ "mp_liked p"] seed [of _ "mp_disliked p"]
    by (auto simp: member_score_def Let_def split: if_splits)
qed


section \<open>The ranking recipes\<close>

interpretation no_purchase: ranking "\<lambda>c. c" no_purchase_key gc_appid
  by unfold_locales (simp add: no_purchase_key_def)

interpretation min_copies: ranking "\<lambda>c. c" min_copies_key gc_appid
  by unfold_locales (simp add: min_copies_key_def)

interpretation preference_fit: ranking "\<lambda>c. c" preference_key gc_appid
  by unfold_locales (auto simp: preference_key_def split: option.splits)

end
