(* ===== verification/Group_Rank_Props.thy ===== *)
theory Group_Rank_Props
  imports Group_Rank
begin

text \<open>What the scores and the three ranking objectives of \<open>groups.py\<close> promise.\<close>

lemma numeric_le: "length (List.map_filter snd xs) \<le> length xs"
  by (induction xs) (auto simp: List.map_filter_simps split: option.splits)

lemma numeric_all: "length (List.map_filter snd xs) = length xs \<longleftrightarrow> None \<notin> set (List.map snd xs)"
proof (induction xs)
  case (Cons x xs)
  then show ?case
    using numeric_le [of xs] by (auto simp: List.map_filter_simps split: option.splits)
qed (simp add: List.map_filter_simps)

definition scores_of :: "feature_set \<Rightarrow> member_ref list \<Rightarrow> member_preference list \<Rightarrow> (member_ref \<times> int option) list" where
  "scores_of c ms ps = List.map (\<lambda>m. (m, case map_of (List.map (\<lambda>p. (mp_member p, p)) ps) m of
     None \<Rightarrow> None | Some p \<Rightarrow> member_score c p)) ms"

lemma length_scores_of [simp]: "length (scores_of c ms ps) = length ms"
  by (simp add: scores_of_def)

lemma scores_in_bounds: "(m, Some n) \<in> set (scores_of c ms ps) \<Longrightarrow> -10000 \<le> n \<and> n \<le> 10000"
  by (auto simp: scores_of_def split: option.splits) (metis member_score_bounds)+

lemma made_score:
  fixes c :: feature_set and ms :: "member_ref list" and ps :: "member_preference list"
  assumes "ms \<noteq> []" "distinct ms"
  defines "scores \<equiv> scores_of c ms ps"
  defines "numeric \<equiv> List.map_filter snd scores"
  defines "s \<equiv> \<lparr>ps_per_member = scores,
     ps_least = (if length numeric \<noteq> length scores then None else Some (Min (set numeric))),
     ps_total = (if length numeric \<noteq> length scores then None else Some (sum_list numeric))\<rparr>"
  shows "make_score s = Inr s"
proof -
  have "scores \<noteq> []" "distinct (List.map fst scores)"
    using assms(1,2) by (simp_all add: scores_def scores_of_def comp_def)
  moreover have "\<not> list_ex (\<lambda>v. case v of None \<Rightarrow> False | Some n \<Rightarrow> \<not> (-10000 \<le> n \<and> n \<le> 10000)) (List.map snd scores)"
    using scores_in_bounds [of _ _ c ms ps] by (auto simp: list_ex_iff scores_def split: option.splits)
  moreover note numeric_all [of scores]
  ultimately show ?thesis
    by (auto simp: make_score_def s_def numeric_def Let_def)
qed

definition preferences_ok :: "member_ref list \<Rightarrow> member_preference list \<Rightarrow> bool" where
  "preferences_ok ms ps \<longleftrightarrow> 2 \<le> length ms \<and> length ms \<le> 32 \<and> distinct ms \<and>
     distinct (List.map mp_member ps) \<and> mp_member ` set ps = set ms"

lemma score_preferences_eq:
  "case score_preferences c ms ps of
     Inl _ \<Rightarrow> \<not> preferences_ok ms ps
   | Inr s \<Rightarrow> preferences_ok ms ps \<and> ps_per_member s = scores_of c ms ps \<and>
       (let numeric = List.map_filter snd (scores_of c ms ps) in
        if None \<in> set (List.map snd (scores_of c ms ps)) then ps_least s = None \<and> ps_total s = None
        else ps_least s = Some (Min (set numeric)) \<and> ps_total s = Some (sum_list numeric))"
proof (cases "preferences_ok ms ps")
  case True
  then have "check_members ms = Inr ()"
    "preference_map ms ps [] = Inr (List.map (\<lambda>p. (mp_member p, p)) ps)"
    "fst ` set (List.map (\<lambda>p. (mp_member p, p)) ps) = set ms" "ms \<noteq> []" "distinct ms"
    by (auto simp: preferences_ok_def check_members_def preference_map_Inr image_image)
  then show ?thesis
    using True made_score [of ms c ps] numeric_all [of "scores_of c ms ps"]
    by (force simp: score_preferences_def Let_def scores_of_def [symmetric])
next
  case False
  have "preferences_ok ms ps" if "score_preferences c ms ps = Inr s" for s
  proof -
    from that obtain by_member where "check_members ms = Inr ()" "preference_map ms ps [] = Inr by_member"
      "fst ` set by_member = set ms"
      by (auto simp: score_preferences_def bindE_eq_Inr split: if_splits)
    then show ?thesis
      by (auto simp: preferences_ok_def check_members_def bindE_eq_Inr preference_map_Inr image_image
          split: if_splits)
  qed
  with False show ?thesis by (auto split: sum.splits)
qed

text \<open>Scoring succeeds for exactly one preference per member.  Each score lies within
  ten thousand basis points of zero, the least and the total are those of the scores, and
  both are unknown as soon as one score is.\<close>

theorem preferences_scored:
  "case score_preferences c ms ps of
     Inl _ \<Rightarrow> \<not> preferences_ok ms ps
   | Inr s \<Rightarrow> preferences_ok ms ps \<and> List.map fst (ps_per_member s) = ms \<and>
       (\<forall>p\<in>set ps. (mp_member p, member_score c p) \<in> set (ps_per_member s)) \<and>
       (\<forall>(m, v)\<in>set (ps_per_member s). case v of None \<Rightarrow> True | Some n \<Rightarrow> -10000 \<le> n \<and> n \<le> 10000) \<and>
       (let numeric = List.map_filter snd (ps_per_member s) in
        if None \<in> set (List.map snd (ps_per_member s)) then ps_least s = None \<and> ps_total s = None
        else ps_least s = Some (Min (set numeric)) \<and> ps_total s = Some (sum_list numeric))"
proof (cases "score_preferences c ms ps")
  case (Inl e)
  then show ?thesis using score_preferences_eq [where c = c and ms = ms and ps = ps] by simp
next
  case (Inr s)
  have s: "preferences_ok ms ps" "ps_per_member s = scores_of c ms ps"
    using score_preferences_eq [where c = c and ms = ms and ps = ps] Inr by simp_all
  have "(mp_member p, member_score c p) \<in> set (scores_of c ms ps)" if "p \<in> set ps" for p
  proof -
    have "map_of (List.map (\<lambda>p. (mp_member p, p)) ps) (mp_member p) = Some p"
      using s(1) that by (subst map_of_eq_Some_iff) (auto simp: preferences_ok_def comp_def)
    moreover have "mp_member p \<in> set ms"
      using s(1) that by (auto simp: preferences_ok_def)
    ultimately show ?thesis
      by (auto simp: scores_of_def image_iff intro!: bexI [of _ "mp_member p"])
  qed
  moreover have "\<forall>(m, v)\<in>set (scores_of c ms ps). case v of None \<Rightarrow> True | Some n \<Rightarrow> -10000 \<le> n \<and> n \<le> 10000"
    using scores_in_bounds [of _ _ c ms ps] by (auto split: option.splits)
  moreover have "List.map fst (scores_of c ms ps) = ms"
    by (simp add: scores_of_def comp_def)
  ultimately show ?thesis
    using score_preferences_eq [where c = c and ms = ms and ps = ps] Inr s by simp
qed

definition objective_key :: "string \<Rightarrow> group_candidate \<Rightarrow> int list" where
  "objective_key objective c =
     (if objective = ''no-purchase'' then (case no_purchase_key c of (a, b) \<Rightarrow> [a, b])
      else if objective = ''min-copies'' then (case min_copies_key c of (a, b, d, e) \<Rightarrow> [a, b, d, e])
      else case preference_key c of (a, b, d, e, f, g) \<Rightarrow> [a, b, d, e, f, g])"

definition ranked_candidates :: "string \<Rightarrow> group_candidate list \<Rightarrow> group_candidate list" where
  "ranked_candidates objective cs =
     [c \<leftarrow> cs. el_state (gc_eligibility c) \<noteq> Gate_fail \<and>
        (objective = ''no-purchase'' \<longrightarrow> ca_missing (gc_copies c) = \<lparr>mc_minimum = 0, mc_maximum = 0\<rparr>)]"

lemma key_order:
  "a \<le> b \<Longrightarrow> (case a of (x, y) \<Rightarrow> [x, y]) \<le> (case b of (x, y) \<Rightarrow> [x, y])"
  "c \<le> d \<Longrightarrow> (case c of (x, y, z, u) \<Rightarrow> [x, y, z, u]) \<le> (case d of (x, y, z, u) \<Rightarrow> [x, y, z, u])"
  "e \<le> f \<Longrightarrow> (case e of (x, y, z, u, v, w) \<Rightarrow> [x, y, z, u, v, w]) \<le> (case f of (x, y, z, u, v, w) \<Rightarrow> [x, y, z, u, v, w])"
  for a b :: "int \<times> int" and c d :: "int \<times> int \<times> int \<times> int" and e f :: "int \<times> int \<times> int \<times> int \<times> int \<times> int"
  by (auto split: prod.splits)

lemma key_sorted:
  fixes key :: "group_candidate \<Rightarrow> 'k::linorder" and key' :: "group_candidate \<Rightarrow> int list"
  assumes "\<And>a b. key a \<le> key b \<Longrightarrow> key' a \<le> key' b"
  shows "sorted_wrt (\<lambda>a b. key' a \<le> key' b) (sort_key key xs)"
proof -
  have "sorted_wrt (\<lambda>a b. key a \<le> key b) (sort_key key xs)"
    using sorted_sort_key [of key xs] by (simp add: sorted_wrt_map)
  then show ?thesis
    by (rule sorted_wrt_mono_rel [rotated]) (rule assms)
qed

definition ranking_sort :: "string \<Rightarrow> group_candidate list \<Rightarrow> group_candidate list" where
  "ranking_sort objective = (if objective = ''no-purchase'' then sort_key no_purchase_key
     else if objective = ''min-copies'' then sort_key min_copies_key else sort_key preference_key)"

lemma ranking_sort_facts:
  "mset (ranking_sort objective xs) = mset xs"
  "sorted_wrt (\<lambda>a b. objective_key objective a \<le> objective_key objective b) (ranking_sort objective xs)"
  "distinct (List.map gc_appid xs) \<Longrightarrow> mset xs = mset ys \<Longrightarrow> ranking_sort objective xs = ranking_sort objective ys"
proof -
  show "mset (ranking_sort objective xs) = mset xs"
    by (simp add: ranking_sort_def)
  show "sorted_wrt (\<lambda>a b. objective_key objective a \<le> objective_key objective b) (ranking_sort objective xs)"
    unfolding ranking_sort_def
    by (auto simp: objective_key_def intro!: key_sorted key_order)
  show "ranking_sort objective xs = ranking_sort objective ys"
    if "distinct (List.map gc_appid xs)" "mset xs = mset ys"
    using that no_purchase.order_irrelevant [of xs ys] min_copies.order_irrelevant [of xs ys]
      preference_fit.order_irrelevant [of xs ys]
    by (simp add: ranking_sort_def)
qed

lemma rank_candidates_eq:
  "rank_candidates cs objective = Inr rs \<longleftrightarrow>
   length cs \<le> 100000 \<and> objective \<in> {''no-purchase'', ''min-copies'', ''preference-fit''} \<and>
   distinct (List.map gc_appid cs) \<and>
   (objective = ''preference-fit'' \<longrightarrow> (\<forall>c\<in>set cs. el_state (gc_eligibility c) \<noteq> Gate_fail \<longrightarrow> gc_preference c \<noteq> None)) \<and>
   rs = ranking_sort objective (ranked_candidates objective cs)"
  by (auto simp: rank_candidates_def ranking_sort_def ranked_candidates_def bindE_eq_Inr Let_def list_ex_iff
      conj_commute split: if_splits)

text \<open>A ranking lists every candidate that passes the objective's gate once, in the
  documented order, and does not depend on the order the candidates come in.\<close>

theorem group_ranking_exact:
  assumes "rank_candidates cs objective = Inr rs"
  shows "mset rs = mset (ranked_candidates objective cs)
    \<and> sorted_wrt (\<lambda>a b. objective_key objective a \<le> objective_key objective b) rs
    \<and> (mset cs' = mset cs \<longrightarrow> rank_candidates cs' objective = Inr rs)"
proof (intro conjI impI)
  have rs: "rs = ranking_sort objective (ranked_candidates objective cs)"
    using assms by (simp add: rank_candidates_eq)
  show "mset rs = mset (ranked_candidates objective cs)"
    "sorted_wrt (\<lambda>a b. objective_key objective a \<le> objective_key objective b) rs"
    by (simp_all add: rs ranking_sort_facts)
  assume same: "mset cs' = mset cs"
  have "ranking_sort objective (ranked_candidates objective cs) = ranking_sort objective (ranked_candidates objective cs')"
    using assms same
    by (intro ranking_sort_facts(3)) (auto simp: rank_candidates_eq ranked_candidates_def distinct_map_filter)
  moreover have "distinct (List.map gc_appid cs')"
    using assms same by (metis mset_eq_imp_distinct_iff mset_map rank_candidates_eq)
  ultimately show "rank_candidates cs' objective = Inr rs"
    using assms same mset_eq_length [OF same] mset_eq_setD [OF same] by (simp add: rank_candidates_eq)
qed

definition demo_candidate :: "int \<Rightarrow> group_gate \<Rightarrow> group_candidate" where
  "demo_candidate appid st = \<lparr>gc_appid = appid, gc_copies = demo_copies,
     gc_eligibility = \<lparr>el_state = st, el_gates = [(''mode'', st)]\<rparr>, gc_preference = None\<rparr>"

lemma demo_ranked:
  "rank_candidates [demo_candidate 30 Gate_pass, demo_candidate 20 Gate_fail, demo_candidate 10 Gate_pass] ''min-copies''
     = Inr [demo_candidate 10 Gate_pass, demo_candidate 30 Gate_pass]"
  by (simp add: rank_candidates_eq ranked_candidates_def ranking_sort_def demo_candidate_def min_copies_key_def
      group_eligibility_rank_def)

theorem group_ranking_exact_witness:
  "rank_candidates [demo_candidate 10 Gate_pass, demo_candidate 20 Gate_fail, demo_candidate 30 Gate_pass] ''min-copies''
     = Inr [demo_candidate 10 Gate_pass, demo_candidate 30 Gate_pass]"
  using group_ranking_exact [OF demo_ranked,
      of "[demo_candidate 10 Gate_pass, demo_candidate 20 Gate_fail, demo_candidate 30 Gate_pass]"]
  by (simp add: add_mset_commute)

end
