(* ===== verification/Key_Values.thy ===== *)
theory Key_Values
  imports Broker_Prelude
begin

text \<open>
  The KeyValues parser of \<open>local_steam.py\<close>.  Its offset is the text that remains; an error
  carries the text that remained where it was raised, from which the line number is taken.

  A dictionary is the list of its items in insertion order.
\<close>


section \<open>Text and errors\<close>

definition max_depth :: nat where "max_depth = 64"
definition max_entries :: int where "max_entries = 100000"
definition max_string :: int where "max_string = 1048576"

type_synonym kv_error = "string \<times> string"

datatype kv =
    Kv_text string
  | Kv_object "(string \<times> kv) list"

type_synonym kv_items = "(string \<times> kv) list"

text \<open>
  \<open>str.casefold\<close> of one character below code point 256, as code points: the micro sign folds
  to the Greek letter, the sharp s to two letters.
\<close>

definition fold_char :: "char \<Rightarrow> nat list" where
  "fold_char c =
     (let n = code c in
      if n = 181 then [956]
      else if n = 223 then [115, 115]
      else if (65 \<le> n \<and> n \<le> 90) \<or> (192 \<le> n \<and> n \<le> 222 \<and> n \<noteq> 215) then [n + 32]
      else [n])"

definition fold_points :: "string \<Rightarrow> nat list" where
  "fold_points s = concat (map fold_char s)"

definition quote_char :: char where "quote_char = char_of (34 :: nat)"
definition escape_char :: char where "escape_char = char_of (92 :: nat)"
definition newline_char :: char where "newline_char = char_of (10 :: nat)"
definition return_char :: char where "return_char = char_of (13 :: nat)"
definition tab_char :: char where "tab_char = char_of (9 :: nat)"

text \<open>\<open>_skip_space_and_comments\<close>\<close>

function skip_blank :: "string \<Rightarrow> string" where
  "skip_blank rest =
     (let r = dropWhile is_space rest in
      if prefix ''//'' r
      then (case dropWhile (\<lambda>c. c \<noteq> newline_char) (drop 2 r) of
          [] \<Rightarrow> []
        | _ # r' \<Rightarrow> skip_blank r')
      else r)"
  by pat_completeness auto

lemma length_after: "dropWhile P xs = y # ys \<Longrightarrow> length ys < length xs"
  by (metis length_Cons length_dropWhile_le less_eq_Suc_le)

termination skip_blank
proof (relation "measure length")
  fix rest r :: string and c r'
  assume "r = dropWhile is_space rest" "prefix ''//'' r" "dropWhile (\<lambda>c. c \<noteq> newline_char) (drop 2 r) = c # r'"
  then show "(r', rest) \<in> measure length"
    using length_after [of "\<lambda>c. c \<noteq> newline_char" "drop 2 r" c r'] length_dropWhile_le [of is_space rest] by simp
qed simp

declare skip_blank.simps [simp del]


section \<open>Strings\<close>

definition unescape :: "char \<Rightarrow> char" where
  "unescape c = (if c = CHR ''n'' then newline_char else if c = CHR ''r'' then return_char
     else if c = CHR ''t'' then tab_char else c)"

text \<open>
  The loop of \<open>_parse_string\<close>; \<open>value\<close> is kept reversed.  Only an unescaped character is
  checked against the limit.
\<close>

fun string_body :: "string \<Rightarrow> string \<Rightarrow> kv_error + (string \<times> string)" where
  "string_body val [] = Inl (''unterminated quoted string'', [])"
| "string_body val (c # r) =
     (if c = quote_char then Inr (rev val, r)
      else if c \<noteq> escape_char then
        (if max_string < int (length (c # val)) then Inl (''maximum string length exceeded'', r)
         else string_body (c # val) r)
      else (case r of
          [] \<Rightarrow> Inl (''unterminated escape sequence'', [])
        | e # r' \<Rightarrow> string_body (unescape e # val) r'))"

definition parse_string :: "string \<Rightarrow> kv_error + (string \<times> string)" where
  "parse_string rest =
     (case skip_blank rest of
        [] \<Rightarrow> Inl (''expected quoted string'', [])
      | c # r \<Rightarrow> if c = quote_char then string_body [] r else Inl (''expected quoted string'', c # r))"


section \<open>Objects\<close>

text \<open>
  One turn of the loop of \<open>_parse_object\<close>, up to the value: the object ends, a key opens an
  object of its own, or a key has a string.
\<close>

datatype kv_entry =
    Ends string
  | Opens string string
  | Pair string string string

definition next_entry :: "bool \<Rightarrow> kv_items \<Rightarrow> int \<Rightarrow> string \<Rightarrow> kv_error + kv_entry" where
  "next_entry top_level items n rest =
     (case skip_blank rest of
        [] \<Rightarrow> if top_level then Inr (Ends []) else Inl (''unterminated object'', [])
      | c # r \<Rightarrow>
          if c = CHR ''}'' then
            (if top_level then Inl (''unexpected closing brace'', c # r) else Inr (Ends r))
          else bindE (parse_string (c # r)) (\<lambda>(key, r1).
            bindE (raise_if (fold_points key \<in> set (map (fold_points \<circ> fst) items))
              (''duplicate key in object'', r1)) (\<lambda>_.
            bindE (raise_if (max_entries < n + 1) (''maximum entry count exceeded'', r1)) (\<lambda>_.
            case skip_blank r1 of
              [] \<Rightarrow> Inl (''missing value for key'', [])
            | d # r2 \<Rightarrow>
                if d = CHR ''{'' then Inr (Opens key r2)
                else bindE (parse_string (d # r2)) (\<lambda>(val, r3). Inr (Pair key val r3))))))"

text \<open>
  \<open>_parse_object\<close> from the head of its loop, with the items read so far and the number of
  entries of the whole parse.
\<close>

function (domintros) parse_object :: "bool \<Rightarrow> nat \<Rightarrow> kv_items \<Rightarrow> int \<Rightarrow> string
    \<Rightarrow> kv_error + (kv_items \<times> int \<times> string)" where
  "parse_object top_level depth items n rest =
     (case next_entry top_level items n rest of
        Inl e \<Rightarrow> Inl e
      | Inr (Ends r) \<Rightarrow> Inr (items, n, r)
      | Inr (Pair key val r) \<Rightarrow> parse_object top_level depth (items @ [(key, Kv_text val)]) (n + 1) r
      | Inr (Opens key r) \<Rightarrow>
          if max_depth < depth + 1 then Inl (''maximum nesting depth exceeded'', r)
          else (case parse_object False (depth + 1) [] (n + 1) r of
              Inl e \<Rightarrow> Inl e
            | Inr (inner, n', r') \<Rightarrow> parse_object top_level depth (items @ [(key, Kv_object inner)]) n' r'))"
  by pat_completeness auto


section \<open>The parse ends\<close>

lemma skip_blank_le: "length (skip_blank rest) \<le> length rest"
proof (induction rest rule: skip_blank.induct)
  case (1 rest)
  show ?case
  proof (cases "prefix ''//'' (dropWhile is_space rest)")
    case True
    show ?thesis
    proof (cases "dropWhile (\<lambda>c. c \<noteq> newline_char) (drop 2 (dropWhile is_space rest))")
      case Nil
      with True show ?thesis by (subst skip_blank.simps) (simp add: Let_def del: dropWhile_eq_Nil_conv)
    next
      case (Cons c r)
      then have "length r < length rest"
        using length_after [of "\<lambda>c. c \<noteq> newline_char" "drop 2 (dropWhile is_space rest)" c r]
          length_dropWhile_le [of is_space rest] by simp
      then show ?thesis
        using 1 [OF refl True Cons] True Cons by (subst skip_blank.simps) simp
    qed
  next
    case False
    then show ?thesis
      using length_dropWhile_le [of is_space rest] by (subst skip_blank.simps) simp
  qed
qed

lemma string_body_le: "string_body val r = Inr (s, r') \<Longrightarrow> length r' < length r"
  by (induction val r arbitrary: r' rule: string_body.induct) (fastforce split: if_splits list.splits)+

lemma parse_string_less: "parse_string r = Inr (s, r') \<Longrightarrow> length r' < length r"
  using skip_blank_le [of r]
  by (auto simp: parse_string_def split: list.splits if_splits dest: string_body_le)

lemma skip_less: "skip_blank rest = c # r \<Longrightarrow> length r < length rest"
  using skip_blank_le [of rest] by simp

lemma next_entry_Inr:
  assumes "next_entry t items n rest = Inr e"
  obtains (stops) "t" "skip_blank rest = []" "e = Ends []"
  | (closes) r where "\<not> t" "skip_blank rest = CHR ''}'' # r" "e = Ends r"
  | (opens) c r key r1 r2 where "skip_blank rest = c # r" "c \<noteq> CHR ''}''" "parse_string (c # r) = Inr (key, r1)"
      "fold_points key \<notin> set (map (fold_points \<circ> fst) items)" "n + 1 \<le> max_entries"
      "skip_blank r1 = CHR ''{'' # r2" "e = Opens key r2"
  | (pair) c r key r1 d r2 val r3 where "skip_blank rest = c # r" "c \<noteq> CHR ''}''"
      "parse_string (c # r) = Inr (key, r1)"
      "fold_points key \<notin> set (map (fold_points \<circ> fst) items)" "n + 1 \<le> max_entries"
      "skip_blank r1 = d # r2" "d \<noteq> CHR ''{''" "parse_string (d # r2) = Inr (val, r3)" "e = Pair key val r3"
proof (cases "skip_blank rest")
  case Nil
  then show thesis using assms stops by (auto simp: next_entry_def split: if_splits)
next
  case (Cons c r)
  show thesis
  proof (cases "c = CHR ''}''")
    case True
    then show thesis using assms closes Cons by (auto simp: next_entry_def split: if_splits)
  next
    case False
    then obtain key r1 where key: "parse_string (c # r) = Inr (key, r1)"
      "fold_points key \<notin> set (map (fold_points \<circ> fst) items)" "n + 1 \<le> max_entries"
      and rest: "(case skip_blank r1 of
              [] \<Rightarrow> Inl (''missing value for key'', [])
            | d # r2 \<Rightarrow>
                if d = CHR ''{'' then Inr (Opens key r2)
                else bindE (parse_string (d # r2)) (\<lambda>(val, r3). Inr (Pair key val r3))) = Inr e"
      using assms Cons by (auto simp: next_entry_def bindE_eq_Inr simp del: raise_if_eq split: if_splits)
    show thesis
    proof (cases "skip_blank r1")
      case Nil
      then show thesis using rest by simp
    next
      case rest2: (Cons d r2)
      show thesis
      proof (cases "d = CHR ''{''")
        case True
        then show thesis using opens [OF Cons False key] rest rest2 by simp
      next
        case ne: False
        then obtain val r3 where "parse_string (d # r2) = Inr (val, r3)" "e = Pair key val r3"
          using rest rest2 by (auto simp: bindE_eq_Inr)
        then show thesis using pair [OF Cons False key rest2 ne] by simp
      qed
    qed
  qed
qed

lemma next_entry_less:
  "next_entry t items n rest = Inr (Ends r) \<Longrightarrow> length r \<le> length rest"
  "next_entry t items n rest = Inr (Pair k v r) \<Longrightarrow> length r < length rest"
  "next_entry t items n rest = Inr (Opens k r) \<Longrightarrow> length r < length rest"
  by (erule next_entry_Inr; auto dest!: skip_less parse_string_less)+

lemma parse_dom_le:
  "parse_object_dom (t, d, items, n, rest) \<Longrightarrow>
   parse_object t d items n rest = Inr (items', n', rest') \<Longrightarrow> length rest' \<le> length rest"
proof (induction t d items n rest arbitrary: items' n' rest' rule: parse_object.pinduct)
  case (1 t d items n rest)
  note run = "1.prems" [unfolded parse_object.psimps [OF 1(1)]]
  show ?case
  proof (cases "next_entry t items n rest")
    case (Inr e)
    show ?thesis
    proof (cases e)
      case (Ends r)
      then show ?thesis using run Inr next_entry_less(1) by auto
    next
      case (Pair k v r)
      then show ?thesis using run Inr "1.IH"(3) next_entry_less(2) [of t items n rest k v r] by force
    next
      case (Opens k r)
      then obtain inner m r' where "parse_object False (d + 1) [] (n + 1) r = Inr (inner, m, r')"
        "parse_object t d (items @ [(k, Kv_object inner)]) m r' = Inr (items', n', rest')" "\<not> max_depth < d + 1"
        using run Inr by (auto split: if_splits sum.splits)
      then show ?thesis
        using Inr Opens "1.IH"(1,2) next_entry_less(3) [of t items n rest k r] by force
    qed
  qed (use run in auto)
qed

text \<open>The text that remains shrinks with every turn.\<close>

lemma parse_object_ends: "parse_object_dom (t, d, items, n, rest)"
proof (induction "length rest" arbitrary: t d items n rest rule: less_induct)
  case less
  have pair: "parse_object_dom (t', d', items', n', r)" if "next_entry t items n rest = Inr (Pair k v r)"
    for t' d' items' n' k v r
    by (rule less) (rule next_entry_less(2) [OF that])
  have opens: "parse_object_dom (t', d', items', n', r)" if "next_entry t items n rest = Inr (Opens k r)"
    for t' d' items' n' k r
    by (rule less) (rule next_entry_less(3) [OF that])
  have closed: "parse_object_dom (t', d', items', n', r')"
    if "next_entry t items n rest = Inr (Opens k r)" "parse_object False (d + 1) [] (n + 1) r = Inr (inner, m, r')"
    for t' d' items' n' k r inner m r'
    by (rule less) (rule le_less_trans [OF parse_dom_le [OF opens [OF that(1)] that(2)] next_entry_less(3) [OF that(1)]])
  show ?case
    by (rule parse_object.domintros) (metis pair opens closed add.commute plus_1_eq_Suc)+
qed

termination parse_object
  using parse_object_ends by auto

declare parse_object.simps [simp del]


section \<open>The parser\<close>

definition newlines_before :: "string \<Rightarrow> string \<Rightarrow> nat" where
  "newlines_before text rest =
     length (filter (\<lambda>c. c = newline_char) (take (length text - length rest) text))"

definition error_text :: "string \<Rightarrow> kv_error \<Rightarrow> string" where
  "error_text text e = fst e @ '' at line '' @ show_nat (newlines_before text (snd e) + 1)"

text \<open>
  \<open>parse_keyvalues\<close>.  The byte order mark that \<open>lstrip\<close> removes lies beyond the characters of
  the model.
\<close>

definition parse_keyvalues :: "string \<Rightarrow> string + kv_items" where
  "parse_keyvalues text =
     (case parse_object True 0 [] 0 text of
        Inl e \<Rightarrow> Inl (error_text text e)
      | Inr (items, n, r) \<Rightarrow>
          if skip_blank r \<noteq> [] then Inl (error_text text (''unexpected trailing input'', skip_blank r))
          else Inr items)"

end
