(* ===== verification/Local_Scan.thy ===== *)
theory Local_Scan
  imports Key_Values "HOL-Library.Product_Lexorder"
begin

unbundle bit_operations_syntax

text \<open>
  The scan of \<open>local_steam.py\<close>: library index, manifests, and the apps it takes for installed.
  The file system is a parameter: a record of what each call on a path answers.  Warnings are
  returned with each result, in the order the code appends them.

  A path is POSIX: whether it starts at the root, and its parts.
\<close>


section \<open>Paths and the file system\<close>

datatype path = Path (absolute: bool) (parts: "string list")

fun split_slash :: "string \<Rightarrow> string list" where
  "split_slash [] = [[]]"
| "split_slash (c # cs) =
     (if c = CHR ''/'' then [] # split_slash cs
      else case split_slash cs of [] \<Rightarrow> [[c]] | p # ps \<Rightarrow> (c # p) # ps)"

definition path_of :: "string \<Rightarrow> path" where
  "path_of s = Path (s \<noteq> [] \<and> hd s = CHR ''/'') (filter (\<lambda>p. p \<noteq> [] \<and> p \<noteq> ''.'') (split_slash s))"

text \<open>\<open>str\<close> of a path.\<close>

definition path_text :: "path \<Rightarrow> string" where
  "path_text p = (let body = concat (map (\<lambda>x. ''/'' @ x) (parts p)) in
     if absolute p then (if parts p = [] then ''/'' else body)
     else if parts p = [] then ''.'' else tl body)"

definition join_path :: "path \<Rightarrow> path \<Rightarrow> path" where
  "join_path a b = (if absolute b then b else Path (absolute a) (parts a @ parts b))"

definition child :: "path \<Rightarrow> string \<Rightarrow> path" where
  "child p name = Path (absolute p) (parts p @ [name])"

definition parent :: "path \<Rightarrow> path" where
  "parent p = Path (absolute p) (butlast (parts p))"

definition relative_to :: "path \<Rightarrow> path \<Rightarrow> bool" where
  "relative_to p q \<longleftrightarrow> absolute p = absolute q \<and> prefix (parts q) (parts p)"

text \<open>\<open>os.path.abspath\<close>: two dots remove the part before them.\<close>

fun normal_parts :: "string list \<Rightarrow> string list \<Rightarrow> string list" where
  "normal_parts acc [] = rev acc"
| "normal_parts acc (p # ps) =
     (if p = ''..'' then normal_parts (tl acc) ps else normal_parts (p # acc) ps)"

definition lexical_absolute :: "path \<Rightarrow> path \<Rightarrow> path" where
  "lexical_absolute cwd p = Path True (normal_parts [] (parts (join_path cwd p)))"

datatype link_state = No_link | Link_to path | Link_error

datatype lstat_answer = Present | Missing | Probe_error

text \<open>A regular file has its size and its text, which may not decode or be readable.\<close>

datatype kv_file =
    Gone
  | File_error
  | Regular int "string option"

record dir_entry =
  de_name :: string
  de_link :: bool
  de_file :: "bool option"
  de_still_file :: bool

text \<open>
  What the walk of \<open>_measure_tree\<close> sees of an entry: the size of a link or a file, which may be
  unreadable, a directory, something else, or an error.
\<close>

datatype walk_kind =
    Walk_link "int option"
  | Walk_dir
  | Walk_file "int option"
  | Walk_other
  | Walk_error

record steam_fs =
  sf_cwd :: path
  sf_expand :: "path \<Rightarrow> path"
  sf_resolve :: "path \<Rightarrow> path option"
  sf_link :: "path \<Rightarrow> link_state"
  sf_lstat :: "path \<Rightarrow> lstat_answer"
  sf_read :: "path \<Rightarrow> kv_file"
  sf_is_dir :: "path \<Rightarrow> bool option"
  sf_scandir :: "path \<Rightarrow> dir_entry list option"
  sf_walk :: "path \<Rightarrow> (string \<times> walk_kind) list \<times> bool"

definition readable_directory :: "steam_fs \<Rightarrow> path \<Rightarrow> bool" where
  "readable_directory fs p \<longleftrightarrow> sf_is_dir fs p = Some True"

text \<open>\<open>_is_direct_self_symlink\<close> and \<open>_safe_resolve\<close>; \<open>None\<close> where an \<open>OSError\<close> is caught.\<close>

definition direct_self_link :: "steam_fs \<Rightarrow> path \<Rightarrow> bool option" where
  "direct_self_link fs p = (case sf_link fs p of
       No_link \<Rightarrow> Some False
     | Link_error \<Rightarrow> None
     | Link_to target \<Rightarrow>
         (let t = (if absolute target then target else join_path (parent p) target) in
          Some (lexical_absolute (sf_cwd fs) t = lexical_absolute (sf_cwd fs) p)))"

definition safe_resolve :: "steam_fs \<Rightarrow> path \<Rightarrow> path option" where
  "safe_resolve fs p = (if direct_self_link fs p = Some False then sf_resolve fs p else None)"


section \<open>Warnings and values\<close>

datatype warning_kind = Malformed | Inaccessible | Duplicate | Missing_data | Out_of_scope

record steam_warning =
  sw_kind :: warning_kind
  sw_code :: string
  sw_message :: string
  sw_path :: path
  sw_appid :: "int option"

definition warn :: "warning_kind \<Rightarrow> string \<Rightarrow> string \<Rightarrow> path \<Rightarrow> int option \<Rightarrow> steam_warning" where
  "warn k c m p a = \<lparr>sw_kind = k, sw_code = c, sw_message = m, sw_path = p, sw_appid = a\<rparr>"

definition sqlite_int_max :: int where
  "sqlite_int_max = 2 ^ 63 - 1"

text \<open>\<open>int(value, 10)\<close>: white space around, a sign, and digits with single underscores between.\<close>

fun digit_groups :: "string \<Rightarrow> bool" where
  "digit_groups [] \<longleftrightarrow> False"
| "digit_groups [c] \<longleftrightarrow> is_digit c"
| "digit_groups (c # d # cs) \<longleftrightarrow> is_digit c \<and> (if d = CHR ''_'' then digit_groups cs else digit_groups (d # cs))"

definition magnitude :: "string \<Rightarrow> int option" where
  "magnitude s = (let ds = filter is_digit s in
     if digit_groups s \<and> length ds \<le> 4300 then Some (int (decimal_value ds)) else None)"

definition signed_integer :: "string \<Rightarrow> int option" where
  "signed_integer text =
     (case strip text of
        [] \<Rightarrow> None
      | c # cs \<Rightarrow>
          if c = CHR ''-'' then map_option uminus (magnitude cs)
          else if c = CHR ''+'' then magnitude cs
          else magnitude (c # cs))"

definition text_of :: "kv option \<Rightarrow> string option" where
  "text_of v = (case v of Some (Kv_text s) \<Rightarrow> Some s | _ \<Rightarrow> None)"

definition object_of :: "kv option \<Rightarrow> kv_items option" where
  "object_of v = (case v of Some (Kv_object items) \<Rightarrow> Some items | _ \<Rightarrow> None)"

definition signed_value :: "kv option \<Rightarrow> int option" where
  "signed_value v = Option.bind (text_of v) signed_integer"

definition nonnegative_value :: "kv option \<Rightarrow> int option" where
  "nonnegative_value v = (case signed_value v of None \<Rightarrow> None | Some n \<Rightarrow> if 0 \<le> n then Some n else None)"

definition nonempty_text :: "kv option \<Rightarrow> string option" where
  "nonempty_text v = (case text_of v of Some s \<Rightarrow> if s \<noteq> [] then Some s else None | None \<Rightarrow> None)"

definition find_folded :: "kv_items \<Rightarrow> string \<Rightarrow> kv option" where
  "find_folded items key = map_option snd (find (\<lambda>p. fold_points (fst p) = fold_points key) items)"

definition decimal_text :: "string \<Rightarrow> bool" where
  "decimal_text s \<longleftrightarrow> s \<noteq> [] \<and> list_all is_digit s"


section \<open>Reading metadata\<close>

definition read_keyvalues :: "steam_fs \<Rightarrow> path \<Rightarrow> kv_items option \<times> steam_warning list" where
  "read_keyvalues fs p = (case sf_read fs p of
       Gone \<Rightarrow> (None, [warn Inaccessible ''file_disappeared''
         ''Steam metadata disappeared or changed type during the scan'' p None])
     | File_error \<Rightarrow> (None, [warn Inaccessible ''inaccessible_file'' ''Could not read Steam metadata'' p None])
     | Regular bytes content \<Rightarrow>
         if 4194304 < bytes then
           (None, [warn Malformed ''keyvalues_resource_limit'' ''Steam metadata exceeds the supported size limit'' p None])
         else (case content of
             None \<Rightarrow> (None, [warn Inaccessible ''inaccessible_file'' ''Could not read Steam metadata'' p None])
           | Some text \<Rightarrow> (case parse_keyvalues text of
                 Inl msg \<Rightarrow> (None, [warn Malformed ''malformed_keyvalues'' msg p None])
               | Inr items \<Rightarrow> (Some items, []))))"

definition bounded_integer :: "kv option \<Rightarrow> string \<Rightarrow> path \<Rightarrow> int \<Rightarrow> int option \<times> steam_warning list" where
  "bounded_integer v field manifest appid =
     (if v = None then (None, [])
      else case signed_value v of
          None \<Rightarrow> (None, [warn Malformed ''invalid_manifest_integer''
            (''Manifest field '' @ field @ '' is invalid and was ignored'') manifest (Some appid)])
        | Some n \<Rightarrow>
            if 0 \<le> n \<and> n \<le> sqlite_int_max then (Some n, [])
            else if sqlite_int_max < n then
              (None, [warn Malformed ''manifest_integer_out_of_range''
                (''Manifest field '' @ field @ '' exceeds the supported signed 64-bit range and was ignored'')
                manifest (Some appid)])
            else (None, [warn Malformed ''invalid_manifest_integer''
              (''Manifest field '' @ field @ '' is invalid and was ignored'') manifest (Some appid)]))"


section \<open>One manifest\<close>

record steam_app =
  sa_appid :: int
  sa_name :: "string option"
  sa_install_dir :: "path option"
  sa_build_id :: "int option"
  sa_size :: "int option"
  sa_state_flags :: int
  sa_library :: path
  sa_manifest :: path

definition app_state_uninstalled :: int where "app_state_uninstalled = 1"
definition app_state_installed :: int where "app_state_installed = 4"

definition app_state_update :: int where
  "app_state_update = push_bit 1 1 OR push_bit 8 1 OR push_bit 9 1 OR push_bit 10 1 OR push_bit 12 1
     OR push_bit 16 1 OR push_bit 17 1 OR push_bit 18 1 OR push_bit 19 1 OR push_bit 20 1
     OR push_bit 21 1 OR push_bit 22 1 OR push_bit 23 1"

text \<open>\<open>appmanifest_(\d+)\.acf\<close>: the digits of a manifest's name.\<close>

definition manifest_digits :: "string \<Rightarrow> string option" where
  "manifest_digits name =
     (let middle = take (length name - 16) (drop 12 name) in
      if prefix ''appmanifest_'' name \<and> suffix ''.acf'' name \<and> 16 < length name \<and> list_all is_digit middle
      then Some middle else None)"

text \<open>The AppID: what the manifest says where it says an integer, else what its name says.\<close>

definition manifest_appid_of :: "kv_items \<Rightarrow> int \<Rightarrow> path \<Rightarrow> int option \<times> steam_warning list" where
  "manifest_appid_of state filename_appid manifest = (case signed_value (map_of state ''appid'') of
       None \<Rightarrow> (Some filename_appid, [warn Missing_data ''missing_manifest_appid''
         ''Manifest appid is missing or invalid; using its filename'' manifest (Some filename_appid)])
     | Some a \<Rightarrow>
         if a \<le> 0 \<or> sqlite_int_max < a then
           (None, [warn Malformed (if a \<le> 0 then ''invalid_manifest_appid'' else ''manifest_integer_out_of_range'')
             ''Manifest contains an unsupported AppID and was ignored'' manifest (Some a)])
         else if a \<noteq> filename_appid then
           (Some a, [warn Malformed ''manifest_appid_mismatch''
             (''Manifest appid '' @ show_nat (nat a) @ '' does not match filename appid '' @ show_nat (nat filename_appid))
             manifest (Some a)])
         else (Some a, []))"

text \<open>The state flags, unless they are absent, too large or say that the app is uninstalled.\<close>

definition manifest_state :: "kv_items \<Rightarrow> int \<Rightarrow> path \<Rightarrow> int option \<times> steam_warning list" where
  "manifest_state state appid manifest =
     (let message = ''Manifest does not provide valid StateFlags and was not classified as installed'' in
      case nonnegative_value (map_of state ''StateFlags'') of
        None \<Rightarrow> (None, [warn Missing_data ''missing_or_invalid_state_flags'' message manifest (Some appid)])
      | Some flags \<Rightarrow>
          if sqlite_int_max < flags then
            (None, [warn Malformed ''manifest_integer_out_of_range'' message manifest (Some appid)])
          else if flags AND app_state_uninstalled \<noteq> 0 then
            (None, [warn Out_of_scope ''uninstalled_app_state''
              ''Manifest asserts the Uninstalled state and was skipped'' manifest (Some appid)])
          else (Some flags, []))"

text \<open>
  The install directory: \<open>Inl\<close> when the resolution fails, which skips the manifest; else the
  directory, if there is one inside \<open>steamapps/common\<close>.
\<close>

definition manifest_directory :: "steam_fs \<Rightarrow> kv_items \<Rightarrow> path \<Rightarrow> path \<Rightarrow> int
    \<Rightarrow> (unit + path option) \<times> steam_warning list" where
  "manifest_directory fs state library manifest appid = (case text_of (map_of state ''installdir'') of
       None \<Rightarrow> (Inr None, [warn Missing_data ''missing_install_dir'' ''Manifest has no install directory'' manifest (Some appid)])
     | Some raw \<Rightarrow>
         if strip raw = [] then
           (Inr None, [warn Missing_data ''missing_install_dir'' ''Manifest has no install directory'' manifest (Some appid)])
         else
           (let unresolved = (Inl (), [warn Inaccessible ''unresolvable_install_dir''
              ''Manifest install directory could not be resolved safely'' manifest (Some appid)]) in
            case sf_resolve fs (child (child library ''steamapps'') ''common'') of
              None \<Rightarrow> unresolved
            | Some common \<Rightarrow> (case sf_resolve fs (join_path common (path_of raw)) of
                  None \<Rightarrow> unresolved
                | Some candidate \<Rightarrow>
                    if relative_to candidate common then (Inr (Some candidate), [])
                    else (Inr None, [warn Malformed ''unsafe_install_dir''
                      ''Manifest install directory escapes steamapps/common and was ignored'' manifest (Some appid)]))))"

definition counts_as_installed :: "steam_fs \<Rightarrow> int \<Rightarrow> path option \<Rightarrow> bool" where
  "counts_as_installed fs flags dir \<longleftrightarrow>
     flags AND app_state_installed \<noteq> 0 \<or>
     (flags \<noteq> 0 \<and> flags AND app_state_uninstalled = 0 \<and> flags AND app_state_update \<noteq> 0 \<and>
      (case dir of None \<Rightarrow> False | Some d \<Rightarrow> readable_directory fs d))"

definition read_app :: "steam_fs \<Rightarrow> kv_items \<Rightarrow> int \<Rightarrow> path \<Rightarrow> path \<Rightarrow> steam_app option \<times> steam_warning list" where
  "read_app fs state filename_appid manifest library =
     (case manifest_appid_of state filename_appid manifest of
        (None, w1) \<Rightarrow> (None, w1)
      | (Some appid, w1) \<Rightarrow> (case manifest_state state appid manifest of
          (None, w2) \<Rightarrow> (None, w1 @ w2)
        | (Some flags, w2) \<Rightarrow> (case manifest_directory fs state library manifest appid of
            (Inl _, w3) \<Rightarrow> (None, w1 @ w2 @ w3)
          | (Inr dir, w3) \<Rightarrow>
              if \<not> counts_as_installed fs flags dir then
                (None, w1 @ w2 @ w3 @ [warn Out_of_scope ''not_fully_installed''
                  ''Manifest lacks proof of a complete or existing in-place installation and was skipped''
                  manifest (Some appid)])
              else
                (let (build, w4) = bounded_integer (map_of state ''buildid'') ''buildid'' manifest appid;
                     (disk, w5) = bounded_integer (map_of state ''SizeOnDisk'') ''SizeOnDisk'' manifest appid
                 in (Some \<lparr>sa_appid = appid, sa_name = nonempty_text (map_of state ''name''), sa_install_dir = dir,
                      sa_build_id = build, sa_size = disk, sa_state_flags = flags, sa_library = library,
                      sa_manifest = manifest\<rparr>, w1 @ w2 @ w3 @ w4 @ w5)))))"

definition read_manifest :: "steam_fs \<Rightarrow> path \<Rightarrow> path \<Rightarrow> steam_app option \<times> steam_warning list" where
  "read_manifest fs manifest library =
     (case manifest_digits (last (parts manifest)) of
        None \<Rightarrow> (None, [])
      | Some ds \<Rightarrow>
          (let filename_appid = int (decimal_value ds) in
           if filename_appid \<le> 0 \<or> sqlite_int_max < filename_appid then
             (None, [warn Malformed
               (if filename_appid \<le> 0 then ''invalid_manifest_appid'' else ''manifest_integer_out_of_range'')
               ''Manifest filename contains an unsupported AppID and was ignored'' manifest (Some filename_appid)])
           else (case read_keyvalues fs manifest of
               (None, w) \<Rightarrow> (None, w)
             | (Some parsed, w) \<Rightarrow> (case object_of (map_of parsed ''AppState'') of
                   None \<Rightarrow> (None, w @ [warn Malformed ''malformed_manifest'' ''Manifest has no AppState object''
                     manifest (Some filename_appid)])
                 | Some state \<Rightarrow>
                     (case read_app fs state filename_appid manifest library of (app, w') \<Rightarrow> (app, w @ w'))))))"


section \<open>Residual content\<close>

record residual =
  rs_compatdata :: int
  rs_shadercache :: int
  rs_workshop :: int
  rs_state :: string

definition max_residual_entries :: int where "max_residual_entries = 60000"

definition walk_size :: "walk_kind \<Rightarrow> int" where
  "walk_size kind = (case kind of Walk_link (Some n) \<Rightarrow> n | Walk_file (Some n) \<Rightarrow> n | _ \<Rightarrow> 0)"

definition walk_ok :: "walk_kind \<Rightarrow> bool" where
  "walk_ok kind = (case kind of Walk_link None \<Rightarrow> False | Walk_file None \<Rightarrow> False | Walk_error \<Rightarrow> False | _ \<Rightarrow> True)"

text \<open>
  The entries of one directory: whether the budget ran out, the budget left, the bytes so far,
  whether all was readable, and the stack with the directories found.
\<close>

fun walk_entries :: "path \<Rightarrow> (string \<times> walk_kind) list \<Rightarrow> int \<Rightarrow> int \<Rightarrow> bool \<Rightarrow> path list
    \<Rightarrow> bool \<times> int \<times> int \<times> bool \<times> path list" where
  "walk_entries p [] b tot complete stack = (False, b, tot, complete, stack)"
| "walk_entries p ((name, kind) # es) b tot complete stack =
     (if b \<le> 0 then (True, b, tot, complete, stack)
      else walk_entries p es (b - 1) (tot + walk_size kind) (complete \<and> walk_ok kind)
        (if kind = Walk_dir then child p name # stack else stack))"

lemma walk_entries_budget:
  "walk_entries p es b tot complete stack = (out, b', tot', complete', stack') \<Longrightarrow> 0 \<le> b \<Longrightarrow>
   0 \<le> b' \<and> b' \<le> b \<and> nat b' + length stack' \<le> nat b + length stack"
proof (induction p es b tot complete stack rule: walk_entries.induct)
  case (2 p name kind es b tot complete stack)
  show ?case
  proof (cases "b \<le> 0")
    case False
    then have "0 \<le> b' \<and> b' \<le> b - 1 \<and>
        nat b' + length stack' \<le> nat (b - 1) + length (if kind = Walk_dir then child p name # stack else stack)"
      using "2.IH" "2.prems" by simp
    then show ?thesis using False by (auto split: if_splits)
  qed (use 2 in auto)
qed auto

text \<open>The loop over the stack; its head is the directory pushed last.\<close>

function measure_loop :: "steam_fs \<Rightarrow> path list \<Rightarrow> int \<Rightarrow> int \<Rightarrow> bool \<Rightarrow> int \<times> bool \<times> int" where
  "measure_loop fs [] b tot complete = (tot, complete, b)"
| "measure_loop fs (p # stack) b tot complete =
     (if b \<le> 0 then (tot, False, b)
      else case walk_entries p (fst (sf_walk fs p)) b tot complete stack of
          (True, b', tot', _, _) \<Rightarrow> (tot', False, b')
        | (False, b', tot', complete', stack') \<Rightarrow>
            measure_loop fs stack' b' tot' (complete' \<and> snd (sf_walk fs p)))"
  by pat_completeness auto

termination
  by (relation "measure (\<lambda>(fs, stack, b, tot, complete). nat b + length stack)")
    (auto dest!: sym [of "(False, _)"] walk_entries_budget)

definition measure_tree :: "steam_fs \<Rightarrow> path \<Rightarrow> int \<Rightarrow> int \<times> bool \<times> int" where
  "measure_tree fs root b = (case sf_lstat fs root of
       Missing \<Rightarrow> (0, True, b)
     | Probe_error \<Rightarrow> (0, False, b)
     | Present \<Rightarrow> if sf_link fs root \<noteq> No_link then (0, False, b) else measure_loop fs [root] b 0 True)"

definition residual_content :: "steam_fs \<Rightarrow> path \<Rightarrow> int \<Rightarrow> residual" where
  "residual_content fs steamapps appid =
     (let name = show_nat (nat appid);
          (compat, c1, b1) = measure_tree fs (child (child steamapps ''compatdata'') name) max_residual_entries;
          (shader, c2, b2) = measure_tree fs (child (child steamapps ''shadercache'') name) b1;
          (workshop, c3, b3) = measure_tree fs (child (child (child steamapps ''workshop'') ''content'') name) b2
      in \<lparr>rs_compatdata = compat, rs_shadercache = shader, rs_workshop = workshop,
          rs_state = (if c1 \<and> c2 \<and> c3 then ''measured'' else ''partial'')\<rparr>)"


section \<open>Libraries\<close>

fun declared_appids :: "(string \<times> kv) list \<Rightarrow> path \<Rightarrow> int list \<times> steam_warning list" where
  "declared_appids [] source = ([], [])"
| "declared_appids ((raw, v) # rest) source =
     (case declared_appids rest source of (ids, ws) \<Rightarrow>
        if \<not> decimal_text raw then (ids, ws)
        else case signed_integer raw of
            Some a \<Rightarrow> if a \<le> sqlite_int_max then (a # ids, ws)
              else (ids, warn Malformed ''manifest_integer_out_of_range''
                ''Declared AppID exceeds the supported signed 64-bit range'' source None # ws)
          | None \<Rightarrow> (ids, warn Malformed ''manifest_integer_out_of_range''
                ''Declared AppID exceeds the supported signed 64-bit range'' source None # ws))"

type_synonym library_spec = "path \<times> int list \<times> string option"

fun folder_specs :: "steam_fs \<Rightarrow> path \<Rightarrow> kv_items \<Rightarrow> path \<Rightarrow> library_spec list \<times> steam_warning list" where
  "folder_specs fs root [] source = ([], [])"
| "folder_specs fs root ((index, raw) # rest) source =
     (case folder_specs fs root rest source of (specs, ws) \<Rightarrow>
        if \<not> decimal_text index then (specs, ws)
        else case raw of
            Kv_text _ \<Rightarrow> (specs, warn Malformed ''unsupported_library_entry''
              (''Library entry  @ index @  uses an unsupported legacy value'') source None # ws)
          | Kv_object folder \<Rightarrow> (case text_of (map_of folder ''path'') of
                None \<Rightarrow> (specs, warn Malformed ''malformed_library_entry''
                  (''Library entry  @ index @  has no path'') source None # ws)
              | Some raw_path \<Rightarrow>
                  if strip raw_path = [] then
                    (specs, warn Malformed ''malformed_library_entry''
                      (''Library entry  @ index @  has no path'') source None # ws)
                  else
                    (let p = sf_expand fs (path_of raw_path);
                         apps = (case object_of (map_of folder ''apps'') of None \<Rightarrow> [] | Some items \<Rightarrow> items);
                         (ids, ws1) = declared_appids apps source
                     in ((if absolute p then p else join_path root p, sort ids, Some index) # specs, ws1 @ ws))))"

definition library_specs :: "steam_fs \<Rightarrow> path \<Rightarrow> kv_items \<Rightarrow> path \<Rightarrow> library_spec list \<times> steam_warning list" where
  "library_specs fs root folders source =
     (case folder_specs fs root folders source of (specs, ws) \<Rightarrow>
        (if list_ex (\<lambda>spec. safe_resolve fs (fst spec) = Some root) specs then specs else (root, [], None) # specs, ws))"

record steam_library =
  sl_path :: path
  sl_declared :: "int list"
  sl_index :: "string option"

fun resolve_libraries :: "steam_fs \<Rightarrow> library_spec list \<Rightarrow> path list \<Rightarrow> steam_library list \<times> steam_warning list" where
  "resolve_libraries fs [] seen = ([], [])"
| "resolve_libraries fs ((p, declared, index) # specs) seen = (case safe_resolve fs p of
       None \<Rightarrow> (case resolve_libraries fs specs seen of (libs, ws) \<Rightarrow>
         (libs, warn Inaccessible ''unresolvable_library_path''
           ''Declared Steam library path could not be resolved safely'' (lexical_absolute (sf_cwd fs) p) None # ws))
     | Some normalized \<Rightarrow>
         if normalized \<in> set seen then
           (case resolve_libraries fs specs seen of (libs, ws) \<Rightarrow>
             (libs, warn Duplicate ''duplicate_library'' ''The same Steam library path appears more than once''
               normalized None # ws))
         else (case resolve_libraries fs specs (normalized # seen) of (libs, ws) \<Rightarrow>
             (\<lparr>sl_path = normalized, sl_declared = declared, sl_index = index\<rparr> # libs, ws)))"


section \<open>Manifests of a library\<close>

definition entry_warning :: "dir_entry \<Rightarrow> path \<Rightarrow> steam_warning option" where
  "entry_warning e p =
     (if de_link e then Some (warn Malformed ''unsafe_manifest_entry'' ''Symbolic-link manifest entry was ignored'' p None)
      else case de_file e of
          None \<Rightarrow> Some (warn Inaccessible ''inaccessible_manifest_entry'' ''Could not inspect manifest entry'' p None)
        | Some False \<Rightarrow> Some (warn Malformed ''nonregular_manifest_entry'' ''Non-regular manifest entry was ignored'' p None)
        | Some True \<Rightarrow>
            if manifest_digits (de_name e) = None
            then Some (warn Malformed ''unsupported_manifest_name'' ''Manifest filename does not contain a numeric AppID'' p None)
            else None)"

definition manifest_candidates :: "dir_entry list \<Rightarrow> dir_entry list" where
  "manifest_candidates es =
     sort_key de_name (filter (\<lambda>e. prefix ''appmanifest_'' (de_name e) \<and> suffix ''.acf'' (de_name e)) es)"

definition filename_id :: "dir_entry \<Rightarrow> int" where
  "filename_id e = (case manifest_digits (de_name e) of None \<Rightarrow> 0 | Some ds \<Rightarrow> int (decimal_value ds))"

fun read_manifests :: "steam_fs \<Rightarrow> path \<Rightarrow> dir_entry list \<Rightarrow> int list
    \<Rightarrow> (steam_app \<times> residual) list \<times> int list \<times> steam_warning list" where
  "read_manifests fs library [] seen = ([], seen, [])"
| "read_manifests fs library (e # es) seen =
     (let steamapps = child library ''steamapps''; manifest = child steamapps (de_name e) in
      if \<not> de_still_file e then
        (case read_manifests fs library es seen of (apps, seen', ws) \<Rightarrow>
          (apps, seen', warn Inaccessible ''unsafe_manifest_file''
            ''Manifest is missing, non-regular, or a symbolic link'' manifest (Some (filename_id e)) # ws))
      else (case read_manifest fs manifest library of
          (None, w) \<Rightarrow> (case read_manifests fs library es seen of (apps, seen', ws) \<Rightarrow> (apps, seen', w @ ws))
        | (Some app, w) \<Rightarrow>
            if sa_appid app \<in> set seen then
              (case read_manifests fs library es seen of (apps, seen', ws) \<Rightarrow>
                (apps, seen', w @ warn Duplicate ''duplicate_app''
                  ''App is already represented by an earlier manifest'' manifest (Some (sa_appid app)) # ws))
            else (case read_manifests fs library es (sa_appid app # seen) of (apps, seen', ws) \<Rightarrow>
                ((app, residual_content fs steamapps (sa_appid app)) # apps, seen', w @ ws))))"

definition scan_library :: "steam_fs \<Rightarrow> steam_library \<Rightarrow> int list
    \<Rightarrow> (steam_app \<times> residual) list \<times> int list \<times> steam_warning list" where
  "scan_library fs lib seen =
     (let steamapps = child (sl_path lib) ''steamapps'' in
      if \<not> readable_directory fs steamapps then
        ([], seen, [warn Inaccessible ''inaccessible_library'' ''Steam library directory is missing or inaccessible'' steamapps None])
      else (case sf_scandir fs steamapps of
          None \<Rightarrow> ([], seen, [warn Inaccessible ''inaccessible_library'' ''Could not enumerate Steam manifests'' steamapps None])
        | Some listing \<Rightarrow>
            (let candidates = manifest_candidates listing;
                 bad = List.map_filter (\<lambda>e. entry_warning e (child steamapps (de_name e))) candidates;
                 manifests = filter (\<lambda>e. entry_warning e (child steamapps (de_name e)) = None) candidates;
                 absent = filter (\<lambda>a. a \<notin> set (map filename_id manifests)) (sort (remdups (sl_declared lib)));
                 gone = map (\<lambda>a. warn Missing_data ''missing_manifest''
                   ''The library index declares an app whose manifest is missing''
                   (child steamapps (''appmanifest_'' @ show_nat (nat a) @ ''.acf'')) (Some a)) absent
             in case read_manifests fs (sl_path lib) manifests seen of (apps, seen', ws) \<Rightarrow>
               (apps, seen', bad @ gone @ ws))))"

fun scan_libraries :: "steam_fs \<Rightarrow> steam_library list \<Rightarrow> int list
    \<Rightarrow> (steam_app \<times> residual) list \<times> steam_warning list" where
  "scan_libraries fs [] seen = ([], [])"
| "scan_libraries fs (lib # libs) seen = (case scan_library fs lib seen of (apps, seen', ws) \<Rightarrow>
     (case scan_libraries fs libs seen' of (apps', ws') \<Rightarrow> (apps @ apps', ws @ ws')))"

record steam_scan =
  sn_root :: path
  sn_libraries :: "steam_library list"
  sn_apps :: "(steam_app \<times> residual) list"
  sn_warnings :: "steam_warning list"

text \<open>The library index: \<open>_probe_library_index\<close>, its document and the specs it gives.\<close>

definition index_specs :: "steam_fs \<Rightarrow> path \<Rightarrow> library_spec list \<times> steam_warning list" where
  "index_specs fs root =
     (let file = child (child root ''steamapps'') ''libraryfolders.vdf''; only_root = [(root, [], None)] in
      case sf_lstat fs file of
        Missing \<Rightarrow> (only_root, [warn Missing_data ''missing_libraryfolders''
          ''Steam library index was not found; scanning the primary library only'' file None])
      | Probe_error \<Rightarrow> (only_root, [warn Inaccessible ''inaccessible_libraryfolders''
          ''Steam library index could not be inspected'' file None])
      | Present \<Rightarrow> (case read_keyvalues fs file of
            (None, w) \<Rightarrow> (only_root, w)
          | (Some doc, w) \<Rightarrow> (case object_of (find_folded doc ''libraryfolders'') of
                None \<Rightarrow> (only_root, w @ [warn Malformed ''malformed_libraryfolders''
                  ''libraryfolders.vdf has no libraryfolders object'' file None])
              | Some folders \<Rightarrow> (case library_specs fs root folders file of (specs, ws) \<Rightarrow> (specs, w @ ws)))))"

definition app_order :: "steam_app \<times> residual \<Rightarrow> int \<times> string" where
  "app_order a = (sa_appid (fst a), path_text (sa_library (fst a)))"

definition scan_local_steam :: "steam_fs \<Rightarrow> string \<Rightarrow> steam_scan" where
  "scan_local_steam fs steam_root =
     (let expanded = sf_expand fs (path_of steam_root) in
      case sf_resolve fs expanded of
        None \<Rightarrow>
          (let root = lexical_absolute (sf_cwd fs) expanded in
           \<lparr>sn_root = root, sn_libraries = [], sn_apps = [],
            sn_warnings = [warn Inaccessible ''unresolvable_steam_root'' ''Steam root could not be resolved safely'' root None]\<rparr>)
      | Some root \<Rightarrow>
          (case index_specs fs root of (specs, w1) \<Rightarrow>
           (case resolve_libraries fs specs [] of (libs, w2) \<Rightarrow>
            (case scan_libraries fs libs [] of (apps, w3) \<Rightarrow>
             \<lparr>sn_root = root, sn_libraries = libs, sn_apps = sort_key app_order apps,
              sn_warnings = w1 @ w2 @ w3\<rparr>))))"

end
