(* ===== verification/Local_Walk.thy ===== *)
theory Local_Walk
  imports Local_Scan
begin

text \<open>
  The bounded walk over residual content against a reference: a tree of directories, its size
  and whether all of it can be read.
\<close>

datatype tree = Tree "(string \<times> node) list" bool
  and node = Leaf walk_kind | Sub tree

text \<open>The flag of a tree says that listing it raised no error at its end.\<close>

fun node_kind :: "node \<Rightarrow> walk_kind" where
  "node_kind (Leaf k) = k"
| "node_kind (Sub t) = Walk_dir"

primrec tree_size :: "tree \<Rightarrow> int" and node_size :: "node \<Rightarrow> int" where
  "tree_size (Tree es ok) = sum_list (map snd (map (map_prod id node_size) es))"
| "node_size (Leaf k) = walk_size k"
| "node_size (Sub t) = tree_size t"

primrec tree_count :: "tree \<Rightarrow> nat" and node_count :: "node \<Rightarrow> nat" where
  "tree_count (Tree es ok) = length es + sum_list (map snd (map (map_prod id node_count) es))"
| "node_count (Leaf k) = 0"
| "node_count (Sub t) = tree_count t"

primrec tree_ok :: "tree \<Rightarrow> bool" and node_ok :: "node \<Rightarrow> bool" where
  "tree_ok (Tree es ok) \<longleftrightarrow> ok \<and> list_all snd (map (map_prod id node_ok) es)"
| "node_ok (Leaf k) \<longleftrightarrow> walk_ok k"
| "node_ok (Sub t) \<longleftrightarrow> tree_ok t"

text \<open>The file system shows the tree at a path; a leaf is not a directory.\<close>

inductive shows_tree :: "steam_fs \<Rightarrow> path \<Rightarrow> tree \<Rightarrow> bool" for fs where
  listed: "sf_walk fs p = (map (\<lambda>(n, x). (n, node_kind x)) es, ok) \<Longrightarrow>
     \<forall>(n, x)\<in>set es. x \<noteq> Leaf Walk_dir \<Longrightarrow>
     \<forall>(n, x)\<in>set es. \<forall>t. x = Sub t \<longrightarrow> shows_tree fs (child p n) t \<Longrightarrow>
     shows_tree fs p (Tree es ok)"

inductive_cases shows_treeE: "shows_tree fs p (Tree es ok)"

fun sub_dirs :: "path \<Rightarrow> (string \<times> node) list \<Rightarrow> (path \<times> tree) list" where
  "sub_dirs p [] = []"
| "sub_dirs p ((n, Sub t) # es) = (child p n, t) # sub_dirs p es"
| "sub_dirs p ((n, Leaf k) # es) = sub_dirs p es"

fun own_size :: "(string \<times> node) list \<Rightarrow> int" where
  "own_size [] = 0"
| "own_size ((n, Sub t) # es) = own_size es"
| "own_size ((n, Leaf k) # es) = walk_size k + own_size es"

fun own_ok :: "(string \<times> node) list \<Rightarrow> bool" where
  "own_ok [] \<longleftrightarrow> True"
| "own_ok ((n, Sub t) # es) \<longleftrightarrow> own_ok es"
| "own_ok ((n, Leaf k) # es) \<longleftrightarrow> walk_ok k \<and> own_ok es"

lemma tree_parts:
  "tree_size (Tree es ok) = own_size es + sum_list (map (tree_size \<circ> snd) (sub_dirs p es))"
  "tree_count (Tree es ok) = length es + sum_list (map (tree_count \<circ> snd) (sub_dirs p es))"
  "tree_ok (Tree es ok) \<longleftrightarrow> ok \<and> own_ok es \<and> list_all (tree_ok \<circ> snd) (sub_dirs p es)"
  by (induction p es rule: sub_dirs.induct) auto

lemma sub_dirs_shown:
  "\<forall>(n, x)\<in>set es. \<forall>t. x = Sub t \<longrightarrow> shows_tree fs (child p n) t \<Longrightarrow>
   \<forall>(q, t)\<in>set (sub_dirs p es). shows_tree fs q t"
  by (induction p es rule: sub_dirs.induct) auto

lemma walk_entries_listed:
  assumes "0 \<le> b" "\<forall>(n, x)\<in>set es. x \<noteq> Leaf Walk_dir"
  shows "if int (length es) \<le> b
    then walk_entries p (map (\<lambda>(n, x). (n, node_kind x)) es) b tot c stack =
      (False, b - int (length es), tot + own_size es, c \<and> own_ok es, rev (map fst (sub_dirs p es)) @ stack)
    else fst (walk_entries p (map (\<lambda>(n, x). (n, node_kind x)) es) b tot c stack)"
  using assms
proof (induction p es arbitrary: b tot c stack rule: sub_dirs.induct)
  case (2 p n t es)
  then show ?case
    using "2.IH" [of "b - 1" tot c "child p n # stack"]
    by (auto simp: walk_size_def walk_ok_def split: if_splits)
next
  case (3 p n k es)
  then show ?case
    using "3.IH" [of "b - 1" "tot + walk_size k" "c \<and> walk_ok k" stack]
    by (auto simp: conj_ac split: if_splits)
qed simp

definition trees_size :: "(path \<times> tree) list \<Rightarrow> int" where
  "trees_size ps = sum_list (map (tree_size \<circ> snd) ps)"

definition trees_entries :: "(path \<times> tree) list \<Rightarrow> nat" where
  "trees_entries ps = sum_list (map (tree_count \<circ> snd) ps)"

definition trees_ok :: "(path \<times> tree) list \<Rightarrow> bool" where
  "trees_ok ps \<longleftrightarrow> list_all (tree_ok \<circ> snd) ps"

lemmas trees_defs = trees_size_def trees_entries_def trees_ok_def

lemma trees_unfold:
  "trees_size ((p, Tree es ok) # ps) = own_size es + trees_size (rev (sub_dirs p es) @ ps)"
  "trees_entries ((p, Tree es ok) # ps) = length es + trees_entries (rev (sub_dirs p es) @ ps)"
  "trees_ok ((p, Tree es ok) # ps) \<longleftrightarrow> ok \<and> own_ok es \<and> trees_ok (rev (sub_dirs p es) @ ps)"
  by (auto simp: trees_defs tree_parts [where p = p] rev_map [symmetric] list_all_iff simp del: tree_size.simps
      tree_count.simps tree_ok.simps)

text \<open>
  With a budget above the number of entries the walk is exact; where it says it was complete,
  it is exact whatever the budget.
\<close>

lemma measure_loop_trees:
  assumes "\<forall>(q, t)\<in>set ps. shows_tree fs q t" "0 \<le> b"
  shows "int (trees_entries ps) < b \<or> fst (snd (measure_loop fs (map fst ps) b tot c)) \<Longrightarrow>
    measure_loop fs (map fst ps) b tot c = (tot + trees_size ps, c \<and> trees_ok ps, b - int (trees_entries ps))"
  using assms
proof (induction fs "map fst ps" b tot c arbitrary: ps rule: measure_loop.induct)
  case (1 fs b tot c)
  then show ?case by (simp add: trees_defs)
next
  case (2 fs p stack b tot c)
  obtain es ok ps' where ps: "ps = (p, Tree es ok) # ps'" and stack: "stack = map fst ps'"
    using 2(2) by (cases ps; cases "snd (hd ps)") auto
  have "shows_tree fs p (Tree es ok)"
    using "2.prems"(2) ps by simp
  then have walk: "sf_walk fs p = (map (\<lambda>(n, x). (n, node_kind x)) es, ok)"
    and leaf: "\<forall>(n, x)\<in>set es. x \<noteq> Leaf Walk_dir"
    and subs: "\<forall>(n, x)\<in>set es. \<forall>t. x = Sub t \<longrightarrow> shows_tree fs (child p n) t"
    by (auto elim!: shows_treeE)
  note step = walk_entries_listed [OF "2.prems"(3) leaf, of p tot c stack]
  show ?case
  proof (cases "b \<le> 0")
    case True
    then show ?thesis using "2.prems" ps stack by simp
  next
    case pos: False
    show ?thesis
    proof (cases "int (length es) \<le> b")
      case True
      let ?ps = "rev (sub_dirs p es) @ ps'"
      have run: "walk_entries p (fst (sf_walk fs p)) b tot c stack =
          (False, b - int (length es), tot + own_size es, c \<and> own_ok es, map fst ?ps)"
        using step True walk stack by (simp add: rev_map)
      have same: "measure_loop fs (map fst ps) b tot c =
          measure_loop fs (map fst ?ps) (b - int (length es)) (tot + own_size es) ((c \<and> own_ok es) \<and> ok)"
        using pos run walk by (simp add: ps stack)
      have shown: "\<forall>(q, t)\<in>set ?ps. shows_tree fs q t"
        using sub_dirs_shown [OF subs] "2.prems"(2) ps by auto
      have "measure_loop fs (map fst ?ps) (b - int (length es)) (tot + own_size es) ((c \<and> own_ok es) \<and> snd (sf_walk fs p)) =
          (tot + own_size es + trees_size ?ps, ((c \<and> own_ok es) \<and> snd (sf_walk fs p)) \<and> trees_ok ?ps,
           b - int (length es) - int (trees_entries ?ps))"
        by (rule 2(1) [OF pos run [symmetric] refl refl refl refl _ shown])
          (use "2.prems"(1) True same in \<open>auto simp: ps trees_unfold walk\<close>)
      then show ?thesis
        unfolding same by (simp add: ps trees_unfold walk conj_ac)
    next
      case False
      then have "fst (walk_entries p (fst (sf_walk fs p)) b tot c stack)"
        using step walk by simp
      then have "\<not> fst (snd (measure_loop fs (map fst ps) b tot c))"
        using pos by (auto simp: ps stack split: prod.splits)
      moreover have "\<not> int (trees_entries ps) < b"
        using False by (simp add: ps trees_unfold)
      ultimately show ?thesis using "2.prems"(1) by simp
    qed
  qed
qed


text \<open>C28. Measuring a tree that the budget covers gives its exact size and says it is complete
  exactly where all of it could be read; and a measurement that calls itself complete is the
  exact size whatever the budget was.\<close>

theorem residual_measured_exact:
  assumes "shows_tree fs root t" "sf_lstat fs root = Present" "sf_link fs root = No_link" "0 \<le> b"
  shows "(int (tree_count t) < b \<longrightarrow>
      measure_tree fs root b = (tree_size t, tree_ok t, b - int (tree_count t)))
    \<and> (fst (snd (measure_tree fs root b)) \<longrightarrow> fst (measure_tree fs root b) = tree_size t \<and> tree_ok t)"
  using measure_loop_trees [of "[(root, t)]" fs b 0 True] assms
  by (auto simp: measure_tree_def trees_defs)

end
