(* ===== verification/Key_Values_Props.thy ===== *)
theory Key_Values_Props
  imports Key_Values
begin

text \<open>
  What the KeyValues parser promises: a document it returns is within the limits, and every
  document within them is read back from its text.
\<close>


section \<open>Documents within the limits\<close>

definition folds :: "kv_items \<Rightarrow> nat list list" where
  "folds items = map (fold_points \<circ> fst) items"

lemma folds_simps [simp]:
  "folds [] = []" "folds (p # items) = fold_points (fst p) # folds items" "folds (a @ b) = folds a @ folds b"
  by (simp_all add: folds_def)

fun entries :: "kv_items \<Rightarrow> int" where
  "entries [] = 0"
| "entries ((k, Kv_text s) # items) = 1 + entries items"
| "entries ((k, Kv_object inner) # items) = 1 + entries inner + entries items"

fun within_limits :: "nat \<Rightarrow> kv_items \<Rightarrow> bool" where
  "within_limits d [] \<longleftrightarrow> True"
| "within_limits d ((k, Kv_text s) # items) \<longleftrightarrow> fold_points k \<notin> set (folds items) \<and> within_limits d items"
| "within_limits d ((k, Kv_object inner) # items) \<longleftrightarrow>
     fold_points k \<notin> set (folds items) \<and> d + 1 \<le> max_depth \<and> within_limits (d + 1) inner \<and> within_limits d items"

lemma entries_append [simp]: "entries (a @ b) = entries a + entries b"
  by (induction a rule: entries.induct) simp_all

lemma entries_nonneg [simp]: "0 \<le> entries items"
  by (induction items rule: entries.induct) simp_all

lemma within_append:
  "within_limits d (a @ b) \<longleftrightarrow> within_limits d a \<and> within_limits d b \<and> set (folds a) \<inter> set (folds b) = {}"
  by (induction d a rule: within_limits.induct) auto

lemma parse_object_within:
  assumes "parse_object t d items n rest = Inr (items', n', rest')" "within_limits d items" "n \<le> max_entries"
  shows "within_limits d items' \<and> n' = n + entries items' - entries items \<and> n' \<le> max_entries"
  using assms
proof (induction t d items n rest arbitrary: items' n' rest' rule: parse_object.induct)
  case (1 t d items n rest)
  note run = "1.prems"(1) [unfolded parse_object.simps [of t d items n rest]]
  show ?case
  proof (cases "next_entry t items n rest")
    case (Inr e)
    from Inr show ?thesis
    proof (cases rule: next_entry_Inr)
      case stops
      then show ?thesis using run Inr "1.prems" by auto
    next
      case closes
      then show ?thesis using run Inr "1.prems" by auto
    next
      case (pair c r k r1 d' r2 v r3)
      have "within_limits d (items @ [(k, Kv_text v)])"
        using pair(4) "1.prems"(2) by (simp add: within_append folds_def)
      then show ?thesis
        using "1.IH"(3) [OF Inr pair(9), of items' n' rest'] run Inr pair by simp
    next
      case (opens c r k r1 r2)
      have deep: "d + 1 \<le> max_depth"
        using run Inr opens(7) by (auto split: if_splits)
      obtain inner m r' where inner: "parse_object False (d + 1) [] (n + 1) r2 = Inr (inner, m, r')"
        and outer: "parse_object t d (items @ [(k, Kv_object inner)]) m r' = Inr (items', n', rest')"
        using run Inr opens(7) deep by (auto split: sum.splits)
      have i: "within_limits (d + 1) inner \<and> m = n + 1 + entries inner \<and> m \<le> max_entries"
        using "1.IH"(1) [OF Inr opens(7) _ inner] deep opens(5) by simp
      then have "within_limits d (items @ [(k, Kv_object inner)])"
        using opens(4) deep "1.prems"(2) by (simp add: within_append folds_def)
      then show ?thesis
        using "1.IH"(2) [OF Inr opens(7) _ inner refl refl, of items' n' rest'] outer deep i by simp
    qed
  qed (use run in auto)
qed

text \<open>A parsed document keeps the documented limits: at most 64 levels of nesting and
  100,000 entries, and no object with two keys that fold to the same text.\<close>

theorem parsed_within_limits:
  assumes "parse_keyvalues text = Inr items"
  shows "within_limits 0 items \<and> entries items \<le> max_entries"
proof -
  obtain n r where "parse_object True 0 [] 0 text = Inr (items, n, r)"
    using assms by (auto simp: parse_keyvalues_def split: sum.splits if_splits)
  from parse_object_within [OF this] show ?thesis
    by (simp add: max_entries_def)
qed


section \<open>Writing a document\<close>

definition escape :: "char \<Rightarrow> string" where
  "escape c = (if c = quote_char \<or> c = escape_char then [escape_char, c]
     else if c = newline_char then [escape_char, CHR ''n''] else [c])"

definition show_text :: "string \<Rightarrow> string" where
  "show_text s = quote_char # concat (map escape s) @ [quote_char]"

fun show_items :: "kv_items \<Rightarrow> string" where
  "show_items [] = []"
| "show_items ((k, Kv_text s) # items) = show_text k @ [tab_char] @ show_text s @ [newline_char] @ show_items items"
| "show_items ((k, Kv_object inner) # items) =
     show_text k @ [newline_char] @ ''{'' @ [newline_char] @ show_items inner @ ''}'' @ [newline_char] @ show_items items"

fun texts_fit :: "kv_items \<Rightarrow> bool" where
  "texts_fit [] \<longleftrightarrow> True"
| "texts_fit ((k, Kv_text s) # items) \<longleftrightarrow>
     int (length k) \<le> max_string \<and> int (length s) \<le> max_string \<and> texts_fit items"
| "texts_fit ((k, Kv_object inner) # items) \<longleftrightarrow>
     int (length k) \<le> max_string \<and> texts_fit inner \<and> texts_fit items"

lemma special_chars [simp]:
  "quote_char \<noteq> escape_char" "escape_char \<noteq> quote_char" "newline_char \<noteq> quote_char" "newline_char \<noteq> escape_char"
  "CHR ''n'' \<noteq> quote_char" "CHR ''{'' \<noteq> quote_char" "CHR ''}'' \<noteq> quote_char" "quote_char \<noteq> CHR ''{''"
  "quote_char \<noteq> CHR ''}''" "quote_char \<noteq> CHR ''/''" "unescape (CHR ''n'') = newline_char"
  "unescape quote_char = quote_char" "unescape escape_char = escape_char"
  by code_simp+

lemma blank_chars [simp]:
  "is_space newline_char" "is_space tab_char" "\<not> is_space quote_char" "\<not> is_space (CHR ''{'')" "\<not> is_space (CHR ''}'')"
  by (simp_all add: is_space_def code_def newline_char_def tab_char_def quote_char_def)

lemma string_body_escaped:
  "int (length val + length s) \<le> max_string \<Longrightarrow>
   string_body val (concat (map escape s) @ quote_char # r) = Inr (rev val @ s, r)"
  by (induction s arbitrary: val) (auto simp: escape_def)

lemma skip_blank_simps [simp]:
  "skip_blank [] = []"
  "is_space c \<Longrightarrow> skip_blank (c # r) = skip_blank r"
  "\<not> is_space c \<Longrightarrow> c \<noteq> CHR ''/'' \<Longrightarrow> skip_blank (c # r) = c # r"
  by (simp_all add: skip_blank.simps [of "[]"] skip_blank.simps [of "c # r"] skip_blank.simps [of r])

lemma parse_show_text:
  "int (length s) \<le> max_string \<Longrightarrow> parse_string (show_text s @ r) = Inr (s, r)"
  using string_body_escaped [of "[]" s r] by (simp add: parse_string_def show_text_def)

lemma next_entry_text:
  assumes "int (length k) \<le> max_string" "int (length s) \<le> max_string"
    "fold_points k \<notin> set (folds items)" "n + 1 \<le> max_entries"
  shows "next_entry t items n (show_text k @ [tab_char] @ show_text s @ r) = Inr (Pair k s r)"
  using assms parse_show_text [of k "[tab_char] @ show_text s @ r"] parse_show_text [of s r]
  by (simp add: next_entry_def folds_def) (simp add: show_text_def)

lemma next_entry_object:
  assumes "int (length k) \<le> max_string" "fold_points k \<notin> set (folds items)" "n + 1 \<le> max_entries"
  shows "next_entry t items n (show_text k @ [newline_char] @ ''{'' @ r) = Inr (Opens k r)"
  using assms parse_show_text [of k "[newline_char] @ ''{'' @ r"]
  by (simp add: next_entry_def folds_def) (simp add: show_text_def)

lemma next_entry_close: "next_entry False items n (''}'' @ r) = Inr (Ends r)"
  by (simp add: next_entry_def)

lemma next_entry_blank: "is_space c \<Longrightarrow> next_entry t items n (c # r) = next_entry t items n r"
  by (simp add: next_entry_def)

lemma parse_object_blank: "is_space c \<Longrightarrow> parse_object t d items n (c # r) = parse_object t d items n r"
  by (simp add: parse_object.simps [of t d items n "c # r"] parse_object.simps [of t d items n r] next_entry_blank)

definition tail_of :: "bool \<Rightarrow> string \<Rightarrow> string" where
  "tail_of t r = (if t then [] else ''}'' @ r)"

lemma parse_show_items:
  assumes "within_limits d (items @ ds)" "texts_fit ds" "n + entries ds \<le> max_entries" "t \<longrightarrow> r = []"
  shows "parse_object t d items n (show_items ds @ tail_of t r) = Inr (items @ ds, n + entries ds, r)"
  using assms
proof (induction ds arbitrary: t d items n r rule: show_items.induct)
  case 1
  then show ?case
    by (cases t) (simp_all add: parse_object.simps tail_of_def next_entry_def)
next
  case (2 k s ds)
  have "n + 1 \<le> max_entries"
    using "2.prems"(3) entries_nonneg [of ds] unfolding entries.simps by linarith
  then have new: "fold_points k \<notin> set (folds items)" "n + 1 \<le> max_entries"
    using "2.prems"(1) by (auto simp: within_append)
  have "parse_object t d items n (show_items ((k, Kv_text s) # ds) @ tail_of t r) =
      parse_object t d (items @ [(k, Kv_text s)]) (n + 1) (newline_char # show_items ds @ tail_of t r)"
    using "2.prems" next_entry_text [OF _ _ new, where s = s and t = t and r = "newline_char # show_items ds @ tail_of t r"]
    by (subst parse_object.simps) simp
  also have "\<dots> = parse_object t d (items @ [(k, Kv_text s)]) (n + 1) (show_items ds @ tail_of t r)"
    by (simp add: parse_object_blank)
  also have "\<dots> = Inr ((items @ [(k, Kv_text s)]) @ ds, n + 1 + entries ds, r)"
    using "2.prems" by (intro "2.IH") auto
  finally show ?case by simp
next
  case (3 k inner ds)
  have fits: "n + 1 \<le> max_entries" "n + 1 + entries inner \<le> max_entries"
    using "3.prems"(3) entries_nonneg [of ds] entries_nonneg [of inner] unfolding entries.simps by linarith+
  then have new: "fold_points k \<notin> set (folds items)" "n + 1 \<le> max_entries" and deep: "d + 1 \<le> max_depth"
    using "3.prems"(1) by (auto simp: within_append)
  let ?rest = "newline_char # show_items ds @ tail_of t r"
  have "parse_object False (d + 1) [] (n + 1) (newline_char # show_items inner @ tail_of False ?rest) =
      Inr (inner, n + 1 + entries inner, ?rest)"
    unfolding parse_object_blank [OF blank_chars(1)]
    using "3.prems" "3.IH"(1) [of "d + 1" "[]" "n + 1" False ?rest] fits
    by (auto simp: within_append)
  then have "parse_object t d items n (show_items ((k, Kv_object inner) # ds) @ tail_of t r) =
      parse_object t d (items @ [(k, Kv_object inner)]) (n + 1 + entries inner) ?rest"
    using "3.prems" deep next_entry_object [OF _ new, where t = t
        and r = "newline_char # show_items inner @ ''}'' @ ?rest"]
    by (subst parse_object.simps) (simp add: tail_of_def)
  also have "\<dots> = parse_object t d (items @ [(k, Kv_object inner)]) (n + 1 + entries inner) (show_items ds @ tail_of t r)"
    by (simp add: parse_object_blank)
  also have "\<dots> = Inr ((items @ [(k, Kv_object inner)]) @ ds, n + 1 + entries inner + entries ds, r)"
    using "3.prems" by (intro "3.IH"(2)) auto
  finally show ?case by simp
qed

text \<open>C25. A document within the limits is read back from its text, key for key and in order.\<close>

theorem keyvalues_roundtrip:
  assumes "within_limits 0 items" "entries items \<le> max_entries" "texts_fit items"
  shows "parse_keyvalues (show_items items) = Inr items"
  using parse_show_items [of 0 "[]" items 0 True "[]"] assms
  by (simp add: parse_keyvalues_def tail_of_def)


section \<open>The string limit\<close>

text \<open>
  \<open>MAX_KEYVALUES_STRING\<close> bounds a string only where an unescaped character is appended:
  escapes alone make strings of any length.
\<close>

lemma escapes_evade_limit:
  "string_body [] (concat (replicate n [escape_char, CHR ''x'']) @ [quote_char]) = Inr (replicate n (CHR ''x''), [])"
proof -
  have "string_body val (concat (replicate n [escape_char, CHR ''x'']) @ [quote_char])
      = Inr (rev val @ replicate n (CHR ''x''), [])" for val
    by (induction n arbitrary: val) (simp_all add: unescape_def replicate_append_same)
  from this [of "[]"] show ?thesis by simp
qed


section \<open>A manifest\<close>

definition demo_document :: kv_items where
  "demo_document = [(''AppState'', Kv_object
     [(''appid'', Kv_text ''440''), (''installdir'', Kv_text ''Team Fortress 2''),
      (''UserConfig'', Kv_object [(''language'', Kv_text [quote_char, escape_char, newline_char])])])]"

theorem keyvalues_roundtrip_witness:
  "parse_keyvalues (show_items demo_document) = Inr demo_document"
  by (rule keyvalues_roundtrip) code_simp+

definition demo_text :: string where
  "demo_text = [quote_char] @ ''App'' @ [quote_char] @ ''{ // one entry'' @ [newline_char, quote_char] @ ''appid''
     @ [quote_char, quote_char] @ ''440'' @ [quote_char] @ ''}''"

lemma demo_parsed: "parse_keyvalues demo_text = Inr [(''App'', Kv_object [(''appid'', Kv_text ''440'')])]"
  by code_simp

theorem parsed_within_limits_witness:
  "within_limits 0 [(''App'', Kv_object [(''appid'', Kv_text ''440'')])]"
  using parsed_within_limits [OF demo_parsed] by simp

end
