(* ===== verification/Local_Scan_Props.thy ===== *)
theory Local_Scan_Props
  imports Local_Walk Key_Values_Props
begin

text \<open>
  What a scan promises: an app it lists is installed by the documented definition, inside its
  library, and listed once; and a manifest it does not list is named in a warning.
\<close>


section \<open>One manifest\<close>

definition inside_common :: "steam_fs \<Rightarrow> path \<Rightarrow> path \<Rightarrow> bool" where
  "inside_common fs library d \<longleftrightarrow>
     (\<exists>common. sf_resolve fs (child (child library ''steamapps'') ''common'') = Some common \<and> relative_to d common)"

definition app_sound :: "steam_fs \<Rightarrow> steam_app \<Rightarrow> bool" where
  "app_sound fs a \<longleftrightarrow>
     1 \<le> sa_appid a \<and> sa_appid a \<le> sqlite_int_max \<and>
     0 \<le> sa_state_flags a \<and> sa_state_flags a \<le> sqlite_int_max \<and>
     sa_state_flags a AND app_state_uninstalled = 0 \<and>
     (sa_state_flags a AND app_state_installed \<noteq> 0 \<or>
      sa_state_flags a AND app_state_update \<noteq> 0 \<and>
      (\<exists>d. sa_install_dir a = Some d \<and> readable_directory fs d)) \<and>
     (\<forall>d. sa_install_dir a = Some d \<longrightarrow> inside_common fs (sa_library a) d) \<and>
     (\<forall>n. sa_build_id a = Some n \<longrightarrow> 0 \<le> n \<and> n \<le> sqlite_int_max) \<and>
     (\<forall>n. sa_size a = Some n \<longrightarrow> 0 \<le> n \<and> n \<le> sqlite_int_max)"

lemma bounded_integer_Some:
  "bounded_integer v f m a = (Some n, w) \<Longrightarrow> 0 \<le> n \<and> n \<le> sqlite_int_max"
  by (auto simp: bounded_integer_def split: if_splits option.splits)

lemma manifest_appid_Some:
  "manifest_appid_of st f m = (Some a, w) \<Longrightarrow> 1 \<le> f \<Longrightarrow> f \<le> sqlite_int_max \<Longrightarrow> 1 \<le> a \<and> a \<le> sqlite_int_max"
  by (auto simp: manifest_appid_of_def split: if_splits option.splits)

lemma manifest_state_Some:
  "manifest_state st a m = (Some flags, w) \<Longrightarrow>
   0 \<le> flags \<and> flags \<le> sqlite_int_max \<and> flags AND app_state_uninstalled = 0"
  by (auto simp: manifest_state_def nonnegative_value_def Let_def split: if_splits option.splits)

lemma manifest_directory_Some:
  "manifest_directory fs st library m a = (Inr (Some d), w) \<Longrightarrow> inside_common fs library d"
  by (auto simp: manifest_directory_def inside_common_def Let_def split: if_splits option.splits)

lemma read_app_Some:
  assumes "read_app fs st f m library = (Some a, w)" "1 \<le> f" "f \<le> sqlite_int_max"
  shows "app_sound fs a \<and> sa_library a = library \<and> sa_manifest a = m"
proof -
  obtain appid w1 where id: "manifest_appid_of st f m = (Some appid, w1)"
    using assms(1) by (auto simp: read_app_def split: prod.splits option.splits)
  obtain flags w2 where flags: "manifest_state st appid m = (Some flags, w2)"
    using assms(1) id by (auto simp: read_app_def split: prod.splits option.splits)
  obtain dir w3 where dir: "manifest_directory fs st library m appid = (Inr dir, w3)"
    using assms(1) id flags by (auto simp: read_app_def split: prod.splits option.splits sum.splits)
  obtain build w4 disk w5 where ints: "bounded_integer (map_of st ''buildid'') ''buildid'' m appid = (build, w4)"
    "bounded_integer (map_of st ''SizeOnDisk'') ''SizeOnDisk'' m appid = (disk, w5)"
    by (metis surj_pair)
  have a: "counts_as_installed fs flags dir"
    "a = \<lparr>sa_appid = appid, sa_name = nonempty_text (map_of st ''name''), sa_install_dir = dir,
       sa_build_id = build, sa_size = disk, sa_state_flags = flags, sa_library = library, sa_manifest = m\<rparr>"
    using assms(1) id flags dir ints by (auto simp: read_app_def Let_def split: if_splits)
  show ?thesis
    using manifest_appid_Some [OF id assms(2,3)] manifest_state_Some [OF flags]
      manifest_directory_Some [of fs st library m appid _ w3] dir a(1)
      bounded_integer_Some [of "map_of st ''buildid''" "''buildid''" m appid _ w4]
      bounded_integer_Some [of "map_of st ''SizeOnDisk''" "''SizeOnDisk''" m appid _ w5] ints
    by (auto simp: a(2) app_sound_def counts_as_installed_def split: option.splits)
qed

lemma read_manifest_Some:
  "read_manifest fs m library = (Some a, w) \<Longrightarrow> app_sound fs a \<and> sa_library a = library \<and> sa_manifest a = m"
  by (auto simp: read_manifest_def Let_def split: option.splits if_splits prod.splits dest!: read_app_Some)


section \<open>The scan\<close>

definition listed :: "steam_fs \<Rightarrow> path set \<Rightarrow> steam_app \<times> residual \<Rightarrow> bool" where
  "listed fs libraries x \<longleftrightarrow> app_sound fs (fst x) \<and> sa_library (fst x) \<in> libraries \<and>
     snd x = residual_content fs (child (sa_library (fst x)) ''steamapps'') (sa_appid (fst x))"

definition app_ids :: "(steam_app \<times> residual) list \<Rightarrow> int list" where
  "app_ids apps = map (sa_appid \<circ> fst) apps"

lemma app_ids_simps [simp]:
  "app_ids [] = []" "app_ids (x # xs) = sa_appid (fst x) # app_ids xs" "app_ids (xs @ ys) = app_ids xs @ app_ids ys"
  by (simp_all add: app_ids_def)

lemma listed_mono: "listed fs A x \<Longrightarrow> A \<subseteq> B \<Longrightarrow> listed fs B x"
  by (auto simp: listed_def)

lemma read_manifests_sound:
  assumes "read_manifests fs library es seen = (apps, seen', ws)"
  shows "(\<forall>x\<in>set apps. listed fs {library} x) \<and> set (app_ids apps) \<inter> set seen = {} \<and> distinct (app_ids apps) \<and>
    set seen' = set seen \<union> set (app_ids apps)"
  using assms
proof (induction es arbitrary: seen apps seen' ws)
  case Nil
  then show ?case by simp
next
  case (Cons e es)
  let ?m = "child (child library ''steamapps'') (de_name e)"
  obtain r w where r: "read_manifest fs ?m library = (r, w)" by fastforce
  show ?case
  proof (cases "de_still_file e \<and> (\<exists>a. r = Some a \<and> sa_appid a \<notin> set seen)")
    case False
    then obtain ws1 where "read_manifests fs library es seen = (apps, seen', ws1)"
      using Cons.prems r by (auto simp: Let_def split: prod.splits if_splits option.splits)
    then show ?thesis by (rule Cons.IH)
  next
    case True
    then obtain a where a: "de_still_file e" "r = Some a" "sa_appid a \<notin> set seen" by blast
    obtain apps1 ws1 where rest: "read_manifests fs library es (sa_appid a # seen) = (apps1, seen', ws1)"
      "apps = (a, residual_content fs (child library ''steamapps'') (sa_appid a)) # apps1"
      using Cons.prems r a by (auto simp: Let_def split: prod.splits)
    show ?thesis
      using Cons.IH [OF rest(1)] rest(2) a read_manifest_Some [of fs ?m library a w] r
      by (auto simp: listed_def)
  qed
qed

lemma scan_library_sound:
  assumes "scan_library fs lib seen = (apps, seen', ws)"
  shows "(\<forall>x\<in>set apps. listed fs {sl_path lib} x) \<and> set (app_ids apps) \<inter> set seen = {} \<and> distinct (app_ids apps) \<and>
    set seen' = set seen \<union> set (app_ids apps)"
proof (cases "readable_directory fs (child (sl_path lib) ''steamapps'') \<and>
    sf_scandir fs (child (sl_path lib) ''steamapps'') \<noteq> None")
  case True
  then obtain es ws1 where "read_manifests fs (sl_path lib) es seen = (apps, seen', ws1)"
    using assms by (auto simp: scan_library_def Let_def split: prod.splits)
  then show ?thesis by (rule read_manifests_sound)
next
  case False
  then show ?thesis using assms by (auto simp: scan_library_def Let_def split: if_splits option.splits)
qed

lemma scan_libraries_sound:
  assumes "scan_libraries fs libs seen = (apps, ws)"
  shows "(\<forall>x\<in>set apps. listed fs (sl_path ` set libs) x) \<and> set (app_ids apps) \<inter> set seen = {} \<and> distinct (app_ids apps)"
  using assms
proof (induction libs arbitrary: seen apps ws)
  case Nil
  then show ?case by simp
next
  case (Cons lib libs)
  obtain apps1 seen1 ws1 where one: "scan_library fs lib seen = (apps1, seen1, ws1)"
    by (metis prod_cases3)
  obtain apps2 ws2 where two: "scan_libraries fs libs seen1 = (apps2, ws2)"
    by fastforce
  have "apps = apps1 @ apps2" using Cons.prems one two by simp
  then show ?case
    using scan_library_sound [OF one] Cons.IH [OF two]
    by (auto intro: listed_mono)
qed

lemma resolve_libraries_sound:
  assumes "resolve_libraries fs specs seen = (libs, ws)"
  shows "distinct (map sl_path libs) \<and> set (map sl_path libs) \<inter> set seen = {} \<and>
    (\<forall>lib\<in>set libs. \<exists>spec\<in>set specs. safe_resolve fs (fst spec) = Some (sl_path lib) \<and> sl_declared lib = fst (snd spec))"
  using assms
proof (induction specs arbitrary: seen libs ws)
  case Nil
  then show ?case by simp
next
  case (Cons spec specs)
  obtain p declared index where spec: "spec = (p, declared, index)" by (metis prod_cases3)
  show ?case
  proof (cases "\<exists>n. safe_resolve fs p = Some n \<and> n \<notin> set seen")
    case True
    then obtain n where n: "safe_resolve fs p = Some n" "n \<notin> set seen" by blast
    obtain libs1 ws1 where rest: "resolve_libraries fs specs (n # seen) = (libs1, ws1)" by fastforce
    have "libs = \<lparr>sl_path = n, sl_declared = declared, sl_index = index\<rparr> # libs1"
      using Cons.prems spec n rest by simp
    then show ?thesis
      using Cons.IH [OF rest] n spec by fastforce
  next
    case False
    then obtain ws1 where "resolve_libraries fs specs seen = (libs, ws1)"
      using Cons.prems spec by (auto split: option.splits prod.splits if_splits)
    then show ?thesis using Cons.IH by fastforce
  qed
qed

text \<open>C26. Every app a scan lists is installed by its state flags, or is being updated in a
  directory that can be read; its directory lies inside \<open>steamapps/common\<close> of the library it
  was found in, and its numbers fit a signed 64-bit integer.  Apps are listed once, in the order
  of their AppIDs, libraries once each child their resolved paths.\<close>

theorem scan_lists_installed_apps:
  "(\<forall>(a, r)\<in>set (sn_apps (scan_local_steam fs steam_root)).
      app_sound fs a \<and> sa_library a \<in> sl_path ` set (sn_libraries (scan_local_steam fs steam_root)) \<and>
      r = residual_content fs (child (sa_library a) ''steamapps'') (sa_appid a))
   \<and> sorted_wrt (<) (app_ids (sn_apps (scan_local_steam fs steam_root)))
   \<and> distinct (map sl_path (sn_libraries (scan_local_steam fs steam_root)))"
proof (cases "sf_resolve fs (sf_expand fs (path_of steam_root))")
  case None
  then show ?thesis by (simp add: scan_local_steam_def Let_def)
next
  case (Some root)
  obtain specs w1 where specs: "index_specs fs root = (specs, w1)" by fastforce
  obtain libs w2 where libs: "resolve_libraries fs specs [] = (libs, w2)" by fastforce
  obtain apps w3 where apps: "scan_libraries fs libs [] = (apps, w3)" by fastforce
  have scan: "sn_apps (scan_local_steam fs steam_root) = sort_key app_order apps"
    "sn_libraries (scan_local_steam fs steam_root) = libs"
    using Some specs libs apps by (simp_all add: scan_local_steam_def Let_def)
  have "sorted_wrt (\<lambda>x y. sa_appid (fst x) \<le> sa_appid (fst y)) (sort_key app_order apps)"
    using sorted_sort_key [of app_order apps]
    by (auto simp: sorted_wrt_map app_order_def elim!: sorted_wrt_mono_rel [rotated])
  then have "sorted (app_ids (sort_key app_order apps))"
    by (simp add: sorted_wrt_map app_ids_def)
  moreover have "distinct (app_ids (sort_key app_order apps))"
    using scan_libraries_sound [OF apps] by (simp add: app_ids_def distinct_map)
  ultimately have "sorted_wrt (<) (app_ids (sort_key app_order apps))"
    by (simp add: strict_sorted_iff)
  then show ?thesis
    using scan_libraries_sound [OF apps] resolve_libraries_sound [OF libs] by (auto simp: scan listed_def)
qed


section \<open>No manifest goes missing\<close>

definition warned :: "steam_warning list \<Rightarrow> path \<Rightarrow> bool" where
  "warned ws p \<longleftrightarrow> (\<exists>w\<in>set ws. sw_path w = p)"

lemma warned_simps [simp]:
  "\<not> warned [] p" "warned (w # ws) p \<longleftrightarrow> sw_path w = p \<or> warned ws p"
  "warned (ws @ ws') p \<longleftrightarrow> warned ws p \<or> warned ws' p"
  by (auto simp: warned_def)

lemma sw_path_warn [simp]: "sw_path (warn k c m p a) = p"
  by (simp add: warn_def)

lemma read_keyvalues_None: "read_keyvalues fs p = (None, w) \<Longrightarrow> warned w p"
  by (auto simp: read_keyvalues_def split: kv_file.splits option.splits sum.splits if_splits)

lemma read_app_None: "read_app fs st f m library = (None, w) \<Longrightarrow> warned w m"
  by (auto simp: read_app_def manifest_appid_of_def manifest_state_def manifest_directory_def Let_def
      split: option.splits prod.splits if_splits sum.splits)

lemma read_manifest_None:
  "read_manifest fs m library = (None, w) \<Longrightarrow> manifest_digits (last (parts m)) \<noteq> None \<Longrightarrow> warned w m"
  by (auto simp: read_manifest_def Let_def split: option.splits if_splits prod.splits
      dest!: read_keyvalues_None read_app_None)

lemma read_manifests_accounted:
  assumes "read_manifests fs library es seen = (apps, seen', ws)" "e \<in> set es" "manifest_digits (de_name e) \<noteq> None"
  defines "p \<equiv> child (child library ''steamapps'') (de_name e)"
  shows "(\<exists>x\<in>set apps. sa_manifest (fst x) = p) \<or> warned ws p"
  using assms(1,2)
proof (induction es arbitrary: seen apps seen' ws)
  case (Cons d es)
  let ?m = "child (child library ''steamapps'') (de_name d)"
  obtain r w where r: "read_manifest fs ?m library = (r, w)" by fastforce
  have own: "r = None \<Longrightarrow> e = d \<Longrightarrow> warned w p"
    using read_manifest_None [of fs ?m library w] r assms(3) by (auto simp: p_def child_def)
  show ?case
  proof (cases "de_still_file d \<and> (\<exists>a. r = Some a \<and> sa_appid a \<notin> set seen)")
    case False
    obtain apps1 seen1 ws1 where rest: "read_manifests fs library es seen = (apps1, seen1, ws1)"
      by (metis prod_cases3)
    consider "\<not> de_still_file d" | "de_still_file d" "r = None" | a where "de_still_file d" "r = Some a" "sa_appid a \<in> set seen"
      using False by (cases r) auto
    then show ?thesis
      using Cons.IH [OF rest] Cons.prems r rest own by cases (auto simp: Let_def p_def)
  next
    case True
    then obtain a where a: "de_still_file d" "r = Some a" "sa_appid a \<notin> set seen" by blast
    obtain apps1 ws1 where rest: "read_manifests fs library es (sa_appid a # seen) = (apps1, seen', ws1)"
      "apps = (a, residual_content fs (child library ''steamapps'') (sa_appid a)) # apps1" "ws = w @ ws1"
      using Cons.prems r a by (auto simp: Let_def split: prod.splits)
    show ?thesis
      using Cons.IH [OF rest(1)] rest(2,3) Cons.prems(2) read_manifest_Some [of fs ?m library a w] r a
      by (auto simp: p_def)
  qed
qed simp

lemma scan_library_accounted:
  assumes "scan_library fs lib seen = (apps, seen', ws)"
    and "readable_directory fs (child (sl_path lib) ''steamapps'')"
    and "sf_scandir fs (child (sl_path lib) ''steamapps'') = Some listing" "e \<in> set listing"
    and "prefix ''appmanifest_'' (de_name e)" "suffix ''.acf'' (de_name e)"
  defines "p \<equiv> child (child (sl_path lib) ''steamapps'') (de_name e)"
  shows "(\<exists>x\<in>set apps. sa_manifest (fst x) = p) \<or> warned ws p"
proof -
  let ?path = "\<lambda>e. child (child (sl_path lib) ''steamapps'') (de_name e)"
  let ?cs = "manifest_candidates listing"
  obtain ws1 gone where run: "read_manifests fs (sl_path lib)
      (filter (\<lambda>e. entry_warning e (?path e) = None) ?cs) seen = (apps, seen', ws1)"
    "ws = List.map_filter (\<lambda>e. entry_warning e (?path e)) ?cs @ gone @ ws1"
    using assms(1-3) by (auto simp: scan_library_def Let_def split: prod.splits)
  have e: "e \<in> set ?cs"
    using assms(4-6) by (simp add: manifest_candidates_def)
  show ?thesis
  proof (cases "entry_warning e (?path e)")
    case None
    then have "manifest_digits (de_name e) \<noteq> None"
      by (auto simp: entry_warning_def split: if_splits option.splits bool.splits)
    then show ?thesis
      using read_manifests_accounted [OF run(1), of e] None e run(2) by (auto simp: p_def)
  next
    case (Some w)
    then have "sw_path w = p"
      by (auto simp: entry_warning_def p_def split: if_splits option.splits bool.splits)
    then have "warned (List.map_filter (\<lambda>e. entry_warning e (?path e)) ?cs) p"
      using e Some by (force simp: warned_def List.map_filter_def)
    then show ?thesis by (simp add: run(2))
  qed
qed

lemma scan_libraries_accounted:
  assumes "scan_libraries fs libs seen = (apps, ws)" "lib \<in> set libs"
    and "readable_directory fs (child (sl_path lib) ''steamapps'')"
    and "sf_scandir fs (child (sl_path lib) ''steamapps'') = Some listing" "e \<in> set listing"
    and "prefix ''appmanifest_'' (de_name e)" "suffix ''.acf'' (de_name e)"
  defines "p \<equiv> child (child (sl_path lib) ''steamapps'') (de_name e)"
  shows "(\<exists>x\<in>set apps. sa_manifest (fst x) = p) \<or> warned ws p"
  using assms(1,2)
proof (induction libs arbitrary: seen apps ws)
  case (Cons l libs)
  obtain apps1 seen1 ws1 where one: "scan_library fs l seen = (apps1, seen1, ws1)"
    by (metis prod_cases3)
  obtain apps2 ws2 where two: "scan_libraries fs libs seen1 = (apps2, ws2)"
    by fastforce
  have "apps = apps1 @ apps2" "ws = ws1 @ ws2" using Cons.prems one two by simp_all
  moreover have "(\<exists>x\<in>set apps1. sa_manifest (fst x) = p) \<or> warned ws1 p" if "lib = l"
    using scan_library_accounted [OF one _ _ assms(5-7)] assms(3,4) that by (simp add: p_def)
  moreover have "(\<exists>x\<in>set apps2. sa_manifest (fst x) = p) \<or> warned ws2 p" if "lib \<in> set libs"
    using Cons.IH [OF two that] .
  ultimately show ?case
    using Cons.prems(2) by auto
qed simp

text \<open>C27. A scan accounts for every manifest in a library it can list: the manifest gave an app
  of the scan, or some warning names it.\<close>

theorem no_manifest_unaccounted:
  assumes "lib \<in> set (sn_libraries (scan_local_steam fs steam_root))"
    and "readable_directory fs (child (sl_path lib) ''steamapps'')"
    and "sf_scandir fs (child (sl_path lib) ''steamapps'') = Some listing" "e \<in> set listing"
    and "prefix ''appmanifest_'' (de_name e)" "suffix ''.acf'' (de_name e)"
  defines "p \<equiv> child (child (sl_path lib) ''steamapps'') (de_name e)"
  shows "(\<exists>(a, r)\<in>set (sn_apps (scan_local_steam fs steam_root)). sa_manifest a = p)
    \<or> (\<exists>w\<in>set (sn_warnings (scan_local_steam fs steam_root)). sw_path w = p)"
proof (cases "sf_resolve fs (sf_expand fs (path_of steam_root))")
  case None
  then show ?thesis using assms(1) by (simp add: scan_local_steam_def Let_def)
next
  case (Some root)
  obtain specs w1 where specs: "index_specs fs root = (specs, w1)" by fastforce
  obtain libs w2 where libs: "resolve_libraries fs specs [] = (libs, w2)" by fastforce
  obtain apps w3 where apps: "scan_libraries fs libs [] = (apps, w3)" by fastforce
  have scan: "sn_apps (scan_local_steam fs steam_root) = sort_key app_order apps"
    "sn_libraries (scan_local_steam fs steam_root) = libs"
    "sn_warnings (scan_local_steam fs steam_root) = w1 @ w2 @ w3"
    using Some specs libs apps by (simp_all add: scan_local_steam_def Let_def)
  have "(\<exists>x\<in>set apps. sa_manifest (fst x) = p) \<or> warned w3 p"
    using scan_libraries_accounted [OF apps _ assms(2-6)] assms(1) by (simp add: p_def scan)
  then show ?thesis
    by (force simp: scan warned_def)
qed


section \<open>A small library\<close>

definition demo_entry :: dir_entry where
  "demo_entry = \<lparr>de_name = ''appmanifest_440.acf'', de_link = False, de_file = Some True, de_still_file = True\<rparr>"

definition demo_fs :: steam_fs where
  "demo_fs = \<lparr>sf_cwd = Path True [], sf_expand = (\<lambda>p. p), sf_resolve = Some, sf_link = (\<lambda>_. No_link),
     sf_lstat = (\<lambda>p. if last (parts p) = ''libraryfolders.vdf'' then Missing else Present),
     sf_read = (\<lambda>p. Regular 4 (Some ''junk'')), sf_is_dir = (\<lambda>_. Some True),
     sf_scandir = (\<lambda>_. Some [demo_entry]),
     sf_walk = (\<lambda>p. if last (parts p) = ''440'' then ([(''save'', Walk_file (Some 7)), (''empty'', Walk_dir)], True) else ([], True))\<rparr>"

definition demo_tree :: tree where
  "demo_tree = Tree [(''save'', Leaf (Walk_file (Some 7))), (''empty'', Sub (Tree [] True))] True"

lemma demo_shown: "shows_tree demo_fs (Path True [''440'']) demo_tree"
proof -
  have "shows_tree demo_fs (child (Path True [''440'']) ''empty'') (Tree [] True)"
    by (rule listed) (simp_all add: demo_fs_def child_def)
  then show ?thesis
    unfolding demo_tree_def by (intro listed) (auto simp: demo_fs_def)
qed

theorem residual_measured_exact_witness:
  "measure_tree demo_fs (Path True [''440'']) 3 = (7, True, 1)"
  using residual_measured_exact [OF demo_shown, of 3]
  by (simp add: demo_tree_def demo_fs_def walk_size_def walk_ok_def)

definition demo_library :: steam_library where
  "demo_library = \<lparr>sl_path = Path True [''s''], sl_declared = [], sl_index = None\<rparr>"

lemma demo_libraries: "sn_libraries (scan_local_steam demo_fs ''/s'') = [demo_library]"
  by code_simp

theorem no_manifest_unaccounted_witness:
  "(\<exists>(a, r)\<in>set (sn_apps (scan_local_steam demo_fs ''/s'')).
      sa_manifest a = child (child (sl_path demo_library) ''steamapps'') (de_name demo_entry))
   \<or> (\<exists>w\<in>set (sn_warnings (scan_local_steam demo_fs ''/s'')).
      sw_path w = child (child (sl_path demo_library) ''steamapps'') (de_name demo_entry))"
  by (rule no_manifest_unaccounted [of demo_library demo_fs "''/s''" "[demo_entry]" demo_entry])
    (simp add: demo_libraries, simp_all add: demo_fs_def demo_entry_def readable_directory_def suffix_def)

definition scanned_fs :: steam_fs where
  "scanned_fs = demo_fs\<lparr>sf_read := (\<lambda>p. Regular 50 (Some
      ''\"AppState\"{\"appid\"\"5\"\"StateFlags\"\"4\"\"installdir\"\"d\"}'')),
     sf_scandir := (\<lambda>_. Some [demo_entry\<lparr>de_name := ''appmanifest_5.acf''\<rparr>])\<rparr>"

lemma scanned_apps: "map (\<lambda>x. sa_appid (fst x)) (sn_apps (scan_local_steam scanned_fs ''/s'')) = [5]"
  by code_simp

theorem scan_lists_installed_apps_witness:
  "\<exists>(a, r)\<in>set (sn_apps (scan_local_steam scanned_fs ''/s'')). sa_appid a = 5 \<and> app_sound scanned_fs a"
  using scan_lists_installed_apps [of scanned_fs "''/s''"] scanned_apps by force

end
