(* ===== verification/Readiness.thy ===== *)
theory Readiness
  imports Ledger_Refine Requests_Props Sessions
begin

text \<open>
  \<open>operation_preflight\<close> of \<open>readiness.py\<close>: advisory facts from the policy, the configuration
  and the session gates.  The session is what its probes answer: the gates and whether steamcmd
  runs.
\<close>

record preflight_session =
  ps_gates :: lease_gates
  ps_steamcmd_running :: bool

record preflight =
  pf_readiness :: string
  pf_implemented :: bool
  pf_provisioned :: bool
  pf_grant :: string
  pf_permitted :: bool
  pf_activity :: "lease_gates option"
  pf_activity_clear :: "bool option"
  pf_floor_clear :: "bool option"
  pf_writer_absent :: "bool option"
  pf_library_available :: "bool option"

definition content_operation :: "string \<Rightarrow> bool" where
  "content_operation operation \<longleftrightarrow> operation \<in> {''install'', ''verify''}"

text \<open>\<open>request.account_alias or config.get("account_alias", "desktop")\<close>\<close>

definition preflight_alias :: "broker_config \<Rightarrow> direct_request \<Rightarrow> string" where
  "preflight_alias config q = (case dr_account_alias q of
       Some a \<Rightarrow> if a \<noteq> [] then a else config_or config ''account_alias'' ''desktop''
     | None \<Rightarrow> config_or config ''account_alias'' ''desktop'')"

definition preflight_provisioned :: "broker_config \<Rightarrow> direct_request \<Rightarrow> bool" where
  "preflight_provisioned config q \<longleftrightarrow> \<not> content_operation (dr_operation q) \<or>
     (\<not> blank config ''steamcmd'' \<and> \<not> blank config ''steam_login'' \<and>
      Some (preflight_alias config q) = config ''account_alias'')"

definition relevant_gates :: "string \<Rightarrow> lease_gates \<Rightarrow> gate list" where
  "relevant_gates operation g =
     (if content_operation operation then [g_game_running g, g_remote_play g, g_download_in_flight g]
      else if operation = ''launch'' then [g_game_running g, g_remote_play g] else [])"

definition activity_clear_of :: "string \<Rightarrow> lease_gates \<Rightarrow> bool option" where
  "activity_clear_of operation g =
     (if operation = ''stop'' then None
      else if Fail \<in> set (relevant_gates operation g) then Some False
      else if Unknown \<in> set (relevant_gates operation g) \<or> g_client_running g = Unknown then None
      else Some True)"

text \<open>Reading \<open>config["library"]\<close> raises where it is missing.\<close>

definition preflight_library :: "broker_config \<Rightarrow> bool \<Rightarrow> request_error + string" where
  "preflight_library config needed =
     (if \<not> needed then Inr []
      else case config ''library'' of None \<Rightarrow> Inl (Missing_config ''library'') | Some l \<Rightarrow> Inr l)"

definition preflight_implemented :: "string \<Rightarrow> string \<Rightarrow> bool" where
  "preflight_implemented operation platform =
     (if content_operation operation then platform = ''linux'' else platform \<in> {''linux'', ''win32''})"

definition preflight_clear :: "string \<Rightarrow> lease_gates option \<Rightarrow> bool option" where
  "preflight_clear operation observed = (case observed of None \<Rightarrow> None | Some g \<Rightarrow> activity_clear_of operation g)"

text \<open>\<open>blocked\<close>, with an observation that was not made as \<open>None\<close>.\<close>

definition preflight_state :: "bool \<Rightarrow> bool \<Rightarrow> bool \<Rightarrow> bool option \<Rightarrow> bool option list \<Rightarrow> string" where
  "preflight_state implemented provisioned permitted clear others =
     (if \<not> implemented \<or> \<not> provisioned \<or> \<not> permitted \<or> clear = Some False \<or> Some False \<in> set others
      then ''blocked'' else if clear = None then ''unknown'' else ''ready'')"

definition operation_preflight :: "broker_config \<Rightarrow> policy \<Rightarrow> direct_request \<Rightarrow> string
    \<Rightarrow> preflight_session option \<Rightarrow> (string \<Rightarrow> bool) \<Rightarrow> (string \<Rightarrow> int option \<Rightarrow> string option)
    \<Rightarrow> request_error + preflight" where
  "operation_preflight config policy q platform session steamapps_dir disk_floor =
     (let content = content_operation (dr_operation q);
          implemented = preflight_implemented (dr_operation q) platform;
          provisioned = preflight_provisioned config q;
          permitted = request_permitted policy q;
          observed = (if implemented then map_option ps_gates session else None);
          floored = (content \<and> p_min_free_gb policy \<noteq> None)
      in bindE (preflight_library config (content \<and> implemented \<or> floored)) (\<lambda>library.
         let available = (if content \<and> implemented then Some (steamapps_dir library) else None);
             writer_absent = (if content \<and> implemented then map_option (\<lambda>s. \<not> ps_steamcmd_running s) session else None);
             clear = preflight_clear (dr_operation q) observed;
             floor = (if floored then Some (disk_floor library (p_min_free_gb policy) = None) else None)
         in Inr \<lparr>pf_readiness = preflight_state implemented provisioned permitted clear [floor, writer_absent, available],
              pf_implemented = implemented, pf_provisioned = provisioned,
              pf_grant = grant_for policy (dr_operation q), pf_permitted = permitted,
              pf_activity = observed, pf_activity_clear = clear, pf_floor_clear = floor,
              pf_writer_absent = writer_absent, pf_library_available = available\<rparr>))"

lemma preflight_state_ready:
  "preflight_state i p a clear others = ''ready'' \<longleftrightarrow> i \<and> p \<and> a \<and> clear = Some True \<and> Some False \<notin> set others"
  by (auto simp: preflight_state_def)

lemma preflight_clear_True:
  "preflight_clear operation observed = Some True \<longleftrightarrow> (\<exists>g. observed = Some g \<and> activity_clear_of operation g = Some True)"
  by (simp add: preflight_clear_def split: option.splits)

lemma preflight_ready:
  assumes "operation_preflight config policy q platform session steamapps_dir disk_floor = Inr pf"
    and "pf_readiness pf = ''ready''"
  obtains s where "request_permitted policy q" "preflight_provisioned config q" "dr_operation q \<noteq> ''stop''"
    "session = Some s" "activity_clear_of (dr_operation q) (ps_gates s) = Some True"
    "content_operation (dr_operation q) \<Longrightarrow> \<not> ps_steamcmd_running s \<and> platform = ''linux''"
    "content_operation (dr_operation q) \<Longrightarrow> p_min_free_gb policy \<noteq> None \<Longrightarrow>
      \<exists>l. config ''library'' = Some l \<and> disk_floor l (p_min_free_gb policy) = None"
proof -
  let ?content = "content_operation (dr_operation q)" and ?impl = "preflight_implemented (dr_operation q) platform"
  let ?floored = "?content \<and> p_min_free_gb policy \<noteq> None"
  obtain library where lib: "preflight_library config (?content \<and> ?impl \<or> ?floored) = Inr library"
    and ready: "preflight_state ?impl (preflight_provisioned config q) (request_permitted policy q)
      (preflight_clear (dr_operation q) (if ?impl then map_option ps_gates session else None))
      [if ?floored then Some (disk_floor library (p_min_free_gb policy) = None) else None,
       if ?content \<and> ?impl then map_option (\<lambda>s. \<not> ps_steamcmd_running s) session else None,
       if ?content \<and> ?impl then Some (steamapps_dir library) else None] = ''ready''"
    using assms unfolding operation_preflight_def Let_def bindE_eq_Inr by auto
  from ready obtain s where s: "?impl" "preflight_provisioned config q" "request_permitted policy q"
    "session = Some s" "activity_clear_of (dr_operation q) (ps_gates s) = Some True"
    unfolding preflight_state_ready preflight_clear_True by auto
  have stop: "dr_operation q \<noteq> ''stop''"
    using s(5) by (auto simp: activity_clear_of_def)
  have writer: "\<not> ps_steamcmd_running s \<and> platform = ''linux''" if ?content
    using ready s(1,4) that unfolding preflight_state_ready by (auto simp: preflight_implemented_def split: if_splits)
  have floor: "\<exists>l. config ''library'' = Some l \<and> disk_floor l (p_min_free_gb policy) = None"
    if ?content "p_min_free_gb policy \<noteq> None"
    using ready lib s(1) that unfolding preflight_state_ready
    by (auto simp: preflight_library_def split: if_splits option.splits)
  show thesis
    by (rule that [OF s(3,2) stop s(4,5) writer floor])
qed

text \<open>Ready means that no gate that matters failed or is unknown.\<close>

lemma activity_clear_True:
  "activity_clear_of operation g = Some True \<Longrightarrow> content_operation operation \<Longrightarrow>
   all_clear g \<and> g_client_running g \<noteq> Unknown"
proof -
  assume a: "activity_clear_of operation g = Some True" "content_operation operation"
  have "x = Pass" if "x \<noteq> Fail" "x \<noteq> Unknown" for x using that by (cases x) auto
  with a show ?thesis
    by (auto simp: activity_clear_of_def relevant_gates_def all_clear_def split: if_splits)
qed


section \<open>What ready promises\<close>











text \<open>The floor is observed for an install or verify only: a launch is \<open>ready\<close> although the floor
  keeps its request waiting for a confirmation.\<close>

lemma launch_floor_unobserved:
  "operation_preflight config policy q platform session steamapps_dir disk_floor = Inr pf \<Longrightarrow>
   \<not> content_operation (dr_operation q) \<Longrightarrow> pf_floor_clear pf = None \<and> pf_writer_absent pf = None \<and>
     pf_library_available pf = None"
  by (auto simp: operation_preflight_def Let_def bindE_eq_Inr)

lemma stop_never_ready:
  "operation_preflight config policy q platform session steamapps_dir disk_floor = Inr pf \<Longrightarrow>
   dr_operation q = ''stop'' \<Longrightarrow> pf_readiness pf \<noteq> ''ready''"
  by (auto elim: preflight_ready)

end
