(* ===== verification/Receipts.thy ===== *)
theory Receipts
  imports Json_Value Ledger_Props
begin

text \<open>
  The broker result of \<open>receipts.py\<close>: what is redacted from a payload, the public reason of a
  failure, and the receipt and the retry advice, which are read from the ledger.  The version and
  the platform of the context are constants of the installation and left out.
\<close>


section \<open>Redaction\<close>


text \<open>
  The pattern \<open>(?:[A-Za-z]:[\\/]|/)[^\s"']+[\\/][^\s"']*\<close>.  Past the root it matches where the run of
  characters that are no white space or quote holds a separator after its first character, and then
  it takes the whole run.
\<close>

definition separator :: "char \<Rightarrow> bool" where
  "separator c \<longleftrightarrow> c = CHR ''/'' \<or> c = CHR 0x5C"

definition path_char :: "char \<Rightarrow> bool" where
  "path_char c \<longleftrightarrow> \<not> is_space c \<and> c \<noteq> CHR 0x22 \<and> c \<noteq> CHR 0x27"

definition path_tail :: "string \<Rightarrow> string option" where
  "path_tail s = (if list_ex separator (tl (takeWhile path_char s)) then Some (dropWhile path_char s) else None)"

text \<open>What follows a path that starts here.\<close>

definition path_ahead :: "string \<Rightarrow> string option" where
  "path_ahead s = (case s of
       [] \<Rightarrow> None
     | c # r \<Rightarrow>
         if c = CHR ''/'' then path_tail r
         else if is_alpha c then
           (case r of x # d # t \<Rightarrow> if x = CHR '':'' \<and> separator d then path_tail t else None | _ \<Rightarrow> None)
         else None)"






section \<open>Nothing private is left\<close>



lemma path_char_simps [simp]:
  "path_char (CHR ''/'')" "path_char (CHR ''<'')" "path_char (CHR ''>'')" "path_char (CHR ''p'')"
  "path_char (CHR ''a'')" "path_char (CHR ''t'')" "path_char (CHR ''h'')"
  by (simp_all add: path_char_def is_space_def code_def)

lemma separator_simps [simp]:
  "separator (CHR ''/'')" "\<not> separator (CHR ''<'')" "\<not> separator (CHR ''>'')" "\<not> separator (CHR ''p'')"
  "\<not> separator (CHR ''a'')" "\<not> separator (CHR ''t'')" "\<not> separator (CHR ''h'')"
  by (simp_all add: separator_def)



lemma path_ahead_not_alpha [simp]:
  "c \<noteq> CHR ''/'' \<Longrightarrow> \<not> is_alpha c \<Longrightarrow> path_ahead (c # s) = None"
  by (simp add: path_ahead_def)













section \<open>The reason of a failure\<close>

definition reason_code :: "string option \<Rightarrow> string option" where
  "reason_code message = map_option (\<lambda>m. let l = lower m in
     if contains ''not initialized'' l then ''broker_not_initialized''
     else if contains ''broker.json is corrupt'' l then ''broker_config_invalid''
     else if contains ''different machine'' l \<or> contains ''expected machine'' l then ''machine_mismatch''
     else if contains ''not found'' l \<or> contains ''does not exist'' l then ''request_not_found''
     else if contains ''different plan content'' l \<or> contains ''bound to different'' l then ''request_conflict''
     else if contains ''policy'' l \<and> (contains ''unavailable'' l \<or> contains ''unreadable'' l) then ''policy_unavailable''
     else if contains ''policy'' l \<or> contains ''allowlist'' l \<or> contains ''permitted'' l then ''policy_denied''
     else if contains ''provision'' l \<or> contains ''steam login'' l then ''not_provisioned''
     else if contains ''qualified'' l \<or> contains ''unsupported'' l then ''unsupported''
     else if contains ''locked'' l \<or> contains ''state unavailable'' l then ''state_unavailable''
     else if contains ''nonce'' l then ''confirmation_rejected''
     else if contains ''filesystem'' l then ''filesystem_unavailable''
     else if contains ''no authorized'' l then ''no_authorized_operation''
     else ''invalid_request'') message"

definition reason_codes :: "string list" where
  "reason_codes = [''broker_not_initialized'', ''broker_config_invalid'', ''machine_mismatch'', ''request_not_found'',
     ''request_conflict'', ''policy_unavailable'', ''policy_denied'', ''not_provisioned'', ''unsupported'',
     ''state_unavailable'', ''confirmation_rejected'', ''filesystem_unavailable'', ''no_authorized_operation'',
     ''invalid_request'']"

lemma reason_code_bounded: "set_option (reason_code message) \<subseteq> set reason_codes"
  by (cases message) (simp_all add: reason_code_def Let_def reason_codes_def)

text \<open>A policy file that cannot be read as TOML is reported as if the policy denied the request.\<close>

lemma unreadable_policy_denies:
  "reason_code (Some ''policy file is not valid TOML'') = Some ''policy_denied''"
  by code_simp


section \<open>The result of a command\<close>

















section \<open>The receipt is what the ledger says\<close>









end
