(* ===== verification/Compat_Data.thy ===== *)
theory Compat_Data
  imports Ranking
begin

text \<open>
  The subjects of \<open>compatibility.py\<close>: targets, primitive evidence with its lineage, runtime
  risks, features, reviews, candidates and overrides, with the checks their constructors make.
  A constructor that raises \<open>ValueError\<close> is a function into \<open>string + _\<close>; the \<open>Literal\<close> types are
  datatypes, so checks that a value is one of the literals have no counterpart.
\<close>


section \<open>Values\<close>

datatype gate_value = Gate_pass | Gate_fail | Gate_unknown

datatype evidence_age = Age_fresh | Age_stale | Age_expired | Age_unknown

datatype support_level = Official | Documented | Provisional | Community | Local_support | Support_unknown

text \<open>A \<open>datetime\<close> is naive, or aware: microseconds since the epoch, in UTC.\<close>

datatype moment = Naive | Aware int

definition max_evidence_ids :: int where "max_evidence_ids = 64"
definition max_text :: int where "max_text = 256"
definition max_components :: int where "max_components = 256"
definition max_items :: int where "max_items = 100000"
definition max_total_gates :: int where "max_total_gates = 1000000"

definition text_error :: "string \<Rightarrow> bool" where
  "text_error s \<longleftrightarrow> s = [] \<or> max_text < int (length s) \<or> \<not> list_all printable s"

definition optional_text_error :: "string option \<Rightarrow> bool" where
  "optional_text_error s = (case s of None \<Rightarrow> False | Some t \<Rightarrow> text_error t)"

definition normal_moment :: "moment \<Rightarrow> string \<Rightarrow> string + moment" where
  "normal_moment t name = (case t of
       Naive \<Rightarrow> Inl (name @ '' must be timezone-aware'')
     | Aware n \<Rightarrow> Inr (Aware (n div 1000000 * 1000000)))"

definition lineage :: "string list \<Rightarrow> string + string list" where
  "lineage ids =
     bindE (first_error
       [(max_evidence_ids < int (length ids), ''evidence_ids must be a bounded tuple''),
        (list_ex text_error ids, ''evidence_id must be a bounded printable string''),
        (\<not> distinct ids, ''evidence_ids must be unique'')]) (\<lambda>_. Inr (sort ids))"

definition lower_alnum :: "char \<Rightarrow> bool" where
  "lower_alnum c \<longleftrightarrow> (97 \<le> code c \<and> code c \<le> 122) \<or> is_digit c"

text \<open>\<open>[a-z0-9](?:[a-z0-9EXTRA]{0,N}[a-z0-9])?\<close> of at most \<open>N + 2\<close> characters.\<close>

definition slug_of :: "string \<Rightarrow> nat \<Rightarrow> string \<Rightarrow> bool" where
  "slug_of extra n s \<longleftrightarrow> s \<noteq> [] \<and> length s \<le> n + 2 \<and> lower_alnum (hd s) \<and> lower_alnum (last s) \<and>
     list_all (\<lambda>c. lower_alnum c \<or> c \<in> set extra) s"

definition compat_slug :: "string \<Rightarrow> bool" where
  "compat_slug = slug_of ''._-'' 62"

definition gate_pattern :: "string \<Rightarrow> bool" where
  "gate_pattern = slug_of ''._:-'' 126"

definition machine_key :: "string \<Rightarrow> bool" where
  "machine_key s \<longleftrightarrow> s \<noteq> [] \<and> length s \<le> 64 \<and> is_alnum (hd s) \<and>
     list_all (\<lambda>c. is_alnum c \<or> c \<in> set ''._-'') s"


section \<open>Targets\<close>

datatype target_kind = Machine | Valve_deck

datatype platform = Windows | Macos | Linux | Steamos

record compat_target =
  ct_kind :: target_kind
  ct_key :: string
  ct_platform :: platform

definition compat_target :: "compat_target \<Rightarrow> string + compat_target" where
  "compat_target t =
     bindE (first_error
       [(\<not> (if ct_kind t = Machine then machine_key else compat_slug) (ct_key t), ''target key is invalid''),
        (ct_kind t = Valve_deck \<and> ct_platform t \<noteq> Steamos, ''Valve Deck targets must use steamos'')]) (\<lambda>_. Inr t)"


section \<open>Primitive evidence\<close>

record primitive_evidence =
  pe_state :: gate_value
  pe_source :: "string option"
  pe_support :: support_level
  pe_observed_at :: "moment option"
  pe_age :: evidence_age
  pe_ids :: "string list"
  pe_conflict :: bool
  pe_unknown_reason :: "string option"
  pe_condition :: "string option"

definition state_checks :: "primitive_evidence \<Rightarrow> string list \<Rightarrow> (bool \<times> string) list" where
  "state_checks e ids =
     (if pe_state e = Gate_unknown then
        [(pe_unknown_reason e = None, ''unknown evidence requires an explanation''),
         (pe_condition e \<noteq> None, ''unknown evidence cannot assert a known condition'')]
      else
        [(pe_unknown_reason e \<noteq> None, ''known evidence cannot carry an unknown explanation''),
         (pe_source e = None \<or> pe_observed_at e = None \<or> ids = [],
            ''known evidence requires source, observation time, and lineage''),
         (pe_age e = Age_unknown, ''known evidence requires known freshness'')])"

definition primitive_evidence :: "primitive_evidence \<Rightarrow> string + primitive_evidence" where
  "primitive_evidence e =
     bindE (first_error [(optional_text_error (pe_source e), ''source must be a bounded printable string'')]) (\<lambda>_.
     bindE (case pe_observed_at e of
              None \<Rightarrow> Inr None
            | Some t \<Rightarrow> bindE (normal_moment t ''observed_at'') (\<lambda>t. Inr (Some t))) (\<lambda>observed.
     bindE (lineage (pe_ids e)) (\<lambda>ids.
     bindE (first_error
       ([(optional_text_error (pe_unknown_reason e), ''unknown_reason must be a bounded printable string''),
         (optional_text_error (pe_condition e), ''condition must be a bounded printable string''),
         (pe_conflict e \<and> pe_state e \<noteq> Gate_unknown, ''conflicting evidence must remain unknown'')] @
        state_checks e ids @
        [(pe_state e = Gate_fail \<and> pe_condition e \<noteq> None, ''failed evidence cannot also be a pass condition'')]))
       (\<lambda>_. Inr (e\<lparr>pe_observed_at := observed, pe_ids := ids\<rparr>)))))"

definition unknown_evidence :: "string \<Rightarrow> primitive_evidence" where
  "unknown_evidence reason =
     \<lparr>pe_state = Gate_unknown, pe_source = None, pe_support = Support_unknown, pe_observed_at = None,
      pe_age = Age_unknown, pe_ids = [], pe_conflict = False, pe_unknown_reason = Some reason, pe_condition = None\<rparr>"


section \<open>Risks, features and reviews\<close>

datatype presence = Is_there | Is_not_there | Presence_unknown

datatype impact = Blocking | Manual | Runtime_only

record runtime_risk =
  rr_name :: string
  rr_presence :: presence
  rr_impact :: impact
  rr_evidence :: primitive_evidence

primrec presence_state :: "presence \<Rightarrow> gate_value" where
  "presence_state Is_there = Gate_pass"
| "presence_state Is_not_there = Gate_fail"
| "presence_state Presence_unknown = Gate_unknown"

definition runtime_risk :: "runtime_risk \<Rightarrow> string + runtime_risk" where
  "runtime_risk r =
     bindE (first_error
       [(\<not> compat_slug (rr_name r), ''runtime risk name must be a bounded slug''),
        (pe_state (rr_evidence r) \<noteq> presence_state (rr_presence r),
           ''runtime risk presence and evidence disagree'')]) (\<lambda>_. Inr r)"

datatype feature_kind = Accessibility | Input | Language

primrec feature_kind_text :: "feature_kind \<Rightarrow> string" where
  "feature_kind_text Accessibility = ''accessibility''"
| "feature_kind_text Input = ''input''"
| "feature_kind_text Language = ''language''"

text \<open>Kinds are ordered as their names.\<close>

instantiation feature_kind :: linorder
begin

definition less_eq_feature_kind :: "feature_kind \<Rightarrow> feature_kind \<Rightarrow> bool" where
  "less_eq_feature_kind a b \<longleftrightarrow> feature_kind_text a \<le> feature_kind_text b"

definition less_feature_kind :: "feature_kind \<Rightarrow> feature_kind \<Rightarrow> bool" where
  "less_feature_kind a b \<longleftrightarrow> feature_kind_text a < feature_kind_text b"

instance
proof
  fix a b c :: feature_kind
  show "(a < b) = (a \<le> b \<and> \<not> b \<le> a)" by (auto simp: less_eq_feature_kind_def less_feature_kind_def)
  show "a \<le> a" by (simp add: less_eq_feature_kind_def)
  show "a \<le> b \<Longrightarrow> b \<le> c \<Longrightarrow> a \<le> c" by (simp add: less_eq_feature_kind_def)
  show "a \<le> b \<Longrightarrow> b \<le> a \<Longrightarrow> a = b" by (cases a; cases b) (simp_all add: less_eq_feature_kind_def)
  show "a \<le> b \<or> b \<le> a" by (auto simp: less_eq_feature_kind_def)
qed

end

record feature_evidence =
  fe_kind :: feature_kind
  fe_name :: string
  fe_support :: primitive_evidence

record feature_requirement =
  fr_kind :: feature_kind
  fr_name :: string

definition feature_evidence :: "feature_evidence \<Rightarrow> string + feature_evidence" where
  "feature_evidence f = bindE (raise_if (\<not> compat_slug (fe_name f)) ''feature name must be a bounded slug'') (\<lambda>_. Inr f)"

definition feature_requirement :: "feature_requirement \<Rightarrow> string + feature_requirement" where
  "feature_requirement f =
     bindE (raise_if (\<not> compat_slug (fr_name f)) ''feature requirement name must be a bounded slug'') (\<lambda>_. Inr f)"

datatype rating = Verified | Playable | Unsupported | Rating_unknown

record target_review =
  tr_target :: compat_target
  tr_rating :: rating
  tr_evidence :: primitive_evidence

primrec rating_state :: "rating \<Rightarrow> gate_value" where
  "rating_state Verified = Gate_pass"
| "rating_state Playable = Gate_pass"
| "rating_state Unsupported = Gate_fail"
| "rating_state Rating_unknown = Gate_unknown"

definition target_review :: "target_review \<Rightarrow> string + target_review" where
  "target_review r =
     bindE (first_error
       [(pe_state (tr_evidence r) \<noteq> rating_state (tr_rating r), ''target review rating and evidence disagree''),
        (tr_rating r = Playable \<and> pe_condition (tr_evidence r) = None, ''Playable target reviews require a condition''),
        (tr_rating r \<noteq> Playable \<and> pe_condition (tr_evidence r) \<noteq> None,
           ''only Playable target reviews may carry a condition'')]) (\<lambda>_. Inr r)"


section \<open>Candidates and overrides\<close>

record compat_candidate =
  cc_appid :: int
  cc_target :: compat_target
  cc_native :: primitive_evidence
  cc_execution :: primitive_evidence
  cc_architecture :: primitive_evidence
  cc_minimum :: primitive_evidence
  cc_review :: "target_review option"
  cc_experience :: primitive_evidence
  cc_installed :: primitive_evidence
  cc_owned :: primitive_evidence
  cc_risks :: "runtime_risk list"
  cc_features :: "feature_evidence list"

definition feature_key :: "feature_evidence \<Rightarrow> feature_kind \<times> string" where
  "feature_key f = (fe_kind f, fe_name f)"

definition compat_candidate :: "compat_candidate \<Rightarrow> string + compat_candidate" where
  "compat_candidate c =
     bindE (first_error
       [(appid_error (cc_appid c), ''appid must be an integer between 1 and 4294967295''),
        (max_components < int (length (cc_risks c)) \<or> max_components < int (length (cc_features c)),
           ''candidate risks and features exceed the supported bound''),
        (\<not> distinct (map rr_name (cc_risks c)) \<or> \<not> distinct (map feature_key (cc_features c)),
           ''risk and feature names must be unique'')]) (\<lambda>_.
     Inr (c\<lparr>cc_risks := sort_key rr_name (cc_risks c), cc_features := sort_key feature_key (cc_features c)\<rparr>))"

record gate_override =
  go_name :: string
  go_appid :: int
  go_gate :: string
  go_effective :: gate_value
  go_ids :: "string list"
  go_applied_at :: moment

definition gate_override :: "gate_override \<Rightarrow> string + gate_override" where
  "gate_override g =
     bindE (first_error
       [(\<not> compat_slug (go_name g), ''override name must be a bounded slug''),
        (appid_error (go_appid g), ''override appid must be an integer between 1 and 4294967295''),
        (\<not> gate_pattern (go_gate g), ''override gate is invalid'')]) (\<lambda>_.
     bindE (lineage (go_ids g)) (\<lambda>ids.
     bindE (raise_if (ids = []) ''override requires evidence lineage'') (\<lambda>_.
     bindE (normal_moment (go_applied_at g) ''override applied_at'') (\<lambda>t.
     Inr (g\<lparr>go_ids := ids, go_applied_at := t\<rparr>)))))"


section \<open>What a constructor has accepted\<close>

lemma first_error_ok [simp]: "first_error checks = Inr u \<longleftrightarrow> list_all (\<lambda>c. \<not> fst c) checks"
proof (cases "filter fst checks")
  case Nil
  then show ?thesis by (auto simp: first_error_def list_all_iff filter_empty_conv)
next
  case (Cons c cs)
  have "c \<in> set (filter fst checks)" unfolding Cons by simp
  then have "c \<in> set checks \<and> fst c" by simp
  with Cons show ?thesis by (cases c) (force simp: first_error_def list_all_iff)
qed

lemma lineage_Inr:
  "lineage ids = Inr ids' \<longleftrightarrow> ids' = sort ids \<and> int (length ids) \<le> max_evidence_ids \<and> \<not> list_ex text_error ids \<and> distinct ids"
  by (auto simp: lineage_def bindE_eq_Inr)

definition normal_time :: "moment \<Rightarrow> bool" where
  "normal_time t \<longleftrightarrow> (\<exists>n. t = Aware n \<and> n mod 1000000 = 0)"

lemma normal_moment_Inr: "normal_moment t name = Inr t' \<Longrightarrow> normal_time t'"
  by (auto simp: normal_moment_def normal_time_def split: moment.splits)

lemma normal_moment_id [simp]: "normal_time t \<Longrightarrow> normal_moment t name = Inr t"
  by (auto simp: normal_moment_def normal_time_def minus_mod_eq_div_mult [symmetric])

text \<open>Known evidence has a source, a time and a lineage; unknown evidence a reason; and the lineage
  is in order.\<close>

definition evidence_ok :: "primitive_evidence \<Rightarrow> bool" where
  "evidence_ok e \<longleftrightarrow>
     \<not> optional_text_error (pe_source e) \<and> (\<forall>t. pe_observed_at e = Some t \<longrightarrow> normal_time t) \<and>
     sorted (pe_ids e) \<and> distinct (pe_ids e) \<and> int (length (pe_ids e)) \<le> max_evidence_ids \<and> \<not> list_ex text_error (pe_ids e) \<and>
     \<not> optional_text_error (pe_unknown_reason e) \<and> \<not> optional_text_error (pe_condition e) \<and>
     (pe_conflict e \<longrightarrow> pe_state e = Gate_unknown) \<and>
     (if pe_state e = Gate_unknown then pe_unknown_reason e \<noteq> None \<and> pe_condition e = None
      else pe_unknown_reason e = None \<and> pe_source e \<noteq> None \<and> pe_observed_at e \<noteq> None \<and> pe_ids e \<noteq> [] \<and>
        pe_age e \<noteq> Age_unknown) \<and>
     (pe_state e = Gate_fail \<longrightarrow> pe_condition e = None)"

lemma list_ex_sort [simp]: "list_ex P (sort xs) = list_ex P xs"
  by (simp add: list_ex_iff)

text \<open>The constructor accepts what it has made, unchanged.\<close>

lemma primitive_evidence_ok: "primitive_evidence e = Inr e' \<Longrightarrow> evidence_ok e'"
  by (auto simp: primitive_evidence_def bindE_eq_Inr lineage_Inr evidence_ok_def state_checks_def
      dest!: normal_moment_Inr split: option.splits if_splits)

lemma primitive_evidence_id: "evidence_ok e \<Longrightarrow> primitive_evidence e = Inr e"
  by (auto simp: primitive_evidence_def bindE_eq_Inr lineage_Inr evidence_ok_def state_checks_def sorted_sort_id
      split: option.splits if_splits)

lemma evidence_ok_iff: "evidence_ok e \<longleftrightarrow> (\<exists>raw. primitive_evidence raw = Inr e)"
  using primitive_evidence_ok primitive_evidence_id by blast

lemma unknown_evidence_ok: "\<not> text_error reason \<Longrightarrow> evidence_ok (unknown_evidence reason)"
  by (simp add: evidence_ok_def unknown_evidence_def optional_text_error_def max_evidence_ids_def)

end
