(* ===== verification/Compatibility.thy ===== *)
theory Compatibility
  imports Compat_Data
begin

text \<open>
  The assessment of \<open>compatibility.py\<close>: the gates of one candidate, the verdict over the mandatory
  ones, the batch over all requested AppIDs, the comparison of exact minimum requirements and the
  normalization of Valve's Deck ratings.
\<close>


section \<open>Gates\<close>

record gate_result =
  gr_name :: string
  gr_original :: gate_value
  gr_effective :: gate_value
  gr_mandatory :: bool
  gr_original_condition :: "string option"
  gr_original_source :: "string option"
  gr_original_support :: support_level
  gr_original_observed_at :: "moment option"
  gr_original_age :: evidence_age
  gr_original_conflict :: bool
  gr_original_unknown_reason :: "string option"
  gr_original_ids :: "string list"
  gr_override_name :: "string option"
  gr_override_ids :: "string list"
  gr_effective_condition :: "string option"
  gr_effective_unknown_reason :: "string option"
  gr_effective_source :: "string option"
  gr_effective_support :: support_level
  gr_effective_observed_at :: "moment option"
  gr_effective_age :: evidence_age
  gr_effective_ids :: "string list"

text \<open>What is known no longer counts once it expired; what is needed right now, once it is stale.\<close>

definition age_degraded :: "string \<Rightarrow> primitive_evidence \<Rightarrow> bool" where
  "age_degraded name e \<longleftrightarrow> pe_state e \<noteq> Gate_unknown \<and>
     (pe_age e = Age_expired \<or> (prefix ''readiness:'' name \<and> pe_age e = Age_stale))"

definition compat_gate :: "string \<Rightarrow> primitive_evidence \<Rightarrow> bool \<Rightarrow> gate_override option \<Rightarrow> gate_result" where
  "compat_gate name e mandatory override =
     (let degraded = age_degraded name e;
          own = \<lparr>gr_name = name, gr_original = pe_state e,
            gr_effective = (if degraded then Gate_unknown else pe_state e), gr_mandatory = mandatory,
            gr_original_condition = pe_condition e, gr_original_source = pe_source e,
            gr_original_support = pe_support e, gr_original_observed_at = pe_observed_at e,
            gr_original_age = pe_age e, gr_original_conflict = pe_conflict e,
            gr_original_unknown_reason = pe_unknown_reason e, gr_original_ids = pe_ids e,
            gr_override_name = None, gr_override_ids = [],
            gr_effective_condition = pe_condition e,
            gr_effective_unknown_reason =
              (if degraded then Some (if pe_age e = Age_expired then ''evidence_expired'' else ''evidence_stale_for_ready_now'')
               else pe_unknown_reason e),
            gr_effective_source = pe_source e, gr_effective_support = pe_support e,
            gr_effective_observed_at = pe_observed_at e, gr_effective_age = pe_age e, gr_effective_ids = pe_ids e\<rparr>
      in case override of
           None \<Rightarrow> own
         | Some g \<Rightarrow> own\<lparr>gr_effective := go_effective g, gr_effective_condition := None,
             gr_effective_unknown_reason :=
               (if go_effective g = Gate_unknown then Some ''query_override_selected_unknown'' else None),
             gr_effective_source := Some (''query_override:'' @ go_name g), gr_effective_support := Local_support,
             gr_effective_observed_at := Some (go_applied_at g), gr_effective_age := Age_fresh,
             gr_effective_ids := go_ids g, gr_override_name := Some (go_name g), gr_override_ids := go_ids g\<rparr>)"

text \<open>A dictionary keeps the last value of a key.\<close>

definition last_of :: "('a \<times> 'b) list \<Rightarrow> 'a \<Rightarrow> 'b option" where
  "last_of kvs = map_of (rev kvs)"

definition exact_review :: "target_review option \<Rightarrow> compat_target \<Rightarrow> primitive_evidence" where
  "exact_review review target = (case review of
       None \<Rightarrow> unknown_evidence ''exact_target_review_not_observed''
     | Some r \<Rightarrow> if tr_target r \<noteq> target then unknown_evidence ''target_review_is_for_a_different_target''
         else tr_evidence r)"

text \<open>A risk that is present fails a gate if it blocks, and else is a condition of passing it.\<close>

definition risk_evidence :: "runtime_risk \<Rightarrow> primitive_evidence" where
  "risk_evidence r = (let e = rr_evidence r in
     case rr_presence r of
       Is_there \<Rightarrow>
         if rr_impact r = Blocking
         then e\<lparr>pe_state := Gate_fail, pe_conflict := False, pe_unknown_reason := None, pe_condition := None\<rparr>
         else e\<lparr>pe_state := Gate_pass, pe_conflict := False, pe_unknown_reason := None,
                pe_condition := Some (''runtime_risk:'' @ rr_name r)\<rparr>
     | Is_not_there \<Rightarrow> e\<lparr>pe_state := Gate_pass, pe_conflict := False, pe_unknown_reason := None, pe_condition := None\<rparr>
     | Presence_unknown \<Rightarrow> e)"

definition requirement_name :: "feature_requirement \<Rightarrow> string" where
  "requirement_name q = feature_kind_text (fr_kind q) @ '':'' @ fr_name q"

definition required_support :: "compat_candidate \<Rightarrow> feature_requirement \<Rightarrow> primitive_evidence" where
  "required_support c q =
     (case last_of (map (\<lambda>f. (feature_key f, fe_support f)) (cc_features c)) (fr_kind q, fr_name q) of
        None \<Rightarrow> unknown_evidence ''required_feature_not_observed'' | Some e \<Rightarrow> e)"

type_synonym raw_gate = "string \<times> primitive_evidence \<times> bool"

definition raw_gates :: "compat_candidate \<Rightarrow> compat_target \<Rightarrow> feature_requirement list \<Rightarrow> raw_gate list" where
  "raw_gates c t qs =
     (let deck = (ct_kind t = Valve_deck) in
      [(''declared_native_build'', cc_native c, False),
       (''effective_execution_support'', cc_execution c, \<not> deck),
       (''architecture'', cc_architecture c, \<not> deck),
       (''meets_minimum'', cc_minimum c, \<not> deck),
       (''exact_target_review'', exact_review (cc_review c) t, deck),
       (''readiness:installed'', cc_installed c, False),
       (''readiness:visible_owned'', cc_owned c, False)] @
      map (\<lambda>r. (''runtime:'' @ rr_name r, risk_evidence r, rr_presence r \<noteq> Presence_unknown)) (cc_risks c) @
      map (\<lambda>q. (requirement_name q, required_support c q, True)) qs)"


section \<open>The verdict\<close>

datatype compat_state = Compatible | Incompatible | Conditionally | State_unknown

record compat_assessment =
  ca_appid :: int
  ca_target :: compat_target
  ca_state :: compat_state
  ca_playable_now :: gate_value
  ca_experience_original :: primitive_evidence
  ca_experience :: primitive_evidence
  ca_gates :: "gate_result list"
  ca_risks :: "runtime_risk list"
  ca_accessibility :: "feature_evidence list"
  ca_input :: "feature_evidence list"
  ca_language :: "feature_evidence list"
  ca_reasons :: "string list"
  ca_unknowns :: "string list"
  ca_conflicts :: "string list"
  ca_complete :: bool

definition verdict_of :: "gate_result list \<Rightarrow> compat_state" where
  "verdict_of gates =
     (let mandatory = filter gr_mandatory gates in
      if list_ex (\<lambda>g. gr_effective g = Gate_fail) mandatory then Incompatible
      else if list_ex (\<lambda>g. gr_effective g = Gate_unknown) mandatory then State_unknown
      else if list_ex (\<lambda>g. gr_effective g = Gate_pass \<and> gr_effective_condition g \<noteq> None) mandatory then Conditionally
      else Compatible)"

definition effective_fact :: "primitive_evidence \<Rightarrow> primitive_evidence" where
  "effective_fact e =
     (if pe_state e = Gate_unknown \<or> pe_age e \<noteq> Age_expired then e
      else e\<lparr>pe_state := Gate_unknown, pe_conflict := False, pe_unknown_reason := Some ''evidence_expired'',
             pe_condition := None\<rparr>)"

definition assessment_reasons :: "compat_state \<Rightarrow> gate_value \<Rightarrow> bool \<Rightarrow> string list" where
  "assessment_reasons state playable not_installed = sort
     ((if state = Incompatible then [''decisive_compatibility_gate_failed''] else []) @
      (if state = Conditionally then [''known_manual_or_runtime_condition''] else []) @
      (if state = State_unknown then [''required_compatibility_evidence_unknown''] else []) @
      (if state = Compatible then [''all_mandatory_compatibility_gates_passed''] else []) @
      (if playable = Gate_unknown then [''playable_now_requires_m7_operational_facts''] else []) @
      (if not_installed then [''known_not_installed''] else []))"

definition not_current :: "evidence_age \<Rightarrow> bool" where
  "not_current a \<longleftrightarrow> a \<in> {Age_stale, Age_expired, Age_unknown}"

definition effective_gates :: "raw_gate list \<Rightarrow> gate_override list \<Rightarrow> gate_result list" where
  "effective_gates raw overrides =
     map (\<lambda>(name, e, mandatory). compat_gate name e mandatory (last_of (map (\<lambda>g. (go_gate g, g)) overrides) name)) raw"

definition installed_failed :: "gate_result list \<Rightarrow> bool" where
  "installed_failed gates =
     (case find (\<lambda>g. gr_name g = ''readiness:installed'') gates of None \<Rightarrow> False | Some g \<Rightarrow> gr_effective g = Gate_fail)"

definition assessment_of :: "compat_candidate \<Rightarrow> compat_target \<Rightarrow> gate_result list \<Rightarrow> compat_assessment" where
  "assessment_of c t found =
     (let state = verdict_of found;
          not_installed = installed_failed found;
          playable = (if not_installed \<or> state = Incompatible then Gate_fail else Gate_unknown);
          unknowns = sort (map gr_name (filter (\<lambda>g. gr_effective g = Gate_unknown) found));
          conflicts = sort (map gr_name (filter gr_original_conflict found));
          partial = (unknowns \<noteq> [] \<or> conflicts \<noteq> [] \<or>
            list_ex (\<lambda>g. gr_mandatory g \<and> not_current (gr_original_age g)) found \<or>
            pe_state (cc_experience c) = Gate_unknown \<or> not_current (pe_age (cc_experience c)) \<or>
            playable = Gate_unknown)
      in \<lparr>ca_appid = cc_appid c, ca_target = t, ca_state = state, ca_playable_now = playable,
          ca_experience_original = cc_experience c, ca_experience = effective_fact (cc_experience c),
          ca_gates = found, ca_risks = cc_risks c,
          ca_accessibility = filter (\<lambda>f. fe_kind f = Accessibility) (cc_features c),
          ca_input = filter (\<lambda>f. fe_kind f = Input) (cc_features c),
          ca_language = filter (\<lambda>f. fe_kind f = Language) (cc_features c),
          ca_reasons = assessment_reasons state playable not_installed,
          ca_unknowns = unknowns, ca_conflicts = conflicts, ca_complete = (\<not> partial)\<rparr>)"

definition assess :: "compat_candidate \<Rightarrow> compat_target \<Rightarrow> feature_requirement list \<Rightarrow> gate_override list
    \<Rightarrow> string + compat_assessment" where
  "assess c t qs overrides =
     (let raw = raw_gates c t qs in
      if \<exists>g\<in>set overrides. go_gate g \<notin> fst ` set raw then Inl ''override names a gate that was not evaluated''
      else Inr (assessment_of c t (effective_gates raw overrides)))"


section \<open>The batch\<close>

definition missing_candidate :: "int \<Rightarrow> compat_target \<Rightarrow> compat_candidate" where
  "missing_candidate a t =
     (let missing = unknown_evidence ''candidate_evidence_unavailable'' in
      \<lparr>cc_appid = a, cc_target = t, cc_native = missing, cc_execution = missing, cc_architecture = missing,
       cc_minimum = missing, cc_review = None, cc_experience = missing, cc_installed = missing, cc_owned = missing,
       cc_risks = [], cc_features = []\<rparr>)"

definition requirement_key :: "feature_requirement \<Rightarrow> feature_kind \<times> string" where
  "requirement_key q = (fr_kind q, fr_name q)"

definition validate_compatibility_request :: "int list \<Rightarrow> feature_requirement list \<Rightarrow> gate_override list \<Rightarrow> int \<Rightarrow> string + unit" where
  "validate_compatibility_request requested qs overrides capacity =
     first_error
       [(\<not> (0 \<le> capacity \<and> capacity \<le> 2 * max_components), ''candidate gate capacity is invalid''),
        (max_items < int (length requested), ''requested AppID set exceeds the supported bound''),
        (max_components < int (length qs) \<or> max_items < int (length overrides),
           ''requirements or overrides exceed the supported bound''),
        (list_ex appid_error requested, ''requested appid must be an integer between 1 and 4294967295''),
        (\<not> distinct requested, ''requested AppIDs must be unique''),
        (\<not> distinct (map requirement_key qs), ''feature requirements must be unique''),
        (\<not> distinct (map (\<lambda>g. (go_appid g, go_gate g)) overrides), ''overrides must be unique by AppID and gate''),
        (list_ex (\<lambda>g. go_appid g \<notin> set requested) overrides, ''override AppID was not requested''),
        (max_total_gates < int (length requested) * (7 + int (length qs) + capacity),
           ''assessment output exceeds the supported total-work bound'')]"

record compat_batch =
  cb_target :: compat_target
  cb_requested :: "int list"
  cb_results :: "compat_assessment list"
  cb_complete :: bool

fun collect_results :: "('a \<Rightarrow> 'e + 'b) \<Rightarrow> 'a list \<Rightarrow> 'e + 'b list" where
  "collect_results f [] = Inr []"
| "collect_results f (x # xs) = bindE (f x) (\<lambda>y. bindE (collect_results f xs) (\<lambda>ys. Inr (y # ys)))"

definition candidate_for :: "compat_candidate list \<Rightarrow> compat_target \<Rightarrow> int \<Rightarrow> compat_candidate" where
  "candidate_for candidates t a =
     (case last_of (map (\<lambda>c. (cc_appid c, c)) candidates) a of None \<Rightarrow> missing_candidate a t | Some c \<Rightarrow> c)"

definition total_gates :: "int list \<Rightarrow> feature_requirement list \<Rightarrow> compat_candidate list \<Rightarrow> nat" where
  "total_gates requested qs candidates =
     length requested * (7 + length qs) + sum_list (map (\<lambda>c. length (cc_risks c) + length (cc_features c)) candidates)"

definition assess_compatibility :: "int list \<Rightarrow> compat_candidate list \<Rightarrow> compat_target \<Rightarrow> feature_requirement list
    \<Rightarrow> gate_override list \<Rightarrow> string + compat_batch" where
  "assess_compatibility requested candidates t qs overrides =
     bindE (validate_compatibility_request requested qs overrides 0) (\<lambda>_.
     bindE (first_error
       [(\<not> distinct (map cc_appid candidates), ''candidate AppIDs must be unique''),
        (\<not> cc_appid ` set candidates \<subseteq> set requested, ''candidate AppIDs must be explicitly requested''),
        (list_ex (\<lambda>c. cc_target c \<noteq> t) candidates, ''candidate evidence target does not match the assessed target''),
        (max_total_gates < int (total_gates requested qs candidates),
           ''assessment output exceeds the supported total-work bound'')]) (\<lambda>_.
     bindE (collect_results
       (\<lambda>a. assess (candidate_for candidates t a) t (sort_key requirement_key qs) (filter (\<lambda>g. go_appid g = a) overrides))
       (sort requested)) (\<lambda>results.
     Inr \<lparr>cb_target = t, cb_requested = sort requested, cb_results = results,
          cb_complete = list_all ca_complete results\<rparr>)))"


section \<open>Exact minimum requirements and Deck ratings\<close>

datatype opaque_state = Opaque_missing | Opaque_unparsed | Opaque_declared | Opaque_none

record machine_capacity =
  mc_ram_mib :: "int option"
  mc_storage_mib :: "int option"
  mc_architecture :: "string option"
  mc_supported :: "string list"

record minimum_requirements =
  mr_ram_mib :: "int option"
  mr_storage_mib :: "int option"
  mr_architecture :: "string option"
  mr_cpu_text :: "string option"
  mr_gpu_text :: "string option"
  mr_cpu_state :: opaque_state
  mr_gpu_state :: opaque_state

definition architectures :: "string list" where
  "architectures = [''x86'', ''x86_64'', ''arm64'']"

definition mib_error :: "int option \<Rightarrow> bool" where
  "mib_error v = (case v of None \<Rightarrow> False | Some n \<Rightarrow> \<not> (0 \<le> n \<and> n \<le> max_bytes div 1048576))"

definition architecture_error :: "string option \<Rightarrow> bool" where
  "architecture_error a = (case a of None \<Rightarrow> False | Some s \<Rightarrow> s \<notin> set architectures)"

definition machine_capacity :: "machine_capacity \<Rightarrow> string + machine_capacity" where
  "machine_capacity m =
     bindE (first_error
       [(mib_error (mc_ram_mib m), ''ram_mib must be an integer between 0 and 8796093022207''),
        (mib_error (mc_storage_mib m), ''storage_mib must be an integer between 0 and 8796093022207''),
        (architecture_error (mc_architecture m), ''machine architecture is unsupported''),
        (list_ex (\<lambda>s. s \<notin> set architectures) (mc_supported m), ''supported requirement architecture is invalid''),
        (\<not> distinct (mc_supported m), ''supported requirement architectures must be unique'')]) (\<lambda>_.
     Inr (m\<lparr>mc_supported := sort (mc_supported m)\<rparr>))"

definition opaque_checks :: "string \<Rightarrow> opaque_state \<Rightarrow> string option \<Rightarrow> (bool \<times> string) list" where
  "opaque_checks kind state text =
     [(state = Opaque_declared \<and> text = None, ''declared '' @ kind @ '' requirement requires text''),
      (state \<in> {Opaque_missing, Opaque_none} \<and> text \<noteq> None,
         (if state = Opaque_missing then ''missing'' else ''authoritative_none'') @ '' '' @ kind @ '' requirement cannot carry text'')]"

definition minimum_requirements :: "minimum_requirements \<Rightarrow> string + minimum_requirements" where
  "minimum_requirements q =
     bindE (first_error
       ([(mib_error (mr_ram_mib q), ''ram_mib must be an integer between 0 and 8796093022207''),
         (mib_error (mr_storage_mib q), ''storage_mib must be an integer between 0 and 8796093022207''),
         (architecture_error (mr_architecture q), ''requirement architecture is unsupported''),
         (optional_text_error (mr_cpu_text q), ''cpu_text must be a bounded printable string''),
         (optional_text_error (mr_gpu_text q), ''gpu_text must be a bounded printable string'')] @
        opaque_checks ''cpu'' (mr_cpu_state q) (mr_cpu_text q) @
        opaque_checks ''gpu'' (mr_gpu_state q) (mr_gpu_text q))) (\<lambda>_. Inr q)"

record minimum_comparison =
  mm_overall :: gate_value
  mm_ram :: gate_value
  mm_storage :: gate_value
  mm_architecture :: gate_value
  mm_cpu :: gate_value
  mm_gpu :: gate_value
  mm_unknowns :: "string list"

definition quantity_gate :: "int option \<Rightarrow> int option \<Rightarrow> gate_value" where
  "quantity_gate actual required = (case (actual, required) of
       (Some a, Some r) \<Rightarrow> if r \<le> a then Gate_pass else Gate_fail
     | _ \<Rightarrow> Gate_unknown)"

definition architecture_gate :: "machine_capacity \<Rightarrow> string option \<Rightarrow> gate_value" where
  "architecture_gate m required = (case (mc_architecture m, required) of
       (Some a, Some r) \<Rightarrow> if a = r \<or> r \<in> set (mc_supported m) then Gate_pass else Gate_unknown
     | _ \<Rightarrow> Gate_unknown)"

definition overall_gate :: "gate_value list \<Rightarrow> gate_value" where
  "overall_gate gs = (if Gate_fail \<in> set gs then Gate_fail else if Gate_unknown \<in> set gs then Gate_unknown else Gate_pass)"

definition opaque_gate :: "opaque_state \<Rightarrow> gate_value" where
  "opaque_gate s = (if s = Opaque_none then Gate_pass else Gate_unknown)"

definition compare_minimum_requirements :: "machine_capacity \<Rightarrow> minimum_requirements \<Rightarrow> minimum_comparison" where
  "compare_minimum_requirements m q =
     (let ram = quantity_gate (mc_ram_mib m) (mr_ram_mib q);
          storage = quantity_gate (mc_storage_mib m) (mr_storage_mib q);
          architecture = architecture_gate m (mr_architecture q);
          cpu = opaque_gate (mr_cpu_state q); gpu = opaque_gate (mr_gpu_state q);
          states = [(''ram'', ram), (''storage'', storage), (''architecture'', architecture), (''cpu'', cpu), (''gpu'', gpu)]
      in \<lparr>mm_overall = overall_gate (map snd states), mm_ram = ram, mm_storage = storage, mm_architecture = architecture,
          mm_cpu = cpu, mm_gpu = gpu, mm_unknowns = map fst (filter (\<lambda>s. snd s = Gate_unknown) states)\<rparr>)"

definition valve_deck_review :: "rating \<Rightarrow> compat_target \<Rightarrow> string option \<Rightarrow> moment option \<Rightarrow> evidence_age
    \<Rightarrow> string list \<Rightarrow> string option \<Rightarrow> string + target_review" where
  "valve_deck_review rating t source observed_at age ids condition =
     bindE (raise_if (ct_kind t \<noteq> Valve_deck \<or> ct_platform t \<noteq> Steamos)
       ''Valve Deck ratings require an exact Valve Deck target'') (\<lambda>_.
     let e = \<lparr>pe_state = rating_state rating, pe_source = source, pe_support = Official, pe_observed_at = observed_at,
           pe_age = age, pe_ids = ids, pe_conflict = False, pe_unknown_reason = None, pe_condition = None\<rparr>;
         normalized = (\<lambda>e. bindE (primitive_evidence e) (\<lambda>e. target_review \<lparr>tr_target = t, tr_rating = rating, tr_evidence = e\<rparr>))
     in if rating = Rating_unknown then normalized (e\<lparr>pe_unknown_reason := Some ''valve_deck_rating_unknown''\<rparr>)
        else
          (let condition = (if rating = Playable \<and> condition = None
              then Some ''valve_deck_playable_requires_user_attention'' else condition) in
           bindE (raise_if (rating \<noteq> Playable \<and> condition \<noteq> None) ''only Playable ratings may carry a condition'') (\<lambda>_.
           normalized (e\<lparr>pe_condition := condition\<rparr>))))"

end
