(* ===== verification/Compat_Props.thy ===== *)
theory Compat_Props
  imports Compatibility
begin

text \<open>
  What an assessment promises: one answer per requested AppID whatever the order of its inputs, a
  favourable verdict only on attributed and current evidence, and a negative verdict that no
  further evidence takes back.
\<close>


section \<open>Dictionaries of distinct keys\<close>

lemma last_of_mem: "distinct (map fst kvs) \<Longrightarrow> last_of kvs k = Some v \<longleftrightarrow> (k, v) \<in> set kvs"
  by (auto simp: last_of_def rev_map [symmetric] dest: map_of_SomeD intro!: map_of_is_SomeI)

lemma last_of_mset: "distinct (map fst kvs) \<Longrightarrow> mset kvs = mset kvs' \<Longrightarrow> last_of kvs = last_of kvs'"
proof
  fix k
  assume a: "distinct (map fst kvs)" "mset kvs = mset kvs'"
  then have "mset (map fst kvs) = mset (map fst kvs')" by simp
  then have d: "distinct (map fst kvs')" "set kvs = set kvs'"
    using a mset_eq_imp_distinct_iff mset_eq_setD by blast+
  show "last_of kvs k = last_of kvs' k"
    using last_of_mem [OF a(1), of k] last_of_mem [OF d(1), of k] d(2)
    by (cases "last_of kvs k"; cases "last_of kvs' k") auto
qed

lemma last_of_Some: "last_of kvs k = Some v \<Longrightarrow> (k, v) \<in> set kvs"
  by (auto simp: last_of_def dest: map_of_SomeD)

lemma sort_mset_cong: "mset xs = mset ys \<Longrightarrow> sort xs = sort ys"
  by (metis mset_sort properties_for_sort sorted_sort)

lemma distinct_map_mset: "mset xs = mset ys \<Longrightarrow> distinct (map f xs) = distinct (map f ys)"
  by (rule mset_eq_imp_distinct_iff) simp

lemma list_ex_mset: "mset xs = mset ys \<Longrightarrow> list_ex P xs = list_ex P ys"
  by (auto simp: list_ex_iff dest: mset_eq_setD)


section \<open>One answer per requested AppID\<close>

lemma collect_results_Inr: "collect_results f xs = Inr ys \<longleftrightarrow> list_all2 (\<lambda>x y. f x = Inr y) xs ys"
  by (induction xs arbitrary: ys) (auto simp: bindE_eq_Inr list_all2_Cons1)

lemma assess_appid: "assess c t qs os = Inr a \<Longrightarrow> ca_appid a = cc_appid c"
  by (auto simp: assess_def assessment_of_def Let_def split: if_splits)

lemma candidate_for_appid: "cc_appid (candidate_for cs t a) = a"
  by (auto simp: candidate_for_def missing_candidate_def Let_def dest: last_of_Some split: option.splits)

lemma assess_batch_Inr:
  "assess_compatibility requested cs t qs os = Inr b \<longleftrightarrow>
     validate_compatibility_request requested qs os 0 = Inr () \<and> distinct (map cc_appid cs) \<and>
     cc_appid ` set cs \<subseteq> set requested \<and> (\<forall>c\<in>set cs. cc_target c = t) \<and>
     int (total_gates requested qs cs) \<le> max_total_gates \<and>
     list_all2 (\<lambda>a r. assess (candidate_for cs t a) t (sort_key requirement_key qs) (filter (\<lambda>g. go_appid g = a) os) = Inr r)
       (sort requested) (cb_results b) \<and>
     cb_target b = t \<and> cb_requested b = sort requested \<and> cb_complete b = list_all ca_complete (cb_results b)"
  unfolding assess_compatibility_def bindE_eq_Inr collect_results_Inr
  by (cases b) (auto simp: list_ex_iff not_less)

lemma batch_appids:
  assumes "assess_compatibility requested cs t qs os = Inr b"
  shows "map ca_appid (cb_results b) = sort requested"
proof -
  have "list_all2 (\<lambda>a r. a = ca_appid r) (sort requested) (cb_results b)"
    using assms unfolding assess_batch_Inr
    by (auto elim!: list_all2_mono dest!: assess_appid simp: candidate_for_appid)
  then show ?thesis
    by (simp add: list_all2_conv_all_nth list_eq_iff_nth_eq)
qed

lemma override_lookup:
  assumes "distinct (map (\<lambda>g. (go_appid g, go_gate g)) os)" "mset os = mset os'"
  shows "last_of (map (\<lambda>g. (go_gate g, g)) (filter (\<lambda>g. go_appid g = a) os)) =
    last_of (map (\<lambda>g. (go_gate g, g)) (filter (\<lambda>g. go_appid g = a) os'))"
proof (rule last_of_mset)
  have "inj_on go_gate (set (filter (\<lambda>g. go_appid g = a) os))" "distinct os"
    using assms(1) by (auto simp: distinct_map inj_on_def)
  then show "distinct (map fst (map (\<lambda>g. (go_gate g, g)) (filter (\<lambda>g. go_appid g = a) os)))"
    by (simp add: distinct_map inj_on_def comp_def)
  show "mset (map (\<lambda>g. (go_gate g, g)) (filter (\<lambda>g. go_appid g = a) os)) =
      mset (map (\<lambda>g. (go_gate g, g)) (filter (\<lambda>g. go_appid g = a) os'))"
    using assms(2) by simp
qed

lemma assess_overrides_cong:
  assumes "last_of (map (\<lambda>g. (go_gate g, g)) os) = last_of (map (\<lambda>g. (go_gate g, g)) os')" "set os = set os'"
  shows "assess c t qs os = assess c t qs os'"
  by (simp add: assess_def effective_gates_def Let_def assms)

text \<open>C34. A batch answers exactly the requested AppIDs, each once and in order, and does not depend on
  the order in which AppIDs, candidates, requirements and overrides are given.\<close>

theorem batch_answers_requested:
  assumes "assess_compatibility requested cs t qs os = Inr b"
    and "mset requested' = mset requested" "mset cs' = mset cs" "mset qs' = mset qs" "mset os' = mset os"
  shows "map ca_appid (cb_results b) = sort requested \<and> assess_compatibility requested' cs' t qs' os' = Inr b"
proof
  show "map ca_appid (cb_results b) = sort requested" by (rule batch_appids [OF assms(1)])
  note b = assms(1) [unfolded assess_batch_Inr]
  note sets = assms(2-5) [THEN mset_eq_setD] and sizes = assms(2-5) [THEN mset_eq_length]
  have valid: "validate_compatibility_request requested' qs' os' 0 = Inr ()"
    using b distinct_map_mset [OF assms(2), of id]
    by (simp add: validate_compatibility_request_def list_ex_iff sets sizes distinct_map_mset [OF assms(4)]
        distinct_map_mset [OF assms(5)])
  have overrides: "distinct (map (\<lambda>g. (go_appid g, go_gate g)) os)" "distinct (map requirement_key qs)"
    using b by (simp_all add: validate_compatibility_request_def)
  have "sum_list (map f cs') = sum_list (map f cs)" for f :: "compat_candidate \<Rightarrow> nat"
    using assms(3) by (metis mset_map sum_mset_sum_list)
  then have total: "total_gates requested' qs' cs' = total_gates requested qs cs"
    by (simp add: total_gates_def sizes)
  have lookup: "candidate_for cs' t a = candidate_for cs t a" for a
    using last_of_mset [of "map (\<lambda>c. (cc_appid c, c)) cs" "map (\<lambda>c. (cc_appid c, c)) cs'"] b assms(3)
    by (simp add: candidate_for_def comp_def)
  have "sort_key requirement_key qs' = sort_key requirement_key qs"
    by (rule sort_key_inj_key_eq) (use assms(4) overrides(2) sets(3) in \<open>auto simp: distinct_map\<close>)
  moreover have "assess c t rs (filter (\<lambda>g. go_appid g = a) os') = assess c t rs (filter (\<lambda>g. go_appid g = a) os)" for c rs a
    by (rule assess_overrides_cong [OF override_lookup [OF overrides(1) assms(5) [symmetric], symmetric]]) (simp add: sets)
  ultimately show "assess_compatibility requested' cs' t qs' os' = Inr b"
    using b valid total distinct_map_mset [OF assms(3), of cc_appid] sort_mset_cong [OF assms(2)]
    by (simp add: assess_batch_Inr lookup sets)
qed


section \<open>Favourable verdicts rest on evidence\<close>

text \<open>What the constructors guarantee of a candidate and of the overrides.\<close>

definition candidate_ok :: "compat_candidate \<Rightarrow> bool" where
  "candidate_ok c \<longleftrightarrow>
     (\<forall>e\<in>{cc_native c, cc_execution c, cc_architecture c, cc_minimum c, cc_experience c, cc_installed c, cc_owned c}.
        evidence_ok e) \<and>
     (\<forall>r. cc_review c = Some r \<longrightarrow> evidence_ok (tr_evidence r)) \<and>
     (\<forall>r\<in>set (cc_risks c). evidence_ok (rr_evidence r) \<and> pe_state (rr_evidence r) = presence_state (rr_presence r)) \<and>
     (\<forall>f\<in>set (cc_features c). evidence_ok (fe_support f))"

definition attributed :: "gate_result \<Rightarrow> bool" where
  "attributed g \<longleftrightarrow> gr_effective_source g \<noteq> None \<and> gr_effective_observed_at g \<noteq> None \<and>
     gr_effective_ids g \<noteq> [] \<and> gr_effective_age g \<in> {Age_fresh, Age_stale}"

text \<open>Evidence that says something says where it comes from.\<close>

definition backed :: "primitive_evidence \<Rightarrow> bool" where
  "backed e \<longleftrightarrow> pe_state e \<noteq> Gate_unknown \<longrightarrow>
     pe_source e \<noteq> None \<and> pe_observed_at e \<noteq> None \<and> pe_ids e \<noteq> [] \<and> pe_age e \<noteq> Age_unknown"

lemma backed_gate:
  assumes "backed e" "\<forall>g. os = Some g \<longrightarrow> go_ids g \<noteq> []" "gr_effective (compat_gate n e m os) \<noteq> Gate_unknown"
  shows "attributed (compat_gate n e m os)"
proof (cases os)
  case None
  with assms(1,3) show ?thesis
    by (cases "pe_age e") (simp_all add: compat_gate_def Let_def attributed_def age_degraded_def backed_def split: if_splits)
next
  case (Some g)
  with assms(2) show ?thesis by (simp add: compat_gate_def Let_def attributed_def)
qed

lemma ok_backed: "evidence_ok e \<Longrightarrow> backed e"
  by (simp add: evidence_ok_def backed_def)

lemma unknown_backed [simp]: "backed (unknown_evidence reason)"
  by (simp add: backed_def unknown_evidence_def)

lemma risk_backed:
  "evidence_ok (rr_evidence r) \<Longrightarrow> pe_state (rr_evidence r) = presence_state (rr_presence r) \<Longrightarrow> backed (risk_evidence r)"
  by (cases "rr_presence r") (auto simp: risk_evidence_def Let_def evidence_ok_def backed_def)

lemma raw_backed: "candidate_ok c \<Longrightarrow> (n, e, m) \<in> set (raw_gates c t qs) \<Longrightarrow> backed e"
  by (auto simp: raw_gates_def Let_def candidate_ok_def exact_review_def required_support_def
      intro: ok_backed risk_backed dest!: last_of_Some split: option.splits) (auto intro: ok_backed)

lemma verdict_pass:
  "verdict_of gates \<in> {Compatible, Conditionally} \<Longrightarrow> g \<in> set gates \<Longrightarrow> gr_mandatory g \<Longrightarrow> gr_effective g = Gate_pass"
  by (cases "gr_effective g") (auto simp: verdict_of_def Let_def list_ex_iff split: if_splits)


text \<open>The gates that decide: the ones of the target, every risk whose presence is known, and every
  required feature.\<close>

definition deciding :: "compat_candidate \<Rightarrow> compat_target \<Rightarrow> feature_requirement list \<Rightarrow> string set" where
  "deciding c t qs =
     (if ct_kind t = Valve_deck then {''exact_target_review''}
      else {''effective_execution_support'', ''architecture'', ''meets_minimum''}) \<union>
     {''runtime:'' @ rr_name r | r. r \<in> set (cc_risks c) \<and> rr_presence r \<noteq> Presence_unknown} \<union>
     requirement_name ` set qs"

lemma raw_mandatory:
  "(n, e, True) \<in> set (raw_gates c t qs) \<longleftrightarrow>
     ct_kind t = Valve_deck \<and> n = ''exact_target_review'' \<and> e = exact_review (cc_review c) t \<or>
     ct_kind t \<noteq> Valve_deck \<and> (n = ''effective_execution_support'' \<and> e = cc_execution c \<or>
       n = ''architecture'' \<and> e = cc_architecture c \<or> n = ''meets_minimum'' \<and> e = cc_minimum c) \<or>
     (\<exists>r\<in>set (cc_risks c). rr_presence r \<noteq> Presence_unknown \<and> n = ''runtime:'' @ rr_name r \<and> e = risk_evidence r) \<or>
     (\<exists>q\<in>set qs. n = requirement_name q \<and> e = required_support c q)"
  unfolding raw_gates_def Let_def
  by (cases "ct_kind t"; simp only: set_append set_map list.set Un_iff insert_iff image_iff empty_iff prod.inject
      target_kind.distinct simp_thms bex_simps) (auto simp only: simp_thms)

lemma mandatory_names: "{n. \<exists>e. (n, e, True) \<in> set (raw_gates c t qs)} = deciding c t qs"
  unfolding deciding_def raw_mandatory by (rule set_eqI, cases "ct_kind t") (auto simp only: target_kind.distinct simp_thms if_True if_False)

lemma gate_fields [simp]:
  "gr_name (compat_gate n e m os) = n" "gr_mandatory (compat_gate n e m os) = m"
  by (simp_all add: compat_gate_def Let_def split: option.split)

lemma assess_Inr:
  "assess c t qs os = Inr a \<longleftrightarrow>
     (\<forall>g\<in>set os. go_gate g \<in> fst ` set (raw_gates c t qs)) \<and> a = assessment_of c t (effective_gates (raw_gates c t qs) os)"
  by (auto simp: assess_def Let_def)

lemma assessment_fields [simp]:
  "ca_gates (assessment_of c t gs) = gs" "ca_state (assessment_of c t gs) = verdict_of gs"
  "ca_playable_now (assessment_of c t gs) =
     (if installed_failed gs \<or> verdict_of gs = Incompatible then Gate_fail else Gate_unknown)"
  by (simp_all add: assessment_of_def Let_def)

text \<open>C35. A candidate is called compatible, unconditionally or not, only if every deciding gate passes,
  and passes on evidence with a source, an observation time and a lineage that has not expired.\<close>

theorem favourable_verdict_attributed:
  assumes "candidate_ok c" "\<forall>g\<in>set os. go_ids g \<noteq> []" "assess c t qs os = Inr a"
    and "ca_state a \<in> {Compatible, Conditionally}"
  shows "{gr_name g | g. g \<in> set (ca_gates a) \<and> gr_mandatory g} = deciding c t qs \<and>
    (\<forall>g\<in>set (ca_gates a). gr_mandatory g \<longrightarrow> gr_effective g = Gate_pass \<and> attributed g)"
proof
  have a: "ca_gates a = effective_gates (raw_gates c t qs) os" "ca_state a = verdict_of (ca_gates a)"
    using assms(3) by (auto simp: assess_Inr)
  show "{gr_name g | g. g \<in> set (ca_gates a) \<and> gr_mandatory g} = deciding c t qs"
    unfolding mandatory_names [symmetric] a(1) effective_gates_def by (force split: prod.splits)
  show "\<forall>g\<in>set (ca_gates a). gr_mandatory g \<longrightarrow> gr_effective g = Gate_pass \<and> attributed g"
  proof (intro ballI impI conjI)
    fix g assume g: "g \<in> set (ca_gates a)" "gr_mandatory g"
    show pass: "gr_effective g = Gate_pass"
      using verdict_pass [OF _ g] assms(4) a(2) by simp
    obtain n e m where raw: "(n, e, m) \<in> set (raw_gates c t qs)"
      and gate: "g = compat_gate n e m (last_of (map (\<lambda>g. (go_gate g, g)) os) n)"
      using g(1) by (auto simp: a(1) effective_gates_def)
    show "attributed g"
      unfolding gate using pass assms(2) last_of_Some
      by (intro backed_gate [OF raw_backed [OF assms(1) raw]]) (fastforce simp: gate)+
  qed
qed


section \<open>A negative verdict is final\<close>

text \<open>What more evidence means: known facts stay as they are.\<close>

definition knows_more :: "primitive_evidence \<Rightarrow> primitive_evidence \<Rightarrow> bool" where
  "knows_more e e' \<longleftrightarrow> pe_state e \<noteq> Gate_unknown \<longrightarrow> e' = e"

definition candidate_grows :: "compat_target \<Rightarrow> compat_candidate \<Rightarrow> compat_candidate \<Rightarrow> bool" where
  "candidate_grows t c c' \<longleftrightarrow>
     knows_more (cc_execution c) (cc_execution c') \<and> knows_more (cc_architecture c) (cc_architecture c') \<and>
     knows_more (cc_minimum c) (cc_minimum c') \<and> knows_more (exact_review (cc_review c) t) (exact_review (cc_review c') t) \<and>
     {r \<in> set (cc_risks c). rr_presence r \<noteq> Presence_unknown} \<subseteq> set (cc_risks c') \<and>
     {f \<in> set (cc_features c). pe_state (fe_support f) \<noteq> Gate_unknown} \<subseteq> set (cc_features c')"

lemma verdict_fail: "verdict_of gs = Incompatible \<longleftrightarrow> (\<exists>g\<in>set gs. gr_mandatory g \<and> gr_effective g = Gate_fail)"
  by (auto simp: verdict_of_def Let_def list_ex_iff)

lemma gate_kept:
  "knows_more e e' \<Longrightarrow> gr_effective (compat_gate n e m os) = Gate_fail \<Longrightarrow> gr_effective (compat_gate n e' m os) = Gate_fail"
  by (cases os) (auto simp: compat_gate_def Let_def knows_more_def split: if_splits)

lemma required_support_grows:
  assumes "candidate_grows t c c'" "distinct (map feature_key (cc_features c'))"
  shows "knows_more (required_support c q) (required_support c' q)"
proof (cases "last_of (map (\<lambda>f. (feature_key f, fe_support f)) (cc_features c)) (fr_kind q, fr_name q)")
  case None
  then show ?thesis by (simp add: knows_more_def required_support_def unknown_evidence_def)
next
  case (Some e)
  show ?thesis
    unfolding knows_more_def
  proof
    assume known: "pe_state (required_support c q) \<noteq> Gate_unknown"
    from last_of_Some [OF Some] obtain f where f: "f \<in> set (cc_features c)" "feature_key f = (fr_kind q, fr_name q)" "fe_support f = e"
      by auto
    with known Some assms(1) have "f \<in> set (cc_features c')"
      by (auto simp: candidate_grows_def required_support_def)
    then have "last_of (map (\<lambda>f. (feature_key f, fe_support f)) (cc_features c')) (fr_kind q, fr_name q) = Some e"
      using f(2,3) assms(2) by (subst last_of_mem) (force simp: comp_def)+
    then show "required_support c' q = required_support c q"
      by (simp add: required_support_def Some)
  qed
qed

lemma raw_grows:
  assumes "candidate_grows t c c'" "distinct (map feature_key (cc_features c'))" "(n, e, True) \<in> set (raw_gates c t qs)"
  shows "\<exists>e'. (n, e', True) \<in> set (raw_gates c' t qs) \<and> knows_more e e'"
  using assms(3) [unfolded raw_mandatory]
proof (elim disjE conjE bexE)
  fix r assume r: "r \<in> set (cc_risks c)" "rr_presence r \<noteq> Presence_unknown" "n = ''runtime:'' @ rr_name r" "e = risk_evidence r"
  then have "r \<in> set (cc_risks c')" using assms(1) by (auto simp: candidate_grows_def)
  then have "(n, e, True) \<in> set (raw_gates c' t qs)" using r unfolding raw_mandatory by blast
  then show "\<exists>e'. (n, e', True) \<in> set (raw_gates c' t qs) \<and> knows_more e e'" by (auto simp: knows_more_def)
next
  fix q assume "q \<in> set qs" "n = requirement_name q" "e = required_support c q"
  then show "\<exists>e'. (n, e', True) \<in> set (raw_gates c' t qs) \<and> knows_more e e'"
    using required_support_grows [OF assms(1,2)] unfolding raw_mandatory by blast
next
  assume "ct_kind t = Valve_deck" "n = ''exact_target_review''" "e = exact_review (cc_review c) t"
  then show "\<exists>e'. (n, e', True) \<in> set (raw_gates c' t qs) \<and> knows_more e e'"
    using assms(1) unfolding raw_mandatory candidate_grows_def by blast
next
  assume d: "ct_kind t \<noteq> Valve_deck"
  note more = assms(1) [unfolded candidate_grows_def] d
  {
    assume "n = ''effective_execution_support''" "e = cc_execution c"
    then show "\<exists>e'. (n, e', True) \<in> set (raw_gates c' t qs) \<and> knows_more e e'"
      using more by (intro exI [of _ "cc_execution c'"]) (simp add: raw_mandatory)
  next
    assume "n = ''architecture''" "e = cc_architecture c"
    then show "\<exists>e'. (n, e', True) \<in> set (raw_gates c' t qs) \<and> knows_more e e'"
      using more by (intro exI [of _ "cc_architecture c'"]) (simp add: raw_mandatory)
  next
    assume "n = ''meets_minimum''" "e = cc_minimum c"
    then show "\<exists>e'. (n, e', True) \<in> set (raw_gates c' t qs) \<and> knows_more e e'"
      using more by (intro exI [of _ "cc_minimum c'"]) (simp add: raw_mandatory)
  }
qed


text \<open>Once a candidate is incompatible, no further evidence makes it anything else: with every
  known fact kept, whatever becomes known leaves the verdict and the answer to playing now.\<close>

theorem incompatible_final:
  assumes "assess c t qs os = Inr a" "ca_state a = Incompatible"
    and "candidate_grows t c c'" "distinct (map feature_key (cc_features c'))" "assess c' t qs os = Inr a'"
  shows "ca_state a' = Incompatible \<and> ca_playable_now a' = Gate_fail"
proof -
  let ?o = "last_of (map (\<lambda>g. (go_gate g, g)) os)"
  obtain n e where "(n, e, True) \<in> set (raw_gates c t qs)" "gr_effective (compat_gate n e True (?o n)) = Gate_fail"
    using assms(1,2) by (fastforce simp: assess_Inr verdict_fail effective_gates_def)
  then obtain e' where "(n, e', True) \<in> set (raw_gates c' t qs)" "gr_effective (compat_gate n e' True (?o n)) = Gate_fail"
    using raw_grows [OF assms(3,4)] gate_kept by blast
  then have "verdict_of (effective_gates (raw_gates c' t qs) os) = Incompatible"
    unfolding verdict_fail effective_gates_def by force
  with assms(5) show ?thesis by (simp add: assess_Inr)
qed



section \<open>A small assessment\<close>

definition demo_machine :: compat_target where
  "demo_machine = \<lparr>ct_kind = Machine, ct_key = ''desk'', ct_platform = Linux\<rparr>"

definition demo_known :: "gate_value \<Rightarrow> primitive_evidence" where
  "demo_known st = \<lparr>pe_state = st, pe_source = Some ''store'', pe_support = Documented, pe_observed_at = Some (Aware 0),
     pe_age = Age_fresh, pe_ids = [''e1''], pe_conflict = False, pe_unknown_reason = None, pe_condition = None\<rparr>"

definition demo_candidate :: "gate_value \<Rightarrow> compat_candidate" where
  "demo_candidate st = (missing_candidate 5 demo_machine)\<lparr>cc_execution := demo_known Gate_pass,
     cc_architecture := demo_known Gate_pass, cc_minimum := demo_known st\<rparr>"

definition demo_input :: feature_requirement where
  "demo_input = \<lparr>fr_kind = Input, fr_name = ''pad''\<rparr>"

definition demo_override :: gate_override where
  "demo_override = \<lparr>go_name = ''mine'', go_appid = 5, go_gate = ''input:pad'', go_effective = Gate_pass,
     go_ids = [''e2''], go_applied_at = Aware 0\<rparr>"

lemma demo_ok: "evidence_ok (demo_known Gate_pass)" "evidence_ok (demo_known Gate_fail)"
  by (simp_all add: evidence_ok_def demo_known_def optional_text_error_def text_error_def printable_def code_def normal_time_def
      max_evidence_ids_def max_text_def)

lemma demo_candidate_ok: "st \<noteq> Gate_unknown \<Longrightarrow> candidate_ok (demo_candidate st)"
  by (cases st) (simp_all add: candidate_ok_def demo_candidate_def missing_candidate_def Let_def demo_ok unknown_evidence_ok
      text_error_def printable_def code_def max_text_def)

lemma demo_assessments:
  "map_sum id ca_state (assess (demo_candidate Gate_pass) demo_machine [demo_input] [demo_override]) = Inr Compatible"
  "map_sum id ca_state (assess (demo_candidate Gate_fail) demo_machine [demo_input] [demo_override]) = Inr Incompatible"
  "map_sum id (\<lambda>b. map ca_appid (cb_results b))
     (assess_compatibility [7, 5] [demo_candidate Gate_pass] demo_machine [demo_input] [demo_override]) = Inr [5, 7]"
  by code_simp+

theorem batch_answers_requested_witness:
  "assess_compatibility [5, 7] [demo_candidate Gate_pass] demo_machine [demo_input] [demo_override] =
   assess_compatibility [7, 5] [demo_candidate Gate_pass] demo_machine [demo_input] [demo_override]"
proof -
  obtain b where b: "assess_compatibility [7, 5] [demo_candidate Gate_pass] demo_machine [demo_input] [demo_override] = Inr b"
    using demo_assessments(3) by (cases "assess_compatibility [7, 5] [demo_candidate Gate_pass] demo_machine [demo_input] [demo_override]") auto
  show ?thesis
    using batch_answers_requested [OF b, of "[5, 7]"] b by simp
qed

theorem favourable_verdict_attributed_witness:
  "\<exists>a. assess (demo_candidate Gate_pass) demo_machine [demo_input] [demo_override] = Inr a \<and>
     (\<exists>g\<in>set (ca_gates a). gr_mandatory g \<and> gr_name g = ''architecture'' \<and> attributed g)"
proof -
  obtain a where a: "assess (demo_candidate Gate_pass) demo_machine [demo_input] [demo_override] = Inr a" "ca_state a = Compatible"
    using demo_assessments(1) by (cases "assess (demo_candidate Gate_pass) demo_machine [demo_input] [demo_override]") auto
  have facts: "{gr_name g | g. g \<in> set (ca_gates a) \<and> gr_mandatory g} = deciding (demo_candidate Gate_pass) demo_machine [demo_input]"
    "\<forall>g\<in>set (ca_gates a). gr_mandatory g \<longrightarrow> gr_effective g = Gate_pass \<and> attributed g"
    using favourable_verdict_attributed [OF demo_candidate_ok _ a(1)] a(2) by (simp_all add: demo_override_def)
  have "''architecture'' \<in> deciding (demo_candidate Gate_pass) demo_machine [demo_input]"
    by (simp add: deciding_def demo_machine_def)
  then obtain g where "g \<in> set (ca_gates a)" "gr_mandatory g" "gr_name g = ''architecture''"
    unfolding facts(1) [symmetric] by auto
  with facts(2) a(1) show ?thesis by blast
qed

theorem incompatible_final_witness:
  "\<exists>a. assess (demo_candidate Gate_fail) demo_machine [demo_input] [demo_override] = Inr a \<and>
     ca_state a = Incompatible \<and> ca_playable_now a = Gate_fail"
proof -
  obtain a where a: "assess (demo_candidate Gate_fail) demo_machine [demo_input] [demo_override] = Inr a" "ca_state a = Incompatible"
    using demo_assessments(2) by (cases "assess (demo_candidate Gate_fail) demo_machine [demo_input] [demo_override]") auto
  then show ?thesis
    using incompatible_final [OF a _ _ a(1)]
    by (simp add: candidate_grows_def knows_more_def demo_candidate_def missing_candidate_def Let_def)
qed

end
