(* ===== verification/Requirement_Parser.thy ===== *)
theory Requirement_Parser
  imports Ranking Compat_Data
begin

text \<open>
  \<open>requirement_parser.py\<close>: the closed grammar of a declared \<open>minimum\<close> section, the byte intervals of
  its quantities, and the comparison with a machine.  A \<open>Decimal\<close> is a coefficient and an exponent;
  products are rounded to the 28 digits of the default context, half to even.
\<close>


section \<open>Facts\<close>

definition max_text_length :: int where "max_text_length = 8192"
definition max_lines :: int where "max_lines = 64"
definition max_line_length :: int where "max_line_length = 512"

datatype fact_state = Fact_known | Fact_missing | Fact_unknown

record requirement_fact =
  qf_state :: fact_state
  qf_interval :: "(int \<times> int) option"
  qf_architecture :: "string option"
  qf_reason :: "string option"

definition interval_fact :: "int \<Rightarrow> int \<Rightarrow> requirement_fact" where
  "interval_fact lo hi = \<lparr>qf_state = Fact_known, qf_interval = Some (lo, hi), qf_architecture = None, qf_reason = None\<rparr>"

definition architecture_fact :: "string \<Rightarrow> requirement_fact" where
  "architecture_fact a = \<lparr>qf_state = Fact_known, qf_interval = None, qf_architecture = Some a, qf_reason = None\<rparr>"

definition open_fact :: "fact_state \<Rightarrow> string \<Rightarrow> requirement_fact" where
  "open_fact state reason = \<lparr>qf_state = state, qf_interval = None, qf_architecture = None, qf_reason = Some reason\<rparr>"

datatype part = Memory | Storage | Architecture | Cpu | Gpu

primrec part_name :: "part \<Rightarrow> string" where
  "part_name Memory = ''memory''"
| "part_name Storage = ''storage''"
| "part_name Architecture = ''architecture''"
| "part_name Cpu = ''cpu''"
| "part_name Gpu = ''gpu''"

record parsed_requirements =
  pq_rejected :: "string option"
  pq_fact :: "part \<Rightarrow> requirement_fact"

definition isa_tokens :: "string list" where
  "isa_tokens = [''x86'', ''x86_64'', ''arm64'']"


section \<open>Quantities\<close>

text \<open>A coefficient from its digits, and the number of digits of a coefficient.\<close>

definition coefficient :: "string \<Rightarrow> int" where
  "coefficient s = foldl (\<lambda>n c. 10 * n + int (code c - 48)) 0 s"

function digit_count :: "int \<Rightarrow> nat" where
  "digit_count n = (if n < 10 then 1 else Suc (digit_count (n div 10)))"
  by pat_completeness auto
termination digit_count
  by (relation "measure nat") auto

declare digit_count.simps [simp del]

text \<open>\<open>Decimal\<close> multiplication: \<open>coefficient * 10 ^ exponent\<close>, to 28 digits.\<close>

definition half_even :: "int \<Rightarrow> int \<Rightarrow> int" where
  "half_even n p = (let q = n div p; r = n mod p in if p < 2 * r \<or> (2 * r = p \<and> odd q) then q + 1 else q)"

definition decimal_times :: "int \<Rightarrow> int \<Rightarrow> int \<Rightarrow> int \<times> int" where
  "decimal_times c e scale =
     (let n = c * scale; k = digit_count n - 28 in
      if digit_count n \<le> 28 then (n, e) else (half_even n (10 ^ k), e + int k))"

text \<open>\<open>number == number.to_integral_value()\<close>, and \<open>int(number)\<close> of such a number.\<close>

definition decimal_integer :: "int \<times> int \<Rightarrow> int option" where
  "decimal_integer = (\<lambda>(n, e).
     if 0 \<le> e then Some (n * 10 ^ nat e)
     else if n mod 10 ^ nat (- e) = 0 then Some (n div 10 ^ nat (- e)) else None)"

text \<open>\<open>_CAPACITY\<close>: the number with its digits after the point, the unit and the suffix as it stands.\<close>

record capacity =
  cp_digits :: string
  cp_fraction :: string
  cp_unit :: string
  cp_suffix :: string

definition capacity_units :: "string list" where
  "capacity_units = [''MB'', ''GB'', ''MiB'', ''GiB'']"

definition suffix_ok :: "string \<Rightarrow> bool" where
  "suffix_ok s \<longleftrightarrow> s = [] \<or>
     (is_space (hd s) \<and> dropWhile is_space s \<in> {''RAM'', ''available space''})"

definition match_capacity :: "string \<Rightarrow> capacity option" where
  "match_capacity s =
     (let digits = takeWhile is_digit s;
          rest = dropWhile is_digit s;
          fraction = (case rest of c # r \<Rightarrow> if c = CHR ''.'' then takeWhile is_digit r else [] | [] \<Rightarrow> []);
          rest = (if fraction = [] then rest else dropWhile is_digit (tl rest));
          rest = dropWhile is_space rest
      in if digits = [] \<or> (hd digits = CHR ''0'' \<and> digits \<noteq> ''0'') then None
         else (case find (\<lambda>u. prefix u rest \<and> suffix_ok (drop (length u) rest)) capacity_units of
             None \<Rightarrow> None
           | Some u \<Rightarrow> Some \<lparr>cp_digits = digits, cp_fraction = fraction, cp_unit = u, cp_suffix = drop (length u) rest\<rparr>))"

definition decimal_scale :: "string \<Rightarrow> int" where
  "decimal_scale u = (if u = ''MB'' then 1000000 else if u = ''GB'' then 1000000000
     else if u = ''MiB'' then 1048576 else 1073741824)"

definition binary_scale :: "string \<Rightarrow> int" where
  "binary_scale u = (if u = ''MB'' \<or> u = ''MiB'' then 1048576 else 1073741824)"

text \<open>\<open>\bor\b|\bto\b|/|[0-9]\s*-\s*[0-9]\<close>, without regard to case.\<close>

definition word_char :: "char \<Rightarrow> bool" where
  "word_char c \<longleftrightarrow> is_alnum c \<or> c = CHR ''_'' \<or> code c \<in> {170, 178, 179, 181, 185, 186, 188, 189, 190} \<or>
     (192 \<le> code c \<and> code c \<noteq> 215 \<and> code c \<noteq> 247)"

definition ends_word :: "string \<Rightarrow> bool" where
  "ends_word s \<longleftrightarrow> (case s of [] \<Rightarrow> True | c # _ \<Rightarrow> \<not> word_char c)"

definition digit_ahead :: "string \<Rightarrow> bool" where
  "digit_ahead s \<longleftrightarrow> (case dropWhile is_space s of [] \<Rightarrow> False | c # _ \<Rightarrow> is_digit c)"

definition range_here :: "bool \<Rightarrow> string \<Rightarrow> bool" where
  "range_here inside s \<longleftrightarrow>
     (\<not> inside \<and> (\<exists>w\<in>{''or'', ''to''}. prefix w (lower s) \<and> ends_word (drop 2 s))) \<or>
     prefix ''/'' s \<or>
     (s \<noteq> [] \<and> is_digit (hd s) \<and>
        (case dropWhile is_space (tl s) of [] \<Rightarrow> False | c # r \<Rightarrow> c = CHR ''-'' \<and> digit_ahead r))"

fun mentions_range :: "bool \<Rightarrow> string \<Rightarrow> bool" where
  "mentions_range inside [] = False"
| "mentions_range inside (c # s) = (range_here inside (c # s) \<or> mentions_range (word_char c) s)"

definition parse_capacity :: "string \<Rightarrow> part \<Rightarrow> requirement_fact" where
  "parse_capacity text p =
     (let unknown = (\<lambda>reason. open_fact Fact_unknown (part_name p @ reason)) in
      case match_capacity text of
        None \<Rightarrow> unknown (if mentions_range False text then ''_range_or_alternative_not_comparable''
                  else ''_quantity_malformed_or_unknown_unit'')
      | Some m \<Rightarrow>
          if (p = Memory \<and> cp_suffix m = '' available space'') \<or> (p = Storage \<and> cp_suffix m = '' RAM'')
          then unknown ''_quantity_suffix_conflicts''
          else
            (let n = coefficient (cp_digits m @ cp_fraction m); e = - int (length (cp_fraction m)) in
             if n = 0 then unknown ''_quantity_out_of_range''
             else (case (decimal_integer (decimal_times n e (decimal_scale (cp_unit m))),
                         decimal_integer (decimal_times n e (binary_scale (cp_unit m)))) of
                 (Some lo, Some hi) \<Rightarrow>
                   if \<not> (0 < lo \<and> lo \<le> hi \<and> hi \<le> max_bytes) then unknown ''_quantity_out_of_range''
                   else interval_fact lo hi
               | _ \<Rightarrow> unknown ''_quantity_not_exact_bytes'')))"


section \<open>Lines\<close>

definition ignored_labels :: "string list" where
  "ignored_labels = [''OS'', ''DirectX'', ''Network'', ''Sound Card'', ''Additional Notes'']"

definition label_part :: "string \<Rightarrow> part option" where
  "label_part = map_of [(''Memory'', Memory), (''Storage'', Storage), (''Architecture'', Architecture),
     (''Processor'', Cpu), (''CPU'', Cpu), (''Graphics'', Gpu), (''GPU'', Gpu)]"

text \<open>\<open>_LABEL\<close>: at most 32 letters and blanks before the first colon; the value is stripped.\<close>

definition match_label :: "string \<Rightarrow> (string \<times> string) option" where
  "match_label line =
     (let label = takeWhile (\<lambda>c. c \<noteq> CHR '':'') line in
      if label \<noteq> line \<and> label \<noteq> [] \<and> length label \<le> 32 \<and> is_alpha (hd label) \<and>
         list_all (\<lambda>c. is_alpha c \<or> c = CHR '' '') label
      then Some (label, strip (drop (length label + 1) line)) else None)"

text \<open>\<open>_INLINE_RECOMMENDED\<close>: what comes before the white space of the first boundary in a line.\<close>

fun before_recommended :: "string \<Rightarrow> string option" where
  "before_recommended [] = None"
| "before_recommended (c # s) =
     (if is_space c \<and> prefix ''Recommended:'' (dropWhile is_space s) then Some []
      else map_option ((#) c) (before_recommended s))"

definition rstrip :: "string \<Rightarrow> string" where
  "rstrip s = rev (dropWhile is_space (rev s))"

definition line_fact :: "part \<Rightarrow> string \<Rightarrow> requirement_fact" where
  "line_fact p text =
     (case p of
        Memory \<Rightarrow> parse_capacity text p
      | Storage \<Rightarrow> parse_capacity text p
      | Architecture \<Rightarrow> if text \<in> set isa_tokens then architecture_fact text
          else open_fact Fact_unknown ''architecture_not_exact_isa_token''
      | _ \<Rightarrow> open_fact Fact_unknown
          (part_name p @ (if text \<noteq> [] then ''_requirement_opaque'' else ''_requirement_malformed'')))"

text \<open>What a line does to the loop: go on with its facts, end with them, or reject the text.\<close>

datatype line_step =
    Next_line "(part \<times> requirement_fact) list"
  | Last_line "(part \<times> requirement_fact) list"
  | Reject_line string

definition parse_line :: "string \<Rightarrow> line_step" where
  "parse_line raw =
     (let stripped = strip raw in
      if stripped = [] \<or> stripped = ''Minimum:'' then Next_line []
      else if stripped = ''Recommended:'' then Last_line []
      else
        (let tail = before_recommended stripped;
             go_on = (if tail \<noteq> None then Last_line else Next_line);
             line = (case tail of None \<Rightarrow> stripped | Some b \<Rightarrow> rstrip b)
         in case match_label line of
              None \<Rightarrow> Reject_line (if CHR '':'' \<in> set line then ''unknown_or_localized_label'' else ''unanchored_or_malformed_line'')
            | Some (label, text) \<Rightarrow>
                if label = ''Minimum'' then
                  (if tail \<noteq> None then Reject_line ''unanchored_or_malformed_line'' else Next_line [])
                else if label \<in> set ignored_labels then go_on []
                else (case label_part label of
                    None \<Rightarrow> Reject_line ''unknown_or_localized_label''
                  | Some p \<Rightarrow> go_on [(p, line_fact p text)])))"

fun parse_lines :: "string list \<Rightarrow> (part \<times> requirement_fact) list \<Rightarrow> string + (part \<times> requirement_fact) list" where
  "parse_lines [] found = Inr found"
| "parse_lines (raw # rest) found =
     (case parse_line raw of
        Next_line facts \<Rightarrow> parse_lines rest (found @ facts)
      | Last_line facts \<Rightarrow> Inr (found @ facts)
      | Reject_line reason \<Rightarrow> Inl reason)"


section \<open>Sections\<close>

datatype requirement_section = Minimum_section | Recommended_section

fun split_newline :: "string \<Rightarrow> string list" where
  "split_newline [] = [[]]"
| "split_newline (c # s) =
     (if c = CHR 0x0A then [] # split_newline s
      else (case split_newline s of [] \<Rightarrow> [[c]] | l # ls \<Rightarrow> (c # l) # ls))"

definition validate_input :: "string option \<Rightarrow> string option" where
  "validate_input text = (case text of
       None \<Rightarrow> Some ''minimum_text_missing''
     | Some t \<Rightarrow>
         if strip t = [] then Some ''minimum_text_missing''
         else if max_text_length < int (length t) then Some ''minimum_text_too_large''
         else if list_ex (\<lambda>c. \<not> printable c \<and> c \<noteq> CHR 0x0A) t then Some ''minimum_text_contains_control_character''
         else if CHR ''<'' \<in> set t \<or> CHR ''>'' \<in> set t then Some ''minimum_text_not_sanitized''
         else if max_lines < int (length (split_newline t)) \<or>
             list_ex (\<lambda>l. max_line_length < int (length l)) (split_newline t)
           then Some ''minimum_text_shape_exceeds_bound''
         else None)"

definition merge_facts :: "(part \<times> requirement_fact) list \<Rightarrow> part \<Rightarrow> requirement_fact" where
  "merge_facts found p =
     (case map snd (filter (\<lambda>f. fst f = p) found) of
        [] \<Rightarrow> open_fact Fact_missing (part_name p @ ''_requirement_missing'')
      | f # fs \<Rightarrow> if list_ex (\<lambda>g. g \<noteq> f) fs
          then open_fact Fact_unknown (''conflicting_duplicate_'' @ part_name p @ ''_requirements'') else f)"

definition rejected_requirements :: "string \<Rightarrow> parsed_requirements" where
  "rejected_requirements reason = \<lparr>pq_rejected = Some reason, pq_fact = (\<lambda>_. open_fact Fact_unknown reason)\<rparr>"

definition parse_declared_minimum :: "requirement_section \<Rightarrow> string option \<Rightarrow> parsed_requirements" where
  "parse_declared_minimum sec text =
     (if sec \<noteq> Minimum_section then rejected_requirements ''recommended_section_not_parsed''
      else (case validate_input text of
          Some reason \<Rightarrow> rejected_requirements reason
        | None \<Rightarrow> (case parse_lines (split_newline (the text)) [] of
              Inl reason \<Rightarrow> rejected_requirements reason
            | Inr found \<Rightarrow> \<lparr>pq_rejected = None, pq_fact = merge_facts found\<rparr>)))"


section \<open>Comparison\<close>

record system_capacity =
  sc_memory_bytes :: "int option"
  sc_storage_bytes :: "int option"
  sc_architecture :: "string option"
  sc_supported :: "string list"

definition capacity_error :: "int option \<Rightarrow> bool" where
  "capacity_error v = (case v of None \<Rightarrow> False | Some n \<Rightarrow> \<not> (0 \<le> n \<and> n \<le> max_bytes))"

definition system_capacity :: "system_capacity \<Rightarrow> string + system_capacity" where
  "system_capacity m =
     bindE (first_error
       [(capacity_error (sc_memory_bytes m), ''memory_bytes must be a bounded non-negative integer or None''),
        (capacity_error (sc_storage_bytes m), ''storage_available_bytes must be a bounded non-negative integer or None''),
        ((case sc_architecture m of None \<Rightarrow> False | Some a \<Rightarrow> a \<notin> set isa_tokens), ''system architecture is invalid''),
        (list_ex (\<lambda>a. a \<notin> set isa_tokens) (sc_supported m), ''supported architecture is invalid''),
        (\<not> distinct (sc_supported m), ''supported architectures must be unique'')]) (\<lambda>_.
     Inr (m\<lparr>sc_supported := sort (sc_supported m)\<rparr>))"

definition reason_or :: "requirement_fact \<Rightarrow> string \<Rightarrow> string" where
  "reason_or f default_reason = (case qf_reason f of Some r \<Rightarrow> if r \<noteq> [] then r else default_reason | None \<Rightarrow> default_reason)"

definition compare_capacity :: "int option \<Rightarrow> requirement_fact \<Rightarrow> part \<Rightarrow> gate_value \<times> string" where
  "compare_capacity actual f p =
     (if qf_state f \<noteq> Fact_known then (Gate_unknown, reason_or f (part_name p @ ''_requirement_unknown''))
      else case actual of
        None \<Rightarrow> (Gate_unknown, ''system_'' @ part_name p @ ''_unknown'')
      | Some n \<Rightarrow>
          if n < fst (the (qf_interval f)) then (Gate_fail, ''system_'' @ part_name p @ ''_below_required_lower_bound'')
          else if snd (the (qf_interval f)) \<le> n then (Gate_pass, ''system_'' @ part_name p @ ''_meets_required_upper_bound'')
          else (Gate_unknown, ''system_'' @ part_name p @ ''_within_ambiguous_unit_interval''))"

definition compare_architecture :: "system_capacity \<Rightarrow> requirement_fact \<Rightarrow> gate_value \<times> string" where
  "compare_architecture m f =
     (if qf_state f \<noteq> Fact_known then (Gate_unknown, reason_or f ''architecture_requirement_unknown'')
      else case sc_architecture m of
        None \<Rightarrow> (Gate_unknown, ''system_architecture_unknown'')
      | Some a \<Rightarrow>
          if the (qf_architecture f) \<in> set (a # sc_supported m) then (Gate_pass, ''exact_isa_supported'')
          else (Gate_unknown, ''exact_isa_support_relation_unknown''))"

definition opaque_comparison :: "requirement_fact \<Rightarrow> part \<Rightarrow> gate_value \<times> string" where
  "opaque_comparison f p =
     (if qf_state f = Fact_missing then (Gate_pass, part_name p @ ''_requirement_not_declared'')
      else (Gate_unknown, reason_or f (part_name p @ ''_comparison_not_supported'')))"

record requirements_comparison =
  qc_overall :: gate_value
  qc_part :: "part \<Rightarrow> gate_value \<times> string"

definition compare_declared_minimum :: "system_capacity \<Rightarrow> parsed_requirements \<Rightarrow> requirements_comparison" where
  "compare_declared_minimum m q =
     (let result = (\<lambda>p. case p of
          Memory \<Rightarrow> compare_capacity (sc_memory_bytes m) (pq_fact q Memory) Memory
        | Storage \<Rightarrow> compare_capacity (sc_storage_bytes m) (pq_fact q Storage) Storage
        | Architecture \<Rightarrow> compare_architecture m (pq_fact q Architecture)
        | Cpu \<Rightarrow> opaque_comparison (pq_fact q Cpu) Cpu
        | Gpu \<Rightarrow> opaque_comparison (pq_fact q Gpu) Gpu);
          states = map (fst \<circ> result) [Memory, Storage, Architecture, Cpu, Gpu]
      in \<lparr>qc_overall = (if Gate_fail \<in> set states then Gate_fail
            else if Gate_unknown \<in> set states then Gate_unknown else Gate_pass), qc_part = result\<rparr>)"

end
