(* ===== verification/Requirement_Props.thy ===== *)
theory Requirement_Props
  imports Requirement_Parser
begin

text \<open>
  What the parser of declared minimum requirements promises: exact byte intervals, no influence of
  the recommended section, and a verdict that every declared line supports.
\<close>


section \<open>Quantities are exact\<close>

lemma digit_count_bound: "n < 10 ^ k \<Longrightarrow> 0 < k \<Longrightarrow> digit_count n \<le> k"
proof (induction k arbitrary: n)
  case (Suc k)
  show ?case
  proof (cases "n < 10")
    case True
    then show ?thesis by (subst digit_count.simps) simp
  next
    case False
    then have "0 < k" using Suc.prems(1) by (cases k) auto
    have "n < 10 * 10 ^ k" using Suc.prems(1) by simp
    then have "digit_count (n div 10) \<le> k" using \<open>0 < k\<close> by (intro Suc.IH) linarith+
    then show ?thesis using False by (subst digit_count.simps) simp
  qed
qed simp

lemma coefficient_snoc: "coefficient (s @ [c]) = 10 * coefficient s + int (code c - 48)"
  by (simp add: coefficient_def)

lemma coefficient_nonneg: "0 \<le> coefficient s"
  by (induction s rule: rev_induct) (simp_all add: coefficient_snoc, simp add: coefficient_def)

lemma coefficient_less: "list_all is_digit s \<Longrightarrow> coefficient s < 10 ^ length s"
proof (induction s rule: rev_induct)
  case Nil
  show ?case by (simp add: coefficient_def)
next
  case (snoc c s)
  then have "coefficient s \<le> 10 ^ length s - 1" "int (code c - 48) \<le> 9"
    by (auto simp: is_digit_def)
  then show ?case by (simp add: coefficient_snoc)
qed

lemma take_digits_all: "list_all is_digit (takeWhile is_digit s)"
  by (auto simp: list_all_iff dest: set_takeWhileD)

lemma match_capacity_parts:
  "match_capacity s = Some m \<Longrightarrow> cp_digits m = takeWhile is_digit s \<and> (\<exists>r. cp_fraction m = takeWhile is_digit r)"
  by (auto simp: match_capacity_def Let_def split: if_splits option.splits list.splits intro: exI [of _ "[]"])

lemma match_capacity_digits:
  "match_capacity s = Some m \<Longrightarrow> list_all is_digit (cp_digits m @ cp_fraction m)"
  using match_capacity_parts [of s m] by (auto simp: take_digits_all)

text \<open>A product that 28 digits hold is not rounded.\<close>

lemma decimal_times_exact: "n * s < 10 ^ 28 \<Longrightarrow> decimal_times n e s = (n * s, e)"
  using digit_count_bound [of "n * s" 28] by (simp add: decimal_times_def Let_def)

lemma decimal_integer_exact: "decimal_integer (n, - int f) = Some v \<Longrightarrow> v * 10 ^ f = n"
  by (cases f) (auto simp: decimal_integer_def nat_add_distrib split: if_splits)

lemma scales: "0 < decimal_scale u" "decimal_scale u \<le> binary_scale u" "binary_scale u \<le> 2 ^ 30"
  by (auto simp: decimal_scale_def binary_scale_def)

lemma known_capacity:
  assumes "qf_state (parse_capacity text p) = Fact_known"
  obtains m lo hi where "match_capacity text = Some m" "parse_capacity text p = interval_fact lo hi"
    "0 < lo" "lo \<le> hi" "hi \<le> max_bytes"
    "decimal_integer (decimal_times (coefficient (cp_digits m @ cp_fraction m)) (- int (length (cp_fraction m))) (decimal_scale (cp_unit m))) = Some lo"
    "decimal_integer (decimal_times (coefficient (cp_digits m @ cp_fraction m)) (- int (length (cp_fraction m))) (binary_scale (cp_unit m))) = Some hi"
  using assms
  by (auto simp: parse_capacity_def Let_def open_fact_def not_less not_le split: option.splits if_splits)

text \<open>C37. The byte interval of a declared quantity is positive, ordered and at most 63 bits; and for a
  number of up to 18 digits its bounds are exactly the decimal and the binary reading.\<close>

theorem declared_interval_exact:
  assumes "qf_state (parse_capacity text p) = Fact_known"
  shows "\<exists>m lo hi. match_capacity text = Some m \<and> qf_interval (parse_capacity text p) = Some (lo, hi) \<and>
    0 < lo \<and> lo \<le> hi \<and> hi \<le> max_bytes \<and>
    (length (cp_digits m @ cp_fraction m) \<le> 18 \<longrightarrow>
       lo * 10 ^ length (cp_fraction m) = coefficient (cp_digits m @ cp_fraction m) * decimal_scale (cp_unit m) \<and>
       hi * 10 ^ length (cp_fraction m) = coefficient (cp_digits m @ cp_fraction m) * binary_scale (cp_unit m))"
  using assms
proof (rule known_capacity)
  fix m :: capacity and lo hi
  let ?n = "coefficient (cp_digits m @ cp_fraction m)" and ?f = "length (cp_fraction m)"
  assume m: "match_capacity text = Some m" and fact: "parse_capacity text p = interval_fact lo hi"
    and bounds: "0 < lo" "lo \<le> hi" "hi \<le> max_bytes"
    and readings: "decimal_integer (decimal_times ?n (- int ?f) (decimal_scale (cp_unit m))) = Some lo"
      "decimal_integer (decimal_times ?n (- int ?f) (binary_scale (cp_unit m))) = Some hi"
  have exact: "lo * 10 ^ ?f = ?n * decimal_scale (cp_unit m) \<and> hi * 10 ^ ?f = ?n * binary_scale (cp_unit m)"
    if short: "length (cp_digits m @ cp_fraction m) \<le> 18"
  proof -
    have "?n < 10 ^ length (cp_digits m @ cp_fraction m)"
      using match_capacity_digits [OF m] by (blast intro: coefficient_less)
    also have "\<dots> \<le> (10::int) ^ 18" using short by (intro power_increasing) auto
    finally have n: "?n < 10 ^ 18" .
    have less: "?n * s < 10 ^ 28" if "0 < s" "s \<le> 2 ^ 30" for s :: int
    proof -
      have "?n * s \<le> 10 ^ 18 * 2 ^ 30" using n that coefficient_nonneg [of "cp_digits m @ cp_fraction m"] by (intro mult_mono) auto
      then show ?thesis by simp
    qed
    show ?thesis
      using readings decimal_times_exact [OF less, of "decimal_scale (cp_unit m)"] decimal_times_exact [OF less, of "binary_scale (cp_unit m)"]
        scales [of "cp_unit m"] decimal_integer_exact
      by fastforce
  qed
  then show ?thesis
    using m fact bounds by (intro exI [of _ m] exI [of _ lo] exI [of _ hi]) (simp add: interval_fact_def)
qed

theorem declared_interval_exact_witness:
  "qf_state (parse_capacity ''1.5 GB'' Memory) = Fact_known \<and>
   (\<exists>lo hi. qf_interval (parse_capacity ''1.5 GB'' Memory) = Some (lo, hi) \<and> lo * 10 = 15 * 1000000000)"
proof -
  have known: "qf_state (parse_capacity ''1.5 GB'' Memory) = Fact_known" by code_simp
  have m: "match_capacity ''1.5 GB'' = Some \<lparr>cp_digits = ''1'', cp_fraction = ''5'', cp_unit = ''GB'', cp_suffix = []\<rparr>"
    by code_simp
  show ?thesis
    using declared_interval_exact [OF known] known m by (auto simp: coefficient_def code_def decimal_scale_def)
qed

text \<open>Past 28 digits the product is rounded, and a number that is no whole number of bytes passes for one.\<close>

lemma long_quantity_rounded:
  "qf_interval (parse_capacity ''1.0000000000000000000000000001 GB'' Memory) = Some (1000000000, 1073741824)"
  by code_simp

text \<open>A second blank hides that the suffix belongs to another component.\<close>

lemma suffix_conflict_missed:
  "qf_state (parse_capacity ''8 GB available space'' Memory) = Fact_unknown"
  "qf_interval (parse_capacity ''8 GB  available space'' Memory) = Some (8000000000, 8589934592)"
  by code_simp+


section \<open>The recommended section is not read\<close>

text \<open>A line that ends the minimum section: the heading, or a fact with the heading behind it.\<close>

definition boundary_line :: "string \<Rightarrow> bool" where
  "boundary_line r \<longleftrightarrow> strip r = ''Recommended:'' \<or> before_recommended (strip r) \<noteq> None"

lemma boundary_not_blank: "boundary_line r \<Longrightarrow> strip r \<noteq> [] \<and> strip r \<noteq> ''Minimum:''"
proof -
  have "before_recommended ''Minimum:'' = None" by (simp add: is_space_def code_def)
  then show "boundary_line r \<Longrightarrow> ?thesis" by (auto simp: boundary_line_def)
qed

lemma boundary_ends: "boundary_line r \<Longrightarrow> parse_line r \<noteq> Next_line facts"
  using boundary_not_blank [of r]
  by (auto simp: parse_line_def boundary_line_def Let_def split: option.split prod.split)

lemma parse_lines_boundary: "boundary_line r \<Longrightarrow> parse_lines (r # ys) found = parse_lines [r] found"
  using boundary_ends by (auto split: line_step.splits)

lemma parse_lines_stop: "boundary_line r \<Longrightarrow> parse_lines (xs @ r # ys) found = parse_lines (xs @ [r]) found"
proof (induction xs arbitrary: found)
  case Nil
  show ?case unfolding append_Nil by (rule parse_lines_boundary [OF Nil])
next
  case (Cons x xs)
  then show ?case by (simp split: line_step.split)
qed

text \<open>Whatever follows the line that begins the recommended section contributes nothing: two texts
  that agree up to that line are parsed alike.\<close>

theorem recommended_never_read:
  assumes "validate_input (Some t) = None" "validate_input (Some u) = None" "boundary_line r"
    and "split_newline t = xs @ r # ys" "split_newline u = xs @ r # zs"
  shows "parse_declared_minimum Minimum_section (Some t) = parse_declared_minimum Minimum_section (Some u)"
  using parse_lines_stop [OF assms(3), of xs ys] parse_lines_stop [OF assms(3), of xs zs]
  by (simp add: parse_declared_minimum_def assms)

theorem recommended_never_read_witness:
  "parse_declared_minimum Minimum_section (Some (''Memory: 8 GiB Recommended:'' @ CHR 0x0A # ''Memory: 4 GiB'')) =
   parse_declared_minimum Minimum_section (Some (''Memory: 8 GiB Recommended:'' @ CHR 0x0A # ''junk''))"
  by (rule recommended_never_read [where r = "''Memory: 8 GiB Recommended:''" and xs = "[]" and
        ys = "[''Memory: 4 GiB'']" and zs = "[''junk'']"]; code_simp)


section \<open>The verdict\<close>

definition line_made :: "part \<times> requirement_fact \<Rightarrow> bool" where
  "line_made pf \<longleftrightarrow> (\<exists>text. snd pf = line_fact (fst pf) text)"

lemma line_fact_made [simp]: "line_made (p, line_fact p text)"
  by (auto simp: line_made_def)

lemma parse_line_facts:
  "parse_line raw = Next_line facts \<Longrightarrow> list_all line_made facts"
  "parse_line raw = Last_line facts \<Longrightarrow> list_all line_made facts"
  by (auto simp: parse_line_def Let_def split: if_splits option.splits)

lemma parse_lines_facts:
  "parse_lines ls found = Inr out \<Longrightarrow> list_all line_made found \<Longrightarrow> list_all line_made out"
  by (induction ls found rule: parse_lines.induct) (auto dest: parse_line_facts split: line_step.splits)

definition amount :: "system_capacity \<Rightarrow> part \<Rightarrow> int option" where
  "amount m p = (case p of Memory \<Rightarrow> sc_memory_bytes m | Storage \<Rightarrow> sc_storage_bytes m | _ \<Rightarrow> None)"

text \<open>A declared line is supported under every reading, or under none.\<close>

definition supports :: "system_capacity \<Rightarrow> part \<Rightarrow> requirement_fact \<Rightarrow> bool" where
  "supports m p f \<longleftrightarrow>
     (\<exists>n lo hi. amount m p = Some n \<and> f = interval_fact lo hi \<and> hi \<le> n) \<or>
     (\<exists>a own. p = Architecture \<and> f = architecture_fact a \<and> sc_architecture m = Some own \<and> a \<in> set (own # sc_supported m))"

definition violates :: "system_capacity \<Rightarrow> part \<Rightarrow> requirement_fact \<Rightarrow> bool" where
  "violates m p f \<longleftrightarrow> (\<exists>n lo hi. amount m p = Some n \<and> f = interval_fact lo hi \<and> n < lo)"

definition declares_only :: "(part \<times> requirement_fact) list \<Rightarrow> part \<Rightarrow> requirement_fact \<Rightarrow> bool" where
  "declares_only found p f \<longleftrightarrow> (p, f) \<in> set found \<and> (\<forall>g. (p, g) \<in> set found \<longrightarrow> g = f)"

lemma facts_of_part: "set (map snd (filter (\<lambda>f. fst f = p) found)) = {f. (p, f) \<in> set found}"
  by force

lemma merge_known:
  "qf_state (merge_facts found p) = Fact_known \<longleftrightarrow>
     (\<exists>f. declares_only found p f \<and> qf_state f = Fact_known)"
  "declares_only found p f \<Longrightarrow> merge_facts found p = f"
proof -
  have only: "declares_only found p f \<Longrightarrow> merge_facts found p = f" for f
    using facts_of_part [of p found]
    by (cases "map snd (filter (\<lambda>f. fst f = p) found)") (auto simp: merge_facts_def declares_only_def list_ex_iff)
  then show "declares_only found p f \<Longrightarrow> merge_facts found p = f" .
  show "qf_state (merge_facts found p) = Fact_known \<longleftrightarrow> (\<exists>f. declares_only found p f \<and> qf_state f = Fact_known)"
  proof (cases "map snd (filter (\<lambda>f. fst f = p) found)")
    case Nil
    then show ?thesis
      using facts_of_part [of p found] by (auto simp: merge_facts_def declares_only_def open_fact_def)
  next
    case (Cons f fs)
    then show ?thesis
      using facts_of_part [of p found] only
      by (auto simp: merge_facts_def declares_only_def open_fact_def list_ex_iff)
  qed
qed

lemma merge_missing:
  assumes "qf_state (merge_facts found p) = Fact_missing" "\<And>f. (p, f) \<in> set found \<Longrightarrow> qf_state f \<noteq> Fact_missing"
  shows "p \<notin> fst ` set found"
proof (cases "map snd (filter (\<lambda>f. fst f = p) found)")
  case Nil
  with facts_of_part [of p found] show ?thesis by auto
next
  case (Cons f fs)
  with facts_of_part [of p found] have "(p, f) \<in> set found" by auto
  with assms Cons show ?thesis by (auto simp: merge_facts_def open_fact_def split: if_splits)
qed

lemma merge_absent: "p \<notin> fst ` set found \<Longrightarrow> qf_state (merge_facts found p) = Fact_missing"
  using facts_of_part [of p found]
  by (cases "map snd (filter (\<lambda>f. fst f = p) found)") (force simp: merge_facts_def open_fact_def)+

lemma capacity_known: "qf_state (parse_capacity text p) = Fact_known \<Longrightarrow> \<exists>lo hi. parse_capacity text p = interval_fact lo hi \<and> lo \<le> hi"
  by (auto elim!: known_capacity)

lemma parse_capacity_present: "qf_state (parse_capacity text p) \<noteq> Fact_missing"
  by (auto simp: parse_capacity_def open_fact_def interval_fact_def Let_def split: option.split)

lemma line_fact_present: "qf_state (line_fact p text) \<noteq> Fact_missing"
  using parse_capacity_present by (cases p) (auto simp: line_fact_def open_fact_def architecture_fact_def)

lemma line_fact_known:
  "qf_state (line_fact p text) = Fact_known \<Longrightarrow>
     (p \<in> {Memory, Storage} \<and> (\<exists>lo hi. line_fact p text = interval_fact lo hi \<and> lo \<le> hi)) \<or>
     (p = Architecture \<and> (\<exists>a. line_fact p text = architecture_fact a))"
  using capacity_known by (cases p) (auto simp: line_fact_def open_fact_def split: if_splits)

lemma known_of_values [simp]:
  "qf_state (interval_fact lo hi) = Fact_known" "qf_state (architecture_fact a) = Fact_known"
  "qf_interval (interval_fact lo hi) = Some (lo, hi)" "qf_architecture (architecture_fact a) = Some a"
  "interval_fact lo hi \<noteq> architecture_fact a"
  by (simp_all add: interval_fact_def architecture_fact_def)

lemma interval_fact_inject [simp]: "interval_fact lo hi = interval_fact lo' hi' \<longleftrightarrow> lo = lo' \<and> hi = hi'"
  by (simp add: interval_fact_def)

lemma architecture_fact_inject [simp]: "architecture_fact a = architecture_fact b \<longleftrightarrow> a = b"
  by (simp add: architecture_fact_def)

lemma compare_interval:
  "fst (compare_capacity n (interval_fact lo hi) p) = (case n of None \<Rightarrow> Gate_unknown
     | Some k \<Rightarrow> if k < lo then Gate_fail else if hi \<le> k then Gate_pass else Gate_unknown)"
  by (simp add: compare_capacity_def split: option.split)

lemma interval_verdicts:
  "supports m p (interval_fact lo hi) \<longleftrightarrow> (\<exists>n. amount m p = Some n \<and> hi \<le> n)"
  "violates m p (interval_fact lo hi) \<longleftrightarrow> (\<exists>n. amount m p = Some n \<and> n < lo)"
  by (simp_all add: supports_def violates_def)

lemma compare_architecture_fact:
  "fst (compare_architecture m (architecture_fact a)) =
     (case sc_architecture m of None \<Rightarrow> Gate_unknown
      | Some own \<Rightarrow> if a \<in> set (own # sc_supported m) then Gate_pass else Gate_unknown)"
  by (simp add: compare_architecture_def split: option.split)

lemma architecture_supported:
  "supports m Architecture (architecture_fact a) \<longleftrightarrow>
     (\<exists>own. sc_architecture m = Some own \<and> a \<in> set (own # sc_supported m))"
  by (simp add: supports_def amount_def)

lemma declared_line: "list_all line_made found \<Longrightarrow> declares_only found p f \<Longrightarrow> \<exists>text. f = line_fact p text"
proof -
  assume "list_all line_made found" "declares_only found p f"
  then have "line_made (p, f)" by (auto simp only: list_all_iff declares_only_def)
  then show "\<exists>text. f = line_fact p text" by (simp add: line_made_def)
qed

text \<open>The comparison of one component, over the facts the lines gave.\<close>

lemma capacity_gate:
  assumes "list_all line_made found" "p \<in> {Memory, Storage}"
  shows "fst (compare_capacity (amount m p) (merge_facts found p) p) = Gate_pass \<longleftrightarrow>
      (\<exists>f. declares_only found p f \<and> supports m p f)"
    and "fst (compare_capacity (amount m p) (merge_facts found p) p) = Gate_fail \<longleftrightarrow>
      (\<exists>f. declares_only found p f \<and> violates m p f)"
proof -
  have made: "\<exists>lo hi. f = interval_fact lo hi \<and> lo \<le> hi" if "declares_only found p f" "qf_state f = Fact_known" for f
  proof -
    from declared_line [OF assms(1) that(1)] obtain tx where "f = line_fact p tx" ..
    with line_fact_known [of p tx] that(2) assms(2) show ?thesis by auto
  qed
  show "fst (compare_capacity (amount m p) (merge_facts found p) p) = Gate_pass \<longleftrightarrow>
      (\<exists>f. declares_only found p f \<and> supports m p f)"
    "fst (compare_capacity (amount m p) (merge_facts found p) p) = Gate_fail \<longleftrightarrow>
      (\<exists>f. declares_only found p f \<and> violates m p f)"
  proof (atomize (full), cases "qf_state (merge_facts found p) = Fact_known")
    case True
    then obtain f where d: "declares_only found p f" "qf_state f = Fact_known" using merge_known(1) by blast
    from made [OF this] obtain lo hi where f: "f = interval_fact lo hi" "lo \<le> hi" by blast
    from d(1) have only: "declares_only found p g \<longleftrightarrow> g = interval_fact lo hi" for g by (auto simp: declares_only_def f(1))
    show "(fst (compare_capacity (amount m p) (merge_facts found p) p) = Gate_pass \<longleftrightarrow>
        (\<exists>f. declares_only found p f \<and> supports m p f)) \<and>
      (fst (compare_capacity (amount m p) (merge_facts found p) p) = Gate_fail \<longleftrightarrow>
        (\<exists>f. declares_only found p f \<and> violates m p f))"
      unfolding only merge_known(2) [OF d(1)] f(1) compare_interval using f(2)
      by (cases "amount m p") (simp_all add: interval_verdicts)
  next
    case False
    then have "\<not> (\<exists>f. declares_only found p f \<and> (supports m p f \<or> violates m p f))"
      using merge_known(1) by (auto simp: supports_def violates_def)
    with False show "(fst (compare_capacity (amount m p) (merge_facts found p) p) = Gate_pass \<longleftrightarrow>
        (\<exists>f. declares_only found p f \<and> supports m p f)) \<and>
      (fst (compare_capacity (amount m p) (merge_facts found p) p) = Gate_fail \<longleftrightarrow>
        (\<exists>f. declares_only found p f \<and> violates m p f))"
      by (auto simp: compare_capacity_def)
  qed
qed

lemma architecture_verdict:
  assumes "list_all line_made found"
  shows "fst (compare_architecture m (merge_facts found Architecture)) = Gate_pass \<longleftrightarrow>
      (\<exists>f. declares_only found Architecture f \<and> supports m Architecture f)"
    and "fst (compare_architecture m (merge_facts found Architecture)) \<noteq> Gate_fail"
proof -
  have made: "\<exists>a. f = architecture_fact a" if "declares_only found Architecture f" "qf_state f = Fact_known" for f
  proof -
    from declared_line [OF assms that(1)] obtain tx where "f = line_fact Architecture tx" ..
    with line_fact_known [of Architecture tx] that(2) show ?thesis by auto
  qed
  show "fst (compare_architecture m (merge_facts found Architecture)) = Gate_pass \<longleftrightarrow>
      (\<exists>f. declares_only found Architecture f \<and> supports m Architecture f)"
  proof (cases "qf_state (merge_facts found Architecture) = Fact_known")
    case True
    then obtain f where d: "declares_only found Architecture f" "qf_state f = Fact_known" using merge_known(1) by blast
    from made [OF this] obtain a where f: "f = architecture_fact a" by blast
    from d(1) have only: "declares_only found Architecture g \<longleftrightarrow> g = architecture_fact a" for g
      by (auto simp: declares_only_def f)
    show ?thesis
      unfolding only merge_known(2) [OF d(1)] f compare_architecture_fact
      by (cases "sc_architecture m") (simp_all add: architecture_supported)
  next
    case False
    then have "\<not> (\<exists>f. declares_only found Architecture f \<and> supports m Architecture f)"
      using merge_known(1) by (auto simp: supports_def)
    with False show ?thesis by (auto simp: compare_architecture_def)
  qed
  show "fst (compare_architecture m (merge_facts found Architecture)) \<noteq> Gate_fail"
    by (auto simp: compare_architecture_def split: option.splits)
qed

lemma opaque_verdict:
  assumes "list_all line_made found"
  shows "fst (opaque_comparison (merge_facts found p) p) = Gate_pass \<longleftrightarrow> p \<notin> fst ` set found"
    and "fst (opaque_comparison (merge_facts found p) p) \<noteq> Gate_fail"
proof -
  have "qf_state f \<noteq> Fact_missing" if "(p, f) \<in> set found" for f
    using assms that line_fact_present by (fastforce simp: list_all_iff line_made_def)
  then show "fst (opaque_comparison (merge_facts found p) p) = Gate_pass \<longleftrightarrow> p \<notin> fst ` set found"
    using merge_missing [of found p] merge_absent [of p found] by (auto simp: opaque_comparison_def)
qed (simp add: opaque_comparison_def)

text \<open>C36. A machine meets a declared minimum exactly if the text declares memory, storage and
  architecture, each without contradiction and supported under every reading, and no processor or
  graphics; and it fails exactly if memory or storage is below every reading of its only declaration.\<close>

theorem declared_minimum_decided:
  assumes "validate_input (Some t) = None" "parse_lines (split_newline t) [] = Inr found"
    and "c = compare_declared_minimum m (parse_declared_minimum Minimum_section (Some t))"
  shows "(qc_overall c = Gate_fail \<longleftrightarrow> (\<exists>p\<in>{Memory, Storage}. \<exists>f. declares_only found p f \<and> violates m p f)) \<and>
    (qc_overall c = Gate_pass \<longleftrightarrow>
      (\<forall>p\<in>{Memory, Storage, Architecture}. \<exists>f. declares_only found p f \<and> supports m p f) \<and>
      Cpu \<notin> fst ` set found \<and> Gpu \<notin> fst ` set found)"
proof -
  have made: "list_all line_made found"
    using parse_lines_facts [OF assms(2)] by simp
  have parsed: "parse_declared_minimum Minimum_section (Some t) = \<lparr>pq_rejected = None, pq_fact = merge_facts found\<rparr>"
    by (simp add: parse_declared_minimum_def assms)
  have amounts: "sc_memory_bytes m = amount m Memory" "sc_storage_bytes m = amount m Storage"
    by (simp_all add: amount_def)
  have states: "qc_overall c =
     (let gs = [fst (compare_capacity (amount m Memory) (merge_facts found Memory) Memory),
            fst (compare_capacity (amount m Storage) (merge_facts found Storage) Storage),
            fst (compare_architecture m (merge_facts found Architecture)),
            fst (opaque_comparison (merge_facts found Cpu) Cpu), fst (opaque_comparison (merge_facts found Gpu) Gpu)]
      in if Gate_fail \<in> set gs then Gate_fail else if Gate_unknown \<in> set gs then Gate_unknown else Gate_pass)"
    unfolding assms(3) parsed compare_declared_minimum_def by (simp add: Let_def amounts)
  have overall: "(let gs = xs in if Gate_fail \<in> set gs then Gate_fail else if Gate_unknown \<in> set gs then Gate_unknown else Gate_pass)
      = Gate_pass \<longleftrightarrow> (\<forall>g\<in>set xs. g = Gate_pass)" for xs
    by (auto simp: Let_def) (metis gate_value.exhaust)
  have fails: "(let gs = xs in if Gate_fail \<in> set gs then Gate_fail else if Gate_unknown \<in> set gs then Gate_unknown else Gate_pass)
      = Gate_fail \<longleftrightarrow> Gate_fail \<in> set xs" for xs
    by (simp add: Let_def)
  note gates = capacity_gate [OF made, of Memory m] capacity_gate [OF made, of Storage m] architecture_verdict [OF made, of m]
    opaque_verdict [OF made, of Cpu] opaque_verdict [OF made, of Gpu]
  show ?thesis
    unfolding states overall fails using gates by (simp add: eq_commute [of Gate_fail])
qed

definition demo_requirements :: string where
  "demo_requirements = ''Memory: 8 GB'' @ CHR 0x0A # ''Storage: 1 GiB available space'' @ CHR 0x0A # ''Architecture: x86_64''"

definition demo_system :: system_capacity where
  "demo_system = \<lparr>sc_memory_bytes = Some 9000000000, sc_storage_bytes = Some 1073741824,
     sc_architecture = Some ''x86_64'', sc_supported = []\<rparr>"

theorem declared_minimum_decided_witness:
  "qc_overall (compare_declared_minimum demo_system (parse_declared_minimum Minimum_section (Some demo_requirements))) = Gate_pass"
proof -
  have v: "validate_input (Some demo_requirements) = None" by code_simp
  have l: "parse_lines (split_newline demo_requirements) [] =
      Inr [(Memory, interval_fact 8000000000 8589934592), (Storage, interval_fact 1073741824 1073741824),
        (Architecture, architecture_fact ''x86_64'')]"
    by code_simp
  show ?thesis
    using declared_minimum_decided [OF v l refl, of demo_system]
    by (auto simp: declares_only_def supports_def amount_def demo_system_def)
qed

end
