(* ===== verification/Recommend_Data.thy ===== *)
theory Recommend_Data
  imports Compat_Data
begin

text \<open>
  The subjects of \<open>recommendations.py\<close>: activity, achievements, explicit feedback, profile rules,
  candidates and the context of a query, with the checks of their constructors.  Ages and moments
  are those of \<open>Compat_Data\<close>.  What a constructor has accepted it would accept again, unchanged;
  so the definitions over the records do not repeat the checks of evidence IDs.
\<close>


section \<open>Checks\<close>

definition max_minutes :: int where "max_minutes = 2 ^ 32 - 1"
definition max_rule_weight :: int where "max_rule_weight = 100"
definition rec_max_candidates :: int where "rec_max_candidates = 100000"

definition minutes_error :: "int option \<Rightarrow> bool" where
  "minutes_error v = (case v of None \<Rightarrow> False | Some n \<Rightarrow> \<not> (0 \<le> n \<and> n \<le> max_minutes))"

definition rec_ids :: "string list \<Rightarrow> string + string list" where
  "rec_ids ids =
     bindE (first_error
       [(max_evidence_ids < int (length ids), ''evidence_ids must be a bounded tuple''),
        (list_ex (\<lambda>s. s = [] \<or> max_text < int (length s)) ids, ''evidence IDs must be bounded non-empty strings''),
        (\<not> distinct ids, ''evidence IDs must be unique'')]) (\<lambda>_. Inr (sort ids))"

definition optional_moment :: "moment option \<Rightarrow> string \<Rightarrow> string + moment option" where
  "optional_moment t name = (case t of
       None \<Rightarrow> Inr None
     | Some Naive \<Rightarrow> Inl (name @ '' must be a timezone-aware datetime'')
     | Some (Aware n) \<Rightarrow> Inr (Some (Aware (n div 1000000 * 1000000))))"

text \<open>\<open>user:[a-z0-9](?:[a-z0-9._-]{0,57}[a-z0-9])?\<close>\<close>

definition trait_slug :: "string \<Rightarrow> bool" where
  "trait_slug s \<longleftrightarrow> prefix ''user:'' s \<and> slug_of ''._-'' 57 (drop 5 s)"


section \<open>Evidence\<close>

record activity_evidence =
  ae_age :: evidence_age
  ae_observed_at :: "moment option"
  ae_lifetime :: "int option"
  ae_recent :: "int option"
  ae_last_played :: "moment option"
  ae_ids :: "string list"
  ae_recent_age :: "evidence_age option"

definition activity_evidence :: "activity_evidence \<Rightarrow> string + activity_evidence" where
  "activity_evidence a =
     bindE (optional_moment (ae_observed_at a) ''observed_at'') (\<lambda>observed.
     bindE (first_error
       [(minutes_error (ae_lifetime a), ''lifetime_minutes must be an integer between 0 and 4294967295''),
        (minutes_error (ae_recent a), ''recent_window_minutes must be an integer between 0 and 4294967295'')]) (\<lambda>_.
     bindE (optional_moment (ae_last_played a) ''last_played_at'') (\<lambda>last_played.
     bindE (raise_if (ae_age a \<noteq> Age_unknown \<and> observed = None) ''known activity freshness requires observed_at'') (\<lambda>_.
     bindE (rec_ids (ae_ids a)) (\<lambda>ids.
     Inr (a\<lparr>ae_observed_at := observed, ae_last_played := last_played, ae_ids := ids,
            ae_recent_age := Some (case ae_recent_age a of None \<Rightarrow> ae_age a | Some g \<Rightarrow> g)\<rparr>))))))"

datatype achievement_state =
    Ready | Profile_private | Achievements_unsupported | Authentication_failed
  | Rate_limited | Provider_failed | Invalid_response | Unevaluated

primrec achievement_state_text :: "achievement_state \<Rightarrow> string" where
  "achievement_state_text Ready = ''ready''"
| "achievement_state_text Profile_private = ''profile_private''"
| "achievement_state_text Achievements_unsupported = ''unsupported''"
| "achievement_state_text Authentication_failed = ''authentication_failed''"
| "achievement_state_text Rate_limited = ''rate_limited''"
| "achievement_state_text Provider_failed = ''provider_failed''"
| "achievement_state_text Invalid_response = ''invalid_response''"
| "achievement_state_text Unevaluated = ''unevaluated''"

record achievement_evidence =
  av_state :: achievement_state
  av_age :: evidence_age
  av_observed_at :: "moment option"
  av_unlocked :: "int option"
  av_total :: "int option"
  av_ids :: "string list"

definition progress_checks :: "achievement_evidence \<Rightarrow> moment option \<Rightarrow> (bool \<times> string) list" where
  "progress_checks a observed =
     (if av_state a = Ready then
        [(av_unlocked a = None \<or> av_total a = None, ''ready achievements require unlocked and total''),
         (minutes_error (av_unlocked a), ''unlocked must be an integer between 0 and 4294967295''),
         (minutes_error (av_total a), ''total must be an integer between 0 and 4294967295''),
         ((case (av_unlocked a, av_total a) of (Some u, Some n) \<Rightarrow> n < u | _ \<Rightarrow> False), ''unlocked cannot exceed total''),
         (observed = None, ''ready achievements require observed_at'')]
      else [(av_unlocked a \<noteq> None \<or> av_total a \<noteq> None, ''non-ready achievements cannot carry progress'')])"

definition achievement_evidence :: "achievement_evidence \<Rightarrow> string + achievement_evidence" where
  "achievement_evidence a =
     bindE (optional_moment (av_observed_at a) ''observed_at'') (\<lambda>observed.
     bindE (first_error
       ((av_age a \<noteq> Age_unknown \<and> observed = None, ''known achievement freshness requires observed_at'') #
        progress_checks a observed)) (\<lambda>_.
     bindE (rec_ids (av_ids a)) (\<lambda>ids. Inr (a\<lparr>av_observed_at := observed, av_ids := ids\<rparr>))))"

text \<open>The unlocked share in basis points.\<close>

definition ratio_bps :: "achievement_evidence \<Rightarrow> int option" where
  "ratio_bps a = (case (av_unlocked a, av_total a) of
       (Some u, Some n) \<Rightarrow> if av_state a \<noteq> Ready \<or> n = 0 then None else Some (u * 10000 div n)
     | _ \<Rightarrow> None)"


section \<open>Feedback and rules\<close>

datatype trait_value = Trait_present | Trait_absent | Trait_unknown

record trait_assertion =
  ta_trait :: string
  ta_value :: trait_value
  ta_ids :: "string list"

definition trait_assertion :: "trait_assertion \<Rightarrow> string + trait_assertion" where
  "trait_assertion t =
     bindE (raise_if (\<not> trait_slug (ta_trait t)) ''trait must be a bounded user: slug'') (\<lambda>_.
     bindE (rec_ids (ta_ids t)) (\<lambda>ids. Inr (t\<lparr>ta_ids := ids\<rparr>)))"

datatype user_rating = Liked | Disliked | Neutral

datatype play_state = Playing | Finished | User_abandoned

record explicit_feedback =
  ef_rating :: "user_rating option"
  ef_play :: "play_state option"
  ef_snoozed_until :: "moment option"
  ef_minimum_session :: "int option"
  ef_remaining :: "int option"
  ef_traits :: "trait_assertion list"
  ef_ids :: "string list"
  ef_rating_ids :: "string list"
  ef_play_ids :: "string list"
  ef_snooze_ids :: "string list"
  ef_session_ids :: "string list"
  ef_remaining_ids :: "string list"

definition no_feedback :: explicit_feedback where
  "no_feedback = \<lparr>ef_rating = None, ef_play = None, ef_snoozed_until = None, ef_minimum_session = None,
     ef_remaining = None, ef_traits = [], ef_ids = [], ef_rating_ids = [], ef_play_ids = [], ef_snooze_ids = [],
     ef_session_ids = [], ef_remaining_ids = []\<rparr>"

definition explicit_feedback :: "explicit_feedback \<Rightarrow> string + explicit_feedback" where
  "explicit_feedback f =
     bindE (optional_moment (ef_snoozed_until f) ''snoozed_until'') (\<lambda>snoozed.
     bindE (first_error
       [(minutes_error (ef_minimum_session f), ''minimum_session_minutes must be an integer between 0 and 4294967295''),
        (minutes_error (ef_remaining f), ''remaining_minutes must be an integer between 0 and 4294967295''),
        (\<not> distinct (map ta_trait (ef_traits f)), ''traits must be unique'')]) (\<lambda>_.
     bindE (rec_ids (ef_ids f)) (\<lambda>ids.
     bindE (rec_ids (ef_rating_ids f)) (\<lambda>rating_ids.
     bindE (rec_ids (ef_play_ids f)) (\<lambda>play_ids.
     bindE (rec_ids (ef_snooze_ids f)) (\<lambda>snooze_ids.
     bindE (rec_ids (ef_session_ids f)) (\<lambda>session_ids.
     bindE (rec_ids (ef_remaining_ids f)) (\<lambda>remaining_ids.
     Inr (f\<lparr>ef_snoozed_until := snoozed, ef_traits := sort_key ta_trait (ef_traits f), ef_ids := ids,
            ef_rating_ids := rating_ids, ef_play_ids := play_ids, ef_snooze_ids := snooze_ids,
            ef_session_ids := session_ids, ef_remaining_ids := remaining_ids\<rparr>)))))))))"

datatype rule_kind = Prefer | Avoid | Require

record profile_rule =
  pr_trait :: string
  pr_kind :: rule_kind
  pr_hard :: bool
  pr_weight :: int
  pr_ids :: "string list"

definition profile_rule :: "profile_rule \<Rightarrow> string + profile_rule" where
  "profile_rule r =
     bindE (first_error
       [(\<not> trait_slug (pr_trait r), ''rule trait must be a bounded user: slug''),
        (\<not> (0 \<le> pr_weight r \<and> pr_weight r \<le> max_rule_weight), ''weight must be an integer between 0 and 100''),
        (pr_hard r \<and> pr_kind r = Prefer, ''a hard prefer rule is ambiguous'')]) (\<lambda>_.
     bindE (rec_ids (pr_ids r)) (\<lambda>ids. Inr (r\<lparr>pr_ids := ids\<rparr>)))"


section \<open>Candidates and context\<close>

record rec_candidate =
  xc_appid :: int
  xc_name :: "string option"
  xc_owned :: "bool option"
  xc_installed :: "bool option"
  xc_activity :: "activity_evidence option"
  xc_achievements :: "achievement_evidence option"
  xc_feedback :: explicit_feedback
  xc_identity_ids :: "string list"
  xc_owned_ids :: "string list"
  xc_installed_ids :: "string list"
  xc_is_game :: "bool option"
  xc_class_ids :: "string list"

definition rec_candidate :: "rec_candidate \<Rightarrow> string + rec_candidate" where
  "rec_candidate c =
     bindE (first_error
       [(appid_error (xc_appid c), ''appid must be an integer between 1 and 4294967295''),
        (optional_text_error (xc_name c), ''name must be a bounded printable string'')]) (\<lambda>_.
     bindE (rec_ids (xc_identity_ids c)) (\<lambda>identity.
     bindE (rec_ids (xc_owned_ids c)) (\<lambda>owned.
     bindE (rec_ids (xc_installed_ids c)) (\<lambda>installed.
     bindE (rec_ids (xc_class_ids c)) (\<lambda>classification.
     Inr (c\<lparr>xc_identity_ids := identity, xc_owned_ids := owned, xc_installed_ids := installed,
            xc_class_ids := classification\<rparr>))))))"

record rec_requirement =
  xr_name :: string
  xr_expected :: bool

definition rec_requirement :: "rec_requirement \<Rightarrow> string + rec_requirement" where
  "rec_requirement q =
     bindE (raise_if (xr_name q \<noteq> ''installed'' \<and> \<not> trait_slug (xr_name q)) ''requirement name is invalid'') (\<lambda>_. Inr q)"

record constraint_override =
  xo_appid :: int
  xo_constraint :: string
  xo_effective :: gate_value

definition constraint_override :: "constraint_override \<Rightarrow> string + constraint_override" where
  "constraint_override g =
     bindE (first_error
       [(appid_error (xo_appid g), ''override appid must be an integer between 1 and 4294967295''),
        (xo_constraint g = [] \<or> 128 < length (xo_constraint g), ''override constraint is invalid'')]) (\<lambda>_. Inr g)"

datatype recipe = Resume | Finishability | Preference_fit

record rec_context =
  xx_recipe :: recipe
  xx_now :: moment
  xx_time :: "int option"
  xx_requirements :: "rec_requirement list"
  xx_include_unknown :: bool
  xx_overrides :: "constraint_override list"
  xx_explain :: bool

definition override_key :: "constraint_override \<Rightarrow> int \<times> string" where
  "override_key g = (xo_appid g, xo_constraint g)"

definition rec_context :: "rec_context \<Rightarrow> string + rec_context" where
  "rec_context x =
     (case xx_now x of
        Naive \<Rightarrow> Inl ''now must be a timezone-aware datetime''
      | Aware n \<Rightarrow>
          bindE (first_error
            [(minutes_error (xx_time x), ''time_minutes must be an integer between 0 and 4294967295''),
             (\<not> distinct (map xr_name (xx_requirements x)), ''requirements must be unique''),
             (\<not> distinct (map override_key (xx_overrides x)), ''overrides must be unique'')]) (\<lambda>_.
          Inr (x\<lparr>xx_now := Aware (n div 1000000 * 1000000), xx_requirements := sort_key xr_name (xx_requirements x),
                 xx_overrides := sort_key override_key (xx_overrides x)\<rparr>)))"


section \<open>Checked again, nothing changes\<close>

lemma rec_ids_again: "rec_ids ids = Inr ids' \<Longrightarrow> rec_ids ids' = Inr ids'"
  by (auto simp: rec_ids_def bindE_eq_Inr sorted_sort_id)

text \<open>What is known of checked evidence.\<close>

definition achievements_ok :: "achievement_evidence \<Rightarrow> bool" where
  "achievements_ok a \<longleftrightarrow>
     (av_state a = Ready \<longrightarrow> (\<exists>u n. av_unlocked a = Some u \<and> av_total a = Some n \<and> 0 \<le> u \<and> u \<le> n)) \<and>
     (av_state a \<noteq> Ready \<longrightarrow> av_unlocked a = None \<and> av_total a = None)"

lemma achievement_evidence_ok: "achievement_evidence a = Inr a' \<Longrightarrow> achievements_ok a'"
  by (auto simp: achievement_evidence_def bindE_eq_Inr progress_checks_def achievements_ok_def minutes_error_def
      split: if_splits)

definition rule_ok :: "profile_rule \<Rightarrow> bool" where
  "rule_ok r \<longleftrightarrow> 0 \<le> pr_weight r \<and> pr_weight r \<le> max_rule_weight \<and> trait_slug (pr_trait r)"

lemma profile_rule_ok: "profile_rule r = Inr r' \<Longrightarrow> rule_ok r'"
  by (auto simp: profile_rule_def bindE_eq_Inr rule_ok_def)

end
