(* ===== verification/Recommendations.thy ===== *)
theory Recommendations
  imports Recommend_Data
begin

text \<open>
  The recipes of \<open>recommendations.py\<close>: hard gates, score components, the published scoring table,
  and the ranking.
\<close>


section \<open>Points\<close>

definition resume_recent_window :: int where "resume_recent_window = 30"
definition resume_last_played_7d :: int where "resume_last_played_7d = 25"
definition resume_last_played_30d :: int where "resume_last_played_30d = 15"
definition resume_last_played_90d :: int where "resume_last_played_90d = 5"
definition resume_sustained_play :: int where "resume_sustained_play = 10"
definition resume_achievement_progress :: int where "resume_achievement_progress = 10"
definition preference_liked :: int where "preference_liked = 60"
definition preference_disliked :: int where "preference_disliked = - 60"
definition preference_finished :: int where "preference_finished = - 20"
definition preference_abandoned :: int where "preference_abandoned = - 50"
definition preference_recent_behavior :: int where "preference_recent_behavior = 10"
definition preference_sustained_behavior :: int where "preference_sustained_behavior = 5"
definition finish_known_estimate :: int where "finish_known_estimate = 60"
definition finish_achievement_progress :: int where "finish_achievement_progress = 10"

lemmas points_defs = resume_recent_window_def resume_last_played_7d_def resume_last_played_30d_def
  resume_last_played_90d_def resume_sustained_play_def resume_achievement_progress_def preference_liked_def
  preference_disliked_def preference_finished_def preference_abandoned_def preference_recent_behavior_def
  preference_sustained_behavior_def finish_known_estimate_def finish_achievement_progress_def

text \<open>The published table: the recipe or all of them, the rule, its least and its most points.  A rule
  that ends in \<open>:*\<close> stands for a family.\<close>

definition recipe_scoring_table :: "(recipe option \<times> string \<times> int \<times> int) list" where
  "recipe_scoring_table =
     [(None, ''explicit_like'', preference_liked, preference_liked),
      (None, ''explicit_dislike'', preference_disliked, preference_disliked),
      (None, ''explicit_rating'', 0, 0),
      (None, ''explicit_finished'', preference_finished, preference_finished),
      (None, ''user_abandoned'', preference_abandoned, preference_abandoned),
      (None, ''explicit_play_state'', 0, 0),
      (None, ''profile_rule:*'', - max_rule_weight, max_rule_weight),
      (Some Resume, ''recent_sustained_play'', 0, resume_recent_window),
      (Some Resume, ''last_played_recency'', 0, resume_last_played_7d),
      (Some Resume, ''lifetime_play_momentum'', 0, resume_sustained_play),
      (Some Resume, ''achievement_progress_weak'', 0, resume_achievement_progress),
      (Some Finishability, ''explicit_remaining_estimate'', 0, finish_known_estimate),
      (Some Finishability, ''achievement_progress_weak'', 0, finish_achievement_progress),
      (Some Preference_fit, ''recent_play_behavior'', 0, preference_recent_behavior),
      (Some Preference_fit, ''lifetime_play_behavior'', 0, preference_sustained_behavior)]"


section \<open>Components\<close>

datatype component_state = Applied | Not_applicable | Component_unknown | Component_stale | Component_expired

datatype evidence_kind = Explicit_user | Behavioral | Achievement_kind

text \<open>A moment as input stands for its ISO text.\<close>

datatype component_input = No_input | Text_input string | Int_input int | Time_input moment

record score_component =
  sc_rule :: string
  sc_input :: component_input
  sc_ids :: "string list"
  sc_points :: "int option"
  sc_state :: component_state
  sc_kind :: evidence_kind
  sc_limitation :: "string option"

definition component :: "string \<Rightarrow> component_input \<Rightarrow> string list \<Rightarrow> int option \<Rightarrow> component_state \<Rightarrow> evidence_kind
    \<Rightarrow> string option \<Rightarrow> score_component" where
  "component rule given ids points state kind limitation =
     \<lparr>sc_rule = rule, sc_input = given, sc_ids = ids, sc_points = points, sc_state = state, sc_kind = kind,
      sc_limitation = limitation\<rparr>"

text \<open>\<open>a or b\<close> of two tuples, and \<open>_merge_ids\<close>.\<close>

definition ids_or :: "string list \<Rightarrow> string list \<Rightarrow> string list" where
  "ids_or a b = (if a \<noteq> [] then a else b)"

definition merged_ids :: "string list \<Rightarrow> string list \<Rightarrow> string list" where
  "merged_ids a b = sort (remdups (a @ b))"

definition merge_ids :: "string list \<Rightarrow> string list \<Rightarrow> string + string list" where
  "merge_ids a b = rec_ids (merged_ids a b)"

definition assertion_of :: "explicit_feedback \<Rightarrow> string \<Rightarrow> trait_assertion option" where
  "assertion_of f trait = map_of (rev (map (\<lambda>t. (ta_trait t, t)) (ef_traits f))) trait"

definition int_input :: "int option \<Rightarrow> component_input" where
  "int_input v = (case v of None \<Rightarrow> No_input | Some n \<Rightarrow> Int_input n)"

primrec rating_text :: "user_rating \<Rightarrow> string" where
  "rating_text Liked = ''liked''"
| "rating_text Disliked = ''disliked''"
| "rating_text Neutral = ''neutral''"

primrec play_text :: "play_state \<Rightarrow> string" where
  "play_text Playing = ''active''"
| "play_text Finished = ''finished''"
| "play_text User_abandoned = ''user_abandoned''"

definition rating_component :: "explicit_feedback \<Rightarrow> score_component" where
  "rating_component f =
     component
       (case ef_rating f of Some Liked \<Rightarrow> ''explicit_like'' | Some Disliked \<Rightarrow> ''explicit_dislike'' | _ \<Rightarrow> ''explicit_rating'')
       (case ef_rating f of None \<Rightarrow> No_input | Some r \<Rightarrow> Text_input (rating_text r))
       (ids_or (ef_rating_ids f) (ef_ids f))
       (case ef_rating f of None \<Rightarrow> None | Some Liked \<Rightarrow> Some preference_liked | Some Disliked \<Rightarrow> Some preference_disliked
          | Some Neutral \<Rightarrow> Some 0)
       (if ef_rating f = None then Component_unknown else Applied) Explicit_user None"

definition play_component :: "explicit_feedback \<Rightarrow> score_component" where
  "play_component f =
     component
       (case ef_play f of Some User_abandoned \<Rightarrow> ''user_abandoned'' | Some Finished \<Rightarrow> ''explicit_finished''
          | _ \<Rightarrow> ''explicit_play_state'')
       (case ef_play f of None \<Rightarrow> No_input | Some p \<Rightarrow> Text_input (play_text p))
       (ids_or (ef_play_ids f) (ef_ids f))
       (case ef_play f of None \<Rightarrow> None | Some Finished \<Rightarrow> Some preference_finished
          | Some User_abandoned \<Rightarrow> Some preference_abandoned | Some Playing \<Rightarrow> Some 0)
       (if ef_play f = None then Component_unknown else Applied) Explicit_user None"

definition rule_points :: "profile_rule \<Rightarrow> bool \<Rightarrow> int" where
  "rule_points r there = (case pr_kind r of
       Prefer \<Rightarrow> if there then pr_weight r else 0
     | Avoid \<Rightarrow> if there then - pr_weight r else 0
     | Require \<Rightarrow> if there then pr_weight r else - pr_weight r)"

definition rule_component :: "explicit_feedback \<Rightarrow> profile_rule \<Rightarrow> score_component" where
  "rule_component f r =
     (let name = ''profile_rule:'' @ pr_trait r;
          unknown = component name No_input (pr_ids r) None Component_unknown Explicit_user None in
      case assertion_of f (pr_trait r) of
        None \<Rightarrow> unknown
      | Some t \<Rightarrow>
          if ta_value t = Trait_unknown then unknown
          else component name (Text_input (if ta_value t = Trait_present then ''present'' else ''absent''))
            (merged_ids (pr_ids r) (ta_ids t)) (Some (rule_points r (ta_value t = Trait_present))) Applied Explicit_user None)"

primrec age_component_state :: "evidence_age \<Rightarrow> component_state" where
  "age_component_state Age_fresh = Applied"
| "age_component_state Age_stale = Component_stale"
| "age_component_state Age_expired = Component_expired"
| "age_component_state Age_unknown = Component_unknown"

definition activity_state :: "activity_evidence option \<Rightarrow> component_state" where
  "activity_state a = (case a of None \<Rightarrow> Component_unknown | Some e \<Rightarrow> age_component_state (ae_age e))"

definition recent_state :: "activity_evidence option \<Rightarrow> component_state" where
  "recent_state a = (case a of None \<Rightarrow> Component_unknown
     | Some e \<Rightarrow> (case ae_recent_age e of None \<Rightarrow> Component_unknown | Some g \<Rightarrow> age_component_state g))"

definition achievement_component_state :: "achievement_evidence option \<Rightarrow> component_state" where
  "achievement_component_state a = (case a of
       None \<Rightarrow> Component_unknown
     | Some e \<Rightarrow> if av_state e \<noteq> Ready \<or> av_total e = Some 0 then Component_unknown else age_component_state (av_age e))"

definition metric_state :: "component_state \<Rightarrow> 'a option \<Rightarrow> component_state" where
  "metric_state state v = (if state = Applied \<and> v = None then Component_unknown else state)"

definition metric_points :: "component_state \<Rightarrow> int option \<Rightarrow> int \<Rightarrow> int \<Rightarrow> int option" where
  "metric_points state v least points = (case v of
       None \<Rightarrow> None
     | Some n \<Rightarrow> if state \<noteq> Applied then None else Some (if least \<le> n then points else 0))"

definition activity_ids :: "activity_evidence option \<Rightarrow> string list" where
  "activity_ids a = (case a of None \<Rightarrow> [] | Some e \<Rightarrow> ae_ids e)"

definition activity_of :: "(activity_evidence \<Rightarrow> 'a option) \<Rightarrow> activity_evidence option \<Rightarrow> 'a option" where
  "activity_of field a = (case a of None \<Rightarrow> None | Some e \<Rightarrow> field e)"

text \<open>Seconds and days; a context and checked evidence have aware moments.\<close>

definition microseconds :: "moment \<Rightarrow> int" where
  "microseconds t = (case t of Naive \<Rightarrow> 0 | Aware n \<Rightarrow> n)"

definition last_played_points :: "component_state \<Rightarrow> moment option \<Rightarrow> moment \<Rightarrow> int option" where
  "last_played_points state played now = (case played of
       None \<Rightarrow> None
     | Some t \<Rightarrow>
         if state \<noteq> Applied \<or> microseconds now < microseconds t then None
         else
           (let days = (microseconds now - microseconds t) div 86400000000 in
            Some (if days \<le> 7 then resume_last_played_7d else if days \<le> 30 then resume_last_played_30d
              else if days \<le> 90 then resume_last_played_90d else 0)))"

definition last_played_state :: "component_state \<Rightarrow> moment option \<Rightarrow> moment \<Rightarrow> component_state" where
  "last_played_state state played now =
     (if state = Applied \<and> (case played of None \<Rightarrow> True | Some t \<Rightarrow> microseconds now < microseconds t)
      then Component_unknown else state)"

definition achievement_ids :: "achievement_evidence option \<Rightarrow> string list" where
  "achievement_ids a = (case a of None \<Rightarrow> [] | Some e \<Rightarrow> av_ids e)"

definition achievement_ratio :: "achievement_evidence option \<Rightarrow> int option" where
  "achievement_ratio a = (case a of None \<Rightarrow> None | Some e \<Rightarrow> ratio_bps e)"

definition achievement_component :: "achievement_evidence option \<Rightarrow> (int option \<Rightarrow> int) \<Rightarrow> score_component" where
  "achievement_component a points_of =
     (let state = achievement_component_state a; ratio = achievement_ratio a in
      component ''achievement_progress_weak'' (int_input ratio) (achievement_ids a)
        (if state = Applied then Some (points_of ratio) else None) state Achievement_kind
        (Some ''achievement_ratio_is_weak_evidence_not_completion''))"

definition resume_ratio_points :: "int option \<Rightarrow> int" where
  "resume_ratio_points ratio = (case ratio of
       None \<Rightarrow> 0 | Some n \<Rightarrow> if 0 < n \<and> n < 10000 then resume_achievement_progress else 0)"

definition resume_components :: "rec_candidate \<Rightarrow> rec_context \<Rightarrow> score_component list" where
  "resume_components c x =
     (let a = xc_activity c; state = activity_state a; recent = activity_of ae_recent a;
          lifetime = activity_of ae_lifetime a; played = activity_of ae_last_played a in
      [component ''recent_sustained_play'' (int_input recent) (activity_ids a)
         (metric_points (recent_state a) recent 1 resume_recent_window) (metric_state (recent_state a) recent) Behavioral
         (Some ''recent_window_is_not_a_session_log''),
       component ''lifetime_play_momentum'' (int_input lifetime) (activity_ids a)
         (metric_points state lifetime 120 resume_sustained_play) (metric_state state lifetime) Behavioral
         (Some ''playtime_does_not_imply_preference''),
       component ''last_played_recency'' (case played of None \<Rightarrow> No_input | Some t \<Rightarrow> Time_input t) (activity_ids a)
         (last_played_points state played (xx_now x)) (last_played_state state played (xx_now x)) Behavioral None,
       achievement_component (xc_achievements c) resume_ratio_points])"

definition remaining_points :: "int option \<Rightarrow> int option \<Rightarrow> int option" where
  "remaining_points remaining budget = (case remaining of
       None \<Rightarrow> None
     | Some n \<Rightarrow>
         (case budget of
            Some b \<Rightarrow>
              if 0 < b then Some (max 0 (finish_known_estimate - min finish_known_estimate (n * finish_known_estimate div b)))
              else Some (max 1 (finish_known_estimate - min (n div 60) (finish_known_estimate - 1)))
          | None \<Rightarrow> Some (max 1 (finish_known_estimate - min (n div 60) (finish_known_estimate - 1)))))"

definition finish_ratio_points :: "int option \<Rightarrow> int" where
  "finish_ratio_points ratio = (case ratio of None \<Rightarrow> 0 | Some n \<Rightarrow> n * finish_achievement_progress div 10000)"

definition finish_components :: "rec_candidate \<Rightarrow> rec_context \<Rightarrow> score_component list" where
  "finish_components c x =
     (let f = xc_feedback c; remaining = ef_remaining f in
      [component ''explicit_remaining_estimate'' (int_input remaining) (ids_or (ef_remaining_ids f) (ef_ids f))
         (remaining_points remaining (xx_time x)) (if remaining = None then Component_unknown else Applied) Explicit_user None,
       achievement_component (xc_achievements c) finish_ratio_points])"

definition preference_components :: "rec_candidate \<Rightarrow> score_component list" where
  "preference_components c =
     (let a = xc_activity c; state = activity_state a; recent = activity_of ae_recent a;
          lifetime = activity_of ae_lifetime a in
      [component ''recent_play_behavior'' (int_input recent) (activity_ids a)
         (metric_points (recent_state a) recent 1 preference_recent_behavior) (metric_state (recent_state a) recent) Behavioral
         (Some ''behavior_does_not_prove_preference''),
       component ''lifetime_play_behavior'' (int_input lifetime) (activity_ids a)
         (metric_points state lifetime 120 preference_sustained_behavior) (metric_state state lifetime) Behavioral
         (Some ''behavior_does_not_prove_preference'')])"

definition components_of :: "rec_candidate \<Rightarrow> profile_rule list \<Rightarrow> rec_context \<Rightarrow> score_component list" where
  "components_of c rules x =
     sort_key sc_rule
       ([rating_component (xc_feedback c), play_component (xc_feedback c)] @
        map (rule_component (xc_feedback c)) (filter (\<lambda>r. \<not> pr_hard r) rules) @
        (case xx_recipe x of
           Resume \<Rightarrow> resume_components c x
         | Finishability \<Rightarrow> finish_components c x
         | Preference_fit \<Rightarrow> preference_components c))"


section \<open>Hard gates\<close>

record rec_gate =
  xg_name :: string
  xg_original :: gate_value
  xg_effective :: gate_value
  xg_ids :: "string list"
  xg_overridden :: bool

definition bool_gate :: "bool option \<Rightarrow> bool \<Rightarrow> gate_value" where
  "bool_gate actual expected = (case actual of None \<Rightarrow> Gate_unknown | Some b \<Rightarrow> if b = expected then Gate_pass else Gate_fail)"

definition trait_gate :: "trait_assertion option \<Rightarrow> bool \<Rightarrow> gate_value" where
  "trait_gate t expected = (case t of
       None \<Rightarrow> Gate_unknown
     | Some t \<Rightarrow> if ta_value t = Trait_unknown then Gate_unknown
         else if (ta_value t = Trait_present) = expected then Gate_pass else Gate_fail)"

definition within_gate :: "int option \<Rightarrow> int \<Rightarrow> gate_value" where
  "within_gate v budget = (case v of None \<Rightarrow> Gate_unknown | Some n \<Rightarrow> if n \<le> budget then Gate_pass else Gate_fail)"

definition assertion_ids :: "trait_assertion option \<Rightarrow> string list" where
  "assertion_ids t = (case t of None \<Rightarrow> [] | Some t \<Rightarrow> ta_ids t)"

definition requirement_gate :: "rec_candidate \<Rightarrow> rec_requirement \<Rightarrow> string \<times> gate_value \<times> string list" where
  "requirement_gate c q =
     (if xr_name q = ''installed'' then (xr_name q, bool_gate (xc_installed c) (xr_expected q), xc_installed_ids c)
      else (let t = assertion_of (xc_feedback c) (xr_name q) in (xr_name q, trait_gate t (xr_expected q), assertion_ids t)))"

definition rule_gate :: "rec_candidate \<Rightarrow> profile_rule \<Rightarrow> string \<times> gate_value \<times> string list" where
  "rule_gate c r =
     (let t = assertion_of (xc_feedback c) (pr_trait r) in
      (''profile:'' @ pr_trait r, trait_gate t (pr_kind r = Require), merged_ids (pr_ids r) (assertion_ids t)))"

definition hard_gates :: "rec_candidate \<Rightarrow> profile_rule list \<Rightarrow> rec_context \<Rightarrow> (string \<times> gate_value \<times> string list) list" where
  "hard_gates c rules x =
     (let f = xc_feedback c in
      [(''owned'', bool_gate (xc_owned c) True, xc_owned_ids c),
       (''game'', bool_gate (xc_is_game c) True, xc_class_ids c),
       (''snoozed'', (case ef_snoozed_until f of None \<Rightarrow> Gate_pass
          | Some t \<Rightarrow> if microseconds (xx_now x) < microseconds t then Gate_fail else Gate_pass),
          ids_or (ef_snooze_ids f) (ef_ids f))] @
      (case xx_time x of None \<Rightarrow> []
       | Some b \<Rightarrow> [(''minimum_session_within_time'', within_gate (ef_minimum_session f) b, ids_or (ef_session_ids f) (ef_ids f))]) @
      map (requirement_gate c) (xx_requirements x) @
      map (rule_gate c) (filter pr_hard rules) @
      (if xx_recipe x = Preference_fit then []
       else [(''not_finished'', if ef_play f = Some Finished then Gate_fail else Gate_pass, ids_or (ef_play_ids f) (ef_ids f))]) @
      (case xx_time x of None \<Rightarrow> []
       | Some b \<Rightarrow> if xx_recipe x \<noteq> Finishability then []
           else [(''remaining_within_time'', within_gate (ef_remaining f) b, ids_or (ef_remaining_ids f) (ef_ids f))]))"

definition override_for :: "rec_candidate \<Rightarrow> rec_context \<Rightarrow> string \<Rightarrow> constraint_override option" where
  "override_for c x name = find (\<lambda>g. xo_appid g = xc_appid c \<and> xo_constraint g = name) (xx_overrides x)"

definition rec_gate_of :: "rec_candidate \<Rightarrow> rec_context \<Rightarrow> string \<times> gate_value \<times> string list \<Rightarrow> rec_gate" where
  "rec_gate_of c x = (\<lambda>(name, original, ids).
     (let override = override_for c x name in
      \<lparr>xg_name = name, xg_original = original,
       xg_effective = (case override of None \<Rightarrow> original | Some g \<Rightarrow> xo_effective g),
       xg_ids = ids, xg_overridden = (override \<noteq> None)\<rparr>))"

definition gates_of :: "rec_candidate \<Rightarrow> profile_rule list \<Rightarrow> rec_context \<Rightarrow> string + rec_gate list" where
  "gates_of c rules x =
     (let raw = hard_gates c rules x in
      if \<exists>g\<in>set (xx_overrides x). xo_appid g = xc_appid c \<and> xo_constraint g \<notin> fst ` set raw
      then Inl ''override names a constraint that was not evaluated''
      else Inr (map (rec_gate_of c x) raw))"


section \<open>Ranking\<close>

datatype rec_eligibility = Rec_eligible | Rec_conditional | Rec_excluded

datatype rec_confidence = High | Medium | Low

record ranked_recommendation =
  xr_appid :: int
  xr_title :: "string option"
  xr_identity_ids :: "string list"
  xr_eligibility :: rec_eligibility
  xr_score :: "int option"
  xr_gates :: "rec_gate list"
  xr_components :: "score_component list"
  xr_positive :: "string list"
  xr_negative :: "string list"
  xr_reasons :: "string list"
  xr_tradeoffs :: "string list"
  xr_unknowns :: "string list"
  xr_freshness :: evidence_age
  xr_confidence :: rec_confidence
  xr_complete :: bool

definition max_int64 :: int where "max_int64 = 2 ^ 63 - 1"

text \<open>\<open>_safe_sum\<close>: \<open>None\<close> is \<open>OverflowError\<close>.\<close>

fun safe_sum :: "int \<Rightarrow> int list \<Rightarrow> int option" where
  "safe_sum sofar [] = Some sofar"
| "safe_sum sofar (v # vs) =
     (if 0 < v \<and> max_int64 - v < sofar \<or> v < 0 \<and> sofar < - max_int64 - 1 - v then None
      else safe_sum (sofar + v) vs)"

definition points_of :: "score_component list \<Rightarrow> int list" where
  "points_of cs = map the (filter (\<lambda>p. p \<noteq> None) (map sc_points cs))"

definition rec_eligibility_of :: "rec_context \<Rightarrow> rec_gate list \<Rightarrow> rec_eligibility" where
  "rec_eligibility_of x gs =
     (let failed = list_ex (\<lambda>g. xg_effective g = Gate_fail) gs; unsure = list_ex (\<lambda>g. xg_effective g = Gate_unknown) gs in
      if failed \<or> (unsure \<and> \<not> xx_include_unknown x) then Rec_excluded
      else if unsure then Rec_conditional else Rec_eligible)"

definition unknowns_of :: "rec_candidate \<Rightarrow> rec_gate list \<Rightarrow> score_component list \<Rightarrow> string list" where
  "unknowns_of c gs cs = sort (remdups
     (map xg_name (filter (\<lambda>g. xg_effective g = Gate_unknown) gs) @
      map sc_rule (filter (\<lambda>k. sc_state k \<in> {Component_unknown, Component_stale, Component_expired}) cs) @
      (case xc_achievements c of None \<Rightarrow> []
       | Some a \<Rightarrow> if av_state a \<noteq> Ready then [''achievements_'' @ achievement_state_text (av_state a)] else [])))"

definition rec_tradeoffs_of :: "rec_gate list \<Rightarrow> score_component list \<Rightarrow> string list" where
  "rec_tradeoffs_of gs cs = sort
     ((if list_ex xg_overridden gs then [''temporary_constraint_override''] else []) @
      (if list_ex (\<lambda>k. sc_kind k = Achievement_kind \<and> sc_state k = Applied) cs
       then [''achievement_ratio_is_weak_evidence_not_completion''] else []) @
      (if list_ex (\<lambda>k. sc_state k = Component_stale) cs then [''stale_evidence_not_scored''] else []) @
      (if list_ex (\<lambda>k. sc_state k = Component_expired) cs then [''expired_evidence_not_scored''] else []) @
      (if list_ex (\<lambda>k. sc_kind k = Behavioral \<and> sc_state k = Applied) cs then [''behavior_does_not_prove_preference''] else []))"

definition overall_age :: "rec_candidate \<Rightarrow> evidence_age" where
  "overall_age c =
     (let ages = (case xc_activity c of None \<Rightarrow> [] | Some a \<Rightarrow> [ae_age a]) @
                 (case xc_achievements c of None \<Rightarrow> [] | Some a \<Rightarrow> [av_age a]) in
      if Age_expired \<in> set ages then Age_expired
      else if Age_stale \<in> set ages then Age_stale
      else if ages \<noteq> [] \<and> list_all (\<lambda>a. a = Age_fresh) ages then Age_fresh else Age_unknown)"

definition rank_one :: "rec_candidate \<Rightarrow> profile_rule list \<Rightarrow> rec_context \<Rightarrow> string + ranked_recommendation" where
  "rank_one c rules x =
     bindE (gates_of c rules x) (\<lambda>gs.
     let eligibility = rec_eligibility_of x gs; cs = components_of c rules x in
     bindE (if eligibility = Rec_excluded then Inr None
       else (case safe_sum 0 (points_of cs) of
           None \<Rightarrow> Inl ''recommendation score exceeds signed 64-bit range'' | Some n \<Rightarrow> Inr (Some n))) (\<lambda>score.
     let unknowns = unknowns_of c gs cs;
         known = length (filter (\<lambda>k. sc_state k \<in> {Applied, Not_applicable}) cs) in
     Inr \<lparr>xr_appid = xc_appid c, xr_title = xc_name c, xr_identity_ids = xc_identity_ids c,
       xr_eligibility = eligibility, xr_score = score, xr_gates = gs, xr_components = cs,
       xr_positive = map sc_rule (filter (\<lambda>k. case sc_points k of None \<Rightarrow> False | Some p \<Rightarrow> 0 < p) cs),
       xr_negative = map sc_rule (filter (\<lambda>k. case sc_points k of None \<Rightarrow> False | Some p \<Rightarrow> p < 0) cs),
       xr_reasons = (case eligibility of
           Rec_eligible \<Rightarrow> [''all_hard_gates_passed'']
         | Rec_conditional \<Rightarrow> [''included_with_unknown_hard_gate'']
         | Rec_excluded \<Rightarrow> [''hard_gate_failed_or_unknown_excluded'']),
       xr_tradeoffs = rec_tradeoffs_of gs cs, xr_unknowns = unknowns, xr_freshness = overall_age c,
       xr_confidence = (if unknowns = [] then High else if length cs div 2 \<le> known then Medium else Low),
       xr_complete = (unknowns = [] \<or> (eligibility = Rec_excluded \<and> list_ex (\<lambda>g. xg_effective g = Gate_fail) gs))\<rparr>))"

primrec rec_eligibility_rank :: "rec_eligibility \<Rightarrow> int" where
  "rec_eligibility_rank Rec_eligible = 0"
| "rec_eligibility_rank Rec_conditional = 1"
| "rec_eligibility_rank Rec_excluded = 2"

definition rank_key :: "ranked_recommendation \<Rightarrow> int \<times> int \<times> int" where
  "rank_key r = (rec_eligibility_rank (xr_eligibility r), - (case xr_score r of None \<Rightarrow> 0 | Some n \<Rightarrow> n), xr_appid r)"

record recommendation_ranking =
  xk_results :: "ranked_recommendation list"
  xk_eligible :: "ranked_recommendation list"
  xk_conditional :: "ranked_recommendation list"
  xk_excluded :: "ranked_recommendation list"
  xk_complete :: bool

fun ranked_all :: "(rec_candidate \<Rightarrow> string + ranked_recommendation) \<Rightarrow> rec_candidate list \<Rightarrow> string + ranked_recommendation list" where
  "ranked_all f [] = Inr []"
| "ranked_all f (c # cs) = bindE (f c) (\<lambda>r. bindE (ranked_all f cs) (\<lambda>rs. Inr (r # rs)))"

definition merge_checks :: "rec_candidate list \<Rightarrow> profile_rule list \<Rightarrow> string + unit" where
  "merge_checks candidates rules =
     (case filter (\<lambda>r. case r of Inl _ \<Rightarrow> True | Inr _ \<Rightarrow> False)
         (concat (map (\<lambda>c. concat (map (\<lambda>r. case assertion_of (xc_feedback c) (pr_trait r) of
             None \<Rightarrow> [] | Some t \<Rightarrow> [merge_ids (pr_ids r) (ta_ids t)]) rules)) candidates)) of
        Inl e # _ \<Rightarrow> Inl e
      | _ \<Rightarrow> Inr ())"

definition rank_recommendations :: "rec_candidate list \<Rightarrow> profile_rule list \<Rightarrow> rec_context \<Rightarrow> string + recommendation_ranking" where
  "rank_recommendations candidates rules x =
     bindE (first_error
       [(rec_max_candidates < int (length candidates), ''candidate set exceeds the supported bound''),
        (\<not> distinct (map xc_appid candidates), ''candidate AppIDs must be unique''),
        (\<not> distinct (map pr_trait rules), ''profile rules must be unique by trait''),
        (list_ex (\<lambda>g. xo_appid g \<notin> xc_appid ` set candidates) (xx_overrides x), ''override AppID is not a candidate'')]) (\<lambda>_.
     bindE (merge_checks candidates rules) (\<lambda>_.
     bindE (ranked_all (\<lambda>c. rank_one c (sort_key pr_trait rules) x) candidates) (\<lambda>rs.
     let ranked = sort_key rank_key rs;
         eligible = filter (\<lambda>r. xr_eligibility r = Rec_eligible) ranked;
         conditional = filter (\<lambda>r. xr_eligibility r = Rec_conditional) ranked;
         excluded = sort_key xr_appid (filter (\<lambda>r. xr_eligibility r = Rec_excluded) ranked)
     in Inr \<lparr>xk_results = eligible @ conditional @ excluded, xk_eligible = eligible, xk_conditional = conditional,
       xk_excluded = excluded, xk_complete = list_all xr_complete (eligible @ conditional @ excluded)\<rparr>)))"

end
