(* ===== verification/Recommend_Props.thy ===== *)
theory Recommend_Props
  imports Recommendations
begin

text \<open>
  What the recommendations promise: scores within the published table and from applied evidence
  only, sums that do not overflow, and a ranking that does not depend on the order of its inputs.
\<close>


section \<open>Scores follow the published table\<close>

definition feedback_ok :: "explicit_feedback \<Rightarrow> bool" where
  "feedback_ok f \<longleftrightarrow> (\<forall>n. ef_remaining f = Some n \<longrightarrow> 0 \<le> n)"

definition rec_candidate_ok :: "rec_candidate \<Rightarrow> bool" where
  "rec_candidate_ok c \<longleftrightarrow> feedback_ok (xc_feedback c) \<and> (\<forall>a. xc_achievements c = Some a \<longrightarrow> achievements_ok a)"

lemma explicit_feedback_ok: "explicit_feedback f = Inr f' \<Longrightarrow> feedback_ok f'"
  by (auto simp: explicit_feedback_def bindE_eq_Inr feedback_ok_def minutes_error_def)

text \<open>A row of the table covers its rule, or the family before its \<open>:*\<close>.\<close>

definition covers :: "string \<Rightarrow> string \<Rightarrow> bool" where
  "covers row rule \<longleftrightarrow> rule = row \<or> (suffix '':*'' row \<and> prefix (butlast row) rule)"

definition in_table :: "recipe \<Rightarrow> string \<Rightarrow> int option \<Rightarrow> bool" where
  "in_table r rule points \<longleftrightarrow>
     (\<exists>(recipe, row, lo, hi)\<in>set recipe_scoring_table. (recipe = None \<or> recipe = Some r) \<and> covers row rule \<and>
        (\<forall>p. points = Some p \<longrightarrow> lo \<le> p \<and> p \<le> hi))"

definition scored_well :: "recipe \<Rightarrow> score_component \<Rightarrow> bool" where
  "scored_well r k \<longleftrightarrow> (sc_points k \<noteq> None \<longleftrightarrow> sc_state k = Applied) \<and> in_table r (sc_rule k) (sc_points k)"

lemma in_tableI:
  "(recipe, row, lo, hi) \<in> set recipe_scoring_table \<Longrightarrow> recipe = None \<or> recipe = Some r \<Longrightarrow> covers row rule \<Longrightarrow>
   (\<And>p. points = Some p \<Longrightarrow> lo \<le> p \<and> p \<le> hi) \<Longrightarrow> in_table r rule points"
  unfolding in_table_def by blast

lemma covers_self [simp]: "covers row row"
  by (simp add: covers_def)

lemma component_simps [simp]:
  "sc_rule (component n g i p s k l) = n" "sc_points (component n g i p s k l) = p"
  "sc_state (component n g i p s k l) = s" "sc_kind (component n g i p s k l) = k"
  by (simp_all add: component_def)

lemma metric_applied: "metric_points s v least points \<noteq> None \<longleftrightarrow> metric_state s v = Applied"
  by (cases v) (simp_all add: metric_points_def metric_state_def)

lemma metric_bounds: "metric_points s v least points = Some p \<Longrightarrow> 0 \<le> points \<Longrightarrow> 0 \<le> p \<and> p \<le> points"
  by (auto simp: metric_points_def split: option.splits if_splits)

lemma last_played_applied: "last_played_points s t now \<noteq> None \<longleftrightarrow> last_played_state s t now = Applied"
  by (cases t) (auto simp: last_played_points_def last_played_state_def Let_def)

lemma last_played_bounds: "last_played_points s t now = Some p \<Longrightarrow> 0 \<le> p \<and> p \<le> resume_last_played_7d"
  by (auto simp: last_played_points_def Let_def points_defs split: option.splits if_splits)

lemma ratio_bounds:
  assumes "achievements_ok a" "ratio_bps a = Some n"
  shows "0 \<le> n \<and> n \<le> 10000"
proof -
  obtain u m where "n = u * 10000 div m" "0 \<le> u" "u \<le> m" "m \<noteq> 0"
    using assms by (auto simp: ratio_bps_def achievements_ok_def split: option.splits if_splits)
  moreover from this have "u * 10000 div m \<le> m * 10000 div m" by (intro zdiv_mono1) auto
  ultimately show ?thesis by (auto intro: pos_imp_zdiv_nonneg_iff [THEN iffD2])
qed

lemma achievement_scored:
  assumes "\<forall>e. a = Some e \<longrightarrow> achievements_ok e" "(Some r, ''achievement_progress_weak'', 0, hi) \<in> set recipe_scoring_table"
    and "\<And>ratio. (\<forall>n. ratio = Some n \<longrightarrow> 0 \<le> n \<and> n \<le> 10000) \<Longrightarrow> 0 \<le> f ratio \<and> f ratio \<le> hi"
  shows "scored_well r (achievement_component a f)"
proof -
  have "0 \<le> f (achievement_ratio a) \<and> f (achievement_ratio a) \<le> hi"
    using ratio_bounds assms(1) by (intro assms(3)) (auto simp: achievement_ratio_def split: option.splits)
  then show ?thesis
    using assms(2) by (auto simp: scored_well_def achievement_component_def Let_def intro!: in_tableI split: if_splits)
qed

lemma rating_scored: "scored_well r (rating_component f)"
  by (auto simp: scored_well_def rating_component_def in_table_def recipe_scoring_table_def covers_def
      split: option.split user_rating.split)

lemma play_scored: "scored_well r (play_component f)"
  by (auto simp: scored_well_def play_component_def in_table_def recipe_scoring_table_def covers_def
      split: option.split play_state.split)

lemma rule_scored:
  assumes "rule_ok q" shows "scored_well r (rule_component f q)"
proof -
  have "covers ''profile_rule:*'' (''profile_rule:'' @ pr_trait q)"
    by (simp add: covers_def suffix_def)
  moreover have "- max_rule_weight \<le> rule_points q b \<and> rule_points q b \<le> max_rule_weight" for b
    using assms by (auto simp: rule_points_def rule_ok_def max_rule_weight_def split: rule_kind.split)
  ultimately have "in_table r (''profile_rule:'' @ pr_trait q) None" "in_table r (''profile_rule:'' @ pr_trait q) (Some (rule_points q b))" for b
    by (auto intro!: in_tableI [of None "''profile_rule:*''" "- max_rule_weight" max_rule_weight] simp: recipe_scoring_table_def)
  then show ?thesis
    by (auto simp: scored_well_def rule_component_def Let_def split: option.split)
qed

lemma resume_ratio_bounds: "0 \<le> resume_ratio_points ratio \<and> resume_ratio_points ratio \<le> resume_achievement_progress"
  by (auto simp: resume_ratio_points_def points_defs split: option.split)

lemma finish_ratio_bounds:
  "(\<forall>n. ratio = Some n \<longrightarrow> 0 \<le> n \<and> n \<le> 10000) \<Longrightarrow>
   0 \<le> finish_ratio_points ratio \<and> finish_ratio_points ratio \<le> finish_achievement_progress"
  by (auto simp: finish_ratio_points_def points_defs split: option.split)

lemma remaining_bounds:
  "\<forall>n. v = Some n \<longrightarrow> 0 \<le> n \<Longrightarrow> remaining_points v b = Some p \<Longrightarrow> 0 \<le> p \<and> p \<le> finish_known_estimate"
  by (auto simp: remaining_points_def points_defs pos_imp_zdiv_nonneg_iff split: option.splits if_splits)

lemma remaining_applied: "remaining_points v b \<noteq> None \<longleftrightarrow> v \<noteq> None"
  by (auto simp: remaining_points_def split: option.split)

lemma points_nonneg:
  "0 \<le> resume_recent_window" "0 \<le> resume_sustained_play" "0 \<le> preference_recent_behavior" "0 \<le> preference_sustained_behavior"
  by (simp_all add: points_defs)

lemma recipe_rows:
  "(Some Resume, ''recent_sustained_play'', 0, resume_recent_window) \<in> set recipe_scoring_table"
  "(Some Resume, ''last_played_recency'', 0, resume_last_played_7d) \<in> set recipe_scoring_table"
  "(Some Resume, ''lifetime_play_momentum'', 0, resume_sustained_play) \<in> set recipe_scoring_table"
  "(Some Resume, ''achievement_progress_weak'', 0, resume_achievement_progress) \<in> set recipe_scoring_table"
  "(Some Finishability, ''explicit_remaining_estimate'', 0, finish_known_estimate) \<in> set recipe_scoring_table"
  "(Some Finishability, ''achievement_progress_weak'', 0, finish_achievement_progress) \<in> set recipe_scoring_table"
  "(Some Preference_fit, ''recent_play_behavior'', 0, preference_recent_behavior) \<in> set recipe_scoring_table"
  "(Some Preference_fit, ''lifetime_play_behavior'', 0, preference_sustained_behavior) \<in> set recipe_scoring_table"
  by (simp_all add: recipe_scoring_table_def)

lemma scored_component:
  "(Some r, rule, 0, hi) \<in> set recipe_scoring_table \<Longrightarrow> (points \<noteq> None \<longleftrightarrow> state = Applied) \<Longrightarrow>
   (\<And>p. points = Some p \<Longrightarrow> 0 \<le> p \<and> p \<le> hi) \<Longrightarrow> scored_well r (component rule g i points state k l)"
  by (auto simp: scored_well_def intro!: in_tableI)

lemma metric_scored:
  assumes "(Some r, rule, 0, hi) \<in> set recipe_scoring_table" "0 \<le> hi"
  shows "scored_well r (component rule g i (metric_points s v least hi) (metric_state s v) k l)"
  by (rule scored_component [OF assms(1) metric_applied]) (rule metric_bounds [OF _ assms(2)])

lemma played_scored:
  "scored_well Resume (component ''last_played_recency'' g i (last_played_points s t now) (last_played_state s t now) k l)"
  by (rule scored_component [OF recipe_rows(2) last_played_applied]) (rule last_played_bounds)

lemma remaining_scored:
  assumes "feedback_ok f"
  shows "scored_well Finishability (component ''explicit_remaining_estimate'' g i (remaining_points (ef_remaining f) b)
    (if ef_remaining f = None then Component_unknown else Applied) k l)"
proof (rule scored_component [OF recipe_rows(5)])
  show "remaining_points (ef_remaining f) b \<noteq> None \<longleftrightarrow> (if ef_remaining f = None then Component_unknown else Applied) = Applied"
    by (simp add: remaining_applied del: not_None_eq)
  show "remaining_points (ef_remaining f) b = Some p \<Longrightarrow> 0 \<le> p \<and> p \<le> finish_known_estimate" for p
    using assms by (intro remaining_bounds) (auto simp: feedback_ok_def)
qed

lemma resume_scored: "rec_candidate_ok c \<Longrightarrow> list_all (scored_well Resume) (resume_components c x)"
  using achievement_scored [OF _ recipe_rows(4) resume_ratio_bounds, of "xc_achievements c"]
  by (simp add: resume_components_def Let_def metric_scored [OF recipe_rows(1) points_nonneg(1)]
      metric_scored [OF recipe_rows(3) points_nonneg(2)] played_scored rec_candidate_ok_def)

lemma finish_scored: "rec_candidate_ok c \<Longrightarrow> list_all (scored_well Finishability) (finish_components c x)"
  using achievement_scored [OF _ recipe_rows(6) finish_ratio_bounds, of "xc_achievements c"]
    remaining_scored [of "xc_feedback c"]
  by (simp add: finish_components_def Let_def rec_candidate_ok_def)

lemma preference_scored: "list_all (scored_well Preference_fit) (preference_components c)"
  by (simp add: preference_components_def Let_def metric_scored [OF recipe_rows(7) points_nonneg(3)]
      metric_scored [OF recipe_rows(8) points_nonneg(4)])

lemma components_scored:
  assumes "rec_candidate_ok c" "list_all rule_ok rules"
  shows "list_all (scored_well (xx_recipe x)) (components_of c rules x)"
proof -
  have "list_all (scored_well (xx_recipe x)) (map (rule_component (xc_feedback c)) (filter (\<lambda>r. \<not> pr_hard r) rules))"
    using assms(2) by (auto simp: list_all_iff rule_scored)
  moreover have "list_all (scored_well (xx_recipe x)) (case xx_recipe x of Resume \<Rightarrow> resume_components c x
      | Finishability \<Rightarrow> finish_components c x | Preference_fit \<Rightarrow> preference_components c)"
    using resume_scored [OF assms(1)] finish_scored [OF assms(1)] preference_scored by (cases "xx_recipe x") simp_all
  ultimately show ?thesis
    unfolding components_of_def list_all_iff set_sort set_append by (auto simp: rating_scored play_scored)
qed

lemma rank_one_Inr:
  "rank_one c rules x = Inr r \<Longrightarrow> xr_appid r = xc_appid c \<and> xr_components r = components_of c rules x \<and>
     (\<exists>gs. gates_of c rules x = Inr gs \<and> xr_gates r = gs \<and> xr_eligibility r = rec_eligibility_of x gs) \<and>
     (if xr_eligibility r = Rec_excluded then xr_score r = None else xr_score r = safe_sum 0 (points_of (components_of c rules x)))"
  by (auto simp: rank_one_def Let_def bindE_eq_Inr split: if_splits option.splits)

text \<open>C38. Every component of a recommendation is a row of the published scoring table with its points
  inside the row's bounds, and has points exactly if its evidence is applied: what is stale, expired
  or unknown scores nothing.\<close>

theorem scores_follow_table:
  assumes "rec_candidate_ok c" "list_all rule_ok rules" "rank_one c rules x = Inr r"
  shows "list_all (\<lambda>k. (sc_points k \<noteq> None \<longleftrightarrow> sc_state k = Applied) \<and> in_table (xx_recipe x) (sc_rule k) (sc_points k))
    (xr_components r)"
  using components_scored [OF assms(1,2), of x] rank_one_Inr [OF assms(3)]
  by (simp add: scored_well_def [abs_def])


section \<open>Sums do not overflow\<close>

lemma safe_sum_exact:
  "\<bar>sofar\<bar> + sum_list (map abs vs) \<le> max_int64 \<Longrightarrow> safe_sum sofar vs = Some (sofar + sum_list vs)"
proof (induction vs arbitrary: sofar)
  case (Cons v vs)
  have "0 \<le> sum_list (map abs vs)" by (induction vs) auto
  moreover have "\<bar>sofar + v\<bar> + sum_list (map abs vs) \<le> max_int64" using Cons.prems by simp
  ultimately show ?case using Cons.IH [of "sofar + v"] Cons.prems by (auto simp: add.assoc)
qed simp

lemma in_table_small: "in_table r rule (Some p) \<Longrightarrow> \<bar>p\<bar> \<le> 100"
  by (auto simp: in_table_def recipe_scoring_table_def points_defs max_rule_weight_def)

lemma sum_abs_bound: "list_all (\<lambda>p. \<bar>p\<bar> \<le> b) ps \<Longrightarrow> sum_list (map abs ps) \<le> int (length ps) * (b::int)"
  by (induction ps) (auto simp: algebra_simps)

lemma points_small:
  assumes "list_all (scored_well r) ks"
  shows "list_all (\<lambda>p. \<bar>p\<bar> \<le> 100) (points_of ks)" "length (points_of ks) \<le> length ks"
proof -
  show "list_all (\<lambda>p. \<bar>p\<bar> \<le> 100) (points_of ks)"
    using assms in_table_small by (fastforce simp: points_of_def list_all_iff scored_well_def)
  show "length (points_of ks) \<le> length ks"
    unfolding points_of_def by (metis length_filter_le length_map)
qed

lemma components_count: "length (components_of c rules x) \<le> length rules + 6"
proof -
  have "length (filter (\<lambda>r. \<not> pr_hard r) rules) \<le> length rules" by (rule length_filter_le)
  then show ?thesis
    by (cases "xx_recipe x") (simp_all add: components_of_def resume_components_def finish_components_def
        preference_components_def Let_def le_SucI)
qed

text \<open>With fewer than \<open>9 * 10 ^ 16\<close> rules the score is the sum of the points.\<close>

lemma score_is_sum:
  assumes "rec_candidate_ok c" "list_all rule_ok rules" "int (length rules) \<le> 90000000000000000"
  shows "safe_sum 0 (points_of (components_of c rules x)) = Some (sum_list (points_of (components_of c rules x)))"
proof -
  let ?ps = "points_of (components_of c rules x)"
  note scored = components_scored [OF assms(1,2), of x]
  have "sum_list (map abs ?ps) \<le> int (length ?ps) * 100"
    by (rule sum_abs_bound [OF points_small(1) [OF scored]])
  also have "\<dots> \<le> 9000000000000000600"
    using points_small(2) [OF scored] components_count [of c rules x] assms(3) by linarith
  finally show ?thesis
    using safe_sum_exact [of 0 ?ps] by (simp add: max_int64_def)
qed



section \<open>The ranking\<close>

interpretation recs: ranking "\<lambda>r. r" rank_key xr_appid
  by unfold_locales (auto simp: rank_key_def)

lemma ranked_all_Inr: "ranked_all f cs = Inr rs \<longleftrightarrow> list_all2 (\<lambda>c r. f c = Inr r) cs rs"
  by (induction cs arbitrary: rs) (auto simp: bindE_eq_Inr list_all2_Cons1)

lemma list_all2_projr: "list_all2 (\<lambda>c r. f c = Inr r) cs rs \<longleftrightarrow> (\<forall>c\<in>set cs. \<exists>r. f c = Inr r) \<and> rs = map (projr \<circ> f) cs"
proof (induction cs arbitrary: rs)
  case (Cons c cs)
  then show ?case by (cases rs) auto
qed auto

text \<open>The merged evidence of every assertion a rule speaks of fits its bound.\<close>

definition merges_ok :: "rec_candidate list \<Rightarrow> profile_rule list \<Rightarrow> bool" where
  "merges_ok cs rules \<longleftrightarrow> (\<forall>c\<in>set cs. \<forall>r\<in>set rules. \<forall>t.
     assertion_of (xc_feedback c) (pr_trait r) = Some t \<longrightarrow> (\<exists>ids. merge_ids (pr_ids r) (ta_ids t) = Inr ids))"

lemma first_Inl: "(case filter (\<lambda>r. case r of Inl _ \<Rightarrow> True | Inr _ \<Rightarrow> False) rs of Inl e # _ \<Rightarrow> Inl e | _ \<Rightarrow> Inr ()) = Inr () \<longleftrightarrow>
    (\<forall>r\<in>set rs. \<exists>x. r = Inr x)"
  by (induction rs) (auto split: sum.split)

lemma merge_checks_ok: "merge_checks cs rules = Inr () \<longleftrightarrow> merges_ok cs rules"
  unfolding merge_checks_def first_Inl merges_ok_def by (fastforce split: option.splits)

definition shown :: "ranked_recommendation list \<Rightarrow> recommendation_ranking" where
  "shown rs =
     (let ranked = sort_key rank_key rs;
          eligible = filter (\<lambda>r. xr_eligibility r = Rec_eligible) ranked;
          conditional = filter (\<lambda>r. xr_eligibility r = Rec_conditional) ranked;
          excluded = sort_key xr_appid (filter (\<lambda>r. xr_eligibility r = Rec_excluded) ranked)
      in \<lparr>xk_results = eligible @ conditional @ excluded, xk_eligible = eligible, xk_conditional = conditional,
          xk_excluded = excluded, xk_complete = list_all xr_complete (eligible @ conditional @ excluded)\<rparr>)"

lemma rank_recommendations_Inr:
  "rank_recommendations cs rules x = Inr k \<longleftrightarrow>
     int (length cs) \<le> rec_max_candidates \<and> distinct (map xc_appid cs) \<and> distinct (map pr_trait rules) \<and>
     (\<forall>g\<in>set (xx_overrides x). xo_appid g \<in> xc_appid ` set cs) \<and> merges_ok cs rules \<and>
     (\<forall>c\<in>set cs. \<exists>r. rank_one c (sort_key pr_trait rules) x = Inr r) \<and>
     k = shown (map (projr \<circ> (\<lambda>c. rank_one c (sort_key pr_trait rules) x)) cs)"
  unfolding rank_recommendations_def bindE_eq_Inr merge_checks_ok ranked_all_Inr list_all2_projr shown_def Let_def
  by (auto simp: merge_checks_ok list_ex_iff not_less)

lemma shown_parts:
  "mset (xk_results (shown rs)) = mset rs"
  "xk_results (shown rs) = xk_eligible (shown rs) @ xk_conditional (shown rs) @ xk_excluded (shown rs)"
proof -
  have split: "mset (filter (\<lambda>r. xr_eligibility r = Rec_eligible) zs) + (mset (filter (\<lambda>r. xr_eligibility r = Rec_conditional) zs) +
      mset (filter (\<lambda>r. xr_eligibility r = Rec_excluded) zs)) = mset zs" for zs
  proof (induction zs)
    case (Cons z zs)
    then show ?case by (cases "xr_eligibility z") auto
  qed simp
  show "mset (xk_results (shown rs)) = mset rs"
    using split [of "sort_key rank_key rs"] by (simp add: shown_def Let_def)
  show "xk_results (shown rs) = xk_eligible (shown rs) @ xk_conditional (shown rs) @ xk_excluded (shown rs)"
    by (simp add: shown_def Let_def)
qed

lemma shown_sorted: "sorted_wrt (\<lambda>a b. rank_key a \<le> rank_key b) (xk_eligible (shown rs) @ xk_conditional (shown rs))"
proof -
  have in_order: "sorted_wrt (\<lambda>a b. rank_key a \<le> rank_key b) (sort_key rank_key rs)"
    using recs.in_order [of rs] by simp
  have "rank_key a \<le> rank_key b" if "xr_eligibility a = Rec_eligible" "xr_eligibility b = Rec_conditional" for a b
    using that by (simp add: rank_key_def less_eq_prod_def)
  then show ?thesis
    by (auto simp: shown_def Let_def sorted_wrt_append intro: sorted_wrt_filter [OF in_order])
qed

lemma shown_excluded: "sorted (map xr_appid (xk_excluded (shown rs)))"
  by (simp add: shown_def Let_def)

text \<open>The ranking lists every candidate once: the eligible and the conditional ones by eligibility,
  falling score and AppID, then the excluded ones by AppID; and it is the same whatever the order in
  which candidates and rules are given.\<close>

theorem recommendation_ranking_exact:
  assumes "rank_recommendations cs rules x = Inr k" "mset cs' = mset cs" "mset rules' = mset rules"
  shows "rank_recommendations cs' rules' x = Inr k \<and>
    mset (map xr_appid (xk_results k)) = mset (map xc_appid cs) \<and>
    xk_results k = (xk_eligible k @ xk_conditional k) @ xk_excluded k \<and>
    sorted_wrt (\<lambda>a b. rank_key a \<le> rank_key b) (xk_eligible k @ xk_conditional k) \<and>
    sorted (map xr_appid (xk_excluded k))"
proof -
  let ?rank = "\<lambda>c. rank_one c (sort_key pr_trait rules) x"
  note k = assms(1) [unfolded rank_recommendations_Inr]
  have appids: "map xr_appid (map (projr \<circ> ?rank) cs) = map xc_appid cs"
    using k rank_one_Inr by fastforce
  have rules: "sort_key pr_trait rules' = sort_key pr_trait rules"
    by (rule sort_key_inj_key_eq) (use assms(3) k mset_eq_setD [OF assms(3)] in \<open>auto simp: distinct_map\<close>)
  have keys: "distinct (map xr_appid (map (projr \<circ> ?rank) cs'))"
    using k assms(2) appids by (metis mset_eq_imp_distinct_iff mset_map)
  have "sort_key rank_key (map (\<lambda>r. r) (map (projr \<circ> ?rank) cs')) = sort_key rank_key (map (\<lambda>r. r) (map (projr \<circ> ?rank) cs))"
    by (rule recs.order_irrelevant [OF keys]) (simp add: assms(2))
  then have same: "shown (map (projr \<circ> ?rank) cs') = shown (map (projr \<circ> ?rank) cs)"
    by (simp add: shown_def)
  note sets = mset_eq_setD [OF assms(2)] mset_eq_setD [OF assms(3)] mset_eq_length [OF assms(2)]
  have "distinct (map xc_appid cs')" "distinct (map pr_trait rules')"
    using k mset_eq_imp_distinct_iff [of "map xc_appid cs'" "map xc_appid cs"]
      mset_eq_imp_distinct_iff [of "map pr_trait rules'" "map pr_trait rules"] assms(2,3) by simp_all
  then have "rank_recommendations cs' rules' x = Inr k"
    using k same by (simp add: rank_recommendations_Inr rules sets merges_ok_def)
  moreover have "mset (map xr_appid (xk_results k)) = mset (map xc_appid cs)"
    using k shown_parts(1) [of "map (projr \<circ> ?rank) cs"] appids by (metis mset_map)
  ultimately show ?thesis
    using k shown_parts(2) shown_sorted shown_excluded by (metis append_assoc)
qed



section \<open>A small ranking\<close>

definition demo_game :: "int \<Rightarrow> user_rating \<Rightarrow> rec_candidate" where
  "demo_game a rating =
     \<lparr>xc_appid = a, xc_name = Some ''game'', xc_owned = Some True, xc_installed = None,
      xc_activity = Some \<lparr>ae_age = Age_fresh, ae_observed_at = Some (Aware 0), ae_lifetime = Some 300, ae_recent = Some 20,
        ae_last_played = None, ae_ids = [''a1''], ae_recent_age = Some Age_stale\<rparr>,
      xc_achievements = None,
      xc_feedback = no_feedback\<lparr>ef_rating := Some rating, ef_rating_ids := [''f1''],
        ef_traits := [\<lparr>ta_trait = ''user:long'', ta_value = Trait_present, ta_ids = [''t1'']\<rparr>]\<rparr>,
      xc_identity_ids = [], xc_owned_ids = [''o1''], xc_installed_ids = [], xc_is_game = Some True, xc_class_ids = [''c1'']\<rparr>"

definition demo_rule :: profile_rule where
  "demo_rule = \<lparr>pr_trait = ''user:long'', pr_kind = Avoid, pr_hard = False, pr_weight = 40, pr_ids = [''r1'']\<rparr>"

definition demo_context :: rec_context where
  "demo_context = \<lparr>xx_recipe = Preference_fit, xx_now = Aware 0, xx_time = None, xx_requirements = [],
     xx_include_unknown = False, xx_overrides = [], xx_explain = False\<rparr>"

lemma demo_game_ok: "rec_candidate_ok (demo_game a rating)"
  by (simp add: rec_candidate_ok_def feedback_ok_def demo_game_def no_feedback_def)

lemma demo_rule_ok: "rule_ok demo_rule"
  by (simp add: rule_ok_def demo_rule_def max_rule_weight_def trait_slug_def slug_of_def lower_alnum_def code_def)

lemma demo_rank:
  "map_sum id (\<lambda>r. (xr_score r, map sc_state (xr_components r))) (rank_one (demo_game 2 Liked) [demo_rule] demo_context) =
     Inr (Some 25, [Applied, Component_unknown, Applied, Applied, Component_stale])"
  "map_sum id (\<lambda>k. map xr_appid (xk_results k))
     (rank_recommendations [demo_game 1 Disliked, demo_game 2 Liked] [demo_rule] demo_context) = Inr [2, 1]"
  by code_simp+

theorem scores_follow_table_witness:
  "\<exists>r. rank_one (demo_game 2 Liked) [demo_rule] demo_context = Inr r \<and> xr_score r = Some 25 \<and>
     list_all (\<lambda>k. in_table Preference_fit (sc_rule k) (sc_points k)) (xr_components r)"
proof -
  obtain r where r: "rank_one (demo_game 2 Liked) [demo_rule] demo_context = Inr r" "xr_score r = Some 25"
    using demo_rank(1) by (cases "rank_one (demo_game 2 Liked) [demo_rule] demo_context") auto
  then show ?thesis
    using scores_follow_table [OF demo_game_ok _ r(1)] demo_rule_ok by (auto simp: list_all_iff demo_context_def)
qed

theorem recommendation_ranking_exact_witness:
  "rank_recommendations [demo_game 2 Liked, demo_game 1 Disliked] [demo_rule] demo_context =
   rank_recommendations [demo_game 1 Disliked, demo_game 2 Liked] [demo_rule] demo_context"
proof -
  obtain k where k: "rank_recommendations [demo_game 1 Disliked, demo_game 2 Liked] [demo_rule] demo_context = Inr k"
    using demo_rank(2) by (cases "rank_recommendations [demo_game 1 Disliked, demo_game 2 Liked] [demo_rule] demo_context") auto
  show ?thesis
    using recommendation_ranking_exact [OF k, of "[demo_game 2 Liked, demo_game 1 Disliked]" "[demo_rule]"] k by simp
qed

end
