(* ===== verification/Plans.thy ===== *)
theory Plans
  imports Json_Value Local_Scan
begin

text \<open>
  Inert operation plans: \<open>src/steam_agent/operation_plans.py\<close>, and \<open>_residual_summary\<close> of
  \<open>cli.py\<close>, which turns what a scan measured into the summary a plan states.  A moment is the
  number of microseconds since the first of January of the year one, read in UTC; SHA-256 is an
  argument.
\<close>


section \<open>Operations and their tables\<close>

datatype planned =
    Plan_launch
  | Plan_install
  | Plan_uninstall
  | Plan_move
  | Plan_verify
  | Plan_backup

fun planned_name :: "planned \<Rightarrow> string" where
  "planned_name Plan_launch = ''launch''"
| "planned_name Plan_install = ''install''"
| "planned_name Plan_uninstall = ''uninstall''"
| "planned_name Plan_move = ''move''"
| "planned_name Plan_verify = ''verify''"
| "planned_name Plan_backup = ''backup''"

definition planned_operations :: "planned list" where
  "planned_operations = [Plan_launch, Plan_install, Plan_uninstall, Plan_move, Plan_verify, Plan_backup]"

definition planned_of :: "string \<Rightarrow> planned option" where
  "planned_of operation = find (\<lambda>p. planned_name p = operation) planned_operations"

text \<open>A risk is a code, a severity and a message.\<close>

type_synonym risk = "string \<times> string \<times> string"

fun required_preconditions :: "planned \<Rightarrow> string list" where
  "required_preconditions Plan_launch = [''steam_client_available'', ''installed'', ''launch_allowed'']"
| "required_preconditions Plan_install = [''steam_client_available'', ''license_available'', ''not_installed'', ''storage_available'']"
| "required_preconditions Plan_uninstall = [''steam_client_available'', ''installed'', ''data_protection_reviewed'']"
| "required_preconditions Plan_move = [''steam_client_available'', ''installed'', ''destination_available'']"
| "required_preconditions Plan_verify = [''steam_client_available'', ''installed'']"
| "required_preconditions Plan_backup = [''installed'', ''backup_destination_available'']"

fun ui_steps :: "planned \<Rightarrow> string list" where
  "ui_steps Plan_launch =
    [''Open the Steam client and select Library.'',
     ''Find the game by its AppID or title and select Play.'',
     ''Review any Steam prompt before confirming.'']"
| "ui_steps Plan_install =
    [''Open the Steam client and select Library.'',
     ''Find the game by its AppID or title and select Install.'',
     ''Review the selected library, required space, and download estimate before confirming.'']"
| "ui_steps Plan_uninstall =
    [''Open the Steam client and select Library.'',
     ''Open the game's management menu and choose Uninstall.'',
     ''Review the data-loss warnings and confirm only after protecting needed data.'']"
| "ui_steps Plan_move =
    [''Open Steam Settings and select the storage management UI.'',
     ''Select the game and the destination library ordinal shown in this plan.'',
     ''Review destination capacity before confirming the move.'']"
| "ui_steps Plan_verify =
    [''Open the game in the Steam Library and select Properties.'',
     ''Open Installed Files and choose the option to verify game files.'',
     ''Review any download or file-replacement prompt before confirming.'']"
| "ui_steps Plan_backup =
    [''Review the game's save, settings, and mod locations using trusted documentation.'',
     ''Choose a user-controlled backup destination outside this tool.'',
     ''Copy and verify the needed data manually; this plan does not perform the copy.'']"

fun plan_risks :: "planned \<Rightarrow> risk list" where
  "plan_risks Plan_launch =
    [(''updates_or_prompts'', ''medium'',
       ''Steam may download updates or show additional prompts.''),
     (''resource_use'', ''low'',
       ''Launching can use local compute, storage, and network resources.'')]"
| "plan_risks Plan_install =
    [(''storage_consumption'', ''high'',
       ''Installation consumes storage and may require temporary space.''),
     (''network_use'', ''medium'',
       ''Installation may consume substantial bandwidth.''),
     (''additional_terms'', ''medium'',
       ''The game may present additional terms or setup prompts.'')]"
| "plan_risks Plan_uninstall =
    [(''data_loss'', ''high'',
       ''Local saves, settings, mods, or other files may be removed or stranded.''),
     (''reinstall_cost'', ''medium'',
       ''Restoring the game may require another download.'')]"
| "plan_risks Plan_move =
    [(''interruption'', ''high'',
       ''Interrupting a move can require repair or another move.''),
     (''destination_space'', ''medium'',
       ''Observed free space can change before a human confirms.'')]"
| "plan_risks Plan_verify =
    [(''file_replacement'', ''high'',
       ''Verification may replace modified or locally customized files.''),
     (''network_use'', ''medium'',
       ''Verification may download replacement data.'')]"
| "plan_risks Plan_backup =
    [(''save_coverage_unknown'', ''high'',
       ''This plan does not prove that saves, settings, mods, or cloud-only data are protected.''),
     (''backup_integrity'', ''high'',
       ''A backup is not established until a human verifies restoration.'')]"

definition local_data_unknown :: risk where
  "local_data_unknown = (''local_data_state_unknown'', ''high'',
     ''Save, configuration, mod, and cloud state has not been observed by this plan.'')"

fun rollback_steps :: "planned \<Rightarrow> string list" where
  "rollback_steps Plan_launch =
    [''Exit the game through its normal UI and review any unsaved progress warning.'']"
| "rollback_steps Plan_install =
    [''If appropriate, use the Steam Library UI to uninstall the game after reviewing data risks.'']"
| "rollback_steps Plan_uninstall =
    [''Use the Steam Library UI to reinstall; separately restore user-controlled backups if needed.'']"
| "rollback_steps Plan_move =
    [''Use Steam storage management to move the game back after checking capacity.'']"
| "rollback_steps Plan_verify =
    [''No automatic rollback is available; restore intentional modifications from a verified backup.'']"
| "rollback_steps Plan_backup =
    [''Retain the original data until the copied data has been independently verified.'']"

fun postcondition_codes :: "planned \<Rightarrow> string list" where
  "postcondition_codes Plan_launch = [''game_running_state_reviewed'']"
| "postcondition_codes Plan_install = [''installed_state_reviewed'', ''storage_state_reviewed'']"
| "postcondition_codes Plan_uninstall = [''uninstalled_state_reviewed'', ''needed_data_reviewed'']"
| "postcondition_codes Plan_move = [''library_placement_reviewed'', ''game_start_reviewed'']"
| "postcondition_codes Plan_verify = [''verification_result_reviewed'', ''modifications_reviewed'']"
| "postcondition_codes Plan_backup = [''backup_contents_reviewed'', ''restore_test_reviewed'']"

fun support_url :: "planned \<Rightarrow> string" where
  "support_url Plan_move = ''https://help.steampowered.com/en/faqs/view/4BD4-4528-6B2E-8327''"
| "support_url Plan_verify = ''https://help.steampowered.com/en/faqs/view/0C48-FCBD-DA71-93EB''"
| "support_url _ = ''https://help.steampowered.com/''"

definition residual_kinds :: "string list" where
  "residual_kinds = [''compatdata'', ''shadercache'', ''workshop'']"

fun residual_label :: "string \<Rightarrow> string" where
  "residual_label kind =
     (if kind = ''compatdata'' then ''the Proton compatibility prefix''
      else if kind = ''shadercache'' then ''the shader cache''
      else ''subscribed Workshop content'')"

definition client_uri_step :: "planned \<Rightarrow> int \<Rightarrow> string option" where
  "client_uri_step operation appid =
     (if operation = Plan_uninstall
      then Some (''Shortcut: open steam://uninstall/'' @ json_int appid @ '' and confirm in the dialog'' @
        '' Steam presents. This CLI never opens it and cannot confirm the'' @ '' client honors it.'')
      else None)"


section \<open>Checked values\<close>

datatype plan_error =
    Bad_value string
  | Bad_date string

definition max_plan_ttl :: int where "max_plan_ttl = 24 * 60 * 60"

definition max_plan_appid :: int where "max_plan_appid = 2 ^ 32 - 1"

definition max_library_ordinal :: int where "max_library_ordinal = 1024"

definition max_residual_bytes :: int where "max_residual_bytes = 2 ^ 63 - 1"

definition bounded_int :: "int option \<Rightarrow> string \<Rightarrow> int \<Rightarrow> plan_error + int" where
  "bounded_int v name maximum =
     (case v of
        Some n \<Rightarrow>
          if 1 \<le> n \<and> n \<le> maximum then Inr n
          else Inl (Bad_value (name @ '' must be an integer between 1 and '' @ json_int maximum))
      | None \<Rightarrow> Inl (Bad_value (name @ '' must be an integer between 1 and '' @ json_int maximum)))"

definition plan_key_char :: "char \<Rightarrow> bool" where
  "plan_key_char c \<longleftrightarrow> is_alnum c \<or> c \<in> set ''._-''"

fun plan_key_ok :: "string \<Rightarrow> bool" where
  "plan_key_ok [] \<longleftrightarrow> False"
| "plan_key_ok (c # cs) \<longleftrightarrow> is_alnum c \<and> list_all plan_key_char cs \<and> length cs \<le> 63"

definition lower_letter :: "char \<Rightarrow> bool" where
  "lower_letter c \<longleftrightarrow> 97 \<le> code c \<and> code c \<le> 122"

fun plan_code_ok :: "string \<Rightarrow> bool" where
  "plan_code_ok [] \<longleftrightarrow> False"
| "plan_code_ok (c # cs) \<longleftrightarrow>
     lower_letter c \<and> list_all (\<lambda>d. lower_letter d \<or> is_digit d \<or> d = CHR ''_'') cs \<and> length cs \<le> 63"

definition check_code :: "string \<Rightarrow> string \<Rightarrow> plan_error + string" where
  "check_code v name =
     (if plan_code_ok v then Inr v else Inl (Bad_value (name @ '' must be a bounded lowercase code'')))"

record precondition =
  pn_code :: string
  pn_state :: string
  pn_detail :: string

definition gate_states :: "string list" where
  "gate_states = [''pass'', ''fail'', ''unknown'']"

definition make_precondition :: "string \<Rightarrow> string \<Rightarrow> string \<Rightarrow> plan_error + precondition" where
  "make_precondition c state detail =
     bindE (check_code c ''precondition code'') (\<lambda>_.
     bindE (raise_if (state \<notin> set gate_states) (Bad_value ''precondition state is invalid'')) (\<lambda>_.
     bindE (check_code detail ''precondition detail_code'') (\<lambda>_.
     Inr \<lparr>pn_code = c, pn_state = state, pn_detail = detail\<rparr>)))"

record residual_summary =
  rm_state :: string
  rm_total :: int
  rm_kinds :: "string list"

definition make_residual :: "string \<Rightarrow> int \<Rightarrow> string list \<Rightarrow> plan_error + residual_summary" where
  "make_residual state total_bytes kinds =
     bindE (raise_if (state \<notin> set [''measured'', ''partial'']) (Bad_value ''residual state is invalid'')) (\<lambda>_.
     bindE (raise_if (\<not> (0 \<le> total_bytes \<and> total_bytes \<le> max_residual_bytes))
       (Bad_value ''residual total_bytes is out of range'')) (\<lambda>_.
     bindE (raise_if (length residual_kinds < length kinds)
       (Bad_value ''residual kinds must be a bounded tuple'')) (\<lambda>_.
     bindE (raise_if (\<exists>k \<in> set kinds. k \<notin> set residual_kinds) (Bad_value ''residual kinds are invalid'')) (\<lambda>_.
     bindE (raise_if (\<not> distinct kinds) (Bad_value ''residual kinds must be unique'')) (\<lambda>_.
     bindE (raise_if ((kinds \<noteq> []) \<noteq> (total_bytes > 0))
       (Bad_value ''residual kinds and total_bytes disagree'')) (\<lambda>_.
     Inr \<lparr>rm_state = state, rm_total = total_bytes, rm_kinds = kinds\<rparr>))))))"

text \<open>\<open>_residual_summary\<close>: a projection without a measurement has \<open>None\<close> for its fields.\<close>

record measured_game =
  mg_residual_state :: "string option"
  mg_compatdata :: "int option"
  mg_shadercache :: "int option"
  mg_workshop :: "int option"

definition residual_fields :: "measured_game \<Rightarrow> (string \<times> int option) list" where
  "residual_fields g =
     [(''compatdata'', mg_compatdata g), (''shadercache'', mg_shadercache g), (''workshop'', mg_workshop g)]"

fun summed_kinds :: "(string \<times> int option) list \<Rightarrow> int \<times> string list" where
  "summed_kinds [] = (0, [])"
| "summed_kinds ((kind, v) # rows) =
     (case summed_kinds rows of (total_bytes, kinds) \<Rightarrow>
        case v of
          Some n \<Rightarrow> if n \<le> 0 then (total_bytes, kinds) else (n + total_bytes, kind # kinds)
        | None \<Rightarrow> (total_bytes, kinds))"

definition residual_summary_of :: "measured_game option \<Rightarrow> residual_summary option" where
  "residual_summary_of game =
     (case game of None \<Rightarrow> None
      | Some g \<Rightarrow>
          (case mg_residual_state g of None \<Rightarrow> None
           | Some state \<Rightarrow>
               if state \<notin> set [''measured'', ''partial''] then None
               else case summed_kinds (residual_fields g) of (total_bytes, kinds) \<Rightarrow>
                 (case make_residual state total_bytes kinds of Inl _ \<Rightarrow> None | Inr s \<Rightarrow> Some s)))"


section \<open>Moments\<close>

text \<open>\<open>datetime\<close> counts days from the first of January of the year one; \<open>_ord2ymd\<close> of the standard
  library finds the date by the cycles of 400, 100, 4 and 1 years.\<close>

definition leap_year :: "int \<Rightarrow> bool" where
  "leap_year y \<longleftrightarrow> y mod 4 = 0 \<and> (y mod 100 \<noteq> 0 \<or> y mod 400 = 0)"

definition month_lengths :: "int \<Rightarrow> int list" where
  "month_lengths y = [31, if leap_year y then 29 else 28, 31, 30, 31, 30, 31, 31, 30, 31, 30, 31]"

fun month_of :: "int list \<Rightarrow> int \<Rightarrow> int \<Rightarrow> int \<times> int" where
  "month_of [] m d = (m, d + 1)"
| "month_of (n # ns) m d = (if d < n then (m, d + 1) else month_of ns (m + 1) (d - n))"

definition date_of_days :: "int \<Rightarrow> int \<times> int \<times> int" where
  "date_of_days days =
     (let n400 = days div 146097; r400 = days mod 146097;
          n100 = r400 div 36524; r100 = r400 mod 36524;
          n4 = r100 div 1461; r4 = r100 mod 1461;
          n1 = r4 div 365; r1 = r4 mod 365;
          y = n400 * 400 + 1 + n100 * 100 + n4 * 4 + n1
      in if n1 = 4 \<or> n100 = 4 then (y - 1, 12, 31)
         else case month_of (month_lengths y) 1 r1 of (m, d) \<Rightarrow> (y, m, d))"

fun zero_padded :: "nat \<Rightarrow> int \<Rightarrow> string" where
  "zero_padded w n = (let s = json_int n in replicate (w - length s) (CHR ''0'') @ s)"

definition second_ticks :: int where "second_ticks = 1000000"

definition day_ticks :: int where "day_ticks = 86400000000"

definition last_moment :: int where "last_moment = 3652059 * day_ticks"

definition format_moment :: "int \<Rightarrow> string" where
  "format_moment t =
     (let s = (t mod day_ticks) div second_ticks in
      case date_of_days (t div day_ticks) of (y, m, d) \<Rightarrow>
        zero_padded 4 y @ ''-'' @ zero_padded 2 m @ ''-'' @ zero_padded 2 d @ ''T'' @
        zero_padded 2 (s div 3600) @ '':'' @ zero_padded 2 (s div 60 mod 60) @ '':'' @ zero_padded 2 (s mod 60) @ ''Z'')"

text \<open>\<open>None\<close> is a \<open>datetime\<close> without a time zone.  A time zone can put the moment outside the years
  that UTC has.\<close>

definition moment_in_range :: "int \<Rightarrow> plan_error + int" where
  "moment_in_range t =
     (if 0 \<le> t \<and> t < last_moment then Inr t else Inl (Bad_date ''date value out of range''))"

definition plan_timestamp :: "int option \<Rightarrow> plan_error + int" where
  "plan_timestamp v =
     (case v of
        None \<Rightarrow> Inl (Bad_value ''generated_at must be a timezone-aware datetime'')
      | Some t \<Rightarrow> bindE (moment_in_range t) (\<lambda>t. Inr (t - t mod second_ticks)))"


section \<open>A plan\<close>

record plan_target_value =
  tg_appid :: int
  tg_alias :: string
  tg_machine :: string
  tg_destination :: "int option"

text \<open>\<open>CapabilityPolicy\<close>, \<open>ConfirmationRequirement\<close> and the flags of a reference are constants of the
  code.\<close>

record operation_plan =
  op_schema :: string
  op_operation :: planned
  op_target :: plan_target_value
  op_generated_at :: string
  op_expires_at :: string
  op_idempotency_key :: string
  op_preconditions :: "precondition list"
  op_summary :: string
  op_risks :: "risk list"
  op_ui_instructions :: "string list"
  op_references :: "(string \<times> string) list"
  op_rollback :: "string list"
  op_postconditions :: "string list"

definition plan_schema_name :: string where "plan_schema_name = ''operation-plan/0.1''"

definition default_precondition :: "string \<Rightarrow> precondition" where
  "default_precondition c = \<lparr>pn_code = c, pn_state = ''unknown'', pn_detail = ''not_observed''\<rparr>"

fun index_preconditions ::
    "planned \<Rightarrow> precondition list \<Rightarrow> (string \<rightharpoonup> precondition) \<Rightarrow> plan_error + (string \<rightharpoonup> precondition)" where
  "index_preconditions operation [] by_code = Inr by_code"
| "index_preconditions operation (item # items) by_code =
     (if pn_code item \<notin> set (required_preconditions operation)
      then Inl (Bad_value (''precondition '' @ (CHR 0x27 # pn_code item @ [CHR 0x27]) @ '' is not valid for '' @
        planned_name operation))
      else if by_code (pn_code item) \<noteq> None then Inl (Bad_value ''precondition codes must be unique'')
      else index_preconditions operation items (by_code(pn_code item \<mapsto> item)))"

definition normalize_preconditions :: "planned \<Rightarrow> precondition list \<Rightarrow> plan_error + precondition list" where
  "normalize_preconditions operation provided =
     bindE (index_preconditions operation provided Map.empty) (\<lambda>by_code.
     Inr (map (\<lambda>c. case by_code c of Some item \<Rightarrow> item | None \<Rightarrow> default_precondition c)
       (required_preconditions operation)))"

definition summarize_preconditions :: "precondition list \<Rightarrow> string" where
  "summarize_preconditions items =
     (if \<exists>i \<in> set items. pn_state i = ''fail'' then ''has_failure''
      else if \<exists>i \<in> set items. pn_state i = ''unknown'' then ''has_unknown''
      else ''all_pass'')"

text \<open>\<open>_size\<close>: tenths of a gigabyte are formatted from a quotient that is exact to one place.\<close>

definition size_text :: "int \<Rightarrow> string" where
  "size_text v =
     (if 10 ^ 9 \<le> v then json_int (v div 10 ^ 8 div 10) @ ''.'' @ json_int (v div 10 ^ 8 mod 10) @ '' GB''
      else if 10 ^ 6 \<le> v then json_int (v div 10 ^ 6) @ '' MB''
      else json_int v @ '' bytes'')"

definition residual_risks :: "residual_summary option \<Rightarrow> risk list" where
  "residual_risks residual =
     (case residual of None \<Rightarrow> []
      | Some r \<Rightarrow>
          if rm_kinds r = []
          then if rm_state r \<noteq> ''measured'' then []
               else [(''residual_content_absent'', ''low'',
                 ''No compatibility prefix, shader cache, or Workshop content'' @
                 '' was found for this game; uninstalling should not strand'' @ '' those directories.'')]
          else [(''residual_content_remains'', ''medium'',
            ''Uninstalling does not remove '' @ join '', '' (map residual_label (rm_kinds r)) @ '', holding '' @
            (if rm_state r = ''partial'' then ''at least '' else []) @ size_text (rm_total r) @
            ''. Removing that is a separate'' @ '' manual step.'')])"

definition ui_instructions :: "planned \<Rightarrow> int \<Rightarrow> string list" where
  "ui_instructions operation appid =
     (case client_uri_step operation appid of
        None \<Rightarrow> ui_steps operation
      | Some shortcut \<Rightarrow> ui_steps operation @ [shortcut])"


section \<open>The idempotency key\<close>

text \<open>\<open>json.dumps\<close> with \<open>separators=(",", ":")\<close>.\<close>

fun json_compact :: "json \<Rightarrow> string" where
  "json_compact JNull = ''null''"
| "json_compact (JBool b) = json_bool b"
| "json_compact (JInt n) = json_int n"
| "json_compact (JFloat t) = t"
| "json_compact (JString s) = json_string s"
| "json_compact (JList xs) = ''['' @ join '','' (map json_compact xs) @ '']''"
| "json_compact (JObject kvs) =
     ''{'' @ join '','' (map (\<lambda>(k, t). json_string k @ '':'' @ t)
       (sort_key fst (map (\<lambda>(k, v). (k, json_compact v)) kvs))) @ ''}''"

definition json_option :: "int option \<Rightarrow> json" where
  "json_option v = (case v of None \<Rightarrow> JNull | Some n \<Rightarrow> JInt n)"

definition key_precondition :: "precondition \<Rightarrow> json" where
  "key_precondition item =
     JObject [(''code'', JString (pn_code item)), (''detail_code'', JString (pn_detail item)),
       (''state'', JString (pn_state item))]"

definition key_payload :: "planned \<Rightarrow> plan_target_value \<Rightarrow> precondition list \<Rightarrow> int \<Rightarrow> string" where
  "key_payload operation target items ttl =
     json_compact (JObject [
       (''operation'', JString (planned_name operation)),
       (''target'', JObject [
          (''account_alias'', JString (tg_alias target)),
          (''appid'', JInt (tg_appid target)),
          (''destination_library_ordinal'', json_option (tg_destination target)),
          (''machine_id'', JString (tg_machine target))]),
       (''preconditions'', JList (map key_precondition items)),
       (''schema'', JString plan_schema_name),
       (''ttl_seconds'', JInt ttl)])"

definition idempotency_key ::
    "(string \<Rightarrow> string) \<Rightarrow> planned \<Rightarrow> plan_target_value \<Rightarrow> precondition list \<Rightarrow> int \<Rightarrow> string" where
  "idempotency_key sha operation target items ttl =
     ''operation-plan:'' @ sha (key_payload operation target items ttl)"


section \<open>\<open>build_operation_plan\<close>\<close>

record plan_input =
  pi_operation :: string
  pi_appid :: int
  pi_alias :: string
  pi_machine :: string
  pi_generated_at :: "int option"
  pi_preconditions :: "precondition list"
  pi_destination :: "int option"
  pi_residual :: "residual_summary option"
  pi_ttl :: int

definition plan_destination :: "planned \<Rightarrow> int option \<Rightarrow> plan_error + int option" where
  "plan_destination operation ordinal =
     (if operation = Plan_move
      then map_sum id Some (bounded_int ordinal ''destination_library_ordinal'' max_library_ordinal)
      else if ordinal \<noteq> None
      then Inl (Bad_value ''destination_library_ordinal is only valid for move plans'')
      else Inr None)"

definition plan_risk_list :: "planned \<Rightarrow> residual_summary option \<Rightarrow> risk list" where
  "plan_risk_list operation residual =
     plan_risks operation @ residual_risks residual @ [local_data_unknown]"

definition build_operation_plan :: "(string \<Rightarrow> string) \<Rightarrow> plan_input \<Rightarrow> plan_error + operation_plan" where
  "build_operation_plan sha i =
     (case planned_of (pi_operation i) of
        None \<Rightarrow> Inl (Bad_value ''operation is invalid'')
      | Some operation \<Rightarrow>
     bindE (bounded_int (Some (pi_appid i)) ''appid'' max_plan_appid) (\<lambda>appid.
     bindE (raise_if (\<not> plan_key_ok (pi_alias i)) (Bad_value ''account_alias must be a bounded path-free key'')) (\<lambda>_.
     bindE (raise_if (\<not> plan_key_ok (pi_machine i)) (Bad_value ''machine_id must be a bounded path-free key'')) (\<lambda>_.
     bindE (bounded_int (Some (pi_ttl i)) ''ttl_seconds'' max_plan_ttl) (\<lambda>ttl.
     bindE (plan_timestamp (pi_generated_at i)) (\<lambda>moment.
     bindE (plan_destination operation (pi_destination i)) (\<lambda>destination.
     bindE (raise_if (pi_residual i \<noteq> None \<and> operation \<noteq> Plan_uninstall)
       (Bad_value ''residual is only valid for uninstall plans'')) (\<lambda>_.
     bindE (normalize_preconditions operation (pi_preconditions i)) (\<lambda>items.
     let target = \<lparr>tg_appid = appid, tg_alias = pi_alias i, tg_machine = pi_machine i, tg_destination = destination\<rparr>
     in
     bindE (moment_in_range (moment + ttl * second_ticks)) (\<lambda>expiry.
     Inr \<lparr>op_schema = plan_schema_name, op_operation = operation, op_target = target,
       op_generated_at = format_moment moment, op_expires_at = format_moment expiry,
       op_idempotency_key = idempotency_key sha operation target items ttl,
       op_preconditions = items, op_summary = summarize_preconditions items,
       op_risks = plan_risk_list operation (pi_residual i),
       op_ui_instructions = ui_instructions operation appid,
       op_references =
         [(''product_page'', ''https://store.steampowered.com/app/'' @ json_int appid @ ''/''),
          (''support_page'', support_url operation)],
       op_rollback = rollback_steps operation,
       op_postconditions = postcondition_codes operation\<rparr>))))))))))"


section \<open>The document\<close>

text \<open>\<open>asdict(plan)\<close>, with the constants of \<open>CapabilityPolicy\<close>, \<open>ConfirmationRequirement\<close> and
  \<open>HumanOpenReference\<close> and the fixed state of a postcondition.\<close>

definition capability_policy :: json where
  "capability_policy = JObject [
     (''planning'', JString ''available''), (''human_open_reference'', JString ''available''),
     (''execution'', JString ''prohibited''), (''policy'', JString ''m7_read_only''),
     (''execution_authorized'', JBool False)]"

definition confirmation_requirement :: json where
  "confirmation_requirement = JObject [
     (''mode'', JString ''interactive_human_only''), (''required'', JBool True),
     (''grants_execution_authorization'', JBool False)]"

definition open_reference :: "string \<times> string \<Rightarrow> json" where
  "open_reference r = JObject [
     (''purpose'', JString (fst r)), (''url'', JString (snd r)), (''return_url'', JBool True),
     (''open_for_human'', JBool True), (''agent_read'', JBool False), (''automated_ingest'', JBool False)]"

definition precondition_json :: "precondition \<Rightarrow> json" where
  "precondition_json item = JObject [
     (''code'', JString (pn_code item)), (''state'', JString (pn_state item)),
     (''detail_code'', JString (pn_detail item))]"

definition risk_json :: "risk \<Rightarrow> json" where
  "risk_json r = (case r of (c, severity, message) \<Rightarrow>
     JObject [(''code'', JString c), (''severity'', JString severity), (''message'', JString message)])"

definition postcondition_json :: "string \<Rightarrow> json" where
  "postcondition_json c = JObject [
     (''code'', JString c), (''state'', JString ''unknown''), (''detail_code'', JString ''human_action_not_observed'')]"

definition target_json :: "plan_target_value \<Rightarrow> json" where
  "target_json t = JObject [
     (''appid'', JInt (tg_appid t)), (''account_alias'', JString (tg_alias t)), (''machine_id'', JString (tg_machine t)),
     (''destination_library_ordinal'', json_option (tg_destination t))]"

definition plan_members :: "operation_plan \<Rightarrow> (string \<times> json) list" where
  "plan_members p = [
     (''schema'', JString (op_schema p)),
     (''operation'', JString (planned_name (op_operation p))),
     (''target'', target_json (op_target p)),
     (''generated_at'', JString (op_generated_at p)),
     (''expires_at'', JString (op_expires_at p)),
     (''idempotency_key'', JString (op_idempotency_key p)),
     (''capability_policy'', capability_policy),
     (''preconditions'', JList (map precondition_json (op_preconditions p))),
     (''precondition_summary'', JString (op_summary p)),
     (''risks'', JList (map risk_json (op_risks p))),
     (''confirmation'', confirmation_requirement),
     (''ui_instructions'', JList (map JString (op_ui_instructions p))),
     (''human_open_references'', JList (map open_reference (op_references p))),
     (''rollback'', JList (map JString (op_rollback p))),
     (''postconditions'', JList (map postcondition_json (op_postconditions p)))]"

definition plan_json :: "operation_plan \<Rightarrow> json" where
  "plan_json p = JObject (plan_members p)"

end
