(* ===== verification/Moment_Facts.thy ===== *)
theory Moment_Facts
  imports Plans
begin

text \<open>
  The moments of a plan: the date of a day read back gives the day, and the text of a moment read
  back gives its second.
\<close>


section \<open>The date of a day\<close>

definition days_before_year :: "int \<Rightarrow> int" where
  "days_before_year y = 365 * (y - 1) + (y - 1) div 4 - (y - 1) div 100 + (y - 1) div 400"

definition days_of_date :: "int \<times> int \<times> int \<Rightarrow> int" where
  "days_of_date date = (case date of (y, m, d) \<Rightarrow>
     days_before_year y + sum_list (take (nat (m - 1)) (month_lengths y)) + d - 1)"

lemma month_of_cases:
  assumes "0 \<le> d" "d < sum_list ns" "\<forall>n \<in> set ns. 0 < n"
  shows "\<exists>k < length ns. month_of ns m d = (m + int k, d - sum_list (take k ns) + 1) \<and>
    sum_list (take k ns) \<le> d \<and> d < sum_list (take (Suc k) ns)"
  using assms
proof (induction ns arbitrary: m d)
  case (Cons n ns)
  show ?case
  proof (cases "d < n")
    case True
    then show ?thesis using Cons.prems by (intro exI [of _ 0]) simp
  next
    case False
    from False Cons.prems obtain k where "k < length ns"
      "month_of ns (m + 1) (d - n) = (m + 1 + int k, d - n - sum_list (take k ns) + 1)"
      "sum_list (take k ns) \<le> d - n" "d - n < sum_list (take (Suc k) ns)"
      using Cons.IH [of "d - n" "m + 1"] by auto
    with False show ?thesis by (intro exI [of _ "Suc k"]) auto
  qed
qed simp

lemma year_length: "sum_list (month_lengths y) = (if leap_year y then 366 else 365)"
  by (simp add: month_lengths_def)

text \<open>A year as its place in the cycles.\<close>

lemma year_in_cycles:
  fixes a b c d :: int
  assumes "0 \<le> b" "b \<le> 3" "0 \<le> c" "c \<le> 24" "0 \<le> d" "d \<le> 3"
  defines "y \<equiv> a * 400 + 1 + b * 100 + c * 4 + d"
  shows "days_before_year y = a * 146097 + b * 36524 + c * 1461 + d * 365"
    and "leap_year y \<longleftrightarrow> d = 3 \<and> (c = 24 \<longrightarrow> b = 3)"
proof -
  have "(y - 1) div 4 = a * 100 + b * 25 + c" "(y - 1) div 100 = a * 4 + b" "(y - 1) div 400 = a"
    using assms by (auto simp: y_def intro!: int_div_pos_eq [of _ _ _ d] int_div_pos_eq [of _ _ _ "4 * c + d"]
        int_div_pos_eq [of _ _ _ "100 * b + 4 * c + d"])
  then show "days_before_year y = a * 146097 + b * 36524 + c * 1461 + d * 365"
    unfolding days_before_year_def by (simp add: y_def)
  have "y = 1 + d + (a * 100 + b * 25 + c) * 4" by (simp add: y_def)
  then have "y mod 4 = (1 + d) mod 4" by (metis mod_mult_self1)
  also have "\<dots> = (if d = 3 then 0 else 1 + d)" using assms(5,6) by auto
  finally have four: "y mod 4 = 0 \<longleftrightarrow> d = 3" using assms(5,6) by (auto split: if_splits)
  have "y = 1 + 4 * c + d + (a * 4 + b) * 100" by (simp add: y_def)
  then have "y mod 100 = (1 + 4 * c + d) mod 100" by (metis mod_mult_self1)
  also have "\<dots> = (if c = 24 \<and> d = 3 then 0 else 1 + 4 * c + d)" using assms(1-6) by auto
  finally have "y mod 100 = 0 \<longleftrightarrow> c = 24 \<and> d = 3" using assms(1-6) by (auto split: if_splits)
  moreover have "y mod 400 = 0 \<longleftrightarrow> b = 3" if "d = 3" "c = 24"
  proof -
    have "y = 100 * (b + 1) + a * 400" using that by (simp add: y_def)
    then have "y mod 400 = 100 * (b + 1) mod 400" by (metis mod_mult_self1)
    also have "\<dots> = (if b = 3 then 0 else 100 * (b + 1))" using assms(1-6) by auto
    finally show ?thesis using assms(1-6) by (auto split: if_splits)
  qed
  ultimately show "leap_year y \<longleftrightarrow> d = 3 \<and> (c = 24 \<longrightarrow> b = 3)"
    using four by (auto simp: leap_year_def)
qed


lemma date_parts:
  assumes "0 \<le> days"
  obtains y m d where "date_of_days days = (y, m, d)" "1 \<le> y" "1 \<le> m" "m \<le> 12" "1 \<le> d" "d \<le> 31"
    "days_of_date (y, m, d) = days" "days_before_year y \<le> days"
proof -
  define n400 r400 where 0: "n400 = days div 146097" "r400 = days mod 146097"
  define n100 r100 where 1: "n100 = r400 div 36524" "r100 = r400 mod 36524"
  define n4 r4 where 2: "n4 = r100 div 1461" "r4 = r100 mod 1461"
  define n1 r1 where 3: "n1 = r4 div 365" "r1 = r4 mod 365"
  define y where y: "y = n400 * 400 + 1 + n100 * 100 + n4 * 4 + n1"
  have days: "days = n400 * 146097 + n100 * 36524 + n4 * 1461 + n1 * 365 + r1"
    by (simp add: 0 1 2 3)
  have n0: "0 \<le> n400" using assms by (simp add: 0)
  have r: "0 \<le> r400" "r400 < 146097" "0 \<le> r100" "r100 < 36524" "0 \<le> r4" "r4 < 1461" "0 \<le> r1" "r1 < 365"
    "r400 = 36524 * n100 + r100" "r100 = 1461 * n4 + r4" "r4 = 365 * n1 + r1"
    by (simp_all add: 0 1 2 3)
  have n: "0 \<le> n100" "n100 \<le> 4" "0 \<le> n4" "n4 \<le> 24" "0 \<le> n1" "n1 \<le> 4"
    using r by linarith+
  have b: "n100 = 4 \<Longrightarrow> n4 = 0 \<and> n1 = 0 \<and> r1 = 0" "n1 = 4 \<Longrightarrow> r1 = 0" "n1 = 4 \<Longrightarrow> n4 \<le> 23"
    using r n by linarith+
  show ?thesis
  proof (cases "n1 = 4 \<or> n100 = 4")
    case last: True
    have y1: "1 \<le> y - 1" using last n n0 by (auto simp: y)
    have "date_of_days days = (y - 1, 12, 31)"
      using last by (simp add: date_of_days_def Let_def 0 1 2 3 y)
    moreover have "days_of_date (y - 1, 12, 31) = days"
    proof (cases "n100 = 4")
      case True
      then have "y - 1 = n400 * 400 + 1 + 3 * 100 + 24 * 4 + 3" using b(1) by (simp add: y)
      then show ?thesis
        using year_in_cycles [of 3 24 3 n400] days b(1) True
        by (simp add: days_of_date_def month_lengths_def)
    next
      case False
      with last n b(3) have "n1 = 4" "n100 \<le> 3" "n4 = 24 \<longrightarrow> n100 = 3" by auto
      then have "y - 1 = n400 * 400 + 1 + n100 * 100 + n4 * 4 + 3" by (simp add: y)
      then show ?thesis
        using year_in_cycles [of n100 n4 3 n400] days n b \<open>n1 = 4\<close> \<open>n100 \<le> 3\<close> \<open>n4 = 24 \<longrightarrow> n100 = 3\<close>
        by (simp add: days_of_date_def month_lengths_def)
    qed
    ultimately show ?thesis
      using y1 by (intro that [of "y - 1" 12 31]) (auto simp: days_of_date_def month_lengths_def split: if_splits)
  next
    case False
    then have c: "n100 \<le> 3" "n1 \<le> 3" using n by auto
    have len: "length (month_lengths y) = 12" "\<forall>n \<in> set (month_lengths y). 0 < n"
      "\<forall>n \<in> set (month_lengths y). n \<le> 31"
      by (simp_all add: month_lengths_def)
    have within: "r1 < sum_list (month_lengths y)" using r(8) by (simp add: year_length)
    obtain k where k: "k < 12" "month_of (month_lengths y) 1 r1 = (1 + int k, r1 - sum_list (take k (month_lengths y)) + 1)"
      "sum_list (take k (month_lengths y)) \<le> r1" "r1 < sum_list (take (Suc k) (month_lengths y))"
      using month_of_cases [OF r(7) within, of 1] len by auto
    have "r1 - sum_list (take k (month_lengths y)) < 31"
      using k(1,4) len nth_mem [of k "month_lengths y"] by (fastforce simp: take_Suc_conv_app_nth)
    have "date_of_days days = (y, 1 + int k, r1 - sum_list (take k (month_lengths y)) + 1)"
      using False k(2) by (simp add: date_of_days_def Let_def 0 1 2 3 y)
    moreover have "days_before_year y + r1 = days" "1 \<le> y"
      using year_in_cycles(1) [of n100 n4 n1 n400] days n n0 c by (simp_all add: y)
    ultimately show ?thesis
      using r(7) k \<open>r1 - _ < 31\<close> by (intro that [of y "1 + int k" "r1 - sum_list (take k (month_lengths y)) + 1"])
        (simp_all add: days_of_date_def)
  qed
qed

lemma date_read_back: "0 \<le> days \<Longrightarrow> days_of_date (date_of_days days) = days"
  by (metis date_parts)

text \<open>Year 9999 is the last one.\<close>

lemma last_year:
  assumes "days_before_year y \<le> days" "days < 3652059"
  shows "y \<le> 9999"
proof (rule ccontr)
  assume "\<not> y \<le> 9999"
  then obtain k q where k: "k = y - 1" "9999 \<le> k" "q = k div 4" "2499 \<le> q" by simp
  have "k div 100 = q div 25" using k(3) by (simp add: zdiv_zmult2_eq [symmetric])
  moreover have "2400 \<le> q - q div 25"
    using k(4) div_mult_mod_eq [of q 25] pos_mod_sign [of 25 q] by linarith
  moreover have "24 \<le> k div 400" using k(2) by simp
  ultimately have "3652059 \<le> days_before_year y" using k by (simp add: days_before_year_def)
  with assms show False by simp
qed


section \<open>The text of a moment\<close>

lemma show_nat_bound: "n < 10 ^ Suc w \<Longrightarrow> length (show_nat n) \<le> Suc w"
proof (induction w arbitrary: n)
  case (Suc w)
  show ?case
  proof (cases "n < 10")
    case False
    have "n div 10 < 10 ^ Suc w" using Suc.prems by (simp add: div_less_iff_less_mult mult.commute)
    from Suc.IH [OF this] False show ?thesis by (simp add: show_nat.simps [of n])
  qed (simp add: show_nat.simps [of n])
qed (subst show_nat.simps, simp)

lemma decimal_zeros: "decimal_value (replicate k (CHR ''0'') @ s) = decimal_value s"
  by (induction k) (simp_all add: decimal_value_def code_def)

lemma zero_padded_read:
  assumes "0 \<le> n" "n < 10 ^ w" "0 < w"
  shows "length (zero_padded w n) = w" "int (decimal_value (zero_padded w n)) = n"
proof -
  obtain v where w: "w = Suc v" using assms(3) by (cases w) auto
  have "nat n < 10 ^ Suc v" using assms(1,2) by (simp add: w nat_less_iff)
  from show_nat_bound [OF this] show "length (zero_padded w n) = w" "int (decimal_value (zero_padded w n)) = n"
    using assms(1) by (simp_all add: json_int_def Let_def w decimal_zeros decimal_value_show_nat)
qed

definition number_at :: "nat \<Rightarrow> nat \<Rightarrow> string \<Rightarrow> int" where
  "number_at k w s = int (decimal_value (take w (drop k s)))"

lemma number_at_in: "length p = k \<Longrightarrow> length x = w \<Longrightarrow> number_at k w (p @ x @ r) = int (decimal_value x)"
  by (simp add: number_at_def)

definition read_moment :: "string \<Rightarrow> int" where
  "read_moment s =
     days_of_date (number_at 0 4 s, number_at 5 2 s, number_at 8 2 s) * day_ticks +
     (number_at 11 2 s * 3600 + number_at 14 2 s * 60 + number_at 17 2 s) * second_ticks"

lemma moment_read_back:
  assumes "0 \<le> t" "t < last_moment"
  shows "read_moment (format_moment t) = t - t mod second_ticks" "length (format_moment t) = 20"
proof -
  define s where s: "s = (t mod day_ticks) div second_ticks"
  have days: "0 \<le> t div day_ticks" "t div day_ticks < 3652059"
    using assms by (simp_all add: last_moment_def day_ticks_def)
  from date_parts [OF days(1)] obtain y m d where ymd: "date_of_days (t div day_ticks) = (y, m, d)" "1 \<le> y"
    "1 \<le> m" "m \<le> 12" "1 \<le> d" "d \<le> 31" "days_of_date (y, m, d) = t div day_ticks"
    "days_before_year y \<le> t div day_ticks" .
  have y: "y \<le> 9999" by (rule last_year [OF ymd(8) days(2)])
  have s_range: "0 \<le> s" "s < 86400" by (simp_all add: s day_ticks_def second_ticks_def)
  define hh mm ss where hms: "hh = s div 3600" "mm = s div 60 mod 60" "ss = s mod 60"
  have bounds: "0 \<le> hh" "hh < 100" "0 \<le> mm" "mm < 100" "0 \<le> ss" "ss < 100" "0 \<le> y" "y < 10000"
    "0 \<le> m" "m < 100" "0 \<le> d" "d < 100"
    using s_range y ymd(2-6) by (simp_all add: hms)
  define a b c e f g where parts: "a = zero_padded 4 y" "b = zero_padded 2 m" "c = zero_padded 2 d"
    "e = zero_padded 2 (hh)" "f = zero_padded 2 (mm)" "g = zero_padded 2 (ss)"
  have written: "format_moment t = a @ ''-'' @ b @ ''-'' @ c @ ''T'' @ e @ '':'' @ f @ '':'' @ g @ ''Z''"
    unfolding format_moment_def Let_def s [symmetric] ymd(1) hms parts by simp
  have len: "length a = 4" "length b = 2" "length c = 2" "length e = 2" "length f = 2" "length g = 2"
    unfolding parts using zero_padded_read(1) [of y 4] zero_padded_read(1) [of m 2] zero_padded_read(1) [of d 2]
      zero_padded_read(1) [of hh 2] zero_padded_read(1) [of mm 2]
      zero_padded_read(1) [of ss 2] bounds
    by (simp_all del: zero_padded.simps)
  have val: "int (decimal_value a) = y" "int (decimal_value b) = m" "int (decimal_value c) = d"
    "int (decimal_value e) = hh" "int (decimal_value f) = mm" "int (decimal_value g) = ss"
    unfolding parts using zero_padded_read(2) [of y 4] zero_padded_read(2) [of m 2] zero_padded_read(2) [of d 2]
      zero_padded_read(2) [of hh 2] zero_padded_read(2) [of mm 2]
      zero_padded_read(2) [of ss 2] bounds
    by (simp_all del: zero_padded.simps)
  show "length (format_moment t) = 20" by (simp add: written len)
  have "number_at 0 4 (format_moment t) = y"
    using number_at_in [of "[]" 0 a 4] len val by (simp add: written)
  moreover have "number_at 5 2 (format_moment t) = m"
    using number_at_in [of "a @ ''-''" 5 b 2] len val by (simp add: written)
  moreover have "number_at 8 2 (format_moment t) = d"
    using number_at_in [of "a @ ''-'' @ b @ ''-''" 8 c 2] len val by (simp add: written)
  moreover have "number_at 11 2 (format_moment t) = hh"
    using number_at_in [of "a @ ''-'' @ b @ ''-'' @ c @ ''T''" 11 e 2] len val by (simp add: written)
  moreover have "number_at 14 2 (format_moment t) = mm"
    using number_at_in [of "a @ ''-'' @ b @ ''-'' @ c @ ''T'' @ e @ '':''" 14 f 2] len val by (simp add: written)
  moreover have "number_at 17 2 (format_moment t) = ss"
    using number_at_in [of "a @ ''-'' @ b @ ''-'' @ c @ ''T'' @ e @ '':'' @ f @ '':''" 17 g 2] len val
    by (simp add: written)
  ultimately have "read_moment (format_moment t) =
      t div day_ticks * day_ticks + (s div 3600 * 3600 + s div 60 mod 60 * 60 + s mod 60) * second_ticks"
    by (simp add: read_moment_def ymd(7) hms)
  also have "s div 3600 * 3600 + s div 60 mod 60 * 60 + s mod 60 = s"
  proof -
    have "s div 3600 = s div 60 div 60" using zdiv_zmult2_eq [of 60 s 60] by simp
    moreover have "s div 60 div 60 * 60 + s div 60 mod 60 = s div 60" "s div 60 * 60 + s mod 60 = s"
      by (rule div_mult_mod_eq)+
    ultimately show ?thesis by linarith
  qed
  also have "s * second_ticks = t mod day_ticks - t mod day_ticks mod second_ticks"
    unfolding s by (simp add: minus_mod_eq_div_mult)
  also have "t mod day_ticks mod second_ticks = t mod second_ticks"
    by (rule mod_mod_cancel) (simp add: day_ticks_def second_ticks_def)
  finally show "read_moment (format_moment t) = t - t mod second_ticks"
    by simp
qed

end
