(* ===== verification/Plan_Props.thy ===== *)
theory Plan_Props
  imports Moment_Facts Broker_Intake "HOL-Library.Multiset"
begin

text \<open>
  What operation plans promise: a key that identifies the intent, times that read back, no
  precondition taken for granted, sizes that are never overstated, and a document that the
  broker accepts exactly when it may execute it.
\<close>


section \<open>A plan that is built\<close>

lemma planned_of_Some: "planned_of s = Some operation \<longleftrightarrow> planned_name operation = s"
  by (cases operation) (auto simp: planned_of_def planned_operations_def)

lemma bounded_int_Inr: "bounded_int v name m = Inr n \<longleftrightarrow> v = Some n \<and> 1 \<le> n \<and> n \<le> m"
  by (auto simp: bounded_int_def split: option.splits if_splits)

lemma moment_in_range_Inr: "moment_in_range t = Inr u \<longleftrightarrow> u = t \<and> 0 \<le> t \<and> t < last_moment"
  by (auto simp: moment_in_range_def)

lemma plan_timestamp_Inr:
  "plan_timestamp v = Inr u \<longleftrightarrow> (\<exists>t. v = Some t \<and> 0 \<le> t \<and> t < last_moment \<and> u = t - t mod second_ticks)"
  by (auto simp: plan_timestamp_def bindE_eq_Inr moment_in_range_Inr split: option.splits)

lemma plan_destination_Inr:
  "plan_destination operation v = Inr d \<longleftrightarrow>
     d = v \<and> (if operation = Plan_move then (\<exists>n. v = Some n \<and> 1 \<le> n \<and> n \<le> max_library_ordinal) else v = None)"
  by (cases "bounded_int v ''destination_library_ordinal'' max_library_ordinal")
    (auto simp: plan_destination_def bounded_int_Inr, auto simp: bounded_int_def split: option.splits if_splits)

definition plan_target_of :: "plan_input \<Rightarrow> plan_target_value" where
  "plan_target_of i = \<lparr>tg_appid = pi_appid i, tg_alias = pi_alias i, tg_machine = pi_machine i,
     tg_destination = pi_destination i\<rparr>"

lemma build_Inr:
  assumes "build_operation_plan sha i = Inr p"
  obtains t where "planned_name (op_operation p) = pi_operation i" "1 \<le> pi_appid i" "pi_appid i \<le> max_plan_appid"
    "plan_key_ok (pi_alias i)" "plan_key_ok (pi_machine i)" "1 \<le> pi_ttl i" "pi_ttl i \<le> max_plan_ttl"
    "pi_generated_at i = Some t" "0 \<le> t" "t - t mod second_ticks + pi_ttl i * second_ticks < last_moment"
    "pi_residual i = None \<or> op_operation p = Plan_uninstall"
    "normalize_preconditions (op_operation p) (pi_preconditions i) = Inr (op_preconditions p)"
    "plan_destination (op_operation p) (pi_destination i) = Inr (pi_destination i)"
    "op_schema p = plan_schema_name" "op_target p = plan_target_of i"
    "op_generated_at p = format_moment (t - t mod second_ticks)"
    "op_expires_at p = format_moment (t - t mod second_ticks + pi_ttl i * second_ticks)"
    "op_idempotency_key p = idempotency_key sha (op_operation p) (plan_target_of i) (op_preconditions p) (pi_ttl i)"
    "op_summary p = summarize_preconditions (op_preconditions p)"
    "op_risks p = plan_risk_list (op_operation p) (pi_residual i)"
    "op_ui_instructions p = ui_instructions (op_operation p) (pi_appid i)"
    "op_references p =
       [(''product_page'', ''https://store.steampowered.com/app/'' @ json_int (pi_appid i) @ ''/''),
        (''support_page'', support_url (op_operation p))]"
    "op_rollback p = rollback_steps (op_operation p)" "op_postconditions p = postcondition_codes (op_operation p)"
  using assms
  by (auto simp: build_operation_plan_def Let_def bindE_eq_Inr bounded_int_Inr plan_timestamp_Inr plan_destination_Inr
      moment_in_range_Inr planned_of_Some plan_target_of_def split: option.splits if_splits)



section \<open>Preconditions\<close>

text \<open>A plan is only ready when every precondition it needs was given and passes: one that nobody
  observed is unknown, and one that does not belong to the operation is refused.\<close>

lemma index_Inr:
  "index_preconditions operation items m = Inr m' \<Longrightarrow>
     distinct (map pn_code items) \<and> (\<forall>i \<in> set items. pn_code i \<in> set (required_preconditions operation) \<and>
       m (pn_code i) = None) \<and> m' = m ++ map_of (map (\<lambda>i. (pn_code i, i)) items)"
proof (induction items arbitrary: m)
  case (Cons i items)
  then have i: "pn_code i \<in> set (required_preconditions operation)" "m (pn_code i) = None"
    and *: "index_preconditions operation items (m(pn_code i \<mapsto> i)) = Inr m'"
    by (auto split: if_splits)
  note IH = Cons.IH [OF *]
  then have new: "pn_code i \<notin> pn_code ` set items" by fastforce
  then have "m(pn_code i \<mapsto> i) ++ map_of (map (\<lambda>i. (pn_code i, i)) items) =
      m ++ map_of (map (\<lambda>i. (pn_code i, i)) (i # items))"
    by (subst map_add_upd_left) (auto simp: dom_map_of_conv_image_fst image_image)
  with IH have "m' = m ++ map_of (map (\<lambda>i. (pn_code i, i)) (i # items))" by metis
  moreover have "distinct (map pn_code (i # items))" "\<forall>j \<in> set (i # items).
      pn_code j \<in> set (required_preconditions operation) \<and> m (pn_code j) = None"
    using IH i new by (auto split: if_splits)
  ultimately show ?case by blast
qed simp

lemma normalize_Inr:
  assumes "normalize_preconditions operation items = Inr ns"
  shows "distinct (map pn_code items)" "pn_code ` set items \<subseteq> set (required_preconditions operation)"
    "map pn_code ns = required_preconditions operation"
    "set ns = set items \<union> default_precondition ` (set (required_preconditions operation) - pn_code ` set items)"
proof -
  let ?m = "map_of (map (\<lambda>i. (pn_code i, i)) items)"
  from assms obtain m where m: "index_preconditions operation items Map.empty = Inr m"
    and ns: "ns = map (\<lambda>c. case m c of Some i \<Rightarrow> i | None \<Rightarrow> default_precondition c) (required_preconditions operation)"
    by (auto simp: normalize_preconditions_def bindE_eq_Inr)
  from index_Inr [OF m] have d: "distinct (map pn_code items)"
    and s: "pn_code ` set items \<subseteq> set (required_preconditions operation)" and m': "m = ?m"
    by auto
  show "distinct (map pn_code items)" "pn_code ` set items \<subseteq> set (required_preconditions operation)"
    by fact+
  have some: "?m c = Some i \<longleftrightarrow> i \<in> set items \<and> pn_code i = c" for c i
    using d by (auto simp: map_of_eq_Some_iff comp_def)
  have none: "?m c = None \<longleftrightarrow> c \<notin> pn_code ` set items" for c
    by (auto simp: map_of_eq_None_iff image_image)
  show "map pn_code ns = required_preconditions operation"
    by (auto simp: ns m' some default_precondition_def intro!: map_idI split: option.splits)
  show "set ns = set items \<union> default_precondition ` (set (required_preconditions operation) - pn_code ` set items)"
  proof (intro equalityI subsetI)
    fix n assume "n \<in> set ns"
    then show "n \<in> set items \<union> default_precondition ` (set (required_preconditions operation) - pn_code ` set items)"
      by (auto simp: ns m' some none split: option.splits)
  next
    fix n assume n: "n \<in> set items \<union> default_precondition ` (set (required_preconditions operation) - pn_code ` set items)"
    then obtain c where "c \<in> set (required_preconditions operation)"
      "(case ?m c of Some i \<Rightarrow> i | None \<Rightarrow> default_precondition c) = n"
    proof (elim UnE imageE)
      assume "n \<in> set items"
      then show thesis using s some [of "pn_code n" n] that [of "pn_code n"] by auto
    next
      fix c assume "n = default_precondition c" "c \<in> set (required_preconditions operation) - pn_code ` set items"
      then show thesis using none [of c] that [of c] by auto
    qed
    then show "n \<in> set ns" by (auto simp: ns m')
  qed
qed

lemma required_distinct: "distinct (required_preconditions operation)"
  by (cases operation) simp_all

text \<open>A plan is ready exactly if every precondition its operation needs was given and passes, and failed
  exactly if one that was given fails.\<close>

theorem plan_takes_nothing_for_granted:
  assumes "build_operation_plan sha i = Inr p"
    and "\<And>item. item \<in> set (pi_preconditions i) \<Longrightarrow> pn_state item \<in> set gate_states"
  shows "(op_summary p = ''all_pass'' \<longleftrightarrow>
      (\<forall>c \<in> set (required_preconditions (op_operation p)).
        \<exists>item \<in> set (pi_preconditions i). pn_code item = c \<and> pn_state item = ''pass'')) \<and>
    (op_summary p = ''has_failure'' \<longleftrightarrow> (\<exists>item \<in> set (pi_preconditions i). pn_state item = ''fail''))"
    (is "(?all \<longleftrightarrow> ?passed) \<and> ?failure")
proof (intro conjI)
  from assms(1) have n: "normalize_preconditions (op_operation p) (pi_preconditions i) = Inr (op_preconditions p)"
    and s: "op_summary p = summarize_preconditions (op_preconditions p)"
    by (auto elim: build_Inr)
  note ns = normalize_Inr [OF n]
  show "op_summary p = ''has_failure'' \<longleftrightarrow> (\<exists>item \<in> set (pi_preconditions i). pn_state item = ''fail'')"
    unfolding s summarize_preconditions_def ns(4) by (auto simp: default_precondition_def)
  show "?all \<longleftrightarrow> ?passed"
  proof
    assume ?all
    then have all: "pn_state n \<noteq> ''fail'' \<and> pn_state n \<noteq> ''unknown''" if "n \<in> set (op_preconditions p)" for n
      using that unfolding s summarize_preconditions_def by (auto split: if_splits)
    have "required_preconditions (op_operation p) = map pn_code (op_preconditions p)" using ns(3) by simp
    show ?passed
    proof
      fix c assume c: "c \<in> set (required_preconditions (op_operation p))"
      have "c \<in> pn_code ` set (pi_preconditions i)"
      proof (rule ccontr)
        assume "c \<notin> pn_code ` set (pi_preconditions i)"
        with c have "default_precondition c \<in> set (op_preconditions p)" unfolding ns(4) by blast
        from all [OF this] show False by (simp add: default_precondition_def)
      qed
      then obtain item where item: "item \<in> set (pi_preconditions i)" "pn_code item = c" by blast
      then have "pn_state item \<in> set gate_states" "item \<in> set (op_preconditions p)"
        using assms(2) ns(4) by auto
      with all item show "\<exists>item \<in> set (pi_preconditions i). pn_code item = c \<and> pn_state item = ''pass''"
        by (auto simp: gate_states_def)
    qed
  next
    assume r: ?passed
    have "pn_state n = ''pass''" if n: "n \<in> set (op_preconditions p)" for n
    proof -
      have "pn_code n \<in> set (required_preconditions (op_operation p))"
        using n ns(3) by (metis image_eqI set_map)
      then obtain item where item: "item \<in> set (pi_preconditions i)" "pn_code item = pn_code n" "pn_state item = ''pass''"
        using r by blast
      then have "n \<in> set (pi_preconditions i)"
        using n unfolding ns(4) by (auto simp: default_precondition_def)
      then have "n = item" using item ns(1) by (auto simp: distinct_map inj_on_def)
      then show ?thesis using item by simp
    qed
    then show ?all unfolding s summarize_preconditions_def by auto
  qed
qed


section \<open>The idempotency key\<close>

text \<open>The payload, as text that can be read from the left.\<close>

definition key_item :: "precondition \<Rightarrow> string" where
  "key_item i = ''{'' @ json_string ''code'' @ '':'' @ json_string (pn_code i) @ '','' @ json_string ''detail_code'' @
     '':'' @ json_string (pn_detail i) @ '','' @ json_string ''state'' @ '':'' @ json_string (pn_state i) @ ''}''"


lemma key_item_inject [simp]: "key_item i @ x = key_item j @ y \<longleftrightarrow> i = j \<and> x = y"
  by (auto simp: key_item_def json_string_inject intro: precondition.equality)






lemma planned_name_inject [simp]: "planned_name a = planned_name b \<longleftrightarrow> a = b"
  by (cases a; cases b) simp_all





section \<open>The times of a plan\<close>

text \<open>The times of a plan read back are the second it was made and the time to live later.\<close>

theorem plan_expires_as_asked:
  assumes "build_operation_plan sha i = Inr p"
  shows "\<exists>t. pi_generated_at i = Some t \<and> read_moment (op_generated_at p) = t - t mod second_ticks \<and>
    read_moment (op_expires_at p) = read_moment (op_generated_at p) + pi_ttl i * second_ticks \<and>
    0 < pi_ttl i \<and> pi_ttl i \<le> 86400"
proof (rule build_Inr [OF assms])
  fix t
  let ?s = "t - t mod second_ticks"
  assume t: "pi_generated_at i = Some t" "0 \<le> t" "?s + pi_ttl i * second_ticks < last_moment"
    "1 \<le> pi_ttl i" "pi_ttl i \<le> max_plan_ttl"
    and op: "op_generated_at p = format_moment ?s" "op_expires_at p = format_moment (?s + pi_ttl i * second_ticks)"
  have s: "0 \<le> ?s" using t(2) by (simp add: minus_mod_eq_div_mult second_ticks_def)
  have whole: "?s mod second_ticks = 0" by (simp add: minus_mod_eq_div_mult)
  then have "(?s + pi_ttl i * second_ticks) mod second_ticks = 0" by simp
  then show ?thesis
    using t op s whole moment_read_back(1) [of ?s] moment_read_back(1) [of "?s + pi_ttl i * second_ticks"]
    by (simp add: max_plan_ttl_def second_ticks_def)
qed



section \<open>The length of a document\<close>







section \<open>The broker's reading of a plan\<close>


















section \<open>What an uninstall leaves behind\<close>

text \<open>The amount of a text, read back.\<close>

definition size_read :: "string \<Rightarrow> int" where
  "size_read s =
     (let n = int (decimal_value (takeWhile is_digit s)); unit_text = dropWhile is_digit s in
      if unit_text = '' bytes'' then n
      else if unit_text = '' MB'' then n * 10 ^ 6
      else (n * 10 + int (decimal_value (takeWhile is_digit (tl unit_text)))) * 10 ^ 8)"

lemma digits_split:
  assumes "0 \<le> n" "rest = c # cs" "\<not> is_digit c"
  shows "takeWhile is_digit (json_int n @ rest) = show_nat (nat n)" "dropWhile is_digit (json_int n @ rest) = rest"
  using assms show_nat_digits [of "nat n"] by (simp_all add: json_int_def takeWhile_append2 dropWhile_append2)

lemma size_read_text:
  assumes "0 \<le> v"
  shows "size_read (size_text v) =
    (if 10 ^ 9 \<le> v then v div 10 ^ 8 * 10 ^ 8 else if 10 ^ 6 \<le> v then v div 10 ^ 6 * 10 ^ 6 else v)"
proof -
  have blank: "\<not> is_digit (CHR '' '')" "\<not> is_digit (CHR ''.'')" by (simp_all add: is_digit_def code_def)
  consider "10 ^ 9 \<le> v" | "v < 10 ^ 9" "10 ^ 6 \<le> v" | "v < 10 ^ 6" by linarith
  then show ?thesis
  proof cases
    case 1
    define a b where ab: "a = v div 10 ^ 8 div 10" "b = v div 10 ^ 8 mod 10"
    have t: "v div 10 ^ 8 = a * 10 + b" unfolding ab by simp
    have "0 \<le> a" "0 \<le> b" using assms by (simp_all add: ab)
    then have "size_read (json_int a @ ''.'' @ json_int b @ '' GB'') = (a * 10 + b) * 10 ^ 8"
      using digits_split [of a "''.'' @ json_int b @ '' GB''"] digits_split [of b "'' GB''"] blank
      by (simp add: size_read_def Let_def decimal_value_show_nat)
    with 1 show ?thesis by (simp only: size_text_def ab [symmetric] t [symmetric] if_True)
  next
    case 2
    then show ?thesis
      using digits_split [of "v div 10 ^ 6" "'' MB''"] assms blank
      by (simp add: size_text_def size_read_def Let_def decimal_value_show_nat)
  next
    case 3
    then show ?thesis
      using digits_split [of v "'' bytes''"] assms blank
      by (simp add: size_text_def size_read_def Let_def decimal_value_show_nat)
  qed
qed

text \<open>What a field holds; a field without a measurement holds nothing.\<close>

definition held :: "int option \<Rightarrow> int" where
  "held v = (case v of None \<Rightarrow> 0 | Some n \<Rightarrow> max 0 n)"

lemma summed_kinds_exact:
  "summed_kinds rows = (sum_list (map (held \<circ> snd) rows), map fst (filter (\<lambda>row. 0 < held (snd row)) rows))"
proof (induction rows)
  case (Cons row rows)
  obtain k v where "row = (k, v)" by (cases row)
  with Cons show ?case by (cases v) (simp_all add: held_def)
qed simp

lemma round_down:
  fixes v k :: int
  assumes "0 < k" "k \<le> v"
  shows "v div k * k \<le> v" "v \<le> 2 * (v div k * k)"
proof -
  have "1 \<le> v div k" using zdiv_mono1 [OF assms(2,1)] assms(1) by simp
  then have "k \<le> v div k * k" using assms(1) by simp
  then show "v div k * k \<le> v" "v \<le> 2 * (v div k * k)"
    using div_mult_mod_eq [of v k] pos_mod_bound [OF assms(1), of v] pos_mod_sign [OF assms(1), of v] by linarith+
qed

lemma make_residual_Inr:
  "make_residual state n kinds = Inr r \<Longrightarrow> r = \<lparr>rm_state = state, rm_total = n, rm_kinds = kinds\<rparr> \<and> 0 \<le> n \<and>
     n \<le> max_residual_bytes \<and> (kinds = [] \<longleftrightarrow> n = 0) \<and> state \<in> set [''measured'', ''partial'']"
  by (auto simp: make_residual_def bindE_eq_Inr split: if_splits)

lemma residual_remains:
  assumes "rm_kinds r \<noteq> []"
  shows "\<exists>prefix rest. residual_risks (Some r) =
    [(''residual_content_remains'', ''medium'', prefix @ size_text (rm_total r) @ rest)]"
  using assms
  by (intro exI [of _ "''Uninstalling does not remove '' @ join '', '' (map residual_label (rm_kinds r)) @
        '', holding '' @ (if rm_state r = ''partial'' then ''at least '' else [])"]
      exI [of _ "''. Removing that is a separate'' @ '' manual step.''"]) (simp add: residual_risks_def)

lemma residual_nothing:
  "rm_kinds r = [] \<Longrightarrow> fst ` set (residual_risks (Some r)) =
     (if rm_state r = ''measured'' then {''residual_content_absent''} else {})"
  by (simp add: residual_risks_def)

text \<open>The risk of an uninstall says that nothing remains exactly if everything was measured and nothing
  found; otherwise it states the amount, never more than was measured and at least half of it.\<close>

theorem residual_never_overstated:
  assumes "residual_summary_of (Some g) = Some r"
  defines "measured \<equiv> held (mg_compatdata g) + held (mg_shadercache g) + held (mg_workshop g)"
  shows "(fst ` set (residual_risks (Some r)) = {''residual_content_absent''} \<longleftrightarrow>
      mg_residual_state g = Some ''measured'' \<and> measured = 0) \<and>
    (fst ` set (residual_risks (Some r)) = {''residual_content_remains''} \<longleftrightarrow> 0 < measured) \<and>
    (\<exists>prefix rest. 0 < measured \<longrightarrow> residual_risks (Some r) = [(''residual_content_remains'', ''medium'',
        prefix @ size_text measured @ rest)]) \<and>
    size_read (size_text measured) \<le> measured \<and> measured \<le> 2 * size_read (size_text measured)"
proof -
  obtain state total_bytes kinds where st: "mg_residual_state g = Some state"
    and k: "summed_kinds (residual_fields g) = (total_bytes, kinds)"
    and m: "make_residual state total_bytes kinds = Inr r"
    using assms(1) by (auto simp: residual_summary_of_def split: option.splits if_splits prod.splits sum.splits)
  from k have total: "total_bytes = measured"
    by (simp add: summed_kinds_exact residual_fields_def measured_def)
  from make_residual_Inr [OF m] total have r: "r = \<lparr>rm_state = state, rm_total = measured, rm_kinds = kinds\<rparr>"
    "0 \<le> measured" "kinds = [] \<longleftrightarrow> measured = 0" by auto
  have "size_read (size_text measured) \<le> measured \<and> measured \<le> 2 * size_read (size_text measured)"
    unfolding size_read_text [OF r(2)] using r(2) round_down [of "10 ^ 8" measured] round_down [of "10 ^ 6" measured] by auto
  moreover have "state = ''measured'' \<longleftrightarrow> mg_residual_state g = Some ''measured''" by (simp add: st)
  ultimately show ?thesis
  proof (cases "kinds = []")
    case True
    with r residual_nothing [of r] \<open>state = _ \<longleftrightarrow> _\<close> \<open>_ \<and> _ \<le> 2 * _\<close> show ?thesis by simp
  next
    case False
    with residual_remains [of r] r obtain prefix rest where "residual_risks (Some r) =
        [(''residual_content_remains'', ''medium'', prefix @ size_text measured @ rest)]" by auto
    with False r \<open>_ \<and> _ \<le> 2 * _\<close> show ?thesis by auto
  qed
qed


section \<open>A plan to install\<close>










end
